(* ===== verification/Prelude.thy ===== *)
theory Prelude
  imports Main "HOL-Library.Word"
begin

text \<open>
  What every component of the development shares: the names of the Go types that the
  service passes around (identifiers, byte slices, instants, addresses), the small
  string functions of the Go library the source calls (\<open>strconv.Itoa\<close>,
  \<open>strings.Join\<close>), and the collections of rules the component proofs use.

  \<^item> \<open>uuid.UUID\<close> is a \<open>[16]byte\<close> array, here a 128-bit word; \<open>uuid.Nil\<close> is zero.
  \<^item> \<open>time.Time\<close> and \<open>time.Duration\<close> are counts of nanoseconds, here \<open>int\<close>.
  \<^item> \<open>[]byte\<close> is a list of 8-bit words, \<open>string\<close> a list of characters (Go's bytes).
  \<^item> \<open>netip.Addr\<close> is a tagged union: the zero value, an IPv4 address, or an IPv6
    address with its zone.
\<close>

named_theorems keeps_rules \<open>how an action keeps a predicate on the world\<close>
named_theorems confined_rules \<open>how an action inside a transaction leaves the committed data alone\<close>
named_theorems ok_dest \<open>what a successful run of an action tells about its parts\<close>
named_theorems redact_defs \<open>the String methods that must not print secrets\<close>

section \<open>Types\<close>

type_synonym uuid = "128 word"
type_synonym bytes = "8 word list"
type_synonym time = int
type_synonym duration = int

abbreviation uuid_nil :: uuid where
  "uuid_nil \<equiv> 0"

datatype ip_addr = No_Addr | IPv4 "32 word" | IPv6 "128 word" string

definition addr_is_valid :: "ip_addr \<Rightarrow> bool" where
  "addr_is_valid a \<longleftrightarrow> a \<noteq> No_Addr"

section \<open>Strings\<close>

text \<open>\<open>strconv.Itoa\<close> and \<open>strconv.FormatUint(_, 10)\<close> on a non-negative number.\<close>

definition digit_char :: "nat \<Rightarrow> char" where
  "digit_char d = char_of (48 + d)"

fun itoa :: "nat \<Rightarrow> string" where
  "itoa n = (if n < 10 then [digit_char n] else itoa (n div 10) @ [digit_char (n mod 10)])"

declare itoa.simps [simp del]

lemma itoa_not_Nil [simp]: "itoa n \<noteq> []"
  by (subst itoa.simps) simp

text \<open>\<open>strings.Join\<close>: the parts with the separator between them.\<close>

fun join_with :: "string \<Rightarrow> string list \<Rightarrow> string" where
  "join_with sep [] = []"
| "join_with sep [x] = x"
| "join_with sep (x # y # ys) = x @ sep @ join_with sep (y # ys)"

definition redacted :: string where
  "redacted = ''***REDACTED***''"

section \<open>Lists used as tables\<close>

text \<open>An update of every row that satisfies a condition, as SQL's \<open>UPDATE\<close> does.\<close>

definition update_where :: "('a \<Rightarrow> bool) \<Rightarrow> ('a \<Rightarrow> 'a) \<Rightarrow> 'a list \<Rightarrow> 'a list" where
  "update_where p f xs = map (\<lambda>x. if p x then f x else x) xs"

lemma update_where_Nil [simp]: "update_where p f [] = []"
  and update_where_Cons [simp]:
    "update_where p f (x # xs) = (if p x then f x else x) # update_where p f xs"
  by (simp_all add: update_where_def)

lemma length_update_where [simp]: "length (update_where p f xs) = length xs"
  by (simp add: update_where_def)

lemma set_update_where:
  "set (update_where p f xs) = {x \<in> set xs. \<not> p x} \<union> f ` {x \<in> set xs. p x}"
  by (auto simp: update_where_def image_def)

lemma map_update_where:
  assumes "\<And>x. k (f x) = k x"
  shows "map k (update_where p f xs) = map k xs"
  using assms by (induction xs) auto

lemma image_update_where:
  assumes "\<And>x. k (f x) = k x"
  shows "k ` set (update_where p f xs) = k ` set xs"
  by (metis assms map_update_where set_map)

lemma find_update_where_same:
  assumes "\<And>x. key (f x) = key x"
  shows "find (\<lambda>x. key x = i) (update_where (\<lambda>x. key x = j) f xs) =
         map_option (\<lambda>x. if key x = j then f x else x) (find (\<lambda>x. key x = i) xs)"
  using assms by (induction xs) auto

lemma find_append:
  "find p (xs @ ys) = (case find p xs of None \<Rightarrow> find p ys | Some x \<Rightarrow> Some x)"
  by (induction xs) auto

lemma find_key_None: "find (\<lambda>x. key x = i) xs = None \<longleftrightarrow> i \<notin> key ` set xs"
  by (auto simp: find_None_iff)

lemma find_key_distinct:
  assumes "distinct (map key xs)" and "x \<in> set xs"
  shows "find (\<lambda>y. key y = key x) xs = Some x"
  using assms by (induction xs) auto

lemma find_SomeD: "find p xs = Some x \<Longrightarrow> x \<in> set xs \<and> p x"
  by (auto simp: find_Some_iff)

end
