(* ===== verification/Go_Errors.thy ===== *)
theory Go_Errors
  imports Prelude
begin

text \<open>
  Error values of the service. A Go \<open>error\<close> is a tree: a sentinel made by
  \<open>errors.New\<close>, or a value that wraps others (\<open>fmt.Errorf\<close> with \<open>%w\<close>,
  \<open>errors.Join\<close>, \<open>errkit.Error\<close>, \<open>errkit.PanicError\<close>). \<open>errors.Is\<close> and
  \<open>errors.AsType\<close> walk that tree. Every sentinel of the source is a constructor of
  \<open>sentinel\<close>, named after its package and variable; errors that the driver, the database
  and other libraries make are \<open>External\<close> values or \<open>Pg_Error\<close> with the SQLSTATE.
\<close>

section \<open>The sentinels\<close>

datatype sentinel =
    Domain_ErrValidation | Domain_ErrNotFound
  | User_ErrIDRequired | User_ErrInvitedBy | User_ErrRoleRequired | User_ErrUnknownRole
  | Invite_ErrIDRequired | Invite_ErrCodeHashRequired | Invite_ErrExpired
  | Invite_ErrAlreadyUsed | Invite_ErrTooManyActive
  | Credential_ErrIDRequired | Credential_ErrExternalIDRequired
  | Credential_ErrPublicKeyRequired | Credential_ErrSignCountRegression
  | Credential_ErrAlreadyRevoked
  | Key_ErrIDRequired | Key_ErrScopeInvalid | Key_ErrWrappedDEKRequired
  | Key_ErrWrapAlgorithmRequired | Key_ErrTooManyWrappedKeys
  | Session_ErrIDRequired | Session_ErrTokenHashRequired | Session_ErrAlreadyRevoked
  | Session_ErrIPAddressRequired
  | App_ErrRootAlreadyExists | App_ErrInviteNotFound | App_ErrCreatorNotFound
  | App_ErrWrappedKeysRequired | App_ErrCredentialNotFound | App_ErrCredentialRevoked
  | App_ErrCredentialCloneSuspected | App_ErrRefreshTokenNotFound
  | App_ErrRefreshTokenInvalid | App_ErrRefreshTokenReuseDetected
  | App_ErrSessionNotFound | App_ErrSessionForbidden
  | Webauthn_ErrUserHandleInvalid | Webauthn_ErrChallengeExpired
  | Crypto_ErrTokenMalformed | Crypto_ErrTokenExpired
  | Http_ErrUnauthenticated | Http_ErrForbidden | Http_ErrClientIPUnavailable
  | Config_ErrPathNotSet | Config_ErrPathNotExist | Logger_ErrInvalidLogLevel
  | Pgx_ErrNoRows | Pgx_ErrTxClosed | Pgx_ErrTxCommitRollback
  | Ogen_ErrSkipServerSecurity | Ogen_ErrSkipClientSecurity

text \<open>The messages the sentinels were made with, one table per \<open>var\<close> block.\<close>

definition domain_messages :: "(sentinel \<times> string) list" where
  "domain_messages =
     [(Domain_ErrValidation, ''domain: validation error''),
      (Domain_ErrNotFound, ''domain: entity not found'')]"

definition user_messages :: "(sentinel \<times> string) list" where
  "user_messages =
     [(User_ErrIDRequired, ''user: id is required''),
      (User_ErrInvitedBy, ''user: invited_by is required for non-root user''),
      (User_ErrRoleRequired, ''user: role is required'')]"

definition role_messages :: "(sentinel \<times> string) list" where
  "role_messages = [(User_ErrUnknownRole, ''user: unknown role'')]"

definition invite_messages :: "(sentinel \<times> string) list" where
  "invite_messages =
     [(Invite_ErrIDRequired, ''invite: id is required''),
      (Invite_ErrCodeHashRequired, ''invite: code hash is required''),
      (Invite_ErrExpired, ''invite: expired''),
      (Invite_ErrAlreadyUsed, ''invite: already used''),
      (Invite_ErrTooManyActive, ''invite: active invite limit exceeded'')]"

definition credential_messages :: "(sentinel \<times> string) list" where
  "credential_messages =
     [(Credential_ErrIDRequired, ''credential: id is required''),
      (Credential_ErrExternalIDRequired, ''credential: external id is required''),
      (Credential_ErrPublicKeyRequired, ''credential: public key is required''),
      (Credential_ErrSignCountRegression, ''credential: sign count regression detected''),
      (Credential_ErrAlreadyRevoked, ''credential: already revoked'')]"

definition key_messages :: "(sentinel \<times> string) list" where
  "key_messages =
     [(Key_ErrIDRequired, ''wrapped_key: id is required''),
      (Key_ErrScopeInvalid, ''wrapped_key: invalid dek scope''),
      (Key_ErrWrappedDEKRequired, ''wrapped_key: wrapped dek is required''),
      (Key_ErrWrapAlgorithmRequired, ''wrapped_key: wrap algorithm is required'')]"

definition key_policy_messages :: "(sentinel \<times> string) list" where
  "key_policy_messages =
     [(Key_ErrTooManyWrappedKeys, ''key: maximum number of wrapped keys exceeded'')]"

definition session_messages :: "(sentinel \<times> string) list" where
  "session_messages =
     [(Session_ErrIDRequired, ''refresh_token: id is required''),
      (Session_ErrTokenHashRequired, ''refresh_token: token hash is required''),
      (Session_ErrAlreadyRevoked, ''refresh_token: already revoked''),
      (Session_ErrIPAddressRequired, ''refresh_token: ip address is required'')]"

definition bootstrap_messages :: "(sentinel \<times> string) list" where
  "bootstrap_messages =
     [(App_ErrRootAlreadyExists, ''application: root user already exists'')]"

definition registration_messages :: "(sentinel \<times> string) list" where
  "registration_messages =
     [(App_ErrInviteNotFound, ''application: invite not found''),
      (App_ErrCreatorNotFound, ''application: invite creator not found''),
      (App_ErrWrappedKeysRequired, ''application: at least one wrapped key is required'')]"

definition login_messages :: "(sentinel \<times> string) list" where
  "login_messages =
     [(App_ErrCredentialNotFound, ''application: credential not found''),
      (App_ErrCredentialRevoked, ''application: credential revoked''),
      (App_ErrCredentialCloneSuspected, ''application: credential clone suspected'')]"

definition refresh_messages :: "(sentinel \<times> string) list" where
  "refresh_messages =
     [(App_ErrRefreshTokenNotFound, ''application: refresh token not found''),
      (App_ErrRefreshTokenInvalid, ''application: refresh token expired or revoked''),
      (App_ErrRefreshTokenReuseDetected, ''application: refresh token reuse detected'')]"

definition revoke_session_messages :: "(sentinel \<times> string) list" where
  "revoke_session_messages =
     [(App_ErrSessionNotFound, ''application: session not found''),
      (App_ErrSessionForbidden, ''application: session belongs to another user'')]"

definition library_messages :: "(sentinel \<times> string) list" where
  "library_messages =
     [(Pgx_ErrNoRows, ''no rows in result set''),
      (Pgx_ErrTxClosed, ''tx is closed''),
      (Pgx_ErrTxCommitRollback, ''commit unexpectedly resulted in rollback''),
      (Ogen_ErrSkipServerSecurity, ''skip server security''),
      (Ogen_ErrSkipClientSecurity, ''skip client security'')]"

definition authenticator_messages :: "(sentinel \<times> string) list" where
  "authenticator_messages =
     [(Webauthn_ErrUserHandleInvalid, ''webauthn: invalid user handle'')]"

definition registrator_messages :: "(sentinel \<times> string) list" where
  "registrator_messages =
     [(Webauthn_ErrChallengeExpired, ''webauthn: challenge expired or invalid'')]"

definition crypto_messages :: "(sentinel \<times> string) list" where
  "crypto_messages =
     [(Crypto_ErrTokenMalformed, ''crypto: challenge token malformed''),
      (Crypto_ErrTokenExpired, ''crypto: challenge token expired'')]"

definition http_messages :: "(sentinel \<times> string) list" where
  "http_messages =
     [(Http_ErrUnauthenticated, ''http: user unauthenticated''),
      (Http_ErrForbidden, ''http: insufficient permissions'')]"

definition http_ip_messages :: "(sentinel \<times> string) list" where
  "http_ip_messages = [(Http_ErrClientIPUnavailable, ''http: client ip unavailable'')]"

definition config_messages :: "(sentinel \<times> string) list" where
  "config_messages =
     [(Config_ErrPathNotSet, ''environment variable is not set''),
      (Config_ErrPathNotExist, ''does not exist'')]"

definition logger_messages :: "(sentinel \<times> string) list" where
  "logger_messages = [(Logger_ErrInvalidLogLevel, ''invalid log level'')]"

definition all_messages :: "(sentinel \<times> string) list" where
  "all_messages =
     domain_messages @ user_messages @ role_messages @ invite_messages @
     credential_messages @ key_messages @ key_policy_messages @ session_messages @
     bootstrap_messages @ registration_messages @ login_messages @ refresh_messages @
     revoke_session_messages @ authenticator_messages @ registrator_messages @
     crypto_messages @ http_messages @ http_ip_messages @ config_messages @ logger_messages @
     library_messages"

lemmas message_defs =
  domain_messages_def user_messages_def role_messages_def invite_messages_def
  credential_messages_def key_messages_def key_policy_messages_def session_messages_def
  bootstrap_messages_def registration_messages_def login_messages_def refresh_messages_def
  revoke_session_messages_def authenticator_messages_def registrator_messages_def
  crypto_messages_def http_messages_def http_ip_messages_def config_messages_def
  logger_messages_def library_messages_def

definition sentinel_text :: "sentinel \<Rightarrow> string" where
  "sentinel_text s = (case map_of all_messages s of Some m \<Rightarrow> m | None \<Rightarrow> [])"

lemma distinct_messages: "distinct (map snd all_messages)"
  by (simp add: all_messages_def message_defs)

lemma all_messages_total: "\<exists>m. map_of all_messages s = Some m"
proof -
  have "s \<in> set (map fst all_messages)"
    by (cases s) (simp_all add: all_messages_def message_defs)
  then show ?thesis by (metis map_of_eq_None_iff not_None_eq set_map)
qed

text \<open>No two sentinels share a message, so a log line names the error it came from.\<close>

lemma sentinel_text_inj:
  assumes eq: "sentinel_text s = sentinel_text t"
  shows "s = t"
proof -
  obtain m n where m: "map_of all_messages s = Some m" and n: "map_of all_messages t = Some n"
    using all_messages_total by blast
  with eq have "m = n" by (simp add: sentinel_text_def)
  moreover have "(s, m) \<in> set all_messages" "(t, n) \<in> set all_messages"
    using m n by (auto dest: map_of_SomeD)
  ultimately show "s = t"
    using distinct_messages by (metis distinct_map inj_on_def prod.inject snd_conv)
qed

section \<open>Error trees\<close>

text \<open>
  \<open>Kit_Error fmt es\<close> is a pointer to an \<open>errkit.Error\<close> whose \<open>ErrorFormat\<close> is nil
  (\<open>None\<close>) or one of the caller's format functions, by a number.
\<close>

datatype err =
    Sentinel sentinel
  | External string
  | Pg_Error string string
  | Wrapped string err
  | Wrapped2 err err
  | Joined "err list"
  | Kit_Error "nat option" "err list"
  | Panic_Error panic_value
and panic_value = Panic_Err err | Panic_Str string | Panic_Other string

text \<open>\<open>errors.Is(e, target)\<close> for a sentinel target: the tree of \<open>e\<close> holds it.\<close>

fun errors_is :: "err \<Rightarrow> sentinel \<Rightarrow> bool"
and panic_is :: "panic_value \<Rightarrow> sentinel \<Rightarrow> bool" where
  "errors_is (Sentinel s) t \<longleftrightarrow> s = t"
| "errors_is (External _) t \<longleftrightarrow> False"
| "errors_is (Pg_Error _ _) t \<longleftrightarrow> False"
| "errors_is (Wrapped _ e) t \<longleftrightarrow> errors_is e t"
| "errors_is (Wrapped2 e f) t \<longleftrightarrow> errors_is e t \<or> errors_is f t"
| "errors_is (Joined es) t \<longleftrightarrow> list_ex (\<lambda>e. errors_is e t) es"
| "errors_is (Kit_Error _ es) t \<longleftrightarrow> list_ex (\<lambda>e. errors_is e t) es"
| "errors_is (Panic_Error v) t \<longleftrightarrow> panic_is v t"
| "panic_is (Panic_Err e) t \<longleftrightarrow> errors_is e t"
| "panic_is (Panic_Str _) t \<longleftrightarrow> False"
| "panic_is (Panic_Other _) t \<longleftrightarrow> False"

section \<open>internal/domain/errors.go\<close>

definition domain_Wrap :: "err \<Rightarrow> err \<Rightarrow> err" where
  "domain_Wrap main_err sub_err = Wrapped2 main_err sub_err"

definition domain_ErrInvalidArgument :: "err \<Rightarrow> err" where
  "domain_ErrInvalidArgument e = domain_Wrap (Sentinel Domain_ErrValidation) e"

text \<open>
  The constructors of the domain wrap every error they return in a deferred function;
  \<open>invalid_argument\<close> is that function over the constructor's result.
\<close>

definition invalid_argument :: "err + 'a \<Rightarrow> err + 'a" where
  "invalid_argument r =
     (case r of Inl e \<Rightarrow> Inl (domain_ErrInvalidArgument e) | Inr x \<Rightarrow> Inr x)"

lemma invalid_argument_Inr_iff [simp]: "invalid_argument r = Inr x \<longleftrightarrow> r = Inr x"
  by (cases r) (auto simp: invalid_argument_def)

lemma invalid_argument_Inl_iff:
  "invalid_argument r = Inl e \<longleftrightarrow> (\<exists>e'. r = Inl e' \<and> e = domain_ErrInvalidArgument e')"
  by (cases r) (auto simp: invalid_argument_def)

lemma errors_is_invalid_argument [simp]:
  "errors_is (domain_ErrInvalidArgument e) t \<longleftrightarrow> t = Domain_ErrValidation \<or> errors_is e t"
  by (auto simp: domain_ErrInvalidArgument_def domain_Wrap_def)

section \<open>Outcomes of a call\<close>

text \<open>
  A Go call returns a value, returns an error, or panics. The value is only read by the
  callers when the error is nil, so an error return carries no value here.
\<close>

datatype 'a outcome = Ok 'a | Err err | Panic panic_value

fun is_ok :: "'a outcome \<Rightarrow> bool" where
  "is_ok (Ok _) = True"
| "is_ok _ = False"

fun of_sum :: "err + 'a \<Rightarrow> 'a outcome" where
  "of_sum (Inl e) = Err e"
| "of_sum (Inr x) = Ok x"

lemma of_sum_Ok_iff [simp]: "of_sum r = Ok x \<longleftrightarrow> r = Inr x"
  by (cases r) auto

lemma of_sum_Err_iff [simp]: "of_sum r = Err e \<longleftrightarrow> r = Inl e"
  by (cases r) auto

lemma of_sum_not_Panic [simp]: "of_sum r \<noteq> Panic v"
  by (cases r) auto

end
