(* ===== verification/Domain_User.thy ===== *)
theory Domain_User
  imports Go_Errors
begin

text \<open>
  Users and roles: \<open>internal/domain/user\<close>. A role is its slug; \<open>user.Unknown\<close> is the zero
  value. A user is the root (no inviter) or was invited by a user. \<open>user.New\<close>,
  \<open>user.NewRoot\<close> and \<open>NextInviteeRole\<close> decide which roles the chain of trust hands out.
\<close>

section \<open>role.go\<close>

datatype role = Role (slug: string)

definition role_Unknown :: role where
  "role_Unknown = Role []"

definition role_Member :: role where
  "role_Member = Role ''member''"

definition role_Admin :: role where
  "role_Admin = Role ''admin''"

definition role_String :: "role \<Rightarrow> string" where
  "role_String r = slug r"

definition RoleFromString :: "string \<Rightarrow> err + role" where
  "RoleFromString s =
     (if s = slug role_Member then Inr role_Member
      else if s = slug role_Admin then Inr role_Admin
      else Inl (Sentinel User_ErrUnknownRole))"

lemmas role_defs = role_Unknown_def role_Member_def role_Admin_def

lemma role_distinct [simp]:
  "role_Member \<noteq> role_Admin" "role_Admin \<noteq> role_Member"
  "role_Unknown \<noteq> role_Member" "role_Member \<noteq> role_Unknown"
  "role_Unknown \<noteq> role_Admin" "role_Admin \<noteq> role_Unknown"
  by (simp_all add: role_defs)

lemma RoleFromString_String:
  "RoleFromString (role_String r) =
     (if r \<in> {role_Member, role_Admin} then Inr r else Inl (Sentinel User_ErrUnknownRole))"
  by (cases r) (auto simp: RoleFromString_def role_String_def role_defs)

lemma RoleFromString_Inr_iff:
  "RoleFromString s = Inr r \<longleftrightarrow> r \<in> {role_Member, role_Admin} \<and> s = role_String r"
  by (auto simp: RoleFromString_def role_String_def role_defs split: if_splits)

lemma RoleFromString_Inl_iff:
  "RoleFromString s = Inl e \<longleftrightarrow>
     s \<notin> {''member'', ''admin''} \<and> e = Sentinel User_ErrUnknownRole"
  by (auto simp: RoleFromString_def role_defs)

section \<open>user.go\<close>

record user =
  user_id :: uuid
  user_role :: role
  user_invited_by :: "uuid option"
  user_created_at :: time

text \<open>
  \<open>user.NewUserID\<close> hands the bytes to \<open>uuid.FromBytes\<close> of the UUID package, which is the
  parameter here.
\<close>

definition NewUserID :: "(bytes \<Rightarrow> err + uuid) \<Rightarrow> bytes \<Rightarrow> err + uuid" where
  "NewUserID from_bytes bs =
     (case from_bytes bs of Inl e \<Rightarrow> Inl e | Inr i \<Rightarrow> Inr i)"

definition user_New :: "uuid \<Rightarrow> role \<Rightarrow> uuid \<Rightarrow> time \<Rightarrow> err + user" where
  "user_New i r invited_by created_at = invalid_argument
     (if i = uuid_nil then Inl (Sentinel User_ErrIDRequired)
      else if r = role_Unknown then Inl (Sentinel User_ErrRoleRequired)
      else if invited_by = uuid_nil then Inl (Sentinel User_ErrInvitedBy)
      else Inr \<lparr>user_id = i, user_role = r, user_invited_by = Some invited_by,
                 user_created_at = created_at\<rparr>)"

definition user_NewRoot :: "uuid \<Rightarrow> time \<Rightarrow> err + user" where
  "user_NewRoot i created_at = invalid_argument
     (if i = uuid_nil then Inl (Sentinel User_ErrIDRequired)
      else Inr \<lparr>user_id = i, user_role = role_Admin, user_invited_by = None,
                 user_created_at = created_at\<rparr>)"

definition user_IsRoot :: "user \<Rightarrow> bool" where
  "user_IsRoot u \<longleftrightarrow> user_invited_by u = None"

definition user_Reconstruct :: "uuid \<Rightarrow> role \<Rightarrow> uuid option \<Rightarrow> time \<Rightarrow> user" where
  "user_Reconstruct i r invited_by created_at =
     \<lparr>user_id = i, user_role = r, user_invited_by = invited_by, user_created_at = created_at\<rparr>"

definition NextInviteeRole :: "user \<Rightarrow> role" where
  "NextInviteeRole u = (if user_IsRoot u then role_Admin else role_Member)"

lemma user_New_Inr_iff:
  "user_New i r p t = Inr u \<longleftrightarrow>
     i \<noteq> uuid_nil \<and> r \<noteq> role_Unknown \<and> p \<noteq> uuid_nil \<and>
     u = \<lparr>user_id = i, user_role = r, user_invited_by = Some p, user_created_at = t\<rparr>"
  by (auto simp: user_New_def)

lemma user_NewRoot_Inr_iff:
  "user_NewRoot i t = Inr u \<longleftrightarrow>
     i \<noteq> uuid_nil \<and>
     u = \<lparr>user_id = i, user_role = role_Admin, user_invited_by = None, user_created_at = t\<rparr>"
  by (auto simp: user_NewRoot_def)

lemma NextInviteeRole_known [simp]: "NextInviteeRole u \<noteq> role_Unknown"
  by (simp add: NextInviteeRole_def)

text \<open>
  What a stored user must satisfy: an identifier, a role that \<open>RoleFromString\<close> reads back,
  and admin rights for the root.
\<close>

definition user_wf :: "user \<Rightarrow> bool" where
  "user_wf u \<longleftrightarrow>
     user_id u \<noteq> uuid_nil \<and> user_role u \<in> {role_Member, role_Admin} \<and>
     (user_IsRoot u \<longrightarrow> user_role u = role_Admin)"

lemma user_NewRoot_wf: "user_NewRoot i t = Inr u \<Longrightarrow> user_wf u"
  by (auto simp: user_NewRoot_Inr_iff user_wf_def user_IsRoot_def)

lemma user_New_invitee_wf: "user_New i (NextInviteeRole c) p t = Inr u \<Longrightarrow> user_wf u"
  by (auto simp: user_New_Inr_iff user_wf_def user_IsRoot_def NextInviteeRole_def)

end
