(* ===== verification/Domain_Invite.thy ===== *)
theory Domain_Invite
  imports Domain_User
begin

text \<open>
  Invites: \<open>internal/domain/invite\<close>. An invite is open until it is redeemed (once) or
  expires; the policy bounds how many open invites a user may hold.
\<close>

section \<open>invite.go\<close>

record invite =
  inv_id :: uuid
  inv_created_by :: uuid
  inv_code_hash :: string
  inv_used_by :: "uuid option"
  inv_used_at :: "time option"
  inv_expires_at :: time
  inv_created_at :: time

definition invite_New ::
  "uuid \<Rightarrow> uuid \<Rightarrow> string \<Rightarrow> duration \<Rightarrow> time \<Rightarrow> err + invite" where
  "invite_New i created_by code_hash ttl now = invalid_argument
     (if i = uuid_nil then Inl (Sentinel Invite_ErrIDRequired)
      else if created_by = uuid_nil then Inl (Sentinel User_ErrIDRequired)
      else if code_hash = [] then Inl (Sentinel Invite_ErrCodeHashRequired)
      else Inr \<lparr>inv_id = i, inv_created_by = created_by, inv_code_hash = code_hash,
                 inv_used_by = None, inv_used_at = None,
                 inv_expires_at = now + ttl, inv_created_at = now\<rparr>)"

definition invite_IsExpired :: "invite \<Rightarrow> time \<Rightarrow> bool" where
  "invite_IsExpired i now \<longleftrightarrow> inv_expires_at i < now"

definition invite_IsUsed :: "invite \<Rightarrow> bool" where
  "invite_IsUsed i \<longleftrightarrow> inv_used_at i \<noteq> None"

definition invite_Redeem :: "invite \<Rightarrow> uuid \<Rightarrow> time \<Rightarrow> err + invite" where
  "invite_Redeem i by_user now =
     (if invite_IsUsed i then Inl (Sentinel Invite_ErrAlreadyUsed)
      else if invite_IsExpired i now then Inl (Sentinel Invite_ErrExpired)
      else Inr (i\<lparr>inv_used_by := Some by_user, inv_used_at := Some now\<rparr>))"

definition invite_Reconstruct ::
  "uuid \<Rightarrow> uuid \<Rightarrow> string \<Rightarrow> uuid option \<Rightarrow> time option \<Rightarrow> time \<Rightarrow> time \<Rightarrow> invite" where
  "invite_Reconstruct i created_by code_hash used_by used_at expires_at created_at =
     \<lparr>inv_id = i, inv_created_by = created_by, inv_code_hash = code_hash,
      inv_used_by = used_by, inv_used_at = used_at,
      inv_expires_at = expires_at, inv_created_at = created_at\<rparr>"

lemma invite_New_Inr_iff:
  "invite_New i c h ttl now = Inr v \<longleftrightarrow>
     i \<noteq> uuid_nil \<and> c \<noteq> uuid_nil \<and> h \<noteq> [] \<and>
     v = \<lparr>inv_id = i, inv_created_by = c, inv_code_hash = h, inv_used_by = None,
          inv_used_at = None, inv_expires_at = now + ttl, inv_created_at = now\<rparr>"
  by (auto simp: invite_New_def)

lemma invite_Redeem_Inr_iff:
  "invite_Redeem i u now = Inr j \<longleftrightarrow>
     inv_used_at i = None \<and> now \<le> inv_expires_at i \<and>
     j = i\<lparr>inv_used_by := Some u, inv_used_at := Some now\<rparr>"
  by (auto simp: invite_Redeem_def invite_IsUsed_def invite_IsExpired_def)

text \<open>The life of one invite: any sequence of redemptions, by anybody at any time.\<close>

fun redeem_all :: "invite \<Rightarrow> (uuid \<times> time) list \<Rightarrow> invite \<times> (uuid \<times> time) list" where
  "redeem_all i [] = (i, [])"
| "redeem_all i ((u, now) # rest) =
     (case invite_Redeem i u now of
        Inl _ \<Rightarrow> redeem_all i rest
      | Inr j \<Rightarrow> (let (k, done) = redeem_all j rest in (k, (u, now) # done)))"

lemma redeem_all_used: "invite_IsUsed i \<Longrightarrow> redeem_all i rs = (i, [])"
  by (induction rs) (auto simp: invite_Redeem_def split: prod.splits)

lemma redeem_all_once: "length (snd (redeem_all i rs)) \<le> 1"
proof (induction i rs rule: redeem_all.induct)
  case (2 i u now rest)
  show ?case
  proof (cases "invite_Redeem i u now")
    case (Inl e)
    with 2 show ?thesis by simp
  next
    case (Inr j)
    then have "invite_IsUsed j" by (auto simp: invite_Redeem_Inr_iff invite_IsUsed_def)
    with Inr show ?thesis by (simp add: redeem_all_used)
  qed
qed simp

section \<open>policy.go\<close>

record invite_policy =
  pol_max_active :: int
  pol_unlimited :: bool

definition invite_NewPolicy :: "int \<Rightarrow> invite_policy" where
  "invite_NewPolicy max_active = \<lparr>pol_max_active = max_active, pol_unlimited = False\<rparr>"

definition NewUnlimitedPolicy :: invite_policy where
  "NewUnlimitedPolicy = \<lparr>pol_max_active = 0, pol_unlimited = True\<rparr>"

definition CanIssue :: "invite_policy \<Rightarrow> int \<Rightarrow> err option" where
  "CanIssue p active_count =
     (if pol_unlimited p then None
      else if active_count \<ge> pol_max_active p then Some (Sentinel Invite_ErrTooManyActive)
      else None)"

lemma CanIssue_NewPolicy [simp]: "CanIssue (invite_NewPolicy m) n = None \<longleftrightarrow> n < m"
  by (simp add: CanIssue_def invite_NewPolicy_def)

lemma CanIssue_unlimited [simp]: "CanIssue NewUnlimitedPolicy n = None"
  by (simp add: CanIssue_def NewUnlimitedPolicy_def)

section \<open>Printing\<close>

text \<open>
  \<open>Invite.String\<close> leaves the code hash out. \<open>uuid.String\<close> and \<open>time.Format\<close> are
  parameters: what they print of the other fields does not matter here.
\<close>

definition invite_String :: "(uuid \<Rightarrow> string) \<Rightarrow> (time \<Rightarrow> string) \<Rightarrow> invite option \<Rightarrow> string" where
  "invite_String uuid_str rfc3339 p =
     (case p of None \<Rightarrow> ''<nil>''
      | Some i \<Rightarrow>
          ''Invite{id: '' @ uuid_str (inv_id i) @
          '', createdBy: '' @ uuid_str (inv_created_by i) @
          '', codeHash: ***REDACTED***'' @
          '', usedBy: '' @ (case inv_used_by i of None \<Rightarrow> ''<nil>'' | Some u \<Rightarrow> uuid_str u) @
          '', expiresAt: '' @ rfc3339 (inv_expires_at i) @
          '', createdAt: '' @ rfc3339 (inv_created_at i) @ ''}'')"

end
