(* ===== verification/Domain_Credential.thy ===== *)
theory Domain_Credential
  imports Domain_User
begin

text \<open>
  WebAuthn credentials: \<open>internal/domain/credential\<close>. The signature counter is a
  \<open>uint32\<close>, kept at its width; \<open>SetSignCount\<close> refuses a counter that does not grow, unless the
  stored counter is still zero.
\<close>

record credential =
  cred_id :: uuid
  cred_external_id :: bytes
  cred_user_id :: uuid
  cred_public_key :: bytes
  cred_sign_count :: "32 word"
  cred_transports :: "string list"
  cred_created_at :: time
  cred_revoked_at :: "time option"

definition credential_New ::
  "uuid \<Rightarrow> bytes \<Rightarrow> uuid \<Rightarrow> bytes \<Rightarrow> string list \<Rightarrow> time \<Rightarrow> err + credential" where
  "credential_New i external_id user public_key transports created_at = invalid_argument
     (if i = uuid_nil then Inl (Sentinel Credential_ErrIDRequired)
      else if external_id = [] then Inl (Sentinel Credential_ErrExternalIDRequired)
      else if user = uuid_nil then Inl (Sentinel User_ErrIDRequired)
      else if public_key = [] then Inl (Sentinel Credential_ErrPublicKeyRequired)
      else Inr \<lparr>cred_id = i, cred_external_id = external_id, cred_user_id = user,
                 cred_public_key = public_key, cred_sign_count = 0,
                 cred_transports = transports, cred_created_at = created_at,
                 cred_revoked_at = None\<rparr>)"

definition credential_IsRevoked :: "credential \<Rightarrow> bool" where
  "credential_IsRevoked c \<longleftrightarrow> cred_revoked_at c \<noteq> None"

definition credential_Revoke :: "credential \<Rightarrow> time \<Rightarrow> err + credential" where
  "credential_Revoke c now =
     (if cred_revoked_at c \<noteq> None then Inl (Sentinel Credential_ErrAlreadyRevoked)
      else Inr (c\<lparr>cred_revoked_at := Some now\<rparr>))"

definition SetSignCount :: "credential \<Rightarrow> 32 word \<Rightarrow> err + credential" where
  "SetSignCount c n =
     (if n \<le> cred_sign_count c \<and> cred_sign_count c \<noteq> 0
      then Inl (Sentinel Credential_ErrSignCountRegression)
      else Inr (c\<lparr>cred_sign_count := n\<rparr>))"

definition credential_Reconstruct ::
  "uuid \<Rightarrow> bytes \<Rightarrow> uuid \<Rightarrow> bytes \<Rightarrow> 32 word \<Rightarrow> string list \<Rightarrow> time \<Rightarrow> time option \<Rightarrow>
   credential" where
  "credential_Reconstruct i external_id user public_key sign_count transports created_at
     revoked_at =
     \<lparr>cred_id = i, cred_external_id = external_id, cred_user_id = user,
      cred_public_key = public_key, cred_sign_count = sign_count,
      cred_transports = transports, cred_created_at = created_at,
      cred_revoked_at = revoked_at\<rparr>"

definition credential_String ::
  "(uuid \<Rightarrow> string) \<Rightarrow> (time \<Rightarrow> string) \<Rightarrow> credential option \<Rightarrow> string" where
  "credential_String uuid_str rfc3339 cred =
     (case cred of None \<Rightarrow> ''<nil>''
      | Some c \<Rightarrow>
          ''Credential{id: '' @ uuid_str (cred_id c) @
          '', externalID: ***REDACTED***'' @
          '', userID: '' @ uuid_str (cred_user_id c) @
          '', publicKey: ***REDACTED***'' @
          '', signCount: '' @ itoa (unat (cred_sign_count c)) @
          '', transports: ['' @ join_with '' '' (cred_transports c) @ '']'' @
          '', createdAt: '' @ rfc3339 (cred_created_at c) @ ''}'')"

lemma credential_New_Inr_iff:
  "credential_New i x u k ts t = Inr c \<longleftrightarrow>
     i \<noteq> uuid_nil \<and> x \<noteq> [] \<and> u \<noteq> uuid_nil \<and> k \<noteq> [] \<and>
     c = \<lparr>cred_id = i, cred_external_id = x, cred_user_id = u, cred_public_key = k,
          cred_sign_count = 0, cred_transports = ts, cred_created_at = t,
          cred_revoked_at = None\<rparr>"
  by (auto simp: credential_New_def)

lemma credential_Revoke_Inr_iff:
  "credential_Revoke c now = Inr d \<longleftrightarrow>
     cred_revoked_at c = None \<and> d = c\<lparr>cred_revoked_at := Some now\<rparr>"
  by (auto simp: credential_Revoke_def)

lemma SetSignCount_Inr_iff:
  "SetSignCount c n = Inr d \<longleftrightarrow>
     (cred_sign_count c = 0 \<or> cred_sign_count c < n) \<and> d = c\<lparr>cred_sign_count := n\<rparr>"
  by (auto simp: SetSignCount_def)

lemma SetSignCount_Inl_iff:
  "SetSignCount c n = Inl e \<longleftrightarrow>
     n \<le> cred_sign_count c \<and> cred_sign_count c \<noteq> 0 \<and>
     e = Sentinel Credential_ErrSignCountRegression"
  by (auto simp: SetSignCount_def)

text \<open>
  A run of accepted counters: \<open>Some\<close> with the last credential when every call is accepted.
\<close>

fun accept_counts :: "credential \<Rightarrow> 32 word list \<Rightarrow> credential option" where
  "accept_counts c [] = Some c"
| "accept_counts c (n # ns) =
     (case SetSignCount c n of Inl _ \<Rightarrow> None | Inr d \<Rightarrow> accept_counts d ns)"

lemma accept_counts_sorted:
  assumes "accept_counts c ns = Some d" and "cred_sign_count c \<noteq> 0"
  shows "sorted_wrt (<) (cred_sign_count c # ns) \<and> cred_sign_count d = last (cred_sign_count c # ns)"
  using assms
proof (induction ns arbitrary: c)
  case Nil
  then show ?case by simp
next
  case (Cons n ns)
  from Cons.prems obtain e where e: "SetSignCount c n = Inr e" and rest: "accept_counts e ns = Some d"
    by (auto split: sum.splits)
  from e Cons.prems(2) have less: "cred_sign_count c < n" and cnt: "cred_sign_count e = n"
    by (auto simp: SetSignCount_Inr_iff)
  then have "cred_sign_count e \<noteq> 0" by auto
  from Cons.IH [OF rest this] less cnt show ?case
    by (auto intro: less_trans)
qed

end
