(* ===== verification/Domain_Session.thy ===== *)
theory Domain_Session
  imports Domain_User
begin

text \<open>
  Refresh-token sessions: \<open>internal/domain/session\<close>. A session is valid until it is
  revoked or its expiry is reached; rotation makes a successor with the expiry of the old
  session, so a chain of rotations never outlives the login it started from.
\<close>

record session =
  ses_id :: uuid
  ses_user_id :: uuid
  ses_token_hash :: string
  ses_device_info :: string
  ses_ip_address :: ip_addr
  ses_expires_at :: time
  ses_revoked_at :: "time option"
  ses_created_at :: time

definition session_New ::
  "uuid \<Rightarrow> uuid \<Rightarrow> string \<Rightarrow> string \<Rightarrow> ip_addr \<Rightarrow> duration \<Rightarrow> time \<Rightarrow> err + session" where
  "session_New i user token_hash device_info ip_address ttl now = invalid_argument
     (if i = uuid_nil then Inl (Sentinel Session_ErrIDRequired)
      else if user = uuid_nil then Inl (Sentinel User_ErrIDRequired)
      else if token_hash = [] then Inl (Sentinel Session_ErrTokenHashRequired)
      else if \<not> addr_is_valid ip_address then Inl (Sentinel Session_ErrIPAddressRequired)
      else Inr \<lparr>ses_id = i, ses_user_id = user, ses_token_hash = token_hash,
                 ses_device_info = device_info, ses_ip_address = ip_address,
                 ses_expires_at = now + ttl, ses_revoked_at = None, ses_created_at = now\<rparr>)"

definition session_IsRevoked :: "session \<Rightarrow> bool" where
  "session_IsRevoked t \<longleftrightarrow> ses_revoked_at t \<noteq> None"

definition session_IsValid :: "session \<Rightarrow> time \<Rightarrow> bool" where
  "session_IsValid t now \<longleftrightarrow> ses_revoked_at t = None \<and> now < ses_expires_at t"

definition session_Revoke :: "session \<Rightarrow> time \<Rightarrow> err + session" where
  "session_Revoke t now =
     (if ses_revoked_at t \<noteq> None then Inl (Sentinel Session_ErrAlreadyRevoked)
      else Inr (t\<lparr>ses_revoked_at := Some now\<rparr>))"

definition session_Rotate :: "session \<Rightarrow> uuid \<Rightarrow> string \<Rightarrow> time \<Rightarrow> err + session" where
  "session_Rotate t i token_hash now = invalid_argument
     (if i = uuid_nil then Inl (Sentinel Session_ErrIDRequired)
      else if token_hash = [] then Inl (Sentinel Session_ErrTokenHashRequired)
      else Inr \<lparr>ses_id = i, ses_user_id = ses_user_id t, ses_token_hash = token_hash,
                 ses_device_info = ses_device_info t, ses_ip_address = ses_ip_address t,
                 ses_expires_at = ses_expires_at t, ses_revoked_at = None,
                 ses_created_at = now\<rparr>)"

definition session_Reconstruct ::
  "uuid \<Rightarrow> uuid \<Rightarrow> string \<Rightarrow> string \<Rightarrow> ip_addr \<Rightarrow> time \<Rightarrow> time option \<Rightarrow> time \<Rightarrow> session" where
  "session_Reconstruct i user token_hash device_info ip_address expires_at revoked_at
     created_at =
     \<lparr>ses_id = i, ses_user_id = user, ses_token_hash = token_hash,
      ses_device_info = device_info, ses_ip_address = ip_address,
      ses_expires_at = expires_at, ses_revoked_at = revoked_at, ses_created_at = created_at\<rparr>"

definition session_String ::
  "(uuid \<Rightarrow> string) \<Rightarrow> (ip_addr \<Rightarrow> string) \<Rightarrow> (time \<Rightarrow> string) \<Rightarrow> session option \<Rightarrow> string" where
  "session_String uuid_str ip_str rfc3339 ses =
     (case ses of None \<Rightarrow> ''<nil>''
      | Some t \<Rightarrow>
          ''RefreshToken{id: '' @ uuid_str (ses_id t) @
          '', userID: '' @ uuid_str (ses_user_id t) @
          '', tokenHash: ***REDACTED***'' @
          '', deviceInfo: '' @ ses_device_info t @
          '', ipAddress: '' @ ip_str (ses_ip_address t) @
          '', expiresAt: '' @ rfc3339 (ses_expires_at t) @
          '', revokedAt: '' @
             (case ses_revoked_at t of None \<Rightarrow> ''<nil>'' | Some r \<Rightarrow> rfc3339 r) @
          '', createdAt: '' @ rfc3339 (ses_created_at t) @ ''}'')"

lemma session_New_Inr_iff:
  "session_New i u h d ip ttl now = Inr t \<longleftrightarrow>
     i \<noteq> uuid_nil \<and> u \<noteq> uuid_nil \<and> h \<noteq> [] \<and> addr_is_valid ip \<and>
     t = \<lparr>ses_id = i, ses_user_id = u, ses_token_hash = h, ses_device_info = d,
          ses_ip_address = ip, ses_expires_at = now + ttl, ses_revoked_at = None,
          ses_created_at = now\<rparr>"
  by (auto simp: session_New_def)

lemma session_Revoke_Inr_iff:
  "session_Revoke t now = Inr u \<longleftrightarrow>
     ses_revoked_at t = None \<and> u = t\<lparr>ses_revoked_at := Some now\<rparr>"
  by (auto simp: session_Revoke_def)

lemma session_Revoke_Inl_iff:
  "session_Revoke t now = Inl e \<longleftrightarrow>
     ses_revoked_at t \<noteq> None \<and> e = Sentinel Session_ErrAlreadyRevoked"
  by (auto simp: session_Revoke_def)

lemma session_Rotate_Inr_iff:
  "session_Rotate t i h now = Inr u \<longleftrightarrow>
     i \<noteq> uuid_nil \<and> h \<noteq> [] \<and>
     u = t\<lparr>ses_id := i, ses_token_hash := h, ses_revoked_at := None, ses_created_at := now\<rparr>"
  by (auto simp: session_Rotate_def)

text \<open>
  A chain of rotations, as the refresh use case makes them: every link is valid at the
  moment it is rotated, is revoked, and hands over to its successor.
\<close>

inductive rotated_from :: "session \<Rightarrow> session \<Rightarrow> bool" where
  start: "rotated_from t t"
| rotate: "rotated_from t u \<Longrightarrow> session_IsValid u now \<Longrightarrow> session_Rotate u i h now = Inr v \<Longrightarrow>
     rotated_from t v"

lemma rotated_from_frame:
  assumes "rotated_from t u"
  shows "ses_expires_at u = ses_expires_at t \<and> ses_user_id u = ses_user_id t \<and>
         ses_device_info u = ses_device_info t \<and> ses_ip_address u = ses_ip_address t"
  using assms by induction (auto simp: session_Rotate_Inr_iff)

lemma rotated_from_created:
  assumes "rotated_from t u" and "u \<noteq> t"
  shows "ses_created_at u < ses_expires_at t"
  using assms
proof cases
  case start
  with assms show ?thesis by simp
next
  case (rotate v now i h)
  then have "ses_created_at u = now" and "now < ses_expires_at v"
    by (auto simp: session_Rotate_Inr_iff session_IsValid_def)
  with rotate rotated_from_frame [of t v] show ?thesis by simp
qed

end
