(* ===== verification/Domain_Key.thy ===== *)
theory Domain_Key
  imports Domain_User
begin

text \<open>
  Wrapped data-encryption keys: \<open>internal/domain/key\<close>. A scope is a byte with two named
  values; the service stores the wrapped key as it came and never opens it.
\<close>

section \<open>key.go\<close>

type_synonym scope = "8 word"

definition ScopeMain :: scope where
  "ScopeMain = 0"

definition ScopeDecoy :: scope where
  "ScopeDecoy = 1"

definition ScopeToString :: "scope \<Rightarrow> string" where
  "ScopeToString s = (if s = ScopeMain then ''main'' else ''decoy'')"

definition ScopeFromString :: "string \<Rightarrow> scope" where
  "ScopeFromString s = (if s = ''main'' then ScopeMain else ScopeDecoy)"

definition scope_Valid :: "scope \<Rightarrow> bool" where
  "scope_Valid s \<longleftrightarrow> s = ScopeMain \<or> s = ScopeDecoy"

record wrapped_key =
  wk_id :: uuid
  wk_user_id :: uuid
  wk_credential_id :: uuid
  wk_scope :: scope
  wk_wrapped_dek :: bytes
  wk_wrap_algorithm :: string
  wk_created_at :: time

definition key_New ::
  "uuid \<Rightarrow> uuid \<Rightarrow> uuid \<Rightarrow> scope \<Rightarrow> bytes \<Rightarrow> string \<Rightarrow> time \<Rightarrow> err + wrapped_key" where
  "key_New i user credential scope wrapped_dek wrap_algorithm created_at = invalid_argument
     (if i = uuid_nil then Inl (Sentinel Key_ErrIDRequired)
      else if user = uuid_nil then Inl (Sentinel User_ErrIDRequired)
      else if credential = uuid_nil then Inl (Sentinel User_ErrIDRequired)
      else if \<not> scope_Valid scope then Inl (Sentinel Key_ErrScopeInvalid)
      else if wrapped_dek = [] then Inl (Sentinel Key_ErrWrappedDEKRequired)
      else if wrap_algorithm = [] then Inl (Sentinel Key_ErrWrapAlgorithmRequired)
      else Inr \<lparr>wk_id = i, wk_user_id = user, wk_credential_id = credential,
                 wk_scope = scope, wk_wrapped_dek = wrapped_dek,
                 wk_wrap_algorithm = wrap_algorithm, wk_created_at = created_at\<rparr>)"

definition key_Reconstruct ::
  "uuid \<Rightarrow> uuid \<Rightarrow> uuid \<Rightarrow> scope \<Rightarrow> bytes \<Rightarrow> string \<Rightarrow> time \<Rightarrow> wrapped_key" where
  "key_Reconstruct i user credential scope wrapped_dek wrap_algorithm created_at =
     \<lparr>wk_id = i, wk_user_id = user, wk_credential_id = credential, wk_scope = scope,
      wk_wrapped_dek = wrapped_dek, wk_wrap_algorithm = wrap_algorithm,
      wk_created_at = created_at\<rparr>"

definition wrapped_key_String :: "(uuid \<Rightarrow> string) \<Rightarrow> wrapped_key option \<Rightarrow> string" where
  "wrapped_key_String uuid_str wk =
     (case wk of None \<Rightarrow> ''<nil>''
      | Some k \<Rightarrow>
          ''WrappedKey{id: '' @ uuid_str (wk_id k) @
          '', userID: '' @ uuid_str (wk_user_id k) @
          '', credentialID: '' @ uuid_str (wk_credential_id k) @
          '', scope: '' @ itoa (unat (wk_scope k)) @
          '', wrappedDEK: ***REDACTED***'' @
          '', wrapAlgorithm: '' @ wk_wrap_algorithm k @ ''}'')"

lemmas scope_defs = ScopeMain_def ScopeDecoy_def

lemma ScopeFromString_ToString: "scope_Valid s \<Longrightarrow> ScopeFromString (ScopeToString s) = s"
  by (auto simp: scope_Valid_def ScopeFromString_def ScopeToString_def scope_defs)

lemma ScopeToString_FromString:
  "s \<in> {''main'', ''decoy''} \<Longrightarrow> ScopeToString (ScopeFromString s) = s"
  by (auto simp: ScopeFromString_def ScopeToString_def scope_defs)

lemma scope_Valid_FromString [simp]: "scope_Valid (ScopeFromString s)"
  by (simp add: scope_Valid_def ScopeFromString_def)

lemma key_New_Inr_iff:
  "key_New i u c s d a t = Inr k \<longleftrightarrow>
     i \<noteq> uuid_nil \<and> u \<noteq> uuid_nil \<and> c \<noteq> uuid_nil \<and> scope_Valid s \<and> d \<noteq> [] \<and> a \<noteq> [] \<and>
     k = \<lparr>wk_id = i, wk_user_id = u, wk_credential_id = c, wk_scope = s, wk_wrapped_dek = d,
          wk_wrap_algorithm = a, wk_created_at = t\<rparr>"
  by (auto simp: key_New_def)

section \<open>policy.go\<close>

record key_policy =
  max_wrapped_keys :: int

definition key_NewPolicy :: "int \<Rightarrow> key_policy" where
  "key_NewPolicy m = \<lparr>max_wrapped_keys = m\<rparr>"

definition ValidateCount :: "key_policy \<Rightarrow> int \<Rightarrow> err option" where
  "ValidateCount p count =
     (if count > max_wrapped_keys p then Some (Sentinel Key_ErrTooManyWrappedKeys) else None)"

end
