(* ===== verification/Storage_Db.thy ===== *)
theory Storage_Db
  imports Domain_Invite Domain_Credential Domain_Session Domain_Key
begin

text \<open>
  The PostgreSQL schema (\<open>internal/infrastructure/storage/schema.sql\<close> and its migrations)
  and the queries of \<open>internal/infrastructure/storage/pg\<close>. A table is the list of its rows
  in insertion order. A statement is a function from the database to an error or a result
  and the new database; a statement that fails changes nothing. The primary keys, unique
  indexes, enum types and foreign keys of the schema are the checks of the statements that
  insert and update; no constraint of the schema is DEFERRABLE, so each is checked by the
  statement itself. Instants are kept at full resolution.
\<close>

section \<open>Rows (pg/models.go)\<close>

record pg_user =
  pgu_id :: uuid
  pgu_role :: string
  pgu_invited_by :: "uuid option"
  pgu_created_at :: time

record pg_credential =
  pgc_id :: uuid
  pgc_external_id :: bytes
  pgc_user_id :: uuid
  pgc_public_key :: bytes
  pgc_sign_count :: "32 word"
  pgc_transports :: "string list"
  pgc_created_at :: time
  pgc_revoked_at :: "time option"

record pg_invite =
  pgi_id :: uuid
  pgi_created_by :: uuid
  pgi_code_hash :: string
  pgi_used_by :: "uuid option"
  pgi_used_at :: "time option"
  pgi_expires_at :: time
  pgi_created_at :: time

record pg_session =
  pgs_id :: uuid
  pgs_user_id :: uuid
  pgs_token_hash :: string
  pgs_device_info :: string
  pgs_ip_address :: ip_addr
  pgs_expires_at :: time
  pgs_revoked_at :: "time option"
  pgs_created_at :: time

record pg_wrapped_key =
  pgk_id :: uuid
  pgk_user_id :: uuid
  pgk_credential_id :: uuid
  pgk_scope :: string
  pgk_wrapped_dek :: bytes
  pgk_wrap_algorithm :: string
  pgk_created_at :: time

record database =
  users :: "pg_user list"
  credentials :: "pg_credential list"
  invites :: "pg_invite list"
  sessions :: "pg_session list"
  wrapped_keys :: "pg_wrapped_key list"

definition empty_db :: database where
  "empty_db = \<lparr>users = [], credentials = [], invites = [], sessions = [], wrapped_keys = []\<rparr>"

text \<open>\<open>UserRole.Scan\<close> and \<open>WrappedKeyScope.Scan\<close>: the column's text as it is.\<close>

definition UserRoleMember :: string where
  "UserRoleMember = ''member''"

definition UserRoleAdmin :: string where
  "UserRoleAdmin = ''admin''"

definition WrappedKeyScopeMain :: string where
  "WrappedKeyScopeMain = ''main''"

definition WrappedKeyScopeDecoy :: string where
  "WrappedKeyScopeDecoy = ''decoy''"

lemmas pg_enum_defs =
  UserRoleMember_def UserRoleAdmin_def WrappedKeyScopeMain_def WrappedKeyScopeDecoy_def

section \<open>Constraints (schema.sql)\<close>

definition unique_violation :: "string \<Rightarrow> err" where
  "unique_violation constraint = Pg_Error ''23505'' constraint"

definition foreign_key_violation :: "string \<Rightarrow> err" where
  "foreign_key_violation constraint = Pg_Error ''23503'' constraint"

definition invalid_enum :: "string \<Rightarrow> err" where
  "invalid_enum typ = Pg_Error ''22P02'' typ"

abbreviation user_ids :: "database \<Rightarrow> uuid set" where
  "user_ids d \<equiv> pgu_id ` set (users d)"

abbreviation credential_ids :: "database \<Rightarrow> uuid set" where
  "credential_ids d \<equiv> pgc_id ` set (credentials d)"

text \<open>
  Every statement that writes keeps what the schema promises: keys are unique, the root is
  unique, references point to rows. The rows of \<open>users\<close> come in insertion order, and
  nothing updates or deletes them.
\<close>

definition users_ok :: "database \<Rightarrow> bool" where
  "users_ok d \<longleftrightarrow>
     distinct (map pgu_id (users d)) \<and>
     length (filter (\<lambda>u. pgu_invited_by u = None) (users d)) \<le> 1 \<and>
     (\<forall>u \<in> set (users d). pgu_role u \<in> {UserRoleMember, UserRoleAdmin} \<and>
        (\<forall>p. pgu_invited_by u = Some p \<longrightarrow> p \<in> user_ids d))"

definition credentials_ok :: "database \<Rightarrow> bool" where
  "credentials_ok d \<longleftrightarrow>
     distinct (map pgc_id (credentials d)) \<and>
     distinct (map pgc_external_id (credentials d)) \<and>
     (\<forall>c \<in> set (credentials d). pgc_user_id c \<in> user_ids d)"

definition invites_ok :: "database \<Rightarrow> bool" where
  "invites_ok d \<longleftrightarrow>
     distinct (map pgi_id (invites d)) \<and>
     distinct (map pgi_code_hash (invites d)) \<and>
     (\<forall>i \<in> set (invites d). pgi_created_by i \<in> user_ids d \<and>
        (\<forall>u. pgi_used_by i = Some u \<longrightarrow> u \<in> user_ids d))"

definition sessions_ok :: "database \<Rightarrow> bool" where
  "sessions_ok d \<longleftrightarrow>
     distinct (map pgs_id (sessions d)) \<and>
     distinct (map pgs_token_hash (sessions d)) \<and>
     (\<forall>s \<in> set (sessions d). pgs_user_id s \<in> user_ids d)"

definition wrapped_keys_ok :: "database \<Rightarrow> bool" where
  "wrapped_keys_ok d \<longleftrightarrow>
     distinct (map pgk_id (wrapped_keys d)) \<and>
     distinct (map (\<lambda>k. (pgk_credential_id k, pgk_scope k)) (wrapped_keys d)) \<and>
     (\<forall>k \<in> set (wrapped_keys d). pgk_user_id k \<in> user_ids d \<and>
        pgk_credential_id k \<in> credential_ids d \<and>
        pgk_scope k \<in> {WrappedKeyScopeMain, WrappedKeyScopeDecoy})"

definition db_ok :: "database \<Rightarrow> bool" where
  "db_ok d \<longleftrightarrow> users_ok d \<and> credentials_ok d \<and> invites_ok d \<and> sessions_ok d \<and> wrapped_keys_ok d"

lemmas tables_ok_defs =
  users_ok_def credentials_ok_def invites_ok_def sessions_ok_def wrapped_keys_ok_def

lemma db_ok_empty [simp]: "db_ok empty_db"
  by (simp add: db_ok_def tables_ok_defs empty_db_def)

section \<open>Statements on users\<close>

definition SaveUser :: "pg_user \<Rightarrow> database \<Rightarrow> err + unit \<times> database" where
  "SaveUser r d =
     (if pgu_role r \<notin> {UserRoleMember, UserRoleAdmin} then Inl (invalid_enum ''user_role'')
      else if pgu_id r \<in> user_ids d then Inl (unique_violation ''users_pkey'')
      else if pgu_invited_by r = None \<and> (\<exists>u \<in> set (users d). pgu_invited_by u = None)
      then Inl (unique_violation ''idx_users_single_root'')
      else if (case pgu_invited_by r of None \<Rightarrow> False
               | Some p \<Rightarrow> p \<notin> insert (pgu_id r) (user_ids d))
      then Inl (foreign_key_violation ''users_invited_by_fkey'')
      else Inr ((), d\<lparr>users := users d @ [r]\<rparr>))"

definition FindRootUser :: "database \<Rightarrow> err + pg_user option \<times> database" where
  "FindRootUser d = Inr (find (\<lambda>u. pgu_invited_by u = None) (users d), d)"

definition FindUserByID :: "uuid \<Rightarrow> database \<Rightarrow> err + pg_user option \<times> database" where
  "FindUserByID i d = Inr (find (\<lambda>u. pgu_id u = i) (users d), d)"

text \<open>
  The recursive query of \<open>ListDescendantUserIDs\<close>: the working table starts with the rows of
  the root, and each round joins the users invited by the rows of the last round. \<open>UNION
  ALL\<close> keeps duplicates. The rounds are the recursion here; the first argument bounds their
  number, and \<open>None\<close> is a query that has not ended within the bound.
\<close>

definition invitees :: "pg_user list \<Rightarrow> uuid list \<Rightarrow> uuid list" where
  "invitees us level =
     concat (map (\<lambda>u. concat (map (\<lambda>c. if pgu_invited_by u = Some c then [pgu_id u] else [])
                                 level)) us)"

fun chain_rounds :: "nat \<Rightarrow> pg_user list \<Rightarrow> uuid list \<Rightarrow> uuid list option" where
  "chain_rounds n us [] = Some []"
| "chain_rounds 0 us (x # xs) = None"
| "chain_rounds (Suc n) us (x # xs) =
     map_option (\<lambda>rest. (x # xs) @ rest) (chain_rounds n us (invitees us (x # xs)))"

definition descendant_ids :: "uuid \<Rightarrow> database \<Rightarrow> uuid list option" where
  "descendant_ids root d =
     chain_rounds (Suc (length (users d))) (users d)
       (map pgu_id (filter (\<lambda>u. pgu_id u = root) (users d)))"

definition ListDescendantUserIDs :: "uuid \<Rightarrow> database \<Rightarrow> err + uuid list \<times> database" where
  "ListDescendantUserIDs root d =
     (case descendant_ids root d of
        None \<Rightarrow> Inl (Pg_Error ''53400'' ''compromised_chain'')
      | Some ids \<Rightarrow> Inr (ids, d))"

section \<open>Statements on credentials\<close>

definition FindCredentialByExternalID ::
  "bytes \<Rightarrow> database \<Rightarrow> err + pg_credential option \<times> database" where
  "FindCredentialByExternalID x d = Inr (find (\<lambda>c. pgc_external_id c = x) (credentials d), d)"

definition ListCredentialsByUserID ::
  "uuid \<Rightarrow> database \<Rightarrow> err + pg_credential list \<times> database" where
  "ListCredentialsByUserID u d =
     Inr (sort_key pgc_created_at (filter (\<lambda>c. pgc_user_id c = u) (credentials d)), d)"

text \<open>
  \<open>INSERT ... ON CONFLICT (id) DO UPDATE\<close>: the row with this identifier gets the new counter
  and revocation and keeps the rest; without one the row is inserted, and only then do the
  other constraints matter.
\<close>

definition SaveCredential :: "pg_credential \<Rightarrow> database \<Rightarrow> err + unit \<times> database" where
  "SaveCredential r d =
     (if pgc_id r \<in> credential_ids d
      then Inr ((), d\<lparr>credentials := update_where (\<lambda>c. pgc_id c = pgc_id r)
             (\<lambda>c. c\<lparr>pgc_sign_count := pgc_sign_count r, pgc_revoked_at := pgc_revoked_at r\<rparr>)
             (credentials d)\<rparr>)
      else if pgc_external_id r \<in> pgc_external_id ` set (credentials d)
      then Inl (unique_violation ''idx_credentials_external_id'')
      else if pgc_user_id r \<notin> user_ids d
      then Inl (foreign_key_violation ''credentials_user_id_fkey'')
      else Inr ((), d\<lparr>credentials := credentials d @ [r]\<rparr>))"

section \<open>Statements on invites\<close>

definition CountActiveInvitesByUser :: "uuid \<Rightarrow> time \<Rightarrow> database \<Rightarrow> err + int \<times> database" where
  "CountActiveInvitesByUser u now d =
     Inr (int (length (filter (\<lambda>i. pgi_created_by i = u \<and> pgi_used_at i = None \<and>
                                   now < pgi_expires_at i) (invites d))), d)"

definition LockUserByID :: "string \<Rightarrow> database \<Rightarrow> err + unit \<times> database" where
  "LockUserByID u d = Inr ((), d)"

definition FindInviteByCodeHash :: "string \<Rightarrow> database \<Rightarrow> err + pg_invite option \<times> database" where
  "FindInviteByCodeHash h d = Inr (find (\<lambda>i. pgi_code_hash i = h) (invites d), d)"

definition FindInviteByIDForUpdate ::
  "uuid \<Rightarrow> database \<Rightarrow> err + pg_invite option \<times> database" where
  "FindInviteByIDForUpdate i d = Inr (find (\<lambda>v. pgi_id v = i) (invites d), d)"

definition used_by_dangling :: "pg_invite \<Rightarrow> database \<Rightarrow> bool" where
  "used_by_dangling r d = (case pgi_used_by r of None \<Rightarrow> False | Some u \<Rightarrow> u \<notin> user_ids d)"

definition SaveInvite :: "pg_invite \<Rightarrow> database \<Rightarrow> err + unit \<times> database" where
  "SaveInvite r d =
     (if pgi_id r \<in> pgi_id ` set (invites d)
      then if used_by_dangling r d
           then Inl (foreign_key_violation ''invites_used_by_fkey'')
           else Inr ((), d\<lparr>invites := update_where (\<lambda>i. pgi_id i = pgi_id r)
                  (\<lambda>i. i\<lparr>pgi_used_by := pgi_used_by r, pgi_used_at := pgi_used_at r\<rparr>)
                  (invites d)\<rparr>)
      else if pgi_code_hash r \<in> pgi_code_hash ` set (invites d)
      then Inl (unique_violation ''idx_invites_code_hash'')
      else if pgi_created_by r \<notin> user_ids d
      then Inl (foreign_key_violation ''invites_created_by_fkey'')
      else if used_by_dangling r d
      then Inl (foreign_key_violation ''invites_used_by_fkey'')
      else Inr ((), d\<lparr>invites := invites d @ [r]\<rparr>))"

section \<open>Statements on refresh tokens\<close>

definition FindRefreshTokenByTokenHash ::
  "string \<Rightarrow> database \<Rightarrow> err + pg_session option \<times> database" where
  "FindRefreshTokenByTokenHash h d = Inr (find (\<lambda>s. pgs_token_hash s = h) (sessions d), d)"

definition FindRefreshTokenByIDForUpdate ::
  "uuid \<Rightarrow> database \<Rightarrow> err + pg_session option \<times> database" where
  "FindRefreshTokenByIDForUpdate i d = Inr (find (\<lambda>s. pgs_id s = i) (sessions d), d)"

definition pgs_active :: "uuid list \<Rightarrow> time \<Rightarrow> pg_session \<Rightarrow> bool" where
  "pgs_active us now s \<longleftrightarrow>
     pgs_user_id s \<in> set us \<and> pgs_revoked_at s = None \<and> now < pgs_expires_at s"

definition ListActiveRefreshTokensByUserIDs ::
  "uuid list \<Rightarrow> time \<Rightarrow> database \<Rightarrow> err + pg_session list \<times> database" where
  "ListActiveRefreshTokensByUserIDs us now d = Inr (filter (pgs_active us now) (sessions d), d)"

definition upsert_session :: "pg_session \<Rightarrow> database \<Rightarrow> err + unit \<times> database" where
  "upsert_session r d =
     (if pgs_id r \<in> pgs_id ` set (sessions d)
      then Inr ((), d\<lparr>sessions := update_where (\<lambda>s. pgs_id s = pgs_id r)
             (\<lambda>s. s\<lparr>pgs_revoked_at := pgs_revoked_at r\<rparr>) (sessions d)\<rparr>)
      else if pgs_token_hash r \<in> pgs_token_hash ` set (sessions d)
      then Inl (unique_violation ''idx_refresh_tokens_token_hash'')
      else if pgs_user_id r \<notin> user_ids d
      then Inl (foreign_key_violation ''refresh_tokens_user_id_fkey'')
      else Inr ((), d\<lparr>sessions := sessions d @ [r]\<rparr>))"

text \<open>
  \<open>SaveRefreshTokens\<close> sends its statements as one batch: the server runs them in order inside
  one (implicit or surrounding) transaction and stops at the first that fails.
\<close>

fun SaveRefreshTokens :: "pg_session list \<Rightarrow> database \<Rightarrow> err + unit \<times> database" where
  "SaveRefreshTokens [] d = Inr ((), d)"
| "SaveRefreshTokens (r # rs) d =
     (case upsert_session r d of Inl e \<Rightarrow> Inl e | Inr (_, d') \<Rightarrow> SaveRefreshTokens rs d')"

section \<open>Statements on wrapped keys\<close>

definition insert_wrapped_key :: "pg_wrapped_key \<Rightarrow> database \<Rightarrow> err + unit \<times> database" where
  "insert_wrapped_key r d =
     (if pgk_scope r \<notin> {WrappedKeyScopeMain, WrappedKeyScopeDecoy}
      then Inl (invalid_enum ''wrapped_key_scope'')
      else if pgk_id r \<in> pgk_id ` set (wrapped_keys d)
      then Inl (unique_violation ''wrapped_keys_pkey'')
      else if (pgk_credential_id r, pgk_scope r)
              \<in> (\<lambda>k. (pgk_credential_id k, pgk_scope k)) ` set (wrapped_keys d)
      then Inl (unique_violation ''idx_wrapped_keys_credential_scope'')
      else if pgk_user_id r \<notin> user_ids d
      then Inl (foreign_key_violation ''wrapped_keys_user_id_fkey'')
      else if pgk_credential_id r \<notin> credential_ids d
      then Inl (foreign_key_violation ''wrapped_keys_credential_id_fkey'')
      else Inr ((), d\<lparr>wrapped_keys := wrapped_keys d @ [r]\<rparr>))"

text \<open>\<open>COPY FROM\<close>: all the rows or none; the result is their number.\<close>

fun copy_wrapped_keys :: "pg_wrapped_key list \<Rightarrow> database \<Rightarrow> err + unit \<times> database" where
  "copy_wrapped_keys [] d = Inr ((), d)"
| "copy_wrapped_keys (r # rs) d =
     (case insert_wrapped_key r d of Inl e \<Rightarrow> Inl e | Inr (_, d') \<Rightarrow> copy_wrapped_keys rs d')"

definition SaveWrappedKeys :: "pg_wrapped_key list \<Rightarrow> database \<Rightarrow> err + int \<times> database" where
  "SaveWrappedKeys rs d =
     (case copy_wrapped_keys rs d of Inl e \<Rightarrow> Inl e | Inr (_, d') \<Rightarrow> Inr (int (length rs), d'))"

definition ListWrappedKeysByCredentialID ::
  "uuid \<Rightarrow> database \<Rightarrow> err + pg_wrapped_key list \<times> database" where
  "ListWrappedKeysByCredentialID c d =
     Inr (filter (\<lambda>k. pgk_credential_id k = c) (wrapped_keys d), d)"

end
