(* ===== verification/Storage_Constraints.thy ===== *)
theory Storage_Constraints
  imports Storage_Db
begin

text \<open>
  The statements of the storage keep the constraints of the schema (\<open>db_ok\<close>), each lemma
  for one statement; and the keyed tables satisfy the contract of a store: what a lookup
  returns after a save. The contract is the locale \<open>keyed_table\<close>; the tables of invites,
  credentials and sessions interpret it.
\<close>

section \<open>Constraints are kept\<close>

text \<open>A row that refers to a user keeps a target when users are only added.\<close>

lemma SaveUser_Inr_iff:
  "SaveUser r d = Inr ((), d') \<longleftrightarrow>
     pgu_role r \<in> {UserRoleMember, UserRoleAdmin} \<and> pgu_id r \<notin> user_ids d \<and>
     (pgu_invited_by r = None \<longrightarrow> (\<forall>u \<in> set (users d). pgu_invited_by u \<noteq> None)) \<and>
     (\<forall>p. pgu_invited_by r = Some p \<longrightarrow> p \<in> insert (pgu_id r) (user_ids d)) \<and>
     d' = d\<lparr>users := users d @ [r]\<rparr>"
  by (auto simp: SaveUser_def split: option.splits)

lemma filter_root_Nil:
  "(\<forall>u \<in> set us. pgu_invited_by u \<noteq> None) \<Longrightarrow>
   filter (\<lambda>u. pgu_invited_by u = None) us = []"
  by (simp add: filter_empty_conv)

lemma SaveUser_ok:
  assumes "db_ok d" and "SaveUser r d = Inr ((), d')"
  shows "db_ok d'"
proof -
  from assms(2) have r: "pgu_role r \<in> {UserRoleMember, UserRoleAdmin}" "pgu_id r \<notin> user_ids d"
    "pgu_invited_by r = None \<Longrightarrow> filter (\<lambda>u. pgu_invited_by u = None) (users d) = []"
    "\<And>p. pgu_invited_by r = Some p \<Longrightarrow> p \<in> insert (pgu_id r) (user_ids d)"
    and d': "d' = d\<lparr>users := users d @ [r]\<rparr>"
    by (auto simp: SaveUser_Inr_iff filter_root_Nil)
  have "users_ok d'"
    using assms(1) r by (auto simp: d' db_ok_def users_ok_def)
  with assms(1) show ?thesis
    by (auto simp: d' db_ok_def credentials_ok_def invites_ok_def sessions_ok_def wrapped_keys_ok_def)
qed

lemma SaveCredential_ok:
  assumes "db_ok d" and "SaveCredential r d = Inr ((), d')"
  shows "db_ok d'"
proof -
  have "credential_ids d \<subseteq> credential_ids d'"
    using assms(2) by (auto simp: SaveCredential_def image_update_where split: if_splits)
  moreover have "credentials_ok d' \<and> users d' = users d \<and> invites d' = invites d \<and> sessions d' = sessions d \<and>
        wrapped_keys d' = wrapped_keys d"
    using assms
    by (auto simp: SaveCredential_def db_ok_def credentials_ok_def map_update_where set_update_where
          split: if_splits)
  ultimately show ?thesis
    using assms(1)
    by (auto simp: db_ok_def users_ok_def invites_ok_def sessions_ok_def wrapped_keys_ok_def)
qed

lemma SaveInvite_ok:
  assumes "db_ok d" and "SaveInvite r d = Inr ((), d')"
  shows "db_ok d'"
proof -
  have "invites_ok d' \<and> users d' = users d \<and> credentials d' = credentials d \<and>
        sessions d' = sessions d \<and> wrapped_keys d' = wrapped_keys d"
    using assms
    by (auto simp: SaveInvite_def db_ok_def invites_ok_def map_update_where set_update_where
          used_by_dangling_def split: if_splits option.splits)
  with assms(1) show ?thesis
    by (auto simp: db_ok_def users_ok_def credentials_ok_def sessions_ok_def wrapped_keys_ok_def)
qed

lemma upsert_session_ok:
  assumes "db_ok d" and "upsert_session r d = Inr ((), d')"
  shows "db_ok d'"
proof -
  have "sessions_ok d' \<and> users d' = users d \<and> credentials d' = credentials d \<and>
        invites d' = invites d \<and> wrapped_keys d' = wrapped_keys d"
    using assms
    by (auto simp: upsert_session_def db_ok_def sessions_ok_def map_update_where set_update_where
          split: if_splits)
  with assms(1) show ?thesis
    by (auto simp: db_ok_def users_ok_def credentials_ok_def invites_ok_def wrapped_keys_ok_def)
qed

lemma SaveRefreshTokens_ok: "db_ok d \<Longrightarrow> SaveRefreshTokens rs d = Inr ((), d') \<Longrightarrow> db_ok d'"
  by (induction rs d rule: SaveRefreshTokens.induct)
    (auto split: sum.splits dest: upsert_session_ok)

lemma insert_wrapped_key_ok:
  assumes "db_ok d" and "insert_wrapped_key r d = Inr ((), d')"
  shows "db_ok d'"
proof -
  have "wrapped_keys_ok d' \<and> users d' = users d \<and> credentials d' = credentials d \<and>
        invites d' = invites d \<and> sessions d' = sessions d"
    using assms
    by (auto simp: insert_wrapped_key_def db_ok_def wrapped_keys_ok_def split: if_splits)
  with assms(1) show ?thesis
    by (auto simp: db_ok_def users_ok_def credentials_ok_def invites_ok_def sessions_ok_def)
qed

lemma copy_wrapped_keys_ok: "db_ok d \<Longrightarrow> copy_wrapped_keys rs d = Inr ((), d') \<Longrightarrow> db_ok d'"
  by (induction rs d rule: copy_wrapped_keys.induct)
    (auto split: sum.splits dest: insert_wrapped_key_ok)

lemma SaveWrappedKeys_ok: "db_ok d \<Longrightarrow> SaveWrappedKeys rs d = Inr (n, d') \<Longrightarrow> db_ok d'"
  by (auto simp: SaveWrappedKeys_def split: sum.splits dest: copy_wrapped_keys_ok)

text \<open>Reading statements leave the database as it is.\<close>

lemma reads_only:
  "FindRootUser d = Inr (r1, d') \<Longrightarrow> d' = d"
  "FindUserByID i d = Inr (r2, d') \<Longrightarrow> d' = d"
  "ListDescendantUserIDs i d = Inr (r3, d') \<Longrightarrow> d' = d"
  "FindCredentialByExternalID x d = Inr (r4, d') \<Longrightarrow> d' = d"
  "ListCredentialsByUserID i d = Inr (r5, d') \<Longrightarrow> d' = d"
  "CountActiveInvitesByUser i now d = Inr (r6, d') \<Longrightarrow> d' = d"
  "LockUserByID s d = Inr (r7, d') \<Longrightarrow> d' = d"
  "FindInviteByCodeHash s d = Inr (r8, d') \<Longrightarrow> d' = d"
  "FindInviteByIDForUpdate i d = Inr (r8, d') \<Longrightarrow> d' = d"
  "FindRefreshTokenByTokenHash s d = Inr (r9, d') \<Longrightarrow> d' = d"
  "FindRefreshTokenByIDForUpdate i d = Inr (r9, d') \<Longrightarrow> d' = d"
  "ListActiveRefreshTokensByUserIDs us now d = Inr (r10, d') \<Longrightarrow> d' = d"
  "ListWrappedKeysByCredentialID i d = Inr (r11, d') \<Longrightarrow> d' = d"
  by (auto simp: FindRootUser_def FindUserByID_def ListDescendantUserIDs_def
      FindCredentialByExternalID_def ListCredentialsByUserID_def CountActiveInvitesByUser_def
      LockUserByID_def FindInviteByCodeHash_def FindInviteByIDForUpdate_def
      FindRefreshTokenByTokenHash_def FindRefreshTokenByIDForUpdate_def
      ListActiveRefreshTokensByUserIDs_def ListWrappedKeysByCredentialID_def
      split: option.splits)

section \<open>The contract of a keyed table\<close>

text \<open>
  A table with an upsert: \<open>tab\<close> reads the table, \<open>key\<close> its primary key, \<open>merge old new\<close>
  is the row the upsert leaves in place of \<open>old\<close>. The laws say what a successful save does
  to the table; the clients learn from it what a lookup finds.
\<close>

locale keyed_table =
  fixes save :: "'r \<Rightarrow> database \<Rightarrow> err + unit \<times> database"
    and tab :: "database \<Rightarrow> 'r list"
    and key :: "'r \<Rightarrow> uuid"
    and merge :: "'r \<Rightarrow> 'r \<Rightarrow> 'r"
  assumes key_merge: "key (merge old new) = key old"
    and save_update: "key r \<in> key ` set (tab d) \<Longrightarrow> save r d = Inr ((), d') \<Longrightarrow>
           tab d' = update_where (\<lambda>x. key x = key r) (\<lambda>x. merge x r) (tab d)"
    and save_insert: "key r \<notin> key ` set (tab d) \<Longrightarrow> save r d = Inr ((), d') \<Longrightarrow>
           tab d' = tab d @ [r]"
begin

abbreviation lookup :: "uuid \<Rightarrow> database \<Rightarrow> 'r option" where
  "lookup i d \<equiv> find (\<lambda>x. key x = i) (tab d)"

lemma lookup_save:
  assumes "save r d = Inr ((), d')"
  shows "lookup i d' =
    (if i = key r then Some (case lookup i d of None \<Rightarrow> r | Some x \<Rightarrow> merge x r) else lookup i d)"
proof (cases "key r \<in> key ` set (tab d)")
  case True
  then have "lookup (key r) d \<noteq> None" by (simp add: find_key_None)
  then obtain x where x: "lookup (key r) d = Some x" by blast
  then have "key x = key r" by (auto dest: find_SomeD)
  moreover have "lookup i d' = map_option (\<lambda>x. if key x = key r then merge x r else x) (lookup i d)"
    unfolding save_update [OF True assms]
    by (rule find_update_where_same) (simp add: key_merge)
  ultimately show ?thesis
    using x by (cases "i = key r") (auto dest: find_SomeD split: option.splits simp: map_option_case)
next
  case False
  then have "lookup (key r) d = None" by (simp add: find_key_None)
  then show ?thesis
    unfolding save_insert [OF False assms] by (auto simp: find_append split: option.splits)
qed

lemma lookup_save_same:
  "save r d = Inr ((), d') \<Longrightarrow> lookup (key r) d = None \<Longrightarrow> lookup (key r) d' = Some r"
  by (simp add: lookup_save)

lemma lookup_save_other:
  "save r d = Inr ((), d') \<Longrightarrow> i \<noteq> key r \<Longrightarrow> lookup i d' = lookup i d"
  by (simp add: lookup_save)

lemma length_save:
  assumes "save r d = Inr ((), d')"
  shows "length (tab d') = length (tab d) + (if key r \<in> key ` set (tab d) then 0 else 1)"
  using save_update [OF _ assms] save_insert [OF _ assms] by (cases "key r \<in> key ` set (tab d)") auto

end

definition merge_invite :: "pg_invite \<Rightarrow> pg_invite \<Rightarrow> pg_invite" where
  "merge_invite old new = old\<lparr>pgi_used_by := pgi_used_by new, pgi_used_at := pgi_used_at new\<rparr>"

definition merge_credential :: "pg_credential \<Rightarrow> pg_credential \<Rightarrow> pg_credential" where
  "merge_credential old new =
     old\<lparr>pgc_sign_count := pgc_sign_count new, pgc_revoked_at := pgc_revoked_at new\<rparr>"

definition merge_session :: "pg_session \<Rightarrow> pg_session \<Rightarrow> pg_session" where
  "merge_session old new = old\<lparr>pgs_revoked_at := pgs_revoked_at new\<rparr>"

interpretation inv_tab: keyed_table SaveInvite invites pgi_id merge_invite
  by unfold_locales (auto simp: merge_invite_def SaveInvite_def split: if_splits)

interpretation cred_tab: keyed_table SaveCredential credentials pgc_id merge_credential
  by unfold_locales (auto simp: merge_credential_def SaveCredential_def split: if_splits)

interpretation ses_tab: keyed_table upsert_session sessions pgs_id merge_session
  by unfold_locales (auto simp: merge_session_def upsert_session_def split: if_splits)

end
