(* ===== verification/Libraries.thy ===== *)
theory Libraries
  imports Go_Errors
begin

text \<open>
  The code the service calls that is not in the repository, as parameters. \<open>libs\<close> has one
  field per function of a third-party package or of the cryptographic part of Go's library;
  no definition is given for them here. Their documented behaviour is stated where a
  property needs it, as named hypotheses over this record.

  \<^item> \<open>github.com/google/uuid\<close>: \<open>String\<close>, \<open>Parse\<close>, \<open>FromBytes\<close>.
  \<^item> \<open>crypto/hmac\<close> with \<open>crypto/sha256\<close>: the keyed hash of a message.
  \<^item> \<open>aidanwoods.dev/go-paseto\<close>: V4 signing, verification, encryption and decryption. A
    token carries an expiry and string claims; parsing applies the rule that the token is
    not expired at the instant of the call. Encryption draws a nonce, so it takes the tick of
    the call.
  \<^item> \<open>github.com/go-webauthn/webauthn\<close>: the ceremonies. Their session data, options and
    parsed responses are opaque bytes. A passkey login reads the user handle, calls the
    handler it was given for the user (and wraps the handler's error), then validates.
  \<^item> \<open>encoding/json\<close> on the library's own option and payload types.
\<close>

section \<open>PASETO tokens\<close>

record token_claims =
  tc_exp :: time
  tc_strings :: "(string \<times> string) list"

text \<open>\<open>Token.GetString\<close>: the claim, or an error when it is absent.\<close>

definition claim_GetString :: "token_claims \<Rightarrow> string \<Rightarrow> err + string" where
  "claim_GetString t k =
     (case map_of (tc_strings t) k of
        None \<Rightarrow> Inl (External ''paseto: claim not present'') | Some v \<Rightarrow> Inr v)"

text \<open>Why parsing failed: a broken rule (expiry), or anything else.\<close>

datatype parse_failure = Rule_Error string | Other_Parse_Error string

section \<open>WebAuthn values\<close>

type_synonym session_data = bytes
type_synonym wa_options = bytes
type_synonym wa_parsed = bytes

record wa_credential =
  wac_id :: bytes
  wac_public_key :: bytes
  wac_transport :: "string list"
  wac_sign_count :: "32 word"
  wac_clone_warning :: bool

text \<open>A client-extension output is a tree of JSON values; only what the source looks at.\<close>

datatype json_value =
    J_Bool bool
  | J_Object "(string \<times> json_value) list"
  | J_Other

record wa_user =
  wau_id :: uuid
  wau_credentials :: "wa_credential list"

text \<open>The options the adapter passes to the ceremonies.\<close>

datatype wa_option =
    With_Authenticator_Selection (resident_key: string) (selection_verification: string)
  | With_Extensions "(string \<times> json_value) list"
  | With_User_Verification string

text \<open>The two payloads the adapter seals into challenge tokens.\<close>

datatype challenge_data =
    Registration_Challenge session_data uuid uuid
  | Login_Challenge session_data

section \<open>The parameters\<close>

record libs =
  uuid_str :: "uuid \<Rightarrow> string"
  uuid_parse :: "string \<Rightarrow> err + uuid"
  uuid_from_bytes :: "bytes \<Rightarrow> err + uuid"
  uuid_bytes :: "uuid \<Rightarrow> bytes"
  hmac_sha256 :: "bytes \<Rightarrow> bytes \<Rightarrow> bytes"
  v4_sign :: "bytes \<Rightarrow> token_claims \<Rightarrow> string"
  v4_parse_public :: "bytes \<Rightarrow> time \<Rightarrow> string \<Rightarrow> parse_failure + token_claims"
  v4_encrypt :: "nat \<Rightarrow> bytes \<Rightarrow> token_claims \<Rightarrow> string"
  v4_parse_local :: "bytes \<Rightarrow> time \<Rightarrow> string \<Rightarrow> parse_failure + token_claims"
  challenge_marshal :: "challenge_data \<Rightarrow> err + string"
  registration_unmarshal :: "string \<Rightarrow> err + session_data \<times> uuid \<times> uuid"
  login_unmarshal :: "string \<Rightarrow> err + session_data"
  options_marshal :: "wa_options \<Rightarrow> err + bytes"
  wa_begin_registration :: "nat \<Rightarrow> wa_user \<Rightarrow> wa_option list \<Rightarrow> err + wa_options \<times> session_data"
  wa_parse_creation :: "bytes \<Rightarrow> err + wa_parsed"
  wa_create_credential :: "wa_user \<Rightarrow> session_data \<Rightarrow> wa_parsed \<Rightarrow> err + wa_credential"
  wa_begin_login :: "nat \<Rightarrow> wa_option list \<Rightarrow> err + wa_options \<times> session_data"
  wa_parse_request :: "bytes \<Rightarrow> err + wa_parsed"
  wa_client_extensions :: "wa_parsed \<Rightarrow> (string \<times> json_value) list"
  wa_user_handle :: "session_data \<Rightarrow> wa_parsed \<Rightarrow> err + bytes"
  wa_handler_error :: "err \<Rightarrow> err"
  wa_validate :: "wa_user \<Rightarrow> session_data \<Rightarrow> wa_parsed \<Rightarrow> err + wa_credential"

end
