(* ===== verification/Effects.thy ===== *)
theory Effects
  imports Storage_Constraints Libraries
begin

text \<open>
  What a call of the service may do, as explicit state passing. An action takes the world
  and returns an outcome (a value, an error, a panic) and the new world. The world holds the
  committed database, the working copy of the open transaction if there is one, and a tick
  that counts the calls to the outside. The environment answers those calls by tick: what
  the clock shows, which identifier and which random bytes come next, and which statement,
  \<open>BEGIN\<close>, \<open>COMMIT\<close> or \<open>ROLLBACK\<close> fails for a reason outside the model (a lost
  connection). A \<open>COMMIT\<close> that reports a failure is one that did not take effect. Logging is
  left out.

  A Go context is modelled by what the storage looks up in it: whether it carries a
  transaction (\<open>In_Tx\<close>) or not (\<open>No_Tx\<close>). A statement runs on the working copy in the
  first case and commits by itself in the second. After a failed statement the server
  refuses every further statement of that transaction, and its \<open>COMMIT\<close> rolls back.
\<close>

section \<open>World and environment\<close>

record env =
  clock :: "nat \<Rightarrow> time"
  next_uuid :: "nat \<Rightarrow> uuid"
  entropy :: "nat \<Rightarrow> nat \<Rightarrow> err + bytes"
  stmt_fault :: "nat \<Rightarrow> err option"
  begin_fault :: "nat \<Rightarrow> err option"
  commit_fault :: "nat \<Rightarrow> err option"
  rollback_fault :: "nat \<Rightarrow> err option"
  lib :: libs

record world =
  committed :: database
  work :: "database option"
  aborted :: bool
  tick :: nat

datatype ctx = No_Tx | In_Tx

type_synonym 'a act = "world \<Rightarrow> 'a outcome \<times> world"

definition world_of :: "database \<Rightarrow> world" where
  "world_of d = \<lparr>committed = d, work = None, aborted = False, tick = 0\<rparr>"

section \<open>Actions\<close>

definition ret :: "'a \<Rightarrow> 'a act" where
  "ret x w = (Ok x, w)"

definition fail :: "err \<Rightarrow> 'a act" where
  "fail e w = (Err e, w)"

definition bind :: "'a act \<Rightarrow> ('a \<Rightarrow> 'b act) \<Rightarrow> 'b act" where
  "bind m f w =
     (case m w of (Ok x, w') \<Rightarrow> f x w' | (Err e, w') \<Rightarrow> (Err e, w') | (Panic v, w') \<Rightarrow> (Panic v, w'))"

text \<open>\<open>if err != nil { ... }\<close> around a call: \<open>catch\<close> handles the error.\<close>

definition catch :: "'a act \<Rightarrow> (err \<Rightarrow> 'a act) \<Rightarrow> 'a act" where
  "catch m h w =
     (case m w of (Ok x, w') \<Rightarrow> (Ok x, w') | (Err e, w') \<Rightarrow> h e w' | (Panic v, w') \<Rightarrow> (Panic v, w'))"

definition lift_sum :: "err + 'a \<Rightarrow> 'a act" where
  "lift_sum r w = (of_sum r, w)"

definition check :: "err option \<Rightarrow> unit act" where
  "check r w = (case r of None \<Rightarrow> (Ok (), w) | Some e \<Rightarrow> (Err e, w))"

definition now :: "env \<Rightarrow> time act" where
  "now E w = (Ok (clock E (tick w)), w\<lparr>tick := Suc (tick w)\<rparr>)"

definition new_id :: "env \<Rightarrow> uuid act" where
  "new_id E w = (Ok (next_uuid E (tick w)), w\<lparr>tick := Suc (tick w)\<rparr>)"

definition rand_read :: "env \<Rightarrow> nat \<Rightarrow> bytes act" where
  "rand_read E n w = (of_sum (entropy E (tick w) n), w\<lparr>tick := Suc (tick w)\<rparr>)"

text \<open>A call of an outside library that may behave differently each time.\<close>

definition lib_call :: "(nat \<Rightarrow> err + 'a) \<Rightarrow> 'a act" where
  "lib_call f w = (of_sum (f (tick w)), w\<lparr>tick := Suc (tick w)\<rparr>)"

section \<open>Statements\<close>

text \<open>
  \<open>Storage.GetQueries\<close> picks the connection by the context: the transaction's, or one of the
  pool, whose statements commit by themselves.
\<close>

definition run_stmt ::
  "env \<Rightarrow> ctx \<Rightarrow> (database \<Rightarrow> err + 'a \<times> database) \<Rightarrow> 'a act" where
  "run_stmt E c q w =
     (let w1 = w\<lparr>tick := Suc (tick w)\<rparr> in
      case c of
        In_Tx \<Rightarrow>
          (case work w of
             None \<Rightarrow> (Err (Sentinel Pgx_ErrTxClosed), w1)
           | Some d \<Rightarrow>
               if aborted w then (Err (Pg_Error ''25P02'' ''in_failed_sql_transaction''), w1)
               else (case stmt_fault E (tick w) of
                       Some e \<Rightarrow> (Err e, w1\<lparr>aborted := True\<rparr>)
                     | None \<Rightarrow>
                         (case q d of
                            Inl e \<Rightarrow> (Err e, w1\<lparr>aborted := True\<rparr>)
                          | Inr (x, d') \<Rightarrow> (Ok x, w1\<lparr>work := Some d'\<rparr>))))
      | No_Tx \<Rightarrow>
          (case stmt_fault E (tick w) of
             Some e \<Rightarrow> (Err e, w1)
           | None \<Rightarrow>
               (case q (committed w) of
                  Inl e \<Rightarrow> (Err e, w1)
                | Inr (x, d') \<Rightarrow> (Ok x, w1\<lparr>committed := d'\<rparr>))))"

text \<open>\<open>QueryRow\<close> and \<open>Scan\<close>: no row is the error \<open>pgx.ErrNoRows\<close>, raised by the driver.\<close>

definition query_row ::
  "env \<Rightarrow> ctx \<Rightarrow> (database \<Rightarrow> err + 'a option \<times> database) \<Rightarrow> 'a act" where
  "query_row E c q =
     bind (run_stmt E c q)
       (\<lambda>r. case r of None \<Rightarrow> fail (Sentinel Pgx_ErrNoRows) | Some x \<Rightarrow> ret x)"

section \<open>Transactions (transaction.go)\<close>

text \<open>
  The deferred function of \<open>runInTx\<close> on an error: roll back, and join an error of the
  rollback other than \<open>pgx.ErrTxClosed\<close>. The working copy is gone either way.
\<close>

definition rollback_with :: "env \<Rightarrow> world \<Rightarrow> err \<Rightarrow> world \<Rightarrow> 'a outcome \<times> world" where
  "rollback_with E outer e w =
     (let w' = w\<lparr>work := work outer, aborted := aborted outer, tick := Suc (tick w)\<rparr> in
      case rollback_fault E (tick w) of
        Some re \<Rightarrow> if errors_is re Pgx_ErrTxClosed then (Err e, w') else (Err (Joined [e, re]), w')
      | None \<Rightarrow> (Err e, w'))"

definition runInTx :: "env \<Rightarrow> (ctx \<Rightarrow> 'a act) \<Rightarrow> 'a act" where
  "runInTx E fn w =
     (case begin_fault E (tick w) of
        Some e \<Rightarrow> (Err e, w\<lparr>tick := Suc (tick w)\<rparr>)
      | None \<Rightarrow>
          (case fn In_Tx (w\<lparr>work := Some (committed w), aborted := False, tick := Suc (tick w)\<rparr>) of
             (Panic v, w') \<Rightarrow> rollback_with E w (Panic_Error v) w'
           | (Err e, w') \<Rightarrow> rollback_with E w e w'
           | (Ok x, w') \<Rightarrow>
               (let closed = w'\<lparr>work := work w, aborted := aborted w, tick := Suc (tick w')\<rparr> in
                if aborted w' then (Err (Sentinel Pgx_ErrTxCommitRollback), closed)
                else (case commit_fault E (tick w') of
                        Some e \<Rightarrow> (Err e, closed)
                      | None \<Rightarrow>
                          (Ok x, case work w' of None \<Rightarrow> closed
                                 | Some d \<Rightarrow> closed\<lparr>committed := d\<rparr>)))))"

definition RunInTransaction :: "env \<Rightarrow> ctx \<Rightarrow> (ctx \<Rightarrow> 'a act) \<Rightarrow> 'a act" where
  "RunInTransaction E c fn = (case c of In_Tx \<Rightarrow> fn c | No_Tx \<Rightarrow> runInTx E fn)"

end
