(* ===== verification/Tx_Logic.thy ===== *)
theory Tx_Logic
  imports Effects
begin

text \<open>
  Rules for reasoning about actions.
  \<^item> \<open>keeps I m\<close>: whatever the outcome of \<open>m\<close>, the predicate \<open>I\<close> on databases holds of the
    committed database and of the working copy if it did before (\<open>keeps_rules\<close>).
  \<^item> \<open>confined m\<close>: inside a transaction, \<open>m\<close> does not touch the committed database and
    leaves the transaction open (\<open>confined_rules\<close>).
  \<^item> inversion rules for a run that returned a value (\<open>ok_dest\<close>).
  The contract of \<open>RunInTransaction\<close> is the locale \<open>transactor\<close>, interpreted on the storage's
  own \<open>RunInTransaction\<close>.
\<close>

section \<open>Inversion of successful runs\<close>

lemma bind_Ok [ok_dest]:
  "bind m f w = (Ok y, w') \<longleftrightarrow> (\<exists>x w1. m w = (Ok x, w1) \<and> f x w1 = (Ok y, w'))"
  by (auto simp: bind_def split: prod.splits outcome.splits)

lemma ret_Ok [simp]: "ret x w = (r, w') \<longleftrightarrow> r = Ok x \<and> w' = w"
  by (auto simp: ret_def)

lemma fail_res [simp]: "fail e w = (r, w') \<longleftrightarrow> r = Err e \<and> w' = w"
  by (auto simp: fail_def)

lemma lift_sum_Ok [ok_dest]: "lift_sum r w = (Ok x, w') \<longleftrightarrow> r = Inr x \<and> w' = w"
  by (auto simp: lift_sum_def)

lemma check_Ok [ok_dest]: "check r w = (Ok u, w') \<longleftrightarrow> r = None \<and> w' = w"
  by (cases r) (auto simp: check_def)

lemma now_Ok [ok_dest]:
  "now E w = (r, w') \<longleftrightarrow> r = Ok (clock E (tick w)) \<and> w' = w\<lparr>tick := Suc (tick w)\<rparr>"
  by (auto simp: now_def)

lemma new_id_Ok [ok_dest]:
  "new_id E w = (r, w') \<longleftrightarrow> r = Ok (next_uuid E (tick w)) \<and> w' = w\<lparr>tick := Suc (tick w)\<rparr>"
  by (auto simp: new_id_def)

lemma lib_call_Ok [ok_dest]:
  "lib_call f w = (Ok x, w') \<longleftrightarrow> f (tick w) = Inr x \<and> w' = w\<lparr>tick := Suc (tick w)\<rparr>"
  by (auto simp: lib_call_def)

lemma rand_read_Ok [ok_dest]:
  "rand_read E n w = (Ok bs, w') \<longleftrightarrow>
     entropy E (tick w) n = Inr bs \<and> w' = w\<lparr>tick := Suc (tick w)\<rparr>"
  by (auto simp: rand_read_def)

lemma catch_Ok [ok_dest]:
  "catch m h w = (Ok y, w') \<longleftrightarrow>
     m w = (Ok y, w') \<or> (\<exists>e w1. m w = (Err e, w1) \<and> h e w1 = (Ok y, w'))"
  by (auto simp: catch_def split: prod.splits outcome.splits)

text \<open>A statement inside a transaction reads and writes the working copy.\<close>

lemma run_stmt_tx_Ok [ok_dest]:
  "run_stmt E In_Tx q w = (Ok x, w') \<longleftrightarrow>
     (\<exists>d d'. work w = Some d \<and> \<not> aborted w \<and> stmt_fault E (tick w) = None \<and> q d = Inr (x, d') \<and>
       w' = w\<lparr>tick := Suc (tick w), work := Some d'\<rparr>)"
  by (auto simp: run_stmt_def Let_def split: option.splits sum.splits)

lemma run_stmt_plain_Ok [ok_dest]:
  "run_stmt E No_Tx q w = (Ok x, w') \<longleftrightarrow>
     (\<exists>d'. stmt_fault E (tick w) = None \<and> q (committed w) = Inr (x, d') \<and>
       w' = w\<lparr>tick := Suc (tick w), committed := d'\<rparr>)"
  by (auto simp: run_stmt_def Let_def split: option.splits sum.splits)

text \<open>The row was there: \<open>query_row\<close> in the two kinds of context.\<close>

lemma query_row_Ok [ok_dest]:
  "query_row E c q w = (Ok x, w') \<longleftrightarrow> run_stmt E c q w = (Ok (Some x), w')"
  by (auto simp: query_row_def bind_Ok split: option.splits)

lemma run_stmt_no_panic: "run_stmt E c q w \<noteq> (Panic v, w')"
  by (auto simp: run_stmt_def Let_def split: ctx.splits option.splits sum.splits if_splits)

section \<open>Predicates that every outcome keeps\<close>

definition keeps :: "(database \<Rightarrow> bool) \<Rightarrow> 'a act \<Rightarrow> bool" where
  "keeps I m \<longleftrightarrow>
     (\<forall>w. I (committed w) \<and> (\<forall>d. work w = Some d \<longrightarrow> I d) \<longrightarrow>
        I (committed (snd (m w))) \<and> (\<forall>d. work (snd (m w)) = Some d \<longrightarrow> I d))"

abbreviation holds_in :: "(database \<Rightarrow> bool) \<Rightarrow> world \<Rightarrow> bool" where
  "holds_in I w \<equiv> I (committed w) \<and> (\<forall>d. work w = Some d \<longrightarrow> I d)"

lemma keepsI: "(\<And>w r w'. holds_in I w \<Longrightarrow> m w = (r, w') \<Longrightarrow> holds_in I w') \<Longrightarrow> keeps I m"
  unfolding keeps_def by (metis prod.collapse)

lemma keepsD: "keeps I m \<Longrightarrow> holds_in I w \<Longrightarrow> m w = (r, w') \<Longrightarrow> holds_in I w'"
  unfolding keeps_def by (metis snd_conv)

lemma keeps_pure [keeps_rules]:
  "keeps I (ret x)" "keeps I (fail e)" "keeps I (lift_sum r)" "keeps I (check c)"
  "keeps I (now E)" "keeps I (new_id E)" "keeps I (rand_read E n)" "keeps I (lib_call f)"
  by (auto simp: keeps_def ret_def fail_def lift_sum_def check_def now_def new_id_def rand_read_def
      lib_call_def split: option.splits)

lemma keeps_bind [keeps_rules]:
  assumes "keeps I m" and "\<And>x. keeps I (f x)"
  shows "keeps I (bind m f)"
proof (rule keepsI)
  fix w r w'
  assume I: "holds_in I w" and run: "bind m f w = (r, w')"
  obtain r1 w1 where m: "m w = (r1, w1)" by fastforce
  with I assms(1) have "holds_in I w1" by (blast dest: keepsD)
  with m run assms(2) show "holds_in I w'"
    by (cases r1) (auto simp: bind_def dest: keepsD)
qed

lemma keeps_catch [keeps_rules]:
  assumes "keeps I m" and "\<And>e. keeps I (h e)"
  shows "keeps I (catch m h)"
proof (rule keepsI)
  fix w r w'
  assume I: "holds_in I w" and run: "catch m h w = (r, w')"
  obtain r1 w1 where m: "m w = (r1, w1)" by fastforce
  with I assms(1) have "holds_in I w1" by (blast dest: keepsD)
  with m run assms(2) show "holds_in I w'"
    by (cases r1) (auto simp: catch_def dest: keepsD)
qed

lemma keeps_if [keeps_rules]:
  "(b \<Longrightarrow> keeps I m) \<Longrightarrow> (\<not> b \<Longrightarrow> keeps I n) \<Longrightarrow> keeps I (if b then m else n)"
  by simp

lemma keeps_case_option [keeps_rules]:
  "(x = None \<Longrightarrow> keeps I m) \<Longrightarrow> (\<And>y. x = Some y \<Longrightarrow> keeps I (f y)) \<Longrightarrow>
   keeps I (case x of None \<Rightarrow> m | Some y \<Rightarrow> f y)"
  by (cases x) auto

lemma keeps_case_sum [keeps_rules]:
  "(\<And>e. x = Inl e \<Longrightarrow> keeps I (g e)) \<Longrightarrow> (\<And>y. x = Inr y \<Longrightarrow> keeps I (f y)) \<Longrightarrow>
   keeps I (case x of Inl e \<Rightarrow> g e | Inr y \<Rightarrow> f y)"
  by (cases x) auto

lemma keeps_case_prod [keeps_rules]:
  "(\<And>x y. p = (x, y) \<Longrightarrow> keeps I (f x y)) \<Longrightarrow> keeps I (case p of (x, y) \<Rightarrow> f x y)"
  by (cases p) auto

lemma keeps_run_stmt:
  assumes "\<And>d x d'. I d \<Longrightarrow> q d = Inr (x, d') \<Longrightarrow> I d'"
  shows "keeps I (run_stmt E c q)"
  using assms unfolding keeps_def
  by (auto simp: run_stmt_def Let_def split: ctx.splits option.splits sum.splits)

lemma keeps_query_row:
  assumes "\<And>d x d'. I d \<Longrightarrow> q d = Inr (x, d') \<Longrightarrow> I d'"
  shows "keeps I (query_row E c q)"
  unfolding query_row_def
proof (rule keeps_bind)
  show "keeps I (run_stmt E c q)" by (rule keeps_run_stmt) (rule assms)
qed (intro keeps_rules)

lemma keeps_read:
  assumes "\<And>d x d'. q d = Inr (x, d') \<Longrightarrow> d' = d"
  shows "keeps I (run_stmt E c q)"
  using assms by (auto intro!: keeps_run_stmt)

lemma keeps_read_row:
  assumes "\<And>d x d'. q d = Inr (x, d') \<Longrightarrow> d' = d"
  shows "keeps I (query_row E c q)"
  using assms by (auto intro!: keeps_query_row)

lemma rollback_with_world:
  assumes "rollback_with E outer e w = (r, w')"
  shows "w' = w\<lparr>work := work outer, aborted := aborted outer, tick := Suc (tick w)\<rparr> \<and>
         (r = Err e \<or> (\<exists>re. r = Err (Joined [e, re])))"
  using assms by (auto simp: rollback_with_def Let_def split: option.splits if_splits)

lemma keeps_runInTx:
  assumes "\<And>c. keeps I (fn c)"
  shows "keeps I (runInTx E fn)"
proof (rule keepsI)
  fix w r w'
  assume I: "holds_in I w" and run: "runInTx E fn w = (r, w')"
  let ?w0 = "w\<lparr>work := Some (committed w), aborted := False, tick := Suc (tick w)\<rparr>"
  obtain r1 w1 where fn: "fn In_Tx ?w0 = (r1, w1)" by fastforce
  have "holds_in I ?w0" using I by simp
  from keepsD [OF assms this fn] have I1: "holds_in I w1" .
  show "holds_in I w'"
  proof (cases r1)
    case (Ok x)
    with run fn I I1 show ?thesis
      by (auto simp: runInTx_def Let_def split: option.splits if_splits)
  next
    case (Err e)
    with run fn I I1 show ?thesis
      by (auto simp: runInTx_def split: option.splits dest!: rollback_with_world)
  next
    case (Panic v)
    with run fn I I1 show ?thesis
      by (auto simp: runInTx_def split: option.splits dest!: rollback_with_world)
  qed
qed

lemma keeps_RunInTransaction [keeps_rules]:
  assumes "\<And>c. keeps I (fn c)"
  shows "keeps I (RunInTransaction E c fn)"
  unfolding RunInTransaction_def using assms by (cases c) (auto intro: keeps_runInTx)

section \<open>Confinement\<close>

definition confined :: "'a act \<Rightarrow> bool" where
  "confined m \<longleftrightarrow>
     (\<forall>w. work w \<noteq> None \<longrightarrow> committed (snd (m w)) = committed w \<and> work (snd (m w)) \<noteq> None)"

lemma confinedI:
  "(\<And>w r w'. work w \<noteq> None \<Longrightarrow> m w = (r, w') \<Longrightarrow> committed w' = committed w \<and> work w' \<noteq> None) \<Longrightarrow>
   confined m"
  unfolding confined_def by (metis prod.collapse)

lemma confinedD:
  "confined m \<Longrightarrow> work w \<noteq> None \<Longrightarrow> m w = (r, w') \<Longrightarrow> committed w' = committed w \<and> work w' \<noteq> None"
  unfolding confined_def by (metis snd_conv)

lemma confined_pure [confined_rules]:
  "confined (ret x)" "confined (fail e)" "confined (lift_sum r)" "confined (check c)"
  "confined (now E)" "confined (new_id E)" "confined (rand_read E n)" "confined (lib_call f)"
  by (auto simp: confined_def ret_def fail_def lift_sum_def check_def now_def new_id_def
      rand_read_def lib_call_def split: option.splits)

lemma confined_bind [confined_rules]:
  assumes "confined m" and "\<And>x. confined (f x)"
  shows "confined (bind m f)"
proof (rule confinedI)
  fix w r w'
  assume open_tx: "work w \<noteq> None" and run: "bind m f w = (r, w')"
  obtain r1 w1 where m: "m w = (r1, w1)" by fastforce
  with open_tx assms(1) have "committed w1 = committed w" "work w1 \<noteq> None"
    by (auto dest: confinedD)
  with m run confinedD [OF assms(2), of w1] show "committed w' = committed w \<and> work w' \<noteq> None"
    by (cases r1) (auto simp: bind_def)
qed

lemma confined_catch [confined_rules]:
  assumes "confined m" and "\<And>e. confined (h e)"
  shows "confined (catch m h)"
proof (rule confinedI)
  fix w r w'
  assume open_tx: "work w \<noteq> None" and run: "catch m h w = (r, w')"
  obtain r1 w1 where m: "m w = (r1, w1)" by fastforce
  with open_tx assms(1) have "committed w1 = committed w" "work w1 \<noteq> None"
    by (auto dest: confinedD)
  with m run confinedD [OF assms(2), of w1] show "committed w' = committed w \<and> work w' \<noteq> None"
    by (cases r1) (auto simp: catch_def)
qed

lemma confined_if [confined_rules]:
  "(b \<Longrightarrow> confined m) \<Longrightarrow> (\<not> b \<Longrightarrow> confined n) \<Longrightarrow> confined (if b then m else n)"
  by simp

lemma confined_case_option [confined_rules]:
  "(x = None \<Longrightarrow> confined m) \<Longrightarrow> (\<And>y. x = Some y \<Longrightarrow> confined (f y)) \<Longrightarrow>
   confined (case x of None \<Rightarrow> m | Some y \<Rightarrow> f y)"
  by (cases x) auto

lemma confined_case_sum [confined_rules]:
  "(\<And>e. x = Inl e \<Longrightarrow> confined (g e)) \<Longrightarrow> (\<And>y. x = Inr y \<Longrightarrow> confined (f y)) \<Longrightarrow>
   confined (case x of Inl e \<Rightarrow> g e | Inr y \<Rightarrow> f y)"
  by (cases x) auto

lemma confined_case_prod [confined_rules]:
  "(\<And>x y. p = (x, y) \<Longrightarrow> confined (f x y)) \<Longrightarrow> confined (case p of (x, y) \<Rightarrow> f x y)"
  by (cases p) auto

lemma confined_run_stmt [confined_rules]: "confined (run_stmt E In_Tx q)"
  by (auto simp: confined_def run_stmt_def Let_def split: option.splits sum.splits)

lemma confined_query_row [confined_rules]: "confined (query_row E In_Tx q)"
  unfolding query_row_def by (intro confined_rules)

lemma confined_RunInTransaction [confined_rules]:
  "confined (fn In_Tx) \<Longrightarrow> confined (RunInTransaction E In_Tx fn)"
  by (simp add: RunInTransaction_def)

section \<open>The contract of a transactor\<close>

text \<open>
  \<open>application.Transactor\<close>: inside a transaction the body simply runs; outside, a body that
  returns a value has run on a copy of the committed database and the copy is committed, and
  a call that does not return a value has left the committed database as it was, provided the
  body only works through the transaction.
\<close>

locale transactor =
  fixes run :: "ctx \<Rightarrow> (ctx \<Rightarrow> 'a act) \<Rightarrow> 'a act"
  assumes run_nested: "run In_Tx fn = fn In_Tx"
    and run_commits: "run No_Tx fn w = (Ok x, w') \<Longrightarrow>
      \<exists>w0 w1. work w0 = Some (committed w) \<and> \<not> aborted w0 \<and> committed w0 = committed w \<and>
        tick w0 = Suc (tick w) \<and> fn In_Tx w0 = (Ok x, w1) \<and>
        (\<forall>d. work w1 = Some d \<longrightarrow> committed w' = d)"
    and run_rolls_back: "confined (fn In_Tx) \<Longrightarrow> run No_Tx fn w = (r, w') \<Longrightarrow> \<not> is_ok r \<Longrightarrow>
      committed w' = committed w"
    and run_closes: "run No_Tx fn w = (r, w') \<Longrightarrow> work w' = work w \<and> aborted w' = aborted w"
    and run_no_panic: "run No_Tx fn w \<noteq> (Panic v, w')"
begin

text \<open>A successful call ends with what the body made of the committed database.\<close>

lemma run_ok_body:
  assumes "confined (fn In_Tx)" and "run No_Tx fn w = (Ok x, w')"
  obtains w0 w1 d where "work w0 = Some (committed w)" "\<not> aborted w0" "committed w0 = committed w"
    "tick w0 = Suc (tick w)" "fn In_Tx w0 = (Ok x, w1)" "work w1 = Some d" "committed w' = d"
proof -
  from run_commits [OF assms(2)] obtain w0 w1 where w0: "work w0 = Some (committed w)"
    "\<not> aborted w0" "committed w0 = committed w" "tick w0 = Suc (tick w)"
    and fn: "fn In_Tx w0 = (Ok x, w1)" and res: "\<forall>d. work w1 = Some d \<longrightarrow> committed w' = d"
    by blast
  from confinedD [OF assms(1) _ fn] w0 have "work w1 \<noteq> None" by simp
  then obtain d where "work w1 = Some d" by blast
  with w0 fn res that show thesis by blast
qed

text \<open>All or nothing.\<close>

lemma run_atomic:
  assumes "confined (fn In_Tx)" and "run No_Tx fn w = (r, w')"
  shows "committed w' = committed w \<or> is_ok r"
  using run_rolls_back assms by blast

end

lemma runInTx_Ok:
  "runInTx E fn w = (Ok x, w') \<longleftrightarrow>
     begin_fault E (tick w) = None \<and>
     (\<exists>w1. fn In_Tx (w\<lparr>work := Some (committed w), aborted := False, tick := Suc (tick w)\<rparr>) = (Ok x, w1) \<and>
       \<not> aborted w1 \<and> commit_fault E (tick w1) = None \<and>
       w' = (let closed = w1\<lparr>work := work w, aborted := aborted w, tick := Suc (tick w1)\<rparr> in
             case work w1 of None \<Rightarrow> closed | Some d \<Rightarrow> closed\<lparr>committed := d\<rparr>))"
proof (cases "begin_fault E (tick w)")
  case None
  obtain r1 w1 where "fn In_Tx (w\<lparr>work := Some (committed w), aborted := False,
      tick := Suc (tick w)\<rparr>) = (r1, w1)" by fastforce
  with None show ?thesis
    by (cases r1) (auto simp: runInTx_def Let_def split: option.splits dest!: rollback_with_world)
qed (simp add: runInTx_def)

lemma runInTx_not_ok:
  assumes "confined (fn In_Tx)" and "runInTx E fn w = (r, w')" and "\<not> is_ok r"
  shows "committed w' = committed w"
proof -
  let ?w0 = "w\<lparr>work := Some (committed w), aborted := False, tick := Suc (tick w)\<rparr>"
  obtain r1 w1 where fn: "fn In_Tx ?w0 = (r1, w1)" by fastforce
  from confinedD [OF assms(1) _ this] have "committed w1 = committed w" by simp
  with assms(2,3) fn show ?thesis
    by (cases r1)
      (auto simp: runInTx_def Let_def split: option.splits if_splits dest!: rollback_with_world)
qed

lemma runInTx_closes:
  assumes "runInTx E fn w = (r, w')"
  shows "work w' = work w \<and> aborted w' = aborted w \<and> (\<forall>v. r \<noteq> Panic v)"
  using assms
  by (auto simp: runInTx_def Let_def split: option.splits prod.splits outcome.splits if_splits
      dest!: rollback_with_world)

interpretation storage_tx: transactor "RunInTransaction E" for E
proof unfold_locales
  fix fn :: "ctx \<Rightarrow> 'a act" and w x w'
  assume "RunInTransaction E No_Tx fn w = (Ok x, w')"
  then obtain w1
    where "fn In_Tx (w\<lparr>work := Some (committed w), aborted := False, tick := Suc (tick w)\<rparr>) = (Ok x, w1)"
      and "\<forall>d. work w1 = Some d \<longrightarrow> committed w' = d"
    by (auto simp: RunInTransaction_def runInTx_Ok Let_def)
  then show "\<exists>w0 w1. work w0 = Some (committed w) \<and> \<not> aborted w0 \<and> committed w0 = committed w \<and>
        tick w0 = Suc (tick w) \<and> fn In_Tx w0 = (Ok x, w1) \<and>
        (\<forall>d. work w1 = Some d \<longrightarrow> committed w' = d)"
    by (intro exI [of _ "w\<lparr>work := Some (committed w), aborted := False, tick := Suc (tick w)\<rparr>"]
        exI [of _ w1]) simp
qed (auto simp: RunInTransaction_def intro: runInTx_not_ok dest: runInTx_closes)

lemma RunInTransaction_nested [ok_dest]: "RunInTransaction E In_Tx fn = fn In_Tx"
  by (rule storage_tx.run_nested)

end
