(* ===== verification/Repositories.thy ===== *)
theory Repositories
  imports Tx_Logic
begin

text \<open>
  The repositories of \<open>internal/infrastructure/storage\<close>: how rows become entities and back,
  and how \<open>pgx.ErrNoRows\<close> becomes \<open>domain.ErrNotFound\<close>. A repository's methods take the
  context, whose transaction (if any) \<open>GetQueries\<close> uses. The view of a table as a map from
  identifiers to entities is the abstract store each repository implements (locale
  \<open>entity_store\<close>).
\<close>

section \<open>Rows and entities\<close>

text \<open>
  \<open>nullUUIDToPtr\<close> and \<open>ptrToNullUUID\<close> (convert.go): a \<open>uuid.NullUUID\<close> is the pair of an
  identifier and a validity flag, a pointer is an option.
\<close>

definition nullUUIDToPtr :: "uuid \<times> bool \<Rightarrow> uuid option" where
  "nullUUIDToPtr n = (if \<not> snd n then None else Some (fst n))"

definition ptrToNullUUID :: "uuid option \<Rightarrow> uuid \<times> bool" where
  "ptrToNullUUID p = (case p of None \<Rightarrow> (0, False) | Some i \<Rightarrow> (i, True))"

lemma nullUUID_roundtrip [simp]: "nullUUIDToPtr (ptrToNullUUID p) = p"
  by (cases p) (simp_all add: nullUUIDToPtr_def ptrToNullUUID_def)

text \<open>
  A nullable column holds no identifier when the flag is off, so rows hold the option that
  \<open>nullUUIDToPtr\<close> gives.
\<close>

definition userToRow :: "user \<Rightarrow> pg_user" where
  "userToRow u = \<lparr>pgu_id = user_id u, pgu_role = role_String (user_role u),
     pgu_invited_by = nullUUIDToPtr (ptrToNullUUID (user_invited_by u)),
     pgu_created_at = user_created_at u\<rparr>"

definition rowToUser :: "pg_user \<Rightarrow> err + user" where
  "rowToUser row =
     (case RoleFromString (pgu_role row) of Inl e \<Rightarrow> Inl e
      | Inr r \<Rightarrow> Inr (user_Reconstruct (pgu_id row) r (pgu_invited_by row) (pgu_created_at row)))"

definition credentialToRow :: "credential \<Rightarrow> pg_credential" where
  "credentialToRow c = \<lparr>pgc_id = cred_id c, pgc_external_id = cred_external_id c,
     pgc_user_id = cred_user_id c, pgc_public_key = cred_public_key c,
     pgc_sign_count = cred_sign_count c, pgc_transports = cred_transports c,
     pgc_created_at = cred_created_at c, pgc_revoked_at = cred_revoked_at c\<rparr>"

definition rowToCredential :: "pg_credential \<Rightarrow> credential" where
  "rowToCredential row =
     credential_Reconstruct (pgc_id row) (pgc_external_id row) (pgc_user_id row)
       (pgc_public_key row) (pgc_sign_count row) (pgc_transports row) (pgc_created_at row)
       (pgc_revoked_at row)"

definition inviteToRow :: "invite \<Rightarrow> pg_invite" where
  "inviteToRow i = \<lparr>pgi_id = inv_id i, pgi_created_by = inv_created_by i,
     pgi_code_hash = inv_code_hash i,
     pgi_used_by = nullUUIDToPtr (ptrToNullUUID (inv_used_by i)), pgi_used_at = inv_used_at i,
     pgi_expires_at = inv_expires_at i, pgi_created_at = inv_created_at i\<rparr>"

definition rowToInvite :: "pg_invite \<Rightarrow> invite" where
  "rowToInvite row =
     invite_Reconstruct (pgi_id row) (pgi_created_by row) (pgi_code_hash row) (pgi_used_by row)
       (pgi_used_at row) (pgi_expires_at row) (pgi_created_at row)"

definition sessionToRow :: "session \<Rightarrow> pg_session" where
  "sessionToRow t = \<lparr>pgs_id = ses_id t, pgs_user_id = ses_user_id t,
     pgs_token_hash = ses_token_hash t, pgs_device_info = ses_device_info t,
     pgs_ip_address = ses_ip_address t, pgs_expires_at = ses_expires_at t,
     pgs_revoked_at = ses_revoked_at t, pgs_created_at = ses_created_at t\<rparr>"

definition rowToSession :: "pg_session \<Rightarrow> session" where
  "rowToSession row =
     session_Reconstruct (pgs_id row) (pgs_user_id row) (pgs_token_hash row)
       (pgs_device_info row) (pgs_ip_address row) (pgs_expires_at row) (pgs_revoked_at row)
       (pgs_created_at row)"

definition scopeToPG :: "scope \<Rightarrow> string" where
  "scopeToPG s = (if s = ScopeMain then WrappedKeyScopeMain else WrappedKeyScopeDecoy)"

definition scopeFromPG :: "string \<Rightarrow> scope" where
  "scopeFromPG s = (if s = WrappedKeyScopeMain then ScopeMain else ScopeDecoy)"

definition wrappedKeyToRow :: "wrapped_key \<Rightarrow> pg_wrapped_key" where
  "wrappedKeyToRow k = \<lparr>pgk_id = wk_id k, pgk_user_id = wk_user_id k,
     pgk_credential_id = wk_credential_id k, pgk_scope = scopeToPG (wk_scope k),
     pgk_wrapped_dek = wk_wrapped_dek k, pgk_wrap_algorithm = wk_wrap_algorithm k,
     pgk_created_at = wk_created_at k\<rparr>"

definition rowToWrappedKey :: "pg_wrapped_key \<Rightarrow> wrapped_key" where
  "rowToWrappedKey row =
     key_Reconstruct (pgk_id row) (pgk_user_id row) (pgk_credential_id row)
       (scopeFromPG (pgk_scope row)) (pgk_wrapped_dek row) (pgk_wrap_algorithm row)
       (pgk_created_at row)"

lemmas row_defs =
  rowToUser_def userToRow_def user_Reconstruct_def
  rowToCredential_def credentialToRow_def credential_Reconstruct_def
  rowToInvite_def inviteToRow_def invite_Reconstruct_def
  rowToSession_def sessionToRow_def session_Reconstruct_def
  rowToWrappedKey_def wrappedKeyToRow_def key_Reconstruct_def

text \<open>Reading back what was written, and the other way round.\<close>

lemma rowToUser_userToRow:
  "rowToUser (userToRow u) =
     (if user_role u \<in> {role_Member, role_Admin} then Inr u else Inl (Sentinel User_ErrUnknownRole))"
  by (simp add: row_defs RoleFromString_String)

lemma rowToUser_Inr_iff:
  "rowToUser row = Inr u \<longleftrightarrow> pgu_role row \<in> {UserRoleMember, UserRoleAdmin} \<and> row = userToRow u"
  by (cases row; cases u)
    (auto simp: row_defs RoleFromString_def role_String_def role_defs pg_enum_defs split: if_splits)

lemma rowToUser_total:
  "pgu_role row \<in> {UserRoleMember, UserRoleAdmin} \<Longrightarrow> \<exists>u. rowToUser row = Inr u"
  by (auto simp: rowToUser_def RoleFromString_def role_defs pg_enum_defs)

lemma rowToCredential_credentialToRow [simp]: "rowToCredential (credentialToRow c) = c"
  and credentialToRow_rowToCredential [simp]: "credentialToRow (rowToCredential row) = row"
  by (simp_all add: row_defs)

lemma rowToInvite_inviteToRow [simp]: "rowToInvite (inviteToRow i) = i"
  and inviteToRow_rowToInvite [simp]: "inviteToRow (rowToInvite irow) = irow"
  by (simp_all add: row_defs)

lemma rowToSession_sessionToRow [simp]: "rowToSession (sessionToRow t) = t"
  and sessionToRow_rowToSession [simp]: "sessionToRow (rowToSession srow) = srow"
  by (simp_all add: row_defs)

lemma rowToWrappedKey_wrappedKeyToRow:
  "scope_Valid (wk_scope k) \<Longrightarrow> rowToWrappedKey (wrappedKeyToRow k) = k"
  by (cases k) (auto simp: row_defs scopeFromPG_def scopeToPG_def scope_Valid_def scope_defs pg_enum_defs)

lemma wrappedKeyToRow_rowToWrappedKey:
  "pgk_scope row \<in> {WrappedKeyScopeMain, WrappedKeyScopeDecoy} \<Longrightarrow>
   wrappedKeyToRow (rowToWrappedKey row) = row"
  by (cases row) (auto simp: row_defs scopeFromPG_def scopeToPG_def scope_defs pg_enum_defs)

lemma row_sel [simp]:
  "pgi_id (inviteToRow i) = inv_id i" "pgi_used_by (inviteToRow i) = inv_used_by i"
  "pgi_used_at (inviteToRow i) = inv_used_at i" "pgi_code_hash (inviteToRow i) = inv_code_hash i"
  "pgi_created_by (inviteToRow i) = inv_created_by i"
  "pgi_expires_at (inviteToRow i) = inv_expires_at i"
  "pgs_id (sessionToRow t) = ses_id t" "pgs_user_id (sessionToRow t) = ses_user_id t"
  "pgs_token_hash (sessionToRow t) = ses_token_hash t"
  "pgs_revoked_at (sessionToRow t) = ses_revoked_at t"
  "pgs_expires_at (sessionToRow t) = ses_expires_at t"
  "pgc_id (credentialToRow c) = cred_id c" "pgc_user_id (credentialToRow c) = cred_user_id c"
  "pgc_external_id (credentialToRow c) = cred_external_id c"
  "pgc_sign_count (credentialToRow c) = cred_sign_count c"
  "pgc_revoked_at (credentialToRow c) = cred_revoked_at c"
  "pgu_id (userToRow u) = user_id u" "pgu_invited_by (userToRow u) = user_invited_by u"
  "pgu_role (userToRow u) = role_String (user_role u)"
  by (simp_all add: row_defs)

lemma entity_sel [simp]:
  "inv_id (rowToInvite ir) = pgi_id ir" "inv_used_by (rowToInvite ir) = pgi_used_by ir"
  "inv_used_at (rowToInvite ir) = pgi_used_at ir" "inv_code_hash (rowToInvite ir) = pgi_code_hash ir"
  "inv_created_by (rowToInvite ir) = pgi_created_by ir"
  "inv_expires_at (rowToInvite ir) = pgi_expires_at ir"
  "ses_id (rowToSession sr) = pgs_id sr" "ses_user_id (rowToSession sr) = pgs_user_id sr"
  "ses_token_hash (rowToSession sr) = pgs_token_hash sr"
  "ses_revoked_at (rowToSession sr) = pgs_revoked_at sr"
  "ses_expires_at (rowToSession sr) = pgs_expires_at sr"
  "cred_id (rowToCredential cr) = pgc_id cr" "cred_user_id (rowToCredential cr) = pgc_user_id cr"
  "cred_external_id (rowToCredential cr) = pgc_external_id cr"
  "cred_sign_count (rowToCredential cr) = pgc_sign_count cr"
  "cred_revoked_at (rowToCredential cr) = pgc_revoked_at cr"
  by (simp_all add: row_defs)

section \<open>Methods\<close>

text \<open>\<open>if errors.Is(err, pgx.ErrNoRows) { return domain.ErrNotFound }; return err\<close>.\<close>

definition or_not_found :: "'a act \<Rightarrow> 'a act" where
  "or_not_found m =
     catch m (\<lambda>e. if errors_is e Pgx_ErrNoRows then fail (Sentinel Domain_ErrNotFound) else fail e)"

definition UserRepository_Save :: "env \<Rightarrow> ctx \<Rightarrow> user \<Rightarrow> unit act" where
  "UserRepository_Save E c u = run_stmt E c (SaveUser (userToRow u))"

definition UserRepository_FindByID :: "env \<Rightarrow> ctx \<Rightarrow> uuid \<Rightarrow> user act" where
  "UserRepository_FindByID E c i =
     bind (or_not_found (query_row E c (FindUserByID i))) (\<lambda>row. lift_sum (rowToUser row))"

definition UserRepository_Descendants :: "env \<Rightarrow> ctx \<Rightarrow> uuid \<Rightarrow> uuid list act" where
  "UserRepository_Descendants E c root =
     bind (or_not_found (run_stmt E c (ListDescendantUserIDs root)))
       (\<lambda>ids. if ids = [] then fail (Sentinel Domain_ErrNotFound) else ret ids)"

definition UserRepository_FindRoot :: "env \<Rightarrow> ctx \<Rightarrow> user act" where
  "UserRepository_FindRoot E c =
     bind (or_not_found (query_row E c FindRootUser)) (\<lambda>row. lift_sum (rowToUser row))"

definition CredentialRepository_FindByExternalID :: "env \<Rightarrow> ctx \<Rightarrow> bytes \<Rightarrow> credential act" where
  "CredentialRepository_FindByExternalID E c x =
     bind (or_not_found (query_row E c (FindCredentialByExternalID x)))
       (\<lambda>row. ret (rowToCredential row))"

definition CredentialRepository_FindByUserID :: "env \<Rightarrow> ctx \<Rightarrow> uuid \<Rightarrow> credential list act" where
  "CredentialRepository_FindByUserID E c u =
     bind (run_stmt E c (ListCredentialsByUserID u)) (\<lambda>rows. ret (map rowToCredential rows))"

definition CredentialRepository_Save :: "env \<Rightarrow> ctx \<Rightarrow> credential \<Rightarrow> unit act" where
  "CredentialRepository_Save E c x = run_stmt E c (SaveCredential (credentialToRow x))"

definition InviteRepository_FindByCodeHash :: "env \<Rightarrow> ctx \<Rightarrow> string \<Rightarrow> invite act" where
  "InviteRepository_FindByCodeHash E c h =
     bind (or_not_found (query_row E c (FindInviteByCodeHash h))) (\<lambda>row. ret (rowToInvite row))"

definition InviteRepository_FindByID :: "env \<Rightarrow> ctx \<Rightarrow> uuid \<Rightarrow> invite act" where
  "InviteRepository_FindByID E c i =
     bind (or_not_found (query_row E c (FindInviteByIDForUpdate i))) (\<lambda>row. ret (rowToInvite row))"

definition InviteRepository_Save :: "env \<Rightarrow> ctx \<Rightarrow> invite \<Rightarrow> unit act" where
  "InviteRepository_Save E c i = run_stmt E c (SaveInvite (inviteToRow i))"

definition InviteRepository_CountActiveByUser :: "env \<Rightarrow> ctx \<Rightarrow> uuid \<Rightarrow> time \<Rightarrow> int act" where
  "InviteRepository_CountActiveByUser E c u t =
     bind (run_stmt E c (LockUserByID (uuid_str (lib E) u)))
       (\<lambda>_. run_stmt E c (CountActiveInvitesByUser u t))"

definition SessionRepository_FindByTokenHash :: "env \<Rightarrow> ctx \<Rightarrow> string \<Rightarrow> session act" where
  "SessionRepository_FindByTokenHash E c h =
     bind (or_not_found (query_row E c (FindRefreshTokenByTokenHash h)))
       (\<lambda>row. ret (rowToSession row))"

definition SessionRepository_FindByID :: "env \<Rightarrow> ctx \<Rightarrow> uuid \<Rightarrow> session act" where
  "SessionRepository_FindByID E c i =
     bind (or_not_found (query_row E c (FindRefreshTokenByIDForUpdate i)))
       (\<lambda>row. ret (rowToSession row))"

definition SessionRepository_FindActiveByUserIDs ::
  "env \<Rightarrow> ctx \<Rightarrow> uuid list \<Rightarrow> time \<Rightarrow> session list act" where
  "SessionRepository_FindActiveByUserIDs E c us t =
     bind (run_stmt E c (ListActiveRefreshTokensByUserIDs us t))
       (\<lambda>rows. ret (map rowToSession rows))"

text \<open>
  The batch stops at its first failing statement, which is the error the loop over the
  results keeps; the close of the batch reports no other.
\<close>

definition SessionRepository_Save :: "env \<Rightarrow> ctx \<Rightarrow> session list \<Rightarrow> unit act" where
  "SessionRepository_Save E c ts = run_stmt E c (SaveRefreshTokens (map sessionToRow ts))"

definition WrappedKeyRepository_Save :: "env \<Rightarrow> ctx \<Rightarrow> wrapped_key list \<Rightarrow> unit act" where
  "WrappedKeyRepository_Save E c ks =
     bind (run_stmt E c (SaveWrappedKeys (map wrappedKeyToRow ks))) (\<lambda>_. ret ())"

definition WrappedKeyRepository_FindByCredentialID :: "env \<Rightarrow> ctx \<Rightarrow> uuid \<Rightarrow> wrapped_key list act" where
  "WrappedKeyRepository_FindByCredentialID E c i =
     bind (or_not_found (run_stmt E c (ListWrappedKeysByCredentialID i)))
       (\<lambda>rows. if rows = [] then fail (Sentinel Domain_ErrNotFound)
               else ret (map rowToWrappedKey rows))"

lemmas repository_defs =
  UserRepository_Save_def UserRepository_FindByID_def UserRepository_Descendants_def
  UserRepository_FindRoot_def CredentialRepository_FindByExternalID_def
  CredentialRepository_FindByUserID_def CredentialRepository_Save_def
  InviteRepository_FindByCodeHash_def InviteRepository_FindByID_def InviteRepository_Save_def
  InviteRepository_CountActiveByUser_def SessionRepository_FindByTokenHash_def
  SessionRepository_FindByID_def SessionRepository_FindActiveByUserIDs_def
  SessionRepository_Save_def WrappedKeyRepository_Save_def
  WrappedKeyRepository_FindByCredentialID_def

section \<open>Rules for the methods\<close>

lemma keeps_or_not_found [keeps_rules]: "keeps I m \<Longrightarrow> keeps I (or_not_found m)"
  unfolding or_not_found_def by (intro keeps_rules)

lemma confined_or_not_found [confined_rules]: "confined m \<Longrightarrow> confined (or_not_found m)"
  unfolding or_not_found_def by (intro confined_rules)

lemma or_not_found_Ok [ok_dest]: "or_not_found m w = (Ok x, w') \<longleftrightarrow> m w = (Ok x, w')"
  by (auto simp: or_not_found_def catch_Ok split: if_splits)

lemma keeps_reads [keeps_rules]:
  "keeps I (query_row E c FindRootUser)" "keeps I (query_row E c (FindUserByID i))"
  "keeps I (run_stmt E c (ListDescendantUserIDs i))"
  "keeps I (query_row E c (FindCredentialByExternalID x))"
  "keeps I (run_stmt E c (ListCredentialsByUserID i))"
  "keeps I (run_stmt E c (CountActiveInvitesByUser i t))" "keeps I (run_stmt E c (LockUserByID h))"
  "keeps I (query_row E c (FindInviteByCodeHash h))" "keeps I (query_row E c (FindInviteByIDForUpdate i))"
  "keeps I (query_row E c (FindRefreshTokenByTokenHash h))"
  "keeps I (query_row E c (FindRefreshTokenByIDForUpdate i))"
  "keeps I (run_stmt E c (ListActiveRefreshTokensByUserIDs is t))"
  "keeps I (run_stmt E c (ListWrappedKeysByCredentialID i))"
  by (rule keeps_read keeps_read_row, erule reads_only)+

lemma keeps_repository_reads [keeps_rules]:
  "keeps I (UserRepository_FindByID E c i)" "keeps I (UserRepository_Descendants E c i)"
  "keeps I (UserRepository_FindRoot E c)" "keeps I (CredentialRepository_FindByExternalID E c x)"
  "keeps I (CredentialRepository_FindByUserID E c i)" "keeps I (InviteRepository_FindByCodeHash E c h)"
  "keeps I (InviteRepository_FindByID E c i)" "keeps I (InviteRepository_CountActiveByUser E c i t)"
  "keeps I (SessionRepository_FindByTokenHash E c h)" "keeps I (SessionRepository_FindByID E c i)"
  "keeps I (SessionRepository_FindActiveByUserIDs E c is t)"
  "keeps I (WrappedKeyRepository_FindByCredentialID E c i)"
  unfolding repository_defs by (intro keeps_rules)+

lemma keeps_writes [keeps_rules]:
  "keeps db_ok (run_stmt E c (SaveUser ru))" "keeps db_ok (run_stmt E c (SaveCredential rc))"
  "keeps db_ok (run_stmt E c (SaveInvite ri))" "keeps db_ok (run_stmt E c (SaveRefreshTokens rs))"
  "keeps db_ok (run_stmt E c (SaveWrappedKeys rk))"
  by (auto intro!: keeps_run_stmt
      intro: SaveUser_ok SaveCredential_ok SaveInvite_ok SaveRefreshTokens_ok SaveWrappedKeys_ok)

lemma keeps_repository_writes [keeps_rules]:
  "keeps db_ok (UserRepository_Save E c u)" "keeps db_ok (CredentialRepository_Save E c x)"
  "keeps db_ok (InviteRepository_Save E c i)" "keeps db_ok (SessionRepository_Save E c ts)"
  "keeps db_ok (WrappedKeyRepository_Save E c ks)"
  unfolding repository_defs
  by (intro keeps_rules)+

lemma confined_repositories [confined_rules]:
  "confined (UserRepository_FindByID E In_Tx i)" "confined (UserRepository_Descendants E In_Tx i)"
  "confined (UserRepository_FindRoot E In_Tx)"
  "confined (CredentialRepository_FindByExternalID E In_Tx x)"
  "confined (CredentialRepository_FindByUserID E In_Tx i)"
  "confined (InviteRepository_FindByCodeHash E In_Tx h)" "confined (InviteRepository_FindByID E In_Tx i)"
  "confined (InviteRepository_CountActiveByUser E In_Tx i t)"
  "confined (SessionRepository_FindByTokenHash E In_Tx h)" "confined (SessionRepository_FindByID E In_Tx i)"
  "confined (SessionRepository_FindActiveByUserIDs E In_Tx is t)"
  "confined (WrappedKeyRepository_FindByCredentialID E In_Tx i)"
  "confined (UserRepository_Save E In_Tx u)" "confined (CredentialRepository_Save E In_Tx cr)"
  "confined (InviteRepository_Save E In_Tx v)" "confined (SessionRepository_Save E In_Tx ts)"
  "confined (WrappedKeyRepository_Save E In_Tx ks)"
  unfolding repository_defs by (intro confined_rules)+

text \<open>
  What a successful call inside a transaction tells: the working copy before and after.
  \<open>in_tx w d w' d'\<close> is a run that found \<open>d\<close> and left \<open>d'\<close>.
\<close>

definition in_tx :: "world \<Rightarrow> database \<Rightarrow> world \<Rightarrow> database \<Rightarrow> bool" where
  "in_tx w d w' d' \<longleftrightarrow>
     work w = Some d \<and> \<not> aborted w \<and> work w' = Some d' \<and> \<not> aborted w' \<and>
     committed w' = committed w"

lemma in_tx_tick [simp]:
  "in_tx (w\<lparr>tick := n\<rparr>) d w' d' \<longleftrightarrow> in_tx w d w' d'"
  "in_tx w d (w'\<lparr>tick := n\<rparr>) d' \<longleftrightarrow> in_tx w d w' d'"
  by (auto simp: in_tx_def)

lemma in_tx_work: "in_tx w d w' d' \<Longrightarrow> work w = Some d \<and> work w' = Some d'"
  by (simp add: in_tx_def)

lemma in_tx_next: "in_tx w d w1 d1 \<Longrightarrow> in_tx w1 d2 w2 d3 \<Longrightarrow> d2 = d1"
  by (simp add: in_tx_def)

lemma in_tx_trans: "in_tx w d w1 d1 \<Longrightarrow> in_tx w1 d2 w2 d3 \<Longrightarrow> in_tx w d w2 d3 \<and> d2 = d1"
  by (simp add: in_tx_def)

lemma in_tx_stmt:
  "run_stmt E In_Tx q w = (Ok x, w') \<Longrightarrow> \<exists>d d'. in_tx w d w' d' \<and> q d = Inr (x, d')"
  by (auto simp: run_stmt_tx_Ok in_tx_def)

lemma in_tx_query_row:
  "query_row E In_Tx q w = (Ok x, w') \<Longrightarrow> \<exists>d d'. in_tx w d w' d' \<and> q d = Inr (Some x, d')"
  by (simp add: query_row_Ok in_tx_stmt)

lemma UserRepository_FindByID_tx:
  "UserRepository_FindByID E In_Tx i w = (Ok u, w') \<Longrightarrow>
   \<exists>d row. in_tx w d w' d \<and> find (\<lambda>r. pgu_id r = i) (users d) = Some row \<and> rowToUser row = Inr u"
  by (auto simp: UserRepository_FindByID_def ok_dest FindUserByID_def in_tx_def)

lemma UserRepository_FindRoot_tx:
  "UserRepository_FindRoot E In_Tx w = (Ok u, w') \<Longrightarrow>
   \<exists>d row. in_tx w d w' d \<and> find (\<lambda>r. pgu_invited_by r = None) (users d) = Some row \<and>
     rowToUser row = Inr u"
  by (auto simp: UserRepository_FindRoot_def ok_dest FindRootUser_def in_tx_def)

lemma UserRepository_Descendants_tx:
  "UserRepository_Descendants E In_Tx i w = (Ok ids, w') \<Longrightarrow>
   \<exists>d. in_tx w d w' d \<and> descendant_ids i d = Some ids \<and> ids \<noteq> []"
  by (auto simp: UserRepository_Descendants_def ok_dest ListDescendantUserIDs_def in_tx_def
      split: option.splits if_splits)

lemma CredentialRepository_FindByExternalID_tx:
  "CredentialRepository_FindByExternalID E In_Tx x w = (Ok c, w') \<Longrightarrow>
   \<exists>d row. in_tx w d w' d \<and> find (\<lambda>r. pgc_external_id r = x) (credentials d) = Some row \<and>
     c = rowToCredential row"
  by (auto simp: CredentialRepository_FindByExternalID_def ok_dest FindCredentialByExternalID_def
      in_tx_def)

lemma CredentialRepository_Save_tx:
  "CredentialRepository_Save E In_Tx c w = (Ok u, w') \<Longrightarrow>
   \<exists>d d'. in_tx w d w' d' \<and> SaveCredential (credentialToRow c) d = Inr ((), d')"
  by (auto simp: CredentialRepository_Save_def dest!: in_tx_stmt)

lemma UserRepository_Save_tx:
  "UserRepository_Save E In_Tx v w = (Ok u, w') \<Longrightarrow>
   \<exists>d d'. in_tx w d w' d' \<and> SaveUser (userToRow v) d = Inr ((), d')"
  by (auto simp: UserRepository_Save_def dest!: in_tx_stmt)

lemma InviteRepository_FindByID_tx:
  "InviteRepository_FindByID E In_Tx i w = (Ok v, w') \<Longrightarrow>
   \<exists>d row. in_tx w d w' d \<and> find (\<lambda>r. pgi_id r = i) (invites d) = Some row \<and> v = rowToInvite row"
  by (auto simp: InviteRepository_FindByID_def ok_dest FindInviteByIDForUpdate_def in_tx_def)

lemma InviteRepository_Save_tx:
  "InviteRepository_Save E In_Tx v w = (Ok u, w') \<Longrightarrow>
   \<exists>d d'. in_tx w d w' d' \<and> SaveInvite (inviteToRow v) d = Inr ((), d')"
  by (auto simp: InviteRepository_Save_def dest!: in_tx_stmt)

lemma InviteRepository_CountActiveByUser_tx:
  "InviteRepository_CountActiveByUser E In_Tx u t w = (Ok n, w') \<Longrightarrow>
   \<exists>d. in_tx w d w' d \<and> CountActiveInvitesByUser u t d = Inr (n, d)"
  by (auto simp: InviteRepository_CountActiveByUser_def ok_dest LockUserByID_def
      CountActiveInvitesByUser_def in_tx_def)

lemma SessionRepository_FindByTokenHash_tx:
  "SessionRepository_FindByTokenHash E In_Tx h w = (Ok t, w') \<Longrightarrow>
   \<exists>d row. in_tx w d w' d \<and> find (\<lambda>r. pgs_token_hash r = h) (sessions d) = Some row \<and>
     t = rowToSession row"
  by (auto simp: SessionRepository_FindByTokenHash_def ok_dest FindRefreshTokenByTokenHash_def
      in_tx_def)

lemma SessionRepository_FindByID_tx:
  "SessionRepository_FindByID E In_Tx i w = (Ok t, w') \<Longrightarrow>
   \<exists>d row. in_tx w d w' d \<and> find (\<lambda>r. pgs_id r = i) (sessions d) = Some row \<and> t = rowToSession row"
  by (auto simp: SessionRepository_FindByID_def ok_dest FindRefreshTokenByIDForUpdate_def in_tx_def)

lemma SessionRepository_FindActiveByUserIDs_tx:
  "SessionRepository_FindActiveByUserIDs E In_Tx us t w = (Ok ts, w') \<Longrightarrow>
   \<exists>d. in_tx w d w' d \<and> ts = map rowToSession (filter (pgs_active us t) (sessions d))"
  by (auto simp: SessionRepository_FindActiveByUserIDs_def ok_dest
      ListActiveRefreshTokensByUserIDs_def in_tx_def)

lemma SessionRepository_Save_tx:
  "SessionRepository_Save E In_Tx ts w = (Ok u, w') \<Longrightarrow>
   \<exists>d d'. in_tx w d w' d' \<and> SaveRefreshTokens (map sessionToRow ts) d = Inr ((), d')"
  by (auto simp: SessionRepository_Save_def dest!: in_tx_stmt)

lemma WrappedKeyRepository_FindByCredentialID_tx:
  "WrappedKeyRepository_FindByCredentialID E In_Tx i w = (Ok ks, w') \<Longrightarrow>
   \<exists>d. in_tx w d w' d \<and> ks \<noteq> [] \<and>
     ks = map rowToWrappedKey (filter (\<lambda>k. pgk_credential_id k = i) (wrapped_keys d))"
  by (auto simp: WrappedKeyRepository_FindByCredentialID_def ok_dest
      ListWrappedKeysByCredentialID_def in_tx_def split: if_splits)

lemma WrappedKeyRepository_Save_tx:
  "WrappedKeyRepository_Save E In_Tx ks w = (Ok u, w') \<Longrightarrow>
   \<exists>d d' n. in_tx w d w' d' \<and> SaveWrappedKeys (map wrappedKeyToRow ks) d = Inr (n, d')"
  by (auto simp: WrappedKeyRepository_Save_def ok_dest in_tx_def)

lemmas repository_tx =
  UserRepository_FindByID_tx UserRepository_FindRoot_tx UserRepository_Descendants_tx
  CredentialRepository_FindByExternalID_tx CredentialRepository_Save_tx UserRepository_Save_tx
  InviteRepository_FindByID_tx InviteRepository_Save_tx InviteRepository_CountActiveByUser_tx
  SessionRepository_FindByTokenHash_tx SessionRepository_FindByID_tx
  SessionRepository_FindActiveByUserIDs_tx SessionRepository_Save_tx
  WrappedKeyRepository_FindByCredentialID_tx WrappedKeyRepository_Save_tx

section \<open>The contract of a repository\<close>

text \<open>
  What the use cases rely on when they find an entity, change it and save it inside one
  transaction. \<open>view\<close> reads the stored entities, \<open>merge old new\<close> is what a save leaves of an
  entity that is already stored.
\<close>

locale entity_store =
  fixes find_by :: "uuid \<Rightarrow> 'e act"
    and save :: "'e \<Rightarrow> unit act"
    and view :: "database \<Rightarrow> uuid \<Rightarrow> 'e option"
    and ident :: "'e \<Rightarrow> uuid"
    and merge :: "'e \<Rightarrow> 'e \<Rightarrow> 'e"
  assumes find_law: "find_by i w = (Ok e, w') \<Longrightarrow> \<exists>d. in_tx w d w' d \<and> view d i = Some e"
    and save_law: "save e w = (Ok (), w') \<Longrightarrow>
      \<exists>d d'. in_tx w d w' d' \<and>
        (\<forall>i. view d' i = (if i = ident e
                          then Some (case view d i of None \<Rightarrow> e | Some x \<Rightarrow> merge x e)
                          else view d i))"
begin

text \<open>Find, change, save, find again: the second find returns the merged entity.\<close>

lemma find_save_find:
  assumes "find_by i w = (Ok e, w1)" and "save e' w1 = (Ok (), w2)" and "ident e' = i"
    and "find_by i w2 = (Ok e2, w3)"
  shows "e2 = merge e e'"
proof -
  obtain d where d: "in_tx w d w1 d" "view d i = Some e" using find_law [OF assms(1)] by blast
  obtain d1 d2 where d2: "in_tx w1 d1 w2 d2"
    "view d2 i = Some (case view d1 i of None \<Rightarrow> e' | Some x \<Rightarrow> merge x e')"
    using save_law [OF assms(2)] assms(3) by auto
  obtain d3 where d3: "in_tx w2 d3 w3 d3" "view d3 i = Some e2" using find_law [OF assms(4)] by blast
  have "d1 = d" "d3 = d2" using in_tx_next d(1) d2(1) d3(1) by blast+
  with d(2) d2(2) d3(2) show ?thesis by simp
qed

text \<open>A save leaves every other entity alone.\<close>

lemma save_find_other:
  assumes "save e w = (Ok (), w1)" and "i \<noteq> ident e" and "find_by i w1 = (Ok e2, w2)"
  shows "\<exists>d. work w = Some d \<and> view d i = Some e2"
proof -
  obtain d d' where d: "in_tx w d w1 d'" "view d' i = view d i"
    using save_law [OF assms(1)] assms(2) by auto
  obtain d3 where d3: "in_tx w1 d3 w2 d3" "view d3 i = Some e2" using find_law [OF assms(3)] by blast
  have "d3 = d'" "work w = Some d" using in_tx_next in_tx_work d(1) d3(1) by blast+
  with d(2) d3(2) show ?thesis by simp
qed

end

definition invite_view :: "database \<Rightarrow> uuid \<Rightarrow> invite option" where
  "invite_view d i = map_option rowToInvite (find (\<lambda>r. pgi_id r = i) (invites d))"

definition session_view :: "database \<Rightarrow> uuid \<Rightarrow> session option" where
  "session_view d i = map_option rowToSession (find (\<lambda>r. pgs_id r = i) (sessions d))"

definition redeemed_as :: "invite \<Rightarrow> invite \<Rightarrow> invite" where
  "redeemed_as old new = old\<lparr>inv_used_by := inv_used_by new, inv_used_at := inv_used_at new\<rparr>"

definition revoked_as :: "session \<Rightarrow> session \<Rightarrow> session" where
  "revoked_as old new = old\<lparr>ses_revoked_at := ses_revoked_at new\<rparr>"

lemma rowToInvite_merge:
  "rowToInvite (merge_invite r (inviteToRow i)) = redeemed_as (rowToInvite r) i"
  by (simp add: redeemed_as_def merge_invite_def row_defs)

lemma rowToSession_merge:
  "rowToSession (merge_session r (sessionToRow t)) = revoked_as (rowToSession r) t"
  by (simp add: revoked_as_def merge_session_def row_defs)

lemma SaveRefreshTokens_single:
  "SaveRefreshTokens [r] d = Inr ((), d') \<longleftrightarrow> upsert_session r d = Inr ((), d')"
  by (auto split: sum.splits)

interpretation invite_store: entity_store "InviteRepository_FindByID E In_Tx"
    "InviteRepository_Save E In_Tx" invite_view inv_id redeemed_as for E
proof unfold_locales
  show "InviteRepository_FindByID E In_Tx i w = (Ok e, w') \<Longrightarrow>
        \<exists>d. in_tx w d w' d \<and> invite_view d i = Some e" for i w e w'
    by (auto simp: invite_view_def dest!: InviteRepository_FindByID_tx)
next
  fix e w w' assume "InviteRepository_Save E In_Tx e w = (Ok (), w')"
  then obtain d d' where "in_tx w d w' d'" and s: "SaveInvite (inviteToRow e) d = Inr ((), d')"
    by (blast dest: InviteRepository_Save_tx)
  with inv_tab.lookup_save [OF s]
  show "\<exists>d d'. in_tx w d w' d' \<and>
      (\<forall>i. invite_view d' i = (if i = inv_id e
           then Some (case invite_view d i of None \<Rightarrow> e | Some x \<Rightarrow> redeemed_as x e)
           else invite_view d i))"
    by (intro exI [of _ d] exI [of _ d'])
      (auto simp: invite_view_def rowToInvite_merge split: option.splits)
qed

interpretation session_store: entity_store "SessionRepository_FindByID E In_Tx"
    "\<lambda>t. SessionRepository_Save E In_Tx [t]" session_view ses_id revoked_as for E
proof unfold_locales
  show "SessionRepository_FindByID E In_Tx i w = (Ok e, w') \<Longrightarrow>
        \<exists>d. in_tx w d w' d \<and> session_view d i = Some e" for i w e w'
    by (auto simp: session_view_def dest!: SessionRepository_FindByID_tx)
next
  fix e w w' assume "SessionRepository_Save E In_Tx [e] w = (Ok (), w')"
  then obtain d d' where "in_tx w d w' d'" and "SaveRefreshTokens [sessionToRow e] d = Inr ((), d')"
    by (auto dest: SessionRepository_Save_tx)
  moreover from this have s: "upsert_session (sessionToRow e) d = Inr ((), d')"
    by (simp only: SaveRefreshTokens_single)
  ultimately show "\<exists>d d'. in_tx w d w' d' \<and>
      (\<forall>i. session_view d' i = (if i = ses_id e
           then Some (case session_view d i of None \<Rightarrow> e | Some x \<Rightarrow> revoked_as x e)
           else session_view d i))"
    using ses_tab.lookup_save [OF s]
    by (intro exI [of _ d] exI [of _ d'])
      (auto simp: session_view_def rowToSession_merge split: option.splits)
qed

end
