(* ===== verification/Crypto.thy ===== *)
theory Crypto
  imports Tx_Logic Domain_User
begin

text \<open>
  \<open>internal/infrastructure/crypto\<close>: the secret manager (random codes and their keyed hashes,
  in base32), the codec of encrypted challenge tokens, and the issuer and verifier of signed
  access tokens. HMAC-SHA256 and PASETO are parameters (\<open>libs\<close>); base32 is modelled bit by
  bit, so that what the source says of lengths and distinctness can be proved.
\<close>

section \<open>Base32 without padding\<close>

definition b32_alphabet :: string where
  "b32_alphabet = ''ABCDEFGHIJKLMNOPQRSTUVWXYZ234567''"

text \<open>The bits of a byte, most significant first; the number a group of bits stands for.\<close>

definition byte_bits :: "8 word \<Rightarrow> bool list" where
  "byte_bits b = map (\<lambda>i. bit b (7 - i)) [0..<8]"

definition bits_value :: "bool list \<Rightarrow> nat" where
  "bits_value bs = foldl (\<lambda>n b. 2 * n + of_bool b) 0 bs"

text \<open>Groups of five bits; the last one is filled up with zeros.\<close>

fun quintets :: "bool list \<Rightarrow> bool list list" where
  "quintets (a # b # c # d # e # rest) = [a, b, c, d, e] # quintets rest"
| "quintets [] = []"
| "quintets bs = [take 5 (bs @ [False, False, False, False])]"

definition b32_encode :: "bytes \<Rightarrow> string" where
  "b32_encode bs =
     map (\<lambda>q. b32_alphabet ! bits_value q) (quintets (concat (map byte_bits bs)))"

section \<open>secret_manager.go\<close>

record secret_manager =
  sm_secretKey :: bytes

text \<open>\<open>stringToBytes\<close>: a string's bytes, without a copy.\<close>

definition stringToBytes :: "string \<Rightarrow> bytes" where
  "stringToBytes s = map (\<lambda>c. word_of_nat (of_char c)) s"

definition SecretManager_String :: "secret_manager option \<Rightarrow> string" where
  "SecretManager_String sm =
     (case sm of None \<Rightarrow> ''<nil>'' | Some _ \<Rightarrow> ''SecretManager{secretKey: ***REDACTED***}'')"

definition generateRandomBase32 :: "env \<Rightarrow> int \<Rightarrow> string act" where
  "generateRandomBase32 E n =
     (if n < 0 \<or> n > push_bit 20 1 then fail (External ''crypto: invalid length'')
      else bind (rand_read E (nat n)) (\<lambda>buf. ret (b32_encode buf)))"

definition generateHashBase32 :: "libs \<Rightarrow> secret_manager \<Rightarrow> string \<Rightarrow> string" where
  "generateHashBase32 L sm raw = b32_encode (hmac_sha256 L (sm_secretKey sm) (stringToBytes raw))"

definition SecretManager_GenerateHash :: "env \<Rightarrow> secret_manager \<Rightarrow> string \<Rightarrow> string act" where
  "SecretManager_GenerateHash E sm raw = ret (generateHashBase32 (lib E) sm raw)"

definition SecretManager_GenerateToken :: "env \<Rightarrow> secret_manager \<Rightarrow> int \<Rightarrow> (string \<times> string) act" where
  "SecretManager_GenerateToken E sm n =
     bind (generateRandomBase32 E n)
       (\<lambda>raw. bind (SecretManager_GenerateHash E sm raw) (\<lambda>hash. ret (raw, hash)))"

section \<open>token_codec.go\<close>

record token_codec =
  tk_privateKey :: bytes

definition TokenCodec_String :: "token_codec option \<Rightarrow> string" where
  "TokenCodec_String sc =
     (case sc of None \<Rightarrow> ''<nil>'' | Some _ \<Rightarrow> ''TokenCodec{privateKey: ***REDACTED***}'')"

definition TokenCodec_Encode :: "env \<Rightarrow> token_codec \<Rightarrow> challenge_data \<Rightarrow> duration \<Rightarrow> string act" where
  "TokenCodec_Encode E sc payload ttl =
     bind (lift_sum (challenge_marshal (lib E) payload)) (\<lambda>raw.
     bind (now E) (\<lambda>t.
     lib_call (\<lambda>tk. Inr (v4_encrypt (lib E) tk (tk_privateKey sc)
       \<lparr>tc_exp = t + ttl, tc_strings = [(''payload'', raw)]\<rparr>))))"

text \<open>\<open>Decode\<close> into the type that \<open>unmarshal\<close> reads.\<close>

definition TokenCodec_Decode ::
  "env \<Rightarrow> token_codec \<Rightarrow> string \<Rightarrow> (string \<Rightarrow> err + 'a) \<Rightarrow> 'a act" where
  "TokenCodec_Decode E sc tokenStr unmarshal =
     bind (now E) (\<lambda>t.
       case v4_parse_local (lib E) (tk_privateKey sc) t tokenStr of
         Inl (Rule_Error m) \<Rightarrow> fail (Joined [Sentinel Crypto_ErrTokenExpired, External m])
       | Inl (Other_Parse_Error _) \<Rightarrow> fail (Sentinel Crypto_ErrTokenMalformed)
       | Inr token \<Rightarrow>
           (case claim_GetString token ''payload'' of
              Inl _ \<Rightarrow> fail (Sentinel Crypto_ErrTokenMalformed)
            | Inr raw \<Rightarrow> lift_sum (unmarshal raw)))"

section \<open>token_issuer.go and token_verifier.go\<close>

record access_token_issuer =
  ti_secretKey :: bytes

definition AccessTokenIssuer_String :: "access_token_issuer option \<Rightarrow> string" where
  "AccessTokenIssuer_String ti =
     (case ti of None \<Rightarrow> ''<nil>'' | Some _ \<Rightarrow> ''AccessTokenIssuer{secretKey: ***REDACTED***}'')"

definition IssueAccessToken ::
  "env \<Rightarrow> access_token_issuer \<Rightarrow> uuid \<Rightarrow> role \<Rightarrow> duration \<Rightarrow> string act" where
  "IssueAccessToken E ti user r ttl =
     bind (now E) (\<lambda>t.
     ret (v4_sign (lib E) (ti_secretKey ti)
       \<lparr>tc_exp = t + ttl,
        tc_strings = [(''user_id'', uuid_str (lib E) user), (''role'', role_String r)]\<rparr>))"

record access_token_verifier =
  tv_publicKey :: bytes

definition AccessTokenVerifier_String :: "access_token_verifier option \<Rightarrow> string" where
  "AccessTokenVerifier_String tv =
     (case tv of None \<Rightarrow> ''<nil>'' | Some _ \<Rightarrow> ''AccessTokenVerifier{publicKey: ***REDACTED***}'')"

definition Verify :: "env \<Rightarrow> access_token_verifier \<Rightarrow> string \<Rightarrow> (uuid \<times> role) act" where
  "Verify E tv tokenStr =
     bind (now E) (\<lambda>t.
       case v4_parse_public (lib E) (tv_publicKey tv) t tokenStr of
         Inl (Rule_Error m) \<Rightarrow> fail (Joined [Sentinel Crypto_ErrTokenExpired, External m])
       | Inl (Other_Parse_Error _) \<Rightarrow> fail (Sentinel Crypto_ErrTokenMalformed)
       | Inr token \<Rightarrow>
           (case claim_GetString token ''user_id'' of
              Inl _ \<Rightarrow> fail (Sentinel Crypto_ErrTokenMalformed)
            | Inr raw \<Rightarrow>
                (case uuid_parse (lib E) raw of
                   Inl _ \<Rightarrow> fail (Sentinel Crypto_ErrTokenMalformed)
                 | Inr user \<Rightarrow>
                     (case claim_GetString token ''role'' of
                        Inl _ \<Rightarrow> fail (Sentinel Crypto_ErrTokenMalformed)
                      | Inr rawRole \<Rightarrow>
                          (case RoleFromString rawRole of
                             Inl _ \<Rightarrow> fail (Sentinel Crypto_ErrTokenMalformed)
                           | Inr r \<Rightarrow> ret (user, r))))))"

section \<open>Base32: length and distinctness\<close>

lemma length_byte_bits [simp]: "length (byte_bits b) = 8"
  by (simp add: byte_bits_def)

lemma length_bits: "length (concat (map byte_bits bs)) = 8 * length bs"
  by (induction bs) auto

lemma length_quintets: "length (quintets bs) = (length bs + 4) div 5"
  by (induction bs rule: quintets.induct) auto

lemma length_quintet: "q \<in> set (quintets bs) \<Longrightarrow> length q = 5"
  by (induction bs rule: quintets.induct) auto

lemma b32_encode_length: "length (b32_encode bs) = (8 * length bs + 4) div 5"
  by (simp add: b32_encode_def length_quintets length_bits)

lemma concat_quintets: "take (length bs) (concat (quintets bs)) = bs"
  by (induction bs rule: quintets.induct) auto

lemma bits_value_inj:
  assumes "length p = length q" and "bits_value p = bits_value q"
  shows "p = q"
  using assms
proof (induction p arbitrary: q rule: rev_induct)
  case (snoc x xs)
  from snoc.prems(1) obtain y ys where q: "q = ys @ [y]" and "length xs = length ys"
    by (cases q rule: rev_cases) auto
  moreover have "2 * bits_value xs + of_bool x = 2 * bits_value ys + (of_bool y :: nat)"
    using snoc.prems(2) q by (simp add: bits_value_def)
  then have "x = y" and "bits_value xs = bits_value ys"
    by (cases x; cases y; simp; presburger)+
  ultimately show ?case using snoc.IH by simp
qed simp

lemma bits_value_less: "bits_value bs < 2 ^ length bs"
proof (induction bs rule: rev_induct)
  case (snoc x xs)
  then show ?case by (cases x) (simp_all add: bits_value_def)
qed (simp add: bits_value_def)

lemma b32_alphabet_distinct: "distinct b32_alphabet" "length b32_alphabet = 32"
  by (simp_all add: b32_alphabet_def)

lemma nth_byte_bits: "i < 8 \<Longrightarrow> byte_bits b ! i = bit b (7 - i)"
  by (simp add: byte_bits_def del: upt_Suc)

lemma byte_bits_inj:
  assumes "byte_bits a = byte_bits b"
  shows "a = b"
proof (rule bit_word_eqI)
  fix n assume "n < LENGTH(8)"
  then have n: "7 - n < 8" "7 - (7 - n) = n" by auto
  show "bit a n = bit b n"
    using nth_byte_bits [OF n(1), of a] nth_byte_bits [OF n(1), of b] assms n(2) by simp
qed

lemma concat_byte_bits_inj:
  "concat (map byte_bits as) = concat (map byte_bits bs) \<Longrightarrow> as = bs"
proof (induction as arbitrary: bs)
  case Nil
  then show ?case by (cases bs) (auto simp: byte_bits_def)
next
  case (Cons a as)
  then obtain b bs' where "bs = b # bs'" by (cases bs) (auto simp: byte_bits_def)
  with Cons.prems have "byte_bits a @ concat (map byte_bits as) = byte_bits b @ concat (map byte_bits bs')"
    by simp
  then have "byte_bits a = byte_bits b \<and> concat (map byte_bits as) = concat (map byte_bits bs')"
    by (subst (asm) append_eq_append_conv) simp_all
  then have "a = b" and "as = bs'" using Cons.IH byte_bits_inj by blast+
  with \<open>bs = b # bs'\<close> show ?case by simp
qed

lemma quintet_char_inj:
  assumes "q \<in> set (quintets xs)" and "r \<in> set (quintets ys)"
    and "b32_alphabet ! bits_value q = b32_alphabet ! bits_value r"
  shows "q = r"
proof -
  have "bits_value q < 32" "bits_value r < 32"
    using bits_value_less [of q] bits_value_less [of r] assms(1,2) by (simp_all add: length_quintet)
  then have "bits_value q = bits_value r"
    using nth_eq_iff_index_eq [OF b32_alphabet_distinct(1)] assms(3)
    by (simp add: b32_alphabet_distinct(2))
  with assms(1,2) show ?thesis by (simp add: bits_value_inj length_quintet)
qed

lemma ceil_mono: "n < m \<Longrightarrow> (8 * n + 4) div 5 < (8 * m + 4) div (5 :: nat)"
  using div_le_mono [of "8 * n + 4 + 5" "8 * m + 4" 5] by simp

lemma b32_encode_inj:
  assumes "b32_encode as = b32_encode bs"
  shows "as = bs"
proof -
  let ?A = "concat (map byte_bits as)" and ?B = "concat (map byte_bits bs)"
  have "length (b32_encode as) = length (b32_encode bs)" using assms by simp
  then have len: "length as = length bs"
    using ceil_mono [of "length as" "length bs"] ceil_mono [of "length bs" "length as"]
    by (metis b32_encode_length less_irrefl linorder_neqE_nat)
  have "quintets ?A = quintets ?B"
    by (rule map_inj_on [OF assms [unfolded b32_encode_def]])
      (auto intro: inj_onI quintet_char_inj)
  then have "?A = ?B" by (metis concat_quintets len length_bits)
  then show ?thesis by (rule concat_byte_bits_inj)
qed

text \<open>The entropy source fills the buffer it was given.\<close>

definition entropy_full :: "env \<Rightarrow> bool" where
  "entropy_full E \<longleftrightarrow> (\<forall>t n bs. entropy E t n = Inr bs \<longrightarrow> length bs = n)"

lemma GenerateToken_Ok:
  "SecretManager_GenerateToken E sm n w = (Ok (raw, hash), w') \<longleftrightarrow>
     0 \<le> n \<and> n \<le> 1048576 \<and>
     (\<exists>bs. entropy E (tick w) (nat n) = Inr bs \<and> raw = b32_encode bs) \<and>
     hash = generateHashBase32 (lib E) sm raw \<and> w' = w\<lparr>tick := Suc (tick w)\<rparr>"
  by (auto simp: SecretManager_GenerateToken_def generateRandomBase32_def
      SecretManager_GenerateHash_def ok_dest push_bit_eq_mult split: if_splits)

lemma b32_encode_set: "c \<in> set (b32_encode bs) \<Longrightarrow> c \<in> set b32_alphabet"
proof -
  assume "c \<in> set (b32_encode bs)"
  then obtain q where "q \<in> set (quintets (concat (map byte_bits bs)))" "c = b32_alphabet ! bits_value q"
    by (auto simp: b32_encode_def)
  moreover from this have "bits_value q < 32" using bits_value_less [of q] by (simp add: length_quintet)
  ultimately show ?thesis by (simp add: b32_alphabet_distinct)
qed

lemma GenerateToken_range:
  "n < 0 \<or> 2 ^ 20 < n \<Longrightarrow>
     SecretManager_GenerateToken E sm n w = (Err (External ''crypto: invalid length''), w)"
  by (auto simp: SecretManager_GenerateToken_def generateRandomBase32_def bind_def fail_def)

lemma b32_encode_Nil_iff [simp]: "b32_encode bs = [] \<longleftrightarrow> bs = []"
  by (metis b32_encode_def concat.simps(1) list.simps(8) b32_encode_inj quintets.simps(2))

section \<open>Actions of this theory touch no data\<close>

lemma keeps_case_failure [keeps_rules]:
  "(\<And>m. f = Rule_Error m \<Longrightarrow> keeps I (g m)) \<Longrightarrow> (\<And>m. f = Other_Parse_Error m \<Longrightarrow> keeps I (h m)) \<Longrightarrow>
   keeps I (case f of Rule_Error m \<Rightarrow> g m | Other_Parse_Error m \<Rightarrow> h m)"
  by (cases f) auto

lemma confined_case_failure [confined_rules]:
  "(\<And>m. f = Rule_Error m \<Longrightarrow> confined (g m)) \<Longrightarrow> (\<And>m. f = Other_Parse_Error m \<Longrightarrow> confined (h m)) \<Longrightarrow>
   confined (case f of Rule_Error m \<Rightarrow> g m | Other_Parse_Error m \<Rightarrow> h m)"
  by (cases f) auto

lemma keeps_crypto [keeps_rules]:
  "keeps I (SecretManager_GenerateHash E sm raw)" "keeps I (SecretManager_GenerateToken E sm n)"
  "keeps I (TokenCodec_Encode E sc c ttl)" "keeps I (TokenCodec_Decode E sc s um)"
  "keeps I (IssueAccessToken E ti u r ttl)" "keeps I (Verify E tv s)"
  unfolding SecretManager_GenerateHash_def SecretManager_GenerateToken_def generateRandomBase32_def
    TokenCodec_Encode_def TokenCodec_Decode_def IssueAccessToken_def Verify_def
  by (intro keeps_rules)+

lemma confined_crypto [confined_rules]:
  "confined (SecretManager_GenerateHash E sm raw)" "confined (SecretManager_GenerateToken E sm n)"
  "confined (TokenCodec_Encode E sc c ttl)" "confined (TokenCodec_Decode E sc s um)"
  "confined (IssueAccessToken E ti u r ttl)" "confined (Verify E tv s)"
  unfolding SecretManager_GenerateHash_def SecretManager_GenerateToken_def generateRandomBase32_def
    TokenCodec_Encode_def TokenCodec_Decode_def IssueAccessToken_def Verify_def
  by (intro confined_rules)+

section \<open>Access tokens from issue to verification\<close>

text \<open>
  The law of PASETO signing that the source relies on: parsing with the public key what the
  secret key has signed gives the claims back up to the expiry, and a broken rule after it.
\<close>

definition paseto_law :: "libs \<Rightarrow> bytes \<Rightarrow> bytes \<Rightarrow> bool" where
  "paseto_law L sk pk \<longleftrightarrow>
     (\<forall>c t. if t > tc_exp c then \<exists>m. v4_parse_public L pk t (v4_sign L sk c) = Inl (Rule_Error m)
            else v4_parse_public L pk t (v4_sign L sk c) = Inr c)"

lemma issued_token_verifies:
  assumes "paseto_law (lib E) (ti_secretKey ti) (tv_publicKey tv)"
    and "\<And>i. uuid_parse (lib E) (uuid_str (lib E) i) = Inr i"
    and "r \<in> {role_Member, role_Admin}"
    and "IssueAccessToken E ti u r ttl w = (Ok tok, w')"
  shows "clock E (tick v) \<le> clock E (tick w) + ttl \<longrightarrow> fst (Verify E tv tok v) = Ok (u, r)"
    and "clock E (tick w) + ttl < clock E (tick v) \<longrightarrow>
      (\<exists>e. fst (Verify E tv tok v) = Err e \<and> errors_is e Crypto_ErrTokenExpired)"
proof -
  let ?c = "\<lparr>tc_exp = clock E (tick w) + ttl,
    tc_strings = [(''user_id'', uuid_str (lib E) u), (''role'', role_String r)]\<rparr>"
  have tok: "tok = v4_sign (lib E) (ti_secretKey ti) ?c"
    using assms(4) by (auto simp: IssueAccessToken_def bind_def now_def ret_def)
  have role: "RoleFromString (role_String r) = Inr r" using assms(3) by (simp add: RoleFromString_String)
  show "clock E (tick v) \<le> clock E (tick w) + ttl \<longrightarrow> fst (Verify E tv tok v) = Ok (u, r)"
  proof
    assume "clock E (tick v) \<le> clock E (tick w) + ttl"
    then have "v4_parse_public (lib E) (tv_publicKey tv) (clock E (tick v)) tok = Inr ?c"
      using assms(1) unfolding paseto_law_def tok by force
    with role assms(2) show "fst (Verify E tv tok v) = Ok (u, r)"
      by (simp add: Verify_def bind_def now_def ret_def claim_GetString_def)
  qed
  show "clock E (tick w) + ttl < clock E (tick v) \<longrightarrow>
      (\<exists>e. fst (Verify E tv tok v) = Err e \<and> errors_is e Crypto_ErrTokenExpired)"
  proof
    assume "clock E (tick w) + ttl < clock E (tick v)"
    then obtain m where "v4_parse_public (lib E) (tv_publicKey tv) (clock E (tick v)) tok = Inl (Rule_Error m)"
      using assms(1) unfolding paseto_law_def tok by force
    then show "\<exists>e. fst (Verify E tv tok v) = Err e \<and> errors_is e Crypto_ErrTokenExpired"
      by (simp add: Verify_def bind_def now_def fail_def)
  qed
qed

end
