(* ===== verification/App_Sessions.thy ===== *)
theory App_Sessions
  imports Repositories Crypto
begin

text \<open>
  The use cases on sessions of \<open>internal/application\<close>: issuing and rotating the pair of
  tokens (\<open>SessionIssuer\<close>), revoking the sessions of users, of one session, of a whole chain
  of invitees, and refreshing. The records hold the collaborators and settings that the Go
  structs hold and the model does not fix (keys and times to live); the repositories, the
  transactor and the clock are the model's own.
\<close>

section \<open>session_issuer.go\<close>

definition refreshTokenLength :: int where
  "refreshTokenLength = 32"

record session_issuer =
  si_refreshTokens :: secret_manager
  si_accessTokens :: access_token_issuer
  si_refreshTTL :: duration
  si_accessTTL :: duration

definition issueAccess :: "env \<Rightarrow> session_issuer \<Rightarrow> ctx \<Rightarrow> uuid \<Rightarrow> string act" where
  "issueAccess E si c userID =
     bind (UserRepository_FindByID E c userID) (\<lambda>u.
     IssueAccessToken E (si_accessTokens si) userID (user_role u) (si_accessTTL si))"

definition SessionIssuer_Issue ::
  "env \<Rightarrow> session_issuer \<Rightarrow> ctx \<Rightarrow> uuid \<Rightarrow> string \<Rightarrow> ip_addr \<Rightarrow> time \<Rightarrow> (string \<times> string) act" where
  "SessionIssuer_Issue E si c userID deviceInfo ipAddress t =
     bind (SecretManager_GenerateToken E (si_refreshTokens si) refreshTokenLength)
       (\<lambda>(rawRefresh, refreshHash).
     bind (new_id E) (\<lambda>sessionID.
     bind (lift_sum (session_New sessionID userID refreshHash deviceInfo ipAddress
                       (si_refreshTTL si) t)) (\<lambda>rt.
     bind (RunInTransaction E c (\<lambda>txCtx.
             bind (SessionRepository_Save E txCtx [rt]) (\<lambda>_.
             issueAccess E si txCtx userID)))
       (\<lambda>access. ret (access, rawRefresh)))))"

definition SessionIssuer_Rotate ::
  "env \<Rightarrow> session_issuer \<Rightarrow> ctx \<Rightarrow> session \<Rightarrow> time \<Rightarrow> (string \<times> string) act" where
  "SessionIssuer_Rotate E si c old t =
     bind (SecretManager_GenerateToken E (si_refreshTokens si) refreshTokenLength)
       (\<lambda>(rawRefresh, refreshHash).
     bind (new_id E) (\<lambda>generatedID.
     bind (lift_sum (session_Rotate old generatedID refreshHash t)) (\<lambda>newRT.
     bind (lift_sum (session_Revoke old t)) (\<lambda>revoked.
     bind (RunInTransaction E c (\<lambda>txCtx.
             bind (issueAccess E si txCtx (ses_user_id revoked)) (\<lambda>access.
             bind (SessionRepository_Save E txCtx [revoked, newRT]) (\<lambda>_. ret access))))
       (\<lambda>access. ret (access, rawRefresh))))))"

section \<open>revoke_all_user_sessions.go\<close>

fun revoke_each :: "session list \<Rightarrow> time \<Rightarrow> err + session list" where
  "revoke_each [] t = Inr []"
| "revoke_each (s # ss) t =
     (case session_Revoke s t of Inl e \<Rightarrow> Inl e
      | Inr s' \<Rightarrow> (case revoke_each ss t of Inl e \<Rightarrow> Inl e | Inr ss' \<Rightarrow> Inr (s' # ss')))"

definition RevokeAllUserSessions_Execute :: "env \<Rightarrow> ctx \<Rightarrow> uuid list \<Rightarrow> unit act" where
  "RevokeAllUserSessions_Execute E c userIDs =
     (if userIDs = [] then ret ()
      else bind (now E) (\<lambda>t.
        RunInTransaction E c (\<lambda>c.
          bind (SessionRepository_FindActiveByUserIDs E c userIDs t) (\<lambda>tokens.
          if tokens = [] then ret ()
          else bind (lift_sum (revoke_each tokens t)) (\<lambda>tokens'.
               SessionRepository_Save E c tokens')))))"

section \<open>revoke_session.go\<close>

text \<open>\<open>if errors.Is(err, domain.ErrNotFound) { return s }; return err\<close>.\<close>

definition not_found_as :: "sentinel \<Rightarrow> 'a act \<Rightarrow> 'a act" where
  "not_found_as s m =
     catch m (\<lambda>e. if errors_is e Domain_ErrNotFound then fail (Sentinel s) else fail e)"

definition RevokeSession_Execute :: "env \<Rightarrow> ctx \<Rightarrow> uuid \<Rightarrow> uuid \<Rightarrow> unit act" where
  "RevokeSession_Execute E c sessionID requestingUserID =
     bind (now E) (\<lambda>t.
     RunInTransaction E c (\<lambda>c.
       bind (not_found_as App_ErrSessionNotFound (SessionRepository_FindByID E c sessionID)) (\<lambda>rt.
       if ses_user_id rt \<noteq> requestingUserID then fail (Sentinel App_ErrSessionForbidden)
       else case session_Revoke rt t of
              Inl e \<Rightarrow> if errors_is e Session_ErrAlreadyRevoked then ret () else fail e
            | Inr rt' \<Rightarrow> SessionRepository_Save E c [rt'])))"

section \<open>revoke_compromised_chain.go\<close>

definition RevokeCompromisedChain_Execute :: "env \<Rightarrow> ctx \<Rightarrow> uuid \<Rightarrow> unit act" where
  "RevokeCompromisedChain_Execute E c compromisedUserID =
     bind (UserRepository_Descendants E c compromisedUserID) (\<lambda>descendantIDs.
     RevokeAllUserSessions_Execute E c descendantIDs)"

section \<open>refresh_access_token.go\<close>

record refresh_access_token =
  ra_sessionIssuer :: session_issuer
  ra_hasher :: secret_manager

definition validateRefreshToken ::
  "env \<Rightarrow> refresh_access_token \<Rightarrow> ctx \<Rightarrow> string \<Rightarrow> time \<Rightarrow> session act" where
  "validateRefreshToken E ra c rawRefreshToken t =
     bind (SecretManager_GenerateHash E (ra_hasher ra) rawRefreshToken) (\<lambda>hash.
     bind (not_found_as App_ErrRefreshTokenNotFound (SessionRepository_FindByTokenHash E c hash))
       (\<lambda>oldRT.
     if session_IsRevoked oldRT
     then bind (RevokeAllUserSessions_Execute E c [ses_user_id oldRT])
            (\<lambda>_. fail (Sentinel App_ErrRefreshTokenReuseDetected))
     else if \<not> session_IsValid oldRT t then fail (Sentinel App_ErrRefreshTokenInvalid)
     else ret oldRT))"

definition RefreshAccessToken_Execute ::
  "env \<Rightarrow> refresh_access_token \<Rightarrow> ctx \<Rightarrow> string \<Rightarrow> (string \<times> string) act" where
  "RefreshAccessToken_Execute E ra c rawRefreshToken =
     RunInTransaction E c (\<lambda>c.
       bind (now E) (\<lambda>t.
       bind (validateRefreshToken E ra c rawRefreshToken t) (\<lambda>oldRT.
       SessionIssuer_Rotate E (ra_sessionIssuer ra) c oldRT t)))"

lemmas session_use_case_defs =
  issueAccess_def SessionIssuer_Issue_def SessionIssuer_Rotate_def
  RevokeAllUserSessions_Execute_def not_found_as_def RevokeSession_Execute_def
  RevokeCompromisedChain_Execute_def validateRefreshToken_def RefreshAccessToken_Execute_def

section \<open>Constraints and confinement\<close>

lemma keeps_not_found_as [keeps_rules]: "keeps I m \<Longrightarrow> keeps I (not_found_as s m)"
  unfolding not_found_as_def by (intro keeps_rules)

lemma confined_not_found_as [confined_rules]: "confined m \<Longrightarrow> confined (not_found_as s m)"
  unfolding not_found_as_def by (intro confined_rules)

lemma not_found_as_Ok [ok_dest]: "not_found_as s m w = (Ok x, w') \<longleftrightarrow> m w = (Ok x, w')"
  by (auto simp: not_found_as_def catch_Ok split: if_splits)

lemma keeps_session_use_cases [keeps_rules]:
  "keeps db_ok (issueAccess E si c u)" "keeps db_ok (SessionIssuer_Issue E si c u d ip t)"
  "keeps db_ok (SessionIssuer_Rotate E si c old t)"
  "keeps db_ok (RevokeAllUserSessions_Execute E c us)" "keeps db_ok (RevokeSession_Execute E c i u)"
  "keeps db_ok (RevokeCompromisedChain_Execute E c u)"
  "keeps db_ok (validateRefreshToken E ra c raw t)"
  "keeps db_ok (RefreshAccessToken_Execute E ra c raw)"
  unfolding issueAccess_def SessionIssuer_Issue_def SessionIssuer_Rotate_def
    RevokeAllUserSessions_Execute_def RevokeSession_Execute_def RevokeCompromisedChain_Execute_def
    validateRefreshToken_def RefreshAccessToken_Execute_def
  by (intro keeps_rules)+

lemma confined_session_use_cases [confined_rules]:
  "confined (issueAccess E si In_Tx u)" "confined (SessionIssuer_Issue E si In_Tx u d ip t)"
  "confined (SessionIssuer_Rotate E si In_Tx old t)"
  "confined (RevokeAllUserSessions_Execute E In_Tx us)" "confined (RevokeSession_Execute E In_Tx i u)"
  "confined (RevokeCompromisedChain_Execute E In_Tx u)"
  "confined (validateRefreshToken E ra In_Tx raw t)"
  "confined (RefreshAccessToken_Execute E ra In_Tx raw)"
  unfolding issueAccess_def SessionIssuer_Issue_def SessionIssuer_Rotate_def
    RevokeAllUserSessions_Execute_def RevokeSession_Execute_def RevokeCompromisedChain_Execute_def
    validateRefreshToken_def RefreshAccessToken_Execute_def
  by (intro confined_rules)+

end
