(* ===== verification/Session_Facts.thy ===== *)
theory Session_Facts
  imports App_Sessions
begin

text \<open>
  What the session use cases do to the database: the specification \<open>revoke_active\<close> of a
  revocation and the refinement by \<open>RevokeAllUserSessions\<close>, what a batch of saved sessions
  leaves in the table, and what a successful issue or rotation stores.
\<close>

section \<open>A batch of updates\<close>

definition merge_all :: "pg_session list \<Rightarrow> pg_session \<Rightarrow> pg_session" where
  "merge_all rs s =
     (case find (\<lambda>r. pgs_id r = pgs_id s) rs of None \<Rightarrow> s | Some r \<Rightarrow> merge_session s r)"

lemma SaveRefreshTokens_updates:
  assumes "distinct (map pgs_id rs)" and "pgs_id ` set rs \<subseteq> pgs_id ` set (sessions d)"
  shows "SaveRefreshTokens rs d = Inr ((), d\<lparr>sessions := map (merge_all rs) (sessions d)\<rparr>)"
  using assms
proof (induction rs arbitrary: d)
  case Nil
  have "map (merge_all []) (sessions d) = sessions d" by (simp add: merge_all_def map_idI)
  then show ?case by simp
next
  case (Cons r rs)
  define d1 where "d1 = d\<lparr>sessions := update_where (\<lambda>s. pgs_id s = pgs_id r)
      (\<lambda>s. merge_session s r) (sessions d)\<rparr>"
  have step: "upsert_session r d = Inr ((), d1)"
    using Cons.prems by (simp add: upsert_session_def d1_def merge_session_def)
  have ids: "pgs_id ` set (sessions d1) = pgs_id ` set (sessions d)"
    by (simp add: d1_def image_update_where merge_session_def)
  have "SaveRefreshTokens rs d1 = Inr ((), d1\<lparr>sessions := map (merge_all rs) (sessions d1)\<rparr>)"
    by (rule Cons.IH) (use Cons.prems ids in auto)
  moreover have "map (merge_all rs) (sessions d1) = map (merge_all (r # rs)) (sessions d)"
  proof -
    have "find (\<lambda>x. pgs_id x = pgs_id r) rs = None"
      using Cons.prems(1) by (simp add: find_key_None)
    then show ?thesis
      by (auto simp: d1_def update_where_def merge_all_def merge_session_def)
  qed
  ultimately show ?case using step by (simp add: d1_def)
qed

section \<open>Revocation: specification and refinement\<close>

definition pgs_revoke :: "time \<Rightarrow> pg_session \<Rightarrow> pg_session" where
  "pgs_revoke t s = s\<lparr>pgs_revoked_at := Some t\<rparr>"

lemma pgs_revoke_sel [simp]:
  "pgs_id (pgs_revoke t s) = pgs_id s" "pgs_user_id (pgs_revoke t s) = pgs_user_id s"
  "pgs_revoked_at (pgs_revoke t s) = Some t" "pgs_token_hash (pgs_revoke t s) = pgs_token_hash s"
  "pgs_expires_at (pgs_revoke t s) = pgs_expires_at s"
  by (simp_all add: pgs_revoke_def)

lemma pgs_revoke_fun: "pgs_revoke t = (\<lambda>s. s\<lparr>pgs_revoked_at := Some t\<rparr>)"
  by (rule ext) (simp add: pgs_revoke_def)

definition revoke_active :: "uuid list \<Rightarrow> time \<Rightarrow> database \<Rightarrow> database" where
  "revoke_active us t d = d\<lparr>sessions := update_where (pgs_active us t) (pgs_revoke t) (sessions d)\<rparr>"

lemma revoke_each_active:
  "\<forall>r \<in> set rows. pgs_revoked_at r = None \<Longrightarrow>
   revoke_each (map rowToSession rows) t = Inr (map rowToSession (map (pgs_revoke t) rows))"
  by (induction rows) (auto simp: session_Revoke_def row_defs pgs_revoke_def)

lemma merge_revoked:
  assumes "distinct (map pgs_id ss)" and "s \<in> set ss"
  shows "merge_all (map (pgs_revoke t) (filter P ss)) s = (if P s then pgs_revoke t s else s)"
proof -
  have key: "find (\<lambda>r. pgs_id r = pgs_id s) (map (pgs_revoke t) (filter P ss)) =
             (if P s then Some (pgs_revoke t s) else None)"
    using assms
  proof (induction ss)
    case (Cons x xs)
    show ?case
    proof (cases "x = s")
      case True
      with Cons.prems have "\<forall>x \<in> set xs. pgs_id x \<noteq> pgs_id s"
        by (metis distinct.simps(2) image_eqI list.simps(9) list.set_map)
      then have "find (\<lambda>r. pgs_id r = pgs_id s) (map (pgs_revoke t) (filter P xs)) = None"
        by (auto simp: find_None_iff)
      with True show ?thesis by simp
    next
      case False
      with Cons.prems have "pgs_id x \<noteq> pgs_id s" by auto
      with False Cons show ?thesis by simp
    qed
  qed simp
  then show ?thesis by (simp add: merge_all_def merge_session_def pgs_revoke_def)
qed

lemma save_revoked:
  assumes "distinct (map pgs_id (sessions d))"
  shows "SaveRefreshTokens (map (pgs_revoke t) (filter (pgs_active us t) (sessions d))) d =
         Inr ((), revoke_active us t d)"
proof -
  let ?rs = "map (pgs_revoke t) (filter (pgs_active us t) (sessions d))"
  have same: "map pgs_id ?rs = map pgs_id (filter (pgs_active us t) (sessions d))"
    by (simp add: pgs_revoke_def)
  have "distinct (map pgs_id ?rs)" unfolding same using assms by (simp add: distinct_map_filter)
  moreover have "pgs_id ` set ?rs \<subseteq> pgs_id ` set (sessions d)" by (auto simp: pgs_revoke_def)
  moreover have "map (merge_all ?rs) (sessions d) =
      update_where (pgs_active us t) (pgs_revoke t) (sessions d)"
    using assms by (simp add: update_where_def merge_revoked)
  ultimately show ?thesis by (simp add: SaveRefreshTokens_updates revoke_active_def)
qed

lemma revoke_active_none:
  assumes "filter (pgs_active us t) (sessions d) = []"
  shows "revoke_active us t d = d"
proof -
  have "update_where (pgs_active us t) (pgs_revoke t) (sessions d) = sessions d"
    using assms by (auto simp: update_where_def filter_empty_conv intro!: map_idI)
  then show ?thesis by (simp add: revoke_active_def)
qed

text \<open>Once revoked, no session of the users is active, then or later.\<close>

lemma revoke_active_done:
  "t \<le> t' \<Longrightarrow> filter (pgs_active us t') (sessions (revoke_active us t d)) = []"
  by (auto simp: filter_empty_conv revoke_active_def set_update_where pgs_active_def pgs_revoke_def)

lemma revoke_active_others:
  assumes "pgs_user_id s \<notin> set us"
  shows "s \<in> set (sessions (revoke_active us t d)) \<longleftrightarrow> s \<in> set (sessions d)"
  using assms by (auto simp: revoke_active_def set_update_where pgs_active_def pgs_revoke_def)

lemma revoke_active_frame [simp]:
  "users (revoke_active us t d) = users d" "credentials (revoke_active us t d) = credentials d"
  "invites (revoke_active us t d) = invites d"
  "wrapped_keys (revoke_active us t d) = wrapped_keys d"
  by (simp_all add: revoke_active_def)

lemma revoke_body_tx:
  assumes "bind (SessionRepository_FindActiveByUserIDs E In_Tx us t)
      (\<lambda>tokens. if tokens = [] then ret ()
        else bind (lift_sum (revoke_each tokens t)) (SessionRepository_Save E In_Tx)) w = (Ok u, w')"
    and "work w = Some d" and "sessions_ok d"
  shows "in_tx w d w' (revoke_active us t d)"
proof -
  let ?rows = "filter (pgs_active us t) (sessions d)"
  obtain w1 where w1: "in_tx w d w1 d"
    and rest: "(if map rowToSession ?rows = [] then ret ()
        else bind (lift_sum (revoke_each (map rowToSession ?rows) t))
               (SessionRepository_Save E In_Tx)) w1 = (Ok u, w')"
    using assms(1,2)
    by (fastforce simp: bind_Ok in_tx_def simp del: map_is_Nil_conv
        dest!: SessionRepository_FindActiveByUserIDs_tx)
  show ?thesis
  proof (cases "?rows = []")
    case True
    with rest w1 revoke_active_none show ?thesis by simp
  next
    case False
    have "revoke_each (map rowToSession ?rows) t = Inr (map rowToSession (map (pgs_revoke t) ?rows))"
      by (rule revoke_each_active) (auto simp: pgs_active_def)
    with False rest have
      "SessionRepository_Save E In_Tx (map rowToSession (map (pgs_revoke t) ?rows)) w1 = (Ok u, w')"
      by (auto simp: bind_Ok lift_sum_Ok)
    then obtain d1 d' where d': "in_tx w1 d1 w' d'"
      "SaveRefreshTokens (map sessionToRow (map rowToSession (map (pgs_revoke t) ?rows))) d1 =
         Inr ((), d')" by (blast dest: SessionRepository_Save_tx)
    have "d1 = d" using in_tx_next w1 d'(1) by blast
    moreover have "map sessionToRow (map rowToSession (map (pgs_revoke t) ?rows)) =
                   map (pgs_revoke t) ?rows" by simp
    ultimately have "d' = revoke_active us t d"
      using d'(2) save_revoked [of d t us] assms(3)
      by (simp add: sessions_ok_def del: map_map)
    with w1 d'(1) show ?thesis by (simp add: in_tx_def)
  qed
qed

section \<open>The use cases\<close>

lemma RevokeAll_tx:
  assumes "RevokeAllUserSessions_Execute E In_Tx us w = (Ok u, w')" and "us \<noteq> []"
    and "work w = Some d" and "sessions_ok d"
  shows "in_tx w d w' (revoke_active us (clock E (tick w)) d)"
  using assms
  by (auto simp: RevokeAllUserSessions_Execute_def bind_Ok [of "now E"] now_Ok RunInTransaction_nested
      dest!: revoke_body_tx [where d = d])

lemma RevokeAll_plain:
  assumes "RevokeAllUserSessions_Execute E No_Tx us w = (Ok u, w')" and "us \<noteq> []"
    and "sessions_ok (committed w)"
  shows "committed w' = revoke_active us (clock E (tick w)) (committed w)"
proof -
  let ?t = "clock E (tick w)"
  let ?body = "\<lambda>c. bind (SessionRepository_FindActiveByUserIDs E c us ?t)
    (\<lambda>tokens. if tokens = [] then ret ()
      else bind (lift_sum (revoke_each tokens ?t)) (SessionRepository_Save E c))"
  have run: "RunInTransaction E No_Tx ?body (w\<lparr>tick := Suc (tick w)\<rparr>) = (Ok u, w')"
    using assms(1,2) by (simp add: RevokeAllUserSessions_Execute_def bind_Ok [of "now E"] now_Ok)
  have "confined (?body In_Tx)" by (intro confined_rules)
  then obtain w0 w1 d
    where w0: "work w0 = Some (committed w)" "?body In_Tx w0 = (Ok u, w1)"
      and d: "work w1 = Some d" "committed w' = d"
    by (rule storage_tx.run_ok_body [OF _ run]) simp
  from revoke_body_tx [OF w0(2,1) assms(3)] d show ?thesis by (simp add: in_tx_def)
qed

text \<open>Every use case of this theory is all or nothing.\<close>

lemma RevokeAll_atomic:
  assumes "RevokeAllUserSessions_Execute E No_Tx us w = (r, w')" and "\<not> is_ok r"
  shows "committed w' = committed w"
proof (cases "us = []")
  case False
  let ?t = "clock E (tick w)"
  let ?body = "\<lambda>c. bind (SessionRepository_FindActiveByUserIDs E c us ?t)
    (\<lambda>tokens. if tokens = [] then ret ()
      else bind (lift_sum (revoke_each tokens ?t)) (SessionRepository_Save E c))"
  have "RunInTransaction E No_Tx ?body (w\<lparr>tick := Suc (tick w)\<rparr>) = (r, w')"
    using assms(1) False by (simp add: RevokeAllUserSessions_Execute_def bind_def now_def split: prod.splits outcome.splits)
  moreover have "confined (?body In_Tx)" by (intro confined_rules)
  ultimately show ?thesis using storage_tx.run_rolls_back assms(2) by fastforce
qed (use assms in \<open>simp add: RevokeAllUserSessions_Execute_def\<close>)

lemma issueAccess_tx:
  assumes "issueAccess E si In_Tx userID w = (Ok access, w')"
  shows "\<exists>d row u t. in_tx w d w' d \<and> find (\<lambda>r. pgu_id r = userID) (users d) = Some row \<and>
    rowToUser row = Inr u \<and>
    access = v4_sign (lib E) (ti_secretKey (si_accessTokens si))
      \<lparr>tc_exp = t + si_accessTTL si,
       tc_strings = [(''user_id'', uuid_str (lib E) userID), (''role'', role_String (user_role u))]\<rparr>"
  using assms unfolding issueAccess_def IssueAccessToken_def bind_Ok
  by (fastforce simp: now_Ok in_tx_def dest!: UserRepository_FindByID_tx)

lemma SessionIssuer_Issue_tx:
  assumes "SessionIssuer_Issue E si In_Tx userID dev ip t w = (Ok (access, raw), w')"
  shows "\<exists>d d' rt n. in_tx w d w' d' \<and> upsert_session (sessionToRow rt) d = Inr ((), d') \<and>
    session_New (next_uuid E n) userID (generateHashBase32 (lib E) (si_refreshTokens si) raw) dev ip
      (si_refreshTTL si) t = Inr rt"
proof -
  from assms obtain hash w1 rt n w2
    where gen: "SecretManager_GenerateToken E (si_refreshTokens si) refreshTokenLength w = (Ok (raw, hash), w1)"
      and rt: "session_New (next_uuid E n) userID hash dev ip (si_refreshTTL si) t = Inr rt"
      and save: "SessionRepository_Save E In_Tx [rt] (w1\<lparr>tick := Suc (tick w1)\<rparr>) = (Ok (), w2)"
      and acc: "issueAccess E si In_Tx userID w2 = (Ok access, w')"
    by (auto simp: SessionIssuer_Issue_def ok_dest)
  from gen have hash: "hash = generateHashBase32 (lib E) (si_refreshTokens si) raw"
    and w1: "w1 = w\<lparr>tick := Suc (tick w)\<rparr>" by (auto simp: GenerateToken_Ok)
  from save obtain d d' where d: "in_tx w d w2 d'" "SaveRefreshTokens [sessionToRow rt] d = Inr ((), d')"
    by (auto simp: w1 dest: SessionRepository_Save_tx)
  from acc obtain d2 where "in_tx w2 d2 w' d2" by (blast dest: issueAccess_tx)
  with d(1) have "in_tx w d w' d'" by (auto simp: in_tx_def)
  moreover have "upsert_session (sessionToRow rt) d = Inr ((), d')"
    using d(2) by (simp only: SaveRefreshTokens_single)
  ultimately show ?thesis using rt hash by blast
qed

lemma SessionIssuer_Rotate_tx:
  assumes "SessionIssuer_Rotate E si In_Tx old t w = (Ok (access, raw), w')"
  shows "\<exists>d d' new n. in_tx w d w' d' \<and> ses_revoked_at old = None \<and>
    session_Rotate old (next_uuid E n) (generateHashBase32 (lib E) (si_refreshTokens si) raw) t = Inr new \<and>
    SaveRefreshTokens [sessionToRow (old\<lparr>ses_revoked_at := Some t\<rparr>), sessionToRow new] d = Inr ((), d')"
proof -
  from assms obtain hash w1 new n revoked w2
    where gen: "SecretManager_GenerateToken E (si_refreshTokens si) refreshTokenLength w = (Ok (raw, hash), w1)"
      and new: "session_Rotate old (next_uuid E n) hash t = Inr new"
      and rev: "session_Revoke old t = Inr revoked"
      and acc: "issueAccess E si In_Tx (ses_user_id revoked) (w1\<lparr>tick := Suc (tick w1)\<rparr>) = (Ok access, w2)"
      and save: "SessionRepository_Save E In_Tx [revoked, new] w2 = (Ok (), w')"
    by (auto simp: SessionIssuer_Rotate_def ok_dest)
  from gen have hash: "hash = generateHashBase32 (lib E) (si_refreshTokens si) raw"
    and w1: "w1 = w\<lparr>tick := Suc (tick w)\<rparr>" by (auto simp: GenerateToken_Ok)
  from acc obtain d2 where "in_tx w d2 w2 d2" by (auto simp: w1 dest!: issueAccess_tx)
  moreover from save obtain d d' where "in_tx w2 d w' d'"
    "SaveRefreshTokens (map sessionToRow [revoked, new]) d = Inr ((), d')"
    by (blast dest: SessionRepository_Save_tx)
  moreover from rev have "ses_revoked_at old = None" "revoked = old\<lparr>ses_revoked_at := Some t\<rparr>"
    by (simp_all add: session_Revoke_Inr_iff)
  ultimately show ?thesis using new hash by (auto simp: in_tx_def simp del: SaveRefreshTokens.simps)
qed

lemma validateRefreshToken_tx:
  assumes "validateRefreshToken E ra In_Tx raw t w = (Ok old, w')"
  shows "\<exists>d row. in_tx w d w' d \<and>
    find (\<lambda>r. pgs_token_hash r = generateHashBase32 (lib E) (ra_hasher ra) raw) (sessions d) = Some row \<and>
    old = rowToSession row \<and> session_IsValid old t"
  using assms
  by (auto simp: validateRefreshToken_def SecretManager_GenerateHash_def ok_dest session_IsRevoked_def
      in_tx_def split: if_splits dest!: SessionRepository_FindByTokenHash_tx)

section \<open>Refreshing\<close>

lemma save_rotated:
  assumes "SaveRefreshTokens [sessionToRow (old\<lparr>ses_revoked_at := Some t\<rparr>), sessionToRow new] d = Inr ((), d')"
    and "sessionToRow old \<in> set (sessions d)" and "ses_id new \<notin> pgs_id ` set (sessions d)"
  shows "d' = d\<lparr>sessions := update_where (\<lambda>s. pgs_id s = ses_id old) (pgs_revoke t) (sessions d) @
           [sessionToRow new]\<rparr>"
proof -
  define d1 where "d1 = d\<lparr>sessions := update_where (\<lambda>s. pgs_id s = ses_id old) (pgs_revoke t) (sessions d)\<rparr>"
  have "pgs_id (sessionToRow old) \<in> pgs_id ` set (sessions d)" using assms(2) by (rule imageI)
  then have first: "upsert_session (sessionToRow (old\<lparr>ses_revoked_at := Some t\<rparr>)) d = Inr ((), d1)"
    by (simp add: upsert_session_def pgs_revoke_fun d1_def)
  then have "SaveRefreshTokens [sessionToRow new] d1 = Inr ((), d')"
    using assms(1) by simp
  then have second: "upsert_session (sessionToRow new) d1 = Inr ((), d')"
    by (simp only: SaveRefreshTokens_single)
  have "pgs_id ` set (sessions d1) = pgs_id ` set (sessions d)"
    by (simp add: d1_def image_update_where)
  with second assms(3) have "d' = d1\<lparr>sessions := sessions d1 @ [sessionToRow new]\<rparr>"
    by (simp add: upsert_session_def split: if_splits)
  then show ?thesis by (simp add: d1_def)
qed

lemma refresh_Ok:
  assumes "RefreshAccessToken_Execute E ra No_Tx raw w = (Ok (access, refresh), w')"
  shows "\<exists>t old new n.
    find (\<lambda>r. pgs_token_hash r = generateHashBase32 (lib E) (ra_hasher ra) raw)
      (sessions (committed w)) = Some old \<and>
    session_IsValid (rowToSession old) t \<and>
    session_Rotate (rowToSession old) (next_uuid E n)
      (generateHashBase32 (lib E) (si_refreshTokens (ra_sessionIssuer ra)) refresh) t = Inr new \<and>
    SaveRefreshTokens [sessionToRow ((rowToSession old)\<lparr>ses_revoked_at := Some t\<rparr>), sessionToRow new]
      (committed w) = Inr ((), committed w')"
proof -
  let ?body = "\<lambda>c. bind (now E) (\<lambda>t. bind (validateRefreshToken E ra c raw t)
    (\<lambda>old. SessionIssuer_Rotate E (ra_sessionIssuer ra) c old t))"
  have run: "RunInTransaction E No_Tx ?body w = (Ok (access, refresh), w')"
    using assms by (simp add: RefreshAccessToken_Execute_def)
  have "confined (?body In_Tx)" by (intro confined_rules)
  then obtain w0 w1 d
    where w0: "work w0 = Some (committed w)" "?body In_Tx w0 = (Ok (access, refresh), w1)"
      and d: "work w1 = Some d" "committed w' = d"
    by (rule storage_tx.run_ok_body [OF _ run]) simp
  from w0(2) obtain t k old w2
    where val: "validateRefreshToken E ra In_Tx raw t (w0\<lparr>tick := k\<rparr>) = (Ok old, w2)"
      and rot: "SessionIssuer_Rotate E (ra_sessionIssuer ra) In_Tx old t w2 = (Ok (access, refresh), w1)"
    by (auto simp: bind_Ok [of "now E"] now_Ok bind_Ok [of "validateRefreshToken E ra In_Tx raw _"])
  from validateRefreshToken_tx [OF val] w0(1) obtain row where row: "work w2 = Some (committed w)"
    "find (\<lambda>r. pgs_token_hash r = generateHashBase32 (lib E) (ra_hasher ra) raw)
       (sessions (committed w)) = Some row"
    "old = rowToSession row" "session_IsValid old t" by (auto simp: in_tx_def)
  from SessionIssuer_Rotate_tx [OF rot] row(1) d obtain new n where
    "session_Rotate old (next_uuid E n)
       (generateHashBase32 (lib E) (si_refreshTokens (ra_sessionIssuer ra)) refresh) t = Inr new"
    "SaveRefreshTokens [sessionToRow (old\<lparr>ses_revoked_at := Some t\<rparr>), sessionToRow new]
       (committed w) = Inr ((), committed w')"
    by (auto simp: in_tx_def simp del: SaveRefreshTokens.simps)
  with row show ?thesis by blast
qed

lemma refresh_Ok_effect:
  assumes "RefreshAccessToken_Execute E ra No_Tx raw w = (Ok (access, refresh), w')"
    and "\<forall>n. next_uuid E n \<notin> pgs_id ` set (sessions (committed w))"
  shows "\<exists>t old new. old \<in> set (sessions (committed w)) \<and>
    pgs_token_hash old = generateHashBase32 (lib E) (ra_hasher ra) raw \<and>
    session_IsValid (rowToSession old) t \<and> rotated_from (rowToSession old) (rowToSession new) \<and>
    pgs_token_hash new = generateHashBase32 (lib E) (si_refreshTokens (ra_sessionIssuer ra)) refresh \<and>
    pgs_revoked_at new = None \<and> pgs_created_at new = t \<and>
    committed w' = (committed w)\<lparr>sessions :=
      update_where (\<lambda>s. pgs_id s = pgs_id old) (pgs_revoke t) (sessions (committed w)) @ [new]\<rparr>"
proof -
  obtain t old new n where old: "find (\<lambda>r. pgs_token_hash r = generateHashBase32 (lib E) (ra_hasher ra) raw)
      (sessions (committed w)) = Some old"
    and valid: "session_IsValid (rowToSession old) t"
    and rot: "session_Rotate (rowToSession old) (next_uuid E n)
      (generateHashBase32 (lib E) (si_refreshTokens (ra_sessionIssuer ra)) refresh) t = Inr new"
    and save: "SaveRefreshTokens [sessionToRow ((rowToSession old)\<lparr>ses_revoked_at := Some t\<rparr>),
      sessionToRow new] (committed w) = Inr ((), committed w')"
    using refresh_Ok [OF assms(1)] by blast
  from old have mem: "old \<in> set (sessions (committed w))"
    "pgs_token_hash old = generateHashBase32 (lib E) (ra_hasher ra) raw" by (auto dest: find_SomeD)
  from rot have new: "ses_id new = next_uuid E n" "ses_revoked_at new = None" "ses_created_at new = t"
    "ses_token_hash new = generateHashBase32 (lib E) (si_refreshTokens (ra_sessionIssuer ra)) refresh"
    by (auto simp: session_Rotate_Inr_iff)
  have "rotated_from (rowToSession old) new" by (rule rotated_from.rotate [OF rotated_from.start valid rot])
  moreover have "committed w' = (committed w)\<lparr>sessions :=
      update_where (\<lambda>s. pgs_id s = pgs_id old) (pgs_revoke t) (sessions (committed w)) @ [sessionToRow new]\<rparr>"
    using save_rotated [OF save] mem new(1) assms(2) by simp
  moreover have "pgs_created_at (sessionToRow new) = t" using new(3) by (simp add: sessionToRow_def)
  ultimately show ?thesis using mem valid new
    by (intro exI [of _ t] exI [of _ old] exI [of _ "sessionToRow new"]) simp
qed

section \<open>Revoking one session\<close>

lemma RevokeSession_Ok:
  assumes "RevokeSession_Execute E No_Tx i u w = (Ok x, w')"
  shows "\<exists>row. find (\<lambda>r. pgs_id r = i) (sessions (committed w)) = Some row \<and> pgs_user_id row = u \<and>
    committed w' = (if pgs_revoked_at row \<noteq> None then committed w
      else (committed w)\<lparr>sessions := update_where (\<lambda>s. pgs_id s = i)
             (pgs_revoke (clock E (tick w))) (sessions (committed w))\<rparr>)"
proof -
  let ?t = "clock E (tick w)"
  let ?body = "\<lambda>c. bind (not_found_as App_ErrSessionNotFound (SessionRepository_FindByID E c i)) (\<lambda>rt.
       if ses_user_id rt \<noteq> u then fail (Sentinel App_ErrSessionForbidden)
       else case session_Revoke rt ?t of
              Inl e \<Rightarrow> if errors_is e Session_ErrAlreadyRevoked then ret () else fail e
            | Inr rt' \<Rightarrow> SessionRepository_Save E c [rt'])"
  have run: "RunInTransaction E No_Tx ?body (w\<lparr>tick := Suc (tick w)\<rparr>) = (Ok x, w')"
    using assms by (simp add: RevokeSession_Execute_def bind_Ok [of "now E"] now_Ok)
  have "confined (?body In_Tx)" by (intro confined_rules)
  then obtain w0 w1 d
    where w0: "work w0 = Some (committed w)" "?body In_Tx w0 = (Ok x, w1)"
      and d: "work w1 = Some d" "committed w' = d"
    by (rule storage_tx.run_ok_body [OF _ run]) simp
  from w0(2) obtain rt w2 where find: "SessionRepository_FindByID E In_Tx i w0 = (Ok rt, w2)"
    and own: "ses_user_id rt = u"
    and rest: "(case session_Revoke rt ?t of
              Inl e \<Rightarrow> if errors_is e Session_ErrAlreadyRevoked then ret () else fail e
            | Inr rt' \<Rightarrow> SessionRepository_Save E In_Tx [rt']) w2 = (Ok x, w1)"
    by (auto simp: ok_dest split: if_splits)
  from SessionRepository_FindByID_tx [OF find] w0(1) obtain row where row: "in_tx w0 (committed w) w2 (committed w)"
    "find (\<lambda>r. pgs_id r = i) (sessions (committed w)) = Some row" "rt = rowToSession row"
    by (auto simp: in_tx_def)
  show ?thesis
  proof (cases "pgs_revoked_at row")
    case (Some r)
    with rest row d have "committed w' = committed w"
      by (auto simp: session_Revoke_def in_tx_def split: if_splits)
    with Some row own show ?thesis by auto
  next
    case None
    let ?r = "sessionToRow (rt\<lparr>ses_revoked_at := Some ?t\<rparr>)"
    from None rest row(3) have save: "SessionRepository_Save E In_Tx [rt\<lparr>ses_revoked_at := Some ?t\<rparr>] w2 = (Ok x, w1)"
      by (simp add: session_Revoke_def)
    from SessionRepository_Save_tx [OF save] row(1) d have
      "SaveRefreshTokens [?r] (committed w) = Inr ((), committed w')"
      by (auto simp: in_tx_def simp del: SaveRefreshTokens.simps)
    then have "upsert_session ?r (committed w) = Inr ((), committed w')"
      by (simp only: SaveRefreshTokens_single)
    moreover have "pgs_id row = i" "row \<in> set (sessions (committed w))"
      using row(2) by (auto dest: find_SomeD)
    ultimately have "committed w' = (committed w)\<lparr>sessions := update_where (\<lambda>s. pgs_id s = i)
             (pgs_revoke ?t) (sessions (committed w))\<rparr>"
      using row(3) by (auto simp: upsert_session_def pgs_revoke_fun image_iff split: if_splits)
    with None row own show ?thesis by auto
  qed
qed

end
