(* ===== verification/Application_Ports.thy ===== *)
theory Application_Ports
  imports Prelude
begin

text \<open>
  \<open>internal/application/auth.go\<close>: what the WebAuthn ceremonies hand to the use cases.
\<close>

record registration_result =
  rr_UserID :: uuid
  rr_InviteID :: uuid
  rr_ExternalID :: bytes
  rr_PublicKey :: bytes
  rr_Transports :: "string list"
  rr_InitialSignCount :: "32 word"

text \<open>\<open>fmt.Sprintf("%v", b)\<close> on a byte slice.\<close>

definition show_bytes :: "bytes \<Rightarrow> string" where
  "show_bytes bs = ''['' @ join_with '' '' (map (\<lambda>b. itoa (unat b)) bs) @ '']''"

definition RegistrationResult_String :: "(uuid \<Rightarrow> string) \<Rightarrow> registration_result \<Rightarrow> string" where
  "RegistrationResult_String uuid_str r =
     ''RegistrationResult{UserID: '' @ uuid_str (rr_UserID r) @
     '', InviteID: '' @ uuid_str (rr_InviteID r) @
     '', CredentialID: '' @ show_bytes (rr_ExternalID r) @
     '', PublicKey: ***REDACTED***'' @
     '', Transports: ['' @ join_with '' '' (rr_Transports r) @ '']'' @
     '', InitialSignCount: '' @ itoa (unat (rr_InitialSignCount r)) @ ''}''"

record authentication_result =
  ar_UserID :: uuid
  ar_ExternalID :: bytes
  ar_NewSignCount :: "32 word"
  ar_CloneWarning :: bool

definition AuthenticationResult_String ::
  "(uuid \<Rightarrow> string) \<Rightarrow> authentication_result \<Rightarrow> string" where
  "AuthenticationResult_String uuid_str a =
     ''AuthenticationResult{UserID: '' @ uuid_str (ar_UserID a) @
     '', ExternalID: ***REDACTED***'' @
     '', NewSignCount: '' @ itoa (unat (ar_NewSignCount a)) @ ''}''"

lemma RegistrationResult_String_redacts [redact_defs]:
  "RegistrationResult_String f (r\<lparr>rr_PublicKey := k\<rparr>) = RegistrationResult_String f r"
  by (simp add: RegistrationResult_String_def)

lemma AuthenticationResult_String_redacts [redact_defs]:
  "AuthenticationResult_String f (a\<lparr>ar_ExternalID := x\<rparr>) = AuthenticationResult_String f a"
  by (simp add: AuthenticationResult_String_def)

end
