(* ===== verification/Webauthn.thy ===== *)
theory Webauthn
  imports Repositories Crypto Application_Ports
begin

text \<open>
  \<open>internal/infrastructure/auth/webauthn\<close>: the adapter between the use cases and the WebAuthn
  library. Between the two steps of a ceremony the server keeps nothing: the session data
  travels in an encrypted challenge token with a time to live.
\<close>

section \<open>registrator.go\<close>

text \<open>The payload types of the tokens, with what their \<open>String\<close> methods print.\<close>

record challenge_payload =
  cp_SessionData :: session_data
  cp_InviteID :: uuid
  cp_UserID :: uuid

definition challengePayload_String :: "(uuid \<Rightarrow> string) \<Rightarrow> challenge_payload \<Rightarrow> string" where
  "challengePayload_String show_id p =
     ''challengePayload{SessionData: ***REDACTED***, InviteID: '' @ show_id (cp_InviteID p) @
     '', UserID: '' @ show_id (cp_UserID p) @ ''}''"

definition webauthnUser_String :: "(uuid \<Rightarrow> string) \<Rightarrow> wa_user option \<Rightarrow> string" where
  "webauthnUser_String show_id wu =
     (case wu of None \<Rightarrow> ''<nil>''
      | Some u \<Rightarrow> ''webauthnUser{id: '' @ show_id (wau_id u) @ '', credentials: ***REDACTED***}'')"

record registrator =
  rg_challenge :: token_codec
  rg_ttl :: duration

definition prfConst :: string where
  "prfConst = ''prf''"

definition Registrator_Begin :: "env \<Rightarrow> registrator \<Rightarrow> uuid \<Rightarrow> uuid \<Rightarrow> (string \<times> bytes) act" where
  "Registrator_Begin E r candidateUserID inviteID =
     bind (lib_call (\<lambda>t. wa_begin_registration (lib E) t
             \<lparr>wau_id = candidateUserID, wau_credentials = []\<rparr>
             [With_Authenticator_Selection ''required'' ''required'',
              With_Extensions [(prfConst, J_Object [])]]))
       (\<lambda>(options, sessionData).
     bind (TokenCodec_Encode E (rg_challenge r)
             (Registration_Challenge sessionData inviteID candidateUserID) (rg_ttl r))
       (\<lambda>token.
     bind (lift_sum (options_marshal (lib E) options)) (\<lambda>optsJSON. ret (token, optsJSON))))"

definition parsePRFExtension :: "(string \<times> json_value) list \<Rightarrow> bool" where
  "parsePRFExtension exts =
     (case map_of exts prfConst of
        Some (J_Object prfMap) \<Rightarrow>
          (case map_of prfMap ''enabled'' of Some (J_Bool enabled) \<Rightarrow> enabled | _ \<Rightarrow> False)
      | _ \<Rightarrow> False)"

definition Registrator_Finish ::
  "env \<Rightarrow> registrator \<Rightarrow> string \<Rightarrow> bytes \<Rightarrow> registration_result act" where
  "Registrator_Finish E r challengeToken response =
     bind (catch (TokenCodec_Decode E (rg_challenge r) challengeToken (registration_unmarshal (lib E)))
             (\<lambda>_. fail (Sentinel Webauthn_ErrChallengeExpired)))
       (\<lambda>(sessionData, inviteID, userID).
     bind (lift_sum (wa_parse_creation (lib E) response)) (\<lambda>parsed.
     bind (lift_sum (wa_create_credential (lib E)
             \<lparr>wau_id = userID, wau_credentials = []\<rparr> sessionData parsed)) (\<lambda>cred.
     ret \<lparr>rr_UserID = userID, rr_InviteID = inviteID, rr_ExternalID = wac_id cred,
          rr_PublicKey = wac_public_key cred, rr_Transports = wac_transport cred,
          rr_InitialSignCount = wac_sign_count cred\<rparr>)))"

section \<open>authenticator.go\<close>

definition loginChallengePayload_String :: "session_data \<Rightarrow> string" where
  "loginChallengePayload_String sd = ''loginChallengePayload{SessionData: ***REDACTED***}''"

record authenticator =
  au_challenge :: token_codec
  au_ttl :: duration

definition Authenticator_Begin :: "env \<Rightarrow> authenticator \<Rightarrow> (string \<times> bytes) act" where
  "Authenticator_Begin E a =
     bind (lib_call (\<lambda>t. wa_begin_login (lib E) t [With_User_Verification ''required'']))
       (\<lambda>(options, sessionData).
     bind (TokenCodec_Encode E (au_challenge a) (Login_Challenge sessionData) (au_ttl a)) (\<lambda>token.
     bind (lift_sum (options_marshal (lib E) options)) (\<lambda>optsJSON. ret (token, optsJSON))))"

definition toWebAuthnCredential :: "credential \<Rightarrow> wa_credential" where
  "toWebAuthnCredential c =
     \<lparr>wac_id = cred_external_id c, wac_public_key = cred_public_key c, wac_transport = [],
      wac_sign_count = cred_sign_count c, wac_clone_warning = False\<rparr>"

text \<open>
  \<open>getValidateFunc\<close>: the handler the library calls with the user handle. It writes the
  identifier it found to \<open>userIDOut\<close>, which is the first component of the result here.
\<close>

definition getValidateFunc :: "env \<Rightarrow> ctx \<Rightarrow> bytes \<Rightarrow> (uuid \<times> wa_user) act" where
  "getValidateFunc E c userHandle =
     (case NewUserID (uuid_from_bytes (lib E)) userHandle of
        Inl _ \<Rightarrow> fail (Sentinel Webauthn_ErrUserHandleInvalid)
      | Inr candidateID \<Rightarrow>
          bind (CredentialRepository_FindByUserID E c candidateID) (\<lambda>creds.
          ret (candidateID,
               \<lparr>wau_id = candidateID, wau_credentials = map toWebAuthnCredential creds\<rparr>)))"

definition Authenticator_Finish ::
  "env \<Rightarrow> authenticator \<Rightarrow> ctx \<Rightarrow> string \<Rightarrow> bytes \<Rightarrow> authentication_result act" where
  "Authenticator_Finish E a c challengeToken response =
     bind (catch (TokenCodec_Decode E (au_challenge a) challengeToken (login_unmarshal (lib E)))
             (\<lambda>_. fail (Sentinel Webauthn_ErrChallengeExpired)))
       (\<lambda>sessionData.
     bind (lift_sum (wa_parse_request (lib E) response)) (\<lambda>parsed.
     bind (lift_sum (wa_user_handle (lib E) sessionData parsed)) (\<lambda>userHandle.
     bind (catch (getValidateFunc E c userHandle) (\<lambda>e. fail (wa_handler_error (lib E) e)))
       (\<lambda>(userID, wu).
     bind (lift_sum (wa_validate (lib E) wu sessionData parsed)) (\<lambda>cred.
     ret \<lparr>ar_UserID = userID, ar_ExternalID = wac_id cred, ar_NewSignCount = wac_sign_count cred,
          ar_CloneWarning = wac_clone_warning cred\<rparr>)))))"

lemmas webauthn_defs =
  Registrator_Begin_def Registrator_Finish_def Authenticator_Begin_def Authenticator_Finish_def
  getValidateFunc_def

section \<open>The adapter writes nothing\<close>

lemma keeps_webauthn [keeps_rules]:
  "keeps I (Registrator_Begin E r i j)" "keeps I (Registrator_Finish E r t b)"
  "keeps I (Authenticator_Begin E a)" "keeps I (Authenticator_Finish E a c t b)"
  unfolding webauthn_defs by (intro keeps_rules)+

lemma confined_webauthn [confined_rules]:
  "confined (Registrator_Begin E r i j)" "confined (Registrator_Finish E r t b)"
  "confined (Authenticator_Begin E a)" "confined (Authenticator_Finish E a In_Tx t b)"
  unfolding webauthn_defs by (intro confined_rules)+

text \<open>
  A failed decode of the challenge token is reported as an expired challenge, whatever the
  reason.
\<close>

lemma Registrator_Finish_expired:
  assumes "TokenCodec_Decode E (rg_challenge r) t (registration_unmarshal (lib E)) w = (Err e, w')"
  shows "Registrator_Finish E r t b w = (Err (Sentinel Webauthn_ErrChallengeExpired), w')"
  using assms by (simp add: Registrator_Finish_def bind_def catch_def fail_def)

lemma Authenticator_Finish_expired:
  assumes "TokenCodec_Decode E (au_challenge a) t (login_unmarshal (lib E)) w = (Err e, w')"
  shows "Authenticator_Finish E a c t b w = (Err (Sentinel Webauthn_ErrChallengeExpired), w')"
  using assms by (simp add: Authenticator_Finish_def bind_def catch_def fail_def)

lemma webauthn_String_redacts [redact_defs]:
  "challengePayload_String f (p\<lparr>cp_SessionData := sd\<rparr>) = challengePayload_String f p"
  "webauthnUser_String f (Some (u\<lparr>wau_credentials := cs\<rparr>)) = webauthnUser_String f (Some u)"
  "loginChallengePayload_String sd = loginChallengePayload_String sd'"
  by (simp_all add: challengePayload_String_def webauthnUser_String_def
      loginChallengePayload_String_def)

end
