(* ===== verification/App_Login.thy ===== *)
theory App_Login
  imports Session_Facts Webauthn
begin

text \<open>
  Login of \<open>internal/application\<close>: \<open>BeginLogin\<close> and \<open>Login\<close> with its helpers. A suspected
  clone (the library's warning, or a counter that did not grow) revokes the credential and the
  user's sessions inside the transaction, which commits; only then does the call fail.
\<close>

section \<open>begin_login.go\<close>

definition BeginLogin_Execute :: "env \<Rightarrow> authenticator \<Rightarrow> (string \<times> bytes) act" where
  "BeginLogin_Execute E a = Authenticator_Begin E a"

section \<open>finish_login.go\<close>

record login_input =
  li_ChallengeToken :: string
  li_AuthenticationResponse :: bytes
  li_DeviceInfo :: string
  li_IPAddress :: ip_addr

definition LoginInput_String :: "(ip_addr \<Rightarrow> string) \<Rightarrow> login_input \<Rightarrow> string" where
  "LoginInput_String ip_str inp =
     ''LoginInput{ChallengeToken: ***REDACTED***, AuthenticationResponse: ***REDACTED***, DeviceInfo: '' @
     li_DeviceInfo inp @ '', IPAddress: '' @ ip_str (li_IPAddress inp) @ ''}''"

record wrapped_key_output =
  wko_Scope :: scope
  wko_WrappedDEK :: bytes
  wko_WrapAlgorithm :: string

definition WrappedKeyOutput_String :: "wrapped_key_output \<Rightarrow> string" where
  "WrappedKeyOutput_String k =
     ''WrappedKeyOutput{Scope: '' @ itoa (unat (wko_Scope k)) @
     '', WrappedDEK: '' @ itoa (length (wko_WrappedDEK k)) @
     '' bytes, WrapAlgorithm: '' @ wko_WrapAlgorithm k @ ''}''"

definition wrappedKeysToOutput :: "wrapped_key list \<Rightarrow> wrapped_key_output list" where
  "wrappedKeysToOutput ks =
     map (\<lambda>k. \<lparr>wko_Scope = wk_scope k, wko_WrappedDEK = wk_wrapped_dek k,
               wko_WrapAlgorithm = wk_wrap_algorithm k\<rparr>) ks"

record login_output =
  lo_AccessToken :: string
  lo_RefreshToken :: string
  lo_WrappedKeys :: "wrapped_key_output list"

definition LoginOutput_String :: "login_output \<Rightarrow> string" where
  "LoginOutput_String out =
     ''LoginOutput{AccessToken: ***REDACTED***, RefreshToken: ***REDACTED***, WrappedKeys: '' @
     itoa (length (lo_WrappedKeys out)) @ '' records}''"

record login =
  lg_authenticator :: authenticator
  lg_sessionIssuer :: session_issuer

definition findCredential :: "env \<Rightarrow> ctx \<Rightarrow> bytes \<Rightarrow> credential act" where
  "findCredential E c externalID =
     bind (not_found_as App_ErrCredentialNotFound
             (CredentialRepository_FindByExternalID E c externalID)) (\<lambda>cred.
     if credential_IsRevoked cred then fail (Sentinel App_ErrCredentialRevoked) else ret cred)"

definition handleClone :: "env \<Rightarrow> ctx \<Rightarrow> credential \<Rightarrow> time \<Rightarrow> unit act" where
  "handleClone E c cred t =
     bind (lift_sum (credential_Revoke cred t)) (\<lambda>cred'.
     bind (CredentialRepository_Save E c cred') (\<lambda>_.
     RevokeAllUserSessions_Execute E c [cred_user_id cred']))"

text \<open>
  The body of the transaction. \<open>SetSignCount\<close> changes the credential only when it succeeds, so
  a clone is handled on the credential as it was found, unless the library alone warned: then
  the new counter is saved with the revocation. The result is \<open>None\<close> when a clone was
  detected.
\<close>

definition login_body ::
  "env \<Rightarrow> login \<Rightarrow> login_input \<Rightarrow> time \<Rightarrow> authentication_result \<Rightarrow> ctx \<Rightarrow> login_output option act" where
  "login_body E uc inp t result c =
     bind (findCredential E c (ar_ExternalID result)) (\<lambda>cred.
     let sign = SetSignCount cred (ar_NewSignCount result);
         cred' = (case sign of Inl _ \<Rightarrow> cred | Inr x \<Rightarrow> x) in
     if ar_CloneWarning result \<or>
        (case sign of Inl e \<Rightarrow> errors_is e Credential_ErrSignCountRegression | Inr _ \<Rightarrow> False)
     then bind (handleClone E c cred' t) (\<lambda>_. ret None)
     else bind (lift_sum sign) (\<lambda>cred'.
          bind (CredentialRepository_Save E c cred') (\<lambda>_.
          bind (WrappedKeyRepository_FindByCredentialID E c (cred_id cred')) (\<lambda>keys.
          bind (SessionIssuer_Issue E (lg_sessionIssuer uc) c (cred_user_id cred')
                  (li_DeviceInfo inp) (li_IPAddress inp) t) (\<lambda>(access, refresh).
          ret (Some \<lparr>lo_AccessToken = access, lo_RefreshToken = refresh,
                     lo_WrappedKeys = wrappedKeysToOutput keys\<rparr>))))))"

definition Login_Execute :: "env \<Rightarrow> login \<Rightarrow> ctx \<Rightarrow> login_input \<Rightarrow> login_output act" where
  "Login_Execute E uc c inp =
     bind (now E) (\<lambda>t.
     bind (Authenticator_Finish E (lg_authenticator uc) c (li_ChallengeToken inp)
             (li_AuthenticationResponse inp)) (\<lambda>result.
     bind (RunInTransaction E c (login_body E uc inp t result)) (\<lambda>res.
     case res of
       None \<Rightarrow> fail (Sentinel App_ErrCredentialCloneSuspected)
     | Some out \<Rightarrow> ret out)))"

lemmas login_use_case_defs =
  BeginLogin_Execute_def findCredential_def handleClone_def login_body_def Login_Execute_def

section \<open>Constraints and confinement\<close>

lemma keeps_login_use_cases [keeps_rules]:
  "keeps I (BeginLogin_Execute E a)" "keeps I (findCredential E c x)"
  "keeps db_ok (handleClone E c cred t)" "keeps db_ok (login_body E uc inp t res c)"
  "keeps db_ok (Login_Execute E uc c inp)"
  unfolding login_use_case_defs Let_def by (intro keeps_rules)+

lemma confined_login_use_cases [confined_rules]:
  "confined (BeginLogin_Execute E a)" "confined (findCredential E In_Tx x)"
  "confined (handleClone E In_Tx cred t)" "confined (login_body E uc inp t res In_Tx)"
  "confined (Login_Execute E uc In_Tx inp)"
  unfolding login_use_case_defs Let_def by (intro confined_rules)+

lemma login_String_redacts [redact_defs]:
  "LoginInput_String f (inp\<lparr>li_ChallengeToken := ct, li_AuthenticationResponse := rb\<rparr>) =
   LoginInput_String f inp"
  "length b = length (wko_WrappedDEK k) \<Longrightarrow>
   WrappedKeyOutput_String (k\<lparr>wko_WrappedDEK := b\<rparr>) = WrappedKeyOutput_String k"
  "LoginOutput_String (out\<lparr>lo_AccessToken := a, lo_RefreshToken := r\<rparr>) = LoginOutput_String out"
  by (simp_all add: LoginInput_String_def WrappedKeyOutput_String_def LoginOutput_String_def)

section \<open>What a login does to the data\<close>

definition clone_suspected :: "pg_credential \<Rightarrow> authentication_result \<Rightarrow> bool" where
  "clone_suspected row res \<longleftrightarrow>
     ar_CloneWarning res \<or>
     ar_NewSignCount res \<le> pgc_sign_count row \<and> pgc_sign_count row \<noteq> 0"

lemma findCredential_tx:
  assumes "findCredential E In_Tx x w = (Ok cred, w')"
  shows "\<exists>d row. in_tx w d w' d \<and> find (\<lambda>r. pgc_external_id r = x) (credentials d) = Some row \<and>
    cred = rowToCredential row \<and> pgc_revoked_at row = None"
  using assms
  by (auto simp: findCredential_def ok_dest credential_IsRevoked_def split: if_splits
      dest!: CredentialRepository_FindByExternalID_tx)

lemma handleClone_tx:
  assumes "handleClone E In_Tx cred t w = (Ok u, w')" and "work w = Some d" and "sessions_ok d"
  shows "\<exists>d1 d' t'. SaveCredential (credentialToRow (cred\<lparr>cred_revoked_at := Some t\<rparr>)) d = Inr ((), d1) \<and>
    d' = revoke_active [cred_user_id cred] t' d1 \<and> in_tx w d w' d'"
proof -
  from assms(1) obtain cred' w1
    where c': "cred' = cred\<lparr>cred_revoked_at := Some t\<rparr>"
      and save: "CredentialRepository_Save E In_Tx cred' w = (Ok (), w1)"
      and rev: "RevokeAllUserSessions_Execute E In_Tx [cred_user_id cred'] w1 = (Ok u, w')"
    by (auto simp: handleClone_def ok_dest credential_Revoke_Inr_iff)
  from save assms(2) obtain d1
    where d1: "in_tx w d w1 d1" "SaveCredential (credentialToRow cred') d = Inr ((), d1)"
    by (auto simp: in_tx_def dest!: CredentialRepository_Save_tx)
  have "sessions_ok d1"
    using d1(2) assms(3) by (auto simp: SaveCredential_def sessions_ok_def split: if_splits)
  moreover have "work w1 = Some d1" using d1(1) by (simp add: in_tx_def)
  ultimately have "in_tx w1 d1 w' (revoke_active [cred_user_id cred'] (clock E (tick w1)) d1)"
    using RevokeAll_tx [OF rev] by simp
  with d1 c' show ?thesis by (auto simp: in_tx_def)
qed

end
