(* ===== verification/Fault_Free.thy ===== *)
theory Fault_Free
  imports Session_Facts
begin

text \<open>
  Runs in an environment where the database never fails for a reason of its own: what the
  code then returns is determined by the data. \<open>fault_run\<close> collects the equations that
  evaluate an action step by step.
\<close>

named_theorems fault_run \<open>one step of an action when nothing outside fails\<close>

definition fault_free :: "env \<Rightarrow> bool" where
  "fault_free E \<longleftrightarrow>
     (\<forall>n. stmt_fault E n = None \<and> begin_fault E n = None \<and> commit_fault E n = None \<and>
        rollback_fault E n = None)"

lemma fault_freeD [fault_run]:
  assumes "fault_free E"
  shows "stmt_fault E n = None" "begin_fault E n = None" "commit_fault E n = None"
    "rollback_fault E n = None"
  using assms by (simp_all add: fault_free_def)

lemma run_stmt_tx_run [fault_run]:
  assumes "fault_free E" and "work w = Some d" and "\<not> aborted w"
  shows "run_stmt E In_Tx q w =
    (case q d of
       Inl e \<Rightarrow> (Err e, w\<lparr>tick := Suc (tick w), aborted := True\<rparr>)
     | Inr (x, d') \<Rightarrow> (Ok x, w\<lparr>tick := Suc (tick w), work := Some d'\<rparr>))"
  using assms by (simp add: run_stmt_def fault_freeD Let_def split: sum.split)

lemma run_stmt_plain_run [fault_run]:
  assumes "fault_free E"
  shows "run_stmt E No_Tx q w =
    (case q (committed w) of
       Inl e \<Rightarrow> (Err e, w\<lparr>tick := Suc (tick w)\<rparr>)
     | Inr (x, d') \<Rightarrow> (Ok x, w\<lparr>tick := Suc (tick w), committed := d'\<rparr>))"
  using assms by (simp add: run_stmt_def fault_freeD Let_def split: sum.split)

lemma query_row_tx_run [fault_run]:
  assumes "fault_free E" and "work w = Some d" and "\<not> aborted w" and "q d = Inr (r, d)"
  shows "query_row E In_Tx q w =
    (case r of None \<Rightarrow> Err (Sentinel Pgx_ErrNoRows) | Some x \<Rightarrow> Ok x,
     w\<lparr>tick := Suc (tick w), work := Some d\<rparr>)"
  using assms by (auto simp: query_row_def bind_def run_stmt_tx_run fail_def split: option.split)

lemma query_row_plain_run [fault_run]:
  assumes "fault_free E" and "q (committed w) = Inr (r, committed w)"
  shows "query_row E No_Tx q w =
    (case r of None \<Rightarrow> Err (Sentinel Pgx_ErrNoRows) | Some x \<Rightarrow> Ok x, w\<lparr>tick := Suc (tick w)\<rparr>)"
  using assms by (auto simp: query_row_def bind_def run_stmt_plain_run fail_def split: option.split)

text \<open>A transaction runs its body on a copy; a body that fails rolls back and its error is returned.\<close>

lemma RunInTransaction_err [fault_run]:
  assumes "fault_free E"
    and "fn In_Tx (w\<lparr>work := Some (committed w), aborted := False, tick := Suc (tick w)\<rparr>) = (Err e, w1)"
  shows "RunInTransaction E No_Tx fn w =
    (Err e, w1\<lparr>work := work w, aborted := aborted w, tick := Suc (tick w1)\<rparr>)"
  using assms by (simp add: RunInTransaction_def runInTx_def rollback_with_def fault_freeD Let_def)

lemma RunInTransaction_ok [fault_run]:
  assumes "fault_free E"
    and "fn In_Tx (w\<lparr>work := Some (committed w), aborted := False, tick := Suc (tick w)\<rparr>) = (Ok x, w1)"
    and "\<not> aborted w1" and "work w1 = Some d"
  shows "RunInTransaction E No_Tx fn w =
    (Ok x, w1\<lparr>committed := d, work := work w, aborted := aborted w, tick := Suc (tick w1)\<rparr>)"
  using assms by (simp add: RunInTransaction_def runInTx_def fault_freeD Let_def)

section \<open>Reading and revoking\<close>

lemma or_not_found_run [fault_run]:
  "m w = (Ok x, w') \<Longrightarrow> or_not_found m w = (Ok x, w')"
  "m w = (Err (Sentinel Pgx_ErrNoRows), w') \<Longrightarrow>
   or_not_found m w = (Err (Sentinel Domain_ErrNotFound), w')"
  by (simp_all add: or_not_found_def catch_def fail_def)

lemma not_found_as_run [fault_run]:
  "m w = (Ok x, w') \<Longrightarrow> not_found_as s m w = (Ok x, w')"
  "m w = (Err (Sentinel Domain_ErrNotFound), w') \<Longrightarrow> not_found_as s m w = (Err (Sentinel s), w')"
  by (simp_all add: not_found_as_def catch_def fail_def)

lemma FindByTokenHash_run:
  assumes "fault_free E" and "work w = Some d" and "\<not> aborted w"
    and "find (\<lambda>r. pgs_token_hash r = h) (sessions d) = Some row"
  shows "SessionRepository_FindByTokenHash E In_Tx h w =
    (Ok (rowToSession row), w\<lparr>tick := Suc (tick w), work := Some d\<rparr>)"
  using assms
  by (simp add: SessionRepository_FindByTokenHash_def bind_def FindRefreshTokenByTokenHash_def
      query_row_tx_run or_not_found_run)

lemma revoke_body_run:
  assumes "fault_free E" and "work w = Some d" and "\<not> aborted w" and "sessions_ok d"
  shows "\<exists>n. bind (SessionRepository_FindActiveByUserIDs E In_Tx us t)
      (\<lambda>tokens. if tokens = [] then ret ()
        else bind (lift_sum (revoke_each tokens t)) (SessionRepository_Save E In_Tx)) w =
    (Ok (), w\<lparr>tick := n, work := Some (revoke_active us t d)\<rparr>)"
proof -
  let ?rows = "filter (pgs_active us t) (sessions d)"
  have each: "revoke_each (map rowToSession ?rows) t =
      Inr (map rowToSession (map (pgs_revoke t) ?rows))"
    by (rule revoke_each_active) (auto simp: pgs_active_def)
  have save: "SaveRefreshTokens (map sessionToRow (map rowToSession (map (pgs_revoke t) ?rows))) d =
      Inr ((), revoke_active us t d)"
    using save_revoked [of d t us] assms(4) by (simp add: sessions_ok_def comp_def)
  have find: "SessionRepository_FindActiveByUserIDs E In_Tx us t w =
      (Ok (map rowToSession ?rows), w\<lparr>tick := Suc (tick w), work := Some d\<rparr>)"
    using assms by (simp add: SessionRepository_FindActiveByUserIDs_def bind_def
        run_stmt_tx_run ListActiveRefreshTokensByUserIDs_def)
  show ?thesis
  proof (cases "?rows = []")
    case True
    with find revoke_active_none [OF True] assms(2) show ?thesis
      by (intro exI [of _ "Suc (tick w)"]) (simp add: bind_def)
  next
    case False
    with find each save assms show ?thesis
      by (intro exI [of _ "Suc (Suc (tick w))"])
        (simp add: bind_def lift_sum_def SessionRepository_Save_def run_stmt_tx_run del: map_map)
  qed
qed

lemma FindByID_run:
  assumes "fault_free E" and "work w = Some d" and "\<not> aborted w"
  shows "not_found_as App_ErrSessionNotFound (SessionRepository_FindByID E In_Tx i) w =
    (case find (\<lambda>r. pgs_id r = i) (sessions d) of
       None \<Rightarrow> Err (Sentinel App_ErrSessionNotFound)
     | Some row \<Rightarrow> Ok (rowToSession row), w\<lparr>tick := Suc (tick w), work := Some d\<rparr>)"
  using assms
  by (simp add: not_found_as_def catch_def SessionRepository_FindByID_def bind_def or_not_found_def
      query_row_tx_run FindRefreshTokenByIDForUpdate_def fail_def ret_def split: option.split)

text \<open>What \<open>RevokeSession\<close> answers is determined by the stored session.\<close>

lemma RevokeSession_run:
  assumes "fault_free E"
  shows "fst (RevokeSession_Execute E No_Tx i u w) =
    (case find (\<lambda>r. pgs_id r = i) (sessions (committed w)) of
       None \<Rightarrow> Err (Sentinel App_ErrSessionNotFound)
     | Some row \<Rightarrow> if pgs_user_id row \<noteq> u then Err (Sentinel App_ErrSessionForbidden) else Ok ())"
proof -
  let ?t = "clock E (tick w)"
  let ?body = "\<lambda>c. bind (not_found_as App_ErrSessionNotFound (SessionRepository_FindByID E c i)) (\<lambda>rt.
       if ses_user_id rt \<noteq> u then fail (Sentinel App_ErrSessionForbidden)
       else case session_Revoke rt ?t of
              Inl e \<Rightarrow> if errors_is e Session_ErrAlreadyRevoked then ret () else fail e
            | Inr rt' \<Rightarrow> SessionRepository_Save E c [rt'])"
  let ?w1 = "w\<lparr>work := Some (committed w), aborted := False, tick := Suc (Suc (tick w))\<rparr>"
  have run: "RevokeSession_Execute E No_Tx i u w = RunInTransaction E No_Tx ?body (w\<lparr>tick := Suc (tick w)\<rparr>)"
    by (simp add: RevokeSession_Execute_def bind_def [of "now E"] now_def)
  have find: "not_found_as App_ErrSessionNotFound (SessionRepository_FindByID E In_Tx i) ?w1 =
      (case find (\<lambda>r. pgs_id r = i) (sessions (committed w)) of
         None \<Rightarrow> Err (Sentinel App_ErrSessionNotFound)
       | Some row \<Rightarrow> Ok (rowToSession row), ?w1\<lparr>tick := Suc (tick ?w1), work := Some (committed w)\<rparr>)"
    using FindByID_run [OF assms, of ?w1 "committed w" i] by simp
  have err: "fst (RunInTransaction E No_Tx ?body (w\<lparr>tick := Suc (tick w)\<rparr>)) = Err e"
    if "?body In_Tx ?w1 = (Err e, w2)" for e w2
    using RunInTransaction_err [where fn = ?body and w = "w\<lparr>tick := Suc (tick w)\<rparr>", OF assms] that by simp
  have ok: "fst (RunInTransaction E No_Tx ?body (w\<lparr>tick := Suc (tick w)\<rparr>)) = Ok ()"
    if "?body In_Tx ?w1 = (Ok (), w2)" "\<not> aborted w2" "work w2 = Some d" for w2 d
    using RunInTransaction_ok [where fn = ?body and w = "w\<lparr>tick := Suc (tick w)\<rparr>", OF assms] that by simp
  show ?thesis
  proof (cases "find (\<lambda>r. pgs_id r = i) (sessions (committed w))")
    case None
    with find have "?body In_Tx ?w1 = (Err (Sentinel App_ErrSessionNotFound), ?w1\<lparr>tick := Suc (tick ?w1)\<rparr>)"
      by (simp add: bind_def)
    from err [OF this] None run show ?thesis by simp
  next
    case (Some row)
    then have row: "row \<in> set (sessions (committed w))" "pgs_id row = i" by (auto dest: find_SomeD)
    show ?thesis
    proof (cases "pgs_user_id row = u")
      case False
      with find Some have "?body In_Tx ?w1 = (Err (Sentinel App_ErrSessionForbidden), ?w1\<lparr>tick := Suc (tick ?w1)\<rparr>)"
        by (simp add: bind_def fail_def)
      from err [OF this] Some False run show ?thesis by simp
    next
      case own: True
      show ?thesis
      proof (cases "pgs_revoked_at row")
        case revoked: (Some r)
        with find Some own have "?body In_Tx ?w1 = (Ok (), ?w1\<lparr>tick := Suc (tick ?w1)\<rparr>)"
          by (simp add: bind_def session_Revoke_def ret_def)
        from ok [OF this] Some own run show ?thesis by simp
      next
        case None
        from row have "pgs_id (sessionToRow (rowToSession row\<lparr>ses_revoked_at := Some ?t\<rparr>)) \<in>
            pgs_id ` set (sessions (committed w))" by auto
        then obtain d1 where d1: "upsert_session (sessionToRow (rowToSession row\<lparr>ses_revoked_at := Some ?t\<rparr>))
            (committed w) = Inr ((), d1)" by (simp add: upsert_session_def)
        with find Some own None have "?body In_Tx ?w1 =
            (Ok (), ?w1\<lparr>tick := Suc (Suc (tick ?w1)), work := Some d1\<rparr>)"
          by (simp add: bind_def session_Revoke_def SessionRepository_Save_def run_stmt_tx_run assms)
        from ok [OF this] Some own run show ?thesis by simp
      qed
    qed
  qed
qed

lemma RevokeAll_tx_run:
  assumes "fault_free E" and "work w = Some d" and "\<not> aborted w" and "sessions_ok d" and "us \<noteq> []"
  shows "\<exists>n. RevokeAllUserSessions_Execute E In_Tx us w =
    (Ok (), w\<lparr>tick := n, work := Some (revoke_active us (clock E (tick w)) d)\<rparr>)"
  using revoke_body_run [of E "w\<lparr>tick := Suc (tick w)\<rparr>" d us "clock E (tick w)"] assms
  by (simp add: RevokeAllUserSessions_Execute_def bind_def [of "now E"] now_def RunInTransaction_nested)

lemma RevokeAll_plain_run:
  assumes "fault_free E" and "sessions_ok (committed w)" and "us \<noteq> []"
  shows "\<exists>w'. RevokeAllUserSessions_Execute E No_Tx us w = (Ok (), w') \<and>
    committed w' = revoke_active us (clock E (tick w)) (committed w)"
proof -
  let ?w1 = "w\<lparr>tick := Suc (tick w)\<rparr>"
  let ?w0 = "?w1\<lparr>work := Some (committed ?w1), aborted := False, tick := Suc (tick ?w1)\<rparr>"
  let ?t = "clock E (tick w)"
  let ?body = "\<lambda>c. bind (SessionRepository_FindActiveByUserIDs E c us ?t)
    (\<lambda>tokens. if tokens = [] then ret ()
      else bind (lift_sum (revoke_each tokens ?t)) (SessionRepository_Save E c))"
  from revoke_body_run [OF assms(1), of ?w0 "committed w" us ?t] assms(2)
  obtain n where body: "?body In_Tx ?w0 =
      (Ok (), ?w0\<lparr>tick := n, work := Some (revoke_active us ?t (committed w))\<rparr>)" by auto
  show ?thesis
    using RunInTransaction_ok [where fn = ?body, OF assms(1) body] assms(3)
    by (simp add: RevokeAllUserSessions_Execute_def bind_def [of "now E"] now_def)
qed

section \<open>A revoked refresh token\<close>

text \<open>
  Inside the transaction every active session of the owner is revoked, and then the call fails:
  the error rolls the transaction back.
\<close>

lemma validate_reuse_run:
  assumes "fault_free E" and "work w = Some d" and "\<not> aborted w" and "sessions_ok d"
    and "find (\<lambda>r. pgs_token_hash r = generateHashBase32 (lib E) (ra_hasher ra) raw) (sessions d) =
         Some row"
    and "pgs_revoked_at row \<noteq> None"
  shows "\<exists>n. validateRefreshToken E ra In_Tx raw t w =
    (Err (Sentinel App_ErrRefreshTokenReuseDetected),
     w\<lparr>tick := n, work := Some (revoke_active [pgs_user_id row] (clock E (Suc (tick w))) d)\<rparr>)"
proof -
  let ?w1 = "w\<lparr>tick := Suc (tick w), work := Some d\<rparr>"
  obtain n where "RevokeAllUserSessions_Execute E In_Tx [pgs_user_id row] ?w1 =
      (Ok (), ?w1\<lparr>tick := n, work := Some (revoke_active [pgs_user_id row] (clock E (Suc (tick w))) d)\<rparr>)"
    using RevokeAll_tx_run [of E ?w1 d "[pgs_user_id row]"] assms by auto
  with assms show ?thesis
    by (intro exI [of _ n])
      (simp add: validateRefreshToken_def SecretManager_GenerateHash_def bind_def ret_def
        not_found_as_run FindByTokenHash_run session_IsRevoked_def fail_def)
qed

lemma refresh_reuse_run:
  assumes "fault_free E" and "sessions_ok (committed w)"
    and "find (\<lambda>r. pgs_token_hash r = generateHashBase32 (lib E) (ra_hasher ra) raw)
           (sessions (committed w)) = Some row"
    and "pgs_revoked_at row \<noteq> None"
  shows "\<exists>w'. RefreshAccessToken_Execute E ra No_Tx raw w =
    (Err (Sentinel App_ErrRefreshTokenReuseDetected), w') \<and> committed w' = committed w"
proof -
  let ?w0 = "w\<lparr>work := Some (committed w), aborted := False, tick := Suc (tick w)\<rparr>"
  let ?body = "\<lambda>c. bind (now E) (\<lambda>t. bind (validateRefreshToken E ra c raw t)
    (\<lambda>old. SessionIssuer_Rotate E (ra_sessionIssuer ra) c old t))"
  obtain n where "validateRefreshToken E ra In_Tx raw (clock E (Suc (tick w)))
      (?w0\<lparr>tick := Suc (tick ?w0)\<rparr>) = (Err (Sentinel App_ErrRefreshTokenReuseDetected),
      (?w0\<lparr>tick := Suc (tick ?w0)\<rparr>)\<lparr>tick := n, work :=
        Some (revoke_active [pgs_user_id row] (clock E (Suc (Suc (Suc (tick w))))) (committed w))\<rparr>)"
    using validate_reuse_run [of E "?w0\<lparr>tick := Suc (tick ?w0)\<rparr>" "committed w" ra raw row
        "clock E (Suc (tick w))"] assms
    by auto
  then have "?body In_Tx ?w0 = (Err (Sentinel App_ErrRefreshTokenReuseDetected),
      ?w0\<lparr>tick := n, work :=
        Some (revoke_active [pgs_user_id row] (clock E (Suc (Suc (Suc (tick w))))) (committed w))\<rparr>)"
    by (simp add: bind_def now_def)
  from RunInTransaction_err [where fn = ?body, OF assms(1) this] show ?thesis
    by (simp add: RefreshAccessToken_Execute_def)
qed

section \<open>Issuing and rotating\<close>

text \<open>
  What the outside has to provide for a new session: random bytes whose hash no stored session
  has, and an identifier that is not taken.
\<close>

definition fresh_session :: "env \<Rightarrow> secret_manager \<Rightarrow> database \<Rightarrow> bool" where
  "fresh_session E sm d \<longleftrightarrow>
     (\<forall>n. next_uuid E n \<noteq> uuid_nil \<and> next_uuid E n \<notin> pgs_id ` set (sessions d)) \<and>
     (\<forall>n. \<exists>bs. entropy E n 32 = Inr bs \<and> generateHashBase32 (lib E) sm (b32_encode bs) \<noteq> [] \<and>
        generateHashBase32 (lib E) sm (b32_encode bs) \<notin> pgs_token_hash ` set (sessions d))"

text \<open>The same of one tick only: the token drawn there and the identifier after it.\<close>

definition new_hash :: "env \<Rightarrow> secret_manager \<Rightarrow> nat \<Rightarrow> string option" where
  "new_hash E sm n =
     (case entropy E n 32 of Inl e \<Rightarrow> None | Inr bs \<Rightarrow> Some (generateHashBase32 (lib E) sm (b32_encode bs)))"

definition fresh_at :: "env \<Rightarrow> secret_manager \<Rightarrow> database \<Rightarrow> nat \<Rightarrow> bool" where
  "fresh_at E sm d n \<longleftrightarrow>
     next_uuid E (Suc n) \<noteq> uuid_nil \<and> next_uuid E (Suc n) \<notin> pgs_id ` set (sessions d) \<and>
     (\<exists>h. new_hash E sm n = Some h \<and> h \<noteq> [] \<and> h \<notin> pgs_token_hash ` set (sessions d))"

lemma fresh_session_at: "fresh_session E sm d \<Longrightarrow> fresh_at E sm d n"
  unfolding fresh_session_def fresh_at_def new_hash_def by (metis sum.case(2))

lemma GenerateToken_run:
  assumes "fresh_at E sm d (tick w)"
  shows "\<exists>raw. SecretManager_GenerateToken E sm refreshTokenLength w =
      (Ok (raw, generateHashBase32 (lib E) sm raw), w\<lparr>tick := Suc (tick w)\<rparr>) \<and>
    new_hash E sm (tick w) = Some (generateHashBase32 (lib E) sm raw) \<and>
    generateHashBase32 (lib E) sm raw \<noteq> [] \<and>
    generateHashBase32 (lib E) sm raw \<notin> pgs_token_hash ` set (sessions d)"
proof -
  obtain bs where "entropy E (tick w) 32 = Inr bs" "generateHashBase32 (lib E) sm (b32_encode bs) \<noteq> []"
    "generateHashBase32 (lib E) sm (b32_encode bs) \<notin> pgs_token_hash ` set (sessions d)"
    using assms unfolding fresh_at_def by (auto simp: new_hash_def split: sum.splits)
  then show ?thesis
    by (intro exI [of _ "b32_encode bs"]) (simp add: GenerateToken_Ok refreshTokenLength_def new_hash_def)
qed

lemma stored_user_reads:
  assumes "users_ok d" and "i \<in> user_ids d"
  shows "\<exists>row u. find (\<lambda>r. pgu_id r = i) (users d) = Some row \<and> rowToUser row = Inr u"
proof -
  from assms(2) have "find (\<lambda>r. pgu_id r = i) (users d) \<noteq> None" by (simp add: find_key_None)
  then obtain row where row: "find (\<lambda>r. pgu_id r = i) (users d) = Some row" by blast
  then have "row \<in> set (users d)" by (auto dest: find_SomeD)
  with assms(1) have "pgu_role row \<in> {UserRoleMember, UserRoleAdmin}" by (auto simp: users_ok_def)
  with row rowToUser_total show ?thesis by blast
qed

lemma issueAccess_run:
  assumes "fault_free E" and "work w = Some d" and "\<not> aborted w" and "users_ok d"
    and "i \<in> user_ids d"
  shows "\<exists>access. issueAccess E si In_Tx i w = (Ok access, w\<lparr>tick := Suc (Suc (tick w))\<rparr>)"
proof -
  obtain row u where "find (\<lambda>r. pgu_id r = i) (users d) = Some row" "rowToUser row = Inr u"
    using stored_user_reads [OF assms(4,5)] by blast
  then have "UserRepository_FindByID E In_Tx i w = (Ok u, w\<lparr>tick := Suc (tick w)\<rparr>)"
    using assms by (simp add: UserRepository_FindByID_def bind_def FindUserByID_def query_row_tx_run
        or_not_found_run lift_sum_def)
  then show ?thesis
    by (auto simp: issueAccess_def IssueAccessToken_def bind_def now_def ret_def)
qed

lemma Issue_run:
  assumes "fault_free E" and "work w = Some d" and "\<not> aborted w" and "users_ok d"
    and "i \<in> user_ids d" and "i \<noteq> uuid_nil" and "addr_is_valid ip"
    and "fresh_session E (si_refreshTokens si) d"
  shows "\<exists>toks n rt h k. session_New (next_uuid E k) i h dev ip (si_refreshTTL si) t = Inr rt \<and>
    SessionIssuer_Issue E si In_Tx i dev ip t w =
    (Ok toks, w\<lparr>tick := n, work := Some (d\<lparr>sessions := sessions d @ [sessionToRow rt]\<rparr>)\<rparr>)"
proof -
  obtain raw where gen: "SecretManager_GenerateToken E (si_refreshTokens si) refreshTokenLength w =
      (Ok (raw, generateHashBase32 (lib E) (si_refreshTokens si) raw), w\<lparr>tick := Suc (tick w)\<rparr>)"
    and hash: "generateHashBase32 (lib E) (si_refreshTokens si) raw \<noteq> []"
      "generateHashBase32 (lib E) (si_refreshTokens si) raw \<notin> pgs_token_hash ` set (sessions d)"
    using GenerateToken_run [OF fresh_session_at [OF assms(8)]] by blast
  let ?n = "next_uuid E (Suc (tick w))"
  have n: "?n \<noteq> uuid_nil" "?n \<notin> pgs_id ` set (sessions d)" using assms(8) by (auto simp: fresh_session_def)
  obtain rt where rt: "session_New ?n i (generateHashBase32 (lib E) (si_refreshTokens si) raw) dev ip
      (si_refreshTTL si) t = Inr rt" using n hash assms(6,7) by (simp add: session_New_def)
  then have fields: "ses_id rt = ?n" "ses_user_id rt = i"
    "ses_token_hash rt = generateHashBase32 (lib E) (si_refreshTokens si) raw"
    by (auto simp: session_New_Inr_iff)
  define d1 where "d1 = d\<lparr>sessions := sessions d @ [sessionToRow rt]\<rparr>"
  have save: "upsert_session (sessionToRow rt) d = Inr ((), d1)"
    using n hash assms(5) fields by (simp add: upsert_session_def d1_def)
  let ?w2 = "w\<lparr>tick := Suc (Suc (Suc (tick w))), work := Some d1\<rparr>"
  have "users_ok d1" "i \<in> user_ids d1" using assms(4,5) by (simp_all add: d1_def users_ok_def)
  then obtain access k where "issueAccess E si In_Tx i ?w2 = (Ok access, ?w2\<lparr>tick := k\<rparr>)"
    using issueAccess_run [of E ?w2 d1 i si] assms(1,3) by auto
  then have "SessionIssuer_Issue E si In_Tx i dev ip t w = (Ok (access, raw), w\<lparr>tick := k, work := Some d1\<rparr>)"
    using gen rt save assms(1-3)
    by (simp add: SessionIssuer_Issue_def bind_def new_id_def lift_sum_def RunInTransaction_nested
        SessionRepository_Save_def run_stmt_tx_run ret_def)
  with rt show ?thesis unfolding d1_def by blast
qed

lemma Rotate_run:
  assumes "fault_free E" and "work w = Some d" and "\<not> aborted w" and "users_ok d"
    and "ses_id old \<in> pgs_id ` set (sessions d)" and "ses_user_id old \<in> user_ids d"
    and "ses_revoked_at old = None" and "fresh_at E (si_refreshTokens si) d (tick w)"
  shows "\<exists>toks h new. new_hash E (si_refreshTokens si) (tick w) = Some h \<and>
    session_Rotate old (next_uuid E (Suc (tick w))) h t = Inr new \<and>
    SessionIssuer_Rotate E si In_Tx old t w = (Ok toks, w\<lparr>tick := tick w + 5,
      work := Some (d\<lparr>sessions :=
        update_where (\<lambda>s. pgs_id s = ses_id old) (pgs_revoke t) (sessions d) @ [sessionToRow new]\<rparr>)\<rparr>)"
proof -
  obtain raw where gen: "SecretManager_GenerateToken E (si_refreshTokens si) refreshTokenLength w =
      (Ok (raw, generateHashBase32 (lib E) (si_refreshTokens si) raw), w\<lparr>tick := Suc (tick w)\<rparr>)"
    and h: "new_hash E (si_refreshTokens si) (tick w) = Some (generateHashBase32 (lib E) (si_refreshTokens si) raw)"
    and hash: "generateHashBase32 (lib E) (si_refreshTokens si) raw \<noteq> []"
      "generateHashBase32 (lib E) (si_refreshTokens si) raw \<notin> pgs_token_hash ` set (sessions d)"
    using GenerateToken_run [OF assms(8)] by blast
  let ?n = "next_uuid E (Suc (tick w))"
  have n: "?n \<noteq> uuid_nil" "?n \<notin> pgs_id ` set (sessions d)" using assms(8) by (auto simp: fresh_at_def)
  obtain new where new: "session_Rotate old ?n (generateHashBase32 (lib E) (si_refreshTokens si) raw) t =
      Inr new" using n hash by (simp add: session_Rotate_def)
  then have fields: "ses_id new = ?n" "ses_user_id new = ses_user_id old"
    "ses_token_hash new = generateHashBase32 (lib E) (si_refreshTokens si) raw"
    by (auto simp: session_Rotate_Inr_iff)
  let ?old = "old\<lparr>ses_revoked_at := Some t\<rparr>"
  define d1 where "d1 = d\<lparr>sessions := update_where (\<lambda>s. pgs_id s = ses_id old) (pgs_revoke t) (sessions d)\<rparr>"
  have first: "upsert_session (sessionToRow ?old) d = Inr ((), d1)"
    using assms(5) by (simp add: upsert_session_def pgs_revoke_fun d1_def)
  have "pgs_id ` set (sessions d1) = pgs_id ` set (sessions d)"
    "pgs_token_hash ` set (sessions d1) = pgs_token_hash ` set (sessions d)" "users d1 = users d"
    by (simp_all add: d1_def image_update_where)
  with n hash assms(6) fields
  have "upsert_session (sessionToRow new) d1 = Inr ((), d1\<lparr>sessions := sessions d1 @ [sessionToRow new]\<rparr>)"
    by (simp add: upsert_session_def)
  with first have save: "SaveRefreshTokens [sessionToRow ?old, sessionToRow new] d =
      Inr ((), d\<lparr>sessions :=
        update_where (\<lambda>s. pgs_id s = ses_id old) (pgs_revoke t) (sessions d) @ [sessionToRow new]\<rparr>)"
    by (simp add: d1_def)
  let ?w1 = "w\<lparr>tick := Suc (Suc (tick w))\<rparr>"
  obtain access where "issueAccess E si In_Tx (ses_user_id old) ?w1 =
      (Ok access, ?w1\<lparr>tick := Suc (Suc (tick ?w1))\<rparr>)"
    using issueAccess_run [of E ?w1 d "ses_user_id old" si] assms by auto
  then have "SessionIssuer_Rotate E si In_Tx old t w = (Ok (access, raw), w\<lparr>tick := tick w + 5,
      work := Some (d\<lparr>sessions :=
        update_where (\<lambda>s. pgs_id s = ses_id old) (pgs_revoke t) (sessions d) @ [sessionToRow new]\<rparr>)\<rparr>)"
    using gen new save assms(1-3,7)
    by (simp add: SessionIssuer_Rotate_def bind_def new_id_def lift_sum_def session_Revoke_def
        RunInTransaction_nested SessionRepository_Save_def run_stmt_tx_run ret_def eval_nat_numeral
        del: SaveRefreshTokens.simps)
  with h new show ?thesis by blast
qed

text \<open>A valid refresh token is exchanged.\<close>

lemma refresh_ok_run:
  assumes "fault_free E" and "db_ok (committed w)"
    and "find (\<lambda>r. pgs_token_hash r = generateHashBase32 (lib E) (ra_hasher ra) raw)
           (sessions (committed w)) = Some row"
    and "session_IsValid (rowToSession row) (clock E (Suc (tick w)))"
    and "fresh_session E (si_refreshTokens (ra_sessionIssuer ra)) (committed w)"
  shows "\<exists>toks w'. RefreshAccessToken_Execute E ra No_Tx raw w = (Ok toks, w')"
proof -
  let ?t = "clock E (Suc (tick w))"
  let ?w0 = "w\<lparr>work := Some (committed w), aborted := False, tick := Suc (tick w)\<rparr>"
  let ?w1 = "?w0\<lparr>tick := Suc (tick ?w0)\<rparr>"
  let ?w2 = "?w1\<lparr>tick := Suc (tick ?w1)\<rparr>"
  let ?body = "\<lambda>c. bind (now E) (\<lambda>t. bind (validateRefreshToken E ra c raw t)
    (\<lambda>old. SessionIssuer_Rotate E (ra_sessionIssuer ra) c old t))"
  have row: "row \<in> set (sessions (committed w))" using assms(3) by (auto dest: find_SomeD)
  with assms(2) have user: "pgs_user_id row \<in> user_ids (committed w)"
    by (auto simp: db_ok_def sessions_ok_def)
  have val: "validateRefreshToken E ra In_Tx raw ?t ?w1 = (Ok (rowToSession row), ?w2)"
    using assms by (simp add: validateRefreshToken_def SecretManager_GenerateHash_def bind_def ret_def
        not_found_as_run FindByTokenHash_run [of E _ "committed w"] session_IsRevoked_def
        session_IsValid_def)
  obtain toks n d' where "SessionIssuer_Rotate E (ra_sessionIssuer ra) In_Tx (rowToSession row) ?t ?w2 =
      (Ok toks, ?w2\<lparr>tick := n, work := Some d'\<rparr>)"
    using Rotate_run [of E ?w2 "committed w" "rowToSession row" "ra_sessionIssuer ra" ?t]
      fresh_session_at [OF assms(5)] assms row user
    by (auto simp: db_ok_def session_IsValid_def)
  with val have "?body In_Tx ?w0 = (Ok toks, ?w2\<lparr>tick := n, work := Some d'\<rparr>)"
    by (simp add: bind_def now_def)
  from RunInTransaction_ok [where fn = ?body, OF assms(1) this] show ?thesis
    by (simp add: RefreshAccessToken_Execute_def)
qed

end
