(* ===== verification/Login_Facts.thy ===== *)
theory Login_Facts
  imports App_Login Fault_Free
begin

text \<open>
  The two ways a login ends when the credential is known: with tokens, after the counter was
  stored; or with the suspicion of a clone, after the credential and the user's sessions were
  revoked for good.
\<close>

section \<open>A suspected clone\<close>

definition lock_out :: "pg_credential \<Rightarrow> 32 word \<Rightarrow> time \<Rightarrow> time \<Rightarrow> database \<Rightarrow> database" where
  "lock_out row n t t' d =
     revoke_active [pgc_user_id row] t'
       (d\<lparr>credentials := update_where (\<lambda>c. pgc_id c = pgc_id row)
            (\<lambda>c. c\<lparr>pgc_sign_count := n, pgc_revoked_at := Some t\<rparr>) (credentials d)\<rparr>)"

text \<open>
  The counter that a lock-out stores: \<open>SetSignCount\<close> keeps the stored one when the counter of the
  assertion does not grow; a warning of the library alone comes with a counter that is accepted.
\<close>

definition clone_count :: "pg_credential \<Rightarrow> authentication_result \<Rightarrow> 32 word" where
  "clone_count row res =
     (if ar_NewSignCount res \<le> pgc_sign_count row \<and> pgc_sign_count row \<noteq> 0
      then pgc_sign_count row else ar_NewSignCount res)"

lemma lock_out_revokes:
  assumes "c \<in> set (credentials (lock_out row n t t' d))" and "pgc_id c = pgc_id row"
  shows "pgc_revoked_at c = Some t"
  using assms by (auto simp: lock_out_def set_update_where)

lemma lock_out_sessions:
  "t' \<le> t'' \<Longrightarrow> filter (pgs_active [pgc_user_id row] t'') (sessions (lock_out row n t t' d)) = []"
  unfolding lock_out_def by (rule revoke_active_done)

lemma FindByExternalID_run:
  assumes "fault_free E" and "work w = Some d" and "\<not> aborted w"
    and "find (\<lambda>r. pgc_external_id r = x) (credentials d) = Some row" and "pgc_revoked_at row = None"
  shows "findCredential E In_Tx x w =
    (Ok (rowToCredential row), w\<lparr>tick := Suc (tick w), work := Some d\<rparr>)"
  using assms
  by (simp add: findCredential_def CredentialRepository_FindByExternalID_def bind_def ret_def
      FindCredentialByExternalID_def query_row_tx_run or_not_found_run not_found_as_run
      credential_IsRevoked_def)

lemma handleClone_run:
  assumes "fault_free E" and "work w = Some d" and "\<not> aborted w" and "sessions_ok d"
    and "row \<in> set (credentials d)" and "pgc_revoked_at row = None"
    and "cred = (rowToCredential row)\<lparr>cred_sign_count := n\<rparr>"
  shows "\<exists>k. handleClone E In_Tx cred t w =
    (Ok (), w\<lparr>tick := k, work := Some (lock_out row n t (clock E (Suc (tick w))) d)\<rparr>)"
proof -
  let ?cred = "cred\<lparr>cred_revoked_at := Some t\<rparr>"
  define d1 where "d1 = d\<lparr>credentials := update_where (\<lambda>c. pgc_id c = pgc_id row)
      (\<lambda>c. c\<lparr>pgc_sign_count := n, pgc_revoked_at := Some t\<rparr>) (credentials d)\<rparr>"
  have "pgc_id row \<in> credential_ids d" using assms(5) by simp
  then have save: "SaveCredential (credentialToRow ?cred) d = Inr ((), d1)"
    by (simp add: SaveCredential_def assms(7) d1_def row_defs)
  let ?w1 = "w\<lparr>tick := Suc (tick w), work := Some d1\<rparr>"
  have "sessions_ok d1" using assms(4) by (simp add: d1_def sessions_ok_def)
  then obtain k where "RevokeAllUserSessions_Execute E In_Tx [pgc_user_id row] ?w1 =
      (Ok (), ?w1\<lparr>tick := k, work := Some (revoke_active [pgc_user_id row] (clock E (tick ?w1)) d1)\<rparr>)"
    using RevokeAll_tx_run [of E ?w1 d1 "[pgc_user_id row]"] assms by auto
  moreover have "credential_Revoke cred t = Inr ?cred"
    using assms(6,7) by (simp add: credential_Revoke_def)
  ultimately show ?thesis
    using assms save
    by (intro exI [of _ k])
      (simp add: handleClone_def bind_def lift_sum_def CredentialRepository_Save_def run_stmt_tx_run
        lock_out_def d1_def)
qed

lemma login_clone_body:
  assumes "fault_free E" and "work w = Some d" and "\<not> aborted w" and "sessions_ok d"
    and "find (\<lambda>r. pgc_external_id r = ar_ExternalID res) (credentials d) = Some row"
    and "pgc_revoked_at row = None" and "clone_suspected row res"
  shows "\<exists>k. login_body E uc inp t res In_Tx w =
    (Ok None, w\<lparr>tick := k, work :=
       Some (lock_out row (clone_count row res) t (clock E (Suc (Suc (tick w)))) d)\<rparr>)"
proof -
  let ?w1 = "w\<lparr>tick := Suc (tick w), work := Some d\<rparr>"
  let ?sign = "SetSignCount (rowToCredential row) (ar_NewSignCount res)"
  define cred where "cred = (case ?sign of Inl _ \<Rightarrow> rowToCredential row | Inr x \<Rightarrow> x)"
  have found: "findCredential E In_Tx (ar_ExternalID res) w = (Ok (rowToCredential row), ?w1)"
    using FindByExternalID_run [of E w d] assms by simp
  have cred: "cred = (rowToCredential row)\<lparr>cred_sign_count := cred_sign_count cred\<rparr>"
    by (auto simp: cred_def SetSignCount_def row_defs)
  have n: "cred_sign_count cred = clone_count row res"
    by (simp add: cred_def SetSignCount_def clone_count_def row_defs)
  have "row \<in> set (credentials d)" using assms(5) by (auto dest: find_SomeD)
  then obtain k where k: "handleClone E In_Tx cred t ?w1 = (Ok (), ?w1\<lparr>tick := k,
      work := Some (lock_out row (cred_sign_count cred) t (clock E (Suc (tick ?w1))) d)\<rparr>)"
    using handleClone_run [of E ?w1 d row cred "cred_sign_count cred" t] assms cred by auto
  have clone: "ar_CloneWarning res \<or>
      (case ?sign of Inl e \<Rightarrow> errors_is e Credential_ErrSignCountRegression | Inr _ \<Rightarrow> False)"
    using assms(7) by (auto simp: clone_suspected_def SetSignCount_def)
  have "login_body E uc inp t res In_Tx w = (Ok None, ?w1\<lparr>tick := k,
      work := Some (lock_out row (cred_sign_count cred) t (clock E (Suc (tick ?w1))) d)\<rparr>)"
    unfolding login_body_def Let_def bind_def [of "findCredential E In_Tx (ar_ExternalID res)"] found
    using clone k by (simp add: cred_def bind_def ret_def)
  then show ?thesis by (auto simp: n)
qed

lemma login_clone_run:
  assumes "fault_free E" and "sessions_ok (committed w)"
    and "find (\<lambda>r. pgc_external_id r = ar_ExternalID res) (credentials (committed w)) = Some row"
    and "pgc_revoked_at row = None" and "clone_suspected row res"
  shows "\<exists>w'. RunInTransaction E No_Tx (login_body E uc inp t res) w = (Ok None, w') \<and>
    committed w' = lock_out row (clone_count row res) t (clock E (Suc (Suc (Suc (tick w))))) (committed w)"
proof -
  let ?w0 = "w\<lparr>work := Some (committed w), aborted := False, tick := Suc (tick w)\<rparr>"
  obtain k where "login_body E uc inp t res In_Tx ?w0 = (Ok None, ?w0\<lparr>tick := k, work :=
      Some (lock_out row (clone_count row res) t (clock E (Suc (Suc (Suc (tick w))))) (committed w))\<rparr>)"
    using login_clone_body [of E ?w0 "committed w" res row uc inp t] assms by auto
  from RunInTransaction_ok [where fn = "login_body E uc inp t res", OF assms(1) this] show ?thesis
    by (auto intro!: exI)
qed

section \<open>A login that returns tokens\<close>

lemma login_body_Some_tx:
  assumes "login_body E uc inp t res In_Tx w = (Ok (Some out), w')"
  shows "\<exists>d row d1 d' rt n. in_tx w d w' d' \<and>
    find (\<lambda>r. pgc_external_id r = ar_ExternalID res) (credentials d) = Some row \<and>
    pgc_revoked_at row = None \<and> \<not> clone_suspected row res \<and>
    SaveCredential (row\<lparr>pgc_sign_count := ar_NewSignCount res\<rparr>) d = Inr ((), d1) \<and>
    lo_WrappedKeys out = wrappedKeysToOutput (map rowToWrappedKey
      (filter (\<lambda>k. pgk_credential_id k = pgc_id row) (wrapped_keys d1))) \<and>
    upsert_session (sessionToRow rt) d1 = Inr ((), d') \<and>
    session_New (next_uuid E n) (pgc_user_id row)
      (generateHashBase32 (lib E) (si_refreshTokens (lg_sessionIssuer uc)) (lo_RefreshToken out))
      (li_DeviceInfo inp) (li_IPAddress inp) (si_refreshTTL (lg_sessionIssuer uc)) t = Inr rt"
proof -
  from assms obtain cred cred' w1 w2 w3 ks access refresh
    where find: "findCredential E In_Tx (ar_ExternalID res) w = (Ok cred, w1)"
      and warn: "\<not> ar_CloneWarning res" and sign: "SetSignCount cred (ar_NewSignCount res) = Inr cred'"
      and save: "CredentialRepository_Save E In_Tx cred' w1 = (Ok (), w2)"
      and keys: "WrappedKeyRepository_FindByCredentialID E In_Tx (cred_id cred') w2 = (Ok ks, w3)"
      and iss: "SessionIssuer_Issue E (lg_sessionIssuer uc) In_Tx (cred_user_id cred')
                  (li_DeviceInfo inp) (li_IPAddress inp) t w3 = (Ok (access, refresh), w')"
      and out: "out = \<lparr>lo_AccessToken = access, lo_RefreshToken = refresh,
                 lo_WrappedKeys = wrappedKeysToOutput ks\<rparr>"
    by (auto simp: login_body_def Let_def ok_dest split: if_splits sum.splits)
  from findCredential_tx [OF find] obtain d row where d: "in_tx w d w1 d"
    "find (\<lambda>r. pgc_external_id r = ar_ExternalID res) (credentials d) = Some row"
    "cred = rowToCredential row" "pgc_revoked_at row = None" by blast
  from CredentialRepository_Save_tx [OF save] obtain d1 where d1: "in_tx w1 d w2 d1"
    "SaveCredential (credentialToRow cred') d = Inr ((), d1)" using d(1) by (auto simp: in_tx_def)
  from WrappedKeyRepository_FindByCredentialID_tx [OF keys] have ks: "in_tx w2 d1 w3 d1"
    "ks = map rowToWrappedKey (filter (\<lambda>k. pgk_credential_id k = cred_id cred') (wrapped_keys d1))"
    using d1(1) by (auto simp: in_tx_def)
  from SessionIssuer_Issue_tx [OF iss] obtain d' rt n where rt: "in_tx w3 d1 w' d'"
    "upsert_session (sessionToRow rt) d1 = Inr ((), d')"
    "session_New (next_uuid E n) (cred_user_id cred')
      (generateHashBase32 (lib E) (si_refreshTokens (lg_sessionIssuer uc)) refresh)
      (li_DeviceInfo inp) (li_IPAddress inp) (si_refreshTTL (lg_sessionIssuer uc)) t = Inr rt"
    using ks(1) by (auto simp: in_tx_def)
  have same: "cred' = (rowToCredential row)\<lparr>cred_sign_count := ar_NewSignCount res\<rparr>"
    and fresh: "\<not> clone_suspected row res"
    using sign warn d(3) by (auto simp: SetSignCount_def clone_suspected_def split: if_splits)
  have "credentialToRow cred' = row\<lparr>pgc_sign_count := ar_NewSignCount res\<rparr>"
    by (simp add: same row_defs)
  moreover have "in_tx w d w' d'" using d(1) d1(1) ks(1) rt(1) by (simp add: in_tx_def)
  moreover have "cred_id cred' = pgc_id row" "cred_user_id cred' = pgc_user_id row"
    by (simp_all add: same)
  ultimately show ?thesis using d d1 ks rt fresh out by fastforce
qed

lemma Login_Ok_tx:
  assumes "Login_Execute E uc No_Tx inp w = (Ok out, w')"
  shows "\<exists>t res w1 w2 w3. now E w = (Ok t, w1) \<and>
    Authenticator_Finish E (lg_authenticator uc) No_Tx (li_ChallengeToken inp)
      (li_AuthenticationResponse inp) w1 = (Ok res, w2) \<and>
    RunInTransaction E No_Tx (login_body E uc inp t res) w2 = (Ok (Some out), w')"
  using assms by (auto simp: Login_Execute_def bind_Ok now_Ok split: option.splits)

text \<open>
  What a login does with a credential that it accepts, whatever has been stored since it was read.
  The credential needs a wrapped key.
\<close>

abbreviation login_accept ::
  "env \<Rightarrow> login \<Rightarrow> login_input \<Rightarrow> time \<Rightarrow> credential \<Rightarrow> login_output option act" where
  "login_accept E uc inp t cred \<equiv>
     bind (CredentialRepository_Save E In_Tx cred) (\<lambda>_.
     bind (WrappedKeyRepository_FindByCredentialID E In_Tx (cred_id cred)) (\<lambda>keys.
     bind (SessionIssuer_Issue E (lg_sessionIssuer uc) In_Tx (cred_user_id cred)
             (li_DeviceInfo inp) (li_IPAddress inp) t) (\<lambda>(access, refresh).
     ret (Some \<lparr>lo_AccessToken = access, lo_RefreshToken = refresh,
                lo_WrappedKeys = wrappedKeysToOutput keys\<rparr>))))"

definition with_login :: "credential \<Rightarrow> session \<Rightarrow> database \<Rightarrow> database" where
  "with_login cred rt d =
     d\<lparr>credentials := update_where (\<lambda>c. pgc_id c = cred_id cred)
         (\<lambda>c. c\<lparr>pgc_sign_count := cred_sign_count cred, pgc_revoked_at := cred_revoked_at cred\<rparr>) (credentials d),
       sessions := sessions d @ [sessionToRow rt]\<rparr>"

lemma login_accept_run:
  assumes "fault_free E" and "work w = Some d" and "\<not> aborted w" and "users_ok d"
    and "cred_id cred \<in> credential_ids d" and "cred_user_id cred \<in> user_ids d"
    and "\<exists>k \<in> set (wrapped_keys d). pgk_credential_id k = cred_id cred"
    and "cred_user_id cred \<noteq> uuid_nil" and "addr_is_valid (li_IPAddress inp)"
    and "fresh_session E (si_refreshTokens (lg_sessionIssuer uc)) d"
  shows "\<exists>out n rt h k. session_New (next_uuid E k) (cred_user_id cred) h (li_DeviceInfo inp) (li_IPAddress inp)
      (si_refreshTTL (lg_sessionIssuer uc)) t = Inr rt \<and>
    login_accept E uc inp t cred w = (Ok (Some out), w\<lparr>tick := n, work := Some (with_login cred rt d)\<rparr>)"
proof -
  define d1 where "d1 = d\<lparr>credentials := update_where (\<lambda>c. pgc_id c = cred_id cred)
      (\<lambda>c. c\<lparr>pgc_sign_count := cred_sign_count cred, pgc_revoked_at := cred_revoked_at cred\<rparr>) (credentials d)\<rparr>"
  let ?w2 = "w\<lparr>tick := Suc (tick w), work := Some d1\<rparr>"
  let ?w3 = "?w2\<lparr>tick := Suc (tick ?w2)\<rparr>"
  let ?ks = "filter (\<lambda>k. pgk_credential_id k = cred_id cred) (wrapped_keys d1)"
  have "SaveCredential (credentialToRow cred) d = Inr ((), d1)"
    using assms(5) by (simp add: SaveCredential_def d1_def row_defs)
  then have save: "CredentialRepository_Save E In_Tx cred w = (Ok (), ?w2)"
    using assms(1-3) by (simp add: CredentialRepository_Save_def run_stmt_tx_run)
  have keys: "WrappedKeyRepository_FindByCredentialID E In_Tx (cred_id cred) ?w2 =
      (Ok (map rowToWrappedKey ?ks), ?w3)"
    using assms(1,3,7) by (auto simp: WrappedKeyRepository_FindByCredentialID_def bind_def ret_def
        or_not_found_run run_stmt_tx_run ListWrappedKeysByCredentialID_def d1_def filter_empty_conv)
  have "fresh_session E (si_refreshTokens (lg_sessionIssuer uc)) d1" "users_ok d1"
    "cred_user_id cred \<in> user_ids d1"
    using assms(4,6,10) by (auto simp: fresh_session_def d1_def users_ok_def)
  then obtain a r n rt h k where iss: "SessionIssuer_Issue E (lg_sessionIssuer uc) In_Tx (cred_user_id cred)
      (li_DeviceInfo inp) (li_IPAddress inp) t ?w3 =
      (Ok (a, r), ?w3\<lparr>tick := n, work := Some (d1\<lparr>sessions := sessions d1 @ [sessionToRow rt]\<rparr>)\<rparr>)"
    and rt: "session_New (next_uuid E k) (cred_user_id cred) h (li_DeviceInfo inp) (li_IPAddress inp)
      (si_refreshTTL (lg_sessionIssuer uc)) t = Inr rt"
    using Issue_run [of E ?w3 d1 "cred_user_id cred" "li_IPAddress inp" "lg_sessionIssuer uc"
        "li_DeviceInfo inp" t] assms(1,3,8,9) by auto
  have "d1\<lparr>sessions := sessions d1 @ [sessionToRow rt]\<rparr> = with_login cred rt d"
    by (simp add: d1_def with_login_def)
  with rt show ?thesis using save keys iss by (auto simp: bind_def ret_def intro!: exI)
qed

lemma login_ok_run:
  assumes "fault_free E" and "db_ok (committed w)"
    and "find (\<lambda>r. pgc_external_id r = ar_ExternalID res) (credentials (committed w)) = Some row"
    and "pgc_revoked_at row = None" and "\<not> clone_suspected row res"
    and "\<exists>k \<in> set (wrapped_keys (committed w)). pgk_credential_id k = pgc_id row"
    and "pgc_user_id row \<noteq> uuid_nil" and "addr_is_valid (li_IPAddress inp)"
    and "fresh_session E (si_refreshTokens (lg_sessionIssuer uc)) (committed w)"
  shows "\<exists>out w'. RunInTransaction E No_Tx (login_body E uc inp t res) w = (Ok (Some out), w')"
proof -
  let ?w0 = "w\<lparr>work := Some (committed w), aborted := False, tick := Suc (tick w)\<rparr>"
  let ?w1 = "?w0\<lparr>tick := Suc (tick ?w0)\<rparr>"
  let ?cred = "(rowToCredential row)\<lparr>cred_sign_count := ar_NewSignCount res\<rparr>"
  have row: "row \<in> set (credentials (committed w))" using assms(3) by (auto dest: find_SomeD)
  have found: "findCredential E In_Tx (ar_ExternalID res) ?w0 = (Ok (rowToCredential row), ?w1)"
    using FindByExternalID_run [of E ?w0 "committed w"] assms by simp
  have sign: "SetSignCount (rowToCredential row) (ar_NewSignCount res) = Inr ?cred"
    and warn: "\<not> ar_CloneWarning res"
    using assms(5) by (auto simp: SetSignCount_def clone_suspected_def)
  have "cred_id ?cred = pgc_id row" "cred_user_id ?cred = pgc_user_id row" by (simp_all add: row_defs)
  then obtain out n d' where "login_accept E uc inp t ?cred ?w1 =
      (Ok (Some out), ?w1\<lparr>tick := n, work := Some d'\<rparr>)"
    using login_accept_run [of E ?w1 "committed w" ?cred inp uc t] assms row
    by (auto simp: db_ok_def credentials_ok_def)
  then have "login_body E uc inp t res In_Tx ?w0 = (Ok (Some out), ?w1\<lparr>tick := n, work := Some d'\<rparr>)"
    unfolding login_body_def Let_def bind_def [of "findCredential E In_Tx (ar_ExternalID res)"] found
    using sign warn by (simp add: bind_def [of "lift_sum (Inr ?cred)"] lift_sum_def ret_def)
  from RunInTransaction_ok [where fn = "login_body E uc inp t res", OF assms(1) this] show ?thesis
    by auto
qed

end
