(* ===== verification/App_Invites.thy ===== *)
theory App_Invites
  imports Session_Facts Webauthn
begin

text \<open>
  The use cases on invites and registration of \<open>internal/application\<close>: \<open>CreateInvite\<close>,
  \<open>BeginInviteRegistration\<close>, \<open>FinishInviteRegistration\<close> with its transaction helpers, and
  \<open>BootstrapRoot\<close>. The input and output types print themselves without their secrets.
\<close>

section \<open>create_invite.go\<close>

definition inviteCodeLength :: int where
  "inviteCodeLength = 32"

record create_invite =
  ci_tokens :: secret_manager
  ci_policy :: invite_policy
  ci_ttl :: duration

definition CreateInvite_Execute :: "env \<Rightarrow> create_invite \<Rightarrow> ctx \<Rightarrow> uuid \<Rightarrow> (string \<times> time) act" where
  "CreateInvite_Execute E ci c createdBy =
     bind (now E) (\<lambda>t.
     RunInTransaction E c (\<lambda>c.
       bind (InviteRepository_CountActiveByUser E c createdBy t) (\<lambda>active.
       bind (check (CanIssue (ci_policy ci) active)) (\<lambda>_.
       bind (SecretManager_GenerateToken E (ci_tokens ci) inviteCodeLength) (\<lambda>(rawCode, hash).
       bind (new_id E) (\<lambda>i.
       bind (lift_sum (invite_New i createdBy hash (ci_ttl ci) t)) (\<lambda>inv.
       bind (InviteRepository_Save E c inv) (\<lambda>_.
       ret (rawCode, inv_expires_at inv)))))))))"

section \<open>begin_invite_registration.go\<close>

record begin_invite_registration =
  bi_registrator :: registrator
  bi_hash :: secret_manager

definition BeginInviteRegistration_Execute ::
  "env \<Rightarrow> begin_invite_registration \<Rightarrow> ctx \<Rightarrow> string \<Rightarrow> (string \<times> bytes) act" where
  "BeginInviteRegistration_Execute E ig c inviteCode =
     bind (now E) (\<lambda>t.
     bind (SecretManager_GenerateHash E (bi_hash ig) inviteCode) (\<lambda>hash.
     bind (InviteRepository_FindByCodeHash E c hash) (\<lambda>inv.
     if invite_IsUsed inv then fail (Sentinel Invite_ErrAlreadyUsed)
     else if invite_IsExpired inv t then fail (Sentinel Invite_ErrExpired)
     else bind (new_id E) (\<lambda>candidateUserID.
          Registrator_Begin E (bi_registrator ig) candidateUserID (inv_id inv)))))"

section \<open>finish_invite_registration.go\<close>

record wrapped_key_input =
  wki_Scope :: scope
  wki_WrappedDEK :: bytes
  wki_WrapAlgorithm :: string

definition WrappedKeyInput_String :: "wrapped_key_input \<Rightarrow> string" where
  "WrappedKeyInput_String k =
     ''WrappedKeyInput{Scope: '' @ itoa (unat (wki_Scope k)) @
     '', WrappedDEK: ***REDACTED***, WrapAlgorithm: '' @ wki_WrapAlgorithm k @ ''}''"

record registration_input =
  fi_ChallengeToken :: string
  fi_RegistrationResponse :: bytes
  fi_WrappedKeys :: "wrapped_key_input list"
  fi_DeviceInfo :: string
  fi_IPAddress :: ip_addr

definition FinishInviteRegistrationInput_String ::
  "(ip_addr \<Rightarrow> string) \<Rightarrow> registration_input \<Rightarrow> string" where
  "FinishInviteRegistrationInput_String ip_str inp =
     ''FinishInviteRegistrationInput{ChallengeToken: ***REDACTED***, RegistrationResponse: ***REDACTED***, WrappedKeys: '' @
     ''['' @ join_with '' '' (map WrappedKeyInput_String (fi_WrappedKeys inp)) @ '']'' @
     '', DeviceInfo: '' @ fi_DeviceInfo inp @ '', IPAddress: '' @ ip_str (fi_IPAddress inp) @ ''}''"

record registration_output =
  fo_AccessToken :: string
  fo_RefreshToken :: string

definition FinishInviteRegistrationOutput_String :: "registration_output \<Rightarrow> string" where
  "FinishInviteRegistrationOutput_String out =
     ''FinishInviteRegistrationOutput{AccessToken: ***REDACTED***, RefreshToken: ***REDACTED***}''"

record finish_invite_registration =
  fr_sessionIssuer :: session_issuer
  fr_registrator :: registrator
  fr_keyPolicy :: key_policy

definition findInviteCreator :: "env \<Rightarrow> ctx \<Rightarrow> uuid \<Rightarrow> user act" where
  "findInviteCreator E c creatorID =
     not_found_as App_ErrCreatorNotFound (UserRepository_FindByID E c creatorID)"

definition redeemInvite :: "env \<Rightarrow> ctx \<Rightarrow> uuid \<Rightarrow> uuid \<Rightarrow> time \<Rightarrow> invite act" where
  "redeemInvite E c inviteID userID t =
     bind (not_found_as App_ErrInviteNotFound (InviteRepository_FindByID E c inviteID)) (\<lambda>inv.
     bind (lift_sum (invite_Redeem inv userID t)) (\<lambda>inv'.
     bind (InviteRepository_Save E c inv') (\<lambda>_. ret inv')))"

definition createUserAndCredential ::
  "env \<Rightarrow> ctx \<Rightarrow> registration_result \<Rightarrow> user \<Rightarrow> time \<Rightarrow> (user \<times> credential) act" where
  "createUserAndCredential E c res creator t =
     bind (lift_sum (user_New (rr_UserID res) (NextInviteeRole creator) (user_id creator) t)) (\<lambda>u.
     bind (UserRepository_Save E c u) (\<lambda>_.
     bind (new_id E) (\<lambda>newCredID.
     bind (lift_sum (credential_New newCredID (rr_ExternalID res) (user_id u) (rr_PublicKey res)
                       (rr_Transports res) t)) (\<lambda>cred.
     bind (lift_sum (SetSignCount cred (rr_InitialSignCount res))) (\<lambda>cred'.
     bind (CredentialRepository_Save E c cred') (\<lambda>_. ret (u, cred')))))))"

fun new_wrapped_keys ::
  "env \<Rightarrow> uuid \<Rightarrow> uuid \<Rightarrow> wrapped_key_input list \<Rightarrow> time \<Rightarrow> wrapped_key list act" where
  "new_wrapped_keys E userID credID [] t = ret []"
| "new_wrapped_keys E userID credID (wk # wks) t =
     bind (new_id E) (\<lambda>i.
     bind (lift_sum (key_New i userID credID (wki_Scope wk) (wki_WrappedDEK wk)
                       (wki_WrapAlgorithm wk) t)) (\<lambda>k.
     bind (new_wrapped_keys E userID credID wks t) (\<lambda>ks. ret (k # ks))))"

definition saveWrappedKeys ::
  "env \<Rightarrow> ctx \<Rightarrow> uuid \<Rightarrow> uuid \<Rightarrow> wrapped_key_input list \<Rightarrow> time \<Rightarrow> unit act" where
  "saveWrappedKeys E c userID credID keyInputs t =
     bind (new_wrapped_keys E userID credID keyInputs t) (\<lambda>wrapped.
     WrappedKeyRepository_Save E c wrapped)"

definition registration_body ::
  "env \<Rightarrow> finish_invite_registration \<Rightarrow> registration_input \<Rightarrow> registration_result \<Rightarrow> ctx \<Rightarrow>
   registration_output act" where
  "registration_body E ig inp res c =
     bind (now E) (\<lambda>t.
     bind (redeemInvite E c (rr_InviteID res) (rr_UserID res) t) (\<lambda>inv.
     bind (findInviteCreator E c (inv_created_by inv)) (\<lambda>creator.
     bind (createUserAndCredential E c res creator t) (\<lambda>(u, cred).
     bind (saveWrappedKeys E c (user_id u) (cred_id cred) (fi_WrappedKeys inp) t) (\<lambda>_.
     bind (SessionIssuer_Issue E (fr_sessionIssuer ig) c (user_id u) (fi_DeviceInfo inp)
             (fi_IPAddress inp) t) (\<lambda>(access, refresh).
     ret \<lparr>fo_AccessToken = access, fo_RefreshToken = refresh\<rparr>))))))"

definition FinishInviteRegistration_Execute ::
  "env \<Rightarrow> finish_invite_registration \<Rightarrow> ctx \<Rightarrow> registration_input \<Rightarrow> registration_output act" where
  "FinishInviteRegistration_Execute E ig c inp =
     (if fi_WrappedKeys inp = [] then fail (Sentinel App_ErrWrappedKeysRequired)
      else bind (check (ValidateCount (fr_keyPolicy ig) (int (length (fi_WrappedKeys inp))))) (\<lambda>_.
           bind (Registrator_Finish E (fr_registrator ig) (fi_ChallengeToken inp)
                   (fi_RegistrationResponse inp)) (\<lambda>res.
           RunInTransaction E c (registration_body E ig inp res))))"

section \<open>bootstrap_root.go\<close>

text \<open>
  The root that is already there comes together with \<open>ErrRootAlreadyExists\<close>: the value is the
  user and the error, if any, that is returned beside it. Other errors come without a user.
\<close>

definition BootstrapRoot_Execute :: "env \<Rightarrow> ctx \<Rightarrow> (user \<times> err option) act" where
  "BootstrapRoot_Execute E c =
     bind (catch (bind (UserRepository_FindRoot E c) (\<lambda>existing. ret (Some existing)))
             (\<lambda>e. if \<not> errors_is e Domain_ErrNotFound then fail e else ret None))
       (\<lambda>found. case found of
          Some existing \<Rightarrow> ret (existing, Some (Sentinel App_ErrRootAlreadyExists))
        | None \<Rightarrow>
            bind (now E) (\<lambda>t.
            bind (new_id E) (\<lambda>i.
            bind (lift_sum (user_NewRoot i t)) (\<lambda>root.
            bind (UserRepository_Save E c root) (\<lambda>_. ret (root, None))))))"

section \<open>internal/di/di.go: the root and its invites at start-up\<close>

definition bootstrapRoot :: "env \<Rightarrow> ctx \<Rightarrow> user act" where
  "bootstrapRoot E c =
     catch
       (bind (BootstrapRoot_Execute E c) (\<lambda>(root, err).
          case err of
            None \<Rightarrow> ret root
          | Some e \<Rightarrow> if \<not> errors_is e App_ErrRootAlreadyExists then fail e else ret root))
       (\<lambda>e. fail (Wrapped ''bootstrap root: %w'' e))"

text \<open>The loop over the number of invites; the policy of \<open>RootCreateInvite\<close> has no limit.\<close>

fun createRootInvites :: "env \<Rightarrow> create_invite \<Rightarrow> ctx \<Rightarrow> user \<Rightarrow> nat \<Rightarrow> (string \<times> time) list act" where
  "createRootInvites E ci c root 0 = ret []"
| "createRootInvites E ci c root (Suc n) =
     bind (catch (CreateInvite_Execute E ci c (user_id root))
             (\<lambda>e. fail (Wrapped ''create root's invites: %w'' e))) (\<lambda>inv.
     bind (createRootInvites E ci c root n) (\<lambda>rest. ret (inv # rest)))"

lemmas invite_use_case_defs =
  CreateInvite_Execute_def BeginInviteRegistration_Execute_def findInviteCreator_def
  redeemInvite_def createUserAndCredential_def saveWrappedKeys_def registration_body_def
  FinishInviteRegistration_Execute_def BootstrapRoot_Execute_def bootstrapRoot_def

section \<open>Constraints and confinement\<close>

lemma keeps_new_wrapped_keys [keeps_rules]: "keeps I (new_wrapped_keys E u c wks t)"
  by (induction wks) (auto intro!: keeps_rules)

lemma confined_new_wrapped_keys [confined_rules]: "confined (new_wrapped_keys E u c wks t)"
  by (induction wks) (auto intro!: confined_rules)

lemma keeps_invite_use_cases [keeps_rules]:
  "keeps db_ok (CreateInvite_Execute E ci c u)"
  "keeps db_ok (BeginInviteRegistration_Execute E bi c code)"
  "keeps db_ok (findInviteCreator E c u)" "keeps db_ok (redeemInvite E c i u t)"
  "keeps db_ok (createUserAndCredential E c res creator t)"
  "keeps db_ok (saveWrappedKeys E c u cr wks t)"
  "keeps db_ok (registration_body E ig inp res c)"
  "keeps db_ok (FinishInviteRegistration_Execute E ig c inp)"
  "keeps db_ok (BootstrapRoot_Execute E c)" "keeps db_ok (bootstrapRoot E c)"
  unfolding invite_use_case_defs by (intro keeps_rules)+

lemma keeps_createRootInvites [keeps_rules]: "keeps db_ok (createRootInvites E ci c root n)"
  by (induction n) (auto intro!: keeps_rules)

lemma confined_invite_use_cases [confined_rules]:
  "confined (CreateInvite_Execute E ci In_Tx u)"
  "confined (BeginInviteRegistration_Execute E bi In_Tx code)"
  "confined (findInviteCreator E In_Tx u)" "confined (redeemInvite E In_Tx i u t)"
  "confined (createUserAndCredential E In_Tx res creator t)"
  "confined (saveWrappedKeys E In_Tx u cr wks t)"
  "confined (registration_body E ig inp res In_Tx)"
  "confined (FinishInviteRegistration_Execute E ig In_Tx inp)"
  "confined (BootstrapRoot_Execute E In_Tx)"
  unfolding invite_use_case_defs by (intro confined_rules)+

lemma invite_String_redacts [redact_defs]:
  "WrappedKeyInput_String (k\<lparr>wki_WrappedDEK := b\<rparr>) = WrappedKeyInput_String k"
  "FinishInviteRegistrationInput_String f
     (inp\<lparr>fi_ChallengeToken := ct, fi_RegistrationResponse := rb\<rparr>) =
   FinishInviteRegistrationInput_String f inp"
  "FinishInviteRegistrationOutput_String out = FinishInviteRegistrationOutput_String out'"
  by (simp_all add: WrappedKeyInput_String_def FinishInviteRegistrationInput_String_def
      FinishInviteRegistrationOutput_String_def)

end
