(* ===== verification/Invite_Tree.thy ===== *)
theory Invite_Tree
  imports Storage_Constraints
begin

text \<open>
  The recursive query behind \<open>RevokeCompromisedChain\<close>: it ends and returns exactly the users
  that the given one invited, directly or through others, with the user itself. It ends
  because an inviter is stored before its invitees (\<open>inviters_first\<close>), which every insertion
  with a stored inviter keeps.
\<close>

definition invited_rel :: "pg_user list \<Rightarrow> (uuid \<times> uuid) set" where
  "invited_rel us = {(p, c). \<exists>u \<in> set us. pgu_id u = c \<and> pgu_invited_by u = Some p}"

definition inviters_first :: "pg_user list \<Rightarrow> bool" where
  "inviters_first us \<longleftrightarrow>
     (\<forall>i < length us. \<forall>p. pgu_invited_by (us ! i) = Some p \<longrightarrow> p \<in> pgu_id ` set (take i us))"

lemma inviters_first_append:
  "inviters_first (us @ [u]) \<longleftrightarrow>
     inviters_first us \<and> (\<forall>p. pgu_invited_by u = Some p \<longrightarrow> p \<in> pgu_id ` set us)"
proof
  assume H: "inviters_first (us @ [u])"
  have "inviters_first us"
    unfolding inviters_first_def
  proof (intro allI impI)
    fix i p assume "i < length us" "pgu_invited_by (us ! i) = Some p"
    then show "p \<in> pgu_id ` set (take i us)"
      using H [unfolded inviters_first_def, rule_format, of i p] by (simp add: nth_append)
  qed
  moreover have "p \<in> pgu_id ` set us" if "pgu_invited_by u = Some p" for p
    using that H [unfolded inviters_first_def, rule_format, of "length us" p] by simp
  ultimately show "inviters_first us \<and> (\<forall>p. pgu_invited_by u = Some p \<longrightarrow> p \<in> pgu_id ` set us)"
    by blast
next
  assume "inviters_first us \<and> (\<forall>p. pgu_invited_by u = Some p \<longrightarrow> p \<in> pgu_id ` set us)"
  then show "inviters_first (us @ [u])"
    by (auto simp: inviters_first_def nth_append less_Suc_eq)
qed

section \<open>The query ends\<close>

lemma set_invitees: "set (invitees us level) = {c. \<exists>p \<in> set level. (p, c) \<in> invited_rel us}"
  by (auto simp: invitees_def invited_rel_def split: if_splits)

text \<open>In round \<open>k\<close> every user is stored at a position of at least \<open>k\<close>.\<close>

definition late :: "nat \<Rightarrow> pg_user list \<Rightarrow> uuid list \<Rightarrow> bool" where
  "late n us level \<longleftrightarrow>
     (\<forall>x \<in> set level. \<exists>i < length us. length us \<le> i + n \<and> pgu_id (us ! i) = x)"

lemma late_invitees:
  assumes "inviters_first us" and "distinct (map pgu_id us)" and "late (Suc n) us level"
  shows "late n us (invitees us level)"
  unfolding late_def
proof
  fix c assume "c \<in> set (invitees us level)"
  then obtain p u where p: "p \<in> set level" and u: "u \<in> set us" "pgu_id u = c"
    "pgu_invited_by u = Some p" by (auto simp: set_invitees invited_rel_def)
  then obtain j where j: "j < length us" "us ! j = u" by (auto simp: in_set_conv_nth)
  with assms(1) u(3) have "p \<in> pgu_id ` set (take j us)" by (auto simp: inviters_first_def)
  then obtain k where k: "k < j" "pgu_id (us ! k) = p" using j
    by (auto simp: in_set_conv_nth)
  from assms(3) p obtain i where i: "i < length us" "length us \<le> i + Suc n" "pgu_id (us ! i) = p"
    by (auto simp: late_def)
  have "i = k"
    using assms(2) i k j by (metis (no_types, lifting) distinct_conv_nth length_map less_trans nth_map)
  with i k j u show "\<exists>i < length us. length us \<le> i + n \<and> pgu_id (us ! i) = c"
    by (intro exI [of _ j]) auto
qed

lemma chain_rounds_ends:
  assumes "inviters_first us" and "distinct (map pgu_id us)" and "late n us level"
  shows "\<exists>ids. chain_rounds n us level = Some ids"
  using assms
proof (induction n us level rule: chain_rounds.induct)
  case (2 us x xs)
  then show ?case by (auto simp: late_def)
next
  case (3 n us x xs)
  then obtain ids where "chain_rounds n us (invitees us (x # xs)) = Some ids"
    using late_invitees [of us n "x # xs"] by blast
  then show ?case by simp
qed simp

lemma descendant_ids_ends:
  assumes "users_ok d" and "inviters_first (users d)"
  shows "\<exists>ids. descendant_ids root d = Some ids"
  unfolding descendant_ids_def
proof (rule chain_rounds_ends)
  show "inviters_first (users d)" by (rule assms)
  show "distinct (map pgu_id (users d))" using assms by (simp add: users_ok_def)
  show "late (Suc (length (users d))) (users d)
          (map pgu_id (filter (\<lambda>u. pgu_id u = root) (users d)))"
    by (auto simp: late_def in_set_conv_nth)
qed

section \<open>What the query returns\<close>

lemma chain_rounds_set:
  "chain_rounds n us level = Some ids \<Longrightarrow>
   set ids = {c. \<exists>x \<in> set level. (x, c) \<in> (invited_rel us)\<^sup>*}"
proof (induction n us level arbitrary: ids rule: chain_rounds.induct)
  case (3 n us x xs)
  then obtain rest where rest: "chain_rounds n us (invitees us (x # xs)) = Some rest"
    and ids: "ids = (x # xs) @ rest" by auto
  from "3.IH" [OF rest] have
    "set rest = {c. \<exists>y \<in> set (invitees us (x # xs)). (y, c) \<in> (invited_rel us)\<^sup>*}" .
  also have "\<dots> = {c. \<exists>y \<in> set (x # xs). (y, c) \<in> (invited_rel us)\<^sup>+}"
    by (auto simp: set_invitees trancl_unfold_left relcomp_unfold)
  finally have "set rest = {c. \<exists>y \<in> set (x # xs). (y, c) \<in> (invited_rel us)\<^sup>+}" .
  with ids show ?case by (auto simp: rtrancl_eq_or_trancl)
qed simp_all

lemma descendant_ids_set:
  assumes "descendant_ids root d = Some ids"
  shows "set ids =
    (if root \<in> user_ids d then {c. (root, c) \<in> (invited_rel (users d))\<^sup>*} else {})"
  using chain_rounds_set [OF assms [unfolded descendant_ids_def]] by auto

end
