(* ===== verification/Invite_Facts.thy ===== *)
theory Invite_Facts
  imports App_Invites Fault_Free Invite_Tree
begin

text \<open>
  What the use cases on invites do: the limit of open invites, what a registration stores step
  by step and why no registration gets past its first step with this schema, and the start-up
  of the root.
\<close>

section \<open>Creating invites\<close>

definition open_invites :: "uuid \<Rightarrow> time \<Rightarrow> database \<Rightarrow> pg_invite list" where
  "open_invites u t d =
     filter (\<lambda>i. pgi_created_by i = u \<and> pgi_used_at i = None \<and> t < pgi_expires_at i) (invites d)"

lemma CreateInvite_Ok:
  assumes "CreateInvite_Execute E ci No_Tx u w = (Ok (code, expires), w')"
  defines "t \<equiv> clock E (tick w)"
  shows "CanIssue (ci_policy ci) (int (length (open_invites u t (committed w)))) = None \<and>
    (\<exists>n v. invite_New (next_uuid E n) u (generateHashBase32 (lib E) (ci_tokens ci) code) (ci_ttl ci) t
               = Inr v \<and>
       expires = inv_expires_at v \<and>
       SaveInvite (inviteToRow v) (committed w) = Inr ((), committed w'))"
proof -
  let ?body = "\<lambda>c. bind (InviteRepository_CountActiveByUser E c u t) (\<lambda>active.
       bind (check (CanIssue (ci_policy ci) active)) (\<lambda>_.
       bind (SecretManager_GenerateToken E (ci_tokens ci) inviteCodeLength) (\<lambda>(rawCode, hash).
       bind (new_id E) (\<lambda>i.
       bind (lift_sum (invite_New i u hash (ci_ttl ci) t)) (\<lambda>v.
       bind (InviteRepository_Save E c v) (\<lambda>_. ret (rawCode, inv_expires_at v)))))))"
  have run: "RunInTransaction E No_Tx ?body (w\<lparr>tick := Suc (tick w)\<rparr>) = (Ok (code, expires), w')"
    using assms(1) by (simp add: CreateInvite_Execute_def t_def bind_Ok [of "now E"] now_Ok)
  have "confined (?body In_Tx)" by (intro confined_rules)
  then obtain w0 w1 d
    where w0: "work w0 = Some (committed w)" "?body In_Tx w0 = (Ok (code, expires), w1)"
      and d: "work w1 = Some d" "committed w' = d"
    by (rule storage_tx.run_ok_body [OF _ run]) simp
  from w0(2) obtain active w2 w3 hash i v w4
    where count: "InviteRepository_CountActiveByUser E In_Tx u t w0 = (Ok active, w2)"
      and pol: "CanIssue (ci_policy ci) active = None"
      and gen: "SecretManager_GenerateToken E (ci_tokens ci) inviteCodeLength w2 = (Ok (code, hash), w3)"
      and v: "invite_New (next_uuid E i) u hash (ci_ttl ci) t = Inr v"
      and save: "InviteRepository_Save E In_Tx v (w3\<lparr>tick := w4\<rparr>) = (Ok (), w1)"
      and expires: "expires = inv_expires_at v"
    by (fastforce simp: ok_dest)
  from InviteRepository_CountActiveByUser_tx [OF count] w0(1)
  have w2: "work w2 = Some (committed w)"
    and active: "active = int (length (open_invites u t (committed w)))"
    by (auto simp: in_tx_def CountActiveInvitesByUser_def open_invites_def)
  from gen have hash: "hash = generateHashBase32 (lib E) (ci_tokens ci) code"
    and w3: "w3 = w2\<lparr>tick := Suc (tick w2)\<rparr>" by (auto simp: GenerateToken_Ok)
  from InviteRepository_Save_tx [OF save] w2 w3 d
  have "SaveInvite (inviteToRow v) (committed w) = Inr ((), committed w')"
    by (auto simp: in_tx_def)
  with pol active v hash expires show ?thesis by auto
qed

text \<open>
  A user below the limit gets a code when the database does not fail and the outside provides
  random bytes whose hash is not taken and an unused identifier.
\<close>

definition fresh_invite :: "env \<Rightarrow> secret_manager \<Rightarrow> database \<Rightarrow> bool" where
  "fresh_invite E sm d \<longleftrightarrow>
     (\<forall>n. next_uuid E n \<noteq> uuid_nil \<and> next_uuid E n \<notin> pgi_id ` set (invites d)) \<and>
     (\<forall>n. \<exists>bs. entropy E n 32 = Inr bs \<and> generateHashBase32 (lib E) sm (b32_encode bs) \<noteq> [] \<and>
        generateHashBase32 (lib E) sm (b32_encode bs) \<notin> pgi_code_hash ` set (invites d))"

lemma InviteCode_run:
  assumes "fresh_invite E sm d"
  shows "\<exists>raw. SecretManager_GenerateToken E sm inviteCodeLength w =
      (Ok (raw, generateHashBase32 (lib E) sm raw), w\<lparr>tick := Suc (tick w)\<rparr>) \<and>
    generateHashBase32 (lib E) sm raw \<noteq> [] \<and>
    generateHashBase32 (lib E) sm raw \<notin> pgi_code_hash ` set (invites d)"
proof -
  obtain bs where "entropy E (tick w) 32 = Inr bs" "generateHashBase32 (lib E) sm (b32_encode bs) \<noteq> []"
    "generateHashBase32 (lib E) sm (b32_encode bs) \<notin> pgi_code_hash ` set (invites d)"
    using assms unfolding fresh_invite_def by blast
  then show ?thesis
    by (intro exI [of _ "b32_encode bs"]) (simp add: GenerateToken_Ok inviteCodeLength_def)
qed

lemma CountActive_run:
  assumes "fault_free E" and "work w = Some d" and "\<not> aborted w"
  shows "InviteRepository_CountActiveByUser E In_Tx u t w =
    (Ok (int (length (open_invites u t d))), w\<lparr>tick := Suc (Suc (tick w))\<rparr>)"
  using assms
  by (simp add: InviteRepository_CountActiveByUser_def bind_def run_stmt_tx_run LockUserByID_def
      CountActiveInvitesByUser_def open_invites_def ret_def)

text \<open>What \<open>CreateInvite.Execute\<close> does inside its transaction.\<close>

abbreviation create_invite_tx :: "env \<Rightarrow> create_invite \<Rightarrow> uuid \<Rightarrow> time \<Rightarrow> ctx \<Rightarrow> (string \<times> time) act" where
  "create_invite_tx E ci u t \<equiv> \<lambda>c.
     bind (InviteRepository_CountActiveByUser E c u t) (\<lambda>active.
     bind (check (CanIssue (ci_policy ci) active)) (\<lambda>_.
     bind (SecretManager_GenerateToken E (ci_tokens ci) inviteCodeLength) (\<lambda>(rawCode, hash).
     bind (new_id E) (\<lambda>i.
     bind (lift_sum (invite_New i u hash (ci_ttl ci) t)) (\<lambda>v.
     bind (InviteRepository_Save E c v) (\<lambda>_. ret (rawCode, inv_expires_at v)))))))"

lemma create_invite_tx_run:
  assumes ff: "fault_free E" and w: "work w = Some d" "\<not> aborted w"
    and u: "u \<in> user_ids d" "u \<noteq> uuid_nil"
    and pol: "CanIssue (ci_policy ci) (int (length (open_invites u t d))) = None"
    and fresh: "fresh_invite E (ci_tokens ci) d"
  shows "\<exists>raw v. inv_created_by v = u \<and> inv_used_at v = None \<and>
    create_invite_tx E ci u t In_Tx w = (Ok (raw, inv_expires_at v),
      w\<lparr>work := Some (d\<lparr>invites := invites d @ [inviteToRow v]\<rparr>), tick := tick w + 5\<rparr>)"
proof -
  let ?w2 = "w\<lparr>tick := Suc (Suc (tick w))\<rparr>"
  obtain raw where gen: "SecretManager_GenerateToken E (ci_tokens ci) inviteCodeLength ?w2 =
      (Ok (raw, generateHashBase32 (lib E) (ci_tokens ci) raw), ?w2\<lparr>tick := Suc (tick ?w2)\<rparr>)"
    and hash: "generateHashBase32 (lib E) (ci_tokens ci) raw \<noteq> []"
      "generateHashBase32 (lib E) (ci_tokens ci) raw \<notin> pgi_code_hash ` set (invites d)"
    using InviteCode_run [OF fresh] by blast
  let ?n = "next_uuid E (Suc (tick ?w2))"
  have n: "?n \<noteq> uuid_nil" "?n \<notin> pgi_id ` set (invites d)" using fresh by (auto simp: fresh_invite_def)
  obtain v where v: "invite_New ?n u (generateHashBase32 (lib E) (ci_tokens ci) raw) (ci_ttl ci) t = Inr v"
    using n hash u by (simp add: invite_New_def invalid_argument_def)
  then have fields: "inv_id v = ?n" "inv_created_by v = u" "inv_used_by v = None" "inv_used_at v = None"
    "inv_code_hash v = generateHashBase32 (lib E) (ci_tokens ci) raw" by (auto simp: invite_New_Inr_iff)
  then have save: "SaveInvite (inviteToRow v) d = Inr ((), d\<lparr>invites := invites d @ [inviteToRow v]\<rparr>)"
    using n hash u by (simp add: SaveInvite_def used_by_dangling_def)
  have "create_invite_tx E ci u t In_Tx w = (Ok (raw, inv_expires_at v),
      w\<lparr>work := Some (d\<lparr>invites := invites d @ [inviteToRow v]\<rparr>), tick := tick w + 5\<rparr>)"
    using gen v save ff pol w
    by (simp add: bind_def CountActive_run check_def new_id_def lift_sum_def
        InviteRepository_Save_def run_stmt_tx_run ret_def eval_nat_numeral)
  with fields(2,4) show ?thesis by blast
qed

lemma CreateInvite_run:
  assumes ff: "fault_free E" and u: "u \<in> user_ids (committed w)" "u \<noteq> uuid_nil"
    and pol: "CanIssue (ci_policy ci)
        (int (length (open_invites u (clock E (tick w)) (committed w)))) = None"
    and fresh: "fresh_invite E (ci_tokens ci) (committed w)"
  shows "\<exists>code expires w'. CreateInvite_Execute E ci No_Tx u w = (Ok (code, expires), w')"
proof -
  let ?t = "clock E (tick w)" and ?d = "committed w" and ?w = "w\<lparr>tick := Suc (tick w)\<rparr>"
  let ?body = "create_invite_tx E ci u ?t"
  let ?w1 = "?w\<lparr>work := Some ?d, aborted := False, tick := Suc (tick ?w)\<rparr>"
  obtain raw v where "?body In_Tx ?w1 = (Ok (raw, inv_expires_at v),
      ?w1\<lparr>work := Some (?d\<lparr>invites := invites ?d @ [inviteToRow v]\<rparr>), tick := tick ?w1 + 5\<rparr>)"
    using create_invite_tx_run [OF ff, of ?w1 ?d u ci ?t] u pol fresh by auto
  then have "\<exists>w'. RunInTransaction E No_Tx ?body ?w = (Ok (raw, inv_expires_at v), w')"
    using RunInTransaction_ok [where fn = ?body and w = ?w, OF ff] by simp
  then show ?thesis by (auto simp: CreateInvite_Execute_def bind_def now_def)
qed

lemma open_invites_insert:
  assumes "SaveInvite (inviteToRow v) d = Inr ((), d')" and "inv_used_at v = None"
    and "inv_id v \<notin> pgi_id ` set (invites d)"
  shows "length (open_invites u t d') \<le> Suc (length (open_invites u t d))"
proof -
  have "invites d' = invites d @ [inviteToRow v]"
    using inv_tab.save_insert [OF _ assms(1)] assms(3) by simp
  then show ?thesis by (simp add: open_invites_def)
qed

section \<open>Registration\<close>

lemma redeemInvite_tx:
  assumes "redeemInvite E In_Tx i u t w = (Ok v, w')"
  shows "\<exists>d d' row. in_tx w d w' d' \<and> find (\<lambda>r. pgi_id r = i) (invites d) = Some row \<and>
    pgi_used_at row = None \<and> t \<le> pgi_expires_at row \<and>
    v = (rowToInvite row)\<lparr>inv_used_by := Some u, inv_used_at := Some t\<rparr> \<and>
    SaveInvite (inviteToRow v) d = Inr ((), d')"
proof -
  from assms obtain v0 w1
    where find: "InviteRepository_FindByID E In_Tx i w = (Ok v0, w1)"
      and red: "invite_Redeem v0 u t = Inr v"
      and save: "InviteRepository_Save E In_Tx v w1 = (Ok (), w')"
    by (auto simp: redeemInvite_def ok_dest)
  from InviteRepository_FindByID_tx [OF find] obtain d row where d: "in_tx w d w1 d"
    "find (\<lambda>r. pgi_id r = i) (invites d) = Some row" "v0 = rowToInvite row" by blast
  from InviteRepository_Save_tx [OF save] obtain d' where "in_tx w1 d w' d'"
    "SaveInvite (inviteToRow v) d = Inr ((), d')" using d(1) by (auto simp: in_tx_def)
  with d red show ?thesis
    by (auto simp: in_tx_def invite_Redeem_Inr_iff)
qed

text \<open>
  The save of a redeemed invite refers to its redeemer, so the redeemer is stored already; but
  the next step inserts the redeemer as a new user.
\<close>

lemma redeemInvite_user_stored:
  assumes "redeemInvite E In_Tx i u t w = (Ok v, w')"
  shows "\<exists>d'. work w' = Some d' \<and> u \<in> user_ids d'"
proof -
  from redeemInvite_tx [OF assms] obtain d d' row where tx: "in_tx w d w' d'"
    and v: "v = (rowToInvite row)\<lparr>inv_used_by := Some u, inv_used_at := Some t\<rparr>"
    and save: "SaveInvite (inviteToRow v) d = Inr ((), d')" by blast
  from save v have "u \<in> user_ids d" and "users d' = users d"
    by (auto simp: SaveInvite_def used_by_dangling_def split: if_splits)
  with tx show ?thesis by (auto simp: in_tx_def)
qed

lemma createUserAndCredential_new_user:
  assumes "createUserAndCredential E In_Tx res creator t w = (Ok r, w')"
  shows "\<exists>d. work w = Some d \<and> rr_UserID res \<notin> user_ids d"
proof -
  from assms obtain u w1
    where u: "user_New (rr_UserID res) (NextInviteeRole creator) (user_id creator) t = Inr u"
      and save: "UserRepository_Save E In_Tx u w = (Ok (), w1)"
    by (auto simp: createUserAndCredential_def ok_dest)
  from u have "user_id u = rr_UserID res" by (auto simp: user_New_Inr_iff)
  with UserRepository_Save_tx [OF save] show ?thesis
    by (auto simp: in_tx_def SaveUser_Inr_iff)
qed

lemma registration_body_fails: "registration_body E ig inp res In_Tx w \<noteq> (Ok out, w')"
proof
  assume "registration_body E ig inp res In_Tx w = (Ok out, w')"
  then obtain t v creator r w1 w2 w3
    where red: "redeemInvite E In_Tx (rr_InviteID res) (rr_UserID res) t (w\<lparr>tick := Suc (tick w)\<rparr>) = (Ok v, w1)"
      and find: "UserRepository_FindByID E In_Tx (inv_created_by v) w1 = (Ok creator, w2)"
      and new: "createUserAndCredential E In_Tx res creator t w2 = (Ok r, w3)"
    by (fastforce simp: registration_body_def findInviteCreator_def ok_dest)
  obtain d1 where "work w1 = Some d1" "rr_UserID res \<in> user_ids d1"
    using redeemInvite_user_stored [OF red] by blast
  moreover from UserRepository_FindByID_tx [OF find] have "work w2 = work w1"
    by (auto simp: in_tx_def)
  ultimately show False using createUserAndCredential_new_user [OF new] by simp
qed

lemma registration_not_ok:
  assumes "FinishInviteRegistration_Execute E ig No_Tx inp w = (r, w')"
  shows "\<not> is_ok r"
proof
  assume "is_ok r"
  then obtain out where "r = Ok out" by (cases r) auto
  with assms obtain res w1
    where run: "RunInTransaction E No_Tx (registration_body E ig inp res) w1 = (Ok out, w')"
    by (auto simp: FinishInviteRegistration_Execute_def ok_dest split: if_splits)
  have "confined (registration_body E ig inp res In_Tx)" by (intro confined_rules)
  then show False
    by (rule storage_tx.run_ok_body [OF _ run]) (simp add: registration_body_fails)
qed

text \<open>An action that keeps every predicate leaves a world at rest as it was.\<close>

lemma keeps_all_unchanged:
  assumes "\<And>I. keeps I m" and "work w = None" and "m w = (r, w')"
  shows "committed w' = committed w"
proof -
  have "holds_in (\<lambda>d. d = committed w) w" using assms(2) by simp
  from keepsD [OF assms(1) this assms(3)] show ?thesis by simp
qed

lemma registration_unchanged:
  assumes "FinishInviteRegistration_Execute E ig No_Tx inp w = (r, w')" and "work w = None"
  shows "committed w' = committed w"
proof -
  let ?fin = "Registrator_Finish E (fr_registrator ig) (fi_ChallengeToken inp)
      (fi_RegistrationResponse inp)"
  obtain r1 w1 where fin: "?fin w = (r1, w1)" by fastforce
  then have w1: "committed w1 = committed w"
    using keeps_all_unchanged [OF keeps_webauthn(2) assms(2)] by blast
  show ?thesis
  proof (cases r1)
    case (Ok res)
    obtain r2 w2 where run: "RunInTransaction E No_Tx (registration_body E ig inp res) w1 = (r2, w2)"
      by fastforce
    have conf: "confined (registration_body E ig inp res In_Tx)" by (intro confined_rules)
    have "\<not> is_ok r2"
    proof
      assume "is_ok r2"
      then obtain out where "r2 = Ok out" by (cases r2) auto
      with run have "RunInTransaction E No_Tx (registration_body E ig inp res) w1 = (Ok out, w2)"
        by simp
      from conf this show False
        by (rule storage_tx.run_ok_body) (simp add: registration_body_fails)
    qed
    with storage_tx.run_rolls_back [where fn = "registration_body E ig inp res", OF conf run] w1 have "committed w2 = committed w" by simp
    with assms(1) fin run Ok show ?thesis
      by (cases r2)
        (auto simp: FinishInviteRegistration_Execute_def bind_def check_def fail_def
          split: if_splits option.splits)
  qed (use assms(1) fin w1 in \<open>auto simp: FinishInviteRegistration_Execute_def bind_def check_def
         fail_def split: if_splits option.splits\<close>)
qed

text \<open>With an open invite and a new user, the error is the one of the foreign key.\<close>

lemma registration_body_run:
  assumes "fault_free E" and "work w = Some d" and "\<not> aborted w"
    and "find (\<lambda>r. pgi_id r = rr_InviteID res) (invites d) = Some row"
    and "pgi_used_at row = None" and "clock E (tick w) \<le> pgi_expires_at row"
    and "rr_UserID res \<notin> user_ids d"
  shows "\<exists>w'. registration_body E ig inp res In_Tx w =
    (Err (foreign_key_violation ''invites_used_by_fkey''), w')"
proof -
  let ?t = "clock E (tick w)"
  let ?v = "(rowToInvite row)\<lparr>inv_used_by := Some (rr_UserID res), inv_used_at := Some ?t\<rparr>"
  let ?w1 = "w\<lparr>tick := Suc (Suc (tick w)), work := Some d\<rparr>"
  have find: "InviteRepository_FindByID E In_Tx (rr_InviteID res) (w\<lparr>tick := Suc (tick w)\<rparr>) =
      (Ok (rowToInvite row), ?w1)"
    using assms by (simp add: InviteRepository_FindByID_def bind_def ret_def
        FindInviteByIDForUpdate_def query_row_tx_run or_not_found_run)
  have "invite_Redeem (rowToInvite row) (rr_UserID res) ?t = Inr ?v"
    using assms(5,6) by (simp add: invite_Redeem_Inr_iff)
  moreover have "SaveInvite (inviteToRow ?v) d = Inl (foreign_key_violation ''invites_used_by_fkey'')"
    using assms(4,7) by (auto simp: SaveInvite_def used_by_dangling_def dest!: find_SomeD)
  ultimately show ?thesis
    using find assms(1-3)
    by (simp add: registration_body_def redeemInvite_def bind_def now_def not_found_as_run
        lift_sum_def InviteRepository_Save_def run_stmt_tx_run)
qed

lemma registration_fk_run:
  assumes "fault_free E" and "work w = None"
    and "fi_WrappedKeys inp \<noteq> []"
    and "ValidateCount (fr_keyPolicy ig) (int (length (fi_WrappedKeys inp))) = None"
    and "Registrator_Finish E (fr_registrator ig) (fi_ChallengeToken inp)
           (fi_RegistrationResponse inp) w = (Ok res, w1)"
    and "find (\<lambda>r. pgi_id r = rr_InviteID res) (invites (committed w)) = Some row"
    and "pgi_used_at row = None" and "clock E (Suc (tick w1)) \<le> pgi_expires_at row"
    and "rr_UserID res \<notin> user_ids (committed w)"
  shows "\<exists>w'. FinishInviteRegistration_Execute E ig No_Tx inp w =
    (Err (foreign_key_violation ''invites_used_by_fkey''), w') \<and> committed w' = committed w"
proof -
  have w1: "committed w1 = committed w"
    using keeps_all_unchanged [OF keeps_webauthn(2) assms(2,5)] .
  let ?w0 = "w1\<lparr>work := Some (committed w1), aborted := False, tick := Suc (tick w1)\<rparr>"
  obtain w2 where "registration_body E ig inp res In_Tx ?w0 =
      (Err (foreign_key_violation ''invites_used_by_fkey''), w2)"
    using registration_body_run [of E ?w0 "committed w" res row ig inp] assms w1 by auto
  from RunInTransaction_err [where fn = "registration_body E ig inp res", OF assms(1) this]
  obtain w' where run: "FinishInviteRegistration_Execute E ig No_Tx inp w =
      (Err (foreign_key_violation ''invites_used_by_fkey''), w')"
    using assms(3-5) by (simp add: FinishInviteRegistration_Execute_def bind_def check_def)
  with registration_unchanged [OF run assms(2)] show ?thesis by blast
qed

text \<open>
  What a registration would store of the new user, step by step: the role is the one that the
  creator of the invite may hand out.
\<close>

lemma createUserAndCredential_tx:
  assumes "createUserAndCredential E In_Tx res creator t w = (Ok (u, cred), w')"
  shows "\<exists>d d1 d'. in_tx w d w' d' \<and>
    u = \<lparr>user_id = rr_UserID res, user_role = NextInviteeRole creator,
         user_invited_by = Some (user_id creator), user_created_at = t\<rparr> \<and>
    SaveUser (userToRow u) d = Inr ((), d1) \<and>
    SaveCredential (credentialToRow cred) d1 = Inr ((), d') \<and>
    cred_user_id cred = user_id u \<and> cred_sign_count cred = rr_InitialSignCount res \<and>
    cred_revoked_at cred = None \<and> cred_external_id cred = rr_ExternalID res"
proof -
  from assms obtain w1 n c0 w2
    where u: "user_New (rr_UserID res) (NextInviteeRole creator) (user_id creator) t = Inr u"
      and save: "UserRepository_Save E In_Tx u w = (Ok (), w1)"
      and new: "credential_New (next_uuid E n) (rr_ExternalID res) (user_id u) (rr_PublicKey res)
                  (rr_Transports res) t = Inr c0"
      and sign: "SetSignCount c0 (rr_InitialSignCount res) = Inr cred"
      and csave: "CredentialRepository_Save E In_Tx cred (w1\<lparr>tick := w2\<rparr>) = (Ok (), w')"
    by (fastforce simp: createUserAndCredential_def ok_dest)
  from UserRepository_Save_tx [OF save] obtain d d1 where d: "in_tx w d w1 d1"
    "SaveUser (userToRow u) d = Inr ((), d1)" by blast
  from CredentialRepository_Save_tx [OF csave] d(1) obtain d' where "in_tx w d w' d'"
    "SaveCredential (credentialToRow cred) d1 = Inr ((), d')" by (auto simp: in_tx_def)
  moreover have "u = \<lparr>user_id = rr_UserID res, user_role = NextInviteeRole creator,
         user_invited_by = Some (user_id creator), user_created_at = t\<rparr>"
    using u by (simp add: user_New_Inr_iff)
  moreover have "cred_user_id cred = user_id u" "cred_sign_count cred = rr_InitialSignCount res"
    "cred_revoked_at cred = None" "cred_external_id cred = rr_ExternalID res"
    using new sign by (auto simp: credential_New_Inr_iff SetSignCount_def split: if_splits)
  ultimately show ?thesis using d(2) by blast
qed

section \<open>The root\<close>

lemma find_root_unique:
  assumes "users_ok d" and "find (\<lambda>u. pgu_invited_by u = None) (users d) = Some row"
    and "u \<in> set (users d)" and "pgu_invited_by u = None"
  shows "u = row"
proof -
  let ?roots = "filter (\<lambda>u. pgu_invited_by u = None) (users d)"
  have "u \<in> set ?roots" "row \<in> set ?roots" using assms by (auto dest: find_SomeD)
  moreover have "length ?roots \<le> 1" using assms(1) by (simp add: users_ok_def)
  ultimately show ?thesis by (cases ?roots) auto
qed

lemma BootstrapRoot_cases:
  assumes "bootstrapRoot E No_Tx w = (Ok u, w')"
  shows "\<exists>row. find (\<lambda>u. pgu_invited_by u = None) (users (committed w')) = Some row \<and>
    rowToUser row = Inr u \<and>
    (committed w' = committed w \<or>
     find (\<lambda>u. pgu_invited_by u = None) (users (committed w)) = None \<and>
     user_role u = role_Admin \<and>
     committed w' = (committed w)\<lparr>users := users (committed w) @ [row]\<rparr>)"
proof -
  from assms obtain err where boot: "BootstrapRoot_Execute E No_Tx w = (Ok (u, err), w')"
    by (auto simp: bootstrapRoot_def ok_dest split: option.splits if_splits)
  let ?found = "catch (bind (UserRepository_FindRoot E No_Tx) (\<lambda>x. ret (Some x)))
      (\<lambda>e. if \<not> errors_is e Domain_ErrNotFound then fail e else ret None)"
  obtain f w1 where f: "?found w = (Ok f, w1)"
    and rest: "(case f of
          Some existing \<Rightarrow> ret (existing, Some (Sentinel App_ErrRootAlreadyExists))
        | None \<Rightarrow> bind (now E) (\<lambda>t. bind (new_id E) (\<lambda>i. bind (lift_sum (user_NewRoot i t)) (\<lambda>root.
            bind (UserRepository_Save E No_Tx root) (\<lambda>_. ret (root, None)))))) w1 = (Ok (u, err), w')"
    using boot by (auto simp: BootstrapRoot_Execute_def bind_Ok)
  show ?thesis
  proof (cases f)
    case (Some x)
    with f rest show ?thesis
      by (auto simp: catch_Ok bind_Ok UserRepository_FindRoot_def or_not_found_Ok query_row_Ok
          run_stmt_plain_Ok lift_sum_Ok FindRootUser_def split: if_splits)
  next
    case None
    have "committed w1 = committed w"
      using f None by (auto simp: catch_Ok bind_Ok bind_def UserRepository_FindRoot_def
          or_not_found_def query_row_def run_stmt_def Let_def FindRootUser_def fail_def ret_def
          lift_sum_def catch_def
          split: if_splits prod.splits outcome.splits option.splits)
    moreover from None rest obtain i t where u: "user_NewRoot i t = Inr u"
      and "SaveUser (userToRow u) (committed w1) = Inr ((), committed w')"
      by (auto simp: ok_dest UserRepository_Save_def run_stmt_plain_Ok)
    ultimately have new: "\<forall>v \<in> set (users (committed w)). pgu_invited_by v \<noteq> None"
      "committed w' = (committed w)\<lparr>users := users (committed w) @ [userToRow u]\<rparr>"
      by (auto simp: SaveUser_Inr_iff user_NewRoot_Inr_iff)
    moreover have "rowToUser (userToRow u) = Inr u" "user_role u = role_Admin"
      using u by (auto simp: rowToUser_userToRow user_NewRoot_Inr_iff)
    moreover have "find (\<lambda>u. pgu_invited_by u = None) (users (committed w)) = None"
      using new(1) by (auto simp: find_None_iff)
    moreover have "pgu_invited_by (userToRow u) = None" using u by (auto simp: user_NewRoot_Inr_iff)
    ultimately show ?thesis by (intro exI [of _ "userToRow u"]) (simp add: find_append)
  qed
qed

lemma bootstrapRoot_again:
  assumes "bootstrapRoot E No_Tx w = (Ok u, w')"
    and "bootstrapRoot E' No_Tx v = (Ok u', v')" and "committed v = committed w'"
  shows "u' = u \<and> committed v' = committed v"
  using BootstrapRoot_cases [OF assms(1)] BootstrapRoot_cases [OF assms(2)] assms(3) by auto

section \<open>The compromised chain\<close>

lemma Descendants_plain:
  "UserRepository_Descendants E No_Tx root w = (Ok ids, w') \<Longrightarrow>
   descendant_ids root (committed w) = Some ids \<and> ids \<noteq> [] \<and> committed w' = committed w \<and>
   tick w' = Suc (tick w)"
  by (auto simp: UserRepository_Descendants_def ok_dest ListDescendantUserIDs_def
      split: option.splits if_splits)

lemma RevokeCompromisedChain_Ok:
  assumes "RevokeCompromisedChain_Execute E No_Tx root w = (Ok u, w')" and "sessions_ok (committed w)"
  shows "\<exists>ids. set ids = {c. (root, c) \<in> (invited_rel (users (committed w)))\<^sup>*} \<and>
    committed w' = revoke_active ids (clock E (Suc (tick w))) (committed w)"
proof -
  from assms(1) obtain ids w1
    where desc: "UserRepository_Descendants E No_Tx root w = (Ok ids, w1)"
      and rev: "RevokeAllUserSessions_Execute E No_Tx ids w1 = (Ok u, w')"
    by (auto simp: RevokeCompromisedChain_Execute_def bind_Ok)
  from Descendants_plain [OF desc] have ids: "descendant_ids root (committed w) = Some ids"
    "ids \<noteq> []" "committed w1 = committed w" "tick w1 = Suc (tick w)" by auto
  from descendant_ids_set [OF ids(1)] ids(2)
  have "set ids = {c. (root, c) \<in> (invited_rel (users (committed w)))\<^sup>*}" by (auto split: if_splits)
  moreover from RevokeAll_plain [OF rev ids(2)] ids(3) assms(2)
  have "committed w' = revoke_active ids (clock E (Suc (tick w))) (committed w)"
    by (simp add: ids(4))
  ultimately show ?thesis by blast
qed

section \<open>All or nothing\<close>

lemma CreateInvite_atomic:
  assumes "CreateInvite_Execute E ci No_Tx u w = (r, w')" and "\<not> is_ok r"
  shows "committed w' = committed w"
proof -
  let ?t = "clock E (tick w)"
  let ?body = "\<lambda>c. bind (InviteRepository_CountActiveByUser E c u ?t) (\<lambda>active.
       bind (check (CanIssue (ci_policy ci) active)) (\<lambda>_.
       bind (SecretManager_GenerateToken E (ci_tokens ci) inviteCodeLength) (\<lambda>(rawCode, hash).
       bind (new_id E) (\<lambda>i.
       bind (lift_sum (invite_New i u hash (ci_ttl ci) ?t)) (\<lambda>v.
       bind (InviteRepository_Save E c v) (\<lambda>_. ret (rawCode, inv_expires_at v)))))))"
  have "RunInTransaction E No_Tx ?body (w\<lparr>tick := Suc (tick w)\<rparr>) = (r, w')"
    using assms(1) by (simp add: CreateInvite_Execute_def bind_def [of "now E"] now_def)
  moreover have "confined (?body In_Tx)" by (intro confined_rules)
  ultimately show ?thesis using storage_tx.run_rolls_back [of ?body] assms(2) by simp
qed

lemma RefreshAccessToken_atomic:
  assumes "RefreshAccessToken_Execute E ra No_Tx raw w = (r, w')" and "\<not> is_ok r"
  shows "committed w' = committed w"
  using assms(1) unfolding RefreshAccessToken_Execute_def
  by (rule storage_tx.run_rolls_back [rotated]) (rule assms(2), intro confined_rules)

lemma RevokeSession_atomic:
  assumes "RevokeSession_Execute E No_Tx i u w = (r, w')" and "\<not> is_ok r"
  shows "committed w' = committed w"
proof -
  let ?t = "clock E (tick w)"
  let ?body = "\<lambda>c. bind (not_found_as App_ErrSessionNotFound (SessionRepository_FindByID E c i)) (\<lambda>rt.
       if ses_user_id rt \<noteq> u then fail (Sentinel App_ErrSessionForbidden)
       else case session_Revoke rt ?t of
              Inl e \<Rightarrow> if errors_is e Session_ErrAlreadyRevoked then ret () else fail e
            | Inr rt' \<Rightarrow> SessionRepository_Save E c [rt'])"
  have "RunInTransaction E No_Tx ?body (w\<lparr>tick := Suc (tick w)\<rparr>) = (r, w')"
    using assms(1) by (simp add: RevokeSession_Execute_def bind_def [of "now E"] now_def)
  moreover have "confined (?body In_Tx)" by (intro confined_rules)
  ultimately show ?thesis using storage_tx.run_rolls_back [of ?body] assms(2) by simp
qed

end
