(* ===== verification/Service.thy ===== *)
theory Service
  imports Login_Facts Invite_Facts
begin

text \<open>
  The service as a state machine: the requests that the HTTP handlers and the start-up make,
  each served by its use case outside any transaction, in any order, with any behaviour of the
  clock, the entropy and the database's own failures. The invariants hold in every state that
  can be reached.
\<close>

record service =
  sv_create_invite :: create_invite
  sv_root_create_invite :: create_invite
  sv_begin_registration :: begin_invite_registration
  sv_finish_registration :: finish_invite_registration
  sv_authenticator :: authenticator
  sv_login :: login
  sv_refresh :: refresh_access_token

datatype request =
    Start_Up nat
  | Create_Invite uuid
  | Begin_Registration string
  | Finish_Registration registration_input
  | Begin_Login
  | Finish_Login login_input
  | Refresh string
  | Revoke_Session uuid uuid
  | Revoke_All uuid
  | Revoke_Chain uuid

definition discard :: "'a act \<Rightarrow> unit act" where
  "discard m = bind m (\<lambda>_. ret ())"

fun serve :: "env \<Rightarrow> service \<Rightarrow> request \<Rightarrow> unit act" where
  "serve E sv (Start_Up n) =
     bind (bootstrapRoot E No_Tx) (\<lambda>root.
     discard (createRootInvites E (sv_root_create_invite sv) No_Tx root n))"
| "serve E sv (Create_Invite u) = discard (CreateInvite_Execute E (sv_create_invite sv) No_Tx u)"
| "serve E sv (Begin_Registration code) =
     discard (BeginInviteRegistration_Execute E (sv_begin_registration sv) No_Tx code)"
| "serve E sv (Finish_Registration inp) =
     discard (FinishInviteRegistration_Execute E (sv_finish_registration sv) No_Tx inp)"
| "serve E sv Begin_Login = discard (BeginLogin_Execute E (sv_authenticator sv))"
| "serve E sv (Finish_Login inp) = discard (Login_Execute E (sv_login sv) No_Tx inp)"
| "serve E sv (Refresh raw) = discard (RefreshAccessToken_Execute E (sv_refresh sv) No_Tx raw)"
| "serve E sv (Revoke_Session i u) = RevokeSession_Execute E No_Tx i u"
| "serve E sv (Revoke_All u) = RevokeAllUserSessions_Execute E No_Tx [u]"
| "serve E sv (Revoke_Chain u) = RevokeCompromisedChain_Execute E No_Tx u"

text \<open>A step is one request served in a world at rest.\<close>

inductive service_step :: "service \<Rightarrow> database \<Rightarrow> database \<Rightarrow> bool" for sv where
  step: "work w = None \<Longrightarrow> serve E sv r w = (res, w') \<Longrightarrow>
         service_step sv (committed w) (committed w')"

inductive reachable :: "service \<Rightarrow> database \<Rightarrow> database \<Rightarrow> bool" for sv where
  initial: "reachable sv d d"
| more: "reachable sv d d' \<Longrightarrow> service_step sv d' d'' \<Longrightarrow> reachable sv d d''"

inductive_cases service_stepE: "service_step sv d d'"

lemma reachable_invariant:
  assumes "reachable sv d d'" and "I d" and "\<And>d d'. I d \<Longrightarrow> service_step sv d d' \<Longrightarrow> I d'"
  shows "I d'"
  using assms(1,2) by induction (auto intro: assms(3))

lemma keeps_discard [keeps_rules]: "keeps I m \<Longrightarrow> keeps I (discard m)"
  unfolding discard_def by (intro keeps_rules)

lemma keeps_step:
  assumes "keeps I (serve E sv r)" and "I (committed w)" and "work w = None"
    and "serve E sv r w = (res, w')"
  shows "I (committed w')"
  using keepsD [OF assms(1) _ assms(4)] assms(2,3) by simp

section \<open>The schema holds in every reachable state\<close>

lemma keeps_serve_db_ok: "keeps db_ok (serve E sv r)"
  by (cases r) (auto intro!: keeps_rules)

lemma service_step_db_ok: "db_ok d \<Longrightarrow> service_step sv d d' \<Longrightarrow> db_ok d'"
  by (auto elim!: service_stepE intro: keeps_step [OF keeps_serve_db_ok])

section \<open>Users\<close>

text \<open>Predicates on the users are kept by every statement that writes another table.\<close>

lemma frame_users:
  "SaveCredential r d = Inr ((), d') \<Longrightarrow> users d' = users d"
  "SaveInvite i d = Inr ((), d') \<Longrightarrow> users d' = users d"
  "upsert_session s d = Inr ((), d') \<Longrightarrow> users d' = users d"
  by (auto simp: SaveCredential_def SaveInvite_def upsert_session_def split: if_splits)

lemma frame_users_batch: "SaveRefreshTokens rs d = Inr ((), d') \<Longrightarrow> users d' = users d"
  by (induction rs d rule: SaveRefreshTokens.induct) (auto split: sum.splits dest: frame_users)

lemma keeps_users_writes [keeps_rules]:
  "keeps (\<lambda>d. P (users d)) (CredentialRepository_Save E c x)"
  "keeps (\<lambda>d. P (users d)) (InviteRepository_Save E c i)"
  "keeps (\<lambda>d. P (users d)) (SessionRepository_Save E c ts)"
  unfolding repository_defs
  by (auto intro!: keeps_run_stmt simp: frame_users dest!: frame_users_batch)

lemma keeps_users_use_cases [keeps_rules]:
  "keeps (\<lambda>d. P (users d)) (issueAccess E si c u)"
  "keeps (\<lambda>d. P (users d)) (SessionIssuer_Issue E si c u dev ip t)"
  "keeps (\<lambda>d. P (users d)) (SessionIssuer_Rotate E si c old t)"
  "keeps (\<lambda>d. P (users d)) (RevokeAllUserSessions_Execute E c us)"
  "keeps (\<lambda>d. P (users d)) (RevokeSession_Execute E c i u)"
  "keeps (\<lambda>d. P (users d)) (RevokeCompromisedChain_Execute E c u)"
  "keeps (\<lambda>d. P (users d)) (validateRefreshToken E ra c raw t)"
  "keeps (\<lambda>d. P (users d)) (RefreshAccessToken_Execute E ra c raw)"
  "keeps (\<lambda>d. P (users d)) (CreateInvite_Execute E ci c u)"
  "keeps (\<lambda>d. P (users d)) (BeginInviteRegistration_Execute E bi c code)"
  "keeps (\<lambda>d. P (users d)) (handleClone E c cred t)"
  "keeps (\<lambda>d. P (users d)) (login_body E uc inp t res c)"
  "keeps (\<lambda>d. P (users d)) (Login_Execute E uc c inp)"
  unfolding issueAccess_def SessionIssuer_Issue_def SessionIssuer_Rotate_def
    RevokeAllUserSessions_Execute_def RevokeSession_Execute_def RevokeCompromisedChain_Execute_def
    validateRefreshToken_def RefreshAccessToken_Execute_def CreateInvite_Execute_def
    BeginInviteRegistration_Execute_def handleClone_def login_body_def Login_Execute_def Let_def
  by (intro keeps_rules)+

lemma keeps_users_createRootInvites [keeps_rules]:
  "keeps (\<lambda>d. P (users d)) (createRootInvites E ci c root n)"
  by (induction n) (auto intro!: keeps_rules)

lemma keeps_users_serve:
  "(\<And>n. r \<noteq> Start_Up n) \<Longrightarrow> (\<And>inp. r \<noteq> Finish_Registration inp) \<Longrightarrow>
   keeps (\<lambda>d. P (users d)) (serve E sv r)"
  by (cases r) (auto intro!: keeps_rules)

text \<open>A step adds at most the root, and that only when there is no root yet.\<close>

definition root_added :: "pg_user list \<Rightarrow> pg_user list \<Rightarrow> bool" where
  "root_added us vs \<longleftrightarrow>
     vs = us \<or>
     (\<forall>u \<in> set us. pgu_invited_by u \<noteq> None) \<and>
     (\<exists>row. pgu_invited_by row = None \<and> pgu_role row = UserRoleAdmin \<and> vs = us @ [row])"

lemma keeps_bind_lift:
  assumes "\<And>x. r = Inr x \<Longrightarrow> keeps I (f x)"
  shows "keeps I (bind (lift_sum r) f)"
proof (cases r)
  case (Inl e)
  then have "bind (lift_sum r) f = fail e" by (auto simp: bind_def lift_sum_def fail_def)
  then show ?thesis by (simp add: keeps_pure)
next
  case (Inr x)
  then have "bind (lift_sum r) f = f x" by (auto simp: bind_def lift_sum_def)
  with assms Inr show ?thesis by simp
qed

lemma keeps_root_added_save:
  assumes "user_NewRoot i t = Inr root"
  shows "keeps (\<lambda>d. root_added us (users d)) (UserRepository_Save E c root)"
proof -
  have root: "pgu_invited_by (userToRow root) = None" "pgu_role (userToRow root) = UserRoleAdmin"
    using assms by (auto simp: user_NewRoot_Inr_iff role_String_def role_defs pg_enum_defs)
  show ?thesis
    unfolding UserRepository_Save_def
  proof (rule keeps_run_stmt)
    fix d x d'
    assume I: "root_added us (users d)" and "SaveUser (userToRow root) d = Inr (x, d')"
    then have "\<forall>u \<in> set (users d). pgu_invited_by u \<noteq> None"
      and "users d' = users d @ [userToRow root]" using root by (auto simp: SaveUser_Inr_iff)
    with I root show "root_added us (users d')" by (auto simp: root_added_def)
  qed
qed

lemma keeps_bootstrapRoot_users:
  "keeps (\<lambda>d. root_added us (users d)) (bootstrapRoot E c)"
  unfolding bootstrapRoot_def BootstrapRoot_Execute_def
  by (intro keeps_bind_lift keeps_rules keeps_root_added_save)

lemma keeps_serve_users:
  assumes "\<And>inp. r \<noteq> Finish_Registration inp"
  shows "keeps (\<lambda>d. root_added us (users d)) (serve E sv r)"
proof (cases "\<exists>n. r = Start_Up n")
  case True
  then show ?thesis
    by (auto intro!: keeps_rules keeps_bootstrapRoot_users)
next
  case False
  then show ?thesis using assms by (intro keeps_users_serve) auto
qed

text \<open>A registration leaves the database alone, so no step but the start-up adds a user.\<close>

lemma service_step_users:
  assumes "service_step sv d d'"
  shows "root_added (users d) (users d')"
proof -
  obtain w E r res w' where 1: "d = committed w" "d' = committed w'" "work w = None"
    "serve E sv r w = (res, w')" using assms by (rule service_stepE)
  show ?thesis
  proof (cases "\<exists>inp. r = Finish_Registration inp")
    case True
    then obtain inp where r: "r = Finish_Registration inp" ..
    obtain q v where fin: "FinishInviteRegistration_Execute E (sv_finish_registration sv) No_Tx inp w = (q, v)"
      by fastforce
    with 1 r have "committed w' = committed v"
      by (auto simp: discard_def bind_def ret_def split: outcome.splits)
    with registration_unchanged [OF fin] 1 show ?thesis by (simp add: root_added_def)
  next
    case False
    then have "keeps (\<lambda>d. root_added (users (committed w)) (users d)) (serve E sv r)"
      by (intro keeps_serve_users) auto
    then have "root_added (users (committed w)) (users (committed w'))"
      by (rule keeps_step [OF _ _ 1(3,4)]) (simp add: root_added_def)
    with 1(1,2) show ?thesis by simp
  qed
qed

lemma service_step_inviters_first:
  assumes "inviters_first (users d)" and "service_step sv d d'"
  shows "inviters_first (users d')"
  using service_step_users [OF assms(2)] assms(1)
  by (auto simp: root_added_def inviters_first_append)

lemma reachable_users:
  assumes "reachable sv d d'"
  shows "root_added (users d) (users d')"
  using assms
proof induction
  case (more d' d2)
  from service_step_users [OF more(2)] more(3) show ?case
    by (auto simp: root_added_def)
qed (simp add: root_added_def)

end
