(* ===== verification/Sample.thy ===== *)
theory Sample
  imports Effects
begin

text \<open>
  A concrete instance of the parameters, for the witnesses: identifiers print in decimal, a
  token is the text of its claims as netstrings with the key in front, the keyed hash is the
  message behind the key, WebAuthn answers are read from the response's first bytes. The laws
  that the properties assume of the libraries are proved of this instance, so they can hold.
\<close>

section \<open>Decimal numbers and netstrings\<close>

definition parse_nat :: "string \<Rightarrow> nat" where
  "parse_nat s = foldl (\<lambda>n c. 10 * n + (of_char c - 48)) 0 s"

lemma of_char_digit: "d < 10 \<Longrightarrow> of_char (digit_char d) = 48 + d"
  by (simp add: digit_char_def of_char_of)

lemma parse_nat_itoa [simp]: "parse_nat (itoa n) = n"
proof (induction n rule: less_induct)
  case (less n)
  show ?case
  proof (cases "n < 10")
    case True
    then show ?thesis by (subst itoa.simps) (simp add: parse_nat_def of_char_digit)
  next
    case False
    then have "parse_nat (itoa (n div 10)) = n div 10" by (intro less) simp
    with False show ?thesis by (subst itoa.simps) (simp add: parse_nat_def of_char_digit)
  qed
qed

lemma itoa_no_colon: "c \<in> set (itoa n) \<Longrightarrow> c \<noteq> CHR '':''"
proof (induction n rule: less_induct)
  case (less n)
  have dig: "digit_char d \<noteq> CHR '':''" if "d < 10" for d
  proof
    assume "digit_char d = CHR '':''"
    then have "of_char (digit_char d) = (of_char CHR '':'' :: nat)" by simp
    with that show False by (simp add: of_char_digit)
  qed
  show ?case
  proof (cases "n < 10")
    case True
    with less.prems dig show ?thesis by (subst (asm) itoa.simps) simp
  next
    case False
    with less.prems have "c \<in> set (itoa (n div 10)) \<or> c = digit_char (n mod 10)"
      by (subst (asm) itoa.simps) auto
    then show ?thesis
    proof
      assume "c \<in> set (itoa (n div 10))"
      with False show ?thesis by (intro less.IH) auto
    next
      assume "c = digit_char (n mod 10)"
      then show ?thesis using dig [of "n mod 10"] by simp
    qed
  qed
qed

definition net :: "string \<Rightarrow> string" where
  "net s = itoa (length s) @ '':'' @ s"

definition read_net :: "string \<Rightarrow> (string \<times> string) option" where
  "read_net s =
     (case dropWhile (\<lambda>c. c \<noteq> CHR '':'') s of
        [] \<Rightarrow> None
      | _ # body \<Rightarrow>
          (let n = parse_nat (takeWhile (\<lambda>c. c \<noteq> CHR '':'') s)
           in if n \<le> length body then Some (take n body, drop n body) else None))"

lemma read_net_net [simp]: "read_net (net s @ r) = Some (s, r)"
  by (simp add: read_net_def net_def itoa_no_colon takeWhile_append2 dropWhile_append2)

fun read_nets :: "nat \<Rightarrow> string \<Rightarrow> string list" where
  "read_nets 0 s = []"
| "read_nets (Suc n) s =
     (if s = [] then [] else case read_net s of None \<Rightarrow> [] | Some (x, r) \<Rightarrow> x # read_nets n r)"

lemma net_not_Nil [simp]: "net s \<noteq> []"
  by (simp add: net_def)

lemma read_nets_concat: "length xs \<le> n \<Longrightarrow> read_nets n (concat (map net xs)) = xs"
proof (induction xs arbitrary: n)
  case Nil
  then show ?case by (cases n) auto
next
  case (Cons x xs)
  then obtain m where "n = Suc m" "length xs \<le> m" by (cases n) auto
  with Cons.IH show ?case by simp
qed

lemma length_nets: "length xs \<le> length (concat (map net xs))"
proof (induction xs)
  case (Cons x xs)
  have "1 \<le> length (net x)" by (simp add: net_def Suc_leI)
  with Cons show ?case by simp
qed simp

lemma read_nets_all: "read_nets (length (concat (map net xs))) (concat (map net xs)) = xs"
  by (rule read_nets_concat) (rule length_nets)

section \<open>Tokens\<close>

definition show_int :: "int \<Rightarrow> string" where
  "show_int i = (if i < 0 then CHR ''-'' # itoa (nat (- i)) else CHR ''+'' # itoa (nat i))"

definition read_int :: "string \<Rightarrow> int" where
  "read_int s =
     (case s of [] \<Rightarrow> 0
      | c # ds \<Rightarrow> if c = CHR ''-'' then - int (parse_nat ds) else int (parse_nat ds))"

lemma read_int_show [simp]: "read_int (show_int i) = i"
  by (simp add: read_int_def show_int_def)

fun pair_up :: "string list \<Rightarrow> (string \<times> string) list" where
  "pair_up (k # v # rest) = (k, v) # pair_up rest"
| "pair_up _ = []"

lemma pair_up_concat [simp]: "pair_up (concat (map (\<lambda>(k, v). [k, v]) kvs)) = kvs"
  by (induction kvs) auto

definition show_claims :: "token_claims \<Rightarrow> string list" where
  "show_claims c = show_int (tc_exp c) # concat (map (\<lambda>(k, v). [k, v]) (tc_strings c))"

definition show_bytes_key :: "bytes \<Rightarrow> string" where
  "show_bytes_key k = join_with ''.'' (map (\<lambda>b. itoa (unat b)) k)"

definition sample_sign :: "bytes \<Rightarrow> token_claims \<Rightarrow> string" where
  "sample_sign k c = concat (map net (show_bytes_key k # show_claims c))"

definition sample_parse :: "bytes \<Rightarrow> time \<Rightarrow> string \<Rightarrow> parse_failure + token_claims" where
  "sample_parse k t s =
     (case read_nets (length s) s of
        key # e # kvs \<Rightarrow>
          if key \<noteq> show_bytes_key k then Inl (Other_Parse_Error ''bad signature'')
          else if t > read_int e then Inl (Rule_Error ''this token has expired'')
          else Inr \<lparr>tc_exp = read_int e, tc_strings = pair_up kvs\<rparr>
      | _ \<Rightarrow> Inl (Other_Parse_Error ''bad token''))"

lemma sample_parse_sign:
  "sample_parse k t (sample_sign k c) =
     (if t > tc_exp c then Inl (Rule_Error ''this token has expired'') else Inr c)"
proof -
  have "read_nets (length (sample_sign k c)) (sample_sign k c) = show_bytes_key k # show_claims c"
    unfolding sample_sign_def by (rule read_nets_all)
  then show ?thesis by (simp add: sample_parse_def show_claims_def)
qed

section \<open>The library and an environment\<close>

definition byte_string :: "string \<Rightarrow> bytes" where
  "byte_string s = map (\<lambda>c. word_of_nat (of_char c)) s"

definition sample_cred :: wa_credential where
  "sample_cred = \<lparr>wac_id = [7], wac_public_key = [8], wac_transport = [''usb''],
     wac_sign_count = 5, wac_clone_warning = False\<rparr>"

definition sample_libs :: libs where
  "sample_libs = \<lparr>
     uuid_str = (\<lambda>u. itoa (unat u)),
     uuid_parse = (\<lambda>s. Inr (word_of_nat (parse_nat s))),
     uuid_from_bytes = (\<lambda>bs. case bs of [b] \<Rightarrow> Inr (ucast b) | _ \<Rightarrow> Inl (External ''invalid UUID'')),
     uuid_bytes = (\<lambda>u. [ucast u]),
     hmac_sha256 = (\<lambda>k m. k @ m),
     v4_sign = sample_sign,
     v4_parse_public = sample_parse,
     v4_encrypt = (\<lambda>n k c. sample_sign k c),
     v4_parse_local = sample_parse,
     challenge_marshal = (\<lambda>c. case c of
        Registration_Challenge sd i u \<Rightarrow>
          Inr (net (map (\<lambda>b. char_of (unat b)) sd) @ net (itoa (unat i)) @ net (itoa (unat u)))
      | Login_Challenge sd \<Rightarrow> Inr ''login''),
     registration_unmarshal = (\<lambda>s. case read_nets (length s) s of
        [sd, i, u] \<Rightarrow> Inr (byte_string sd, word_of_nat (parse_nat i), word_of_nat (parse_nat u))
      | _ \<Rightarrow> Inl (External ''json'')),
     login_unmarshal = (\<lambda>s. Inr []),
     options_marshal = (\<lambda>b. Inr b),
     wa_begin_registration = (\<lambda>n u opts. Inr ([1], [2])),
     wa_parse_creation = (\<lambda>b. Inr b),
     wa_create_credential = (\<lambda>u sd p. Inr sample_cred),
     wa_begin_login = (\<lambda>n opts. Inr ([3], [4])),
     wa_parse_request = (\<lambda>b. Inr b),
     wa_client_extensions = (\<lambda>p. []),
     wa_user_handle = (\<lambda>sd p. Inr p),
     wa_handler_error = (\<lambda>e. e),
     wa_validate = (\<lambda>u sd p. Inr sample_cred)\<rparr>"

lemma sample_libs_sel [simp]:
  "uuid_str sample_libs u = itoa (unat u)"
  "uuid_parse sample_libs s = Inr (word_of_nat (parse_nat s))"
  "hmac_sha256 sample_libs k m = k @ m"
  "v4_sign sample_libs = sample_sign" "v4_parse_public sample_libs = sample_parse"
  "v4_encrypt sample_libs n = sample_sign" "v4_parse_local sample_libs = sample_parse"
  "login_unmarshal sample_libs s = Inr []"
  "uuid_from_bytes sample_libs [x] = Inr (ucast x)"
  "wa_parse_creation sample_libs b = Inr b" "wa_create_credential sample_libs wu sd b = Inr sample_cred"
  "wa_parse_request sample_libs b = Inr b" "wa_user_handle sample_libs sd b = Inr b"
  "wa_handler_error sample_libs e = e" "wa_validate sample_libs wu sd b = Inr sample_cred"
  by (simp_all add: sample_libs_def fun_eq_iff)

lemma byte_string_chars [simp]: "byte_string (map (\<lambda>b. char_of (unat b)) sd) = sd"
proof (induction sd)
  case (Cons b sd)
  have "unat b < 2 ^ LENGTH(8)" by (rule unsigned_less)
  then have "(of_char (char_of (unat b) :: char) :: nat) = unat b" by (simp add: of_char_of)
  with Cons show ?case by (simp add: byte_string_def)
qed (simp add: byte_string_def)

lemma sample_challenge_roundtrip:
  "registration_unmarshal sample_libs
     (net (map (\<lambda>b. char_of (unat b)) sd) @ net (itoa (unat i)) @ net (itoa (unat u))) = Inr (sd, i, u)"
  using read_nets_all [of "[map (\<lambda>b. char_of (unat b)) sd, itoa (unat i), itoa (unat u)]"]
  by (simp add: sample_libs_def)

definition sample_env :: env where
  "sample_env = \<lparr>
     clock = (\<lambda>n. 1000 + int n),
     next_uuid = (\<lambda>n. word_of_nat (100 + n mod 1000)),
     entropy = (\<lambda>t n. Inr (replicate n (word_of_nat t))),
     stmt_fault = (\<lambda>n. None), begin_fault = (\<lambda>n. None), commit_fault = (\<lambda>n. None),
     rollback_fault = (\<lambda>n. None), lib = sample_libs\<rparr>"

lemma sample_env_sel [simp]:
  "clock sample_env n = 1000 + int n" "next_uuid sample_env n = word_of_nat (100 + n mod 1000)"
  "entropy sample_env t k = Inr (replicate k (word_of_nat t))" "stmt_fault sample_env n = None"
  "begin_fault sample_env n = None" "commit_fault sample_env n = None"
  "rollback_fault sample_env n = None" "lib sample_env = sample_libs"
  by (simp_all add: sample_env_def)

end
