(* ===== verification/Sample_World.thy ===== *)
theory Sample_World
  imports Service Sample
begin

text \<open>
  A small database and a configured service for the witnesses: the root (1), an admin it
  invited (2) and a member the admin invited (3); the admin holds a credential, an active and a
  revoked session, the root an open invite.
\<close>

definition sample_sm :: secret_manager where
  "sample_sm = \<lparr>sm_secretKey = []\<rparr>"

definition sample_issuer :: session_issuer where
  "sample_issuer = \<lparr>si_refreshTokens = sample_sm, si_accessTokens = \<lparr>ti_secretKey = [1]\<rparr>,
     si_refreshTTL = 9000, si_accessTTL = 900\<rparr>"

definition sample_registrator :: registrator where
  "sample_registrator = \<lparr>rg_challenge = \<lparr>tk_privateKey = [2]\<rparr>, rg_ttl = 300\<rparr>"

definition sample_authenticator :: authenticator where
  "sample_authenticator = \<lparr>au_challenge = \<lparr>tk_privateKey = [2]\<rparr>, au_ttl = 300\<rparr>"

definition sample_ra :: refresh_access_token where
  "sample_ra = \<lparr>ra_sessionIssuer = sample_issuer, ra_hasher = sample_sm\<rparr>"

definition sample_login :: login where
  "sample_login = \<lparr>lg_authenticator = sample_authenticator, lg_sessionIssuer = sample_issuer\<rparr>"

definition sample_ci :: create_invite where
  "sample_ci = \<lparr>ci_tokens = sample_sm, ci_policy = invite_NewPolicy 3, ci_ttl = 7000\<rparr>"

definition sample_root_ci :: create_invite where
  "sample_root_ci = \<lparr>ci_tokens = sample_sm, ci_policy = NewUnlimitedPolicy, ci_ttl = 7000\<rparr>"

definition sample_fr :: finish_invite_registration where
  "sample_fr = \<lparr>fr_sessionIssuer = sample_issuer, fr_registrator = sample_registrator,
     fr_keyPolicy = key_NewPolicy 10\<rparr>"

definition sample_service :: service where
  "sample_service = \<lparr>sv_create_invite = sample_ci, sv_root_create_invite = sample_root_ci,
     sv_begin_registration = \<lparr>bi_registrator = sample_registrator, bi_hash = sample_sm\<rparr>,
     sv_finish_registration = sample_fr, sv_authenticator = sample_authenticator,
     sv_login = sample_login, sv_refresh = sample_ra\<rparr>"

definition sample_hash :: "string \<Rightarrow> string" where
  "sample_hash s = generateHashBase32 sample_libs sample_sm s"

definition sample_session :: "uuid \<Rightarrow> string \<Rightarrow> time option \<Rightarrow> pg_session" where
  "sample_session i raw revoked = \<lparr>pgs_id = i, pgs_user_id = 2, pgs_token_hash = sample_hash raw,
     pgs_device_info = ''phone'', pgs_ip_address = IPv4 0x7F000001, pgs_expires_at = 90000,
     pgs_revoked_at = revoked, pgs_created_at = 10\<rparr>"

definition sample_credential :: pg_credential where
  "sample_credential = \<lparr>pgc_id = 21, pgc_external_id = [7], pgc_user_id = 2, pgc_public_key = [8],
     pgc_sign_count = 9, pgc_transports = [''usb''], pgc_created_at = 10, pgc_revoked_at = None\<rparr>"

definition sample_invite :: pg_invite where
  "sample_invite = \<lparr>pgi_id = 31, pgi_created_by = 1, pgi_code_hash = sample_hash ''code'',
     pgi_used_by = None, pgi_used_at = None, pgi_expires_at = 90000, pgi_created_at = 10\<rparr>"

definition sample_key :: pg_wrapped_key where
  "sample_key = \<lparr>pgk_id = 41, pgk_user_id = 2, pgk_credential_id = 21, pgk_scope = ''main'',
     pgk_wrapped_dek = [1, 2], pgk_wrap_algorithm = ''aes-kw'', pgk_created_at = 10\<rparr>"

definition sample_users :: "pg_user list" where
  "sample_users =
     [\<lparr>pgu_id = 1, pgu_role = ''admin'', pgu_invited_by = None, pgu_created_at = 1\<rparr>,
      \<lparr>pgu_id = 2, pgu_role = ''admin'', pgu_invited_by = Some 1, pgu_created_at = 2\<rparr>,
      \<lparr>pgu_id = 3, pgu_role = ''member'', pgu_invited_by = Some 2, pgu_created_at = 3\<rparr>]"

definition sample_db :: database where
  "sample_db = \<lparr>users = sample_users, credentials = [sample_credential], invites = [sample_invite],
     sessions = [sample_session 11 ''active'' None, sample_session 12 ''revoked'' (Some 50)],
     wrapped_keys = [sample_key]\<rparr>"

lemma sample_fault_free: "fault_free sample_env"
  by (simp add: fault_free_def)

lemma sample_hash_inj: "sample_hash a = sample_hash b \<Longrightarrow> stringToBytes a = stringToBytes b"
  by (auto simp: sample_hash_def generateHashBase32_def sample_libs_def sample_sm_def
      dest: b32_encode_inj)

lemma sample_hash_distinct [simp]: "sample_hash ''active'' \<noteq> sample_hash ''revoked''"
  by (auto dest!: sample_hash_inj simp: stringToBytes_def)

lemma sample_db_sel [simp]:
  "users sample_db = sample_users" "credentials sample_db = [sample_credential]"
  "invites sample_db = [sample_invite]" "wrapped_keys sample_db = [sample_key]"
  "sessions sample_db = [sample_session 11 ''active'' None, sample_session 12 ''revoked'' (Some 50)]"
  by (simp_all add: sample_db_def)

lemma sample_db_ok: "db_ok sample_db"
  by (simp add: db_ok_def tables_ok_defs sample_users_def sample_session_def sample_credential_def
      sample_invite_def sample_key_def pg_enum_defs)

lemma sample_inviters_first: "inviters_first (users sample_db)"
  by (auto simp: inviters_first_def sample_users_def less_Suc_eq nth_Cons')

lemma sample_paseto: "paseto_law sample_libs k k"
  by (simp add: paseto_law_def sample_parse_sign)

lemma sample_world_sel [simp]:
  "committed (world_of d) = d" "work (world_of d) = None" "aborted (world_of d) = False"
  "tick (world_of d) = 0"
  by (simp_all add: world_of_def)

lemma sample_hash_length: "sample_hash a = sample_hash b \<Longrightarrow> length a = length b"
  by (drule sample_hash_inj, drule arg_cong [of _ _ length]) (simp add: stringToBytes_def)

lemma sample_new_hash:
  assumes "length a < 52"
  shows "generateHashBase32 sample_libs sample_sm (b32_encode (replicate 32 x)) \<noteq> sample_hash a"
proof
  assume "generateHashBase32 sample_libs sample_sm (b32_encode (replicate 32 x)) = sample_hash a"
  then have "length (b32_encode (replicate 32 x)) = length a"
    by (intro sample_hash_length) (simp add: sample_hash_def)
  with assms show False by (simp add: b32_encode_length)
qed

lemma sample_hash_not_Nil:
  "generateHashBase32 sample_libs sample_sm (b32_encode (replicate 32 x)) \<noteq> []"
proof
  assume "generateHashBase32 sample_libs sample_sm (b32_encode (replicate 32 x)) = []"
  then have "length (b32_encode (replicate 32 x)) = 0"
    by (simp add: generateHashBase32_def sample_sm_def stringToBytes_def)
  then show False by (simp add: b32_encode_length)
qed

lemma sample_uuid_large:
  assumes "m < 100"
  shows "word_of_nat (100 + n mod 1000) \<noteq> (m :: uuid)"
proof
  assume eq: "word_of_nat (100 + n mod 1000) = m"
  have small: "100 + n mod 1000 < 1100" by simp
  have "1100 < (2 :: nat) ^ LENGTH(128)" by simp
  with small have "100 + n mod 1000 < 2 ^ LENGTH(128)" by (rule less_trans)
  then have "unat (word_of_nat (100 + n mod 1000) :: uuid) = 100 + n mod 1000"
    unfolding unat_of_nat by (rule mod_less)
  moreover have "unat m < 100" using assms by (simp add: word_less_nat_alt)
  ultimately show False using eq by simp
qed

lemma sample_fresh: "fresh_session sample_env sample_sm sample_db"
  using sample_new_hash [of "''active''"] sample_new_hash [of "''revoked''"] sample_hash_not_Nil
    sample_uuid_large
  by (simp add: fresh_session_def sample_session_def)

lemma sample_fresh_invite: "fresh_invite sample_env sample_sm sample_db"
  using sample_new_hash [of "''code''"] sample_hash_not_Nil sample_uuid_large
  by (simp add: fresh_invite_def sample_invite_def)

lemma sample_bootstrap_run:
  "\<exists>w'. bootstrapRoot sample_env No_Tx (world_of empty_db) =
     (Ok \<lparr>user_id = 102, user_role = role_Admin, user_invited_by = None, user_created_at = 1001\<rparr>, w') \<and>
   committed w' = empty_db\<lparr>users :=
     [\<lparr>pgu_id = 102, pgu_role = ''admin'', pgu_invited_by = None, pgu_created_at = 1001\<rparr>]\<rparr>"
  by (simp add: bootstrapRoot_def BootstrapRoot_Execute_def UserRepository_FindRoot_def bind_def
      catch_def fail_def or_not_found_def query_row_def run_stmt_def FindRootUser_def world_of_def
      empty_db_def ret_def now_def new_id_def lift_sum_def user_NewRoot_def UserRepository_Save_def
      SaveUser_def invalid_argument_def userToRow_def role_String_def role_Admin_def pg_enum_defs
      ptrToNullUUID_def nullUUIDToPtr_def Let_def)

text \<open>The same credential with a counter that the assertion's counter exceeds.\<close>

definition sample_db2 :: database where
  "sample_db2 = sample_db\<lparr>credentials := [sample_credential\<lparr>pgc_sign_count := 3\<rparr>]\<rparr>"

lemma sample_db2_sel [simp]:
  "users sample_db2 = sample_users" "credentials sample_db2 = [sample_credential\<lparr>pgc_sign_count := 3\<rparr>]"
  "invites sample_db2 = [sample_invite]" "wrapped_keys sample_db2 = [sample_key]"
  "sessions sample_db2 = sessions sample_db"
  by (simp_all add: sample_db2_def)

lemma sample_db2_ok: "db_ok sample_db2"
  using sample_db_ok by (simp add: db_ok_def tables_ok_defs sample_credential_def)

lemma sample_fresh2: "fresh_session sample_env sample_sm sample_db2"
  using sample_fresh by (simp add: fresh_session_def)

definition sample_login_input :: login_input where
  "sample_login_input = \<lparr>
     li_ChallengeToken = sample_sign [2] \<lparr>tc_exp = 5000, tc_strings = [(''payload'', ''login'')]\<rparr>,
     li_AuthenticationResponse = [2], li_DeviceInfo = ''phone'', li_IPAddress = IPv4 1\<rparr>"

lemma sample_authenticator_finish:
  assumes "d = sample_db \<or> d = sample_db2"
  shows "Authenticator_Finish sample_env sample_authenticator No_Tx
    (li_ChallengeToken sample_login_input) (li_AuthenticationResponse sample_login_input)
    ((world_of d)\<lparr>tick := Suc 0\<rparr>) =
    (Ok \<lparr>ar_UserID = 2, ar_ExternalID = [7], ar_NewSignCount = 5, ar_CloneWarning = False\<rparr>,
     (world_of d)\<lparr>tick := 3\<rparr>)"
  by (simp add: Authenticator_Finish_def TokenCodec_Decode_def bind_def catch_def now_def lift_sum_def
      ret_def sample_authenticator_def sample_login_input_def sample_parse_sign claim_GetString_def
      sample_cred_def getValidateFunc_def NewUserID_def CredentialRepository_FindByUserID_def
      run_stmt_def ListCredentialsByUserID_def Let_def world_of_def)

end
