(* ===== verification/Idgen.thy ===== *)
theory Idgen
  imports Prelude "HOL-Library.Multiset"
begin

text \<open>
  \<open>pkg/idgen\<close>: identifiers come from batches of 256, filled from the entropy source in one
  read and kept in a \<open>sync.Pool\<close>. The pool is the list of the buffers put back into it; which
  one \<open>Get\<close> hands out (or whether it makes a fresh one), and when the runtime drops one, is
  the pool's choice, so a run is a list of such events. \<open>uuid.New\<close>, the fallback when the
  entropy source fails, is a parameter of the event.
\<close>

unbundle bit_operations_syntax

section \<open>Bytes of an identifier\<close>

text \<open>\<open>uuid.UUID\<close> is \<open>[16]byte\<close>; byte 0 is the most significant.\<close>

definition uuid_byte :: "nat \<Rightarrow> uuid \<Rightarrow> 8 word" where
  "uuid_byte i u = ucast (drop_bit (8 * (15 - i)) u)"

definition set_uuid_byte :: "nat \<Rightarrow> 8 word \<Rightarrow> uuid \<Rightarrow> uuid" where
  "set_uuid_byte i b u =
     (u AND NOT (push_bit (8 * (15 - i)) 255)) OR push_bit (8 * (15 - i)) (ucast b)"

definition uuid_of_bytes :: "bytes \<Rightarrow> uuid" where
  "uuid_of_bytes bs = foldl (\<lambda>u b. push_bit 8 u OR ucast b) 0 bs"

section \<open>generator.go\<close>

definition batchSize :: nat where
  "batchSize = 256"

record batch_buffer =
  bb_uuids :: "uuid list"
  bb_idx :: nat

definition fresh_buffer :: batch_buffer where
  "fresh_buffer = \<lparr>bb_uuids = replicate batchSize 0, bb_idx = batchSize\<rparr>"

text \<open>The array read as 16-byte groups, and the version and variant bits of RFC 4122.\<close>

definition slots :: "bytes \<Rightarrow> uuid list" where
  "slots raw = map (\<lambda>i. uuid_of_bytes (take 16 (drop (16 * i) raw))) [0..<batchSize]"

definition stamp :: "uuid \<Rightarrow> uuid" where
  "stamp u =
     (let v = set_uuid_byte 6 ((uuid_byte 6 u AND 0x0f) OR 0x40) u in
      set_uuid_byte 8 ((uuid_byte 8 v AND 0x3f) OR 0x80) v)"

text \<open>
  \<open>refill\<close>: the argument is what \<open>io.ReadFull\<close> answers for the 4096 bytes of the array. After
  a failed read the index is still at the end, so what the array holds is never read.
\<close>

definition refill :: "'e + bytes \<Rightarrow> batch_buffer \<Rightarrow> 'e + batch_buffer" where
  "refill r b =
     (case r of Inl e \<Rightarrow> Inl e
      | Inr raw \<Rightarrow> Inr (b\<lparr>bb_uuids := map stamp (slots raw), bb_idx := 0\<rparr>))"

text \<open>\<open>NewID\<close> on the buffer that the pool handed out; the result is put back.\<close>

definition buffer_NewID :: "'e + bytes \<Rightarrow> uuid \<Rightarrow> batch_buffer \<Rightarrow> uuid \<times> batch_buffer" where
  "buffer_NewID r fallback b =
     (case (if bb_idx b \<ge> batchSize then refill r b else Inr b) of
        Inl e \<Rightarrow> (fallback, b)
      | Inr b' \<Rightarrow> (bb_uuids b' ! bb_idx b', b'\<lparr>bb_idx := Suc (bb_idx b')\<rparr>))"

datatype 'e pool_event = Take nat "'e + bytes" uuid | Drop nat

definition remove_nth :: "nat \<Rightarrow> 'a list \<Rightarrow> 'a list" where
  "remove_nth k xs = take k xs @ drop (Suc k) xs"

fun PooledGenerator_NewID ::
  "nat \<Rightarrow> 'e + bytes \<Rightarrow> uuid \<Rightarrow> batch_buffer list \<Rightarrow> uuid \<times> batch_buffer list" where
  "PooledGenerator_NewID k r fallback pool =
     (let (b, rest) = (if k < length pool then (pool ! k, remove_nth k pool)
                       else (fresh_buffer, pool));
          (i, b') = buffer_NewID r fallback b
      in (i, b' # rest))"

fun pool_run :: "'e pool_event list \<Rightarrow> batch_buffer list \<Rightarrow> uuid list \<times> batch_buffer list" where
  "pool_run [] pool = ([], pool)"
| "pool_run (Take k r fallback # es) pool =
     (let (i, pool') = PooledGenerator_NewID k r fallback pool;
          (ids, pool'') = pool_run es pool'
      in (i # ids, pool''))"
| "pool_run (Drop k # es) pool = pool_run es (remove_nth k pool)"

section \<open>Version and variant\<close>

lemma bit_set_uuid_byte:
  "i < 16 \<Longrightarrow> bit (set_uuid_byte i b u) n \<longleftrightarrow>
     (if 8 * (15 - i) \<le> n \<and> n < 8 * (15 - i) + 8 then bit b (n - 8 * (15 - i)) else bit u n)"
proof -
  have m: "(255 :: 128 word) = mask 8" by (simp add: mask_eq_exp_minus_1)
  assume "i < 16"
  then show ?thesis
    by (auto simp: set_uuid_byte_def m bit_simps dest: bit_imp_le_length)
qed

lemma bit_uuid_byte: "i < 16 \<Longrightarrow> bit (uuid_byte i u) n \<longleftrightarrow> n < 8 \<and> bit u (8 * (15 - i) + n)"
  by (auto simp: uuid_byte_def bit_simps)

lemma uuid_byte_set:
  "i < 16 \<Longrightarrow> j < 16 \<Longrightarrow> uuid_byte j (set_uuid_byte i b u) = (if j = i then b else uuid_byte j u)"
  by (rule bit_word_eqI) (auto simp: bit_uuid_byte bit_set_uuid_byte)

lemma stamp_bytes:
  assumes "j < 16"
  shows "uuid_byte j (stamp u) =
    (if j = 6 then (uuid_byte 6 u AND 0x0f) OR 0x40
     else if j = 8 then (uuid_byte 8 u AND 0x3f) OR 0x80 else uuid_byte j u)"
  using assms by (simp add: stamp_def Let_def uuid_byte_set)

text \<open>A stamped identifier says version 4 and variant 10, so it is not the nil identifier.\<close>

definition is_v4 :: "uuid \<Rightarrow> bool" where
  "is_v4 u \<longleftrightarrow> uuid_byte 6 u AND 0xf0 = 0x40 \<and> uuid_byte 8 u AND 0xc0 = 0x80"

lemma stamp_is_v4: "is_v4 (stamp u)"
proof -
  have "(x AND 0x0f OR 0x40) AND 0xf0 = (0x40 :: 8 word)" for x
    by (simp add: bit.conj_disj_distrib2 and.assoc)
  moreover have "(x AND 0x3f OR 0x80) AND 0xc0 = (0x80 :: 8 word)" for x
    by (simp add: bit.conj_disj_distrib2 and.assoc)
  ultimately show ?thesis by (simp add: is_v4_def stamp_bytes)
qed

lemma v4_not_nil: "is_v4 u \<Longrightarrow> u \<noteq> uuid_nil"
  by (auto simp: is_v4_def uuid_byte_def)

section \<open>No slot is handed out twice\<close>

definition buffer_ok :: "batch_buffer \<Rightarrow> bool" where
  "buffer_ok b \<longleftrightarrow> length (bb_uuids b) = batchSize \<and> bb_idx b \<le> batchSize"

text \<open>The identifiers a buffer still holds, and those a call adds to them.\<close>

definition remaining :: "batch_buffer \<Rightarrow> uuid list" where
  "remaining b = drop (bb_idx b) (bb_uuids b)"

definition supplied :: "'e + bytes \<Rightarrow> uuid \<Rightarrow> batch_buffer \<Rightarrow> uuid list" where
  "supplied r fallback b =
     (if bb_idx b < batchSize then []
      else case r of Inl _ \<Rightarrow> [fallback] | Inr raw \<Rightarrow> map stamp (slots raw))"

lemma fresh_buffer_ok [simp]: "buffer_ok fresh_buffer" "remaining fresh_buffer = []"
  by (simp_all add: buffer_ok_def fresh_buffer_def remaining_def)

lemma length_slots [simp]: "length (slots raw) = batchSize"
  by (simp add: slots_def)

lemma buffer_NewID_supplied:
  assumes "buffer_ok b" and "buffer_NewID r fallback b = (i, b')"
  shows "buffer_ok b' \<and> i # remaining b' = remaining b @ supplied r fallback b"
proof (cases "bb_idx b < batchSize")
  case True
  with assms show ?thesis
    by (auto simp: buffer_NewID_def buffer_ok_def remaining_def supplied_def Cons_nth_drop_Suc)
next
  case False
  have "0 < batchSize" by (simp add: batchSize_def)
  then have "map stamp (slots raw) ! 0 # drop (Suc 0) (map stamp (slots raw)) = map stamp (slots raw)"
    for raw
    by (metis Cons_nth_drop_Suc drop0 length_map length_slots)
  with False assms \<open>0 < batchSize\<close> show ?thesis
    by (cases r)
      (auto simp: buffer_NewID_def buffer_ok_def remaining_def supplied_def refill_def)
qed

definition pool_remaining :: "batch_buffer list \<Rightarrow> uuid multiset" where
  "pool_remaining pool = sum_list (map (\<lambda>b. mset (remaining b)) pool)"

lemma pool_remaining_simps [simp]:
  "pool_remaining [] = {#}"
  "pool_remaining (b # bs) = mset (remaining b) + pool_remaining bs"
  "pool_remaining (bs @ cs) = pool_remaining bs + pool_remaining cs"
  by (simp_all add: pool_remaining_def)

lemma pool_remaining_nth:
  "k < length pool \<Longrightarrow>
   pool_remaining pool = mset (remaining (pool ! k)) + pool_remaining (remove_nth k pool)"
  by (subst id_take_nth_drop [of k pool]) (simp_all add: remove_nth_def del: append_take_drop_id)

lemma pool_remaining_remove: "pool_remaining (remove_nth k pool) \<subseteq># pool_remaining pool"
  by (cases "k < length pool") (simp_all add: pool_remaining_nth remove_nth_def)

definition taken_buffer :: "nat \<Rightarrow> batch_buffer list \<Rightarrow> batch_buffer" where
  "taken_buffer k pool = (if k < length pool then pool ! k else fresh_buffer)"

text \<open>Everything a run adds to the pool.\<close>

fun pool_supply :: "'e pool_event list \<Rightarrow> batch_buffer list \<Rightarrow> uuid multiset" where
  "pool_supply [] pool = {#}"
| "pool_supply (Take k r fallback # es) pool =
     mset (supplied r fallback (taken_buffer k pool)) +
     pool_supply es (snd (PooledGenerator_NewID k r fallback pool))"
| "pool_supply (Drop k # es) pool = pool_supply es (remove_nth k pool)"

lemma set_remove_nth: "set (remove_nth k xs) \<subseteq> set xs"
  by (auto simp: remove_nth_def dest: in_set_takeD in_set_dropD)

lemma NewID_conserves:
  assumes "\<forall>b \<in> set pool. buffer_ok b" and "PooledGenerator_NewID k r fallback pool = (i, pool')"
  shows "(\<forall>b \<in> set pool'. buffer_ok b) \<and>
         add_mset i (pool_remaining pool') =
         pool_remaining pool + mset (supplied r fallback (taken_buffer k pool))"
proof -
  define rest where "rest = (if k < length pool then remove_nth k pool else pool)"
  obtain b' where b': "buffer_NewID r fallback (taken_buffer k pool) = (i, b')" "pool' = b' # rest"
    using assms(2) by (auto simp: taken_buffer_def rest_def split: prod.splits if_splits)
  have "buffer_ok (taken_buffer k pool)" using assms(1) by (simp add: taken_buffer_def)
  from buffer_NewID_supplied [OF this b'(1)] have ok: "buffer_ok b'"
    and eq: "mset (i # remaining b') = mset (remaining (taken_buffer k pool)) +
             mset (supplied r fallback (taken_buffer k pool))"
    by simp_all
  have "set rest \<subseteq> set pool" using set_remove_nth [of k pool] by (auto simp: rest_def)
  moreover have "pool_remaining pool = mset (remaining (taken_buffer k pool)) + pool_remaining rest"
    by (auto simp: taken_buffer_def rest_def pool_remaining_nth)
  ultimately show ?thesis using ok eq assms(1) b'(2) by (auto simp: union_assoc)
qed

lemma pool_run_conserves:
  assumes "\<forall>b \<in> set pool. buffer_ok b" and "pool_run es pool = (ids, pool')"
  shows "mset ids + pool_remaining pool' \<subseteq># pool_remaining pool + pool_supply es pool"
  using assms
proof (induction es pool arbitrary: ids rule: pool_run.induct)
  case (2 k r fallback es pool)
  obtain i pool1 where one: "PooledGenerator_NewID k r fallback pool = (i, pool1)" by fastforce
  obtain js where js: "pool_run es pool1 = (js, pool')" "ids = i # js"
    using "2.prems"(2) one by (auto split: prod.splits simp del: PooledGenerator_NewID.simps)
  from NewID_conserves [OF "2.prems"(1) one] have ok: "\<forall>b \<in> set pool1. buffer_ok b"
    and eq: "add_mset i (pool_remaining pool1) =
             pool_remaining pool + mset (supplied r fallback (taken_buffer k pool))" by auto
  have "mset js + pool_remaining pool' \<subseteq># pool_remaining pool1 + pool_supply es pool1"
    using "2.IH" [OF one [symmetric] refl ok js(1)] .
  then have "add_mset i (mset js + pool_remaining pool') \<subseteq>#
             add_mset i (pool_remaining pool1) + pool_supply es pool1" by simp
  with eq one js(2) show ?case
    by (simp del: PooledGenerator_NewID.simps add: union_assoc)
next
  case (3 k es pool)
  have "mset ids + pool_remaining pool' \<subseteq>#
        pool_remaining (remove_nth k pool) + pool_supply es (remove_nth k pool)"
    using 3 set_remove_nth by fastforce
  with pool_remaining_remove [of k pool] show ?case
    by (simp add: subset_mset.order_trans subset_mset.add_right_mono)
qed simp

text \<open>Every identifier handed out is a version-4 identifier when the fallback makes such ones.\<close>

fun fallback_ok :: "(uuid \<Rightarrow> bool) \<Rightarrow> 'e pool_event list \<Rightarrow> bool" where
  "fallback_ok P [] \<longleftrightarrow> True"
| "fallback_ok P (Take k r fallback # es) \<longleftrightarrow> P fallback \<and> fallback_ok P es"
| "fallback_ok P (Drop k # es) \<longleftrightarrow> fallback_ok P es"

lemma pool_supply_v4: "fallback_ok is_v4 es \<Longrightarrow> u \<in># pool_supply es pool \<Longrightarrow> is_v4 u"
  by (induction es pool rule: pool_supply.induct)
    (auto simp: supplied_def stamp_is_v4 split: if_splits sum.splits simp del: PooledGenerator_NewID.simps)

end
