(* ===== verification/Core_Properties.thy ===== *)
theory Core_Properties
  imports Sample_World Idgen
begin

text \<open>
  What the single components promise: the entities, the tokens and codes, the identifier
  generator, the row conversions and the transactions. Each theorem rests on the lemmas of its
  component's theory.
\<close>

section \<open>Entities\<close>

text \<open>An invite is redeemed at most once, whoever tries to redeem it and when.\<close>

theorem invite_redeemed_once: "length (snd (redeem_all i attempts)) \<le> 1"
  by (rule redeem_all_once)

text \<open>C40: The counters accepted for a credential grow strictly, as 32-bit numbers, once the
  stored counter is not zero; the credential ends with the last one.\<close>

theorem sign_counts_grow:
  assumes "accept_counts c ns = Some d" and "cred_sign_count c \<noteq> 0"
  shows "sorted_wrt (<) (cred_sign_count c # ns) \<and>
    cred_sign_count d = last (cred_sign_count c # ns)"
  by (rule accept_counts_sorted [OF assms])

theorem sign_counts_grow_witness:
  "\<exists>d. accept_counts (rowToCredential sample_credential) [10, 4294967295] = Some d \<and>
     sorted_wrt (<) [cred_sign_count (rowToCredential sample_credential), 10, 4294967295] \<and>
     cred_sign_count d = 4294967295"
proof -
  let ?c = "rowToCredential sample_credential"
  have "accept_counts ?c [10, 4294967295] = Some (?c\<lparr>cred_sign_count := 4294967295\<rparr>)"
    by (simp add: rowToCredential_def credential_Reconstruct_def sample_credential_def SetSignCount_def)
  from sign_counts_grow [OF this] this show ?thesis
    by (simp add: rowToCredential_def credential_Reconstruct_def sample_credential_def)
qed

text \<open>Rotation never extends a session: every token rotated from a first one expires when
  that one does, belongs to the same user and device, and was made before that instant.\<close>

theorem rotation_keeps_expiry:
  assumes "rotated_from t u" and "u \<noteq> t"
  shows "ses_expires_at u = ses_expires_at t \<and> ses_user_id u = ses_user_id t \<and>
    ses_device_info u = ses_device_info t \<and> ses_created_at u < ses_expires_at t"
  using rotated_from_frame [OF assms(1)] rotated_from_created [OF assms] by simp

theorem rotation_keeps_expiry_witness:
  "\<exists>u. rotated_from (rowToSession (sample_session 11 ''active'' None)) u \<and> ses_id u = 12 \<and>
     ses_expires_at u = 90000"
proof -
  let ?t = "rowToSession (sample_session 11 ''active'' None)"
  obtain u where u: "session_Rotate ?t 12 ''h'' 500 = Inr u" "ses_id u = 12"
    by (simp add: session_Rotate_def invalid_argument_def)
  have "session_IsValid ?t 500"
    by (simp add: session_IsValid_def sample_session_def rowToSession_def session_Reconstruct_def)
  then have rot: "rotated_from ?t u" by (rule rotated_from.rotate [OF rotated_from.start _ u(1)])
  moreover have "u \<noteq> ?t" using u(2) by (auto simp: sample_session_def)
  ultimately show ?thesis using rotation_keeps_expiry [OF rot] u(2)
    by (auto simp: sample_session_def rowToSession_def session_Reconstruct_def)
qed

text \<open>Every error of a constructor of the domain is a validation error, and carries the
  sentinel of the field that is missing.\<close>

lemma constructor_errors_are_validation:
  "(user_New i r p t = Inl e \<longrightarrow> errors_is e Domain_ErrValidation \<and>
      (errors_is e User_ErrIDRequired \<longleftrightarrow> i = uuid_nil)) \<and>
   (user_NewRoot i t = Inl e \<longrightarrow> errors_is e Domain_ErrValidation) \<and>
   (invite_New i p h ttl t = Inl e \<longrightarrow> errors_is e Domain_ErrValidation \<and>
      (errors_is e Invite_ErrIDRequired \<longleftrightarrow> i = uuid_nil)) \<and>
   (credential_New i x u k ts t = Inl e \<longrightarrow> errors_is e Domain_ErrValidation \<and>
      (errors_is e Credential_ErrIDRequired \<longleftrightarrow> i = uuid_nil)) \<and>
   (session_New i u h dev ip ttl t = Inl e \<longrightarrow> errors_is e Domain_ErrValidation) \<and>
   (key_New i u cr sc dek alg t = Inl e \<longrightarrow> errors_is e Domain_ErrValidation \<and>
      (errors_is e Key_ErrIDRequired \<longleftrightarrow> i = uuid_nil))"
  by (auto simp: user_New_def user_NewRoot_def invite_New_def credential_New_def session_New_def
      key_New_def invalid_argument_Inl_iff split: if_splits)

text \<open>The chain of trust hands out roles by depth: a registration stores a user whose
  inviter is the creator of the invite; it is an admin exactly when the creator is the root, and
  a member otherwise, and its credential belongs to it.\<close>

theorem invitee_role_by_depth:
  assumes "createUserAndCredential E In_Tx res creator t w = (Ok (u, cred), w')"
  shows "user_invited_by u = Some (user_id creator) \<and>
    user_role u = (if user_invited_by creator = None then role_Admin else role_Member) \<and>
    cred_user_id cred = user_id u \<and> user_id u = rr_UserID res \<and>
    (\<exists>d d'. work w = Some d \<and> work w' = Some d' \<and> userToRow u \<in> set (users d') \<and>
       user_id u \<notin> user_ids d)"
proof -
  obtain d d1 d' where tx: "in_tx w d w' d'"
    and u: "u = \<lparr>user_id = rr_UserID res, user_role = NextInviteeRole creator,
         user_invited_by = Some (user_id creator), user_created_at = t\<rparr>"
    and su: "SaveUser (userToRow u) d = Inr ((), d1)"
    and sc: "SaveCredential (credentialToRow cred) d1 = Inr ((), d')"
    and c: "cred_user_id cred = user_id u"
    using createUserAndCredential_tx [OF assms] by blast
  from su have "users d1 = users d @ [userToRow u]" "user_id u \<notin> user_ids d"
    by (auto simp: SaveUser_def userToRow_def split: if_splits option.splits)
  moreover from sc have "users d' = users d1" by (auto simp: SaveCredential_def split: if_splits)
  ultimately show ?thesis
    using in_tx_work [OF tx] u c by (auto simp: NextInviteeRole_def user_IsRoot_def)
qed

definition sample_tx :: world where
  "sample_tx = (world_of sample_db)\<lparr>work := Some sample_db\<rparr>"

definition sample_result :: registration_result where
  "sample_result = \<lparr>rr_UserID = 77, rr_InviteID = 31, rr_ExternalID = [5], rr_PublicKey = [6],
     rr_Transports = [], rr_InitialSignCount = 1\<rparr>"

theorem invitee_role_by_depth_witness:
  "\<exists>u cred w'. createUserAndCredential sample_env In_Tx sample_result
     \<lparr>user_id = 1, user_role = role_Admin, user_invited_by = None, user_created_at = 1\<rparr> 1000 sample_tx =
     (Ok (u, cred), w') \<and> user_role u = role_Admin \<and> user_invited_by u = Some 1"
proof -
  let ?root = "\<lparr>user_id = 1, user_role = role_Admin, user_invited_by = None, user_created_at = 1\<rparr>"
  obtain u cred w' where run: "createUserAndCredential sample_env In_Tx sample_result ?root 1000
      sample_tx = (Ok (u, cred), w')"
    using sample_uuid_large [of 21 1]
    by (simp add: createUserAndCredential_def bind_def lift_sum_def user_New_def invalid_argument_def
        NextInviteeRole_def user_IsRoot_def role_defs UserRepository_Save_def run_stmt_tx_run
        sample_fault_free sample_tx_def SaveUser_def userToRow_def role_String_def pg_enum_defs
        sample_users_def new_id_def credential_New_def SetSignCount_def CredentialRepository_Save_def
        SaveCredential_def credentialToRow_def sample_credential_def ret_def sample_result_def
        nullUUIDToPtr_def ptrToNullUUID_def)
  from invitee_role_by_depth [OF run] run show ?thesis by auto
qed

section \<open>Codes and tokens\<close>

text \<open>A generated code of \<open>n\<close> random bytes is \<open>ceil(8n/5)\<close> characters of the base32
  alphabet that determine the bytes, and the hash returned with it is the one that looking up
  the code computes. Lengths outside 0 to 2^20 are refused.\<close>

theorem generated_codes:
  "(SecretManager_GenerateToken E sm n w = (Ok (raw, hash), w') \<longrightarrow>
      0 \<le> n \<and> n \<le> 2 ^ 20 \<and>
      (\<exists>bs. entropy E (tick w) (nat n) = Inr bs \<and> length raw = (8 * length bs + 4) div 5 \<and>
        (\<forall>bs'. b32_encode bs' = raw \<longrightarrow> bs' = bs)) \<and>
      set raw \<subseteq> set b32_alphabet \<and>
      SecretManager_GenerateHash E sm raw w' = (Ok hash, w')) \<and>
   (n < 0 \<or> 2 ^ 20 < n \<longrightarrow> \<not> is_ok (fst (SecretManager_GenerateToken E sm n w)))"
  using b32_encode_inj GenerateToken_range [of n E sm w]
  by (intro conjI impI)
    (auto simp: GenerateToken_Ok b32_encode_length SecretManager_GenerateHash_def ret_def b32_encode_set)

theorem generated_codes_witness:
  "\<exists>raw hash w'. SecretManager_GenerateToken sample_env sample_sm 32 (world_of sample_db) =
     (Ok (raw, hash), w') \<and> length raw = 52"
proof -
  obtain raw hash w' where run: "SecretManager_GenerateToken sample_env sample_sm 32
      (world_of sample_db) = (Ok (raw, hash), w')"
    using GenerateToken_Ok [of sample_env sample_sm 32 "world_of sample_db"] by auto
  from generated_codes [of sample_env sample_sm 32 "world_of sample_db" raw hash w'] run
  show ?thesis by auto
qed

text \<open>An issued access token verifies to the user and role it was issued for until its time
  to live is over, and is refused as expired afterwards.\<close>

theorem access_token_roundtrip:
  assumes "paseto_law (lib E) (ti_secretKey ti) (tv_publicKey tv)"
    and "\<And>i. uuid_parse (lib E) (uuid_str (lib E) i) = Inr i"
    and "r \<in> {role_Member, role_Admin}"
    and "IssueAccessToken E ti u r ttl w = (Ok tok, w')"
  shows "(clock E (tick v) \<le> clock E (tick w) + ttl \<longrightarrow>
      fst (Verify E tv tok v) = Ok (u, r)) \<and>
    (clock E (tick w) + ttl < clock E (tick v) \<longrightarrow>
      (\<exists>e. fst (Verify E tv tok v) = Err e \<and> errors_is e Crypto_ErrTokenExpired))"
  using issued_token_verifies [OF assms] by blast

theorem access_token_roundtrip_witness:
  "\<exists>tok w'. IssueAccessToken sample_env \<lparr>ti_secretKey = [1]\<rparr> 2 role_Admin 900 (world_of sample_db) =
     (Ok tok, w') \<and> fst (Verify sample_env \<lparr>tv_publicKey = [1]\<rparr> tok w') = Ok (2, role_Admin)"
proof -
  obtain tok where run: "IssueAccessToken sample_env \<lparr>ti_secretKey = [1]\<rparr> 2 role_Admin 900
      (world_of sample_db) = (Ok tok, (world_of sample_db)\<lparr>tick := 1\<rparr>)"
    by (simp add: IssueAccessToken_def bind_def now_def ret_def)
  have "fst (Verify sample_env \<lparr>tv_publicKey = [1]\<rparr> tok ((world_of sample_db)\<lparr>tick := 1\<rparr>)) =
      Ok (2, role_Admin)"
    using access_token_roundtrip [OF _ _ _ run,
        of "\<lparr>tv_publicKey = [1]\<rparr>" "(world_of sample_db)\<lparr>tick := 1\<rparr>"] sample_paseto
    by simp
  with run show ?thesis by blast
qed

text \<open>
  What the source relies on for challenge tokens: decryption with the key gives the claims back
  up to the expiry and a broken rule after it, and the payload reads back as it was written.
\<close>

definition challenge_law :: "libs \<Rightarrow> bytes \<Rightarrow> bool" where
  "challenge_law L k \<longleftrightarrow>
     (\<forall>c t n. if t > tc_exp c then \<exists>m. v4_parse_local L k t (v4_encrypt L n k c) = Inl (Rule_Error m)
              else v4_parse_local L k t (v4_encrypt L n k c) = Inr c) \<and>
     (\<forall>sd i u raw. challenge_marshal L (Registration_Challenge sd i u) = Inr raw \<longrightarrow>
        registration_unmarshal L raw = Inr (sd, i, u))"

definition created_result :: "libs \<Rightarrow> session_data \<Rightarrow> uuid \<Rightarrow> uuid \<Rightarrow> bytes \<Rightarrow> err + registration_result" where
  "created_result L sd i u response =
     (case wa_parse_creation L response of
        Inl e \<Rightarrow> Inl e
      | Inr parsed \<Rightarrow>
          (case wa_create_credential L \<lparr>wau_id = u, wau_credentials = []\<rparr> sd parsed of
             Inl e \<Rightarrow> Inl e
           | Inr cred \<Rightarrow> Inr \<lparr>rr_UserID = u, rr_InviteID = i, rr_ExternalID = wac_id cred,
               rr_PublicKey = wac_public_key cred, rr_Transports = wac_transport cred,
               rr_InitialSignCount = wac_sign_count cred\<rparr>))"

text \<open>C38: A registration ceremony carries its state in the challenge token alone: until the time
  to live is over, \<open>Finish\<close> answers what the library says of the response for the very user and
  invite that \<open>Begin\<close> was called with and the session data that the library returned to it, and
  afterwards it refuses the challenge.\<close>

theorem registration_challenge_roundtrip:
  assumes "challenge_law (lib E) (tk_privateKey (rg_challenge r))"
    and "Registrator_Begin E r candidate inviteID w = (Ok (token, opts), w')"
  shows "\<exists>options sd. wa_begin_registration (lib E) (tick w) \<lparr>wau_id = candidate, wau_credentials = []\<rparr>
      [With_Authenticator_Selection ''required'' ''required'', With_Extensions [(prfConst, J_Object [])]] =
      Inr (options, sd) \<and> options_marshal (lib E) options = Inr opts \<and>
    (\<forall>v. fst (Registrator_Finish E r token response v) =
    (if clock E (Suc (tick w)) + rg_ttl r < clock E (tick v)
     then Err (Sentinel Webauthn_ErrChallengeExpired)
     else of_sum (created_result (lib E) sd inviteID candidate response)))"
proof -
  let ?k = "tk_privateKey (rg_challenge r)" and ?exp = "clock E (Suc (tick w)) + rg_ttl r"
  let ?user = "\<lparr>wau_id = candidate, wau_credentials = []\<rparr>"
  obtain options sd raw n where start: "wa_begin_registration (lib E) (tick w) ?user
      [With_Authenticator_Selection ''required'' ''required'', With_Extensions [(prfConst, J_Object [])]] =
      Inr (options, sd)" "options_marshal (lib E) options = Inr opts"
    and raw: "challenge_marshal (lib E) (Registration_Challenge sd inviteID candidate) = Inr raw"
    and token: "token = v4_encrypt (lib E) n ?k \<lparr>tc_exp = ?exp, tc_strings = [(''payload'', raw)]\<rparr>"
    using assms(2) by (auto simp: Registrator_Begin_def TokenCodec_Encode_def ok_dest)
  have "fst (Registrator_Finish E r token response v) =
      (if ?exp < clock E (tick v) then Err (Sentinel Webauthn_ErrChallengeExpired)
       else of_sum (created_result (lib E) sd inviteID candidate response))" for v
  proof (cases "?exp < clock E (tick v)")
    case True
    then obtain m where "v4_parse_local (lib E) ?k (clock E (tick v)) token = Inl (Rule_Error m)"
      using assms(1) unfolding challenge_law_def token by force
    with True show ?thesis
      by (simp add: Registrator_Finish_def TokenCodec_Decode_def bind_def catch_def now_def fail_def)
  next
    case False
    then have "v4_parse_local (lib E) ?k (clock E (tick v)) token =
        Inr \<lparr>tc_exp = ?exp, tc_strings = [(''payload'', raw)]\<rparr>"
      using assms(1) unfolding challenge_law_def token by force
    moreover have "registration_unmarshal (lib E) raw = Inr (sd, inviteID, candidate)"
      using assms(1) raw unfolding challenge_law_def by blast
    ultimately show ?thesis using False
      by (simp add: Registrator_Finish_def TokenCodec_Decode_def bind_def catch_def now_def
          lift_sum_def ret_def claim_GetString_def created_result_def split: sum.split)
  qed
  with start show ?thesis by blast
qed

lemma sample_challenge_law: "challenge_law sample_libs k"
proof -
  have "registration_unmarshal sample_libs raw = Inr (sd, i, u)"
    if "challenge_marshal sample_libs (Registration_Challenge sd i u) = Inr raw" for sd i u raw
  proof -
    from that have "raw = net (map (\<lambda>b. char_of (unat b)) sd) @ net (itoa (unat i)) @ net (itoa (unat u))"
      by (simp add: sample_libs_def)
    then show ?thesis by (simp only: sample_challenge_roundtrip)
  qed
  then show ?thesis by (simp add: challenge_law_def sample_parse_sign)
qed

theorem registration_challenge_roundtrip_witness:
  "\<exists>token opts w'. Registrator_Begin sample_env sample_registrator 77 31 (world_of sample_db) =
     (Ok (token, opts), w') \<and>
   fst (Registrator_Finish sample_env sample_registrator token [9] w') =
     Ok \<lparr>rr_UserID = 77, rr_InviteID = 31, rr_ExternalID = [7], rr_PublicKey = [8],
          rr_Transports = [''usb''], rr_InitialSignCount = 5\<rparr>"
proof -
  obtain token opts where run: "Registrator_Begin sample_env sample_registrator 77 31 (world_of sample_db) =
     (Ok (token, opts), (world_of sample_db)\<lparr>tick := 3\<rparr>)"
    by (simp add: Registrator_Begin_def TokenCodec_Encode_def bind_def lib_call_def lift_sum_def
        now_def ret_def sample_libs_def)
  have law: "challenge_law (lib sample_env) (tk_privateKey (rg_challenge sample_registrator))"
    by (simp add: sample_challenge_law)
  obtain sd where "fst (Registrator_Finish sample_env sample_registrator token [9]
      ((world_of sample_db)\<lparr>tick := 3\<rparr>)) = of_sum (created_result sample_libs sd 31 77 [9])"
    using registration_challenge_roundtrip [OF law run, of "[9]"]
    by (auto simp: sample_registrator_def)
  moreover have "created_result sample_libs sd 31 77 [9] = Inr \<lparr>rr_UserID = 77, rr_InviteID = 31,
      rr_ExternalID = [7], rr_PublicKey = [8], rr_Transports = [''usb''], rr_InitialSignCount = 5\<rparr>"
    by (simp add: created_result_def sample_cred_def)
  ultimately show ?thesis using run by auto
qed

section \<open>Identifiers\<close>

lemma mset_subset_eq_left_part: "A + B \<subseteq># C \<Longrightarrow> A \<subseteq># (C :: 'a multiset)"
  by (meson mset_subset_eq_add_left subset_mset.order_trans)

text \<open>C39: Whatever the pool does with its buffers, an identifier is handed out at most as often
  as the entropy source supplied it: when the slots in the pool and those read during the run
  are pairwise different, so are the identifiers. All of them have version 4 and variant 10, so
  none is the nil identifier.\<close>

theorem identifiers_distinct:
  assumes "\<forall>b \<in> set pool. buffer_ok b" and "pool_run es pool = (ids, pool')"
    and "\<forall>u. count (pool_remaining pool + pool_supply es pool) u \<le> 1"
    and "\<forall>b \<in> set pool. \<forall>u \<in> set (remaining b). is_v4 u" and "fallback_ok is_v4 es"
  shows "distinct ids \<and> (\<forall>i \<in> set ids. is_v4 i \<and> i \<noteq> uuid_nil)"
proof -
  have sub: "mset ids \<subseteq># pool_remaining pool + pool_supply es pool"
    using pool_run_conserves [OF assms(1,2)] by (rule mset_subset_eq_left_part)
  have "count (mset ids) u = (if u \<in> set ids then 1 else 0)" for u
  proof -
    have "count (mset ids) u \<le> 1"
      using mset_subset_eq_count [OF sub, of u] assms(3) le_trans by blast
    moreover have "count (mset ids) u = 0 \<longleftrightarrow> u \<notin> set ids" by simp
    ultimately have "count (mset ids) u = 1" if "u \<in> set ids" using that by linarith
    then show ?thesis by simp
  qed
  then have "distinct ids" by (simp add: distinct_count_atmost_1)
  moreover have "is_v4 i" if "i \<in> set ids" for i
  proof -
    from that have "i \<in># mset ids" by simp
    with sub have "i \<in># pool_remaining pool + pool_supply es pool" by (rule mset_subset_eqD)
    moreover have "is_v4 i" if "i \<in># pool_remaining pool"
      using that assms(4) by (induction pool) auto
    ultimately show ?thesis using pool_supply_v4 [OF assms(5)] by auto
  qed
  ultimately show ?thesis using v4_not_nil by blast
qed

text \<open>A pool with one buffer that still holds two identifiers; the third call refills it.\<close>

definition sample_buffer :: batch_buffer where
  "sample_buffer = \<lparr>bb_uuids = replicate 254 0 @ [stamp 1, stamp 2], bb_idx = 254\<rparr>"

lemma sample_short_hash: "sample_hash ''code'' \<noteq> ''h''"
proof
  assume "sample_hash ''code'' = ''h''"
  then have "length (sample_hash ''code'') = 1" by simp
  then show False by (simp add: sample_hash_def generateHashBase32_def b32_encode_length
      sample_sm_def stringToBytes_def)
qed

lemma sample_stamps: "stamp 1 \<noteq> stamp 2"
proof
  assume "stamp 1 = stamp 2"
  then have "uuid_byte 15 (stamp 1) = uuid_byte 15 (stamp 2)" by simp
  then have "uuid_byte 15 1 = uuid_byte 15 2" by (simp add: stamp_bytes)
  then show False by (simp add: uuid_byte_def)
qed

theorem identifiers_distinct_witness:
  "\<exists>ids pool'. pool_run [Take 0 (Inl ()) 0, Drop 7, Take 0 (Inl ()) 0] [sample_buffer] = (ids, pool') \<and>
     ids = [stamp 1, stamp 2] \<and> distinct ids"
proof -
  let ?es = "[Take 0 (Inl () :: unit + bytes) (stamp 3), Drop 7, Take 0 (Inl ()) (stamp 4)]"
  have nth: "(replicate 254 (0 :: uuid) @ [stamp 1, stamp 2]) ! 254 = stamp 1"
    "(replicate 254 (0 :: uuid) @ [stamp 1, stamp 2]) ! 255 = stamp 2"
    by (simp_all add: nth_append)
  have run: "pool_run ?es [sample_buffer] = ([stamp 1, stamp 2], [sample_buffer\<lparr>bb_idx := 256\<rparr>])"
    using nth by (simp add: sample_buffer_def buffer_NewID_def batchSize_def remove_nth_def)
  have run0: "pool_run [Take 0 (Inl ()) 0, Drop 7, Take 0 (Inl ()) 0] [sample_buffer] =
      ([stamp 1, stamp 2], [sample_buffer\<lparr>bb_idx := 256\<rparr>])"
    using nth by (simp add: sample_buffer_def buffer_NewID_def batchSize_def remove_nth_def)
  have rem: "remaining sample_buffer = [stamp 1, stamp 2]"
    by (simp add: remaining_def sample_buffer_def)
  have fed: "pool_supply ?es [sample_buffer] = {#}"
    by (simp add: supplied_def taken_buffer_def sample_buffer_def batchSize_def buffer_NewID_def remove_nth_def)
  have "distinct [stamp 1, stamp 2] \<and> (\<forall>i \<in> set [stamp 1, stamp 2]. is_v4 i \<and> i \<noteq> uuid_nil)"
    by (rule identifiers_distinct [OF _ run])
      (use rem fed sample_stamps in
        \<open>simp_all add: buffer_ok_def sample_buffer_def batchSize_def stamp_is_v4\<close>)
  with run0 show ?thesis by blast
qed

section \<open>Storage\<close>

text \<open>A transaction is all or nothing and always closed. A call of \<open>RunInTransaction\<close>
  outside a transaction never panics, leaves no transaction open, and changes the committed
  database only when it returns a value: then the function returned it on a copy of the
  committed database and the copy is what is committed. A panic of the function comes back as an
  error that still matches every sentinel the panic carried.\<close>

theorem transactions_all_or_nothing:
  assumes "confined (fn In_Tx)" and "RunInTransaction E No_Tx fn w = (r, w')"
  shows "work w' = work w \<and> (\<forall>v. r \<noteq> Panic v) \<and>
    (is_ok r \<longrightarrow> (\<exists>w0 w1. work w0 = Some (committed w) \<and> fn In_Tx w0 = (r, w1) \<and>
       work w1 = Some (committed w'))) \<and>
    (\<not> is_ok r \<longrightarrow> committed w' = committed w) \<and>
    (\<forall>v w1 s. begin_fault E (tick w) = None \<longrightarrow> panic_is v s \<longrightarrow>
       fn In_Tx (w\<lparr>work := Some (committed w), aborted := False, tick := Suc (tick w)\<rparr>) =
         (Panic v, w1) \<longrightarrow> (\<exists>e. r = Err e \<and> errors_is e s))"
proof -
  have "\<exists>w0 w1. work w0 = Some (committed w) \<and> fn In_Tx w0 = (r, w1) \<and>
      work w1 = Some (committed w')" if ok: "is_ok r"
  proof -
    from ok obtain x where r: "r = Ok x" by (cases r) auto
    then obtain w0 w1 d where "work w0 = Some (committed w)" "fn In_Tx w0 = (Ok x, w1)"
      "work w1 = Some d" "committed w' = d"
      using storage_tx.run_ok_body [where fn = fn, OF assms(1), of E w x w'] assms(2) by metis
    with r show ?thesis by blast
  qed
  moreover have "\<exists>e. r = Err e \<and> errors_is e s"
    if "begin_fault E (tick w) = None" "panic_is v s"
      "fn In_Tx (w\<lparr>work := Some (committed w), aborted := False, tick := Suc (tick w)\<rparr>) = (Panic v, w1)"
    for v w1 s
  proof -
    from that assms(2) have "rollback_with E w (Panic_Error v) w1 = (r, w')"
      by (simp add: RunInTransaction_def runInTx_def)
    then have "r = Err (Panic_Error v) \<or> (\<exists>re. r = Err (Joined [Panic_Error v, re]))"
      by (rule rollback_with_world [THEN conjunct2])
    with that(2) show ?thesis by auto
  qed
  ultimately show ?thesis
    using storage_tx.run_closes [OF assms(2)] storage_tx.run_no_panic [of E fn w]
      storage_tx.run_rolls_back [OF assms] assms(2) by metis
qed

theorem transactions_all_or_nothing_witness:
  "\<exists>e w'. RunInTransaction sample_env No_Tx (\<lambda>c. bind (InviteRepository_Save sample_env c
       (rowToInvite (sample_invite\<lparr>pgi_id := 32, pgi_code_hash := ''h''\<rparr>)))
       (\<lambda>_ w. (Panic (Panic_Err (Sentinel Domain_ErrNotFound)), w))) (world_of sample_db) =
     ((Err e :: unit outcome), w') \<and> errors_is e Domain_ErrNotFound \<and> committed w' = sample_db"
proof -
  let ?fn = "\<lambda>c. bind (InviteRepository_Save sample_env c
       (rowToInvite (sample_invite\<lparr>pgi_id := 32, pgi_code_hash := ''h''\<rparr>)))
       (\<lambda>_ w. (Panic (Panic_Err (Sentinel Domain_ErrNotFound)) :: unit outcome, w))"
  obtain r w' where run: "RunInTransaction sample_env No_Tx ?fn (world_of sample_db) = (r, w')"
    by fastforce
  have conf: "confined (?fn In_Tx)" by (intro confined_rules) (simp add: confined_def)
  have save: "SaveInvite (inviteToRow (rowToInvite (sample_invite\<lparr>pgi_id := 32, pgi_code_hash := ''h''\<rparr>)))
      sample_db = Inr ((), sample_db\<lparr>invites := [sample_invite,
        sample_invite\<lparr>pgi_id := 32, pgi_code_hash := ''h''\<rparr>]\<rparr>)" (is "_ = Inr ((), ?d)")
    by (simp add: SaveInvite_def sample_invite_def sample_users_def used_by_dangling_def sample_short_hash [symmetric])
  have "?fn In_Tx ((world_of sample_db)\<lparr>work := Some sample_db, aborted := False, tick := 1\<rparr>) =
      (Panic (Panic_Err (Sentinel Domain_ErrNotFound)),
       (world_of sample_db)\<lparr>work := Some ?d, aborted := False, tick := 2\<rparr>)"
    using save by (simp add: bind_def InviteRepository_Save_def run_stmt_tx_run [OF sample_fault_free])
  then obtain e where "r = Err e" "errors_is e Domain_ErrNotFound"
    using transactions_all_or_nothing [where fn = ?fn, OF conf run] by auto
  with transactions_all_or_nothing [where fn = ?fn, OF conf run] run show ?thesis by auto
qed

text \<open>Rows keep their entities: what the repositories write reads back as the same entity,
  for every user with a known role, every credential, invite and session, and every wrapped key
  with a known scope; and every row the schema admits is the row of the entity it reads as.\<close>

theorem rows_keep_entities:
  "(user_role u \<in> {role_Member, role_Admin} \<longrightarrow> rowToUser (userToRow u) = Inr u) \<and>
   rowToCredential (credentialToRow c) = c \<and> rowToInvite (inviteToRow i) = i \<and>
   rowToSession (sessionToRow s) = s \<and>
   (scope_Valid (wk_scope k) \<longrightarrow> rowToWrappedKey (wrappedKeyToRow k) = k) \<and>
   (db_ok d \<longrightarrow> (\<forall>r \<in> set (users d). \<exists>v. rowToUser r = Inr v \<and> userToRow v = r) \<and>
     (\<forall>r \<in> set (wrapped_keys d). wrappedKeyToRow (rowToWrappedKey r) = r))"
proof -
  have "\<exists>v. rowToUser r = Inr v \<and> userToRow v = r" if "db_ok d" "r \<in> set (users d)" for r
  proof -
    from that have "pgu_role r \<in> {UserRoleMember, UserRoleAdmin}"
      by (auto simp: db_ok_def users_ok_def)
    then obtain v where "rowToUser r = Inr v" using rowToUser_total by blast
    then show ?thesis by (auto simp: rowToUser_Inr_iff)
  qed
  moreover have "wrappedKeyToRow (rowToWrappedKey r) = r" if "db_ok d" "r \<in> set (wrapped_keys d)" for r
    using that by (auto simp: db_ok_def wrapped_keys_ok_def intro!: wrappedKeyToRow_rowToWrappedKey)
  ultimately show ?thesis
    using rowToUser_userToRow [of u] rowToWrappedKey_wrappedKeyToRow [of k] by simp
qed

theorem rows_keep_entities_witness:
  "rowToUser (userToRow \<lparr>user_id = 1, user_role = role_Admin, user_invited_by = None, user_created_at = 4\<rparr>) =
     Inr \<lparr>user_id = 1, user_role = role_Admin, user_invited_by = None, user_created_at = 4\<rparr> \<and>
   (\<exists>v. rowToUser (hd (users sample_db)) = Inr v \<and> userToRow v = hd (users sample_db))"
proof -
  have "hd (users sample_db) \<in> set (users sample_db)" by (simp add: sample_users_def)
  then show ?thesis
    using rows_keep_entities [of "\<lparr>user_id = 1, user_role = role_Admin, user_invited_by = None,
        user_created_at = 4\<rparr>" _ _ _ _ sample_db] sample_db_ok
    by auto
qed

section \<open>Printing\<close>

text \<open>The \<open>String\<close> methods print no secret: what they print is the same whatever the
  keys, hashes, tokens, credential material and wrapped keys are.\<close>

lemma secrets_not_printed:
  "SecretManager_String (Some sm) = SecretManager_String (Some sm') \<and>
   TokenCodec_String (Some tc) = TokenCodec_String (Some tc') \<and>
   AccessTokenIssuer_String (Some ti) = AccessTokenIssuer_String (Some ti') \<and>
   AccessTokenVerifier_String (Some tv) = AccessTokenVerifier_String (Some tv') \<and>
   session_String f g h (Some (s\<lparr>ses_token_hash := hash\<rparr>)) = session_String f g h (Some s) \<and>
   invite_String f h (Some (i\<lparr>inv_code_hash := hash\<rparr>)) = invite_String f h (Some i) \<and>
   credential_String f h (Some (c\<lparr>cred_external_id := x, cred_public_key := y\<rparr>)) =
     credential_String f h (Some c) \<and>
   wrapped_key_String f (Some (k\<lparr>wk_wrapped_dek := x\<rparr>)) = wrapped_key_String f (Some k) \<and>
   challengePayload_String f (p\<lparr>cp_SessionData := x\<rparr>) = challengePayload_String f p \<and>
   loginChallengePayload_String x = loginChallengePayload_String y \<and>
   LoginInput_String g (li\<lparr>li_ChallengeToken := t1, li_AuthenticationResponse := x\<rparr>) =
     LoginInput_String g li \<and>
   LoginOutput_String (lo\<lparr>lo_AccessToken := t1, lo_RefreshToken := t2\<rparr>) = LoginOutput_String lo \<and>
   FinishInviteRegistrationInput_String g
     (fi\<lparr>fi_ChallengeToken := t1, fi_RegistrationResponse := x\<rparr>) =
     FinishInviteRegistrationInput_String g fi \<and>
   FinishInviteRegistrationOutput_String fo = FinishInviteRegistrationOutput_String fo' \<and>
   WrappedKeyInput_String (wi\<lparr>wki_WrappedDEK := x\<rparr>) = WrappedKeyInput_String wi"
  using redact_defs
  by (simp add: SecretManager_String_def TokenCodec_String_def AccessTokenIssuer_String_def
      AccessTokenVerifier_String_def session_String_def invite_String_def credential_String_def
      wrapped_key_String_def)

section \<open>Revoking one session\<close>

text \<open>Revoking a session answers by the session alone: an unknown one is not found, one of
  another user is forbidden, and otherwise the call succeeds, revokes that session now if it was
  not revoked, and changes no other; a refusal changes nothing.\<close>

theorem revoke_session_by_owner:
  assumes "fault_free E" and "RevokeSession_Execute E No_Tx i u w = (r, w')"
  shows "case find (\<lambda>s. pgs_id s = i) (sessions (committed w)) of
      None \<Rightarrow> r = Err (Sentinel App_ErrSessionNotFound) \<and> committed w' = committed w
    | Some row \<Rightarrow>
        if pgs_user_id row \<noteq> u
        then r = Err (Sentinel App_ErrSessionForbidden) \<and> committed w' = committed w
        else r = Ok () \<and> committed w' = (if pgs_revoked_at row \<noteq> None then committed w
          else (committed w)\<lparr>sessions := update_where (\<lambda>s. pgs_id s = i)
                 (pgs_revoke (clock E (tick w))) (sessions (committed w))\<rparr>)"
proof -
  have r: "r = (case find (\<lambda>s. pgs_id s = i) (sessions (committed w)) of
      None \<Rightarrow> Err (Sentinel App_ErrSessionNotFound)
    | Some row \<Rightarrow> if pgs_user_id row \<noteq> u then Err (Sentinel App_ErrSessionForbidden) else Ok ())"
    using RevokeSession_run [OF assms(1), of i u w] assms(2) by simp
  have same: "committed w' = committed w" if "\<not> is_ok r"
    using RevokeSession_atomic [OF assms(2)] that by blast
  show ?thesis
  proof (cases "find (\<lambda>s. pgs_id s = i) (sessions (committed w))")
    case None
    with r same show ?thesis by simp
  next
    case (Some row)
    show ?thesis
    proof (cases "pgs_user_id row = u")
      case True
      with r Some have "r = Ok ()" by simp
      with RevokeSession_Ok [of E i u w "()" w'] assms(2) Some True show ?thesis by auto
    qed (use r same Some in simp)
  qed
qed

theorem revoke_session_by_owner_witness:
  "fst (RevokeSession_Execute sample_env No_Tx 11 3 (world_of sample_db)) =
     Err (Sentinel App_ErrSessionForbidden) \<and>
   fst (RevokeSession_Execute sample_env No_Tx 11 2 (world_of sample_db)) = Ok ()"
  using revoke_session_by_owner [OF sample_fault_free prod.collapse [symmetric], of 11 3 "world_of sample_db"]
    revoke_session_by_owner [OF sample_fault_free prod.collapse [symmetric], of 11 2 "world_of sample_db"]
  by (simp add: sample_session_def)

end
