(* ===== verification/Errkit.thy ===== *)
theory Errkit
  imports Go_Errors "HOL-Library.Multiset"
begin

text \<open>
  \<open>pkg/errkit\<close>: the registry that maps errors to responses (errmap.go), lists of errors
  (error.go, format.go), recovered panics (panic.go) and the group that runs functions and
  collects their errors (group.go). A Go value of type \<open>error\<close> is the nil interface, a nil
  \<open>*errkit.Error\<close> inside a non-nil interface, or an error.
\<close>

section \<open>errmap.go\<close>

record 'a registry =
  reg_handlers :: "(err \<Rightarrow> 'a option) list"
  reg_defaul :: "(err \<Rightarrow> 'a) option"

definition errkit_New :: "('a registry \<Rightarrow> 'a registry) list \<Rightarrow> 'a registry" where
  "errkit_New opts = foldl (\<lambda>r opt. opt r) \<lparr>reg_handlers = [], reg_defaul = None\<rparr> opts"

text \<open>\<open>OnAs\<close>: \<open>as_type\<close> stands for \<open>errors.AsType\<close> at the type of the mapper's argument.\<close>

definition OnAs :: "(err \<Rightarrow> 'e option) \<Rightarrow> ('e \<Rightarrow> 'a) \<Rightarrow> 'a registry \<Rightarrow> 'a registry" where
  "OnAs as_type m r = r\<lparr>reg_handlers := reg_handlers r @
     [\<lambda>e. case as_type e of Some x \<Rightarrow> Some (m x) | None \<Rightarrow> None]\<rparr>"

definition OnIs :: "(err \<Rightarrow> 'a) \<Rightarrow> sentinel \<Rightarrow> 'a registry \<Rightarrow> 'a registry" where
  "OnIs m target r = r\<lparr>reg_handlers := reg_handlers r @
     [\<lambda>e. if errors_is e target then Some (m e) else None]\<rparr>"

definition OnMatch :: "(err \<Rightarrow> bool) \<Rightarrow> (err \<Rightarrow> 'a) \<Rightarrow> 'a registry \<Rightarrow> 'a registry" where
  "OnMatch match m r = r\<lparr>reg_handlers := reg_handlers r @
     [\<lambda>e. if match e then Some (m e) else None]\<rparr>"

definition errkit_Default :: "(err \<Rightarrow> 'a) \<Rightarrow> 'a registry \<Rightarrow> 'a registry" where
  "errkit_Default m r = r\<lparr>reg_defaul := Some m\<rparr>"

fun first_handler :: "(err \<Rightarrow> 'a option) list \<Rightarrow> err \<Rightarrow> 'a option" where
  "first_handler [] e = None"
| "first_handler (h # hs) e = (case h e of Some v \<Rightarrow> Some v | None \<Rightarrow> first_handler hs e)"

definition Resolve :: "'a registry \<Rightarrow> err \<Rightarrow> 'a option" where
  "Resolve r e =
     (case first_handler (reg_handlers r) e of
        Some v \<Rightarrow> Some v
      | None \<Rightarrow> (case reg_defaul r of Some d \<Rightarrow> Some (d e) | None \<Rightarrow> None))"

definition Handle :: "'a registry \<Rightarrow> err \<Rightarrow> err + 'a" where
  "Handle r e = (case Resolve r e of None \<Rightarrow> Inl e | Some v \<Rightarrow> Inr v)"

text \<open>
  A registry made of \<open>OnIs\<close> entries with constant answers and a constant default is a table
  searched from the top.
\<close>

definition is_table :: "(sentinel \<times> 'a) list \<Rightarrow> 'a \<Rightarrow> ('a registry \<Rightarrow> 'a registry) list" where
  "is_table rows d = map (\<lambda>(s, v). OnIs (\<lambda>_. v) s) rows @ [errkit_Default (\<lambda>_. d)]"

definition table_lookup :: "(sentinel \<times> 'a) list \<Rightarrow> 'a \<Rightarrow> err \<Rightarrow> 'a" where
  "table_lookup rows d e = (case find (\<lambda>(s, v). errors_is e s) rows of None \<Rightarrow> d | Some (s, v) \<Rightarrow> v)"

lemma foldl_OnIs:
  "foldl (\<lambda>r opt. opt r) r (map (\<lambda>(s, v). OnIs (\<lambda>_. v) s) rows) =
     r\<lparr>reg_handlers := reg_handlers r @ map (\<lambda>(s, v) e. if errors_is e s then Some v else None) rows\<rparr>"
  by (induction rows arbitrary: r) (auto simp: OnIs_def)

lemma first_handler_table:
  "first_handler (map (\<lambda>(s, v) e. if errors_is e s then Some v else None) rows) e =
     map_option snd (find (\<lambda>(s, v). errors_is e s) rows)"
  by (induction rows) auto

lemma Handle_table: "Handle (errkit_New (is_table rows d)) e = Inr (table_lookup rows d e)"
  by (auto simp: Handle_def Resolve_def errkit_New_def is_table_def foldl_OnIs errkit_Default_def
      first_handler_table table_lookup_def split: option.split)

section \<open>error.go\<close>

text \<open>
  \<open>errors.AsType[*Error]\<close>: the first \<open>errkit.Error\<close> of the tree, the node before its children.
\<close>

fun as_kit :: "err \<Rightarrow> (nat option \<times> err list) option"
and as_kit_list :: "err list \<Rightarrow> (nat option \<times> err list) option"
and as_kit_panic :: "panic_value \<Rightarrow> (nat option \<times> err list) option" where
  "as_kit (Sentinel _) = None"
| "as_kit (External _) = None"
| "as_kit (Pg_Error _ _) = None"
| "as_kit (Wrapped _ e) = as_kit e"
| "as_kit (Wrapped2 e f) = (case as_kit e of Some k \<Rightarrow> Some k | None \<Rightarrow> as_kit f)"
| "as_kit (Joined es) = as_kit_list es"
| "as_kit (Kit_Error f es) = Some (f, es)"
| "as_kit (Panic_Error v) = as_kit_panic v"
| "as_kit_list [] = None"
| "as_kit_list (e # es) = (case as_kit e of Some k \<Rightarrow> Some k | None \<Rightarrow> as_kit_list es)"
| "as_kit_panic (Panic_Err e) = as_kit e"
| "as_kit_panic (Panic_Str _) = None"
| "as_kit_panic (Panic_Other _) = None"

datatype go_error = Nil_Error | Nil_Kit | An_Error err

fun append_each :: "err list \<Rightarrow> go_error list \<Rightarrow> err list" where
  "append_each acc [] = acc"
| "append_each acc (Nil_Error # es) = append_each acc es"
| "append_each acc (Nil_Kit # es) = append_each acc es"
| "append_each acc (An_Error e # es) =
     (case as_kit e of
        Some (_, inner) \<Rightarrow> append_each (acc @ inner) es
      | None \<Rightarrow> append_each (acc @ [e]) es)"

text \<open>\<open>Append\<close>: the result is never nil; it is given by its format and its errors.\<close>

definition errkit_Append :: "go_error \<Rightarrow> go_error list \<Rightarrow> nat option \<times> err list" where
  "errkit_Append base es =
     (case base of
        Nil_Kit \<Rightarrow> (None, append_each [] es)
      | Nil_Error \<Rightarrow> (None, append_each [] es)
      | An_Error e \<Rightarrow>
          (case as_kit e of
             Some (f, inner) \<Rightarrow> (f, append_each inner es)
           | None \<Rightarrow> (None, append_each [] (An_Error e # es))))"

definition errkit_Unwrap :: "(nat option \<times> err list) option \<Rightarrow> err list" where
  "errkit_Unwrap k = (case k of None \<Rightarrow> [] | Some (_, es) \<Rightarrow> es)"

section \<open>format.go and panic.go\<close>

definition newline :: string where
  "newline = [CHR 0x0A]"

definition bullet :: string where
  "bullet = CHR 0x09 # ''* ''"

text \<open>The list of texts is what \<open>Error()\<close> returns for the errors.\<close>

definition ListFormatFunc :: "string list \<Rightarrow> string" where
  "ListFormatFunc texts =
     (if length texts = 1
      then ''1 error occurred:'' @ newline @ bullet @ hd texts @ newline @ newline
      else itoa (length texts) @ '' errors occurred:'' @ newline @
           concat (map (\<lambda>t. bullet @ t @ newline) texts) @ newline)"

definition errkit_Error :: "(nat \<Rightarrow> string list \<Rightarrow> string) \<Rightarrow> nat option \<Rightarrow> string list \<Rightarrow> string" where
  "errkit_Error formats f texts =
     (case f of None \<Rightarrow> ListFormatFunc texts | Some n \<Rightarrow> formats n texts)"

definition NewPanicError :: "panic_value \<Rightarrow> err" where
  "NewPanicError v = Panic_Error v"

text \<open>\<open>text_of\<close> is \<open>Error()\<close> of the error that was the value of the panic.\<close>

definition PanicError_Error :: "(err \<Rightarrow> string) \<Rightarrow> panic_value \<Rightarrow> string" where
  "PanicError_Error text_of v =
     ''panic recovered: '' @
     (case v of Panic_Err e \<Rightarrow> text_of e | Panic_Str s \<Rightarrow> s | Panic_Other shown \<Rightarrow> shown)"

definition PanicError_Unwrap :: "panic_value \<Rightarrow> err option" where
  "PanicError_Unwrap v = (case v of Panic_Err e \<Rightarrow> Some e | _ \<Rightarrow> None)"

section \<open>group.go\<close>

text \<open>
  The functions given to \<open>Go\<close> run at the same time; each ends with no error, an error or a
  panic, and then takes the mutex to add it. A run is therefore the list of their outcomes in
  the order in which they take the mutex. A function given to \<open>Finally\<close> is its result.
\<close>

record err_group =
  gr_err :: "(nat option \<times> err list) option"
  gr_finally :: "go_error list"

definition Group_Add :: "go_error \<Rightarrow> err_group \<Rightarrow> err_group" where
  "Group_Add e g =
     (if e = Nil_Error then g
      else g\<lparr>gr_err := Some (errkit_Append
             (case gr_err g of None \<Rightarrow> Nil_Kit | Some (f, es) \<Rightarrow> An_Error (Kit_Error f es)) [e])\<rparr>)"

definition Group_Go :: "unit outcome \<Rightarrow> err_group \<Rightarrow> err_group" where
  "Group_Go r g =
     (case r of
        Ok _ \<Rightarrow> g
      | Err e \<Rightarrow> Group_Add (An_Error e) g
      | Panic v \<Rightarrow> Group_Add (An_Error (NewPanicError v)) g)"

definition Group_Finally :: "go_error \<Rightarrow> err_group \<Rightarrow> err_group" where
  "Group_Finally f g = g\<lparr>gr_finally := gr_finally g @ [f]\<rparr>"

definition Group_Wait :: "unit outcome list \<Rightarrow> err_group \<Rightarrow> (nat option \<times> err list) option \<times> err_group" where
  "Group_Wait outcomes g =
     (let g1 = fold Group_Go outcomes g;
          g2 = fold Group_Add (gr_finally g1) (g1\<lparr>gr_finally := []\<rparr>)
      in (gr_err g2, g2))"

section \<open>What a list of errors matches\<close>

text \<open>What one error contributes to a list: itself, or the errors of the list it is or wraps.\<close>

fun errs_of :: "go_error \<Rightarrow> err list" where
  "errs_of Nil_Error = []"
| "errs_of Nil_Kit = []"
| "errs_of (An_Error e) = (case as_kit e of Some (_, inner) \<Rightarrow> inner | None \<Rightarrow> [e])"

lemma append_each_errs: "append_each acc es = acc @ concat (map errs_of es)"
  by (induction acc es rule: append_each.induct) (auto split: option.split)

lemma Append_errs:
  "errkit_Append base es =
     (case base of An_Error e \<Rightarrow> (case as_kit e of Some (f, _) \<Rightarrow> f | None \<Rightarrow> None) | _ \<Rightarrow> None,
      errs_of base @ concat (map errs_of es))"
  by (auto simp: errkit_Append_def append_each_errs split: go_error.split option.split)

text \<open>An error is flat when it is a list of errors itself or holds none inside.\<close>

definition flat :: "go_error \<Rightarrow> bool" where
  "flat g \<longleftrightarrow> (case g of An_Error e \<Rightarrow> as_kit e = None \<or> (\<exists>f es. e = Kit_Error f es) | _ \<Rightarrow> True)"

definition go_is :: "go_error \<Rightarrow> sentinel \<Rightarrow> bool" where
  "go_is g s \<longleftrightarrow> (case g of An_Error e \<Rightarrow> errors_is e s | _ \<Rightarrow> False)"

lemma errs_of_is: "flat g \<Longrightarrow> list_ex (\<lambda>e. errors_is e s) (errs_of g) \<longleftrightarrow> go_is g s"
  by (cases g) (auto simp: flat_def go_is_def)

lemma concat_errs_is:
  "\<forall>g \<in> set gs. flat g \<Longrightarrow>
   list_ex (\<lambda>e. errors_is e s) (concat (map errs_of gs)) \<longleftrightarrow> (\<exists>g \<in> set gs. go_is g s)"
  by (induction gs) (auto simp: errs_of_is)

section \<open>What a group returns\<close>

fun outcome_error :: "unit outcome \<Rightarrow> go_error" where
  "outcome_error (Ok _) = Nil_Error"
| "outcome_error (Err e) = An_Error e"
| "outcome_error (Panic v) = An_Error (Panic_Error v)"

lemma Group_Go_Add: "Group_Go r g = Group_Add (outcome_error r) g"
  by (cases r) (simp_all add: Group_Go_def Group_Add_def NewPanicError_def)

lemma Group_Add_finally [simp]: "gr_finally (Group_Add e g) = gr_finally g"
  by (simp add: Group_Add_def)

lemma fold_Group_finally [simp]:
  "gr_finally (fold Group_Add es g) = gr_finally g" "gr_finally (fold Group_Go rs g) = gr_finally g"
  by (induction es arbitrary: g, simp_all, induction rs arbitrary: g, simp_all add: Group_Go_Add)

text \<open>The errors a group holds, and what adding does to them.\<close>

definition group_view :: "go_error list \<Rightarrow> (nat option \<times> err list) option" where
  "group_view gs =
     (if list_all (\<lambda>g. g = Nil_Error) gs then None else Some (None, concat (map errs_of gs)))"

lemma concat_errs_Nil: "list_all (\<lambda>g. g = Nil_Error) gs \<Longrightarrow> concat (map errs_of gs) = []"
  by (induction gs) auto

lemma Group_Add_view:
  assumes "gr_err g = group_view gs"
  shows "gr_err (Group_Add e g) = group_view (gs @ [e])"
proof (cases "e = Nil_Error")
  case False
  with assms show ?thesis
    by (auto simp: Group_Add_def Append_errs group_view_def concat_errs_Nil)
qed (use assms in \<open>simp add: Group_Add_def group_view_def\<close>)

lemma fold_Add_view:
  assumes "gr_err g = group_view gs"
  shows "gr_err (fold Group_Add es g) = group_view (gs @ es)"
  using assms
proof (induction es arbitrary: g gs)
  case (Cons e es)
  from Cons.IH [OF Group_Add_view [OF Cons.prems]] show ?case by simp
qed simp

lemma fold_Go_Add: "fold Group_Go rs g = fold Group_Add (map outcome_error rs) g"
  by (induction rs arbitrary: g) (simp_all add: Group_Go_Add)

lemma Group_Wait_view:
  assumes "gr_err g = None"
  shows "fst (Group_Wait outcomes g) = group_view (map outcome_error outcomes @ gr_finally g)"
proof -
  have g: "gr_err g = group_view []" using assms by (simp add: group_view_def)
  let ?g1 = "fold Group_Go outcomes g"
  have "gr_err (?g1\<lparr>gr_finally := []\<rparr>) = group_view (map outcome_error outcomes)"
    using fold_Add_view [OF g, of "map outcome_error outcomes"] by (simp add: fold_Go_Add)
  from fold_Add_view [OF this] show ?thesis by (simp add: Group_Wait_def Let_def)
qed

lemma group_view_perm:
  assumes "mset gs = mset hs"
  shows "group_view gs = None \<longleftrightarrow> group_view hs = None"
    and "group_view gs = Some (f, es) \<Longrightarrow> group_view hs = Some (f', es') \<Longrightarrow> mset es = mset es'"
proof -
  have "set gs = set hs" using assms by (metis set_mset_mset)
  then show "group_view gs = None \<longleftrightarrow> group_view hs = None"
    by (simp add: group_view_def list_all_iff)
  assume "group_view gs = Some (f, es)" "group_view hs = Some (f', es')"
  then have "es = concat (map errs_of gs)" "es' = concat (map errs_of hs)"
    by (auto simp: group_view_def split: if_splits)
  moreover have "mset (concat (map errs_of xs)) = \<Sum>\<^sub># (image_mset (mset \<circ> errs_of) (mset xs))" for xs
    by (induction xs) auto
  ultimately show "mset es = mset es'" using assms by simp
qed

section \<open>Properties\<close>

text \<open>\<open>Append\<close> gathers: the list it returns matches a sentinel exactly when its base or one
  of the errors does, as long as each is a list itself or holds none inside. An error that wraps a
  list next to something else is replaced by that list, and what else it matched is lost.\<close>

theorem append_gathers:
  "((\<forall>g \<in> set (base # es). flat g) \<longrightarrow>
      (list_ex (\<lambda>e. errors_is e s) (snd (errkit_Append base es)) \<longleftrightarrow>
       (\<exists>g \<in> set (base # es). go_is g s))) \<and>
   (list_ex (\<lambda>e. errors_is e s)
      (snd (errkit_Append Nil_Error [An_Error (Wrapped2 (Sentinel s') (Kit_Error f inner))])) \<longleftrightarrow>
    list_ex (\<lambda>e. errors_is e s) inner)"
  using errs_of_is [of base s] concat_errs_is [of es s] by (auto simp: Append_errs)

theorem append_gathers_witness:
  "list_ex (\<lambda>e. errors_is e Domain_ErrNotFound)
     (snd (errkit_Append (An_Error (Kit_Error None [Sentinel Domain_ErrValidation]))
        [Nil_Error, An_Error (Sentinel Domain_ErrNotFound)])) \<and>
   \<not> list_ex (\<lambda>e. errors_is e Domain_ErrNotFound) (snd (errkit_Append Nil_Error
        [An_Error (Wrapped2 (Sentinel Domain_ErrNotFound) (Kit_Error None []))]))"
  using append_gathers [of "An_Error (Kit_Error None [Sentinel Domain_ErrValidation])"
      "[Nil_Error, An_Error (Sentinel Domain_ErrNotFound)]" Domain_ErrNotFound Domain_ErrNotFound None "[]"]
  by (simp add: flat_def go_is_def)

text \<open>\<open>Wait\<close> loses nothing: it returns nil exactly when every function, also those of
  \<open>Finally\<close>, ended without error or panic; what it returns then holds the errors of all, matches
  what any of them matches, and is the same collection in whichever order they finish.\<close>

theorem group_wait_collects:
  assumes "gr_err g = None"
  shows "(fst (Group_Wait outcomes g) = None \<longleftrightarrow>
      list_all is_ok outcomes \<and> list_all (\<lambda>f. f = Nil_Error) (gr_finally g)) \<and>
    (\<forall>f es. fst (Group_Wait outcomes g) = Some (f, es) \<longrightarrow>
      (list_all flat (map outcome_error outcomes @ gr_finally g) \<longrightarrow>
        (\<forall>s. list_ex (\<lambda>e. errors_is e s) es \<longleftrightarrow>
           (\<exists>h \<in> set (map outcome_error outcomes @ gr_finally g). go_is h s))) \<and>
      (\<forall>outcomes'. mset outcomes' = mset outcomes \<longrightarrow>
        (\<exists>f' es'. fst (Group_Wait outcomes' g) = Some (f', es') \<and> mset es' = mset es)))"
proof -
  let ?all = "\<lambda>rs. map outcome_error rs @ gr_finally g"
  have ok: "outcome_error r = Nil_Error \<longleftrightarrow> is_ok r" for r by (cases r) auto
  have "fst (Group_Wait outcomes g) = None \<longleftrightarrow>
      list_all is_ok outcomes \<and> list_all (\<lambda>f. f = Nil_Error) (gr_finally g)"
    using ok by (auto simp: Group_Wait_view [OF assms] group_view_def list_all_iff)
  moreover have "list_ex (\<lambda>e. errors_is e s) es \<longleftrightarrow> (\<exists>h \<in> set (?all outcomes). go_is h s)"
    if "fst (Group_Wait outcomes g) = Some (f, es)" "list_all flat (?all outcomes)" for f es s
  proof -
    have "es = concat (map errs_of (?all outcomes))"
      using that(1) by (simp add: Group_Wait_view [OF assms] group_view_def split: if_splits)
    moreover have "\<forall>h \<in> set (?all outcomes). flat h" using that(2) by (simp only: list_all_iff)
    ultimately show ?thesis by (simp only: concat_errs_is)
  qed
  moreover have "\<exists>f' es'. fst (Group_Wait outcomes' g) = Some (f', es') \<and> mset es' = mset es"
    if "fst (Group_Wait outcomes g) = Some (f, es)" "mset outcomes' = mset outcomes" for f es outcomes'
  proof -
    have "mset (?all outcomes') = mset (?all outcomes)" using that(2) by (simp add: mset_map)
    from group_view_perm [OF this] that(1) show ?thesis
      by (cases "group_view (?all outcomes')") (auto simp: Group_Wait_view [OF assms])
  qed
  ultimately show ?thesis by blast
qed

theorem group_wait_collects_witness:
  "\<exists>es. fst (Group_Wait [Ok (), Panic (Panic_Err (Sentinel Domain_ErrNotFound))]
     \<lparr>gr_err = None, gr_finally = [An_Error (Sentinel Domain_ErrValidation)]\<rparr>) = Some (None, es) \<and>
   list_ex (\<lambda>e. errors_is e Domain_ErrNotFound) es"
proof -
  let ?rs = "[Ok (), Panic (Panic_Err (Sentinel Domain_ErrNotFound))]"
  let ?g = "\<lparr>gr_err = None, gr_finally = [An_Error (Sentinel Domain_ErrValidation)]\<rparr>"
  obtain es where es: "fst (Group_Wait ?rs ?g) = Some (None, es)"
    by (simp add: Group_Wait_view group_view_def)
  with group_wait_collects [of ?g ?rs] show ?thesis by (simp add: flat_def go_is_def)
qed

end
