(* ===== verification/Http_Schemas.thy ===== *)
theory Http_Schemas
  imports Errkit
begin

text \<open>
  \<open>api/http/oas_schemas_gen.go\<close>: the types of the HTTP interface. A Go struct is a record with
  one field per field of the struct (its getters and setters are the record's own selectors and
  updates), an interface of responses a datatype with one constructor per Go type that implements
  it. Every error response is the type \<open>ErrorResponse\<close> under another name. \<open>jx.Raw\<close> is the bytes
  of a JSON value.
\<close>

section \<open>Error bodies\<close>

text \<open>\<open>ErrorResponseErrorCode\<close> is a string; these are its constants.\<close>

type_synonym error_code = string

abbreviation (input) "Code_VALIDATION_ERROR \<equiv> ''VALIDATION_ERROR''"
abbreviation (input) "Code_UNAUTHORIZED \<equiv> ''UNAUTHORIZED''"
abbreviation (input) "Code_FORBIDDEN \<equiv> ''FORBIDDEN''"
abbreviation (input) "Code_NOT_FOUND \<equiv> ''NOT_FOUND''"
abbreviation (input) "Code_INVITE_NOT_FOUND \<equiv> ''INVITE_NOT_FOUND''"
abbreviation (input) "Code_INVITE_EXPIRED \<equiv> ''INVITE_EXPIRED''"
abbreviation (input) "Code_INVITE_ALREADY_USED \<equiv> ''INVITE_ALREADY_USED''"
abbreviation (input) "Code_INVITE_LIMIT_EXCEEDED \<equiv> ''INVITE_LIMIT_EXCEEDED''"
abbreviation (input) "Code_WRAPPED_KEYS_REQUIRED \<equiv> ''WRAPPED_KEYS_REQUIRED''"
abbreviation (input) "Code_CHALLENGE_EXPIRED \<equiv> ''CHALLENGE_EXPIRED''"
abbreviation (input) "Code_CREDENTIAL_NOT_FOUND \<equiv> ''CREDENTIAL_NOT_FOUND''"
abbreviation (input) "Code_CREDENTIAL_REVOKED \<equiv> ''CREDENTIAL_REVOKED''"
abbreviation (input) "Code_CREDENTIAL_CLONE_SUSPECTED \<equiv> ''CREDENTIAL_CLONE_SUSPECTED''"
abbreviation (input) "Code_REFRESH_TOKEN_NOT_FOUND \<equiv> ''REFRESH_TOKEN_NOT_FOUND''"
abbreviation (input) "Code_REFRESH_TOKEN_INVALID \<equiv> ''REFRESH_TOKEN_INVALID''"
abbreviation (input) "Code_REFRESH_TOKEN_REUSE_DETECTED \<equiv> ''REFRESH_TOKEN_REUSE_DETECTED''"
abbreviation (input) "Code_SESSION_NOT_FOUND \<equiv> ''SESSION_NOT_FOUND''"
abbreviation (input) "Code_SESSION_FORBIDDEN \<equiv> ''SESSION_FORBIDDEN''"
abbreviation (input) "Code_INTERNAL_ERROR \<equiv> ''INTERNAL_ERROR''"

definition error_codes :: "error_code list" where
  "error_codes =
     [Code_VALIDATION_ERROR, Code_UNAUTHORIZED, Code_FORBIDDEN, Code_NOT_FOUND,
      Code_INVITE_NOT_FOUND, Code_INVITE_EXPIRED, Code_INVITE_ALREADY_USED,
      Code_INVITE_LIMIT_EXCEEDED, Code_WRAPPED_KEYS_REQUIRED, Code_CHALLENGE_EXPIRED,
      Code_CREDENTIAL_NOT_FOUND, Code_CREDENTIAL_REVOKED, Code_CREDENTIAL_CLONE_SUSPECTED,
      Code_REFRESH_TOKEN_NOT_FOUND, Code_REFRESH_TOKEN_INVALID,
      Code_REFRESH_TOKEN_REUSE_DETECTED, Code_SESSION_NOT_FOUND, Code_SESSION_FORBIDDEN,
      Code_INTERNAL_ERROR]"

text \<open>\<open>MarshalText\<close> and \<open>UnmarshalText\<close>: only a constant passes; \<open>quoted\<close> is \<open>%q\<close>.\<close>

definition ErrorCode_MarshalText :: "(string \<Rightarrow> string) \<Rightarrow> error_code \<Rightarrow> err + string" where
  "ErrorCode_MarshalText quoted s =
     (if s \<in> set error_codes then Inr s else Inl (External (''invalid value: '' @ quoted s)))"

definition ErrorCode_UnmarshalText :: "(string \<Rightarrow> string) \<Rightarrow> string \<Rightarrow> err + error_code" where
  "ErrorCode_UnmarshalText quoted data =
     (if data \<in> set error_codes then Inr data
      else Inl (External (''invalid value: '' @ quoted data)))"

record error_response_error =
  er_code :: error_code
  er_message :: string

record error_response =
  er_error :: error_response_error

section \<open>Values\<close>

record opt_string =
  os_value :: string
  os_set :: bool

definition NewOptString :: "string \<Rightarrow> opt_string" where
  "NewOptString v = \<lparr>os_value = v, os_set = True\<rparr>"

definition OptString_Reset :: "opt_string \<Rightarrow> opt_string" where
  "OptString_Reset o' = o'\<lparr>os_value := [], os_set := False\<rparr>"

definition OptString_SetTo :: "string \<Rightarrow> opt_string \<Rightarrow> opt_string" where
  "OptString_SetTo v o' = o'\<lparr>os_set := True, os_value := v\<rparr>"

definition OptString_Get :: "opt_string \<Rightarrow> string \<times> bool" where
  "OptString_Get o' = (if \<not> os_set o' then ([], False) else (os_value o', True))"

definition OptString_Or :: "opt_string \<Rightarrow> string \<Rightarrow> string" where
  "OptString_Or o' d = (case OptString_Get o' of (v, ok) \<Rightarrow> if ok then v else d)"

record bearer_auth =
  ba_Token :: string
  ba_Roles :: "string list"

type_synonym wrapped_key_scope = string

definition wrapped_key_scopes :: "wrapped_key_scope list" where
  "wrapped_key_scopes = [''main'', ''decoy'']"

definition WrappedKeyScope_MarshalText :: "(string \<Rightarrow> string) \<Rightarrow> wrapped_key_scope \<Rightarrow> err + string" where
  "WrappedKeyScope_MarshalText quoted s =
     (if s \<in> set wrapped_key_scopes then Inr s else Inl (External (''invalid value: '' @ quoted s)))"

definition WrappedKeyScope_UnmarshalText ::
  "(string \<Rightarrow> string) \<Rightarrow> string \<Rightarrow> err + wrapped_key_scope" where
  "WrappedKeyScope_UnmarshalText quoted data =
     (if data \<in> set wrapped_key_scopes then Inr data
      else Inl (External (''invalid value: '' @ quoted data)))"

record api_wrapped_key =
  awk_scope :: wrapped_key_scope
  awk_wrappedDek :: bytes
  awk_wrapAlgorithm :: string

text \<open>\<open>WrappedKeyInput\<close> and \<open>WrappedKeyOutput\<close> have the same fields.\<close>

type_synonym api_wrapped_key_input = api_wrapped_key
type_synonym api_wrapped_key_output = api_wrapped_key

record api_invite =
  ai_code :: string
  ai_expiresAt :: time

record token_pair =
  tp_accessToken :: string
  tp_refreshToken :: string

record login_begin_post_ok =
  lb_challengeToken :: string
  lb_requestOptions :: bytes

record registration_begin_post_ok =
  rb_challengeToken :: string
  rb_creationOptions :: bytes

record login_post_ok =
  lp_tokenPair :: token_pair
  lp_wrappedKeys :: "api_wrapped_key_output list"

section \<open>Requests\<close>

record login_post_req =
  lq_challengeToken :: string
  lq_authenticationResponse :: bytes
  lq_deviceInfo :: opt_string

record registration_begin_post_req =
  rbq_inviteCode :: string

record registration_complete_post_req =
  rcq_challengeToken :: string
  rcq_registrationResponse :: bytes
  rcq_wrappedKeys :: "api_wrapped_key_input list"
  rcq_deviceInfo :: opt_string

record token_refresh_post_req =
  trq_refreshToken :: string

section \<open>Responses\<close>

datatype auth_verify_get_res =
    AuthVerifyGetNoContent uuid
  | AuthVerifyGetUnauthorized error_response
  | AuthVerifyGetInternalServerError error_response

datatype revoke_chain_res =
    AdminUsersUserIdRevokeChainPostNoContent
  | AdminUsersUserIdRevokeChainPostBadRequest error_response
  | AdminUsersUserIdRevokeChainPostUnauthorized error_response
  | AdminUsersUserIdRevokeChainPostForbidden error_response
  | AdminUsersUserIdRevokeChainPostNotFound error_response
  | AdminUsersUserIdRevokeChainPostInternalServerError error_response

datatype invites_post_res =
    InvitesPostCreated api_invite
  | InvitesPostBadRequest error_response
  | InvitesPostUnauthorized error_response
  | InvitesPostConflict error_response
  | InvitesPostInternalServerError error_response

datatype login_begin_post_res =
    LoginBeginPostOK login_begin_post_ok
  | LoginBeginPostError error_response

datatype login_post_res =
    LoginPostOK login_post_ok
  | LoginPostBadRequest error_response
  | LoginPostUnauthorized error_response
  | LoginPostInternalServerError error_response

datatype registration_begin_post_res =
    RegistrationBeginPostOK registration_begin_post_ok
  | RegistrationBeginPostBadRequest error_response
  | RegistrationBeginPostNotFound error_response
  | RegistrationBeginPostConflict error_response
  | RegistrationBeginPostInternalServerError error_response

datatype registration_complete_post_res =
    RegistrationCompletePostCreated token_pair
  | RegistrationCompletePostBadRequest error_response
  | RegistrationCompletePostUnauthorized error_response
  | RegistrationCompletePostNotFound error_response
  | RegistrationCompletePostConflict error_response
  | RegistrationCompletePostInternalServerError error_response

datatype sessions_delete_res =
    SessionsSessionIdDeleteNoContent
  | SessionsSessionIdDeleteBadRequest error_response
  | SessionsSessionIdDeleteUnauthorized error_response
  | SessionsSessionIdDeleteForbidden error_response
  | SessionsSessionIdDeleteNotFound error_response
  | SessionsSessionIdDeleteInternalServerError error_response

datatype token_refresh_post_res =
    TokenRefreshPostOK token_pair
  | TokenRefreshPostBadRequest error_response
  | TokenRefreshPostUnauthorized error_response
  | TokenRefreshPostInternalServerError error_response

end
