(* ===== verification/Http_Json.thy ===== *)
theory Http_Json
  imports Http_Schemas
begin

unbundle bit_operations_syntax

text \<open>
  \<open>api/http/oas_json_gen.go\<close>: how the types of the interface are written and read as JSON.

  The library \<open>jx\<close> is a parameter. What the code tells an encoder to write is a document: the
  calls between \<open>ObjStart\<close> and \<open>ObjEnd\<close> are its fields, those between \<open>ArrStart\<close> and \<open>ArrEnd\<close> its
  elements, and a call that writes nothing is \<open>D_Nothing\<close>. What a decoder has before it is a view:
  the value its text stands for, each with the bytes of its text, up to the first place where the
  text is not JSON, which is an error to whoever reads there.
\<close>

section \<open>Documents, views and the library\<close>

datatype json_doc =
    D_Nothing
  | D_Str string
  | D_Base64 bytes
  | D_DateTime time
  | D_Raw bytes
  | D_Arr "json_doc list"
  | D_Obj "(string \<times> json_doc) list"

datatype json_view =
    V_Str bytes string
  | V_Arr bytes "json_view list" "err option"
  | V_Obj bytes "(string \<times> json_view) list" "err option"
  | V_Other bytes
  | V_Bad err

record jx =
  jx_write :: "json_doc \<Rightarrow> bytes"
  jx_parse :: "bytes \<Rightarrow> json_view \<times> bytes"
  jx_mismatch :: "string \<Rightarrow> json_view \<Rightarrow> err"
  jx_base64 :: "json_view \<Rightarrow> err + bytes"
  jx_datetime :: "json_view \<Rightarrow> err + time"

datatype decode_error =
    Jx_Err err
  | At string decode_error
  | Fields_Required "string list"

definition jx_err :: "err + 'a \<Rightarrow> decode_error + 'a" where
  "jx_err r = (case r of Inl e \<Rightarrow> Inl (Jx_Err e) | Inr x \<Rightarrow> Inr x)"

text \<open>\<open>Skip\<close> and \<open>RawAppend\<close> read a value of any kind to its end.\<close>

fun view_error :: "json_view \<Rightarrow> err option"
and views_error :: "json_view list \<Rightarrow> err option"
and fields_error :: "(string \<times> json_view) list \<Rightarrow> err option" where
  "view_error (V_Str _ _) = None"
| "view_error (V_Arr _ vs tail) = (case views_error vs of Some e \<Rightarrow> Some e | None \<Rightarrow> tail)"
| "view_error (V_Obj _ fs tail) = (case fields_error fs of Some e \<Rightarrow> Some e | None \<Rightarrow> tail)"
| "view_error (V_Other _) = None"
| "view_error (V_Bad e) = Some e"
| "views_error [] = None"
| "views_error (v # vs) = (case view_error v of Some e \<Rightarrow> Some e | None \<Rightarrow> views_error vs)"
| "fields_error [] = None"
| "fields_error ((k, v) # fs) = (case view_error v of Some e \<Rightarrow> Some e | None \<Rightarrow> fields_error fs)"

fun view_raw :: "json_view \<Rightarrow> bytes" where
  "view_raw (V_Str raw _) = raw"
| "view_raw (V_Arr raw _ _) = raw"
| "view_raw (V_Obj raw _ _) = raw"
| "view_raw (V_Other raw) = raw"
| "view_raw (V_Bad _) = []"

definition jx_Skip :: "json_view \<Rightarrow> decode_error + unit" where
  "jx_Skip v = (case view_error v of Some e \<Rightarrow> Inl (Jx_Err e) | None \<Rightarrow> Inr ())"

definition jx_RawAppend :: "json_view \<Rightarrow> decode_error + bytes" where
  "jx_RawAppend v = (case view_error v of Some e \<Rightarrow> Inl (Jx_Err e) | None \<Rightarrow> Inr (view_raw v))"

definition jx_Str :: "jx \<Rightarrow> json_view \<Rightarrow> decode_error + string" where
  "jx_Str L v =
     (case v of V_Str _ s \<Rightarrow> Inr s
      | V_Bad e \<Rightarrow> Inl (Jx_Err e)
      | _ \<Rightarrow> Inl (Jx_Err (jx_mismatch L ''string'' v)))"

text \<open>\<open>ObjBytes\<close> and \<open>Arr\<close> call a function for every field or element, in order.\<close>

fun each_field :: "(string \<Rightarrow> json_view \<Rightarrow> 's \<Rightarrow> decode_error + 's) \<Rightarrow>
  (string \<times> json_view) list \<Rightarrow> 's \<Rightarrow> decode_error + 's" where
  "each_field f [] s = Inr s"
| "each_field f ((k, v) # fs) s = (case f k v s of Inl e \<Rightarrow> Inl e | Inr s' \<Rightarrow> each_field f fs s')"

definition jx_ObjBytes :: "jx \<Rightarrow> (string \<Rightarrow> json_view \<Rightarrow> 's \<Rightarrow> decode_error + 's) \<Rightarrow>
  json_view \<Rightarrow> 's \<Rightarrow> decode_error + 's" where
  "jx_ObjBytes L f v s =
     (case v of
        V_Obj _ fs tail \<Rightarrow>
          (case each_field f fs s of
             Inl e \<Rightarrow> Inl e
           | Inr s' \<Rightarrow> (case tail of None \<Rightarrow> Inr s' | Some e \<Rightarrow> Inl (Jx_Err e)))
      | V_Bad e \<Rightarrow> Inl (Jx_Err e)
      | _ \<Rightarrow> Inl (Jx_Err (jx_mismatch L ''object'' v)))"

fun each_elem :: "(json_view \<Rightarrow> decode_error + 'a) \<Rightarrow> json_view list \<Rightarrow> decode_error + 'a list" where
  "each_elem f [] = Inr []"
| "each_elem f (v # vs) =
     (case f v of Inl e \<Rightarrow> Inl e
      | Inr x \<Rightarrow> (case each_elem f vs of Inl e \<Rightarrow> Inl e | Inr xs \<Rightarrow> Inr (x # xs)))"

definition jx_Arr :: "jx \<Rightarrow> (json_view \<Rightarrow> decode_error + 'a) \<Rightarrow> json_view \<Rightarrow> decode_error + 'a list" where
  "jx_Arr L f v =
     (case v of
        V_Arr _ vs tail \<Rightarrow>
          (case each_elem f vs of
             Inl e \<Rightarrow> Inl e
           | Inr xs \<Rightarrow> (case tail of None \<Rightarrow> Inr xs | Some e \<Rightarrow> Inl (Jx_Err e)))
      | V_Bad e \<Rightarrow> Inl (Jx_Err e)
      | _ \<Rightarrow> Inl (Jx_Err (jx_mismatch L ''array'' v)))"

section \<open>The bit set of required fields\<close>

text \<open>\<open>requiredBitSet[0] |= 1 << n\<close>.\<close>

definition mark :: "nat \<Rightarrow> 8 word \<Rightarrow> 8 word" where
  "mark n b = b OR push_bit n 1"

definition OnesCount8 :: "8 word \<Rightarrow> nat" where
  "OnesCount8 w = length (filter (bit w) [0..<8])"

definition TrailingZeros8 :: "8 word \<Rightarrow> nat" where
  "TrailingZeros8 w = (case find (bit w) [0..<8] of Some i \<Rightarrow> i | None \<Rightarrow> 8)"

definition field_name :: "string list \<Rightarrow> nat \<Rightarrow> string" where
  "field_name names i = (if i < length names then names ! i else itoa i)"

text \<open>The loop over \<open>bitN\<close>, by the number of rounds left.\<close>

fun report_missed :: "string list \<Rightarrow> nat \<Rightarrow> 8 word \<Rightarrow> string list" where
  "report_missed names 0 result = []"
| "report_missed names (Suc n) result =
     (let i = TrailingZeros8 result
      in field_name names i # report_missed names n (result AND NOT (push_bit i 1)))"

definition missing_fields :: "string list \<Rightarrow> 8 word \<Rightarrow> 8 word \<Rightarrow> string list" where
  "missing_fields names required bits =
     (let result = (bits AND required) XOR required
      in if result \<noteq> 0 then report_missed names (OnesCount8 result) result else [])"

lemma bit_mark: "n < 8 \<Longrightarrow> bit (mark n b) i \<longleftrightarrow> bit b i \<or> i = n"
  by (auto simp: mark_def bit_or_iff bit_exp_iff)

lemma find_filter: "find p xs = (case filter p xs of [] \<Rightarrow> None | x # _ \<Rightarrow> Some x)"
  by (induction xs) auto

lemma filter_Cons_remove:
  assumes "filter p xs = x # ys" and "distinct xs"
  shows "filter (\<lambda>y. p y \<and> y \<noteq> x) xs = ys"
proof -
  have "filter (\<lambda>y. p y \<and> y \<noteq> x) xs = filter (\<lambda>y. y \<noteq> x) (filter p xs)" by (simp add: conj_commute)
  also have "\<dots> = filter (\<lambda>y. y \<noteq> x) ys" using assms(1) by simp
  also have "\<dots> = ys"
  proof -
    have "distinct (x # ys)" using assms by (metis distinct_filter)
    then show ?thesis by (auto simp: filter_id_conv)
  qed
  finally show ?thesis .
qed

text \<open>The loop reports the positions of the bits that are set, in increasing order.\<close>

lemma report_missed_all:
  "OnesCount8 r = n \<Longrightarrow> report_missed names n r = map (field_name names) (filter (bit r) [0..<8])"
proof (induction n arbitrary: r)
  case 0
  then show ?case by (simp add: OnesCount8_def)
next
  case (Suc n)
  then obtain i rest where f: "filter (bit r) [0..<8] = i # rest"
    by (cases "filter (bit r) [0..<8]") (auto simp: OnesCount8_def)
  then have i: "TrailingZeros8 r = i" by (simp add: TrailingZeros8_def find_filter)
  have "i \<in> set (filter (bit r) [0..<8])" using f by simp
  then have "i < 8" by simp
  then have bits: "bit (r AND NOT (push_bit i 1)) j \<longleftrightarrow> bit r j \<and> j \<noteq> i" if "j < 8" for j
    using that \<open>i < 8\<close> by (auto simp: bit_and_iff bit_not_iff bit_exp_iff)
  have rest: "filter (bit (r AND NOT (push_bit i 1))) [0..<8] = rest"
    using filter_Cons_remove [OF f] filter_cong [OF refl bits, of "[0..<8]"] by auto
  then have "OnesCount8 (r AND NOT (push_bit i 1)) = n"
    using Suc.prems f by (simp add: OnesCount8_def)
  from Suc.IH [OF this] show ?case
    by (simp only: report_missed.simps Let_def i f rest list.map)
qed

lemma missing_fields_eq:
  "missing_fields names required bits =
     map (field_name names) (filter (\<lambda>i. bit required i \<and> \<not> bit bits i) [0..<8])"
proof -
  let ?r = "(bits AND required) XOR required"
  have b: "bit ?r i \<longleftrightarrow> bit required i \<and> \<not> bit bits i" for i
    by (auto simp: bit_xor_iff bit_and_iff)
  have "report_missed names (OnesCount8 ?r) ?r = map (field_name names) (filter (bit ?r) [0..<8])"
    by (rule report_missed_all) simp
  moreover have "?r = 0 \<Longrightarrow> filter (bit ?r) [0..<8] = []" by simp
  moreover have "filter (bit ?r) [0..<8] = filter (\<lambda>i. bit required i \<and> \<not> bit bits i) [0..<8]"
    by (simp only: b cong: filter_cong)
  ultimately show ?thesis
    by (cases "?r = 0") (simp_all only: missing_fields_def Let_def if_True if_False list.map not_True_eq_False
        not_False_eq_True simp_thms)
qed

section \<open>Reading an object\<close>

definition quoted :: "string \<Rightarrow> string" where
  "quoted k = CHR 0x22 # k @ [CHR 0x22]"

text \<open>One case of the switch over the field names: the value is read and stored.\<close>

definition reading ::
  "string \<Rightarrow> decode_error + 'a \<Rightarrow> ('a \<Rightarrow> 's) \<Rightarrow> 8 word \<Rightarrow> decode_error + 's \<times> 8 word" where
  "reading k r store bits =
     (case r of Inl e \<Rightarrow> Inl (At (''decode field '' @ quoted k) e) | Inr x \<Rightarrow> Inr (store x, bits))"

definition skipping :: "json_view \<Rightarrow> 's \<times> 8 word \<Rightarrow> decode_error + 's \<times> 8 word" where
  "skipping v st = (case jx_Skip v of Inl e \<Rightarrow> Inl e | Inr _ \<Rightarrow> Inr st)"

definition decode_object ::
  "jx \<Rightarrow> string \<Rightarrow> string list \<Rightarrow> 8 word \<Rightarrow>
   (string \<Rightarrow> json_view \<Rightarrow> 's \<times> 8 word \<Rightarrow> decode_error + 's \<times> 8 word) \<Rightarrow> 's \<Rightarrow> json_view \<Rightarrow> decode_error + 's" where
  "decode_object L name names required field s0 v =
     (case jx_ObjBytes L field v (s0, 0) of
        Inl e \<Rightarrow> Inl (At (''decode '' @ name) e)
      | Inr (s, bits) \<Rightarrow>
          (case missing_fields names required bits of [] \<Rightarrow> Inr s | ms \<Rightarrow> Inl (Fields_Required ms)))"

end
