(* ===== verification/Http_Codec.thy ===== *)
theory Http_Codec
  imports Http_Json
begin

unbundle bit_operations_syntax

text \<open>
  \<open>api/http/oas_json_gen.go\<close>, continued: \<open>Encode\<close> and \<open>Decode\<close> of each type. \<open>T_encodeFields\<close> and
  \<open>T_Encode\<close> build the document, \<open>T_field\<close> is the switch over the field names with the bits of
  the fields seen so far, \<open>T_Decode\<close> the whole of \<open>Decode\<close> from the zero value \<open>T_zero\<close>.
\<close>

section \<open>Scalars\<close>

text \<open>The zero \<open>time.Time\<close>, in nanoseconds from 1970.\<close>

definition time_zero :: time where
  "time_zero = - 62135596800000000000"

definition ErrorCode_Encode :: "error_code \<Rightarrow> json_doc" where
  "ErrorCode_Encode c = D_Str c"

definition ErrorCode_Decode :: "jx \<Rightarrow> json_view \<Rightarrow> decode_error + error_code" where
  "ErrorCode_Decode L v = jx_Str L v"

definition WrappedKeyScope_Encode :: "wrapped_key_scope \<Rightarrow> json_doc" where
  "WrappedKeyScope_Encode s = D_Str s"

definition WrappedKeyScope_Decode :: "jx \<Rightarrow> json_view \<Rightarrow> decode_error + wrapped_key_scope" where
  "WrappedKeyScope_Decode L v = jx_Str L v"

definition OptString_Encode :: "opt_string \<Rightarrow> json_doc" where
  "OptString_Encode o' = (if \<not> os_set o' then D_Nothing else D_Str (os_value o'))"

text \<open>The field is reset before it is decoded, so what was read before does not matter.\<close>

definition OptString_Decode :: "jx \<Rightarrow> json_view \<Rightarrow> decode_error + opt_string" where
  "OptString_Decode L v =
     (case jx_Str L v of Inl e \<Rightarrow> Inl e | Inr s \<Rightarrow> Inr \<lparr>os_value = s, os_set = True\<rparr>)"

definition WebAuthnAuthenticationResponse_Encode :: "bytes \<Rightarrow> json_doc" where
  "WebAuthnAuthenticationResponse_Encode s = (if s \<noteq> [] then D_Raw s else D_Nothing)"

definition WebAuthnAuthenticationResponse_Decode :: "json_view \<Rightarrow> decode_error + bytes" where
  "WebAuthnAuthenticationResponse_Decode v = (case jx_RawAppend v of Inl e \<Rightarrow> Inl (At ''alias'' e) | Inr b \<Rightarrow> Inr b)"

definition WebAuthnCreationOptions_Encode :: "bytes \<Rightarrow> json_doc" where
  "WebAuthnCreationOptions_Encode s = (if s \<noteq> [] then D_Raw s else D_Nothing)"

definition WebAuthnCreationOptions_Decode :: "json_view \<Rightarrow> decode_error + bytes" where
  "WebAuthnCreationOptions_Decode v = (case jx_RawAppend v of Inl e \<Rightarrow> Inl (At ''alias'' e) | Inr b \<Rightarrow> Inr b)"

definition WebAuthnRegistrationResponse_Encode :: "bytes \<Rightarrow> json_doc" where
  "WebAuthnRegistrationResponse_Encode s = (if s \<noteq> [] then D_Raw s else D_Nothing)"

definition WebAuthnRegistrationResponse_Decode :: "json_view \<Rightarrow> decode_error + bytes" where
  "WebAuthnRegistrationResponse_Decode v = (case jx_RawAppend v of Inl e \<Rightarrow> Inl (At ''alias'' e) | Inr b \<Rightarrow> Inr b)"

definition WebAuthnRequestOptions_Encode :: "bytes \<Rightarrow> json_doc" where
  "WebAuthnRequestOptions_Encode s = (if s \<noteq> [] then D_Raw s else D_Nothing)"

definition WebAuthnRequestOptions_Decode :: "json_view \<Rightarrow> decode_error + bytes" where
  "WebAuthnRequestOptions_Decode v = (case jx_RawAppend v of Inl e \<Rightarrow> Inl (At ''alias'' e) | Inr b \<Rightarrow> Inr b)"

section \<open>ErrorResponseError\<close>

definition ErrorResponseError_encodeFields :: "error_response_error \<Rightarrow> (string \<times> json_doc) list" where
  "ErrorResponseError_encodeFields s =
     [(''code'', ErrorCode_Encode (er_code s)),
      (''message'', D_Str (er_message s))]"

definition ErrorResponseError_Encode :: "error_response_error \<Rightarrow> json_doc" where
  "ErrorResponseError_Encode s = D_Obj (ErrorResponseError_encodeFields s)"

definition ErrorResponseError_names :: "string list" where
  "ErrorResponseError_names = [''code'', ''message'']"

definition ErrorResponseError_zero :: error_response_error where
  "ErrorResponseError_zero = \<lparr>er_code = [], er_message = []\<rparr>"

definition ErrorResponseError_field ::
  "jx \<Rightarrow> string \<Rightarrow> json_view \<Rightarrow> error_response_error \<times> 8 word \<Rightarrow>
   decode_error + error_response_error \<times> 8 word" where
  "ErrorResponseError_field L k v = (\<lambda>(s, bits).
     if k = ''code'' then reading k (ErrorCode_Decode L v)
            (\<lambda>x. s\<lparr>er_code := x\<rparr>) (mark 0 bits)
     else if k = ''message'' then reading k (jx_Str L v)
            (\<lambda>x. s\<lparr>er_message := x\<rparr>) (mark 1 bits)
     else skipping v (s, bits))"

definition ErrorResponseError_Decode :: "jx \<Rightarrow> json_view \<Rightarrow> decode_error + error_response_error" where
  "ErrorResponseError_Decode L v =
     decode_object L ''ErrorResponseError'' ErrorResponseError_names 0b00000011
       (ErrorResponseError_field L) ErrorResponseError_zero v"

section \<open>ErrorResponse\<close>

definition ErrorResponse_encodeFields :: "error_response \<Rightarrow> (string \<times> json_doc) list" where
  "ErrorResponse_encodeFields s =
     [(''error'', ErrorResponseError_Encode (er_error s))]"

definition ErrorResponse_Encode :: "error_response \<Rightarrow> json_doc" where
  "ErrorResponse_Encode s = D_Obj (ErrorResponse_encodeFields s)"

definition ErrorResponse_names :: "string list" where
  "ErrorResponse_names = [''error'']"

definition ErrorResponse_zero :: error_response where
  "ErrorResponse_zero = \<lparr>er_error = ErrorResponseError_zero\<rparr>"

definition ErrorResponse_field ::
  "jx \<Rightarrow> string \<Rightarrow> json_view \<Rightarrow> error_response \<times> 8 word \<Rightarrow>
   decode_error + error_response \<times> 8 word" where
  "ErrorResponse_field L k v = (\<lambda>(s, bits).
     if k = ''error'' then reading k (ErrorResponseError_Decode L v)
            (\<lambda>x. s\<lparr>er_error := x\<rparr>) (mark 0 bits)
     else skipping v (s, bits))"

definition ErrorResponse_Decode :: "jx \<Rightarrow> json_view \<Rightarrow> decode_error + error_response" where
  "ErrorResponse_Decode L v =
     decode_object L ''ErrorResponse'' ErrorResponse_names 0b00000001
       (ErrorResponse_field L) ErrorResponse_zero v"

section \<open>Invite\<close>

definition Invite_encodeFields :: "api_invite \<Rightarrow> (string \<times> json_doc) list" where
  "Invite_encodeFields s =
     [(''code'', D_Str (ai_code s)),
      (''expiresAt'', D_DateTime (ai_expiresAt s))]"

definition Invite_Encode :: "api_invite \<Rightarrow> json_doc" where
  "Invite_Encode s = D_Obj (Invite_encodeFields s)"

definition Invite_names :: "string list" where
  "Invite_names = [''code'', ''expiresAt'']"

definition Invite_zero :: api_invite where
  "Invite_zero = \<lparr>ai_code = [], ai_expiresAt = time_zero\<rparr>"

definition Invite_field ::
  "jx \<Rightarrow> string \<Rightarrow> json_view \<Rightarrow> api_invite \<times> 8 word \<Rightarrow>
   decode_error + api_invite \<times> 8 word" where
  "Invite_field L k v = (\<lambda>(s, bits).
     if k = ''code'' then reading k (jx_Str L v)
            (\<lambda>x. s\<lparr>ai_code := x\<rparr>) (mark 0 bits)
     else if k = ''expiresAt'' then reading k (jx_err (jx_datetime L v))
            (\<lambda>x. s\<lparr>ai_expiresAt := x\<rparr>) (mark 1 bits)
     else skipping v (s, bits))"

definition Invite_Decode :: "jx \<Rightarrow> json_view \<Rightarrow> decode_error + api_invite" where
  "Invite_Decode L v =
     decode_object L ''Invite'' Invite_names 0b00000011
       (Invite_field L) Invite_zero v"

section \<open>TokenPair\<close>

definition TokenPair_encodeFields :: "token_pair \<Rightarrow> (string \<times> json_doc) list" where
  "TokenPair_encodeFields s =
     [(''accessToken'', D_Str (tp_accessToken s)),
      (''refreshToken'', D_Str (tp_refreshToken s))]"

definition TokenPair_Encode :: "token_pair \<Rightarrow> json_doc" where
  "TokenPair_Encode s = D_Obj (TokenPair_encodeFields s)"

definition TokenPair_names :: "string list" where
  "TokenPair_names = [''accessToken'', ''refreshToken'']"

definition TokenPair_zero :: token_pair where
  "TokenPair_zero = \<lparr>tp_accessToken = [], tp_refreshToken = []\<rparr>"

definition TokenPair_field ::
  "jx \<Rightarrow> string \<Rightarrow> json_view \<Rightarrow> token_pair \<times> 8 word \<Rightarrow>
   decode_error + token_pair \<times> 8 word" where
  "TokenPair_field L k v = (\<lambda>(s, bits).
     if k = ''accessToken'' then reading k (jx_Str L v)
            (\<lambda>x. s\<lparr>tp_accessToken := x\<rparr>) (mark 0 bits)
     else if k = ''refreshToken'' then reading k (jx_Str L v)
            (\<lambda>x. s\<lparr>tp_refreshToken := x\<rparr>) (mark 1 bits)
     else skipping v (s, bits))"

definition TokenPair_Decode :: "jx \<Rightarrow> json_view \<Rightarrow> decode_error + token_pair" where
  "TokenPair_Decode L v =
     decode_object L ''TokenPair'' TokenPair_names 0b00000011
       (TokenPair_field L) TokenPair_zero v"

section \<open>LoginBeginPostOK\<close>

definition LoginBeginPostOK_encodeFields :: "login_begin_post_ok \<Rightarrow> (string \<times> json_doc) list" where
  "LoginBeginPostOK_encodeFields s =
     [(''challengeToken'', D_Str (lb_challengeToken s)),
      (''requestOptions'', WebAuthnRequestOptions_Encode (lb_requestOptions s))]"

definition LoginBeginPostOK_Encode :: "login_begin_post_ok \<Rightarrow> json_doc" where
  "LoginBeginPostOK_Encode s = D_Obj (LoginBeginPostOK_encodeFields s)"

definition LoginBeginPostOK_names :: "string list" where
  "LoginBeginPostOK_names = [''challengeToken'', ''requestOptions'']"

definition LoginBeginPostOK_zero :: login_begin_post_ok where
  "LoginBeginPostOK_zero = \<lparr>lb_challengeToken = [], lb_requestOptions = []\<rparr>"

definition LoginBeginPostOK_field ::
  "jx \<Rightarrow> string \<Rightarrow> json_view \<Rightarrow> login_begin_post_ok \<times> 8 word \<Rightarrow>
   decode_error + login_begin_post_ok \<times> 8 word" where
  "LoginBeginPostOK_field L k v = (\<lambda>(s, bits).
     if k = ''challengeToken'' then reading k (jx_Str L v)
            (\<lambda>x. s\<lparr>lb_challengeToken := x\<rparr>) (mark 0 bits)
     else if k = ''requestOptions'' then reading k (WebAuthnRequestOptions_Decode v)
            (\<lambda>x. s\<lparr>lb_requestOptions := x\<rparr>) (mark 1 bits)
     else skipping v (s, bits))"

definition LoginBeginPostOK_Decode :: "jx \<Rightarrow> json_view \<Rightarrow> decode_error + login_begin_post_ok" where
  "LoginBeginPostOK_Decode L v =
     decode_object L ''LoginBeginPostOK'' LoginBeginPostOK_names 0b00000011
       (LoginBeginPostOK_field L) LoginBeginPostOK_zero v"

section \<open>RegistrationBeginPostOK\<close>

definition RegistrationBeginPostOK_encodeFields :: "registration_begin_post_ok \<Rightarrow> (string \<times> json_doc) list" where
  "RegistrationBeginPostOK_encodeFields s =
     [(''challengeToken'', D_Str (rb_challengeToken s)),
      (''creationOptions'', WebAuthnCreationOptions_Encode (rb_creationOptions s))]"

definition RegistrationBeginPostOK_Encode :: "registration_begin_post_ok \<Rightarrow> json_doc" where
  "RegistrationBeginPostOK_Encode s = D_Obj (RegistrationBeginPostOK_encodeFields s)"

definition RegistrationBeginPostOK_names :: "string list" where
  "RegistrationBeginPostOK_names = [''challengeToken'', ''creationOptions'']"

definition RegistrationBeginPostOK_zero :: registration_begin_post_ok where
  "RegistrationBeginPostOK_zero = \<lparr>rb_challengeToken = [], rb_creationOptions = []\<rparr>"

definition RegistrationBeginPostOK_field ::
  "jx \<Rightarrow> string \<Rightarrow> json_view \<Rightarrow> registration_begin_post_ok \<times> 8 word \<Rightarrow>
   decode_error + registration_begin_post_ok \<times> 8 word" where
  "RegistrationBeginPostOK_field L k v = (\<lambda>(s, bits).
     if k = ''challengeToken'' then reading k (jx_Str L v)
            (\<lambda>x. s\<lparr>rb_challengeToken := x\<rparr>) (mark 0 bits)
     else if k = ''creationOptions'' then reading k (WebAuthnCreationOptions_Decode v)
            (\<lambda>x. s\<lparr>rb_creationOptions := x\<rparr>) (mark 1 bits)
     else skipping v (s, bits))"

definition RegistrationBeginPostOK_Decode :: "jx \<Rightarrow> json_view \<Rightarrow> decode_error + registration_begin_post_ok" where
  "RegistrationBeginPostOK_Decode L v =
     decode_object L ''RegistrationBeginPostOK'' RegistrationBeginPostOK_names 0b00000011
       (RegistrationBeginPostOK_field L) RegistrationBeginPostOK_zero v"

section \<open>WrappedKeyInput\<close>

definition WrappedKeyInput_encodeFields :: "api_wrapped_key_input \<Rightarrow> (string \<times> json_doc) list" where
  "WrappedKeyInput_encodeFields s =
     [(''scope'', WrappedKeyScope_Encode (awk_scope s)),
      (''wrappedDek'', D_Base64 (awk_wrappedDek s)),
      (''wrapAlgorithm'', D_Str (awk_wrapAlgorithm s))]"

definition WrappedKeyInput_Encode :: "api_wrapped_key_input \<Rightarrow> json_doc" where
  "WrappedKeyInput_Encode s = D_Obj (WrappedKeyInput_encodeFields s)"

definition WrappedKeyInput_names :: "string list" where
  "WrappedKeyInput_names = [''scope'', ''wrappedDek'', ''wrapAlgorithm'']"

definition WrappedKeyInput_zero :: api_wrapped_key_input where
  "WrappedKeyInput_zero = \<lparr>awk_scope = [], awk_wrappedDek = [], awk_wrapAlgorithm = []\<rparr>"

definition WrappedKeyInput_field ::
  "jx \<Rightarrow> string \<Rightarrow> json_view \<Rightarrow> api_wrapped_key_input \<times> 8 word \<Rightarrow>
   decode_error + api_wrapped_key_input \<times> 8 word" where
  "WrappedKeyInput_field L k v = (\<lambda>(s, bits).
     if k = ''scope'' then reading k (WrappedKeyScope_Decode L v)
            (\<lambda>x. s\<lparr>awk_scope := x\<rparr>) (mark 0 bits)
     else if k = ''wrappedDek'' then reading k (jx_err (jx_base64 L v))
            (\<lambda>x. s\<lparr>awk_wrappedDek := x\<rparr>) (mark 1 bits)
     else if k = ''wrapAlgorithm'' then reading k (jx_Str L v)
            (\<lambda>x. s\<lparr>awk_wrapAlgorithm := x\<rparr>) (mark 2 bits)
     else skipping v (s, bits))"

definition WrappedKeyInput_Decode :: "jx \<Rightarrow> json_view \<Rightarrow> decode_error + api_wrapped_key_input" where
  "WrappedKeyInput_Decode L v =
     decode_object L ''WrappedKeyInput'' WrappedKeyInput_names 0b00000111
       (WrappedKeyInput_field L) WrappedKeyInput_zero v"

section \<open>WrappedKeyOutput\<close>

definition WrappedKeyOutput_encodeFields :: "api_wrapped_key_output \<Rightarrow> (string \<times> json_doc) list" where
  "WrappedKeyOutput_encodeFields s =
     [(''scope'', WrappedKeyScope_Encode (awk_scope s)),
      (''wrappedDek'', D_Base64 (awk_wrappedDek s)),
      (''wrapAlgorithm'', D_Str (awk_wrapAlgorithm s))]"

definition WrappedKeyOutput_Encode :: "api_wrapped_key_output \<Rightarrow> json_doc" where
  "WrappedKeyOutput_Encode s = D_Obj (WrappedKeyOutput_encodeFields s)"

definition WrappedKeyOutput_names :: "string list" where
  "WrappedKeyOutput_names = [''scope'', ''wrappedDek'', ''wrapAlgorithm'']"

definition WrappedKeyOutput_zero :: api_wrapped_key_output where
  "WrappedKeyOutput_zero = \<lparr>awk_scope = [], awk_wrappedDek = [], awk_wrapAlgorithm = []\<rparr>"

definition WrappedKeyOutput_field ::
  "jx \<Rightarrow> string \<Rightarrow> json_view \<Rightarrow> api_wrapped_key_output \<times> 8 word \<Rightarrow>
   decode_error + api_wrapped_key_output \<times> 8 word" where
  "WrappedKeyOutput_field L k v = (\<lambda>(s, bits).
     if k = ''scope'' then reading k (WrappedKeyScope_Decode L v)
            (\<lambda>x. s\<lparr>awk_scope := x\<rparr>) (mark 0 bits)
     else if k = ''wrappedDek'' then reading k (jx_err (jx_base64 L v))
            (\<lambda>x. s\<lparr>awk_wrappedDek := x\<rparr>) (mark 1 bits)
     else if k = ''wrapAlgorithm'' then reading k (jx_Str L v)
            (\<lambda>x. s\<lparr>awk_wrapAlgorithm := x\<rparr>) (mark 2 bits)
     else skipping v (s, bits))"

definition WrappedKeyOutput_Decode :: "jx \<Rightarrow> json_view \<Rightarrow> decode_error + api_wrapped_key_output" where
  "WrappedKeyOutput_Decode L v =
     decode_object L ''WrappedKeyOutput'' WrappedKeyOutput_names 0b00000111
       (WrappedKeyOutput_field L) WrappedKeyOutput_zero v"

section \<open>LoginPostOK\<close>

definition LoginPostOK_encodeFields :: "login_post_ok \<Rightarrow> (string \<times> json_doc) list" where
  "LoginPostOK_encodeFields s =
     [(''tokenPair'', TokenPair_Encode (lp_tokenPair s)),
      (''wrappedKeys'', D_Arr (map WrappedKeyOutput_Encode (lp_wrappedKeys s)))]"

definition LoginPostOK_Encode :: "login_post_ok \<Rightarrow> json_doc" where
  "LoginPostOK_Encode s = D_Obj (LoginPostOK_encodeFields s)"

definition LoginPostOK_names :: "string list" where
  "LoginPostOK_names = [''tokenPair'', ''wrappedKeys'']"

definition LoginPostOK_zero :: login_post_ok where
  "LoginPostOK_zero = \<lparr>lp_tokenPair = TokenPair_zero, lp_wrappedKeys = []\<rparr>"

definition LoginPostOK_field ::
  "jx \<Rightarrow> string \<Rightarrow> json_view \<Rightarrow> login_post_ok \<times> 8 word \<Rightarrow>
   decode_error + login_post_ok \<times> 8 word" where
  "LoginPostOK_field L k v = (\<lambda>(s, bits).
     if k = ''tokenPair'' then reading k (TokenPair_Decode L v)
            (\<lambda>x. s\<lparr>lp_tokenPair := x\<rparr>) (mark 0 bits)
     else if k = ''wrappedKeys'' then reading k (jx_Arr L (WrappedKeyOutput_Decode L) v)
            (\<lambda>x. s\<lparr>lp_wrappedKeys := x\<rparr>) (mark 1 bits)
     else skipping v (s, bits))"

definition LoginPostOK_Decode :: "jx \<Rightarrow> json_view \<Rightarrow> decode_error + login_post_ok" where
  "LoginPostOK_Decode L v =
     decode_object L ''LoginPostOK'' LoginPostOK_names 0b00000011
       (LoginPostOK_field L) LoginPostOK_zero v"

section \<open>LoginPostReq\<close>

definition LoginPostReq_encodeFields :: "login_post_req \<Rightarrow> (string \<times> json_doc) list" where
  "LoginPostReq_encodeFields s =
     [(''challengeToken'', D_Str (lq_challengeToken s)),
      (''authenticationResponse'', WebAuthnAuthenticationResponse_Encode (lq_authenticationResponse s))] @
     (if os_set (lq_deviceInfo s) then [(''deviceInfo'', OptString_Encode (lq_deviceInfo s))] else [])"

definition LoginPostReq_Encode :: "login_post_req \<Rightarrow> json_doc" where
  "LoginPostReq_Encode s = D_Obj (LoginPostReq_encodeFields s)"

definition LoginPostReq_names :: "string list" where
  "LoginPostReq_names = [''challengeToken'', ''authenticationResponse'', ''deviceInfo'']"

definition LoginPostReq_zero :: login_post_req where
  "LoginPostReq_zero = \<lparr>lq_challengeToken = [], lq_authenticationResponse = [], lq_deviceInfo = \<lparr>os_value = [], os_set = False\<rparr>\<rparr>"

definition LoginPostReq_field ::
  "jx \<Rightarrow> string \<Rightarrow> json_view \<Rightarrow> login_post_req \<times> 8 word \<Rightarrow>
   decode_error + login_post_req \<times> 8 word" where
  "LoginPostReq_field L k v = (\<lambda>(s, bits).
     if k = ''challengeToken'' then reading k (jx_Str L v)
            (\<lambda>x. s\<lparr>lq_challengeToken := x\<rparr>) (mark 0 bits)
     else if k = ''authenticationResponse'' then reading k (WebAuthnAuthenticationResponse_Decode v)
            (\<lambda>x. s\<lparr>lq_authenticationResponse := x\<rparr>) (mark 1 bits)
     else if k = ''deviceInfo'' then reading k (OptString_Decode L v)
            (\<lambda>x. s\<lparr>lq_deviceInfo := x\<rparr>) bits
     else skipping v (s, bits))"

definition LoginPostReq_Decode :: "jx \<Rightarrow> json_view \<Rightarrow> decode_error + login_post_req" where
  "LoginPostReq_Decode L v =
     decode_object L ''LoginPostReq'' LoginPostReq_names 0b00000011
       (LoginPostReq_field L) LoginPostReq_zero v"

section \<open>RegistrationBeginPostReq\<close>

definition RegistrationBeginPostReq_encodeFields :: "registration_begin_post_req \<Rightarrow> (string \<times> json_doc) list" where
  "RegistrationBeginPostReq_encodeFields s =
     [(''inviteCode'', D_Str (rbq_inviteCode s))]"

definition RegistrationBeginPostReq_Encode :: "registration_begin_post_req \<Rightarrow> json_doc" where
  "RegistrationBeginPostReq_Encode s = D_Obj (RegistrationBeginPostReq_encodeFields s)"

definition RegistrationBeginPostReq_names :: "string list" where
  "RegistrationBeginPostReq_names = [''inviteCode'']"

definition RegistrationBeginPostReq_zero :: registration_begin_post_req where
  "RegistrationBeginPostReq_zero = \<lparr>rbq_inviteCode = []\<rparr>"

definition RegistrationBeginPostReq_field ::
  "jx \<Rightarrow> string \<Rightarrow> json_view \<Rightarrow> registration_begin_post_req \<times> 8 word \<Rightarrow>
   decode_error + registration_begin_post_req \<times> 8 word" where
  "RegistrationBeginPostReq_field L k v = (\<lambda>(s, bits).
     if k = ''inviteCode'' then reading k (jx_Str L v)
            (\<lambda>x. s\<lparr>rbq_inviteCode := x\<rparr>) (mark 0 bits)
     else skipping v (s, bits))"

definition RegistrationBeginPostReq_Decode :: "jx \<Rightarrow> json_view \<Rightarrow> decode_error + registration_begin_post_req" where
  "RegistrationBeginPostReq_Decode L v =
     decode_object L ''RegistrationBeginPostReq'' RegistrationBeginPostReq_names 0b00000001
       (RegistrationBeginPostReq_field L) RegistrationBeginPostReq_zero v"

section \<open>RegistrationCompletePostReq\<close>

definition RegistrationCompletePostReq_encodeFields :: "registration_complete_post_req \<Rightarrow> (string \<times> json_doc) list" where
  "RegistrationCompletePostReq_encodeFields s =
     [(''challengeToken'', D_Str (rcq_challengeToken s)),
      (''registrationResponse'', WebAuthnRegistrationResponse_Encode (rcq_registrationResponse s)),
      (''wrappedKeys'', D_Arr (map WrappedKeyInput_Encode (rcq_wrappedKeys s)))] @
     (if os_set (rcq_deviceInfo s) then [(''deviceInfo'', OptString_Encode (rcq_deviceInfo s))] else [])"

definition RegistrationCompletePostReq_Encode :: "registration_complete_post_req \<Rightarrow> json_doc" where
  "RegistrationCompletePostReq_Encode s = D_Obj (RegistrationCompletePostReq_encodeFields s)"

definition RegistrationCompletePostReq_names :: "string list" where
  "RegistrationCompletePostReq_names = [''challengeToken'', ''registrationResponse'', ''wrappedKeys'', ''deviceInfo'']"

definition RegistrationCompletePostReq_zero :: registration_complete_post_req where
  "RegistrationCompletePostReq_zero = \<lparr>rcq_challengeToken = [], rcq_registrationResponse = [], rcq_wrappedKeys = [], rcq_deviceInfo = \<lparr>os_value = [], os_set = False\<rparr>\<rparr>"

definition RegistrationCompletePostReq_field ::
  "jx \<Rightarrow> string \<Rightarrow> json_view \<Rightarrow> registration_complete_post_req \<times> 8 word \<Rightarrow>
   decode_error + registration_complete_post_req \<times> 8 word" where
  "RegistrationCompletePostReq_field L k v = (\<lambda>(s, bits).
     if k = ''challengeToken'' then reading k (jx_Str L v)
            (\<lambda>x. s\<lparr>rcq_challengeToken := x\<rparr>) (mark 0 bits)
     else if k = ''registrationResponse'' then reading k (WebAuthnRegistrationResponse_Decode v)
            (\<lambda>x. s\<lparr>rcq_registrationResponse := x\<rparr>) (mark 1 bits)
     else if k = ''wrappedKeys'' then reading k (jx_Arr L (WrappedKeyInput_Decode L) v)
            (\<lambda>x. s\<lparr>rcq_wrappedKeys := x\<rparr>) (mark 2 bits)
     else if k = ''deviceInfo'' then reading k (OptString_Decode L v)
            (\<lambda>x. s\<lparr>rcq_deviceInfo := x\<rparr>) bits
     else skipping v (s, bits))"

definition RegistrationCompletePostReq_Decode :: "jx \<Rightarrow> json_view \<Rightarrow> decode_error + registration_complete_post_req" where
  "RegistrationCompletePostReq_Decode L v =
     decode_object L ''RegistrationCompletePostReq'' RegistrationCompletePostReq_names 0b00000111
       (RegistrationCompletePostReq_field L) RegistrationCompletePostReq_zero v"

section \<open>TokenRefreshPostReq\<close>

definition TokenRefreshPostReq_encodeFields :: "token_refresh_post_req \<Rightarrow> (string \<times> json_doc) list" where
  "TokenRefreshPostReq_encodeFields s =
     [(''refreshToken'', D_Str (trq_refreshToken s))]"

definition TokenRefreshPostReq_Encode :: "token_refresh_post_req \<Rightarrow> json_doc" where
  "TokenRefreshPostReq_Encode s = D_Obj (TokenRefreshPostReq_encodeFields s)"

definition TokenRefreshPostReq_names :: "string list" where
  "TokenRefreshPostReq_names = [''refreshToken'']"

definition TokenRefreshPostReq_zero :: token_refresh_post_req where
  "TokenRefreshPostReq_zero = \<lparr>trq_refreshToken = []\<rparr>"

definition TokenRefreshPostReq_field ::
  "jx \<Rightarrow> string \<Rightarrow> json_view \<Rightarrow> token_refresh_post_req \<times> 8 word \<Rightarrow>
   decode_error + token_refresh_post_req \<times> 8 word" where
  "TokenRefreshPostReq_field L k v = (\<lambda>(s, bits).
     if k = ''refreshToken'' then reading k (jx_Str L v)
            (\<lambda>x. s\<lparr>trq_refreshToken := x\<rparr>) (mark 0 bits)
     else skipping v (s, bits))"

definition TokenRefreshPostReq_Decode :: "jx \<Rightarrow> json_view \<Rightarrow> decode_error + token_refresh_post_req" where
  "TokenRefreshPostReq_Decode L v =
     decode_object L ''TokenRefreshPostReq'' TokenRefreshPostReq_names 0b00000001
       (TokenRefreshPostReq_field L) TokenRefreshPostReq_zero v"

section \<open>MarshalJSON and UnmarshalJSON\<close>

text \<open>
  \<open>e.Bytes()\<close> after \<open>Encode\<close>, and \<open>Decode\<close> on the bytes: what follows the value is not looked at.
\<close>

definition marshal_json :: "jx \<Rightarrow> json_doc \<Rightarrow> bytes" where
  "marshal_json L d = jx_write L d"

definition unmarshal_json :: "jx \<Rightarrow> (jx \<Rightarrow> json_view \<Rightarrow> decode_error + 'a) \<Rightarrow> bytes \<Rightarrow> decode_error + 'a" where
  "unmarshal_json L dec data = dec L (fst (jx_parse L data))"

definition ErrorResponse_MarshalJSON :: "jx \<Rightarrow> error_response \<Rightarrow> bytes" where
  "ErrorResponse_MarshalJSON L s = marshal_json L (ErrorResponse_Encode s)"

definition ErrorResponse_UnmarshalJSON :: "jx \<Rightarrow> bytes \<Rightarrow> decode_error + error_response" where
  "ErrorResponse_UnmarshalJSON L data = unmarshal_json L ErrorResponse_Decode data"

definition ErrorResponseError_MarshalJSON :: "jx \<Rightarrow> error_response_error \<Rightarrow> bytes" where
  "ErrorResponseError_MarshalJSON L s = marshal_json L (ErrorResponseError_Encode s)"

definition ErrorResponseError_UnmarshalJSON :: "jx \<Rightarrow> bytes \<Rightarrow> decode_error + error_response_error" where
  "ErrorResponseError_UnmarshalJSON L data = unmarshal_json L ErrorResponseError_Decode data"

definition Invite_MarshalJSON :: "jx \<Rightarrow> api_invite \<Rightarrow> bytes" where
  "Invite_MarshalJSON L s = marshal_json L (Invite_Encode s)"

definition Invite_UnmarshalJSON :: "jx \<Rightarrow> bytes \<Rightarrow> decode_error + api_invite" where
  "Invite_UnmarshalJSON L data = unmarshal_json L Invite_Decode data"

definition TokenPair_MarshalJSON :: "jx \<Rightarrow> token_pair \<Rightarrow> bytes" where
  "TokenPair_MarshalJSON L s = marshal_json L (TokenPair_Encode s)"

definition TokenPair_UnmarshalJSON :: "jx \<Rightarrow> bytes \<Rightarrow> decode_error + token_pair" where
  "TokenPair_UnmarshalJSON L data = unmarshal_json L TokenPair_Decode data"

definition LoginBeginPostOK_MarshalJSON :: "jx \<Rightarrow> login_begin_post_ok \<Rightarrow> bytes" where
  "LoginBeginPostOK_MarshalJSON L s = marshal_json L (LoginBeginPostOK_Encode s)"

definition LoginBeginPostOK_UnmarshalJSON :: "jx \<Rightarrow> bytes \<Rightarrow> decode_error + login_begin_post_ok" where
  "LoginBeginPostOK_UnmarshalJSON L data = unmarshal_json L LoginBeginPostOK_Decode data"

definition RegistrationBeginPostOK_MarshalJSON :: "jx \<Rightarrow> registration_begin_post_ok \<Rightarrow> bytes" where
  "RegistrationBeginPostOK_MarshalJSON L s = marshal_json L (RegistrationBeginPostOK_Encode s)"

definition RegistrationBeginPostOK_UnmarshalJSON :: "jx \<Rightarrow> bytes \<Rightarrow> decode_error + registration_begin_post_ok" where
  "RegistrationBeginPostOK_UnmarshalJSON L data = unmarshal_json L RegistrationBeginPostOK_Decode data"

definition WrappedKeyInput_MarshalJSON :: "jx \<Rightarrow> api_wrapped_key_input \<Rightarrow> bytes" where
  "WrappedKeyInput_MarshalJSON L s = marshal_json L (WrappedKeyInput_Encode s)"

definition WrappedKeyInput_UnmarshalJSON :: "jx \<Rightarrow> bytes \<Rightarrow> decode_error + api_wrapped_key_input" where
  "WrappedKeyInput_UnmarshalJSON L data = unmarshal_json L WrappedKeyInput_Decode data"

definition WrappedKeyOutput_MarshalJSON :: "jx \<Rightarrow> api_wrapped_key_output \<Rightarrow> bytes" where
  "WrappedKeyOutput_MarshalJSON L s = marshal_json L (WrappedKeyOutput_Encode s)"

definition WrappedKeyOutput_UnmarshalJSON :: "jx \<Rightarrow> bytes \<Rightarrow> decode_error + api_wrapped_key_output" where
  "WrappedKeyOutput_UnmarshalJSON L data = unmarshal_json L WrappedKeyOutput_Decode data"

definition LoginPostOK_MarshalJSON :: "jx \<Rightarrow> login_post_ok \<Rightarrow> bytes" where
  "LoginPostOK_MarshalJSON L s = marshal_json L (LoginPostOK_Encode s)"

definition LoginPostOK_UnmarshalJSON :: "jx \<Rightarrow> bytes \<Rightarrow> decode_error + login_post_ok" where
  "LoginPostOK_UnmarshalJSON L data = unmarshal_json L LoginPostOK_Decode data"

definition LoginPostReq_MarshalJSON :: "jx \<Rightarrow> login_post_req \<Rightarrow> bytes" where
  "LoginPostReq_MarshalJSON L s = marshal_json L (LoginPostReq_Encode s)"

definition LoginPostReq_UnmarshalJSON :: "jx \<Rightarrow> bytes \<Rightarrow> decode_error + login_post_req" where
  "LoginPostReq_UnmarshalJSON L data = unmarshal_json L LoginPostReq_Decode data"

definition RegistrationBeginPostReq_MarshalJSON :: "jx \<Rightarrow> registration_begin_post_req \<Rightarrow> bytes" where
  "RegistrationBeginPostReq_MarshalJSON L s = marshal_json L (RegistrationBeginPostReq_Encode s)"

definition RegistrationBeginPostReq_UnmarshalJSON :: "jx \<Rightarrow> bytes \<Rightarrow> decode_error + registration_begin_post_req" where
  "RegistrationBeginPostReq_UnmarshalJSON L data = unmarshal_json L RegistrationBeginPostReq_Decode data"

definition RegistrationCompletePostReq_MarshalJSON :: "jx \<Rightarrow> registration_complete_post_req \<Rightarrow> bytes" where
  "RegistrationCompletePostReq_MarshalJSON L s = marshal_json L (RegistrationCompletePostReq_Encode s)"

definition RegistrationCompletePostReq_UnmarshalJSON :: "jx \<Rightarrow> bytes \<Rightarrow> decode_error + registration_complete_post_req" where
  "RegistrationCompletePostReq_UnmarshalJSON L data = unmarshal_json L RegistrationCompletePostReq_Decode data"

definition TokenRefreshPostReq_MarshalJSON :: "jx \<Rightarrow> token_refresh_post_req \<Rightarrow> bytes" where
  "TokenRefreshPostReq_MarshalJSON L s = marshal_json L (TokenRefreshPostReq_Encode s)"

definition TokenRefreshPostReq_UnmarshalJSON :: "jx \<Rightarrow> bytes \<Rightarrow> decode_error + token_refresh_post_req" where
  "TokenRefreshPostReq_UnmarshalJSON L data = unmarshal_json L TokenRefreshPostReq_Decode data"

definition ErrorCode_MarshalJSON :: "jx \<Rightarrow> error_code \<Rightarrow> bytes" where
  "ErrorCode_MarshalJSON L s = marshal_json L (ErrorCode_Encode s)"

definition ErrorCode_UnmarshalJSON :: "jx \<Rightarrow> bytes \<Rightarrow> decode_error + error_code" where
  "ErrorCode_UnmarshalJSON L data = unmarshal_json L ErrorCode_Decode data"

definition WrappedKeyScope_MarshalJSON :: "jx \<Rightarrow> wrapped_key_scope \<Rightarrow> bytes" where
  "WrappedKeyScope_MarshalJSON L s = marshal_json L (WrappedKeyScope_Encode s)"

definition WrappedKeyScope_UnmarshalJSON :: "jx \<Rightarrow> bytes \<Rightarrow> decode_error + wrapped_key_scope" where
  "WrappedKeyScope_UnmarshalJSON L data = unmarshal_json L WrappedKeyScope_Decode data"

definition OptString_MarshalJSON :: "jx \<Rightarrow> opt_string \<Rightarrow> bytes" where
  "OptString_MarshalJSON L s = marshal_json L (OptString_Encode s)"

definition OptString_UnmarshalJSON :: "jx \<Rightarrow> bytes \<Rightarrow> decode_error + opt_string" where
  "OptString_UnmarshalJSON L data = unmarshal_json L OptString_Decode data"

definition WebAuthnAuthenticationResponse_MarshalJSON :: "jx \<Rightarrow> bytes \<Rightarrow> bytes" where
  "WebAuthnAuthenticationResponse_MarshalJSON L s = marshal_json L (WebAuthnAuthenticationResponse_Encode s)"

definition WebAuthnAuthenticationResponse_UnmarshalJSON :: "jx \<Rightarrow> bytes \<Rightarrow> decode_error + bytes" where
  "WebAuthnAuthenticationResponse_UnmarshalJSON L data = unmarshal_json L (\<lambda>_. WebAuthnAuthenticationResponse_Decode) data"

definition WebAuthnCreationOptions_MarshalJSON :: "jx \<Rightarrow> bytes \<Rightarrow> bytes" where
  "WebAuthnCreationOptions_MarshalJSON L s = marshal_json L (WebAuthnCreationOptions_Encode s)"

definition WebAuthnCreationOptions_UnmarshalJSON :: "jx \<Rightarrow> bytes \<Rightarrow> decode_error + bytes" where
  "WebAuthnCreationOptions_UnmarshalJSON L data = unmarshal_json L (\<lambda>_. WebAuthnCreationOptions_Decode) data"

definition WebAuthnRegistrationResponse_MarshalJSON :: "jx \<Rightarrow> bytes \<Rightarrow> bytes" where
  "WebAuthnRegistrationResponse_MarshalJSON L s = marshal_json L (WebAuthnRegistrationResponse_Encode s)"

definition WebAuthnRegistrationResponse_UnmarshalJSON :: "jx \<Rightarrow> bytes \<Rightarrow> decode_error + bytes" where
  "WebAuthnRegistrationResponse_UnmarshalJSON L data = unmarshal_json L (\<lambda>_. WebAuthnRegistrationResponse_Decode) data"

definition WebAuthnRequestOptions_MarshalJSON :: "jx \<Rightarrow> bytes \<Rightarrow> bytes" where
  "WebAuthnRequestOptions_MarshalJSON L s = marshal_json L (WebAuthnRequestOptions_Encode s)"

definition WebAuthnRequestOptions_UnmarshalJSON :: "jx \<Rightarrow> bytes \<Rightarrow> decode_error + bytes" where
  "WebAuthnRequestOptions_UnmarshalJSON L data = unmarshal_json L (\<lambda>_. WebAuthnRequestOptions_Decode) data"

end
