(* ===== verification/Http_Codec_Facts.thy ===== *)
theory Http_Codec_Facts
  imports Http_Codec
begin

unbundle bit_operations_syntax

text \<open>
  What reading an object promises, whatever its type: the contract \<open>object_fields\<close> says that a
  switch over field names marks exactly the bit of the field it has read, and yields that a
  decoded object has all its required fields, and that a refusal for missing fields names exactly
  those that are missing, in the order of the declaration. Then: what the library promises of the
  text it has written, and that the types read back.
\<close>

section \<open>Required fields\<close>

lemma decode_object_if:
  "decode_object L name names required field s0 v =
     (case jx_ObjBytes L field v (s0, 0) of
        Inl e \<Rightarrow> Inl (At (''decode '' @ name) e)
      | Inr (s, bits) \<Rightarrow>
          if missing_fields names required bits = [] then Inr s
          else Inl (Fields_Required (missing_fields names required bits)))"
  by (simp add: decode_object_def split: sum.split list.split)

definition required_names :: "string list \<Rightarrow> 8 word \<Rightarrow> string list" where
  "required_names names required = map ((!) names) (filter (bit required) [0..<8])"

locale object_fields =
  fixes field :: "string \<Rightarrow> json_view \<Rightarrow> 's \<times> 8 word \<Rightarrow> decode_error + 's \<times> 8 word"
    and names :: "string list" and required :: "8 word"
  assumes marks: "field k v (s, bits) = Inr (s', bits') \<Longrightarrow> i < 8 \<Longrightarrow> bit required i \<Longrightarrow>
      bit bits' i \<longleftrightarrow> bit bits i \<or> names ! i = k"
    and named: "i < 8 \<Longrightarrow> bit required i \<Longrightarrow> i < length names"
begin

lemma each_field_marks:
  assumes "each_field field fs (s, bits) = Inr (s', bits')" and "i < 8" and "bit required i"
  shows "bit bits' i \<longleftrightarrow> bit bits i \<or> names ! i \<in> fst ` set fs"
  using assms(1)
proof (induction fs arbitrary: s bits)
  case (Cons f fs)
  obtain k v where f: "f = (k, v)" by fastforce
  with Cons.prems obtain s1 b1 where one: "field k v (s, bits) = Inr (s1, b1)"
    and rest: "each_field field fs (s1, b1) = Inr (s', bits')"
    by (auto split: sum.splits)
  from Cons.IH [OF rest] marks [OF one assms(2,3)] show ?case by (auto simp: f)
qed simp

lemma missing_required:
  assumes "each_field field fs (s, 0) = Inr (s', bits)"
  shows "missing_fields names required bits = filter (\<lambda>n. n \<notin> fst ` set fs) (required_names names required)"
proof -
  have "filter (\<lambda>i. bit required i \<and> \<not> bit bits i) [0..<8] =
      filter (\<lambda>i. names ! i \<notin> fst ` set fs) (filter (bit required) [0..<8])"
    unfolding filter_filter
    by (rule filter_cong [OF refl]) (use each_field_marks [OF assms] in auto)
  moreover have "map (field_name names) (filter (\<lambda>i. names ! i \<notin> X) (filter (bit required) [0..<8])) =
      filter (\<lambda>n. n \<notin> X) (required_names names required)" for X
  proof -
    have "map (field_name names) (filter p (filter (bit required) [0..<8])) =
        map ((!) names) (filter p (filter (bit required) [0..<8]))" for p
      by (rule map_cong [OF refl]) (use named in \<open>auto simp: field_name_def\<close>)
    then show ?thesis by (simp add: required_names_def filter_map comp_def)
  qed
  ultimately show ?thesis by (simp only: missing_fields_eq)
qed

lemma ObjBytes_Inr:
  "jx_ObjBytes L field v st = Inr st' \<longleftrightarrow>
     (\<exists>raw fs. v = V_Obj raw fs None \<and> each_field field fs st = Inr st')"
  by (cases v) (auto simp: jx_ObjBytes_def split: sum.splits option.splits)

lemma decode_object_Inr:
  assumes "decode_object L name names required field s0 v = Inr s"
  shows "\<exists>raw fs. v = V_Obj raw fs None \<and> set (required_names names required) \<subseteq> fst ` set fs"
proof -
  obtain bits where "jx_ObjBytes L field v (s0, 0) = Inr (s, bits)"
    and none: "missing_fields names required bits = []"
    using assms by (auto simp: decode_object_if split: sum.splits if_splits)
  then obtain raw fs where v: "v = V_Obj raw fs None" and run: "each_field field fs (s0, 0) = Inr (s, bits)"
    by (auto simp: ObjBytes_Inr)
  from missing_required [OF run] none have "filter (\<lambda>n. n \<notin> fst ` set fs) (required_names names required) = []" by simp
  then show ?thesis using v by (auto simp: filter_empty_conv)
qed

lemma decode_object_missing:
  assumes "decode_object L name names required field s0 v = Inl (Fields_Required ms)"
  shows "ms \<noteq> [] \<and> (\<exists>raw fs. v = V_Obj raw fs None \<and> ms = filter (\<lambda>n. n \<notin> fst ` set fs) (required_names names required))"
proof -
  obtain s bits where "jx_ObjBytes L field v (s0, 0) = Inr (s, bits)"
    and ms: "missing_fields names required bits = ms" "ms \<noteq> []"
    using assms by (auto simp: decode_object_if split: sum.splits if_splits)
  then obtain raw fs where v: "v = V_Obj raw fs None" and run: "each_field field fs (s0, 0) = Inr (s, bits)"
    by (auto simp: ObjBytes_Inr)
  from missing_required [OF run] ms v show ?thesis by auto
qed

end

lemma reading_Inr:
  "reading k r store bits = Inr st \<longleftrightarrow> (\<exists>x. r = Inr x \<and> st = (store x, bits))"
  by (auto simp: reading_def split: sum.splits)

lemma skipping_Inr: "skipping v st = Inr st' \<longleftrightarrow> st' = st \<and> jx_Skip v = Inr ()"
  by (auto simp: skipping_def split: sum.splits)

lemma less_8_cases: "i < 8 \<Longrightarrow> i = 0 \<or> i = 1 \<or> i = 2 \<or> i = 3 \<or> i = 4 \<or> i = 5 \<or> i = 6 \<or> (i :: nat) = 7"
  by auto

interpretation login_req: object_fields "LoginPostReq_field L" LoginPostReq_names "0b00000011" for L
  by unfold_locales
    (auto simp: LoginPostReq_field_def LoginPostReq_names_def reading_Inr skipping_Inr bit_mark
      dest!: less_8_cases split: if_splits)


interpretation registration_begin_req:
  object_fields "RegistrationBeginPostReq_field L" RegistrationBeginPostReq_names "0b00000001" for L
  by unfold_locales
    (auto simp: RegistrationBeginPostReq_field_def RegistrationBeginPostReq_names_def reading_Inr
      skipping_Inr bit_mark dest!: less_8_cases split: if_splits)

interpretation registration_complete_req:
  object_fields "RegistrationCompletePostReq_field L" RegistrationCompletePostReq_names "0b00000111" for L
  by unfold_locales
    (auto simp: RegistrationCompletePostReq_field_def RegistrationCompletePostReq_names_def reading_Inr
      skipping_Inr bit_mark dest!: less_8_cases split: if_splits)

interpretation token_refresh_req:
  object_fields "TokenRefreshPostReq_field L" TokenRefreshPostReq_names "0b00000001" for L
  by unfold_locales
    (auto simp: TokenRefreshPostReq_field_def TokenRefreshPostReq_names_def reading_Inr
      skipping_Inr bit_mark dest!: less_8_cases split: if_splits)

interpretation wrapped_key_in:
  object_fields "WrappedKeyInput_field L" WrappedKeyInput_names "0b00000111" for L
  by unfold_locales
    (auto simp: WrappedKeyInput_field_def WrappedKeyInput_names_def reading_Inr
      skipping_Inr bit_mark dest!: less_8_cases split: if_splits)

lemma required_names_simps:
  "required_names LoginPostReq_names 3 = [''challengeToken'', ''authenticationResponse'']"
  "required_names RegistrationBeginPostReq_names 1 = [''inviteCode'']"
  "required_names RegistrationCompletePostReq_names 7 =
     [''challengeToken'', ''registrationResponse'', ''wrappedKeys'']"
  "required_names TokenRefreshPostReq_names 1 = [''refreshToken'']"
  "required_names WrappedKeyInput_names 7 = [''scope'', ''wrappedDek'', ''wrapAlgorithm'']"
  by (simp_all add: required_names_def LoginPostReq_names_def RegistrationBeginPostReq_names_def
      RegistrationCompletePostReq_names_def TokenRefreshPostReq_names_def WrappedKeyInput_names_def
      upt_rec)

section \<open>Reading back\<close>

text \<open>
  What the library is trusted with: the text it has written for a document is read as that
  document. Strings come back, base64 and instants are decoded by its own functions, a raw value
  comes back as its bytes. Of instants that can hold only of those that the text of RFC 3339 carries:
  a writer that leaves out fractions of a second reads back instants on a whole second alone.
\<close>

definition seen :: "jx \<Rightarrow> json_doc \<Rightarrow> json_view" where
  "seen L d = fst (jx_parse L (jx_write L d))"

fun jx_reads :: "jx \<Rightarrow> json_doc \<Rightarrow> bool" where
  "jx_reads L D_Nothing \<longleftrightarrow> False"
| "jx_reads L (D_Str s) \<longleftrightarrow> (\<exists>raw. seen L (D_Str s) = V_Str raw s)"
| "jx_reads L (D_Base64 b) \<longleftrightarrow> jx_base64 L (seen L (D_Base64 b)) = Inr b"
| "jx_reads L (D_DateTime t) \<longleftrightarrow> jx_datetime L (seen L (D_DateTime t)) = Inr t"
| "jx_reads L (D_Raw b) \<longleftrightarrow> jx_RawAppend (seen L (D_Raw b)) = Inr b"
| "jx_reads L (D_Arr ds) \<longleftrightarrow>
     (\<exists>raw. seen L (D_Arr ds) = V_Arr raw (map (seen L) ds) None) \<and> list_all (jx_reads L) ds"
| "jx_reads L (D_Obj fs) \<longleftrightarrow>
     (\<exists>raw. seen L (D_Obj fs) = V_Obj raw (map (\<lambda>(k, d). (k, seen L d)) fs) None) \<and>
     list_all (jx_reads L) (map snd fs)"

lemma seen_Str [simp]: "jx_reads L (D_Str s) \<Longrightarrow> jx_Str L (seen L (D_Str s)) = Inr s"
  by (auto simp: jx_Str_def)

lemma seen_base64 [simp]:
  "jx_reads L (D_Base64 b) \<Longrightarrow> jx_err (jx_base64 L (seen L (D_Base64 b))) = Inr b"
  by (simp add: jx_err_def)

lemma seen_WebAuthn [simp]:
  "jx_reads L (WebAuthnAuthenticationResponse_Encode b) \<Longrightarrow>
   WebAuthnAuthenticationResponse_Decode (seen L (WebAuthnAuthenticationResponse_Encode b)) = Inr b"
  "jx_reads L (WebAuthnRegistrationResponse_Encode b) \<Longrightarrow>
   WebAuthnRegistrationResponse_Decode (seen L (WebAuthnRegistrationResponse_Encode b)) = Inr b"
  by (auto simp: WebAuthnAuthenticationResponse_Encode_def WebAuthnAuthenticationResponse_Decode_def
      WebAuthnRegistrationResponse_Encode_def WebAuthnRegistrationResponse_Decode_def split: if_splits)

text \<open>An optional string that is not set has the zero value, as every reader leaves it.\<close>

definition opt_ok :: "opt_string \<Rightarrow> bool" where
  "opt_ok o' \<longleftrightarrow> os_set o' \<or> os_value o' = []"

lemma opt_ok_cases: "opt_ok o' \<Longrightarrow> \<not> os_set o' \<Longrightarrow> o' = \<lparr>os_value = [], os_set = False\<rparr>"
  by (cases o') (auto simp: opt_ok_def)

lemma seen_OptString [simp]:
  "os_set o' \<Longrightarrow> jx_reads L (OptString_Encode o') \<Longrightarrow>
   OptString_Decode L (seen L (OptString_Encode o')) = Inr o'"
  by (cases o') (auto simp: OptString_Encode_def OptString_Decode_def jx_Str_def)

lemma missing_marks [simp]:
  "missing_fields names 1 (mark 0 0) = []"
  "missing_fields names 3 (mark (Suc 0) (mark 0 0)) = []"
  "missing_fields names 7 (mark 2 (mark (Suc 0) (mark 0 0))) = []"
  by (simp_all add: missing_fields_def mark_def)

lemma seen_object:
  assumes "jx_reads L (D_Obj fs)"
  shows "jx_ObjBytes L f (seen L (D_Obj fs)) st =
    each_field f (map (\<lambda>(k, d). (k, seen L d)) fs) st"
  using assms by (auto simp: jx_ObjBytes_def split: sum.splits)

lemma seen_array:
  assumes "jx_reads L (D_Arr (map enc xs))" and "\<And>x. x \<in> set xs \<Longrightarrow> dec (seen L (enc x)) = Inr x"
  shows "jx_Arr L dec (seen L (D_Arr (map enc xs))) = Inr xs"
proof -
  have "each_elem dec (map (seen L \<circ> enc) xs) = Inr xs"
    using assms(2) by (induction xs) auto
  then show ?thesis using assms(1) by (auto simp: jx_Arr_def)
qed

text \<open>Decoding evaluated: the switch, the bits, and what the library is trusted with.\<close>

lemmas decode_eval =
  decode_object_def seen_object reading_def missing_marks
  TokenRefreshPostReq_Decode_def TokenRefreshPostReq_Encode_def TokenRefreshPostReq_encodeFields_def
  TokenRefreshPostReq_field_def TokenRefreshPostReq_zero_def
  RegistrationBeginPostReq_Decode_def RegistrationBeginPostReq_Encode_def
  RegistrationBeginPostReq_encodeFields_def RegistrationBeginPostReq_field_def
  RegistrationBeginPostReq_zero_def
  LoginPostReq_Decode_def LoginPostReq_Encode_def LoginPostReq_encodeFields_def
  LoginPostReq_field_def LoginPostReq_zero_def
  WrappedKeyInput_Decode_def WrappedKeyInput_Encode_def WrappedKeyInput_encodeFields_def
  WrappedKeyInput_field_def WrappedKeyInput_zero_def WrappedKeyScope_Encode_def
  WrappedKeyScope_Decode_def
  RegistrationCompletePostReq_Decode_def RegistrationCompletePostReq_Encode_def
  RegistrationCompletePostReq_encodeFields_def RegistrationCompletePostReq_field_def
  RegistrationCompletePostReq_zero_def

lemma TokenRefreshPostReq_reads:
  assumes "jx_reads L (TokenRefreshPostReq_Encode r)"
  shows "TokenRefreshPostReq_Decode L (seen L (TokenRefreshPostReq_Encode r)) = Inr r"
  using assms by (simp add: decode_eval del: jx_reads.simps(2))

lemma RegistrationBeginPostReq_reads:
  assumes "jx_reads L (RegistrationBeginPostReq_Encode r)"
  shows "RegistrationBeginPostReq_Decode L (seen L (RegistrationBeginPostReq_Encode r)) = Inr r"
  using assms by (simp add: decode_eval del: jx_reads.simps(2))

lemma WrappedKeyInput_reads:
  assumes "jx_reads L (WrappedKeyInput_Encode k)"
  shows "WrappedKeyInput_Decode L (seen L (WrappedKeyInput_Encode k)) = Inr k"
  using assms by (simp add: decode_eval del: jx_reads.simps(2,3))

lemma LoginPostReq_reads:
  assumes "jx_reads L (LoginPostReq_Encode r)" and "opt_ok (lq_deviceInfo r)"
  shows "LoginPostReq_Decode L (seen L (LoginPostReq_Encode r)) = Inr r"
  using assms opt_ok_cases [OF assms(2)]
  by (cases "os_set (lq_deviceInfo r)") (auto simp: decode_eval simp del: jx_reads.simps(2))

lemma RegistrationCompletePostReq_reads:
  assumes "jx_reads L (RegistrationCompletePostReq_Encode r)" and "opt_ok (rcq_deviceInfo r)"
  shows "RegistrationCompletePostReq_Decode L (seen L (RegistrationCompletePostReq_Encode r)) = Inr r"
proof -
  have arr: "jx_reads L (D_Arr (map WrappedKeyInput_Encode (rcq_wrappedKeys r)))"
    using assms(1) by (simp add: RegistrationCompletePostReq_Encode_def
        RegistrationCompletePostReq_encodeFields_def)
  then have "jx_Arr L (WrappedKeyInput_Decode L)
      (seen L (D_Arr (map WrappedKeyInput_Encode (rcq_wrappedKeys r)))) = Inr (rcq_wrappedKeys r)"
    by (rule seen_array) (use arr in \<open>auto simp: list_all_iff intro!: WrappedKeyInput_reads\<close>)
  then show ?thesis using assms opt_ok_cases [OF assms(2)]
    by (cases "os_set (rcq_deviceInfo r)")
      (auto simp: RegistrationCompletePostReq_Decode_def RegistrationCompletePostReq_Encode_def
        RegistrationCompletePostReq_encodeFields_def RegistrationCompletePostReq_field_def
        RegistrationCompletePostReq_zero_def decode_object_def seen_object reading_def
        simp del: jx_reads.simps(2,6))
qed

end
