(* ===== verification/Http_Request.thy ===== *)
theory Http_Request
  imports Http_Codec_Facts
begin

text \<open>
  What arrives and what is sent: the parts of a request the server reads, the response it writes,
  \<open>oas_parameters_gen.go\<close>, \<open>oas_request_decoders_gen.go\<close>, \<open>oas_request_encoders_gen.go\<close>,
  \<open>oas_validators_gen.go\<close> and \<open>oas_response_encoders_gen.go\<close>. The functions of \<open>mime\<close>, \<open>net/url\<close>
  and of ogen's run time that they call are parameters. The closers of a request decoder stay
  empty, so closing it does nothing; a write to the connection that fails is left out.
\<close>

section \<open>Requests, responses, parameters\<close>

datatype read_failure = Body_Too_Large string | Body_Error err

record http_request =
  hr_method :: string
  hr_path :: string
  hr_raw_path :: string
  hr_headers :: "(string \<times> string list) list"
  hr_remote_addr :: string
  hr_content_length :: int
  hr_body :: "read_failure + bytes"

text \<open>\<open>Header.Get\<close> of a canonical name: the first value, or the empty string.\<close>

definition Header_Get :: "http_request \<Rightarrow> string \<Rightarrow> string" where
  "Header_Get r name =
     (case map_of (hr_headers r) name of Some (v # _) \<Rightarrow> v | _ \<Rightarrow> [])"

record http_response =
  rs_status :: nat
  rs_headers :: "(string \<times> string) list"
  rs_body :: bytes

record api_libs =
  al_jx :: jx
  al_ParseMediaType :: "string \<Rightarrow> err + string"
  al_PathUnescape :: "string \<Rightarrow> err + string"
  al_NormalizeEscapedPath :: "string \<Rightarrow> string option"
  al_path_value :: "string \<Rightarrow> err + string"
  al_ToUUID :: "string \<Rightarrow> err + uuid"
  al_UUIDToString :: "uuid \<Rightarrow> string"
  al_header_value :: "string \<Rightarrow> err + string"
  al_ValidateLength :: "nat \<Rightarrow> nat \<Rightarrow> err option"
  al_error_text :: "err \<Rightarrow> string"

section \<open>oas_validators_gen.go\<close>

datatype validation_error =
    Invalid_Scope string
  | Invalid_Code string
  | Invalid_Array err
  | Invalid_Fields "(string \<times> validation_error) list"

definition ErrorCode_Validate :: "error_code \<Rightarrow> validation_error option" where
  "ErrorCode_Validate s = (if s \<in> set error_codes then None else Some (Invalid_Code s))"

definition ErrorResponseError_Validate :: "error_response_error \<Rightarrow> validation_error option" where
  "ErrorResponseError_Validate s =
     (case ErrorCode_Validate (er_code s) of
        None \<Rightarrow> None | Some e \<Rightarrow> Some (Invalid_Fields [(''code'', e)]))"

definition ErrorResponse_Validate :: "error_response \<Rightarrow> validation_error option" where
  "ErrorResponse_Validate s =
     (case ErrorResponseError_Validate (er_error s) of
        None \<Rightarrow> None | Some e \<Rightarrow> Some (Invalid_Fields [(''error'', e)]))"

definition WrappedKeyScope_Validate :: "wrapped_key_scope \<Rightarrow> validation_error option" where
  "WrappedKeyScope_Validate s =
     (if s = ''main'' then None else if s = ''decoy'' then None else Some (Invalid_Scope s))"

definition WrappedKeyInput_Validate :: "api_wrapped_key_input \<Rightarrow> validation_error option" where
  "WrappedKeyInput_Validate s =
     (case WrappedKeyScope_Validate (awk_scope s) of
        None \<Rightarrow> None | Some e \<Rightarrow> Some (Invalid_Fields [(''scope'', e)]))"

definition WrappedKeyOutput_Validate :: "api_wrapped_key_output \<Rightarrow> validation_error option" where
  "WrappedKeyOutput_Validate s =
     (case WrappedKeyScope_Validate (awk_scope s) of
        None \<Rightarrow> None | Some e \<Rightarrow> Some (Invalid_Fields [(''scope'', e)]))"

text \<open>The loop over the elements; \<open>i\<close> is the index of the first.\<close>

fun elem_failures ::
  "('a \<Rightarrow> validation_error option) \<Rightarrow> nat \<Rightarrow> 'a list \<Rightarrow> (string \<times> validation_error) list" where
  "elem_failures val i [] = []"
| "elem_failures val i (x # xs) =
     (case val x of None \<Rightarrow> [] | Some e \<Rightarrow> [(''['' @ itoa i @ '']'', e)]) @
     elem_failures val (Suc i) xs"

definition LoginPostOK_Validate :: "login_post_ok \<Rightarrow> validation_error option" where
  "LoginPostOK_Validate s =
     (let failures = elem_failures WrappedKeyOutput_Validate 0 (lp_wrappedKeys s) in
      if failures \<noteq> [] then Some (Invalid_Fields [(''wrappedKeys'', Invalid_Fields failures)]) else None)"

text \<open>A decoded request has a slice, not nil, in \<open>WrappedKeys\<close>: the field is required.\<close>

definition RegistrationCompletePostReq_Validate ::
  "api_libs \<Rightarrow> registration_complete_post_req \<Rightarrow> validation_error option" where
  "RegistrationCompletePostReq_Validate A s =
     (case al_ValidateLength A 1 (length (rcq_wrappedKeys s)) of
        Some e \<Rightarrow> Some (Invalid_Fields [(''wrappedKeys'', Invalid_Array e)])
      | None \<Rightarrow>
          (let failures = elem_failures WrappedKeyInput_Validate 0 (rcq_wrappedKeys s) in
           if failures \<noteq> [] then Some (Invalid_Fields [(''wrappedKeys'', Invalid_Fields failures)])
           else None))"

section \<open>oas_parameters_gen.go\<close>

datatype param_error =
    Unescape_Path err
  | Param_Required
  | Param_Value err

text \<open>One path parameter that is a UUID; the text is unescaped when the path was escaped.\<close>

definition decode_uuid_param :: "api_libs \<Rightarrow> string \<Rightarrow> bool \<Rightarrow> param_error + uuid" where
  "decode_uuid_param A arg argsEscaped =
     (case (if argsEscaped then al_PathUnescape A arg else Inr arg) of
        Inl e \<Rightarrow> Inl (Unescape_Path e)
      | Inr param \<Rightarrow>
          if param = [] then Inl Param_Required
          else (case al_path_value A param of
                  Inl e \<Rightarrow> Inl (Param_Value e)
                | Inr val \<Rightarrow> (case al_ToUUID A val of Inl e \<Rightarrow> Inl (Param_Value e) | Inr u \<Rightarrow> Inr u)))"

definition decodeAdminUsersUserIdRevokeChainPostParams ::
  "api_libs \<Rightarrow> string \<Rightarrow> bool \<Rightarrow> (string \<times> param_error) + uuid" where
  "decodeAdminUsersUserIdRevokeChainPostParams A arg argsEscaped =
     (case decode_uuid_param A arg argsEscaped of Inl e \<Rightarrow> Inl (''userId'', e) | Inr u \<Rightarrow> Inr u)"

definition decodeSessionsSessionIdDeleteParams ::
  "api_libs \<Rightarrow> string \<Rightarrow> bool \<Rightarrow> (string \<times> param_error) + uuid" where
  "decodeSessionsSessionIdDeleteParams A arg argsEscaped =
     (case decode_uuid_param A arg argsEscaped of Inl e \<Rightarrow> Inl (''sessionId'', e) | Inr u \<Rightarrow> Inr u)"

section \<open>oas_request_decoders_gen.go\<close>

datatype request_error =
    Media_Type err
  | Body_Required
  | Read_Failed read_failure
  | Decode_Body decode_error
  | Trailing_Data
  | Not_Valid validation_error
  | Invalid_Content_Type string

text \<open>
  The four decoders differ in the type they decode and in whether they validate it.
  \<open>jx_parse\<close> gives what follows the value without the white space, so \<open>Skip\<close> meets the end of the
  text exactly when that is empty.
\<close>

definition decode_request ::
  "api_libs \<Rightarrow> (jx \<Rightarrow> json_view \<Rightarrow> decode_error + 'a) \<Rightarrow> ('a \<Rightarrow> validation_error option) \<Rightarrow>
   http_request \<Rightarrow> request_error + 'a" where
  "decode_request A dec val r =
     (case al_ParseMediaType A (Header_Get r ''Content-Type'') of
        Inl e \<Rightarrow> Inl (Media_Type e)
      | Inr ct \<Rightarrow>
          if ct \<noteq> ''application/json'' then Inl (Invalid_Content_Type ct)
          else if hr_content_length r = 0 then Inl Body_Required
          else (case hr_body r of
                  Inl e \<Rightarrow> Inl (Read_Failed e)
                | Inr buf \<Rightarrow>
                    if buf = [] then Inl Body_Required
                    else (case jx_parse (al_jx A) buf of (v, rest) \<Rightarrow>
                      (case dec (al_jx A) v of
                         Inl e \<Rightarrow> Inl (Decode_Body e)
                       | Inr request \<Rightarrow>
                           if rest \<noteq> [] then Inl Trailing_Data
                           else (case val request of
                                   Some e \<Rightarrow> Inl (Not_Valid e) | None \<Rightarrow> Inr request)))))"

definition decodeLoginPostRequest :: "api_libs \<Rightarrow> http_request \<Rightarrow> request_error + login_post_req" where
  "decodeLoginPostRequest A r = decode_request A LoginPostReq_Decode (\<lambda>_. None) r"

definition decodeRegistrationBeginPostRequest ::
  "api_libs \<Rightarrow> http_request \<Rightarrow> request_error + registration_begin_post_req" where
  "decodeRegistrationBeginPostRequest A r = decode_request A RegistrationBeginPostReq_Decode (\<lambda>_. None) r"

definition decodeRegistrationCompletePostRequest ::
  "api_libs \<Rightarrow> http_request \<Rightarrow> request_error + registration_complete_post_req" where
  "decodeRegistrationCompletePostRequest A r =
     decode_request A RegistrationCompletePostReq_Decode (RegistrationCompletePostReq_Validate A) r"

definition decodeTokenRefreshPostRequest ::
  "api_libs \<Rightarrow> http_request \<Rightarrow> request_error + token_refresh_post_req" where
  "decodeTokenRefreshPostRequest A r = decode_request A TokenRefreshPostReq_Decode (\<lambda>_. None) r"

section \<open>oas_request_encoders_gen.go\<close>

text \<open>The client's side: the body is the encoded request, under its content type.\<close>

definition set_body :: "api_libs \<Rightarrow> json_doc \<Rightarrow> http_request \<Rightarrow> http_request" where
  "set_body A doc r =
     (let encoded = jx_write (al_jx A) doc in
      r\<lparr>hr_headers := (''Content-Type'', [''application/json'']) # hr_headers r,
        hr_content_length := int (length encoded), hr_body := Inr encoded\<rparr>)"

definition encodeLoginPostRequest :: "api_libs \<Rightarrow> login_post_req \<Rightarrow> http_request \<Rightarrow> http_request" where
  "encodeLoginPostRequest A req r = set_body A (LoginPostReq_Encode req) r"

definition encodeRegistrationBeginPostRequest ::
  "api_libs \<Rightarrow> registration_begin_post_req \<Rightarrow> http_request \<Rightarrow> http_request" where
  "encodeRegistrationBeginPostRequest A req r = set_body A (RegistrationBeginPostReq_Encode req) r"

definition encodeRegistrationCompletePostRequest ::
  "api_libs \<Rightarrow> registration_complete_post_req \<Rightarrow> http_request \<Rightarrow> http_request" where
  "encodeRegistrationCompletePostRequest A req r =
     set_body A (RegistrationCompletePostReq_Encode req) r"

definition encodeTokenRefreshPostRequest ::
  "api_libs \<Rightarrow> token_refresh_post_req \<Rightarrow> http_request \<Rightarrow> http_request" where
  "encodeTokenRefreshPostRequest A req r = set_body A (TokenRefreshPostReq_Encode req) r"

end
