(* ===== verification/Http_Alias.thy ===== *)
theory Http_Alias
  imports Http_Request
begin

text \<open>
  The error answers of each operation: in \<open>oas_schemas_gen.go\<close> each is a type of its own over
  \<open>ErrorResponse\<close>, with its own methods in \<open>oas_json_gen.go\<close> and \<open>oas_validators_gen.go\<close>. Decoding one
  wraps an error of the type below as \<open>alias\<close>.
\<close>

section \<open>The type below\<close>

definition alias_Decode :: "jx \<Rightarrow> json_view \<Rightarrow> decode_error + error_response" where
  "alias_Decode L v =
     (case ErrorResponse_Decode L v of Inl e \<Rightarrow> Inl (At ''alias'' e) | Inr r \<Rightarrow> Inr r)"

named_theorems alias_methods

section \<open>AdminUsersUserIdRevokeChainPostBadRequest\<close>

definition AdminUsersUserIdRevokeChainPostBadRequest_Encode :: "error_response \<Rightarrow> json_doc" where
  [alias_methods]: "AdminUsersUserIdRevokeChainPostBadRequest_Encode = ErrorResponse_Encode"

definition AdminUsersUserIdRevokeChainPostBadRequest_Decode :: "jx \<Rightarrow> json_view \<Rightarrow> decode_error + error_response" where
  [alias_methods]: "AdminUsersUserIdRevokeChainPostBadRequest_Decode = alias_Decode"

definition AdminUsersUserIdRevokeChainPostBadRequest_MarshalJSON :: "jx \<Rightarrow> error_response \<Rightarrow> bytes" where
  "AdminUsersUserIdRevokeChainPostBadRequest_MarshalJSON L s = marshal_json L (AdminUsersUserIdRevokeChainPostBadRequest_Encode s)"

definition AdminUsersUserIdRevokeChainPostBadRequest_UnmarshalJSON :: "jx \<Rightarrow> bytes \<Rightarrow> decode_error + error_response" where
  "AdminUsersUserIdRevokeChainPostBadRequest_UnmarshalJSON L data = unmarshal_json L AdminUsersUserIdRevokeChainPostBadRequest_Decode data"

definition AdminUsersUserIdRevokeChainPostBadRequest_Validate :: "error_response \<Rightarrow> validation_error option" where
  [alias_methods]: "AdminUsersUserIdRevokeChainPostBadRequest_Validate = ErrorResponse_Validate"

section \<open>AdminUsersUserIdRevokeChainPostUnauthorized\<close>

definition AdminUsersUserIdRevokeChainPostUnauthorized_Encode :: "error_response \<Rightarrow> json_doc" where
  [alias_methods]: "AdminUsersUserIdRevokeChainPostUnauthorized_Encode = ErrorResponse_Encode"

definition AdminUsersUserIdRevokeChainPostUnauthorized_Decode :: "jx \<Rightarrow> json_view \<Rightarrow> decode_error + error_response" where
  [alias_methods]: "AdminUsersUserIdRevokeChainPostUnauthorized_Decode = alias_Decode"

definition AdminUsersUserIdRevokeChainPostUnauthorized_MarshalJSON :: "jx \<Rightarrow> error_response \<Rightarrow> bytes" where
  "AdminUsersUserIdRevokeChainPostUnauthorized_MarshalJSON L s = marshal_json L (AdminUsersUserIdRevokeChainPostUnauthorized_Encode s)"

definition AdminUsersUserIdRevokeChainPostUnauthorized_UnmarshalJSON :: "jx \<Rightarrow> bytes \<Rightarrow> decode_error + error_response" where
  "AdminUsersUserIdRevokeChainPostUnauthorized_UnmarshalJSON L data = unmarshal_json L AdminUsersUserIdRevokeChainPostUnauthorized_Decode data"

definition AdminUsersUserIdRevokeChainPostUnauthorized_Validate :: "error_response \<Rightarrow> validation_error option" where
  [alias_methods]: "AdminUsersUserIdRevokeChainPostUnauthorized_Validate = ErrorResponse_Validate"

section \<open>AdminUsersUserIdRevokeChainPostForbidden\<close>

definition AdminUsersUserIdRevokeChainPostForbidden_Encode :: "error_response \<Rightarrow> json_doc" where
  [alias_methods]: "AdminUsersUserIdRevokeChainPostForbidden_Encode = ErrorResponse_Encode"

definition AdminUsersUserIdRevokeChainPostForbidden_Decode :: "jx \<Rightarrow> json_view \<Rightarrow> decode_error + error_response" where
  [alias_methods]: "AdminUsersUserIdRevokeChainPostForbidden_Decode = alias_Decode"

definition AdminUsersUserIdRevokeChainPostForbidden_MarshalJSON :: "jx \<Rightarrow> error_response \<Rightarrow> bytes" where
  "AdminUsersUserIdRevokeChainPostForbidden_MarshalJSON L s = marshal_json L (AdminUsersUserIdRevokeChainPostForbidden_Encode s)"

definition AdminUsersUserIdRevokeChainPostForbidden_UnmarshalJSON :: "jx \<Rightarrow> bytes \<Rightarrow> decode_error + error_response" where
  "AdminUsersUserIdRevokeChainPostForbidden_UnmarshalJSON L data = unmarshal_json L AdminUsersUserIdRevokeChainPostForbidden_Decode data"

definition AdminUsersUserIdRevokeChainPostForbidden_Validate :: "error_response \<Rightarrow> validation_error option" where
  [alias_methods]: "AdminUsersUserIdRevokeChainPostForbidden_Validate = ErrorResponse_Validate"

section \<open>AdminUsersUserIdRevokeChainPostNotFound\<close>

definition AdminUsersUserIdRevokeChainPostNotFound_Encode :: "error_response \<Rightarrow> json_doc" where
  [alias_methods]: "AdminUsersUserIdRevokeChainPostNotFound_Encode = ErrorResponse_Encode"

definition AdminUsersUserIdRevokeChainPostNotFound_Decode :: "jx \<Rightarrow> json_view \<Rightarrow> decode_error + error_response" where
  [alias_methods]: "AdminUsersUserIdRevokeChainPostNotFound_Decode = alias_Decode"

definition AdminUsersUserIdRevokeChainPostNotFound_MarshalJSON :: "jx \<Rightarrow> error_response \<Rightarrow> bytes" where
  "AdminUsersUserIdRevokeChainPostNotFound_MarshalJSON L s = marshal_json L (AdminUsersUserIdRevokeChainPostNotFound_Encode s)"

definition AdminUsersUserIdRevokeChainPostNotFound_UnmarshalJSON :: "jx \<Rightarrow> bytes \<Rightarrow> decode_error + error_response" where
  "AdminUsersUserIdRevokeChainPostNotFound_UnmarshalJSON L data = unmarshal_json L AdminUsersUserIdRevokeChainPostNotFound_Decode data"

definition AdminUsersUserIdRevokeChainPostNotFound_Validate :: "error_response \<Rightarrow> validation_error option" where
  [alias_methods]: "AdminUsersUserIdRevokeChainPostNotFound_Validate = ErrorResponse_Validate"

section \<open>AdminUsersUserIdRevokeChainPostInternalServerError\<close>

definition AdminUsersUserIdRevokeChainPostInternalServerError_Encode :: "error_response \<Rightarrow> json_doc" where
  [alias_methods]: "AdminUsersUserIdRevokeChainPostInternalServerError_Encode = ErrorResponse_Encode"

definition AdminUsersUserIdRevokeChainPostInternalServerError_Decode :: "jx \<Rightarrow> json_view \<Rightarrow> decode_error + error_response" where
  [alias_methods]: "AdminUsersUserIdRevokeChainPostInternalServerError_Decode = alias_Decode"

definition AdminUsersUserIdRevokeChainPostInternalServerError_MarshalJSON :: "jx \<Rightarrow> error_response \<Rightarrow> bytes" where
  "AdminUsersUserIdRevokeChainPostInternalServerError_MarshalJSON L s = marshal_json L (AdminUsersUserIdRevokeChainPostInternalServerError_Encode s)"

definition AdminUsersUserIdRevokeChainPostInternalServerError_UnmarshalJSON :: "jx \<Rightarrow> bytes \<Rightarrow> decode_error + error_response" where
  "AdminUsersUserIdRevokeChainPostInternalServerError_UnmarshalJSON L data = unmarshal_json L AdminUsersUserIdRevokeChainPostInternalServerError_Decode data"

definition AdminUsersUserIdRevokeChainPostInternalServerError_Validate :: "error_response \<Rightarrow> validation_error option" where
  [alias_methods]: "AdminUsersUserIdRevokeChainPostInternalServerError_Validate = ErrorResponse_Validate"

section \<open>AuthVerifyGetUnauthorized\<close>

definition AuthVerifyGetUnauthorized_Encode :: "error_response \<Rightarrow> json_doc" where
  [alias_methods]: "AuthVerifyGetUnauthorized_Encode = ErrorResponse_Encode"

definition AuthVerifyGetUnauthorized_Decode :: "jx \<Rightarrow> json_view \<Rightarrow> decode_error + error_response" where
  [alias_methods]: "AuthVerifyGetUnauthorized_Decode = alias_Decode"

definition AuthVerifyGetUnauthorized_MarshalJSON :: "jx \<Rightarrow> error_response \<Rightarrow> bytes" where
  "AuthVerifyGetUnauthorized_MarshalJSON L s = marshal_json L (AuthVerifyGetUnauthorized_Encode s)"

definition AuthVerifyGetUnauthorized_UnmarshalJSON :: "jx \<Rightarrow> bytes \<Rightarrow> decode_error + error_response" where
  "AuthVerifyGetUnauthorized_UnmarshalJSON L data = unmarshal_json L AuthVerifyGetUnauthorized_Decode data"

definition AuthVerifyGetUnauthorized_Validate :: "error_response \<Rightarrow> validation_error option" where
  [alias_methods]: "AuthVerifyGetUnauthorized_Validate = ErrorResponse_Validate"

section \<open>AuthVerifyGetInternalServerError\<close>

definition AuthVerifyGetInternalServerError_Encode :: "error_response \<Rightarrow> json_doc" where
  [alias_methods]: "AuthVerifyGetInternalServerError_Encode = ErrorResponse_Encode"

definition AuthVerifyGetInternalServerError_Decode :: "jx \<Rightarrow> json_view \<Rightarrow> decode_error + error_response" where
  [alias_methods]: "AuthVerifyGetInternalServerError_Decode = alias_Decode"

definition AuthVerifyGetInternalServerError_MarshalJSON :: "jx \<Rightarrow> error_response \<Rightarrow> bytes" where
  "AuthVerifyGetInternalServerError_MarshalJSON L s = marshal_json L (AuthVerifyGetInternalServerError_Encode s)"

definition AuthVerifyGetInternalServerError_UnmarshalJSON :: "jx \<Rightarrow> bytes \<Rightarrow> decode_error + error_response" where
  "AuthVerifyGetInternalServerError_UnmarshalJSON L data = unmarshal_json L AuthVerifyGetInternalServerError_Decode data"

definition AuthVerifyGetInternalServerError_Validate :: "error_response \<Rightarrow> validation_error option" where
  [alias_methods]: "AuthVerifyGetInternalServerError_Validate = ErrorResponse_Validate"

section \<open>InvitesPostBadRequest\<close>

definition InvitesPostBadRequest_Encode :: "error_response \<Rightarrow> json_doc" where
  [alias_methods]: "InvitesPostBadRequest_Encode = ErrorResponse_Encode"

definition InvitesPostBadRequest_Decode :: "jx \<Rightarrow> json_view \<Rightarrow> decode_error + error_response" where
  [alias_methods]: "InvitesPostBadRequest_Decode = alias_Decode"

definition InvitesPostBadRequest_MarshalJSON :: "jx \<Rightarrow> error_response \<Rightarrow> bytes" where
  "InvitesPostBadRequest_MarshalJSON L s = marshal_json L (InvitesPostBadRequest_Encode s)"

definition InvitesPostBadRequest_UnmarshalJSON :: "jx \<Rightarrow> bytes \<Rightarrow> decode_error + error_response" where
  "InvitesPostBadRequest_UnmarshalJSON L data = unmarshal_json L InvitesPostBadRequest_Decode data"

definition InvitesPostBadRequest_Validate :: "error_response \<Rightarrow> validation_error option" where
  [alias_methods]: "InvitesPostBadRequest_Validate = ErrorResponse_Validate"

section \<open>InvitesPostUnauthorized\<close>

definition InvitesPostUnauthorized_Encode :: "error_response \<Rightarrow> json_doc" where
  [alias_methods]: "InvitesPostUnauthorized_Encode = ErrorResponse_Encode"

definition InvitesPostUnauthorized_Decode :: "jx \<Rightarrow> json_view \<Rightarrow> decode_error + error_response" where
  [alias_methods]: "InvitesPostUnauthorized_Decode = alias_Decode"

definition InvitesPostUnauthorized_MarshalJSON :: "jx \<Rightarrow> error_response \<Rightarrow> bytes" where
  "InvitesPostUnauthorized_MarshalJSON L s = marshal_json L (InvitesPostUnauthorized_Encode s)"

definition InvitesPostUnauthorized_UnmarshalJSON :: "jx \<Rightarrow> bytes \<Rightarrow> decode_error + error_response" where
  "InvitesPostUnauthorized_UnmarshalJSON L data = unmarshal_json L InvitesPostUnauthorized_Decode data"

definition InvitesPostUnauthorized_Validate :: "error_response \<Rightarrow> validation_error option" where
  [alias_methods]: "InvitesPostUnauthorized_Validate = ErrorResponse_Validate"

section \<open>InvitesPostConflict\<close>

definition InvitesPostConflict_Encode :: "error_response \<Rightarrow> json_doc" where
  [alias_methods]: "InvitesPostConflict_Encode = ErrorResponse_Encode"

definition InvitesPostConflict_Decode :: "jx \<Rightarrow> json_view \<Rightarrow> decode_error + error_response" where
  [alias_methods]: "InvitesPostConflict_Decode = alias_Decode"

definition InvitesPostConflict_MarshalJSON :: "jx \<Rightarrow> error_response \<Rightarrow> bytes" where
  "InvitesPostConflict_MarshalJSON L s = marshal_json L (InvitesPostConflict_Encode s)"

definition InvitesPostConflict_UnmarshalJSON :: "jx \<Rightarrow> bytes \<Rightarrow> decode_error + error_response" where
  "InvitesPostConflict_UnmarshalJSON L data = unmarshal_json L InvitesPostConflict_Decode data"

definition InvitesPostConflict_Validate :: "error_response \<Rightarrow> validation_error option" where
  [alias_methods]: "InvitesPostConflict_Validate = ErrorResponse_Validate"

section \<open>InvitesPostInternalServerError\<close>

definition InvitesPostInternalServerError_Encode :: "error_response \<Rightarrow> json_doc" where
  [alias_methods]: "InvitesPostInternalServerError_Encode = ErrorResponse_Encode"

definition InvitesPostInternalServerError_Decode :: "jx \<Rightarrow> json_view \<Rightarrow> decode_error + error_response" where
  [alias_methods]: "InvitesPostInternalServerError_Decode = alias_Decode"

definition InvitesPostInternalServerError_MarshalJSON :: "jx \<Rightarrow> error_response \<Rightarrow> bytes" where
  "InvitesPostInternalServerError_MarshalJSON L s = marshal_json L (InvitesPostInternalServerError_Encode s)"

definition InvitesPostInternalServerError_UnmarshalJSON :: "jx \<Rightarrow> bytes \<Rightarrow> decode_error + error_response" where
  "InvitesPostInternalServerError_UnmarshalJSON L data = unmarshal_json L InvitesPostInternalServerError_Decode data"

definition InvitesPostInternalServerError_Validate :: "error_response \<Rightarrow> validation_error option" where
  [alias_methods]: "InvitesPostInternalServerError_Validate = ErrorResponse_Validate"

section \<open>LoginPostBadRequest\<close>

definition LoginPostBadRequest_Encode :: "error_response \<Rightarrow> json_doc" where
  [alias_methods]: "LoginPostBadRequest_Encode = ErrorResponse_Encode"

definition LoginPostBadRequest_Decode :: "jx \<Rightarrow> json_view \<Rightarrow> decode_error + error_response" where
  [alias_methods]: "LoginPostBadRequest_Decode = alias_Decode"

definition LoginPostBadRequest_MarshalJSON :: "jx \<Rightarrow> error_response \<Rightarrow> bytes" where
  "LoginPostBadRequest_MarshalJSON L s = marshal_json L (LoginPostBadRequest_Encode s)"

definition LoginPostBadRequest_UnmarshalJSON :: "jx \<Rightarrow> bytes \<Rightarrow> decode_error + error_response" where
  "LoginPostBadRequest_UnmarshalJSON L data = unmarshal_json L LoginPostBadRequest_Decode data"

definition LoginPostBadRequest_Validate :: "error_response \<Rightarrow> validation_error option" where
  [alias_methods]: "LoginPostBadRequest_Validate = ErrorResponse_Validate"

section \<open>LoginPostUnauthorized\<close>

definition LoginPostUnauthorized_Encode :: "error_response \<Rightarrow> json_doc" where
  [alias_methods]: "LoginPostUnauthorized_Encode = ErrorResponse_Encode"

definition LoginPostUnauthorized_Decode :: "jx \<Rightarrow> json_view \<Rightarrow> decode_error + error_response" where
  [alias_methods]: "LoginPostUnauthorized_Decode = alias_Decode"

definition LoginPostUnauthorized_MarshalJSON :: "jx \<Rightarrow> error_response \<Rightarrow> bytes" where
  "LoginPostUnauthorized_MarshalJSON L s = marshal_json L (LoginPostUnauthorized_Encode s)"

definition LoginPostUnauthorized_UnmarshalJSON :: "jx \<Rightarrow> bytes \<Rightarrow> decode_error + error_response" where
  "LoginPostUnauthorized_UnmarshalJSON L data = unmarshal_json L LoginPostUnauthorized_Decode data"

definition LoginPostUnauthorized_Validate :: "error_response \<Rightarrow> validation_error option" where
  [alias_methods]: "LoginPostUnauthorized_Validate = ErrorResponse_Validate"

section \<open>LoginPostInternalServerError\<close>

definition LoginPostInternalServerError_Encode :: "error_response \<Rightarrow> json_doc" where
  [alias_methods]: "LoginPostInternalServerError_Encode = ErrorResponse_Encode"

definition LoginPostInternalServerError_Decode :: "jx \<Rightarrow> json_view \<Rightarrow> decode_error + error_response" where
  [alias_methods]: "LoginPostInternalServerError_Decode = alias_Decode"

definition LoginPostInternalServerError_MarshalJSON :: "jx \<Rightarrow> error_response \<Rightarrow> bytes" where
  "LoginPostInternalServerError_MarshalJSON L s = marshal_json L (LoginPostInternalServerError_Encode s)"

definition LoginPostInternalServerError_UnmarshalJSON :: "jx \<Rightarrow> bytes \<Rightarrow> decode_error + error_response" where
  "LoginPostInternalServerError_UnmarshalJSON L data = unmarshal_json L LoginPostInternalServerError_Decode data"

definition LoginPostInternalServerError_Validate :: "error_response \<Rightarrow> validation_error option" where
  [alias_methods]: "LoginPostInternalServerError_Validate = ErrorResponse_Validate"

section \<open>RegistrationBeginPostBadRequest\<close>

definition RegistrationBeginPostBadRequest_Encode :: "error_response \<Rightarrow> json_doc" where
  [alias_methods]: "RegistrationBeginPostBadRequest_Encode = ErrorResponse_Encode"

definition RegistrationBeginPostBadRequest_Decode :: "jx \<Rightarrow> json_view \<Rightarrow> decode_error + error_response" where
  [alias_methods]: "RegistrationBeginPostBadRequest_Decode = alias_Decode"

definition RegistrationBeginPostBadRequest_MarshalJSON :: "jx \<Rightarrow> error_response \<Rightarrow> bytes" where
  "RegistrationBeginPostBadRequest_MarshalJSON L s = marshal_json L (RegistrationBeginPostBadRequest_Encode s)"

definition RegistrationBeginPostBadRequest_UnmarshalJSON :: "jx \<Rightarrow> bytes \<Rightarrow> decode_error + error_response" where
  "RegistrationBeginPostBadRequest_UnmarshalJSON L data = unmarshal_json L RegistrationBeginPostBadRequest_Decode data"

definition RegistrationBeginPostBadRequest_Validate :: "error_response \<Rightarrow> validation_error option" where
  [alias_methods]: "RegistrationBeginPostBadRequest_Validate = ErrorResponse_Validate"

section \<open>RegistrationBeginPostNotFound\<close>

definition RegistrationBeginPostNotFound_Encode :: "error_response \<Rightarrow> json_doc" where
  [alias_methods]: "RegistrationBeginPostNotFound_Encode = ErrorResponse_Encode"

definition RegistrationBeginPostNotFound_Decode :: "jx \<Rightarrow> json_view \<Rightarrow> decode_error + error_response" where
  [alias_methods]: "RegistrationBeginPostNotFound_Decode = alias_Decode"

definition RegistrationBeginPostNotFound_MarshalJSON :: "jx \<Rightarrow> error_response \<Rightarrow> bytes" where
  "RegistrationBeginPostNotFound_MarshalJSON L s = marshal_json L (RegistrationBeginPostNotFound_Encode s)"

definition RegistrationBeginPostNotFound_UnmarshalJSON :: "jx \<Rightarrow> bytes \<Rightarrow> decode_error + error_response" where
  "RegistrationBeginPostNotFound_UnmarshalJSON L data = unmarshal_json L RegistrationBeginPostNotFound_Decode data"

definition RegistrationBeginPostNotFound_Validate :: "error_response \<Rightarrow> validation_error option" where
  [alias_methods]: "RegistrationBeginPostNotFound_Validate = ErrorResponse_Validate"

section \<open>RegistrationBeginPostConflict\<close>

definition RegistrationBeginPostConflict_Encode :: "error_response \<Rightarrow> json_doc" where
  [alias_methods]: "RegistrationBeginPostConflict_Encode = ErrorResponse_Encode"

definition RegistrationBeginPostConflict_Decode :: "jx \<Rightarrow> json_view \<Rightarrow> decode_error + error_response" where
  [alias_methods]: "RegistrationBeginPostConflict_Decode = alias_Decode"

definition RegistrationBeginPostConflict_MarshalJSON :: "jx \<Rightarrow> error_response \<Rightarrow> bytes" where
  "RegistrationBeginPostConflict_MarshalJSON L s = marshal_json L (RegistrationBeginPostConflict_Encode s)"

definition RegistrationBeginPostConflict_UnmarshalJSON :: "jx \<Rightarrow> bytes \<Rightarrow> decode_error + error_response" where
  "RegistrationBeginPostConflict_UnmarshalJSON L data = unmarshal_json L RegistrationBeginPostConflict_Decode data"

definition RegistrationBeginPostConflict_Validate :: "error_response \<Rightarrow> validation_error option" where
  [alias_methods]: "RegistrationBeginPostConflict_Validate = ErrorResponse_Validate"

section \<open>RegistrationBeginPostInternalServerError\<close>

definition RegistrationBeginPostInternalServerError_Encode :: "error_response \<Rightarrow> json_doc" where
  [alias_methods]: "RegistrationBeginPostInternalServerError_Encode = ErrorResponse_Encode"

definition RegistrationBeginPostInternalServerError_Decode :: "jx \<Rightarrow> json_view \<Rightarrow> decode_error + error_response" where
  [alias_methods]: "RegistrationBeginPostInternalServerError_Decode = alias_Decode"

definition RegistrationBeginPostInternalServerError_MarshalJSON :: "jx \<Rightarrow> error_response \<Rightarrow> bytes" where
  "RegistrationBeginPostInternalServerError_MarshalJSON L s = marshal_json L (RegistrationBeginPostInternalServerError_Encode s)"

definition RegistrationBeginPostInternalServerError_UnmarshalJSON :: "jx \<Rightarrow> bytes \<Rightarrow> decode_error + error_response" where
  "RegistrationBeginPostInternalServerError_UnmarshalJSON L data = unmarshal_json L RegistrationBeginPostInternalServerError_Decode data"

definition RegistrationBeginPostInternalServerError_Validate :: "error_response \<Rightarrow> validation_error option" where
  [alias_methods]: "RegistrationBeginPostInternalServerError_Validate = ErrorResponse_Validate"

section \<open>RegistrationCompletePostBadRequest\<close>

definition RegistrationCompletePostBadRequest_Encode :: "error_response \<Rightarrow> json_doc" where
  [alias_methods]: "RegistrationCompletePostBadRequest_Encode = ErrorResponse_Encode"

definition RegistrationCompletePostBadRequest_Decode :: "jx \<Rightarrow> json_view \<Rightarrow> decode_error + error_response" where
  [alias_methods]: "RegistrationCompletePostBadRequest_Decode = alias_Decode"

definition RegistrationCompletePostBadRequest_MarshalJSON :: "jx \<Rightarrow> error_response \<Rightarrow> bytes" where
  "RegistrationCompletePostBadRequest_MarshalJSON L s = marshal_json L (RegistrationCompletePostBadRequest_Encode s)"

definition RegistrationCompletePostBadRequest_UnmarshalJSON :: "jx \<Rightarrow> bytes \<Rightarrow> decode_error + error_response" where
  "RegistrationCompletePostBadRequest_UnmarshalJSON L data = unmarshal_json L RegistrationCompletePostBadRequest_Decode data"

definition RegistrationCompletePostBadRequest_Validate :: "error_response \<Rightarrow> validation_error option" where
  [alias_methods]: "RegistrationCompletePostBadRequest_Validate = ErrorResponse_Validate"

section \<open>RegistrationCompletePostUnauthorized\<close>

definition RegistrationCompletePostUnauthorized_Encode :: "error_response \<Rightarrow> json_doc" where
  [alias_methods]: "RegistrationCompletePostUnauthorized_Encode = ErrorResponse_Encode"

definition RegistrationCompletePostUnauthorized_Decode :: "jx \<Rightarrow> json_view \<Rightarrow> decode_error + error_response" where
  [alias_methods]: "RegistrationCompletePostUnauthorized_Decode = alias_Decode"

definition RegistrationCompletePostUnauthorized_MarshalJSON :: "jx \<Rightarrow> error_response \<Rightarrow> bytes" where
  "RegistrationCompletePostUnauthorized_MarshalJSON L s = marshal_json L (RegistrationCompletePostUnauthorized_Encode s)"

definition RegistrationCompletePostUnauthorized_UnmarshalJSON :: "jx \<Rightarrow> bytes \<Rightarrow> decode_error + error_response" where
  "RegistrationCompletePostUnauthorized_UnmarshalJSON L data = unmarshal_json L RegistrationCompletePostUnauthorized_Decode data"

definition RegistrationCompletePostUnauthorized_Validate :: "error_response \<Rightarrow> validation_error option" where
  [alias_methods]: "RegistrationCompletePostUnauthorized_Validate = ErrorResponse_Validate"

section \<open>RegistrationCompletePostNotFound\<close>

definition RegistrationCompletePostNotFound_Encode :: "error_response \<Rightarrow> json_doc" where
  [alias_methods]: "RegistrationCompletePostNotFound_Encode = ErrorResponse_Encode"

definition RegistrationCompletePostNotFound_Decode :: "jx \<Rightarrow> json_view \<Rightarrow> decode_error + error_response" where
  [alias_methods]: "RegistrationCompletePostNotFound_Decode = alias_Decode"

definition RegistrationCompletePostNotFound_MarshalJSON :: "jx \<Rightarrow> error_response \<Rightarrow> bytes" where
  "RegistrationCompletePostNotFound_MarshalJSON L s = marshal_json L (RegistrationCompletePostNotFound_Encode s)"

definition RegistrationCompletePostNotFound_UnmarshalJSON :: "jx \<Rightarrow> bytes \<Rightarrow> decode_error + error_response" where
  "RegistrationCompletePostNotFound_UnmarshalJSON L data = unmarshal_json L RegistrationCompletePostNotFound_Decode data"

definition RegistrationCompletePostNotFound_Validate :: "error_response \<Rightarrow> validation_error option" where
  [alias_methods]: "RegistrationCompletePostNotFound_Validate = ErrorResponse_Validate"

section \<open>RegistrationCompletePostConflict\<close>

definition RegistrationCompletePostConflict_Encode :: "error_response \<Rightarrow> json_doc" where
  [alias_methods]: "RegistrationCompletePostConflict_Encode = ErrorResponse_Encode"

definition RegistrationCompletePostConflict_Decode :: "jx \<Rightarrow> json_view \<Rightarrow> decode_error + error_response" where
  [alias_methods]: "RegistrationCompletePostConflict_Decode = alias_Decode"

definition RegistrationCompletePostConflict_MarshalJSON :: "jx \<Rightarrow> error_response \<Rightarrow> bytes" where
  "RegistrationCompletePostConflict_MarshalJSON L s = marshal_json L (RegistrationCompletePostConflict_Encode s)"

definition RegistrationCompletePostConflict_UnmarshalJSON :: "jx \<Rightarrow> bytes \<Rightarrow> decode_error + error_response" where
  "RegistrationCompletePostConflict_UnmarshalJSON L data = unmarshal_json L RegistrationCompletePostConflict_Decode data"

definition RegistrationCompletePostConflict_Validate :: "error_response \<Rightarrow> validation_error option" where
  [alias_methods]: "RegistrationCompletePostConflict_Validate = ErrorResponse_Validate"

section \<open>RegistrationCompletePostInternalServerError\<close>

definition RegistrationCompletePostInternalServerError_Encode :: "error_response \<Rightarrow> json_doc" where
  [alias_methods]: "RegistrationCompletePostInternalServerError_Encode = ErrorResponse_Encode"

definition RegistrationCompletePostInternalServerError_Decode :: "jx \<Rightarrow> json_view \<Rightarrow> decode_error + error_response" where
  [alias_methods]: "RegistrationCompletePostInternalServerError_Decode = alias_Decode"

definition RegistrationCompletePostInternalServerError_MarshalJSON :: "jx \<Rightarrow> error_response \<Rightarrow> bytes" where
  "RegistrationCompletePostInternalServerError_MarshalJSON L s = marshal_json L (RegistrationCompletePostInternalServerError_Encode s)"

definition RegistrationCompletePostInternalServerError_UnmarshalJSON :: "jx \<Rightarrow> bytes \<Rightarrow> decode_error + error_response" where
  "RegistrationCompletePostInternalServerError_UnmarshalJSON L data = unmarshal_json L RegistrationCompletePostInternalServerError_Decode data"

definition RegistrationCompletePostInternalServerError_Validate :: "error_response \<Rightarrow> validation_error option" where
  [alias_methods]: "RegistrationCompletePostInternalServerError_Validate = ErrorResponse_Validate"

section \<open>SessionsSessionIdDeleteBadRequest\<close>

definition SessionsSessionIdDeleteBadRequest_Encode :: "error_response \<Rightarrow> json_doc" where
  [alias_methods]: "SessionsSessionIdDeleteBadRequest_Encode = ErrorResponse_Encode"

definition SessionsSessionIdDeleteBadRequest_Decode :: "jx \<Rightarrow> json_view \<Rightarrow> decode_error + error_response" where
  [alias_methods]: "SessionsSessionIdDeleteBadRequest_Decode = alias_Decode"

definition SessionsSessionIdDeleteBadRequest_MarshalJSON :: "jx \<Rightarrow> error_response \<Rightarrow> bytes" where
  "SessionsSessionIdDeleteBadRequest_MarshalJSON L s = marshal_json L (SessionsSessionIdDeleteBadRequest_Encode s)"

definition SessionsSessionIdDeleteBadRequest_UnmarshalJSON :: "jx \<Rightarrow> bytes \<Rightarrow> decode_error + error_response" where
  "SessionsSessionIdDeleteBadRequest_UnmarshalJSON L data = unmarshal_json L SessionsSessionIdDeleteBadRequest_Decode data"

definition SessionsSessionIdDeleteBadRequest_Validate :: "error_response \<Rightarrow> validation_error option" where
  [alias_methods]: "SessionsSessionIdDeleteBadRequest_Validate = ErrorResponse_Validate"

section \<open>SessionsSessionIdDeleteUnauthorized\<close>

definition SessionsSessionIdDeleteUnauthorized_Encode :: "error_response \<Rightarrow> json_doc" where
  [alias_methods]: "SessionsSessionIdDeleteUnauthorized_Encode = ErrorResponse_Encode"

definition SessionsSessionIdDeleteUnauthorized_Decode :: "jx \<Rightarrow> json_view \<Rightarrow> decode_error + error_response" where
  [alias_methods]: "SessionsSessionIdDeleteUnauthorized_Decode = alias_Decode"

definition SessionsSessionIdDeleteUnauthorized_MarshalJSON :: "jx \<Rightarrow> error_response \<Rightarrow> bytes" where
  "SessionsSessionIdDeleteUnauthorized_MarshalJSON L s = marshal_json L (SessionsSessionIdDeleteUnauthorized_Encode s)"

definition SessionsSessionIdDeleteUnauthorized_UnmarshalJSON :: "jx \<Rightarrow> bytes \<Rightarrow> decode_error + error_response" where
  "SessionsSessionIdDeleteUnauthorized_UnmarshalJSON L data = unmarshal_json L SessionsSessionIdDeleteUnauthorized_Decode data"

definition SessionsSessionIdDeleteUnauthorized_Validate :: "error_response \<Rightarrow> validation_error option" where
  [alias_methods]: "SessionsSessionIdDeleteUnauthorized_Validate = ErrorResponse_Validate"

section \<open>SessionsSessionIdDeleteForbidden\<close>

definition SessionsSessionIdDeleteForbidden_Encode :: "error_response \<Rightarrow> json_doc" where
  [alias_methods]: "SessionsSessionIdDeleteForbidden_Encode = ErrorResponse_Encode"

definition SessionsSessionIdDeleteForbidden_Decode :: "jx \<Rightarrow> json_view \<Rightarrow> decode_error + error_response" where
  [alias_methods]: "SessionsSessionIdDeleteForbidden_Decode = alias_Decode"

definition SessionsSessionIdDeleteForbidden_MarshalJSON :: "jx \<Rightarrow> error_response \<Rightarrow> bytes" where
  "SessionsSessionIdDeleteForbidden_MarshalJSON L s = marshal_json L (SessionsSessionIdDeleteForbidden_Encode s)"

definition SessionsSessionIdDeleteForbidden_UnmarshalJSON :: "jx \<Rightarrow> bytes \<Rightarrow> decode_error + error_response" where
  "SessionsSessionIdDeleteForbidden_UnmarshalJSON L data = unmarshal_json L SessionsSessionIdDeleteForbidden_Decode data"

definition SessionsSessionIdDeleteForbidden_Validate :: "error_response \<Rightarrow> validation_error option" where
  [alias_methods]: "SessionsSessionIdDeleteForbidden_Validate = ErrorResponse_Validate"

section \<open>SessionsSessionIdDeleteNotFound\<close>

definition SessionsSessionIdDeleteNotFound_Encode :: "error_response \<Rightarrow> json_doc" where
  [alias_methods]: "SessionsSessionIdDeleteNotFound_Encode = ErrorResponse_Encode"

definition SessionsSessionIdDeleteNotFound_Decode :: "jx \<Rightarrow> json_view \<Rightarrow> decode_error + error_response" where
  [alias_methods]: "SessionsSessionIdDeleteNotFound_Decode = alias_Decode"

definition SessionsSessionIdDeleteNotFound_MarshalJSON :: "jx \<Rightarrow> error_response \<Rightarrow> bytes" where
  "SessionsSessionIdDeleteNotFound_MarshalJSON L s = marshal_json L (SessionsSessionIdDeleteNotFound_Encode s)"

definition SessionsSessionIdDeleteNotFound_UnmarshalJSON :: "jx \<Rightarrow> bytes \<Rightarrow> decode_error + error_response" where
  "SessionsSessionIdDeleteNotFound_UnmarshalJSON L data = unmarshal_json L SessionsSessionIdDeleteNotFound_Decode data"

definition SessionsSessionIdDeleteNotFound_Validate :: "error_response \<Rightarrow> validation_error option" where
  [alias_methods]: "SessionsSessionIdDeleteNotFound_Validate = ErrorResponse_Validate"

section \<open>SessionsSessionIdDeleteInternalServerError\<close>

definition SessionsSessionIdDeleteInternalServerError_Encode :: "error_response \<Rightarrow> json_doc" where
  [alias_methods]: "SessionsSessionIdDeleteInternalServerError_Encode = ErrorResponse_Encode"

definition SessionsSessionIdDeleteInternalServerError_Decode :: "jx \<Rightarrow> json_view \<Rightarrow> decode_error + error_response" where
  [alias_methods]: "SessionsSessionIdDeleteInternalServerError_Decode = alias_Decode"

definition SessionsSessionIdDeleteInternalServerError_MarshalJSON :: "jx \<Rightarrow> error_response \<Rightarrow> bytes" where
  "SessionsSessionIdDeleteInternalServerError_MarshalJSON L s = marshal_json L (SessionsSessionIdDeleteInternalServerError_Encode s)"

definition SessionsSessionIdDeleteInternalServerError_UnmarshalJSON :: "jx \<Rightarrow> bytes \<Rightarrow> decode_error + error_response" where
  "SessionsSessionIdDeleteInternalServerError_UnmarshalJSON L data = unmarshal_json L SessionsSessionIdDeleteInternalServerError_Decode data"

definition SessionsSessionIdDeleteInternalServerError_Validate :: "error_response \<Rightarrow> validation_error option" where
  [alias_methods]: "SessionsSessionIdDeleteInternalServerError_Validate = ErrorResponse_Validate"

section \<open>TokenRefreshPostBadRequest\<close>

definition TokenRefreshPostBadRequest_Encode :: "error_response \<Rightarrow> json_doc" where
  [alias_methods]: "TokenRefreshPostBadRequest_Encode = ErrorResponse_Encode"

definition TokenRefreshPostBadRequest_Decode :: "jx \<Rightarrow> json_view \<Rightarrow> decode_error + error_response" where
  [alias_methods]: "TokenRefreshPostBadRequest_Decode = alias_Decode"

definition TokenRefreshPostBadRequest_MarshalJSON :: "jx \<Rightarrow> error_response \<Rightarrow> bytes" where
  "TokenRefreshPostBadRequest_MarshalJSON L s = marshal_json L (TokenRefreshPostBadRequest_Encode s)"

definition TokenRefreshPostBadRequest_UnmarshalJSON :: "jx \<Rightarrow> bytes \<Rightarrow> decode_error + error_response" where
  "TokenRefreshPostBadRequest_UnmarshalJSON L data = unmarshal_json L TokenRefreshPostBadRequest_Decode data"

definition TokenRefreshPostBadRequest_Validate :: "error_response \<Rightarrow> validation_error option" where
  [alias_methods]: "TokenRefreshPostBadRequest_Validate = ErrorResponse_Validate"

section \<open>TokenRefreshPostUnauthorized\<close>

definition TokenRefreshPostUnauthorized_Encode :: "error_response \<Rightarrow> json_doc" where
  [alias_methods]: "TokenRefreshPostUnauthorized_Encode = ErrorResponse_Encode"

definition TokenRefreshPostUnauthorized_Decode :: "jx \<Rightarrow> json_view \<Rightarrow> decode_error + error_response" where
  [alias_methods]: "TokenRefreshPostUnauthorized_Decode = alias_Decode"

definition TokenRefreshPostUnauthorized_MarshalJSON :: "jx \<Rightarrow> error_response \<Rightarrow> bytes" where
  "TokenRefreshPostUnauthorized_MarshalJSON L s = marshal_json L (TokenRefreshPostUnauthorized_Encode s)"

definition TokenRefreshPostUnauthorized_UnmarshalJSON :: "jx \<Rightarrow> bytes \<Rightarrow> decode_error + error_response" where
  "TokenRefreshPostUnauthorized_UnmarshalJSON L data = unmarshal_json L TokenRefreshPostUnauthorized_Decode data"

definition TokenRefreshPostUnauthorized_Validate :: "error_response \<Rightarrow> validation_error option" where
  [alias_methods]: "TokenRefreshPostUnauthorized_Validate = ErrorResponse_Validate"

section \<open>TokenRefreshPostInternalServerError\<close>

definition TokenRefreshPostInternalServerError_Encode :: "error_response \<Rightarrow> json_doc" where
  [alias_methods]: "TokenRefreshPostInternalServerError_Encode = ErrorResponse_Encode"

definition TokenRefreshPostInternalServerError_Decode :: "jx \<Rightarrow> json_view \<Rightarrow> decode_error + error_response" where
  [alias_methods]: "TokenRefreshPostInternalServerError_Decode = alias_Decode"

definition TokenRefreshPostInternalServerError_MarshalJSON :: "jx \<Rightarrow> error_response \<Rightarrow> bytes" where
  "TokenRefreshPostInternalServerError_MarshalJSON L s = marshal_json L (TokenRefreshPostInternalServerError_Encode s)"

definition TokenRefreshPostInternalServerError_UnmarshalJSON :: "jx \<Rightarrow> bytes \<Rightarrow> decode_error + error_response" where
  "TokenRefreshPostInternalServerError_UnmarshalJSON L data = unmarshal_json L TokenRefreshPostInternalServerError_Decode data"

definition TokenRefreshPostInternalServerError_Validate :: "error_response \<Rightarrow> validation_error option" where
  [alias_methods]: "TokenRefreshPostInternalServerError_Validate = ErrorResponse_Validate"

end
