(* ===== verification/Http_Roundtrip.thy ===== *)
theory Http_Roundtrip
  imports Http_Alias
begin

text \<open>
  A type of the interface that survives JSON, as an interface: its document, read by the library
  as it was written, decodes to the value. Every type of the interface is an instance, so whatever
  holds of such a type (\<open>MarshalJSON\<close> and \<open>UnmarshalJSON\<close>, elements of an array, the body of an
  answer) is proved once.
\<close>

section \<open>The interface\<close>

text \<open>A library that carries a document reads its text to the end, as it was written.\<close>

definition jx_carries :: "api_libs \<Rightarrow> json_doc \<Rightarrow> bool" where
  "jx_carries A d \<longleftrightarrow> jx_reads (al_jx A) d \<and> snd (jx_parse (al_jx A) (jx_write (al_jx A) d)) = [] \<and>
     jx_write (al_jx A) d \<noteq> []"

locale json_codec =
  fixes enc :: "'a \<Rightarrow> json_doc"
    and dec :: "jx \<Rightarrow> json_view \<Rightarrow> decode_error + 'a"
    and ok :: "'a \<Rightarrow> bool"
  assumes reads: "jx_reads L (enc x) \<Longrightarrow> ok x \<Longrightarrow> dec L (seen L (enc x)) = Inr x"
begin

lemma unmarshal_marshal:
  "jx_reads L (enc x) \<Longrightarrow> ok x \<Longrightarrow> unmarshal_json L dec (marshal_json L (enc x)) = Inr x"
  using reads by (simp add: unmarshal_json_def marshal_json_def seen_def)

lemma reads_array:
  assumes "jx_reads L (D_Arr (map enc xs))" and "\<And>x. x \<in> set xs \<Longrightarrow> ok x"
  shows "jx_Arr L (dec L) (seen L (D_Arr (map enc xs))) = Inr xs"
  using assms by (intro seen_array) (auto simp: list_all_iff intro: reads)

lemma request_arrives:
  assumes "al_ParseMediaType A ''application/json'' = Inr ''application/json''"
    and "jx_carries A (enc x)" and "ok x" and "val x = None"
  shows "decode_request A dec val (set_body A (enc x) r) = Inr x"
  using assms reads [of "al_jx A" x]
  by (simp add: decode_request_def set_body_def Let_def Header_Get_def jx_carries_def seen_def
      case_prod_beta)

end

section \<open>Requests\<close>

interpretation login_req_json: json_codec LoginPostReq_Encode LoginPostReq_Decode "\<lambda>r. opt_ok (lq_deviceInfo r)"
  by unfold_locales (rule LoginPostReq_reads)

interpretation registration_begin_req_json:
  json_codec RegistrationBeginPostReq_Encode RegistrationBeginPostReq_Decode "\<lambda>_. True"
  by unfold_locales (rule RegistrationBeginPostReq_reads)

interpretation registration_complete_req_json:
  json_codec RegistrationCompletePostReq_Encode RegistrationCompletePostReq_Decode
    "\<lambda>r. opt_ok (rcq_deviceInfo r)"
  by unfold_locales (rule RegistrationCompletePostReq_reads)

interpretation token_refresh_req_json:
  json_codec TokenRefreshPostReq_Encode TokenRefreshPostReq_Decode "\<lambda>_. True"
  by unfold_locales (rule TokenRefreshPostReq_reads)

interpretation wrapped_key_in_json: json_codec WrappedKeyInput_Encode WrappedKeyInput_Decode "\<lambda>_. True"
  by unfold_locales (rule WrappedKeyInput_reads)

section \<open>Responses\<close>

text \<open>A field that is itself an object: it is read as its own document.\<close>

lemma reads_field: "jx_reads L (D_Obj fs) \<Longrightarrow> (k, d) \<in> set fs \<Longrightarrow> jx_reads L d"
  by (auto simp: list_all_iff)

interpretation error_json: json_codec ErrorResponseError_Encode ErrorResponseError_Decode "\<lambda>_. True"
  by unfold_locales
    (simp add: ErrorResponseError_Decode_def ErrorResponseError_Encode_def
      ErrorResponseError_encodeFields_def ErrorResponseError_field_def ErrorResponseError_zero_def
      ErrorCode_Encode_def ErrorCode_Decode_def decode_object_def seen_object reading_def
      del: jx_reads.simps(2))

interpretation error_response_json: json_codec ErrorResponse_Encode ErrorResponse_Decode "\<lambda>_. True"
proof unfold_locales
  fix L x
  assume r: "jx_reads L (ErrorResponse_Encode x)"
  then have "jx_reads L (ErrorResponseError_Encode (er_error x))"
    by (simp add: ErrorResponse_Encode_def ErrorResponse_encodeFields_def)
  from error_json.reads [OF this] r
  show "ErrorResponse_Decode L (seen L (ErrorResponse_Encode x)) = Inr x"
    by (simp add: ErrorResponse_Decode_def ErrorResponse_Encode_def ErrorResponse_encodeFields_def
        ErrorResponse_field_def ErrorResponse_zero_def decode_object_def seen_object reading_def)
qed

interpretation alias_json: json_codec ErrorResponse_Encode alias_Decode "\<lambda>_. True"
  by unfold_locales (simp add: alias_Decode_def error_response_json.reads)

interpretation token_pair_json: json_codec TokenPair_Encode TokenPair_Decode "\<lambda>_. True"
  by unfold_locales
    (simp add: TokenPair_Decode_def TokenPair_Encode_def TokenPair_encodeFields_def TokenPair_field_def
      TokenPair_zero_def decode_object_def seen_object reading_def del: jx_reads.simps(2))

lemma seen_datetime [simp]:
  "jx_reads L (D_DateTime t) \<Longrightarrow> jx_err (jx_datetime L (seen L (D_DateTime t))) = Inr t"
  by (simp add: jx_err_def)

interpretation invite_json: json_codec Invite_Encode Invite_Decode "\<lambda>_. True"
  by unfold_locales
    (simp add: Invite_Decode_def Invite_Encode_def Invite_encodeFields_def Invite_field_def
      Invite_zero_def decode_object_def seen_object reading_def del: jx_reads.simps(2,4))

lemma seen_options [simp]:
  "jx_reads L (WebAuthnRequestOptions_Encode b) \<Longrightarrow>
   WebAuthnRequestOptions_Decode (seen L (WebAuthnRequestOptions_Encode b)) = Inr b"
  "jx_reads L (WebAuthnCreationOptions_Encode b) \<Longrightarrow>
   WebAuthnCreationOptions_Decode (seen L (WebAuthnCreationOptions_Encode b)) = Inr b"
  by (auto simp: WebAuthnRequestOptions_Encode_def WebAuthnRequestOptions_Decode_def
      WebAuthnCreationOptions_Encode_def WebAuthnCreationOptions_Decode_def split: if_splits)

interpretation login_begin_json: json_codec LoginBeginPostOK_Encode LoginBeginPostOK_Decode "\<lambda>_. True"
  by unfold_locales
    (simp add: LoginBeginPostOK_Decode_def LoginBeginPostOK_Encode_def LoginBeginPostOK_encodeFields_def
      LoginBeginPostOK_field_def LoginBeginPostOK_zero_def decode_object_def seen_object reading_def
      del: jx_reads.simps(2))

interpretation registration_begin_json:
  json_codec RegistrationBeginPostOK_Encode RegistrationBeginPostOK_Decode "\<lambda>_. True"
  by unfold_locales
    (simp add: RegistrationBeginPostOK_Decode_def RegistrationBeginPostOK_Encode_def
      RegistrationBeginPostOK_encodeFields_def RegistrationBeginPostOK_field_def
      RegistrationBeginPostOK_zero_def decode_object_def seen_object reading_def del: jx_reads.simps(2))

interpretation wrapped_key_out_json: json_codec WrappedKeyOutput_Encode WrappedKeyOutput_Decode "\<lambda>_. True"
  by unfold_locales
    (simp add: WrappedKeyOutput_Decode_def WrappedKeyOutput_Encode_def WrappedKeyOutput_encodeFields_def
      WrappedKeyOutput_field_def WrappedKeyOutput_zero_def WrappedKeyScope_Encode_def
      WrappedKeyScope_Decode_def decode_object_def seen_object reading_def del: jx_reads.simps(2,3))

interpretation login_ok_json: json_codec LoginPostOK_Encode LoginPostOK_Decode "\<lambda>_. True"
proof unfold_locales
  fix L x
  assume r: "jx_reads L (LoginPostOK_Encode x)"
  then have pair: "jx_reads L (TokenPair_Encode (lp_tokenPair x))"
    and arr: "jx_reads L (D_Arr (map WrappedKeyOutput_Encode (lp_wrappedKeys x)))"
    by (simp_all add: LoginPostOK_Encode_def LoginPostOK_encodeFields_def)
  from token_pair_json.reads [OF pair] wrapped_key_out_json.reads_array [OF arr] r
  show "LoginPostOK_Decode L (seen L (LoginPostOK_Encode x)) = Inr x"
    by (simp add: LoginPostOK_Decode_def LoginPostOK_Encode_def LoginPostOK_encodeFields_def
        LoginPostOK_field_def LoginPostOK_zero_def decode_object_def seen_object reading_def
        del: jx_reads.simps(6))
qed

end
