(* ===== verification/Http_Response.thy ===== *)
theory Http_Response
  imports Http_Alias
begin

text \<open>
  \<open>oas_response_encoders_gen.go\<close>: the status, the headers and the body of every response. The
  headers are those the encoder sets; a span's status is in \<open>Http_Telemetry\<close>, a failed write is left out.
\<close>

definition json_response :: "api_libs \<Rightarrow> nat \<Rightarrow> json_doc \<Rightarrow> http_response" where
  "json_response A status doc =
     \<lparr>rs_status = status, rs_headers = [(''Content-Type'', ''application/json; charset=utf-8'')],
      rs_body = jx_write (al_jx A) doc\<rparr>"

definition empty_response :: "nat \<Rightarrow> http_response" where
  "empty_response status = \<lparr>rs_status = status, rs_headers = [], rs_body = []\<rparr>"

lemma status_response [simp]:
  "rs_status (json_response A n d) = n" "rs_status (empty_response n) = n"
  by (simp_all add: json_response_def empty_response_def)

definition encodeAuthVerifyGetResponse :: "api_libs \<Rightarrow> auth_verify_get_res \<Rightarrow> err + http_response" where
  "encodeAuthVerifyGetResponse A response =
     (case response of
        AuthVerifyGetNoContent user \<Rightarrow>
          (case al_header_value A (al_UUIDToString A user) of
             Inl e \<Rightarrow> Inl (Wrapped ''encode X-Auth-User header'' e)
           | Inr h \<Rightarrow>
               Inr \<lparr>rs_status = 204,
                    rs_headers = [(''Access-Control-Expose-Headers'', ''X-Auth-User''), (''X-Auth-User'', h)],
                    rs_body = []\<rparr>)
      | AuthVerifyGetUnauthorized e \<Rightarrow> Inr (json_response A 401 (AuthVerifyGetUnauthorized_Encode e))
      | AuthVerifyGetInternalServerError e \<Rightarrow> Inr (json_response A 500 (AuthVerifyGetInternalServerError_Encode e)))"

definition encodeAdminUsersUserIdRevokeChainPostResponse :: "api_libs \<Rightarrow> revoke_chain_res \<Rightarrow> http_response" where
  "encodeAdminUsersUserIdRevokeChainPostResponse A response =
     (case response of
        AdminUsersUserIdRevokeChainPostNoContent \<Rightarrow> empty_response 204
      | AdminUsersUserIdRevokeChainPostBadRequest x \<Rightarrow> json_response A 400 (AdminUsersUserIdRevokeChainPostBadRequest_Encode x)
      | AdminUsersUserIdRevokeChainPostUnauthorized x \<Rightarrow> json_response A 401 (AdminUsersUserIdRevokeChainPostUnauthorized_Encode x)
      | AdminUsersUserIdRevokeChainPostForbidden x \<Rightarrow> json_response A 403 (AdminUsersUserIdRevokeChainPostForbidden_Encode x)
      | AdminUsersUserIdRevokeChainPostNotFound x \<Rightarrow> json_response A 404 (AdminUsersUserIdRevokeChainPostNotFound_Encode x)
      | AdminUsersUserIdRevokeChainPostInternalServerError x \<Rightarrow> json_response A 500 (AdminUsersUserIdRevokeChainPostInternalServerError_Encode x))"

definition encodeInvitesPostResponse :: "api_libs \<Rightarrow> invites_post_res \<Rightarrow> http_response" where
  "encodeInvitesPostResponse A response =
     (case response of
        InvitesPostCreated x \<Rightarrow> json_response A 201 (Invite_Encode x)
      | InvitesPostBadRequest x \<Rightarrow> json_response A 400 (InvitesPostBadRequest_Encode x)
      | InvitesPostUnauthorized x \<Rightarrow> json_response A 401 (InvitesPostUnauthorized_Encode x)
      | InvitesPostConflict x \<Rightarrow> json_response A 409 (InvitesPostConflict_Encode x)
      | InvitesPostInternalServerError x \<Rightarrow> json_response A 500 (InvitesPostInternalServerError_Encode x))"

definition encodeLoginBeginPostResponse :: "api_libs \<Rightarrow> login_begin_post_res \<Rightarrow> http_response" where
  "encodeLoginBeginPostResponse A response =
     (case response of
        LoginBeginPostOK x \<Rightarrow> json_response A 200 (LoginBeginPostOK_Encode x)
      | LoginBeginPostError x \<Rightarrow> json_response A 500 (ErrorResponse_Encode x))"

definition encodeLoginPostResponse :: "api_libs \<Rightarrow> login_post_res \<Rightarrow> http_response" where
  "encodeLoginPostResponse A response =
     (case response of
        LoginPostOK x \<Rightarrow> json_response A 200 (LoginPostOK_Encode x)
      | LoginPostBadRequest x \<Rightarrow> json_response A 400 (LoginPostBadRequest_Encode x)
      | LoginPostUnauthorized x \<Rightarrow> json_response A 401 (LoginPostUnauthorized_Encode x)
      | LoginPostInternalServerError x \<Rightarrow> json_response A 500 (LoginPostInternalServerError_Encode x))"

definition encodeRegistrationBeginPostResponse :: "api_libs \<Rightarrow> registration_begin_post_res \<Rightarrow> http_response" where
  "encodeRegistrationBeginPostResponse A response =
     (case response of
        RegistrationBeginPostOK x \<Rightarrow> json_response A 200 (RegistrationBeginPostOK_Encode x)
      | RegistrationBeginPostBadRequest x \<Rightarrow> json_response A 400 (RegistrationBeginPostBadRequest_Encode x)
      | RegistrationBeginPostNotFound x \<Rightarrow> json_response A 404 (RegistrationBeginPostNotFound_Encode x)
      | RegistrationBeginPostConflict x \<Rightarrow> json_response A 409 (RegistrationBeginPostConflict_Encode x)
      | RegistrationBeginPostInternalServerError x \<Rightarrow> json_response A 500 (RegistrationBeginPostInternalServerError_Encode x))"

definition encodeRegistrationCompletePostResponse :: "api_libs \<Rightarrow> registration_complete_post_res \<Rightarrow> http_response" where
  "encodeRegistrationCompletePostResponse A response =
     (case response of
        RegistrationCompletePostCreated x \<Rightarrow> json_response A 201 (TokenPair_Encode x)
      | RegistrationCompletePostBadRequest x \<Rightarrow> json_response A 400 (RegistrationCompletePostBadRequest_Encode x)
      | RegistrationCompletePostUnauthorized x \<Rightarrow> json_response A 401 (RegistrationCompletePostUnauthorized_Encode x)
      | RegistrationCompletePostNotFound x \<Rightarrow> json_response A 404 (RegistrationCompletePostNotFound_Encode x)
      | RegistrationCompletePostConflict x \<Rightarrow> json_response A 409 (RegistrationCompletePostConflict_Encode x)
      | RegistrationCompletePostInternalServerError x \<Rightarrow> json_response A 500 (RegistrationCompletePostInternalServerError_Encode x))"

definition encodeSessionsSessionIdDeleteResponse :: "api_libs \<Rightarrow> sessions_delete_res \<Rightarrow> http_response" where
  "encodeSessionsSessionIdDeleteResponse A response =
     (case response of
        SessionsSessionIdDeleteNoContent \<Rightarrow> empty_response 204
      | SessionsSessionIdDeleteBadRequest x \<Rightarrow> json_response A 400 (SessionsSessionIdDeleteBadRequest_Encode x)
      | SessionsSessionIdDeleteUnauthorized x \<Rightarrow> json_response A 401 (SessionsSessionIdDeleteUnauthorized_Encode x)
      | SessionsSessionIdDeleteForbidden x \<Rightarrow> json_response A 403 (SessionsSessionIdDeleteForbidden_Encode x)
      | SessionsSessionIdDeleteNotFound x \<Rightarrow> json_response A 404 (SessionsSessionIdDeleteNotFound_Encode x)
      | SessionsSessionIdDeleteInternalServerError x \<Rightarrow> json_response A 500 (SessionsSessionIdDeleteInternalServerError_Encode x))"

definition encodeTokenRefreshPostResponse :: "api_libs \<Rightarrow> token_refresh_post_res \<Rightarrow> http_response" where
  "encodeTokenRefreshPostResponse A response =
     (case response of
        TokenRefreshPostOK x \<Rightarrow> json_response A 200 (TokenPair_Encode x)
      | TokenRefreshPostBadRequest x \<Rightarrow> json_response A 400 (TokenRefreshPostBadRequest_Encode x)
      | TokenRefreshPostUnauthorized x \<Rightarrow> json_response A 401 (TokenRefreshPostUnauthorized_Encode x)
      | TokenRefreshPostInternalServerError x \<Rightarrow> json_response A 500 (TokenRefreshPostInternalServerError_Encode x))"

end
