(* ===== verification/Http_Client_Decode.thy ===== *)
theory Http_Client_Decode
  imports Http_Roundtrip Http_Response
begin

text \<open>
  The client's side of an answer, \<open>oas_response_decoders_gen.go\<close>: the status selects the type, the
  content type is checked, the body is decoded and, where the type has a validator, validated.
  Each decoder inverts the server's encoder, as long as the library reads what it wrote.
\<close>

section \<open>What the decoders call\<close>

text \<open>Reading the body to its end, and \<open>DecodeValue\<close> of a header that is present.\<close>

record client_libs =
  cl_api :: api_libs
  cl_ReadAll :: "http_response \<Rightarrow> err + bytes"
  cl_header_value :: "string \<Rightarrow> err + string"

datatype response_error =
    Answer_Media_Type err
  | Answer_Content_Type string
  | Answer_Read err
  | Answer_Body decode_error
  | Answer_Trailing
  | Answer_Not_Valid validation_error
  | Answer_Header "err option"
  | Answer_Status nat

definition Answer_Header_Get :: "http_response \<Rightarrow> string \<Rightarrow> string" where
  "Answer_Header_Get r name = (case map_of (rs_headers r) name of Some v \<Rightarrow> v | None \<Rightarrow> [])"

text \<open>One \<open>case\<close> of the switch over the status.\<close>

definition decode_answer ::
  "client_libs \<Rightarrow> (jx \<Rightarrow> json_view \<Rightarrow> decode_error + 'a) \<Rightarrow> ('a \<Rightarrow> validation_error option) \<Rightarrow>
   ('a \<Rightarrow> 'r) \<Rightarrow> http_response \<Rightarrow> response_error + 'r" where
  "decode_answer C dec val con r =
     (case al_ParseMediaType (cl_api C) (Answer_Header_Get r ''Content-Type'') of
        Inl e \<Rightarrow> Inl (Answer_Media_Type e)
      | Inr ct \<Rightarrow>
          if ct \<noteq> ''application/json'' then Inl (Answer_Content_Type ct)
          else (case cl_ReadAll C r of
                  Inl e \<Rightarrow> Inl (Answer_Read e)
                | Inr buf \<Rightarrow>
                    (case jx_parse (al_jx (cl_api C)) buf of (v, rest) \<Rightarrow>
                      (case dec (al_jx (cl_api C)) v of
                         Inl e \<Rightarrow> Inl (Answer_Body e)
                       | Inr response \<Rightarrow>
                           if rest \<noteq> [] then Inl Answer_Trailing
                           else (case val response of
                                   Some e \<Rightarrow> Inl (Answer_Not_Valid e)
                                 | None \<Rightarrow> Inr (con response))))))"

section \<open>The decoders\<close>

definition decodeAdminUsersUserIdRevokeChainPost_400 :: "client_libs \<Rightarrow> http_response \<Rightarrow> response_error + revoke_chain_res" where
  "decodeAdminUsersUserIdRevokeChainPost_400 C r =
     decode_answer C AdminUsersUserIdRevokeChainPostBadRequest_Decode AdminUsersUserIdRevokeChainPostBadRequest_Validate AdminUsersUserIdRevokeChainPostBadRequest r"

definition decodeAdminUsersUserIdRevokeChainPost_401 :: "client_libs \<Rightarrow> http_response \<Rightarrow> response_error + revoke_chain_res" where
  "decodeAdminUsersUserIdRevokeChainPost_401 C r =
     decode_answer C AdminUsersUserIdRevokeChainPostUnauthorized_Decode AdminUsersUserIdRevokeChainPostUnauthorized_Validate AdminUsersUserIdRevokeChainPostUnauthorized r"

definition decodeAdminUsersUserIdRevokeChainPost_403 :: "client_libs \<Rightarrow> http_response \<Rightarrow> response_error + revoke_chain_res" where
  "decodeAdminUsersUserIdRevokeChainPost_403 C r =
     decode_answer C AdminUsersUserIdRevokeChainPostForbidden_Decode AdminUsersUserIdRevokeChainPostForbidden_Validate AdminUsersUserIdRevokeChainPostForbidden r"

definition decodeAdminUsersUserIdRevokeChainPost_404 :: "client_libs \<Rightarrow> http_response \<Rightarrow> response_error + revoke_chain_res" where
  "decodeAdminUsersUserIdRevokeChainPost_404 C r =
     decode_answer C AdminUsersUserIdRevokeChainPostNotFound_Decode AdminUsersUserIdRevokeChainPostNotFound_Validate AdminUsersUserIdRevokeChainPostNotFound r"

definition decodeAdminUsersUserIdRevokeChainPost_500 :: "client_libs \<Rightarrow> http_response \<Rightarrow> response_error + revoke_chain_res" where
  "decodeAdminUsersUserIdRevokeChainPost_500 C r =
     decode_answer C AdminUsersUserIdRevokeChainPostInternalServerError_Decode AdminUsersUserIdRevokeChainPostInternalServerError_Validate AdminUsersUserIdRevokeChainPostInternalServerError r"

definition decodeAuthVerifyGet_204 :: "client_libs \<Rightarrow> http_response \<Rightarrow> response_error + auth_verify_get_res" where
  "decodeAuthVerifyGet_204 C r =
     (case map_of (rs_headers r) ''X-Auth-User'' of
        None \<Rightarrow> Inl (Answer_Header None)
      | Some h \<Rightarrow>
          (case cl_header_value C h of
             Inl e \<Rightarrow> Inl (Answer_Header (Some e))
           | Inr v \<Rightarrow>
               (case al_ToUUID (cl_api C) v of
                  Inl e \<Rightarrow> Inl (Answer_Header (Some e))
                | Inr u \<Rightarrow> Inr (AuthVerifyGetNoContent u))))"

definition decodeAuthVerifyGet_401 :: "client_libs \<Rightarrow> http_response \<Rightarrow> response_error + auth_verify_get_res" where
  "decodeAuthVerifyGet_401 C r =
     decode_answer C AuthVerifyGetUnauthorized_Decode AuthVerifyGetUnauthorized_Validate AuthVerifyGetUnauthorized r"

definition decodeAuthVerifyGet_500 :: "client_libs \<Rightarrow> http_response \<Rightarrow> response_error + auth_verify_get_res" where
  "decodeAuthVerifyGet_500 C r =
     decode_answer C AuthVerifyGetInternalServerError_Decode AuthVerifyGetInternalServerError_Validate AuthVerifyGetInternalServerError r"

definition decodeInvitesPost_201 :: "client_libs \<Rightarrow> http_response \<Rightarrow> response_error + invites_post_res" where
  "decodeInvitesPost_201 C r =
     decode_answer C Invite_Decode (\<lambda>_. None) InvitesPostCreated r"

definition decodeInvitesPost_400 :: "client_libs \<Rightarrow> http_response \<Rightarrow> response_error + invites_post_res" where
  "decodeInvitesPost_400 C r =
     decode_answer C InvitesPostBadRequest_Decode InvitesPostBadRequest_Validate InvitesPostBadRequest r"

definition decodeInvitesPost_401 :: "client_libs \<Rightarrow> http_response \<Rightarrow> response_error + invites_post_res" where
  "decodeInvitesPost_401 C r =
     decode_answer C InvitesPostUnauthorized_Decode InvitesPostUnauthorized_Validate InvitesPostUnauthorized r"

definition decodeInvitesPost_409 :: "client_libs \<Rightarrow> http_response \<Rightarrow> response_error + invites_post_res" where
  "decodeInvitesPost_409 C r =
     decode_answer C InvitesPostConflict_Decode InvitesPostConflict_Validate InvitesPostConflict r"

definition decodeInvitesPost_500 :: "client_libs \<Rightarrow> http_response \<Rightarrow> response_error + invites_post_res" where
  "decodeInvitesPost_500 C r =
     decode_answer C InvitesPostInternalServerError_Decode InvitesPostInternalServerError_Validate InvitesPostInternalServerError r"

definition decodeLoginBeginPost_200 :: "client_libs \<Rightarrow> http_response \<Rightarrow> response_error + login_begin_post_res" where
  "decodeLoginBeginPost_200 C r =
     decode_answer C LoginBeginPostOK_Decode (\<lambda>_. None) LoginBeginPostOK r"

definition decodeLoginBeginPost_500 :: "client_libs \<Rightarrow> http_response \<Rightarrow> response_error + login_begin_post_res" where
  "decodeLoginBeginPost_500 C r =
     decode_answer C ErrorResponse_Decode ErrorResponse_Validate LoginBeginPostError r"

definition decodeLoginPost_200 :: "client_libs \<Rightarrow> http_response \<Rightarrow> response_error + login_post_res" where
  "decodeLoginPost_200 C r =
     decode_answer C LoginPostOK_Decode LoginPostOK_Validate LoginPostOK r"

definition decodeLoginPost_400 :: "client_libs \<Rightarrow> http_response \<Rightarrow> response_error + login_post_res" where
  "decodeLoginPost_400 C r =
     decode_answer C LoginPostBadRequest_Decode LoginPostBadRequest_Validate LoginPostBadRequest r"

definition decodeLoginPost_401 :: "client_libs \<Rightarrow> http_response \<Rightarrow> response_error + login_post_res" where
  "decodeLoginPost_401 C r =
     decode_answer C LoginPostUnauthorized_Decode LoginPostUnauthorized_Validate LoginPostUnauthorized r"

definition decodeLoginPost_500 :: "client_libs \<Rightarrow> http_response \<Rightarrow> response_error + login_post_res" where
  "decodeLoginPost_500 C r =
     decode_answer C LoginPostInternalServerError_Decode LoginPostInternalServerError_Validate LoginPostInternalServerError r"

definition decodeRegistrationBeginPost_200 :: "client_libs \<Rightarrow> http_response \<Rightarrow> response_error + registration_begin_post_res" where
  "decodeRegistrationBeginPost_200 C r =
     decode_answer C RegistrationBeginPostOK_Decode (\<lambda>_. None) RegistrationBeginPostOK r"

definition decodeRegistrationBeginPost_400 :: "client_libs \<Rightarrow> http_response \<Rightarrow> response_error + registration_begin_post_res" where
  "decodeRegistrationBeginPost_400 C r =
     decode_answer C RegistrationBeginPostBadRequest_Decode RegistrationBeginPostBadRequest_Validate RegistrationBeginPostBadRequest r"

definition decodeRegistrationBeginPost_404 :: "client_libs \<Rightarrow> http_response \<Rightarrow> response_error + registration_begin_post_res" where
  "decodeRegistrationBeginPost_404 C r =
     decode_answer C RegistrationBeginPostNotFound_Decode RegistrationBeginPostNotFound_Validate RegistrationBeginPostNotFound r"

definition decodeRegistrationBeginPost_409 :: "client_libs \<Rightarrow> http_response \<Rightarrow> response_error + registration_begin_post_res" where
  "decodeRegistrationBeginPost_409 C r =
     decode_answer C RegistrationBeginPostConflict_Decode RegistrationBeginPostConflict_Validate RegistrationBeginPostConflict r"

definition decodeRegistrationBeginPost_500 :: "client_libs \<Rightarrow> http_response \<Rightarrow> response_error + registration_begin_post_res" where
  "decodeRegistrationBeginPost_500 C r =
     decode_answer C RegistrationBeginPostInternalServerError_Decode RegistrationBeginPostInternalServerError_Validate RegistrationBeginPostInternalServerError r"

definition decodeRegistrationCompletePost_201 :: "client_libs \<Rightarrow> http_response \<Rightarrow> response_error + registration_complete_post_res" where
  "decodeRegistrationCompletePost_201 C r =
     decode_answer C TokenPair_Decode (\<lambda>_. None) RegistrationCompletePostCreated r"

definition decodeRegistrationCompletePost_400 :: "client_libs \<Rightarrow> http_response \<Rightarrow> response_error + registration_complete_post_res" where
  "decodeRegistrationCompletePost_400 C r =
     decode_answer C RegistrationCompletePostBadRequest_Decode RegistrationCompletePostBadRequest_Validate RegistrationCompletePostBadRequest r"

definition decodeRegistrationCompletePost_401 :: "client_libs \<Rightarrow> http_response \<Rightarrow> response_error + registration_complete_post_res" where
  "decodeRegistrationCompletePost_401 C r =
     decode_answer C RegistrationCompletePostUnauthorized_Decode RegistrationCompletePostUnauthorized_Validate RegistrationCompletePostUnauthorized r"

definition decodeRegistrationCompletePost_404 :: "client_libs \<Rightarrow> http_response \<Rightarrow> response_error + registration_complete_post_res" where
  "decodeRegistrationCompletePost_404 C r =
     decode_answer C RegistrationCompletePostNotFound_Decode RegistrationCompletePostNotFound_Validate RegistrationCompletePostNotFound r"

definition decodeRegistrationCompletePost_409 :: "client_libs \<Rightarrow> http_response \<Rightarrow> response_error + registration_complete_post_res" where
  "decodeRegistrationCompletePost_409 C r =
     decode_answer C RegistrationCompletePostConflict_Decode RegistrationCompletePostConflict_Validate RegistrationCompletePostConflict r"

definition decodeRegistrationCompletePost_500 :: "client_libs \<Rightarrow> http_response \<Rightarrow> response_error + registration_complete_post_res" where
  "decodeRegistrationCompletePost_500 C r =
     decode_answer C RegistrationCompletePostInternalServerError_Decode RegistrationCompletePostInternalServerError_Validate RegistrationCompletePostInternalServerError r"

definition decodeSessionsSessionIdDelete_400 :: "client_libs \<Rightarrow> http_response \<Rightarrow> response_error + sessions_delete_res" where
  "decodeSessionsSessionIdDelete_400 C r =
     decode_answer C SessionsSessionIdDeleteBadRequest_Decode SessionsSessionIdDeleteBadRequest_Validate SessionsSessionIdDeleteBadRequest r"

definition decodeSessionsSessionIdDelete_401 :: "client_libs \<Rightarrow> http_response \<Rightarrow> response_error + sessions_delete_res" where
  "decodeSessionsSessionIdDelete_401 C r =
     decode_answer C SessionsSessionIdDeleteUnauthorized_Decode SessionsSessionIdDeleteUnauthorized_Validate SessionsSessionIdDeleteUnauthorized r"

definition decodeSessionsSessionIdDelete_403 :: "client_libs \<Rightarrow> http_response \<Rightarrow> response_error + sessions_delete_res" where
  "decodeSessionsSessionIdDelete_403 C r =
     decode_answer C SessionsSessionIdDeleteForbidden_Decode SessionsSessionIdDeleteForbidden_Validate SessionsSessionIdDeleteForbidden r"

definition decodeSessionsSessionIdDelete_404 :: "client_libs \<Rightarrow> http_response \<Rightarrow> response_error + sessions_delete_res" where
  "decodeSessionsSessionIdDelete_404 C r =
     decode_answer C SessionsSessionIdDeleteNotFound_Decode SessionsSessionIdDeleteNotFound_Validate SessionsSessionIdDeleteNotFound r"

definition decodeSessionsSessionIdDelete_500 :: "client_libs \<Rightarrow> http_response \<Rightarrow> response_error + sessions_delete_res" where
  "decodeSessionsSessionIdDelete_500 C r =
     decode_answer C SessionsSessionIdDeleteInternalServerError_Decode SessionsSessionIdDeleteInternalServerError_Validate SessionsSessionIdDeleteInternalServerError r"

definition decodeTokenRefreshPost_200 :: "client_libs \<Rightarrow> http_response \<Rightarrow> response_error + token_refresh_post_res" where
  "decodeTokenRefreshPost_200 C r =
     decode_answer C TokenPair_Decode (\<lambda>_. None) TokenRefreshPostOK r"

definition decodeTokenRefreshPost_400 :: "client_libs \<Rightarrow> http_response \<Rightarrow> response_error + token_refresh_post_res" where
  "decodeTokenRefreshPost_400 C r =
     decode_answer C TokenRefreshPostBadRequest_Decode TokenRefreshPostBadRequest_Validate TokenRefreshPostBadRequest r"

definition decodeTokenRefreshPost_401 :: "client_libs \<Rightarrow> http_response \<Rightarrow> response_error + token_refresh_post_res" where
  "decodeTokenRefreshPost_401 C r =
     decode_answer C TokenRefreshPostUnauthorized_Decode TokenRefreshPostUnauthorized_Validate TokenRefreshPostUnauthorized r"

definition decodeTokenRefreshPost_500 :: "client_libs \<Rightarrow> http_response \<Rightarrow> response_error + token_refresh_post_res" where
  "decodeTokenRefreshPost_500 C r =
     decode_answer C TokenRefreshPostInternalServerError_Decode TokenRefreshPostInternalServerError_Validate TokenRefreshPostInternalServerError r"

lemmas decode_case_defs [simp] =
  decodeAdminUsersUserIdRevokeChainPost_400_def
  decodeAdminUsersUserIdRevokeChainPost_401_def
  decodeAdminUsersUserIdRevokeChainPost_403_def
  decodeAdminUsersUserIdRevokeChainPost_404_def
  decodeAdminUsersUserIdRevokeChainPost_500_def
  decodeAuthVerifyGet_204_def
  decodeAuthVerifyGet_401_def
  decodeAuthVerifyGet_500_def
  decodeInvitesPost_201_def
  decodeInvitesPost_400_def
  decodeInvitesPost_401_def
  decodeInvitesPost_409_def
  decodeInvitesPost_500_def
  decodeLoginBeginPost_200_def
  decodeLoginBeginPost_500_def
  decodeLoginPost_200_def
  decodeLoginPost_400_def
  decodeLoginPost_401_def
  decodeLoginPost_500_def
  decodeRegistrationBeginPost_200_def
  decodeRegistrationBeginPost_400_def
  decodeRegistrationBeginPost_404_def
  decodeRegistrationBeginPost_409_def
  decodeRegistrationBeginPost_500_def
  decodeRegistrationCompletePost_201_def
  decodeRegistrationCompletePost_400_def
  decodeRegistrationCompletePost_401_def
  decodeRegistrationCompletePost_404_def
  decodeRegistrationCompletePost_409_def
  decodeRegistrationCompletePost_500_def
  decodeSessionsSessionIdDelete_400_def
  decodeSessionsSessionIdDelete_401_def
  decodeSessionsSessionIdDelete_403_def
  decodeSessionsSessionIdDelete_404_def
  decodeSessionsSessionIdDelete_500_def
  decodeTokenRefreshPost_200_def
  decodeTokenRefreshPost_400_def
  decodeTokenRefreshPost_401_def
  decodeTokenRefreshPost_500_def

text \<open>The switch over the status.\<close>

definition decodeAdminUsersUserIdRevokeChainPostResponse :: "client_libs \<Rightarrow> http_response \<Rightarrow> response_error + revoke_chain_res" where
  "decodeAdminUsersUserIdRevokeChainPostResponse C r =
     (if rs_status r = 204 then Inr AdminUsersUserIdRevokeChainPostNoContent
      else if rs_status r = 400 then decodeAdminUsersUserIdRevokeChainPost_400 C r
      else if rs_status r = 401 then decodeAdminUsersUserIdRevokeChainPost_401 C r
      else if rs_status r = 403 then decodeAdminUsersUserIdRevokeChainPost_403 C r
      else if rs_status r = 404 then decodeAdminUsersUserIdRevokeChainPost_404 C r
      else if rs_status r = 500 then decodeAdminUsersUserIdRevokeChainPost_500 C r
      else Inl (Answer_Status (rs_status r)))"

definition decodeAuthVerifyGetResponse :: "client_libs \<Rightarrow> http_response \<Rightarrow> response_error + auth_verify_get_res" where
  "decodeAuthVerifyGetResponse C r =
     (if rs_status r = 204 then decodeAuthVerifyGet_204 C r
      else if rs_status r = 401 then decodeAuthVerifyGet_401 C r
      else if rs_status r = 500 then decodeAuthVerifyGet_500 C r
      else Inl (Answer_Status (rs_status r)))"

definition decodeInvitesPostResponse :: "client_libs \<Rightarrow> http_response \<Rightarrow> response_error + invites_post_res" where
  "decodeInvitesPostResponse C r =
     (if rs_status r = 201 then decodeInvitesPost_201 C r
      else if rs_status r = 400 then decodeInvitesPost_400 C r
      else if rs_status r = 401 then decodeInvitesPost_401 C r
      else if rs_status r = 409 then decodeInvitesPost_409 C r
      else if rs_status r = 500 then decodeInvitesPost_500 C r
      else Inl (Answer_Status (rs_status r)))"

definition decodeLoginBeginPostResponse :: "client_libs \<Rightarrow> http_response \<Rightarrow> response_error + login_begin_post_res" where
  "decodeLoginBeginPostResponse C r =
     (if rs_status r = 200 then decodeLoginBeginPost_200 C r
      else if rs_status r = 500 then decodeLoginBeginPost_500 C r
      else Inl (Answer_Status (rs_status r)))"

definition decodeLoginPostResponse :: "client_libs \<Rightarrow> http_response \<Rightarrow> response_error + login_post_res" where
  "decodeLoginPostResponse C r =
     (if rs_status r = 200 then decodeLoginPost_200 C r
      else if rs_status r = 400 then decodeLoginPost_400 C r
      else if rs_status r = 401 then decodeLoginPost_401 C r
      else if rs_status r = 500 then decodeLoginPost_500 C r
      else Inl (Answer_Status (rs_status r)))"

definition decodeRegistrationBeginPostResponse :: "client_libs \<Rightarrow> http_response \<Rightarrow> response_error + registration_begin_post_res" where
  "decodeRegistrationBeginPostResponse C r =
     (if rs_status r = 200 then decodeRegistrationBeginPost_200 C r
      else if rs_status r = 400 then decodeRegistrationBeginPost_400 C r
      else if rs_status r = 404 then decodeRegistrationBeginPost_404 C r
      else if rs_status r = 409 then decodeRegistrationBeginPost_409 C r
      else if rs_status r = 500 then decodeRegistrationBeginPost_500 C r
      else Inl (Answer_Status (rs_status r)))"

definition decodeRegistrationCompletePostResponse :: "client_libs \<Rightarrow> http_response \<Rightarrow> response_error + registration_complete_post_res" where
  "decodeRegistrationCompletePostResponse C r =
     (if rs_status r = 201 then decodeRegistrationCompletePost_201 C r
      else if rs_status r = 400 then decodeRegistrationCompletePost_400 C r
      else if rs_status r = 401 then decodeRegistrationCompletePost_401 C r
      else if rs_status r = 404 then decodeRegistrationCompletePost_404 C r
      else if rs_status r = 409 then decodeRegistrationCompletePost_409 C r
      else if rs_status r = 500 then decodeRegistrationCompletePost_500 C r
      else Inl (Answer_Status (rs_status r)))"

definition decodeSessionsSessionIdDeleteResponse :: "client_libs \<Rightarrow> http_response \<Rightarrow> response_error + sessions_delete_res" where
  "decodeSessionsSessionIdDeleteResponse C r =
     (if rs_status r = 204 then Inr SessionsSessionIdDeleteNoContent
      else if rs_status r = 400 then decodeSessionsSessionIdDelete_400 C r
      else if rs_status r = 401 then decodeSessionsSessionIdDelete_401 C r
      else if rs_status r = 403 then decodeSessionsSessionIdDelete_403 C r
      else if rs_status r = 404 then decodeSessionsSessionIdDelete_404 C r
      else if rs_status r = 500 then decodeSessionsSessionIdDelete_500 C r
      else Inl (Answer_Status (rs_status r)))"

definition decodeTokenRefreshPostResponse :: "client_libs \<Rightarrow> http_response \<Rightarrow> response_error + token_refresh_post_res" where
  "decodeTokenRefreshPostResponse C r =
     (if rs_status r = 200 then decodeTokenRefreshPost_200 C r
      else if rs_status r = 400 then decodeTokenRefreshPost_400 C r
      else if rs_status r = 401 then decodeTokenRefreshPost_401 C r
      else if rs_status r = 500 then decodeTokenRefreshPost_500 C r
      else Inl (Answer_Status (rs_status r)))"

section \<open>Decoding inverts encoding\<close>

text \<open>What is trusted of \<open>mime\<close>, of reading a body that arrived whole, and of a header's value.\<close>

definition client_law :: "client_libs \<Rightarrow> bool" where
  "client_law C \<longleftrightarrow>
     al_ParseMediaType (cl_api C) ''application/json; charset=utf-8'' = Inr ''application/json'' \<and>
     (\<forall>r. cl_ReadAll C r = Inr (rs_body r)) \<and>
     (\<forall>u h. al_header_value (cl_api C) (al_UUIDToString (cl_api C) u) = Inr h \<longrightarrow>
        (\<exists>v. cl_header_value C h = Inr v \<and> al_ToUUID (cl_api C) v = Inr u))"

context json_codec
begin

lemma decode_answer_json:
  assumes "client_law C" and "jx_carries (cl_api C) (enc x)" and "ok x" and "val x = None"
  shows "decode_answer C dec val con (json_response (cl_api C) n (enc x)) = Inr (con x)"
  using assms reads [of "al_jx (cl_api C)" x]
  by (simp add: decode_answer_def client_law_def jx_carries_def json_response_def Answer_Header_Get_def
      seen_def case_prod_beta)

end

text \<open>An answer that the library carries, and one that the client's validators accept.\<close>

fun revoke_chain_res_carried :: "client_libs \<Rightarrow> revoke_chain_res \<Rightarrow> bool" where
  "revoke_chain_res_carried C AdminUsersUserIdRevokeChainPostNoContent \<longleftrightarrow> True"
| "revoke_chain_res_carried C (AdminUsersUserIdRevokeChainPostBadRequest x) \<longleftrightarrow> jx_carries (cl_api C) (ErrorResponse_Encode x)"
| "revoke_chain_res_carried C (AdminUsersUserIdRevokeChainPostUnauthorized x) \<longleftrightarrow> jx_carries (cl_api C) (ErrorResponse_Encode x)"
| "revoke_chain_res_carried C (AdminUsersUserIdRevokeChainPostForbidden x) \<longleftrightarrow> jx_carries (cl_api C) (ErrorResponse_Encode x)"
| "revoke_chain_res_carried C (AdminUsersUserIdRevokeChainPostNotFound x) \<longleftrightarrow> jx_carries (cl_api C) (ErrorResponse_Encode x)"
| "revoke_chain_res_carried C (AdminUsersUserIdRevokeChainPostInternalServerError x) \<longleftrightarrow> jx_carries (cl_api C) (ErrorResponse_Encode x)"

fun auth_verify_get_res_carried :: "client_libs \<Rightarrow> auth_verify_get_res \<Rightarrow> bool" where
  "auth_verify_get_res_carried C (AuthVerifyGetNoContent u) \<longleftrightarrow> (\<exists>h. al_header_value (cl_api C) (al_UUIDToString (cl_api C) u) = Inr h)"
| "auth_verify_get_res_carried C (AuthVerifyGetUnauthorized x) \<longleftrightarrow> jx_carries (cl_api C) (ErrorResponse_Encode x)"
| "auth_verify_get_res_carried C (AuthVerifyGetInternalServerError x) \<longleftrightarrow> jx_carries (cl_api C) (ErrorResponse_Encode x)"

fun invites_post_res_carried :: "client_libs \<Rightarrow> invites_post_res \<Rightarrow> bool" where
  "invites_post_res_carried C (InvitesPostCreated x) \<longleftrightarrow> jx_carries (cl_api C) (Invite_Encode x)"
| "invites_post_res_carried C (InvitesPostBadRequest x) \<longleftrightarrow> jx_carries (cl_api C) (ErrorResponse_Encode x)"
| "invites_post_res_carried C (InvitesPostUnauthorized x) \<longleftrightarrow> jx_carries (cl_api C) (ErrorResponse_Encode x)"
| "invites_post_res_carried C (InvitesPostConflict x) \<longleftrightarrow> jx_carries (cl_api C) (ErrorResponse_Encode x)"
| "invites_post_res_carried C (InvitesPostInternalServerError x) \<longleftrightarrow> jx_carries (cl_api C) (ErrorResponse_Encode x)"

fun login_begin_post_res_carried :: "client_libs \<Rightarrow> login_begin_post_res \<Rightarrow> bool" where
  "login_begin_post_res_carried C (LoginBeginPostOK x) \<longleftrightarrow> jx_carries (cl_api C) (LoginBeginPostOK_Encode x)"
| "login_begin_post_res_carried C (LoginBeginPostError x) \<longleftrightarrow> jx_carries (cl_api C) (ErrorResponse_Encode x)"

fun login_post_res_carried :: "client_libs \<Rightarrow> login_post_res \<Rightarrow> bool" where
  "login_post_res_carried C (LoginPostOK x) \<longleftrightarrow> jx_carries (cl_api C) (LoginPostOK_Encode x)"
| "login_post_res_carried C (LoginPostBadRequest x) \<longleftrightarrow> jx_carries (cl_api C) (ErrorResponse_Encode x)"
| "login_post_res_carried C (LoginPostUnauthorized x) \<longleftrightarrow> jx_carries (cl_api C) (ErrorResponse_Encode x)"
| "login_post_res_carried C (LoginPostInternalServerError x) \<longleftrightarrow> jx_carries (cl_api C) (ErrorResponse_Encode x)"

fun registration_begin_post_res_carried :: "client_libs \<Rightarrow> registration_begin_post_res \<Rightarrow> bool" where
  "registration_begin_post_res_carried C (RegistrationBeginPostOK x) \<longleftrightarrow> jx_carries (cl_api C) (RegistrationBeginPostOK_Encode x)"
| "registration_begin_post_res_carried C (RegistrationBeginPostBadRequest x) \<longleftrightarrow> jx_carries (cl_api C) (ErrorResponse_Encode x)"
| "registration_begin_post_res_carried C (RegistrationBeginPostNotFound x) \<longleftrightarrow> jx_carries (cl_api C) (ErrorResponse_Encode x)"
| "registration_begin_post_res_carried C (RegistrationBeginPostConflict x) \<longleftrightarrow> jx_carries (cl_api C) (ErrorResponse_Encode x)"
| "registration_begin_post_res_carried C (RegistrationBeginPostInternalServerError x) \<longleftrightarrow> jx_carries (cl_api C) (ErrorResponse_Encode x)"

fun registration_complete_post_res_carried :: "client_libs \<Rightarrow> registration_complete_post_res \<Rightarrow> bool" where
  "registration_complete_post_res_carried C (RegistrationCompletePostCreated x) \<longleftrightarrow> jx_carries (cl_api C) (TokenPair_Encode x)"
| "registration_complete_post_res_carried C (RegistrationCompletePostBadRequest x) \<longleftrightarrow> jx_carries (cl_api C) (ErrorResponse_Encode x)"
| "registration_complete_post_res_carried C (RegistrationCompletePostUnauthorized x) \<longleftrightarrow> jx_carries (cl_api C) (ErrorResponse_Encode x)"
| "registration_complete_post_res_carried C (RegistrationCompletePostNotFound x) \<longleftrightarrow> jx_carries (cl_api C) (ErrorResponse_Encode x)"
| "registration_complete_post_res_carried C (RegistrationCompletePostConflict x) \<longleftrightarrow> jx_carries (cl_api C) (ErrorResponse_Encode x)"
| "registration_complete_post_res_carried C (RegistrationCompletePostInternalServerError x) \<longleftrightarrow> jx_carries (cl_api C) (ErrorResponse_Encode x)"

fun sessions_delete_res_carried :: "client_libs \<Rightarrow> sessions_delete_res \<Rightarrow> bool" where
  "sessions_delete_res_carried C SessionsSessionIdDeleteNoContent \<longleftrightarrow> True"
| "sessions_delete_res_carried C (SessionsSessionIdDeleteBadRequest x) \<longleftrightarrow> jx_carries (cl_api C) (ErrorResponse_Encode x)"
| "sessions_delete_res_carried C (SessionsSessionIdDeleteUnauthorized x) \<longleftrightarrow> jx_carries (cl_api C) (ErrorResponse_Encode x)"
| "sessions_delete_res_carried C (SessionsSessionIdDeleteForbidden x) \<longleftrightarrow> jx_carries (cl_api C) (ErrorResponse_Encode x)"
| "sessions_delete_res_carried C (SessionsSessionIdDeleteNotFound x) \<longleftrightarrow> jx_carries (cl_api C) (ErrorResponse_Encode x)"
| "sessions_delete_res_carried C (SessionsSessionIdDeleteInternalServerError x) \<longleftrightarrow> jx_carries (cl_api C) (ErrorResponse_Encode x)"

fun token_refresh_post_res_carried :: "client_libs \<Rightarrow> token_refresh_post_res \<Rightarrow> bool" where
  "token_refresh_post_res_carried C (TokenRefreshPostOK x) \<longleftrightarrow> jx_carries (cl_api C) (TokenPair_Encode x)"
| "token_refresh_post_res_carried C (TokenRefreshPostBadRequest x) \<longleftrightarrow> jx_carries (cl_api C) (ErrorResponse_Encode x)"
| "token_refresh_post_res_carried C (TokenRefreshPostUnauthorized x) \<longleftrightarrow> jx_carries (cl_api C) (ErrorResponse_Encode x)"
| "token_refresh_post_res_carried C (TokenRefreshPostInternalServerError x) \<longleftrightarrow> jx_carries (cl_api C) (ErrorResponse_Encode x)"

fun revoke_chain_res_valid :: "revoke_chain_res \<Rightarrow> bool" where
  "revoke_chain_res_valid AdminUsersUserIdRevokeChainPostNoContent \<longleftrightarrow> True"
| "revoke_chain_res_valid (AdminUsersUserIdRevokeChainPostBadRequest x) \<longleftrightarrow> ErrorResponse_Validate x = None"
| "revoke_chain_res_valid (AdminUsersUserIdRevokeChainPostUnauthorized x) \<longleftrightarrow> ErrorResponse_Validate x = None"
| "revoke_chain_res_valid (AdminUsersUserIdRevokeChainPostForbidden x) \<longleftrightarrow> ErrorResponse_Validate x = None"
| "revoke_chain_res_valid (AdminUsersUserIdRevokeChainPostNotFound x) \<longleftrightarrow> ErrorResponse_Validate x = None"
| "revoke_chain_res_valid (AdminUsersUserIdRevokeChainPostInternalServerError x) \<longleftrightarrow> ErrorResponse_Validate x = None"

fun auth_verify_get_res_valid :: "auth_verify_get_res \<Rightarrow> bool" where
  "auth_verify_get_res_valid (AuthVerifyGetNoContent u) \<longleftrightarrow> True"
| "auth_verify_get_res_valid (AuthVerifyGetUnauthorized x) \<longleftrightarrow> ErrorResponse_Validate x = None"
| "auth_verify_get_res_valid (AuthVerifyGetInternalServerError x) \<longleftrightarrow> ErrorResponse_Validate x = None"

fun invites_post_res_valid :: "invites_post_res \<Rightarrow> bool" where
  "invites_post_res_valid (InvitesPostCreated x) \<longleftrightarrow> True"
| "invites_post_res_valid (InvitesPostBadRequest x) \<longleftrightarrow> ErrorResponse_Validate x = None"
| "invites_post_res_valid (InvitesPostUnauthorized x) \<longleftrightarrow> ErrorResponse_Validate x = None"
| "invites_post_res_valid (InvitesPostConflict x) \<longleftrightarrow> ErrorResponse_Validate x = None"
| "invites_post_res_valid (InvitesPostInternalServerError x) \<longleftrightarrow> ErrorResponse_Validate x = None"

fun login_begin_post_res_valid :: "login_begin_post_res \<Rightarrow> bool" where
  "login_begin_post_res_valid (LoginBeginPostOK x) \<longleftrightarrow> True"
| "login_begin_post_res_valid (LoginBeginPostError x) \<longleftrightarrow> ErrorResponse_Validate x = None"

fun login_post_res_valid :: "login_post_res \<Rightarrow> bool" where
  "login_post_res_valid (LoginPostOK x) \<longleftrightarrow> LoginPostOK_Validate x = None"
| "login_post_res_valid (LoginPostBadRequest x) \<longleftrightarrow> ErrorResponse_Validate x = None"
| "login_post_res_valid (LoginPostUnauthorized x) \<longleftrightarrow> ErrorResponse_Validate x = None"
| "login_post_res_valid (LoginPostInternalServerError x) \<longleftrightarrow> ErrorResponse_Validate x = None"

fun registration_begin_post_res_valid :: "registration_begin_post_res \<Rightarrow> bool" where
  "registration_begin_post_res_valid (RegistrationBeginPostOK x) \<longleftrightarrow> True"
| "registration_begin_post_res_valid (RegistrationBeginPostBadRequest x) \<longleftrightarrow> ErrorResponse_Validate x = None"
| "registration_begin_post_res_valid (RegistrationBeginPostNotFound x) \<longleftrightarrow> ErrorResponse_Validate x = None"
| "registration_begin_post_res_valid (RegistrationBeginPostConflict x) \<longleftrightarrow> ErrorResponse_Validate x = None"
| "registration_begin_post_res_valid (RegistrationBeginPostInternalServerError x) \<longleftrightarrow> ErrorResponse_Validate x = None"

fun registration_complete_post_res_valid :: "registration_complete_post_res \<Rightarrow> bool" where
  "registration_complete_post_res_valid (RegistrationCompletePostCreated x) \<longleftrightarrow> True"
| "registration_complete_post_res_valid (RegistrationCompletePostBadRequest x) \<longleftrightarrow> ErrorResponse_Validate x = None"
| "registration_complete_post_res_valid (RegistrationCompletePostUnauthorized x) \<longleftrightarrow> ErrorResponse_Validate x = None"
| "registration_complete_post_res_valid (RegistrationCompletePostNotFound x) \<longleftrightarrow> ErrorResponse_Validate x = None"
| "registration_complete_post_res_valid (RegistrationCompletePostConflict x) \<longleftrightarrow> ErrorResponse_Validate x = None"
| "registration_complete_post_res_valid (RegistrationCompletePostInternalServerError x) \<longleftrightarrow> ErrorResponse_Validate x = None"

fun sessions_delete_res_valid :: "sessions_delete_res \<Rightarrow> bool" where
  "sessions_delete_res_valid SessionsSessionIdDeleteNoContent \<longleftrightarrow> True"
| "sessions_delete_res_valid (SessionsSessionIdDeleteBadRequest x) \<longleftrightarrow> ErrorResponse_Validate x = None"
| "sessions_delete_res_valid (SessionsSessionIdDeleteUnauthorized x) \<longleftrightarrow> ErrorResponse_Validate x = None"
| "sessions_delete_res_valid (SessionsSessionIdDeleteForbidden x) \<longleftrightarrow> ErrorResponse_Validate x = None"
| "sessions_delete_res_valid (SessionsSessionIdDeleteNotFound x) \<longleftrightarrow> ErrorResponse_Validate x = None"
| "sessions_delete_res_valid (SessionsSessionIdDeleteInternalServerError x) \<longleftrightarrow> ErrorResponse_Validate x = None"

fun token_refresh_post_res_valid :: "token_refresh_post_res \<Rightarrow> bool" where
  "token_refresh_post_res_valid (TokenRefreshPostOK x) \<longleftrightarrow> True"
| "token_refresh_post_res_valid (TokenRefreshPostBadRequest x) \<longleftrightarrow> ErrorResponse_Validate x = None"
| "token_refresh_post_res_valid (TokenRefreshPostUnauthorized x) \<longleftrightarrow> ErrorResponse_Validate x = None"
| "token_refresh_post_res_valid (TokenRefreshPostInternalServerError x) \<longleftrightarrow> ErrorResponse_Validate x = None"

text \<open>Evaluating one answer: the case of its status, and the codec of its type.\<close>

lemmas answer_eval =
  alias_methods error_response_json.decode_answer_json alias_json.decode_answer_json
  token_pair_json.decode_answer_json invite_json.decode_answer_json login_begin_json.decode_answer_json
  registration_begin_json.decode_answer_json login_ok_json.decode_answer_json

lemma revoke_chain_res_read:
  "client_law C \<Longrightarrow> revoke_chain_res_carried C x \<Longrightarrow> revoke_chain_res_valid x \<Longrightarrow>
   decodeAdminUsersUserIdRevokeChainPostResponse C (encodeAdminUsersUserIdRevokeChainPostResponse (cl_api C) x) = Inr x"
  by (cases x) (simp_all add: decodeAdminUsersUserIdRevokeChainPostResponse_def encodeAdminUsersUserIdRevokeChainPostResponse_def answer_eval)

lemma invites_post_res_read:
  "client_law C \<Longrightarrow> invites_post_res_carried C x \<Longrightarrow> invites_post_res_valid x \<Longrightarrow>
   decodeInvitesPostResponse C (encodeInvitesPostResponse (cl_api C) x) = Inr x"
  by (cases x) (simp_all add: decodeInvitesPostResponse_def encodeInvitesPostResponse_def answer_eval)

lemma login_begin_post_res_read:
  "client_law C \<Longrightarrow> login_begin_post_res_carried C x \<Longrightarrow> login_begin_post_res_valid x \<Longrightarrow>
   decodeLoginBeginPostResponse C (encodeLoginBeginPostResponse (cl_api C) x) = Inr x"
  by (cases x) (simp_all add: decodeLoginBeginPostResponse_def encodeLoginBeginPostResponse_def answer_eval)

lemma login_post_res_read:
  "client_law C \<Longrightarrow> login_post_res_carried C x \<Longrightarrow> login_post_res_valid x \<Longrightarrow>
   decodeLoginPostResponse C (encodeLoginPostResponse (cl_api C) x) = Inr x"
  by (cases x) (simp_all add: decodeLoginPostResponse_def encodeLoginPostResponse_def answer_eval)

lemma registration_begin_post_res_read:
  "client_law C \<Longrightarrow> registration_begin_post_res_carried C x \<Longrightarrow> registration_begin_post_res_valid x \<Longrightarrow>
   decodeRegistrationBeginPostResponse C (encodeRegistrationBeginPostResponse (cl_api C) x) = Inr x"
  by (cases x) (simp_all add: decodeRegistrationBeginPostResponse_def encodeRegistrationBeginPostResponse_def answer_eval)

lemma registration_complete_post_res_read:
  "client_law C \<Longrightarrow> registration_complete_post_res_carried C x \<Longrightarrow> registration_complete_post_res_valid x \<Longrightarrow>
   decodeRegistrationCompletePostResponse C (encodeRegistrationCompletePostResponse (cl_api C) x) = Inr x"
  by (cases x) (simp_all add: decodeRegistrationCompletePostResponse_def encodeRegistrationCompletePostResponse_def answer_eval)

lemma sessions_delete_res_read:
  "client_law C \<Longrightarrow> sessions_delete_res_carried C x \<Longrightarrow> sessions_delete_res_valid x \<Longrightarrow>
   decodeSessionsSessionIdDeleteResponse C (encodeSessionsSessionIdDeleteResponse (cl_api C) x) = Inr x"
  by (cases x) (simp_all add: decodeSessionsSessionIdDeleteResponse_def encodeSessionsSessionIdDeleteResponse_def answer_eval)

lemma token_refresh_post_res_read:
  "client_law C \<Longrightarrow> token_refresh_post_res_carried C x \<Longrightarrow> token_refresh_post_res_valid x \<Longrightarrow>
   decodeTokenRefreshPostResponse C (encodeTokenRefreshPostResponse (cl_api C) x) = Inr x"
  by (cases x) (simp_all add: decodeTokenRefreshPostResponse_def encodeTokenRefreshPostResponse_def answer_eval)

lemma auth_verify_get_res_read:
  assumes "client_law C" and "auth_verify_get_res_carried C x" and "auth_verify_get_res_valid x"
  shows "\<exists>r. encodeAuthVerifyGetResponse (cl_api C) x = Inr r \<and> decodeAuthVerifyGetResponse C r = Inr x"
proof (cases x)
  case (AuthVerifyGetNoContent u)
  with assms obtain h v where h: "al_header_value (cl_api C) (al_UUIDToString (cl_api C) u) = Inr h"
    and v: "cl_header_value C h = Inr v" "al_ToUUID (cl_api C) v = Inr u"
    by (fastforce simp: client_law_def)
  then show ?thesis
    by (simp add: AuthVerifyGetNoContent encodeAuthVerifyGetResponse_def decodeAuthVerifyGetResponse_def)
next
  case (AuthVerifyGetUnauthorized e)
  with assms show ?thesis
    by (simp add: encodeAuthVerifyGetResponse_def decodeAuthVerifyGetResponse_def answer_eval)
next
  case (AuthVerifyGetInternalServerError e)
  with assms show ?thesis
    by (simp add: encodeAuthVerifyGetResponse_def decodeAuthVerifyGetResponse_def answer_eval)
qed

end
