(* ===== verification/Go_Strings.thy ===== *)
theory Go_Strings
  imports Prelude
begin

text \<open>
  The functions of Go's packages \<open>strings\<close>, \<open>net\<close> and \<open>net/url\<close> that the source calls, on strings
  as sequences of bytes: white space, case, search and replacement, host and port, and the escaping
  of the parts of a URL.
\<close>

section \<open>strings\<close>

text \<open>\<open>strings.TrimSpace\<close>: the white space of Unicode, as its UTF-8 bytes.\<close>

definition space_runes :: "string list" where
  "space_runes =
     [[CHR 0x09], [CHR 0x0A], [CHR 0x0B], [CHR 0x0C], [CHR 0x0D], [CHR 0x20],
      [CHR 0xC2, CHR 0x85], [CHR 0xC2, CHR 0xA0], [CHR 0xE1, CHR 0x9A, CHR 0x80],
      [CHR 0xE2, CHR 0x80, CHR 0xA8], [CHR 0xE2, CHR 0x80, CHR 0xA9], [CHR 0xE2, CHR 0x80, CHR 0xAF],
      [CHR 0xE2, CHR 0x81, CHR 0x9F], [CHR 0xE3, CHR 0x80, CHR 0x80]] @
     map (\<lambda>n. [CHR 0xE2, CHR 0x80, char_of (0x80 + n :: nat)]) [0..<11]"

text \<open>Strip one of the given strings from the front until none is there; each has a character.\<close>

function trim_left :: "string list \<Rightarrow> string \<Rightarrow> string" where
  "trim_left rs s =
     (case find (\<lambda>r. r \<noteq> [] \<and> take (length r) s = r) rs of
        None \<Rightarrow> s | Some r \<Rightarrow> trim_left rs (drop (length r) s))"
  by auto
termination
proof (relation "measure (length \<circ> snd)")
  fix rs s r
  assume "find (\<lambda>r. r \<noteq> [] \<and> take (length r) s = r) rs = Some r"
  then have "r \<noteq> []" "take (length r) s = r" by (auto simp: find_Some_iff)
  then have "s \<noteq> []" "length r > 0" by auto
  then show "((rs, drop (length r) s), (rs, s)) \<in> measure (length \<circ> snd)" by simp
qed simp

declare trim_left.simps [simp del]

definition TrimSpace :: "string \<Rightarrow> string" where
  "TrimSpace s = rev (trim_left (map rev space_runes) (rev (trim_left space_runes s)))"

lemma TrimSpace_Nil [simp]: "TrimSpace [] = []"
proof -
  have "find (\<lambda>r. r \<noteq> [] \<and> take (length r) [] = r) rs = None" for rs :: "string list"
    by (auto simp: find_None_iff)
  then have "trim_left rs [] = []" for rs by (subst trim_left.simps) simp
  then show ?thesis by (simp add: TrimSpace_def)
qed

text \<open>\<open>strings.ToLower\<close> on a character of ASCII: the names it is called on are made of these.\<close>

definition lower :: "char \<Rightarrow> char" where
  "lower c = (let n = of_char c :: nat in if 65 \<le> n \<and> n \<le> 90 then char_of (n + 32) else c)"

definition ToLower :: "string \<Rightarrow> string" where
  "ToLower s = map lower s"

definition HasPrefix :: "string \<Rightarrow> string \<Rightarrow> bool" where
  "HasPrefix s p \<longleftrightarrow> take (length p) s = p"

definition TrimPrefix :: "string \<Rightarrow> string \<Rightarrow> string" where
  "TrimPrefix s p = (if HasPrefix s p then drop (length p) s else s)"

fun str_Contains :: "string \<Rightarrow> string \<Rightarrow> bool" where
  "str_Contains [] sub \<longleftrightarrow> sub = []"
| "str_Contains (c # s) sub \<longleftrightarrow> HasPrefix (c # s) sub \<or> str_Contains s sub"

text \<open>\<open>strings.ReplaceAll\<close> of one character by another, \<open>strings.Split\<close> at one character.\<close>

definition replace_char :: "char \<Rightarrow> char \<Rightarrow> string \<Rightarrow> string" where
  "replace_char a b s = map (\<lambda>c. if c = a then b else c) s"

fun split_char :: "char \<Rightarrow> string \<Rightarrow> string list" where
  "split_char a [] = [[]]"
| "split_char a (c # s) =
     (if c = a then [] # split_char a s
      else (case split_char a s of [] \<Rightarrow> [[c]] | p # ps \<Rightarrow> (c # p) # ps))"

lemma replace_char_gone: "a \<noteq> b \<Longrightarrow> a \<notin> set (replace_char a b s)"
  by (auto simp: replace_char_def)

lemma split_char_not_Nil [simp]: "split_char a s \<noteq> []"
  by (cases s) (auto split: list.split)

lemma split_char_parts: "p \<in> set (split_char a s) \<Longrightarrow> a \<notin> set p"
  by (induction s arbitrary: p) (auto split: list.splits if_splits)

section \<open>net\<close>

text \<open>\<open>net.JoinHostPort\<close>: a host with a colon is put into brackets.\<close>

definition JoinHostPort :: "string \<Rightarrow> string \<Rightarrow> string" where
  "JoinHostPort host port =
     (if CHR '':'' \<in> set host then ''['' @ host @ '']:'' @ port else host @ '':'' @ port)"

section \<open>net/url\<close>

text \<open>
  The characters each part of a URL keeps: \<open>shouldEscape\<close> for user names and passwords, hosts and
  paths. Every other byte is written as a percent sign and two hexadecimal digits.
\<close>

definition is_alnum :: "char \<Rightarrow> bool" where
  "is_alnum c \<longleftrightarrow>
     (let n = of_char c :: nat in 48 \<le> n \<and> n \<le> 57 \<or> 65 \<le> n \<and> n \<le> 90 \<or> 97 \<le> n \<and> n \<le> 122)"

definition unreserved :: "char \<Rightarrow> bool" where
  "unreserved c \<longleftrightarrow> is_alnum c \<or> c \<in> set ''-_.~''"

definition keeps_user :: "char \<Rightarrow> bool" where
  "keeps_user c \<longleftrightarrow> unreserved c \<or> c \<in> set ''$&+,;=''"

definition keeps_host :: "char \<Rightarrow> bool" where
  "keeps_host c \<longleftrightarrow> unreserved c \<or> c \<in> set ''!$&()*+,;=:[]<>'' \<or> c = CHR 0x27 \<or> c = CHR 0x22"

definition keeps_path :: "char \<Rightarrow> bool" where
  "keeps_path c \<longleftrightarrow> unreserved c \<or> c \<in> set ''$&+,/:;=@''"

definition upperhex :: "nat \<Rightarrow> char" where
  "upperhex n = ''0123456789ABCDEF'' ! n"

definition escape_with :: "(char \<Rightarrow> bool) \<Rightarrow> string \<Rightarrow> string" where
  "escape_with keep s =
     concat (map (\<lambda>c. if keep c then [c]
                      else [CHR ''%'', upperhex (of_char c div 16), upperhex (of_char c mod 16)]) s)"

end
