(* ===== verification/Http_Client_Ip.thy ===== *)
theory Http_Client_Ip
  imports Go_Strings Http_Request
begin

unbundle bit_operations_syntax

text \<open>
  \<open>internal/presentation/http\<close>, \<open>context.go\<close> and \<open>ip_middleware.go\<close>: what the request context
  carries, and how the address of the client is found. Reading addresses and prefixes from text is
  a parameter (\<open>net/netip\<close>'s parsers); prefixes, \<open>Contains\<close> and \<open>Masked\<close> are modelled.
\<close>

section \<open>context.go\<close>

text \<open>
  A context is the list of the pairs put into it, the last first; \<open>Value\<close> finds the first with an
  equal key. Both keys are values of the empty struct type \<open>ctxKey\<close>, and Go compares them equal.
\<close>

datatype ctx_key = ctxKey

datatype ctx_value = Ctx_User uuid | Ctx_Ip ip_addr

type_synonym req_ctx = "(ctx_key \<times> ctx_value) list"

definition userIDContextKey :: ctx_key where
  "userIDContextKey = ctxKey"

definition clientIPKey :: ctx_key where
  "clientIPKey = ctxKey"

definition WithUserID :: "req_ctx \<Rightarrow> uuid \<Rightarrow> req_ctx" where
  "WithUserID c i = (userIDContextKey, Ctx_User i) # c"

definition userIDFromContext :: "req_ctx \<Rightarrow> uuid option" where
  "userIDFromContext c = (case map_of c userIDContextKey of Some (Ctx_User i) \<Rightarrow> Some i | _ \<Rightarrow> None)"

definition WithClientIP :: "req_ctx \<Rightarrow> ip_addr \<Rightarrow> req_ctx" where
  "WithClientIP c ip = (clientIPKey, Ctx_Ip ip) # c"

definition ClientIPFromContext :: "req_ctx \<Rightarrow> ip_addr option" where
  "ClientIPFromContext c = (case map_of c clientIPKey of Some (Ctx_Ip ip) \<Rightarrow> Some ip | _ \<Rightarrow> None)"

lemma userID_WithUserID [simp]: "userIDFromContext (WithUserID c i) = Some i"
  by (simp add: userIDFromContext_def WithUserID_def)

lemma clientIP_WithClientIP [simp]: "ClientIPFromContext (WithClientIP c ip) = Some ip"
  by (simp add: ClientIPFromContext_def WithClientIP_def)

section \<open>Strings\<close>

text \<open>\<open>strings.LastIndexByte\<close>.\<close>

definition LastIndexByte :: "string \<Rightarrow> char \<Rightarrow> nat option" where
  "LastIndexByte s c = find (\<lambda>i. s ! i = c) (rev [0..<length s])"

lemma LastIndexByte_Some: "LastIndexByte s c = Some i \<Longrightarrow> i < length s \<and> s ! i = c"
  by (auto simp: LastIndexByte_def find_Some_iff rev_nth split: option.splits)

section \<open>Prefixes\<close>

record ip_prefix =
  ipp_addr :: ip_addr
  ipp_bits :: nat

text \<open>The parsers of \<open>net/netip\<close>.\<close>

record netip =
  np_ParseAddr :: "string \<Rightarrow> err + ip_addr"
  np_ParseAddrPort :: "string \<Rightarrow> err + ip_addr"
  np_ParsePrefix :: "string \<Rightarrow> err + ip_prefix"

fun prefix_Contains :: "ip_prefix \<Rightarrow> ip_addr \<Rightarrow> bool" where
  "prefix_Contains p (IPv4 a) =
     (case ipp_addr p of IPv4 b \<Rightarrow> ipp_bits p \<le> 32 \<and> drop_bit (32 - ipp_bits p) (a XOR b) = 0 | _ \<Rightarrow> False)"
| "prefix_Contains p (IPv6 a z) =
     (case ipp_addr p of
        IPv6 b _ \<Rightarrow> z = [] \<and> ipp_bits p \<le> 128 \<and> drop_bit (128 - ipp_bits p) (a XOR b) = 0 | _ \<Rightarrow> False)"
| "prefix_Contains p No_Addr = False"

text \<open>\<open>Masked\<close>: the bits after the prefix, and the zone, are cleared.\<close>

definition prefix_Masked :: "ip_prefix \<Rightarrow> ip_prefix" where
  "prefix_Masked p =
     p\<lparr>ipp_addr := (case ipp_addr p of
         IPv4 a \<Rightarrow> IPv4 (push_bit (32 - ipp_bits p) (drop_bit (32 - ipp_bits p) a))
       | IPv6 a _ \<Rightarrow> IPv6 (push_bit (128 - ipp_bits p) (drop_bit (128 - ipp_bits p) a)) []
       | No_Addr \<Rightarrow> No_Addr)\<rparr>"

section \<open>ip_middleware.go\<close>

definition isTrustedProxy :: "ip_addr \<Rightarrow> ip_prefix list \<Rightarrow> bool" where
  "isTrustedProxy ip trusted = list_ex (\<lambda>p. prefix_Contains p ip) trusted"

fun parseCIDRList :: "(err \<Rightarrow> string) \<Rightarrow> netip \<Rightarrow> string list \<Rightarrow> err + ip_prefix list" where
  "parseCIDRList context N [] = Inr []"
| "parseCIDRList context N (cidr # cidrs) =
     (case np_ParsePrefix N (TrimSpace cidr) of
        Inl e \<Rightarrow> Inl (Wrapped (''parse trusted proxy CIDR '' @ quoted cidr @ '': '' @ context e) e)
      | Inr p \<Rightarrow>
          (case parseCIDRList context N cidrs of
             Inl e \<Rightarrow> Inl e | Inr ps \<Rightarrow> Inr (prefix_Masked p # ps)))"

definition parseRemoteAddr :: "netip \<Rightarrow> string \<Rightarrow> ip_addr option" where
  "parseRemoteAddr N remoteAddr =
     (case np_ParseAddrPort N remoteAddr of
        Inr a \<Rightarrow> Some a
      | Inl _ \<Rightarrow> (case np_ParseAddr N remoteAddr of Inr a \<Rightarrow> Some a | Inl _ \<Rightarrow> None))"

text \<open>
  The loop of \<open>firstUntrustedFromRight\<close>: what is left to read is \<open>value[:i+1]\<close>, which is the
  argument here; it ends when nothing is left.
\<close>

function firstUntrustedFromRight :: "netip \<Rightarrow> ip_prefix list \<Rightarrow> string \<Rightarrow> ip_addr option" where
  "firstUntrustedFromRight N trusted val =
     (if val = [] then None
      else (case LastIndexByte val (CHR '','') of
              None \<Rightarrow>
                (let part = TrimSpace val in
                 if part = [] then None
                 else (case np_ParseAddr N part of
                         Inl _ \<Rightarrow> None
                       | Inr ip \<Rightarrow> if \<not> isTrustedProxy ip trusted then Some ip else None))
            | Some commaIdx \<Rightarrow>
                (let part = TrimSpace (drop (Suc commaIdx) val);
                     next = firstUntrustedFromRight N trusted (take commaIdx val) in
                 if part = [] then next
                 else (case np_ParseAddr N part of
                         Inl _ \<Rightarrow> next
                       | Inr ip \<Rightarrow> if \<not> isTrustedProxy ip trusted then Some ip else next))))"
  by auto
termination
  by (relation "measure (\<lambda>(N, trusted, val). length val)") (auto dest: LastIndexByte_Some)

declare firstUntrustedFromRight.simps [simp del]

definition forwardedForHeader :: string where
  "forwardedForHeader = ''X-Forwarded-For''"

definition extractClientIP :: "netip \<Rightarrow> http_request \<Rightarrow> ip_prefix list \<Rightarrow> ip_addr option" where
  "extractClientIP N r trusted =
     (case parseRemoteAddr N (hr_remote_addr r) of
        None \<Rightarrow> None
      | Some remoteIP \<Rightarrow>
          if \<not> isTrustedProxy remoteIP trusted then Some remoteIP
          else (case firstUntrustedFromRight N trusted (Header_Get r forwardedForHeader) of
                  Some ip \<Rightarrow> Some ip | None \<Rightarrow> Some remoteIP))"

text \<open>The middleware hands the request on in any case, with the address in the context if found.\<close>

definition clientIPMiddleware ::
  "netip \<Rightarrow> ip_prefix list \<Rightarrow> (req_ctx \<Rightarrow> http_request \<Rightarrow> 'a) \<Rightarrow> req_ctx \<Rightarrow> http_request \<Rightarrow> 'a" where
  "clientIPMiddleware N trusted handler c r =
     (case extractClientIP N r trusted of
        None \<Rightarrow> handler c r
      | Some ip \<Rightarrow> handler (WithClientIP c ip) r)"

definition NewClientIPMiddleware ::
  "(err \<Rightarrow> string) \<Rightarrow> netip \<Rightarrow> string list \<Rightarrow>
   err + ((req_ctx \<Rightarrow> http_request \<Rightarrow> 'a) \<Rightarrow> req_ctx \<Rightarrow> http_request \<Rightarrow> 'a)" where
  "NewClientIPMiddleware context N trustedProxies =
     (case parseCIDRList context N trustedProxies of
        Inl e \<Rightarrow> Inl e
      | Inr trusted \<Rightarrow> Inr (clientIPMiddleware N trusted))"

section \<open>The reference: the list split at its commas\<close>

text \<open>\<open>strings.Split(value, ",")\<close>, and the first entry from the right that is an untrusted address.\<close>

fun split_commas :: "string \<Rightarrow> string list" where
  "split_commas [] = [[]]"
| "split_commas (c # s) =
     (if c = CHR '','' then [] # split_commas s
      else (case split_commas s of p # ps \<Rightarrow> (c # p) # ps | [] \<Rightarrow> [[c]]))"

definition untrusted_entry :: "netip \<Rightarrow> ip_prefix list \<Rightarrow> string \<Rightarrow> ip_addr option" where
  "untrusted_entry N trusted part =
     (case np_ParseAddr N (TrimSpace part) of
        Inl _ \<Rightarrow> None | Inr ip \<Rightarrow> if TrimSpace part = [] \<or> isTrustedProxy ip trusted then None else Some ip)"

fun first_some :: "('a \<Rightarrow> 'b option) \<Rightarrow> 'a list \<Rightarrow> 'b option" where
  "first_some f [] = None"
| "first_some f (x # xs) = (case f x of Some y \<Rightarrow> Some y | None \<Rightarrow> first_some f xs)"

lemma first_some_append:
  "first_some f (xs @ ys) = (case first_some f xs of Some y \<Rightarrow> Some y | None \<Rightarrow> first_some f ys)"
  by (induction xs) (auto split: option.split)

lemma split_commas_not_Nil [simp]: "split_commas s \<noteq> []"
  by (induction s) (auto split: list.split)

lemma split_commas_plain: "CHR '','' \<notin> set s \<Longrightarrow> split_commas s = [s]"
  by (induction s) auto

lemma split_commas_append:
  "split_commas (s @ CHR '','' # t) = split_commas s @ split_commas t"
proof (induction s)
  case (Cons c s)
  then show ?case by (cases "split_commas s") auto
qed simp

lemma LastIndexByte_None: "LastIndexByte s c = None \<longleftrightarrow> c \<notin> set s"
  by (auto simp: LastIndexByte_def find_None_iff in_set_conv_nth split: option.splits)

lemma LastIndexByte_split:
  assumes "LastIndexByte s c = Some i"
  shows "s = take i s @ c # drop (Suc i) s" and "c \<notin> set (drop (Suc i) s)"
proof -
  from LastIndexByte_Some [OF assms] show "s = take i s @ c # drop (Suc i) s"
    by (metis id_take_nth_drop)
  obtain k where k: "k < length s" "rev [0..<length s] ! k = i"
    and later: "\<forall>j < k. s ! (rev [0..<length s] ! j) \<noteq> c"
    using assms by (auto simp: LastIndexByte_def find_Some_iff split: option.splits)
  have i: "i = length s - Suc k" using k by (simp add: rev_nth)
  have "s ! m \<noteq> c" if "i < m" "m < length s" for m
  proof -
    have "length s - Suc m < k" using that i k by simp
    with later have "s ! (rev [0..<length s] ! (length s - Suc m)) \<noteq> c" by blast
    then show ?thesis using that by (simp add: rev_nth)
  qed
  then show "c \<notin> set (drop (Suc i) s)" by (auto simp: in_set_conv_nth)
qed

text \<open>The loop from the right is the reference on the split list.\<close>

lemma firstUntrusted_split:
  "firstUntrustedFromRight N trusted val =
     first_some (untrusted_entry N trusted) (rev (split_commas val))"
proof (induction N trusted val rule: firstUntrustedFromRight.induct)
  case (1 N trusted val)
  show ?case
  proof (cases "LastIndexByte val (CHR '','')")
    case None
    then have "split_commas val = [val]" by (simp add: LastIndexByte_None split_commas_plain)
    then show ?thesis using None
      by (subst firstUntrustedFromRight.simps)
        (auto simp: untrusted_entry_def Let_def split: sum.split)
  next
    case (Some i)
    then have ne: "val \<noteq> []" by (auto dest: LastIndexByte_Some)
    have "split_commas val = split_commas (take i val) @ [drop (Suc i) val]"
      using LastIndexByte_split [OF Some] split_commas_append split_commas_plain by metis
    moreover note IH = 1 [OF ne Some refl]
    ultimately show ?thesis using ne Some
      by (subst firstUntrustedFromRight.simps)
        (auto simp: untrusted_entry_def [of N trusted "drop (Suc i) val"] Let_def split: sum.split)
  qed
qed

section \<open>What the address depends on\<close>

lemma first_some_SomeD: "first_some f xs = Some y \<Longrightarrow> \<exists>x \<in> set xs. f x = Some y"
  by (induction xs) (auto split: option.splits)

lemma untrusted_entry_untrusted: "untrusted_entry N trusted part = Some ip \<Longrightarrow> \<not> isTrustedProxy ip trusted"
  by (auto simp: untrusted_entry_def split: sum.splits if_splits)

lemma firstUntrusted_untrusted:
  "firstUntrustedFromRight N trusted s = Some ip \<Longrightarrow> \<not> isTrustedProxy ip trusted"
  by (auto simp: firstUntrusted_split dest!: first_some_SomeD untrusted_entry_untrusted)

lemma firstUntrusted_prepend:
  "firstUntrustedFromRight N trusted s = Some ip \<Longrightarrow>
   firstUntrustedFromRight N trusted (forged @ CHR '','' # s) = Some ip"
  by (simp add: firstUntrusted_split split_commas_append first_some_append)

section \<open>Properties\<close>

text \<open>The loop over the header from the right, which avoids splitting it, returns what
  splitting the header at its commas and trying the parts from the last would: the first one that
  parses as an address of no trusted proxy.\<close>

theorem forwarded_for_loop:
  "firstUntrustedFromRight N trusted header =
     first_some (untrusted_entry N trusted) (rev (split_commas header))"
  by (rule firstUntrusted_split)

text \<open>C26: The address of a client behind proxies that append to the header line the client sent is
  not the client's to choose, and only then. The header of a peer that is not a trusted proxy is
  ignored; behind a trusted peer, whatever the client puts in front of what the proxies append to
  the first line does not change the address found; an address that is found is one of a trusted
  proxy only when it is the peer itself. But lines after the first are not read: when the proxies add
  a line of their own, the line of the client alone decides, and names any untrusted address.\<close>

theorem client_ip_not_forged:
  assumes "parseRemoteAddr N (hr_remote_addr r) = Some remote"
  shows "(\<not> isTrustedProxy remote trusted \<longrightarrow> extractClientIP N r trusted = Some remote) \<and>
    (isTrustedProxy remote trusted \<longrightarrow> firstUntrustedFromRight N trusted appended = Some ip \<longrightarrow>
       Header_Get r forwardedForHeader \<in> {appended, forged @ CHR '','' # appended} \<longrightarrow>
       extractClientIP N r trusted = Some ip) \<and>
    (\<forall>a. extractClientIP N r trusted = Some a \<longrightarrow> isTrustedProxy a trusted \<longrightarrow> a = remote) \<and>
    (isTrustedProxy remote trusted \<longrightarrow>
       map_of (hr_headers r) forwardedForHeader = Some (client_line # proxy_lines) \<longrightarrow>
       firstUntrustedFromRight N trusted client_line = Some chosen \<longrightarrow>
       extractClientIP N r trusted = Some chosen)"
proof -
  have "a = remote" if "extractClientIP N r trusted = Some a" "isTrustedProxy a trusted" for a
    using that firstUntrusted_untrusted [of N trusted "Header_Get r forwardedForHeader"]
    by (auto simp: extractClientIP_def assms split: if_splits option.splits)
  then show ?thesis using firstUntrusted_prepend [of N trusted appended ip forged]
    by (auto simp: extractClientIP_def assms Header_Get_def)
qed

definition sample_netip :: netip where
  "sample_netip = \<lparr>
     np_ParseAddr = (\<lambda>s. if s = ''7.7.7.7'' then Inr (IPv4 7) else if s = ''10.0.0.2'' then Inr (IPv4 0x0A000002)
                         else Inl (External ''unable to parse'')),
     np_ParseAddrPort = (\<lambda>s. if s = ''10.0.0.1:99'' then Inr (IPv4 0x0A000001) else Inl (External ''no port'')),
     np_ParsePrefix = (\<lambda>s. Inl (External ''no prefix''))\<rparr>"

definition sample_proxies :: "ip_prefix list" where
  "sample_proxies = [\<lparr>ipp_addr = IPv4 0x0A000000, ipp_bits = 8\<rparr>]"

definition sample_forwarded :: "string list \<Rightarrow> http_request" where
  "sample_forwarded header_lines = \<lparr>hr_method = ''POST'', hr_path = ''/login'', hr_raw_path = [],
     hr_headers = [(''X-Forwarded-For'', header_lines)], hr_remote_addr = ''10.0.0.1:99'',
     hr_content_length = 0, hr_body = Inr []\<rparr>"

lemma TrimSpace_sample:
  "TrimSpace ''7.7.7.7'' = ''7.7.7.7''" "TrimSpace '' 10.0.0.2'' = ''10.0.0.2''"
  "TrimSpace ''forged'' = ''forged''"
  by (simp_all add: TrimSpace_def trim_left.simps space_runes_def upt_rec)

theorem client_ip_not_forged_witness:
  "extractClientIP sample_netip (sample_forwarded [''forged,7.7.7.7, 10.0.0.2'']) sample_proxies =
     Some (IPv4 7) \<and>
   extractClientIP sample_netip (sample_forwarded [''7.7.7.7'', ''8.8.8.8'']) sample_proxies =
     Some (IPv4 7)"
proof -
  have last: "firstUntrustedFromRight sample_netip sample_proxies ''7.7.7.7, 10.0.0.2'' = Some (IPv4 7)"
    "firstUntrustedFromRight sample_netip sample_proxies ''7.7.7.7'' = Some (IPv4 7)"
    by (simp_all add: firstUntrusted_split untrusted_entry_def TrimSpace_sample sample_netip_def
        isTrustedProxy_def sample_proxies_def)
  have peer: "parseRemoteAddr sample_netip (hr_remote_addr (sample_forwarded ls)) = Some (IPv4 0x0A000001)"
    "isTrustedProxy (IPv4 0x0A000001) sample_proxies" for ls
    by (simp_all add: parseRemoteAddr_def sample_netip_def sample_forwarded_def isTrustedProxy_def
        sample_proxies_def)
  note appends = client_ip_not_forged [OF peer(1) [of "[''forged,7.7.7.7, 10.0.0.2'']"],
      where trusted = sample_proxies and appended = "''7.7.7.7, 10.0.0.2''" and ip = "IPv4 7"
        and forged = "''forged''"]
  note adds_line = client_ip_not_forged [OF peer(1) [of "[''7.7.7.7'', ''8.8.8.8'']"],
      where trusted = sample_proxies and client_line = "''7.7.7.7''" and chosen = "IPv4 7"
        and proxy_lines = "[''8.8.8.8'']"]
  from appends adds_line last peer(2)
  show ?thesis by (simp add: sample_forwarded_def Header_Get_def forwardedForHeader_def)
qed

text \<open>The two keys are equal, so each value hides the other: after the user is put into the context
  the client's address is gone, and after the address the user is.\<close>

lemma context_keys_clash:
  "userIDFromContext (WithUserID c i) = Some i \<and> ClientIPFromContext (WithUserID c i) = None \<and>
   ClientIPFromContext (WithClientIP c ip) = Some ip \<and> userIDFromContext (WithClientIP c ip) = None"
  by (simp add: userIDFromContext_def WithUserID_def ClientIPFromContext_def WithClientIP_def
      userIDContextKey_def clientIPKey_def)

end
