(* ===== verification/Http_Auth.thy ===== *)
theory Http_Auth
  imports Http_Client_Ip Crypto
begin

text \<open>
  Who may call what: \<open>api/http/oas_operations_gen.go\<close> and \<open>oas_security_gen.go\<close> (the operations,
  the roles each needs, the bearer token of a request) and
  \<open>internal/presentation/http/auth_middleware.go\<close> (the check of the token).
\<close>

section \<open>oas_operations_gen.go\<close>

datatype operation =
    AdminUsersUserIdRevokeChainPostOperation
  | AuthVerifyGetOperation
  | InvitesPostOperation
  | LoginBeginPostOperation
  | LoginPostOperation
  | RegistrationBeginPostOperation
  | RegistrationCompletePostOperation
  | SessionsSessionIdDeleteOperation
  | TokenRefreshPostOperation

definition operation_name :: "operation \<Rightarrow> string" where
  "operation_name op =
     (case op of
        AdminUsersUserIdRevokeChainPostOperation \<Rightarrow> ''AdminUsersUserIdRevokeChainPost''
      | AuthVerifyGetOperation \<Rightarrow> ''AuthVerifyGet''
      | InvitesPostOperation \<Rightarrow> ''InvitesPost''
      | LoginBeginPostOperation \<Rightarrow> ''LoginBeginPost''
      | LoginPostOperation \<Rightarrow> ''LoginPost''
      | RegistrationBeginPostOperation \<Rightarrow> ''RegistrationBeginPost''
      | RegistrationCompletePostOperation \<Rightarrow> ''RegistrationCompletePost''
      | SessionsSessionIdDeleteOperation \<Rightarrow> ''SessionsSessionIdDelete''
      | TokenRefreshPostOperation \<Rightarrow> ''TokenRefreshPost'')"

section \<open>oas_security_gen.go\<close>

text \<open>
  \<open>strings.Cut(_, " ")\<close>, and \<open>strings.EqualFold\<close> with a prefix of ASCII letters none of which is
  the case variant of another character.
\<close>

definition Cut_space :: "string \<Rightarrow> (string \<times> string) option" where
  "Cut_space s =
     (if CHR '' '' \<in> set s
      then Some (takeWhile (\<lambda>c. c \<noteq> CHR '' '') s, tl (dropWhile (\<lambda>c. c \<noteq> CHR '' '') s))
      else None)"

definition EqualFold :: "string \<Rightarrow> string \<Rightarrow> bool" where
  "EqualFold s t \<longleftrightarrow> map lower s = map lower t"

fun first_scheme :: "string \<Rightarrow> string list \<Rightarrow> string option" where
  "first_scheme prefix [] = None"
| "first_scheme prefix (vv # vs) =
     (case Cut_space vv of
        Some (scheme, val) \<Rightarrow> if EqualFold scheme prefix then Some val else first_scheme prefix vs
      | None \<Rightarrow> first_scheme prefix vs)"

definition findAuthorization :: "http_request \<Rightarrow> string \<Rightarrow> string option" where
  "findAuthorization r prefix =
     (case map_of (hr_headers r) ''Authorization'' of None \<Rightarrow> None | Some v \<Rightarrow> first_scheme prefix v)"

definition operationRolesBearerAuth :: "operation \<Rightarrow> string list option" where
  "operationRolesBearerAuth op =
     (case op of
        AdminUsersUserIdRevokeChainPostOperation \<Rightarrow> Some [''admin'']
      | AuthVerifyGetOperation \<Rightarrow> Some [''admin'', ''member'']
      | InvitesPostOperation \<Rightarrow> Some [''admin'', ''member'']
      | SessionsSessionIdDeleteOperation \<Rightarrow> Some [''admin'', ''member'']
      | _ \<Rightarrow> None)"

text \<open>A nil slice and an empty one are both the empty list.\<close>

definition GetRolesForBearerAuth :: "operation \<Rightarrow> string list" where
  "GetRolesForBearerAuth op =
     (case operationRolesBearerAuth op of None \<Rightarrow> [] | Some roles \<Rightarrow> roles)"

section \<open>auth_middleware.go\<close>

definition roleAllowed :: "role \<Rightarrow> string list \<Rightarrow> bool" where
  "roleAllowed r required_roles \<longleftrightarrow> role_String r \<in> set required_roles"

definition HandleBearerAuth ::
  "env \<Rightarrow> access_token_verifier \<Rightarrow> req_ctx \<Rightarrow> bearer_auth \<Rightarrow> req_ctx act" where
  "HandleBearerAuth E verifier c t =
     bind (catch (Verify E verifier (ba_Token t))
             (\<lambda>e. if errors_is e Crypto_ErrTokenExpired then fail (Sentinel Http_ErrUnauthenticated)
                  else if errors_is e Crypto_ErrTokenMalformed then fail (Sentinel Http_ErrUnauthenticated)
                  else fail e)) (\<lambda>(userID, r).
     if length (ba_Roles t) > 0 \<and> \<not> roleAllowed r (ba_Roles t) then fail (Sentinel Http_ErrForbidden)
     else ret (WithUserID c userID))"

text \<open>\<open>securityBearerAuth\<close>: \<open>None\<close> when no token satisfies the scheme.\<close>

definition securityBearerAuth ::
  "env \<Rightarrow> access_token_verifier \<Rightarrow> req_ctx \<Rightarrow> operation \<Rightarrow> http_request \<Rightarrow> req_ctx option act" where
  "securityBearerAuth E verifier c op r =
     (case findAuthorization r ''Bearer'' of
        None \<Rightarrow> ret None
      | Some token \<Rightarrow>
          catch (bind (HandleBearerAuth E verifier c
                    \<lparr>ba_Token = token,
                     ba_Roles = (case operationRolesBearerAuth op of None \<Rightarrow> [] | Some rs \<Rightarrow> rs)\<rparr>)
                  (\<lambda>rctx. ret (Some rctx)))
            (\<lambda>e. if errors_is e Ogen_ErrSkipServerSecurity then ret None else fail e))"

section \<open>What a satisfied request has shown\<close>

lemma Verify_only_ticks: "Verify E tv tok w = (r, w') \<Longrightarrow> w' = w\<lparr>tick := Suc (tick w)\<rparr>"
  by (auto simp: Verify_def bind_def now_def fail_def ret_def split: sum.splits parse_failure.splits)

lemma Verify_no_panic: "fst (Verify E tv tok w) \<noteq> Panic v"
  by (auto simp: Verify_def bind_def now_def fail_def ret_def split: sum.splits parse_failure.splits)

text \<open>Every failure of \<open>Verify\<close> is one of the two errors the middleware knows.\<close>

lemma Verify_Err:
  "Verify E tv tok w = (Err e, w') \<Longrightarrow>
   errors_is e Crypto_ErrTokenExpired \<or> errors_is e Crypto_ErrTokenMalformed"
  by (auto simp: Verify_def bind_def now_def fail_def ret_def split: sum.splits parse_failure.splits)

lemma securityBearerAuth_run:
  "securityBearerAuth E tv c op r w =
     (case findAuthorization r ''Bearer'' of
        None \<Rightarrow> (Ok None, w)
      | Some token \<Rightarrow>
          (case fst (Verify E tv token w) of
             Ok (u, role) \<Rightarrow>
               (if GetRolesForBearerAuth op \<noteq> [] \<and> \<not> roleAllowed role (GetRolesForBearerAuth op)
                then Err (Sentinel Http_ErrForbidden) else Ok (Some (WithUserID c u)))
           | _ \<Rightarrow> Err (Sentinel Http_ErrUnauthenticated), w\<lparr>tick := Suc (tick w)\<rparr>))"
proof (cases "findAuthorization r ''Bearer''")
  case (Some token)
  obtain res w' where run: "Verify E tv token w = (res, w')" by fastforce
  have w': "w' = w\<lparr>tick := Suc (tick w)\<rparr>" using Verify_only_ticks [OF run] .
  have roles: "(case operationRolesBearerAuth op of None \<Rightarrow> [] | Some rs \<Rightarrow> rs) = GetRolesForBearerAuth op"
    by (simp add: GetRolesForBearerAuth_def)
  show ?thesis
  proof (cases res)
    case (Ok ur)
    with run w' show ?thesis
      by (cases ur) (auto simp: securityBearerAuth_def Some HandleBearerAuth_def bind_def catch_def
          fail_def ret_def roles)
  next
    case (Err e)
    then have "errors_is e Crypto_ErrTokenExpired \<or> errors_is e Crypto_ErrTokenMalformed"
      using run Verify_Err by blast
    with run w' Err show ?thesis
      by (auto simp: securityBearerAuth_def Some HandleBearerAuth_def bind_def catch_def fail_def
          ret_def)
  next
    case (Panic v)
    with run Verify_no_panic [of E tv token w v] show ?thesis by simp
  qed
qed (simp add: securityBearerAuth_def ret_def)

end
