(* ===== verification/Http_Errors.thy ===== *)
theory Http_Errors
  imports Http_Schemas
begin

text \<open>
  \<open>internal/presentation/http/errors.go\<close>: which response each endpoint gives to which error of
  its use case, as a registry of \<open>pkg/errkit\<close> per endpoint.
\<close>

definition NewError :: "error_code \<Rightarrow> string \<Rightarrow> error_response_error" where
  "NewError code message = \<lparr>er_code = code, er_message = message\<rparr>"

definition NewErrorResponse :: "error_code \<Rightarrow> string \<Rightarrow> error_response" where
  "NewErrorResponse code message = \<lparr>er_error = NewError code message\<rparr>"

definition newVerifyErrors :: "auth_verify_get_res registry" where
  "newVerifyErrors = errkit_New
     [OnIs (\<lambda>_. AuthVerifyGetUnauthorized (NewErrorResponse Code_UNAUTHORIZED
        ''invalid access token or access token expired'')) Http_ErrUnauthenticated,
      errkit_Default (\<lambda>_. AuthVerifyGetInternalServerError
        (NewErrorResponse Code_INTERNAL_ERROR ''internal server error''))]"

definition newInvitesErrors :: "invites_post_res registry" where
  "newInvitesErrors = errkit_New
     [OnIs (\<lambda>_. InvitesPostUnauthorized (NewErrorResponse Code_UNAUTHORIZED ''unauthorized''))
        Http_ErrUnauthenticated,
      OnIs (\<lambda>_. InvitesPostConflict (NewErrorResponse Code_INVITE_LIMIT_EXCEEDED
        ''active invite limit exceeded'')) Invite_ErrTooManyActive,
      OnIs (\<lambda>_. InvitesPostConflict (NewErrorResponse Code_VALIDATION_ERROR ''invalid request''))
        Domain_ErrValidation,
      errkit_Default (\<lambda>_. InvitesPostInternalServerError
        (NewErrorResponse Code_INTERNAL_ERROR ''internal server error''))]"

definition newRegistrationBeginErrors :: "registration_begin_post_res registry" where
  "newRegistrationBeginErrors = errkit_New
     [OnIs (\<lambda>_. RegistrationBeginPostBadRequest (NewErrorResponse Code_VALIDATION_ERROR
        ''invalid registration request'')) Domain_ErrValidation,
      OnIs (\<lambda>_. RegistrationBeginPostNotFound (NewErrorResponse Code_INVITE_NOT_FOUND
        ''invite not found'')) Domain_ErrNotFound,
      OnIs (\<lambda>_. RegistrationBeginPostConflict (NewErrorResponse Code_INVITE_ALREADY_USED
        ''invite already used'')) Invite_ErrAlreadyUsed,
      OnIs (\<lambda>_. RegistrationBeginPostConflict (NewErrorResponse Code_INVITE_EXPIRED
        ''invite expired'')) Invite_ErrExpired,
      errkit_Default (\<lambda>_. RegistrationBeginPostInternalServerError
        (NewErrorResponse Code_INTERNAL_ERROR ''internal server error''))]"

definition newRegistrationCompleteErrors :: "registration_complete_post_res registry" where
  "newRegistrationCompleteErrors = errkit_New
     [OnIs (\<lambda>_. RegistrationCompletePostBadRequest (NewErrorResponse Code_WRAPPED_KEYS_REQUIRED
        ''at least one wrapped key is required'')) App_ErrWrappedKeysRequired,
      OnIs (\<lambda>_. RegistrationCompletePostNotFound (NewErrorResponse Code_INVITE_NOT_FOUND
        ''invite not found'')) App_ErrInviteNotFound,
      OnIs (\<lambda>_. RegistrationCompletePostConflict (NewErrorResponse Code_INVITE_ALREADY_USED
        ''invite already used'')) Invite_ErrAlreadyUsed,
      OnIs (\<lambda>_. RegistrationCompletePostConflict (NewErrorResponse Code_INVITE_EXPIRED
        ''invite expired'')) Invite_ErrExpired,
      OnIs (\<lambda>_. RegistrationCompletePostInternalServerError (NewErrorResponse Code_INTERNAL_ERROR
        ''internal server error'')) Http_ErrClientIPUnavailable,
      errkit_Default (\<lambda>_. RegistrationCompletePostInternalServerError
        (NewErrorResponse Code_INTERNAL_ERROR ''internal server error''))]"

definition newLoginBeginErrors :: "login_begin_post_res registry" where
  "newLoginBeginErrors = errkit_New
     [errkit_Default (\<lambda>_. LoginBeginPostError
        (NewErrorResponse Code_INTERNAL_ERROR ''internal server error''))]"

definition newLoginErrors :: "login_post_res registry" where
  "newLoginErrors = errkit_New
     [OnIs (\<lambda>_. LoginPostBadRequest (NewErrorResponse Code_VALIDATION_ERROR
        ''invalid login request'')) Domain_ErrValidation,
      OnIs (\<lambda>_. LoginPostUnauthorized (NewErrorResponse Code_CREDENTIAL_NOT_FOUND
        ''credential not found'')) App_ErrCredentialNotFound,
      OnIs (\<lambda>_. LoginPostUnauthorized (NewErrorResponse Code_CREDENTIAL_REVOKED
        ''credential revoked'')) App_ErrCredentialRevoked,
      OnIs (\<lambda>_. LoginPostUnauthorized (NewErrorResponse Code_CREDENTIAL_CLONE_SUSPECTED
        ''credential clone suspected'')) App_ErrCredentialCloneSuspected,
      errkit_Default (\<lambda>_. LoginPostInternalServerError
        (NewErrorResponse Code_INTERNAL_ERROR ''internal server error''))]"

definition newRefreshErrors :: "token_refresh_post_res registry" where
  "newRefreshErrors = errkit_New
     [OnIs (\<lambda>_. TokenRefreshPostUnauthorized (NewErrorResponse Code_REFRESH_TOKEN_NOT_FOUND
        ''refresh token not found'')) App_ErrRefreshTokenNotFound,
      OnIs (\<lambda>_. TokenRefreshPostUnauthorized (NewErrorResponse Code_REFRESH_TOKEN_INVALID
        ''refresh token expired or revoked'')) App_ErrRefreshTokenInvalid,
      OnIs (\<lambda>_. TokenRefreshPostUnauthorized (NewErrorResponse Code_REFRESH_TOKEN_REUSE_DETECTED
        ''refresh token reuse detected'')) App_ErrRefreshTokenReuseDetected,
      errkit_Default (\<lambda>_. TokenRefreshPostInternalServerError
        (NewErrorResponse Code_INTERNAL_ERROR ''internal server error''))]"

definition newRevokeChainErrors :: "revoke_chain_res registry" where
  "newRevokeChainErrors = errkit_New
     [errkit_Default (\<lambda>_. AdminUsersUserIdRevokeChainPostInternalServerError
        (NewErrorResponse Code_INTERNAL_ERROR ''internal server error''))]"

definition newRevokeSessionErrors :: "sessions_delete_res registry" where
  "newRevokeSessionErrors = errkit_New
     [OnIs (\<lambda>_. SessionsSessionIdDeleteNotFound (NewErrorResponse Code_SESSION_NOT_FOUND
        ''session not found'')) App_ErrSessionNotFound,
      OnIs (\<lambda>_. SessionsSessionIdDeleteForbidden (NewErrorResponse Code_SESSION_FORBIDDEN
        ''session belongs to another user'')) App_ErrSessionForbidden,
      errkit_Default (\<lambda>_. SessionsSessionIdDeleteInternalServerError
        (NewErrorResponse Code_INTERNAL_ERROR ''internal server error''))]"

section \<open>Every registry has an answer\<close>

definition answers :: "'a registry \<Rightarrow> bool" where
  "answers r \<longleftrightarrow> reg_defaul r \<noteq> None"

lemma Resolve_answers: "answers r \<Longrightarrow> \<exists>v. Resolve r e = Some v"
  by (auto simp: answers_def Resolve_def split: option.split)

definition response_for :: "'a registry \<Rightarrow> err \<Rightarrow> 'a" where
  "response_for r e = (case Handle r e of Inr v \<Rightarrow> v | Inl _ \<Rightarrow> undefined)"

lemma Handle_answers: "answers r \<Longrightarrow> Handle r e = Inr (response_for r e)"
  using Resolve_answers [of r e] by (auto simp: Handle_def response_for_def)

lemmas registry_defs =
  newVerifyErrors_def newInvitesErrors_def newRegistrationBeginErrors_def
  newRegistrationCompleteErrors_def newLoginBeginErrors_def newLoginErrors_def newRefreshErrors_def
  newRevokeChainErrors_def newRevokeSessionErrors_def

lemma registries_answer [simp]:
  "answers newVerifyErrors" "answers newInvitesErrors" "answers newRegistrationBeginErrors"
  "answers newRegistrationCompleteErrors" "answers newLoginBeginErrors" "answers newLoginErrors"
  "answers newRefreshErrors" "answers newRevokeChainErrors" "answers newRevokeSessionErrors"
  by (simp_all add: answers_def registry_defs errkit_New_def errkit_Default_def OnIs_def)

text \<open>The answer of a registry to an error, evaluated.\<close>

lemmas registry_eval =
  registry_defs errkit_New_def OnIs_def errkit_Default_def Handle_def Resolve_def response_for_def
  NewErrorResponse_def NewError_def

text \<open>What a client learns from an error: the status class is in the constructor, the code and
  the message in the body. \<open>internal_body\<close> is the only body of an error nothing else matches.\<close>

definition internal_body :: error_response where
  "internal_body = NewErrorResponse Code_INTERNAL_ERROR ''internal server error''"

lemma response_for_login:
  "response_for newLoginErrors e =
     (if errors_is e Domain_ErrValidation
      then LoginPostBadRequest (NewErrorResponse Code_VALIDATION_ERROR ''invalid login request'')
      else if errors_is e App_ErrCredentialNotFound
      then LoginPostUnauthorized (NewErrorResponse Code_CREDENTIAL_NOT_FOUND ''credential not found'')
      else if errors_is e App_ErrCredentialRevoked
      then LoginPostUnauthorized (NewErrorResponse Code_CREDENTIAL_REVOKED ''credential revoked'')
      else if errors_is e App_ErrCredentialCloneSuspected
      then LoginPostUnauthorized
             (NewErrorResponse Code_CREDENTIAL_CLONE_SUSPECTED ''credential clone suspected'')
      else LoginPostInternalServerError internal_body)"
  by (simp add: registry_eval internal_body_def)

end
