(* ===== verification/Http_Handler.thy ===== *)
theory Http_Handler
  imports Http_Auth Http_Errors Http_Response App_Invites App_Login
begin

text \<open>
  \<open>internal/presentation/http/handler.go\<close>: one handler per operation. A handler reads what it
  needs from the request and the context, calls its use case outside any transaction, and answers
  with the result or with what its registry says of the error. The record holds the use cases as
  the models of their settings; the registries are those \<open>NewHandler\<close> makes.
\<close>

record handler =
  h_createInvite :: create_invite
  h_beginLogin :: authenticator
  h_login :: login
  h_beginRegistration :: begin_invite_registration
  h_finishRegistration :: finish_invite_registration
  h_refreshAccessToken :: refresh_access_token

text \<open>\<open>return h.errors.Handle(err)\<close>.\<close>

definition respond :: "'a registry \<Rightarrow> err \<Rightarrow> 'a act" where
  "respond reg e = lift_sum (Handle reg e)"

definition AuthVerifyGet :: "req_ctx \<Rightarrow> auth_verify_get_res act" where
  "AuthVerifyGet c =
     (case userIDFromContext c of
        None \<Rightarrow> respond newVerifyErrors (Sentinel Http_ErrUnauthenticated)
      | Some userID \<Rightarrow> ret (AuthVerifyGetNoContent userID))"

definition AdminUsersUserIdRevokeChainPost :: "env \<Rightarrow> uuid \<Rightarrow> revoke_chain_res act" where
  "AdminUsersUserIdRevokeChainPost E userId =
     catch (bind (RevokeCompromisedChain_Execute E No_Tx userId)
              (\<lambda>_. ret AdminUsersUserIdRevokeChainPostNoContent))
       (respond newRevokeChainErrors)"

definition InvitesPost :: "env \<Rightarrow> handler \<Rightarrow> req_ctx \<Rightarrow> invites_post_res act" where
  "InvitesPost E h c =
     (case userIDFromContext c of
        None \<Rightarrow> respond newInvitesErrors (Sentinel Http_ErrUnauthenticated)
      | Some userID \<Rightarrow>
          catch (bind (CreateInvite_Execute E (h_createInvite h) No_Tx userID) (\<lambda>(code, expiresAt).
                 ret (InvitesPostCreated \<lparr>ai_code = code, ai_expiresAt = expiresAt\<rparr>)))
            (respond newInvitesErrors))"

definition LoginBeginPost :: "env \<Rightarrow> handler \<Rightarrow> login_begin_post_res act" where
  "LoginBeginPost E h =
     catch (bind (BeginLogin_Execute E (h_beginLogin h)) (\<lambda>(token, opts).
            ret (LoginBeginPostOK \<lparr>lb_challengeToken = token, lb_requestOptions = opts\<rparr>)))
       (respond newLoginBeginErrors)"

definition api_wrapped_keys :: "wrapped_key_output list \<Rightarrow> api_wrapped_key_output list" where
  "api_wrapped_keys wks =
     map (\<lambda>wk. \<lparr>awk_scope = ScopeToString (wko_Scope wk), awk_wrappedDek = wko_WrappedDEK wk,
                awk_wrapAlgorithm = wko_WrapAlgorithm wk\<rparr>) wks"

definition LoginPost :: "env \<Rightarrow> handler \<Rightarrow> req_ctx \<Rightarrow> login_post_req \<Rightarrow> login_post_res act" where
  "LoginPost E h c req =
     (case ClientIPFromContext c of
        None \<Rightarrow> respond newLoginErrors (Sentinel Http_ErrClientIPUnavailable)
      | Some ipAddress \<Rightarrow>
          catch (bind (Login_Execute E (h_login h) No_Tx
                   \<lparr>li_ChallengeToken = lq_challengeToken req,
                    li_AuthenticationResponse = lq_authenticationResponse req,
                    li_DeviceInfo = OptString_Or (lq_deviceInfo req) [],
                    li_IPAddress = ipAddress\<rparr>) (\<lambda>out.
                 ret (LoginPostOK
                   \<lparr>lp_tokenPair = \<lparr>tp_accessToken = lo_AccessToken out,
                                    tp_refreshToken = lo_RefreshToken out\<rparr>,
                    lp_wrappedKeys = api_wrapped_keys (lo_WrappedKeys out)\<rparr>)))
            (respond newLoginErrors))"

definition RegistrationBeginPost ::
  "env \<Rightarrow> handler \<Rightarrow> registration_begin_post_req \<Rightarrow> registration_begin_post_res act" where
  "RegistrationBeginPost E h req =
     catch (bind (BeginInviteRegistration_Execute E (h_beginRegistration h) No_Tx (rbq_inviteCode req))
              (\<lambda>(token, opts).
            ret (RegistrationBeginPostOK \<lparr>rb_challengeToken = token, rb_creationOptions = opts\<rparr>)))
       (respond newRegistrationBeginErrors)"

definition input_wrapped_keys :: "api_wrapped_key_input list \<Rightarrow> wrapped_key_input list" where
  "input_wrapped_keys wks =
     map (\<lambda>wk. \<lparr>wki_Scope = ScopeFromString (awk_scope wk), wki_WrappedDEK = awk_wrappedDek wk,
                wki_WrapAlgorithm = awk_wrapAlgorithm wk\<rparr>) wks"

definition RegistrationCompletePost ::
  "env \<Rightarrow> handler \<Rightarrow> req_ctx \<Rightarrow> registration_complete_post_req \<Rightarrow> registration_complete_post_res act" where
  "RegistrationCompletePost E h c req =
     (case ClientIPFromContext c of
        None \<Rightarrow> respond newRegistrationCompleteErrors (Sentinel Http_ErrClientIPUnavailable)
      | Some ipAddress \<Rightarrow>
          catch (bind (FinishInviteRegistration_Execute E (h_finishRegistration h) No_Tx
                   \<lparr>fi_ChallengeToken = rcq_challengeToken req,
                    fi_RegistrationResponse = rcq_registrationResponse req,
                    fi_WrappedKeys = input_wrapped_keys (rcq_wrappedKeys req),
                    fi_DeviceInfo = OptString_Or (rcq_deviceInfo req) [],
                    fi_IPAddress = ipAddress\<rparr>) (\<lambda>out.
                 ret (RegistrationCompletePostCreated
                   \<lparr>tp_accessToken = fo_AccessToken out, tp_refreshToken = fo_RefreshToken out\<rparr>)))
            (respond newRegistrationCompleteErrors))"

definition SessionsSessionIdDelete :: "env \<Rightarrow> req_ctx \<Rightarrow> uuid \<Rightarrow> sessions_delete_res act" where
  "SessionsSessionIdDelete E c sessionId =
     (case userIDFromContext c of
        None \<Rightarrow> respond newRevokeSessionErrors (Sentinel Http_ErrUnauthenticated)
      | Some userID \<Rightarrow>
          catch (bind (RevokeSession_Execute E No_Tx sessionId userID)
                   (\<lambda>_. ret SessionsSessionIdDeleteNoContent))
            (respond newRevokeSessionErrors))"

definition TokenRefreshPost :: "env \<Rightarrow> handler \<Rightarrow> token_refresh_post_req \<Rightarrow> token_refresh_post_res act" where
  "TokenRefreshPost E h req =
     catch (bind (RefreshAccessToken_Execute E (h_refreshAccessToken h) No_Tx (trq_refreshToken req))
              (\<lambda>(access, refresh).
            ret (TokenRefreshPostOK \<lparr>tp_accessToken = access, tp_refreshToken = refresh\<rparr>)))
       (respond newRefreshErrors)"

section \<open>A handler answers\<close>

text \<open>
  A handler never returns an error, since every registry has a default: it answers, or it panics
  as its use case did. Its answer and its effect are those of the use case.
\<close>

lemma respond_answers: "answers reg \<Longrightarrow> respond reg e w = (Ok (response_for reg e), w)"
  by (simp add: respond_def lift_sum_def Handle_answers)

lemma catch_respond:
  assumes "answers reg"
  shows "catch (bind m (\<lambda>x. ret (f x))) (respond reg) w =
    (case m w of
       (Ok x, w') \<Rightarrow> (Ok (f x), w')
     | (Err e, w') \<Rightarrow> (Ok (response_for reg e), w')
     | (Panic v, w') \<Rightarrow> (Panic v, w'))"
  by (auto simp: catch_def bind_def ret_def respond_answers [OF assms] split: outcome.split prod.split)

lemma catch_respond2:
  assumes "answers reg"
  shows "catch (bind m (\<lambda>(x, y). ret (f x y))) (respond reg) w =
    (case m w of
       (Ok (x, y), w') \<Rightarrow> (Ok (f x y), w')
     | (Err e, w') \<Rightarrow> (Ok (response_for reg e), w')
     | (Panic v, w') \<Rightarrow> (Panic v, w'))"
  by (auto simp: catch_def bind_def ret_def respond_answers [OF assms] split: outcome.split prod.split)

lemmas handler_defs =
  AuthVerifyGet_def AdminUsersUserIdRevokeChainPost_def InvitesPost_def LoginBeginPost_def
  LoginPost_def RegistrationBeginPost_def RegistrationCompletePost_def SessionsSessionIdDelete_def
  TokenRefreshPost_def

lemmas handler_run = handler_defs respond_answers catch_respond catch_respond2

lemma handlers_never_fail:
  "fst (AuthVerifyGet c w) \<noteq> Err e"
  "fst (AdminUsersUserIdRevokeChainPost E i w) \<noteq> Err e"
  "fst (InvitesPost E h c w) \<noteq> Err e"
  "fst (LoginBeginPost E h w) \<noteq> Err e"
  "fst (LoginPost E h c lq w) \<noteq> Err e"
  "fst (RegistrationBeginPost E h rq w) \<noteq> Err e"
  "fst (RegistrationCompletePost E h c rcq w) \<noteq> Err e"
  "fst (SessionsSessionIdDelete E c i w) \<noteq> Err e"
  "fst (TokenRefreshPost E h tq w) \<noteq> Err e"
  by (auto simp: handler_run ret_def split: option.split prod.split outcome.split)

end
