(* ===== verification/Http_Router.thy ===== *)
theory Http_Router
  imports Http_Auth
begin

text \<open>
  \<open>api/http/oas_router_gen.go\<close> and the answers to unknown paths and methods of
  \<open>oas_cfg_gen.go\<close>: the walk over the tree of path prefixes that ogen generated, character by
  character, for \<open>ServeHTTP\<close>, the second such walk for \<open>FindPath\<close>, and the table of routes that the
  comments of the interface \<open>Handler\<close> give, which both stand for.
\<close>

section \<open>The tree\<close>

datatype route_leaf =
    Leaf_RevokeChain | Leaf_AuthVerify | Leaf_Invites | Leaf_Login | Leaf_LoginBegin
  | Leaf_RegistrationBegin | Leaf_RegistrationComplete | Leaf_Session | Leaf_TokenRefresh

text \<open>\<open>if l := len(p); len(elem) >= l && elem[0:l] == p { elem = elem[l:] } else { break }\<close>.\<close>

definition cut_prefix :: "string \<Rightarrow> string \<Rightarrow> string option" where
  "cut_prefix p elem =
     (if length elem \<ge> length p \<and> take (length p) elem = p then Some (drop (length p) elem) else None)"

text \<open>The leaf that is reached and the argument \<open>args[0]\<close>, or \<open>None\<close> for \<open>break\<close>.\<close>

definition walk_admin :: "string \<Rightarrow> (route_leaf \<times> string) option" where
  "walk_admin elem =
     (case cut_prefix ''dmin/users/'' elem of None \<Rightarrow> None
      | Some elem \<Rightarrow>
          let arg = takeWhile (\<lambda>c. c \<noteq> CHR ''/'') elem; elem = dropWhile (\<lambda>c. c \<noteq> CHR ''/'') elem in
          (case elem of [] \<Rightarrow> None
           | c # _ \<Rightarrow>
               if c = CHR ''/'' then
                 (case cut_prefix ''/revoke-chain'' elem of None \<Rightarrow> None
                  | Some elem \<Rightarrow> if elem = [] then Some (Leaf_RevokeChain, arg) else None)
               else None))"

definition walk_a :: "string \<Rightarrow> (route_leaf \<times> string) option" where
  "walk_a elem =
     (case cut_prefix ''a'' elem of None \<Rightarrow> None
      | Some elem \<Rightarrow>
          (case elem of [] \<Rightarrow> None
           | c # _ \<Rightarrow>
               if c = CHR ''d'' then walk_admin elem
               else if c = CHR ''u'' then
                 (case cut_prefix ''uth/verify'' elem of None \<Rightarrow> None
                  | Some elem \<Rightarrow> if elem = [] then Some (Leaf_AuthVerify, []) else None)
               else None))"

definition walk_login :: "string \<Rightarrow> (route_leaf \<times> string) option" where
  "walk_login elem =
     (case cut_prefix ''login'' elem of None \<Rightarrow> None
      | Some elem \<Rightarrow>
          (case elem of [] \<Rightarrow> Some (Leaf_Login, [])
           | c # _ \<Rightarrow>
               if c = CHR ''/'' then
                 (case cut_prefix ''/begin'' elem of None \<Rightarrow> None
                  | Some elem \<Rightarrow> if elem = [] then Some (Leaf_LoginBegin, []) else None)
               else None))"

definition walk_registration :: "string \<Rightarrow> (route_leaf \<times> string) option" where
  "walk_registration elem =
     (case cut_prefix ''registration/'' elem of None \<Rightarrow> None
      | Some elem \<Rightarrow>
          (case elem of [] \<Rightarrow> None
           | c # _ \<Rightarrow>
               if c = CHR ''b'' then
                 (case cut_prefix ''begin'' elem of None \<Rightarrow> None
                  | Some elem \<Rightarrow> if elem = [] then Some (Leaf_RegistrationBegin, []) else None)
               else if c = CHR ''c'' then
                 (case cut_prefix ''complete'' elem of None \<Rightarrow> None
                  | Some elem \<Rightarrow> if elem = [] then Some (Leaf_RegistrationComplete, []) else None)
               else None))"

definition walk_session :: "string \<Rightarrow> (route_leaf \<times> string) option" where
  "walk_session elem =
     (case cut_prefix ''sessions/'' elem of None \<Rightarrow> None
      | Some elem \<Rightarrow> if CHR ''/'' \<in> set elem then None else Some (Leaf_Session, elem))"

definition walk_path :: "string \<Rightarrow> (route_leaf \<times> string) option" where
  "walk_path elem =
     (case elem of [] \<Rightarrow> None
      | c # _ \<Rightarrow>
          if c \<noteq> CHR ''/'' then None
          else (case cut_prefix ''/'' elem of None \<Rightarrow> None
                | Some elem \<Rightarrow>
                    (case elem of [] \<Rightarrow> None
                     | c # _ \<Rightarrow>
                         if c = CHR ''a'' then walk_a elem
                         else if c = CHR ''i'' then
                           (case cut_prefix ''invites'' elem of None \<Rightarrow> None
                            | Some elem \<Rightarrow> if elem = [] then Some (Leaf_Invites, []) else None)
                         else if c = CHR ''l'' then walk_login elem
                         else if c = CHR ''r'' then walk_registration elem
                         else if c = CHR ''s'' then walk_session elem
                         else if c = CHR ''t'' then
                           (case cut_prefix ''token/refresh'' elem of None \<Rightarrow> None
                            | Some elem \<Rightarrow> if elem = [] then Some (Leaf_TokenRefresh, []) else None)
                         else None)))"

section \<open>The leaves\<close>

text \<open>
  Each leaf of \<open>ServeHTTP\<close> with the handler it calls, its only method and what a preflight is told.
  \<open>leaf_pattern\<close> names its path in the lemmas; the walk does not use it.
\<close>

definition leaf_operation :: "route_leaf \<Rightarrow> operation" where
  "leaf_operation l =
     (case l of
        Leaf_RevokeChain \<Rightarrow> AdminUsersUserIdRevokeChainPostOperation
      | Leaf_AuthVerify \<Rightarrow> AuthVerifyGetOperation
      | Leaf_Invites \<Rightarrow> InvitesPostOperation
      | Leaf_Login \<Rightarrow> LoginPostOperation
      | Leaf_LoginBegin \<Rightarrow> LoginBeginPostOperation
      | Leaf_RegistrationBegin \<Rightarrow> RegistrationBeginPostOperation
      | Leaf_RegistrationComplete \<Rightarrow> RegistrationCompletePostOperation
      | Leaf_Session \<Rightarrow> SessionsSessionIdDeleteOperation
      | Leaf_TokenRefresh \<Rightarrow> TokenRefreshPostOperation)"

definition leaf_method :: "route_leaf \<Rightarrow> string" where
  "leaf_method l =
     (case l of Leaf_AuthVerify \<Rightarrow> ''GET'' | Leaf_Session \<Rightarrow> ''DELETE'' | _ \<Rightarrow> ''POST'')"

definition leaf_pattern :: "route_leaf \<Rightarrow> string" where
  "leaf_pattern l =
     (case l of
        Leaf_RevokeChain \<Rightarrow> ''/admin/users/{userId}/revoke-chain''
      | Leaf_AuthVerify \<Rightarrow> ''/auth/verify''
      | Leaf_Invites \<Rightarrow> ''/invites''
      | Leaf_Login \<Rightarrow> ''/login''
      | Leaf_LoginBegin \<Rightarrow> ''/login/begin''
      | Leaf_RegistrationBegin \<Rightarrow> ''/registration/begin''
      | Leaf_RegistrationComplete \<Rightarrow> ''/registration/complete''
      | Leaf_Session \<Rightarrow> ''/sessions/{sessionId}''
      | Leaf_TokenRefresh \<Rightarrow> ''/token/refresh'')"

record not_allowed_params =
  na_allowedMethods :: string
  na_allowedHeaders :: "(string \<times> string) list"
  na_acceptPost :: string
  na_acceptPatch :: string

definition leaf_not_allowed :: "route_leaf \<Rightarrow> not_allowed_params" where
  "leaf_not_allowed l =
     (case l of
        Leaf_RevokeChain \<Rightarrow> \<lparr>na_allowedMethods = ''POST'', na_allowedHeaders = [(''POST'', ''Authorization'')],
          na_acceptPost = [], na_acceptPatch = []\<rparr>
      | Leaf_AuthVerify \<Rightarrow> \<lparr>na_allowedMethods = ''GET'', na_allowedHeaders = [(''GET'', ''Authorization'')],
          na_acceptPost = [], na_acceptPatch = []\<rparr>
      | Leaf_Invites \<Rightarrow> \<lparr>na_allowedMethods = ''POST'', na_allowedHeaders = [(''POST'', ''Authorization'')],
          na_acceptPost = [], na_acceptPatch = []\<rparr>
      | Leaf_LoginBegin \<Rightarrow> \<lparr>na_allowedMethods = ''POST'', na_allowedHeaders = [],
          na_acceptPost = [], na_acceptPatch = []\<rparr>
      | Leaf_Session \<Rightarrow> \<lparr>na_allowedMethods = ''DELETE'', na_allowedHeaders = [(''DELETE'', ''Authorization'')],
          na_acceptPost = [], na_acceptPatch = []\<rparr>
      | _ \<Rightarrow> \<lparr>na_allowedMethods = ''POST'', na_allowedHeaders = [(''POST'', ''Content-Type'')],
          na_acceptPost = ''application/json'', na_acceptPatch = []\<rparr>)"

section \<open>ServeHTTP\<close>

text \<open>\<open>cutPrefix\<close> of the server, whose prefix is configured.\<close>

definition server_cutPrefix :: "string \<Rightarrow> string \<Rightarrow> string option" where
  "server_cutPrefix prefix path =
     (if prefix = [] then Some path
      else if take (length prefix) path \<noteq> prefix then None
      else Some (drop (length prefix) path))"

datatype routed =
    To_Operation operation string bool
  | Not_Allowed not_allowed_params
  | Not_Found

text \<open>The path that is routed, and whether it is still escaped.\<close>

definition routed_path :: "api_libs \<Rightarrow> http_request \<Rightarrow> string \<times> bool" where
  "routed_path A r =
     (if hr_raw_path r \<noteq> []
      then (case al_NormalizeEscapedPath A (hr_raw_path r) of
              Some normalized \<Rightarrow> (normalized, CHR ''%'' \<in> set normalized)
            | None \<Rightarrow> (hr_path r, False))
      else (hr_path r, False))"

definition route_request :: "api_libs \<Rightarrow> string \<Rightarrow> http_request \<Rightarrow> routed" where
  "route_request A prefix r =
     (case routed_path A r of (path, elemIsEscaped) \<Rightarrow>
        (case server_cutPrefix prefix path of
           None \<Rightarrow> Not_Found
         | Some elem \<Rightarrow>
             if elem = [] then Not_Found
             else (case walk_path elem of
                     None \<Rightarrow> Not_Found
                   | Some (leaf, arg) \<Rightarrow>
                       if hr_method r = leaf_method leaf
                       then To_Operation (leaf_operation leaf) arg elemIsEscaped
                       else Not_Allowed (leaf_not_allowed leaf))))"

section \<open>FindPath\<close>

text \<open>
  \<open>FindPath\<close> walks a tree of its own, generated a second time, that ends in descriptions of routes.
  The summary of a route, a text, is left out; \<open>args\<close> is an array of one string.
\<close>

record route =
  ro_name :: operation
  ro_operationID :: string
  ro_operationGroup :: string
  ro_pathPattern :: string
  ro_count :: nat
  ro_args :: "string list"

definition Route_Args :: "route \<Rightarrow> string list" where
  "Route_Args r = take (ro_count r) (ro_args r)"

text \<open>\<open>switch method { case m: r.name = ...; return r, true; default: return }\<close>.\<close>

definition found_route ::
  "string \<Rightarrow> string \<Rightarrow> operation \<Rightarrow> string \<Rightarrow> string \<Rightarrow> nat \<Rightarrow> string \<Rightarrow> route option" where
  "found_route method m name operationID pathPattern n arg =
     (if method = m
      then Some \<lparr>ro_name = name, ro_operationID = operationID, ro_operationGroup = [],
             ro_pathPattern = pathPattern, ro_count = n, ro_args = [arg]\<rparr>
      else None)"

definition find_admin :: "string \<Rightarrow> string \<Rightarrow> route option" where
  "find_admin method elem =
     (case cut_prefix ''dmin/users/'' elem of None \<Rightarrow> None
      | Some elem \<Rightarrow>
          let arg = takeWhile (\<lambda>c. c \<noteq> CHR ''/'') elem; elem = dropWhile (\<lambda>c. c \<noteq> CHR ''/'') elem in
          (case elem of [] \<Rightarrow> None
           | c # _ \<Rightarrow>
               if c = CHR ''/'' then
                 (case cut_prefix ''/revoke-chain'' elem of None \<Rightarrow> None
                  | Some elem \<Rightarrow>
                      if elem = [] then
                        found_route method ''POST'' AdminUsersUserIdRevokeChainPostOperation []
                          ''/admin/users/{userId}/revoke-chain'' 1 arg
                      else None)
               else None))"

definition find_a :: "string \<Rightarrow> string \<Rightarrow> route option" where
  "find_a method elem =
     (case cut_prefix ''a'' elem of None \<Rightarrow> None
      | Some elem \<Rightarrow>
          (case elem of [] \<Rightarrow> None
           | c # _ \<Rightarrow>
               if c = CHR ''d'' then find_admin method elem
               else if c = CHR ''u'' then
                 (case cut_prefix ''uth/verify'' elem of None \<Rightarrow> None
                  | Some elem \<Rightarrow>
                      if elem = [] then
                        found_route method ''GET'' AuthVerifyGetOperation ''AuthVerifyGet'' ''/auth/verify'' 0 []
                      else None)
               else None))"

definition find_login :: "string \<Rightarrow> string \<Rightarrow> route option" where
  "find_login method elem =
     (case cut_prefix ''login'' elem of None \<Rightarrow> None
      | Some elem \<Rightarrow>
          (case elem of [] \<Rightarrow> found_route method ''POST'' LoginPostOperation [] ''/login'' 0 []
           | c # _ \<Rightarrow>
               if c = CHR ''/'' then
                 (case cut_prefix ''/begin'' elem of None \<Rightarrow> None
                  | Some elem \<Rightarrow>
                      if elem = [] then found_route method ''POST'' LoginBeginPostOperation [] ''/login/begin'' 0 []
                      else None)
               else None))"

definition find_registration :: "string \<Rightarrow> string \<Rightarrow> route option" where
  "find_registration method elem =
     (case cut_prefix ''registration/'' elem of None \<Rightarrow> None
      | Some elem \<Rightarrow>
          (case elem of [] \<Rightarrow> None
           | c # _ \<Rightarrow>
               if c = CHR ''b'' then
                 (case cut_prefix ''begin'' elem of None \<Rightarrow> None
                  | Some elem \<Rightarrow>
                      if elem = [] then
                        found_route method ''POST'' RegistrationBeginPostOperation [] ''/registration/begin'' 0 []
                      else None)
               else if c = CHR ''c'' then
                 (case cut_prefix ''complete'' elem of None \<Rightarrow> None
                  | Some elem \<Rightarrow>
                      if elem = [] then
                        found_route method ''POST'' RegistrationCompletePostOperation []
                          ''/registration/complete'' 0 []
                      else None)
               else None))"

definition find_session :: "string \<Rightarrow> string \<Rightarrow> route option" where
  "find_session method elem =
     (case cut_prefix ''sessions/'' elem of None \<Rightarrow> None
      | Some elem \<Rightarrow>
          if CHR ''/'' \<in> set elem then None
          else found_route method ''DELETE'' SessionsSessionIdDeleteOperation [] ''/sessions/{sessionId}'' 1 elem)"

definition find_path :: "string \<Rightarrow> string \<Rightarrow> route option" where
  "find_path method elem =
     (case elem of [] \<Rightarrow> None
      | c # _ \<Rightarrow>
          if c \<noteq> CHR ''/'' then None
          else (case cut_prefix ''/'' elem of None \<Rightarrow> None
                | Some elem \<Rightarrow>
                    (case elem of [] \<Rightarrow> None
                     | c # _ \<Rightarrow>
                         if c = CHR ''a'' then find_a method elem
                         else if c = CHR ''i'' then
                           (case cut_prefix ''invites'' elem of None \<Rightarrow> None
                            | Some elem \<Rightarrow>
                                if elem = [] then found_route method ''POST'' InvitesPostOperation [] ''/invites'' 0 []
                                else None)
                         else if c = CHR ''l'' then find_login method elem
                         else if c = CHR ''r'' then find_registration method elem
                         else if c = CHR ''s'' then find_session method elem
                         else if c = CHR ''t'' then
                           (case cut_prefix ''token/refresh'' elem of None \<Rightarrow> None
                            | Some elem \<Rightarrow>
                                if elem = [] then
                                  found_route method ''POST'' TokenRefreshPostOperation [] ''/token/refresh'' 0 []
                                else None)
                         else None)))"

text \<open>The deferred function: the arguments of an escaped path are unescaped where that is possible.\<close>

definition unescape_args :: "api_libs \<Rightarrow> route \<Rightarrow> route" where
  "unescape_args A r =
     r\<lparr>ro_args := map (\<lambda>arg. case al_PathUnescape A arg of Inr s \<Rightarrow> s | Inl _ \<Rightarrow> arg) (Route_Args r) @
         drop (ro_count r) (ro_args r)\<rparr>"

definition FindPath :: "api_libs \<Rightarrow> string \<Rightarrow> http_request \<Rightarrow> route option" where
  "FindPath A prefix r =
     (let raw = hr_raw_path r \<noteq> [];
          elem = (if raw then (case al_NormalizeEscapedPath A (hr_raw_path r) of
                                 Some normalized \<Rightarrow> normalized | None \<Rightarrow> hr_path r)
                  else hr_path r) in
      case server_cutPrefix prefix elem of
        None \<Rightarrow> None
      | Some elem \<Rightarrow> map_option (if raw then unescape_args A else id) (find_path (hr_method r) elem))"

section \<open>oas_cfg_gen.go\<close>

text \<open>No handler for a method that is not allowed is configured.\<close>

definition upper :: "char \<Rightarrow> char" where
  "upper c = (let n = of_char c :: nat in if 97 \<le> n \<and> n \<le> 122 then char_of (n - 32) else c)"

definition notAllowed :: "http_request \<Rightarrow> not_allowed_params \<Rightarrow> http_response" where
  "notAllowed r params =
     (if hr_method r = ''OPTIONS''
      then \<lparr>rs_status = 204,
            rs_headers =
              [(''Access-Control-Allow-Methods'', na_allowedMethods params)] @
              (let m = Header_Get r ''Access-Control-Request-Method'' in
               if m = [] then []
               else (case map_of (na_allowedHeaders params) (map upper m) of
                       Some allowed \<Rightarrow> [(''Access-Control-Allow-Headers'', allowed)] | None \<Rightarrow> [])) @
              (if na_acceptPost params \<noteq> [] then [(''Accept-Post'', na_acceptPost params)] else []) @
              (if na_acceptPatch params \<noteq> [] then [(''Accept-Patch'', na_acceptPatch params)] else []),
            rs_body = []\<rparr>
      else \<lparr>rs_status = 405, rs_headers = [(''Allow'', na_allowedMethods params)], rs_body = []\<rparr>)"

section \<open>The walk is the table\<close>

text \<open>The path of a leaf with its parameter filled in.\<close>

definition leaf_path :: "route_leaf \<Rightarrow> string \<Rightarrow> string" where
  "leaf_path l arg =
     (case l of
        Leaf_RevokeChain \<Rightarrow> ''/admin/users/'' @ arg @ ''/revoke-chain''
      | Leaf_Session \<Rightarrow> ''/sessions/'' @ arg
      | _ \<Rightarrow> leaf_pattern l)"

definition leaf_arg_ok :: "route_leaf \<Rightarrow> string \<Rightarrow> bool" where
  "leaf_arg_ok l arg \<longleftrightarrow>
     (if l \<in> {Leaf_RevokeChain, Leaf_Session} then CHR ''/'' \<notin> set arg else arg = [])"

lemma cut_prefix_Some: "cut_prefix p s = Some t \<longleftrightarrow> s = p @ t"
  by (auto simp: cut_prefix_def) (metis append_take_drop_id)

lemma cut_prefix_append [simp]: "cut_prefix p (p @ t) = Some t"
  by (simp add: cut_prefix_Some)

lemma option_case_Some:
  "(case x of None \<Rightarrow> None | Some y \<Rightarrow> f y) = Some z \<longleftrightarrow> (\<exists>y. x = Some y \<and> f y = Some z)"
  by (cases x) auto

text \<open>The last step of a branch: nothing is left after the prefix.\<close>

lemma cut_exact:
  "(case cut_prefix p s of None \<Rightarrow> None | Some t \<Rightarrow> if t = [] then Some x else None) = Some y \<longleftrightarrow>
   s = p \<and> y = x"
  by (cases "cut_prefix p s") (auto simp: cut_prefix_Some, auto simp: cut_prefix_def)

text \<open>A test of the first character in front of a branch that requires it.\<close>

lemma head_test:
  "(case s of [] \<Rightarrow> d | c # cs \<Rightarrow> f c) = (if s = [] then d else f (hd s))"
  by (cases s) auto

lemma if_then_Some:
  "(if P then Some x else None) = Some y \<longleftrightarrow> P \<and> x = y"
  "(if P then X else None) = Some y \<longleftrightarrow> P \<and> X = Some y"
  "(if P then None else X) = Some y \<longleftrightarrow> \<not> P \<and> X = Some y"
  "(if P then X else Y) = Some y \<longleftrightarrow> P \<and> X = Some y \<or> \<not> P \<and> Y = Some y"
  by auto

lemma head_guard: "\<not> s = [] \<and> hd s = c \<and> s = c # u \<and> Q \<longleftrightarrow> s = c # u \<and> Q"
  by auto

lemma slash_split:
  "(takeWhile (\<lambda>c. c \<noteq> x) t = a \<and> dropWhile (\<lambda>c. c \<noteq> x) t = x # u) \<longleftrightarrow> (t = a @ x # u \<and> x \<notin> set a)"
proof
  assume "takeWhile (\<lambda>c. c \<noteq> x) t = a \<and> dropWhile (\<lambda>c. c \<noteq> x) t = x # u"
  then show "t = a @ x # u \<and> x \<notin> set a" by (metis set_takeWhileD takeWhile_dropWhile_id)
next
  assume rhs: "t = a @ x # u \<and> x \<notin> set a"
  then have "\<And>c. c \<in> set a \<Longrightarrow> c \<noteq> x" by auto
  then show "takeWhile (\<lambda>c. c \<noteq> x) t = a \<and> dropWhile (\<lambda>c. c \<noteq> x) t = x # u"
    using rhs by (simp add: takeWhile_append2 dropWhile_append2)
qed

lemma walk_admin_Some:
  "walk_admin s = Some (l, a) \<longleftrightarrow>
     l = Leaf_RevokeChain \<and> CHR ''/'' \<notin> set a \<and> s = ''dmin/users/'' @ a @ ''/revoke-chain''"
proof (cases "cut_prefix ''dmin/users/'' s")
  case None
  then show ?thesis using cut_prefix_append [of "''dmin/users/''" "a @ ''/revoke-chain''"]
    by (auto simp: walk_admin_def simp del: cut_prefix_append)
next
  case (Some t)
  let ?rest = "dropWhile (\<lambda>c. c \<noteq> CHR ''/'') t"
  have s: "s = ''dmin/users/'' @ u \<longleftrightarrow> t = u" for u
    using Some [unfolded cut_prefix_Some] by (simp only: append_same_eq same_append_eq)
  have "walk_admin s = Some (l, a) \<longleftrightarrow>
      ?rest = ''/revoke-chain'' \<and> l = Leaf_RevokeChain \<and> a = takeWhile (\<lambda>c. c \<noteq> CHR ''/'') t"
    unfolding walk_admin_def Some option.case Let_def head_test if_then_Some cut_exact prod.inject
    by (simp only: option.distinct simp_thms head_guard)
  also have "\<dots> \<longleftrightarrow> l = Leaf_RevokeChain \<and> CHR ''/'' \<notin> set a \<and> t = a @ ''/revoke-chain''"
    using slash_split [of "CHR ''/''" t a "''revoke-chain''"] by auto
  finally show ?thesis by (simp only: s)
qed

text \<open>A branch: the prefix, then what the rest of the path says.\<close>

lemma cut_then:
  "(case cut_prefix p s of None \<Rightarrow> None | Some t \<Rightarrow> f t) = Some y \<longleftrightarrow> (\<exists>t. s = p @ t \<and> f t = Some y)"
  by (simp only: option_case_Some cut_prefix_Some)

lemma walk_login_Some:
  "walk_login s = Some y \<longleftrightarrow>
     s = ''login'' \<and> y = (Leaf_Login, []) \<or> s = ''login/begin'' \<and> y = (Leaf_LoginBegin, [])"
  unfolding walk_login_def cut_then head_test if_then_Some cut_exact by auto

lemma walk_registration_Some:
  "walk_registration s = Some y \<longleftrightarrow>
     s = ''registration/begin'' \<and> y = (Leaf_RegistrationBegin, []) \<or>
     s = ''registration/complete'' \<and> y = (Leaf_RegistrationComplete, [])"
  unfolding walk_registration_def cut_then head_test if_then_Some cut_exact
  by (rule iffI; elim exE conjE disjE; simp)

lemma walk_session_Some:
  "walk_session s = Some (l, a) \<longleftrightarrow> l = Leaf_Session \<and> CHR ''/'' \<notin> set a \<and> s = ''sessions/'' @ a"
  unfolding walk_session_def cut_then if_then_Some by auto

lemma walk_a_Some:
  "walk_a s = Some (l, a) \<longleftrightarrow>
     l = Leaf_RevokeChain \<and> CHR ''/'' \<notin> set a \<and> s = ''admin/users/'' @ a @ ''/revoke-chain'' \<or>
     l = Leaf_AuthVerify \<and> a = [] \<and> s = ''auth/verify''"
  unfolding walk_a_def cut_then head_test if_then_Some cut_exact walk_admin_Some by auto

lemma walk_path_Some:
  "walk_path s = Some (l, a) \<longleftrightarrow> leaf_arg_ok l a \<and> s = leaf_path l a"
  unfolding walk_path_def cut_then head_test if_then_Some cut_exact walk_a_Some walk_login_Some
    walk_registration_Some walk_session_Some
  by (cases l) (auto simp: leaf_arg_ok_def leaf_path_def leaf_pattern_def)

section \<open>Property\<close>

lemma server_cutPrefix_Nil [simp]: "server_cutPrefix [] path = Some path"
  by (simp add: server_cutPrefix_def)

lemma walk_path_Nil [simp]: "walk_path [] = None"
  by (simp add: walk_path_def)

lemma route_request_cases:
  "route_request A [] r =
     (case walk_path (fst (routed_path A r)) of
        None \<Rightarrow> Not_Found
      | Some (leaf, arg) \<Rightarrow>
          if hr_method r = leaf_method leaf
          then To_Operation (leaf_operation leaf) arg (snd (routed_path A r))
          else Not_Allowed (leaf_not_allowed leaf))"
  by (cases "routed_path A r") (auto simp: route_request_def split: option.split)

text \<open>The second tree, branch by branch, describes the leaf that the first one reaches.\<close>

definition leaf_route :: "string \<Rightarrow> route_leaf \<Rightarrow> string \<Rightarrow> route option" where
  "leaf_route method l arg =
     found_route method (leaf_method l) (leaf_operation l) (if l = Leaf_AuthVerify then ''AuthVerifyGet'' else [])
       (leaf_pattern l) (if l \<in> {Leaf_RevokeChain, Leaf_Session} then 1 else 0) arg"

definition found_leaf :: "string \<Rightarrow> (route_leaf \<times> string) option \<Rightarrow> route option" where
  "found_leaf method x = (case x of None \<Rightarrow> None | Some (l, arg) \<Rightarrow> leaf_route method l arg)"

lemmas leaf_defs = leaf_method_def leaf_operation_def leaf_pattern_def

lemma found_leaf_dist:
  "found_leaf m None = None" "found_leaf m (Some (l, a)) = leaf_route m l a"
  "found_leaf m (if P then x else y) = (if P then found_leaf m x else found_leaf m y)"
  "found_leaf m (case u of None \<Rightarrow> None | Some v \<Rightarrow> f v) = (case u of None \<Rightarrow> None | Some v \<Rightarrow> found_leaf m (f v))"
  "found_leaf m (case e of [] \<Rightarrow> z | c # cs \<Rightarrow> g c) = (case e of [] \<Rightarrow> found_leaf m z | c # cs \<Rightarrow> found_leaf m (g c))"
  by (simp_all add: found_leaf_def split: option.split list.split)

lemma leaf_routes:
  "leaf_route m Leaf_RevokeChain a = found_route m ''POST'' AdminUsersUserIdRevokeChainPostOperation []
     ''/admin/users/{userId}/revoke-chain'' 1 a"
  "leaf_route m Leaf_AuthVerify a = found_route m ''GET'' AuthVerifyGetOperation ''AuthVerifyGet'' ''/auth/verify'' 0 a"
  "leaf_route m Leaf_Invites a = found_route m ''POST'' InvitesPostOperation [] ''/invites'' 0 a"
  "leaf_route m Leaf_Login a = found_route m ''POST'' LoginPostOperation [] ''/login'' 0 a"
  "leaf_route m Leaf_LoginBegin a = found_route m ''POST'' LoginBeginPostOperation [] ''/login/begin'' 0 a"
  "leaf_route m Leaf_RegistrationBegin a =
     found_route m ''POST'' RegistrationBeginPostOperation [] ''/registration/begin'' 0 a"
  "leaf_route m Leaf_RegistrationComplete a =
     found_route m ''POST'' RegistrationCompletePostOperation [] ''/registration/complete'' 0 a"
  "leaf_route m Leaf_Session a = found_route m ''DELETE'' SessionsSessionIdDeleteOperation [] ''/sessions/{sessionId}'' 1 a"
  "leaf_route m Leaf_TokenRefresh a = found_route m ''POST'' TokenRefreshPostOperation [] ''/token/refresh'' 0 a"
  by (simp_all add: leaf_route_def leaf_defs)

lemmas found_simps = Let_def found_leaf_dist leaf_routes

lemma find_admin_walk: "find_admin m s = found_leaf m (walk_admin s)"
  by (simp only: find_admin_def walk_admin_def found_simps)

lemma find_login_walk: "find_login m s = found_leaf m (walk_login s)"
  by (simp only: find_login_def walk_login_def found_simps)

lemma find_registration_walk: "find_registration m s = found_leaf m (walk_registration s)"
  by (simp only: find_registration_def walk_registration_def found_simps)

lemma find_session_walk: "find_session m s = found_leaf m (walk_session s)"
  by (simp only: find_session_def walk_session_def found_simps)

lemma find_a_walk: "find_a m s = found_leaf m (walk_a s)"
  by (simp only: find_a_def walk_a_def find_admin_walk found_simps)

lemma find_path_walk: "find_path m s = found_leaf m (walk_path s)"
  by (simp only: find_path_def walk_path_def find_a_walk find_login_walk find_registration_walk
      find_session_walk found_simps)

text \<open>The routes of the interface, as the comments of \<open>Handler\<close> in \<open>oas_server_gen.go\<close> state them.\<close>

definition api_routes :: "(operation \<times> string \<times> string) list" where
  "api_routes =
     [(AdminUsersUserIdRevokeChainPostOperation, ''POST'', ''/admin/users/{userId}/revoke-chain''),
      (AuthVerifyGetOperation, ''GET'', ''/auth/verify''),
      (InvitesPostOperation, ''POST'', ''/invites''),
      (LoginBeginPostOperation, ''POST'', ''/login/begin''),
      (LoginPostOperation, ''POST'', ''/login''),
      (RegistrationBeginPostOperation, ''POST'', ''/registration/begin''),
      (RegistrationCompletePostOperation, ''POST'', ''/registration/complete''),
      (SessionsSessionIdDeleteOperation, ''DELETE'', ''/sessions/{sessionId}''),
      (TokenRefreshPostOperation, ''POST'', ''/token/refresh'')]"

text \<open>A pattern with its parameter filled in; a parameter has no slash.\<close>

definition with_param :: "string \<Rightarrow> bool" where
  "with_param pat \<longleftrightarrow> CHR ''{'' \<in> set pat"

definition fill :: "string \<Rightarrow> string \<Rightarrow> string" where
  "fill pat arg =
     (if with_param pat
      then takeWhile (\<lambda>c. c \<noteq> CHR ''{'') pat @ arg @ tl (dropWhile (\<lambda>c. c \<noteq> CHR ''}'') pat) else pat)"

definition arg_fits :: "string \<Rightarrow> string \<Rightarrow> bool" where
  "arg_fits pat arg \<longleftrightarrow> (if with_param pat then CHR ''/'' \<notin> set arg else arg = [])"

lemma leaf_filled: "leaf_path l arg = fill (leaf_pattern l) arg" "leaf_arg_ok l arg \<longleftrightarrow> arg_fits (leaf_pattern l) arg"
  by (cases l; simp add: leaf_path_def leaf_pattern_def fill_def with_param_def leaf_arg_ok_def arg_fits_def)+

lemma leaf_with_param: "with_param (leaf_pattern l) \<longleftrightarrow> l \<in> {Leaf_RevokeChain, Leaf_Session}"
  by (cases l; simp add: leaf_pattern_def with_param_def)

lemma api_routes_map:
  "api_routes = map (\<lambda>l. (leaf_operation l, leaf_method l, leaf_pattern l))
     [Leaf_RevokeChain, Leaf_AuthVerify, Leaf_Invites, Leaf_LoginBegin, Leaf_Login, Leaf_RegistrationBegin,
      Leaf_RegistrationComplete, Leaf_Session, Leaf_TokenRefresh]"
  by (simp add: api_routes_def leaf_defs)

lemma api_routes_leaves:
  "(op, m, pat) \<in> set api_routes \<longleftrightarrow> (\<exists>l. op = leaf_operation l \<and> m = leaf_method l \<and> pat = leaf_pattern l)"
proof -
  have "l \<in> set [Leaf_RevokeChain, Leaf_AuthVerify, Leaf_Invites, Leaf_LoginBegin, Leaf_Login,
      Leaf_RegistrationBegin, Leaf_RegistrationComplete, Leaf_Session, Leaf_TokenRefresh]" for l
    by (cases l) simp_all
  then show ?thesis unfolding api_routes_map set_map image_iff prod.inject by blast
qed

text \<open>What a request is routed to, by the table, and what \<open>FindPath\<close> finds there.\<close>

lemma routed_by_table:
  "route_request A [] r = To_Operation op arg escaped \<longleftrightarrow>
     (\<exists>pat. (op, hr_method r, pat) \<in> set api_routes \<and> arg_fits pat arg \<and> routed_path A r = (fill pat arg, escaped))"
    (is "?here \<longleftrightarrow> ?table")
proof -
  obtain path esc where rp: "routed_path A r = (path, esc)" by fastforce
  have "?here \<longleftrightarrow> (\<exists>l. walk_path path = Some (l, arg) \<and> hr_method r = leaf_method l \<and> op = leaf_operation l \<and> escaped = esc)"
    by (auto simp: route_request_cases rp split: option.splits)
  also have "\<dots> \<longleftrightarrow> ?table" unfolding walk_path_Some leaf_filled api_routes_leaves rp prod.inject by blast
  finally show ?thesis .
qed

lemma not_found_by_table:
  "route_request A [] r = Not_Found \<longleftrightarrow>
     (\<nexists>op m pat arg. (op, m, pat) \<in> set api_routes \<and> arg_fits pat arg \<and> fst (routed_path A r) = fill pat arg)"
proof -
  have "route_request A [] r = Not_Found \<longleftrightarrow> walk_path (fst (routed_path A r)) = None"
    by (auto simp: route_request_cases split: option.splits)
  also have "\<dots> \<longleftrightarrow> (\<nexists>l arg. walk_path (fst (routed_path A r)) = Some (l, arg))"
    by (cases "walk_path (fst (routed_path A r))") auto
  also have "\<dots> \<longleftrightarrow> (\<nexists>op m pat arg. (op, m, pat) \<in> set api_routes \<and> arg_fits pat arg \<and>
      fst (routed_path A r) = fill pat arg)"
    unfolding walk_path_Some leaf_filled api_routes_leaves by blast
  finally show ?thesis .
qed

lemma not_allowed_by_table:
  "(\<exists>p. route_request A [] r = Not_Allowed p \<and> na_allowedMethods p = m) \<longleftrightarrow>
     (\<exists>op pat arg. (op, m, pat) \<in> set api_routes \<and> arg_fits pat arg \<and>
        fst (routed_path A r) = fill pat arg \<and> hr_method r \<noteq> m)"
proof -
  have allowed: "na_allowedMethods (leaf_not_allowed l) = leaf_method l" for l
    by (cases l) (simp_all add: leaf_not_allowed_def leaf_method_def)
  have "(\<exists>p. route_request A [] r = Not_Allowed p \<and> na_allowedMethods p = m) \<longleftrightarrow>
      (\<exists>l arg. walk_path (fst (routed_path A r)) = Some (l, arg) \<and> m = leaf_method l \<and> hr_method r \<noteq> m)"
    by (auto simp: route_request_cases allowed split: option.splits)
  also have "\<dots> \<longleftrightarrow> (\<exists>op pat arg. (op, m, pat) \<in> set api_routes \<and> arg_fits pat arg \<and>
      fst (routed_path A r) = fill pat arg \<and> hr_method r \<noteq> m)"
    unfolding walk_path_Some leaf_filled api_routes_leaves by blast
  finally show ?thesis .
qed

definition unescaped_arg :: "api_libs \<Rightarrow> http_request \<Rightarrow> string \<Rightarrow> string" where
  "unescaped_arg A r arg =
     (if hr_raw_path r = [] then arg else case al_PathUnescape A arg of Inr s \<Rightarrow> s | Inl _ \<Rightarrow> arg)"

definition described :: "api_libs \<Rightarrow> http_request \<Rightarrow> operation \<Rightarrow> string \<Rightarrow> string \<Rightarrow> route \<Rightarrow> bool" where
  "described A r op pat arg rt \<longleftrightarrow>
     ro_name rt = op \<and> ro_pathPattern rt = pat \<and>
     Route_Args rt = (if with_param pat then [unescaped_arg A r arg] else [])"

lemma FindPath_find:
  "FindPath A [] r = map_option (if hr_raw_path r \<noteq> [] then unescape_args A else id)
     (find_path (hr_method r) (fst (routed_path A r)))"
  by (auto simp: FindPath_def routed_path_def Let_def split: option.split)

lemma found_described:
  assumes "FindPath A [] r = Some rt"
  shows "\<exists>op pat arg escaped. (op, hr_method r, pat) \<in> set api_routes \<and>
    route_request A [] r = To_Operation op arg escaped \<and> described A r op pat arg rt"
proof -
  from assms obtain l arg rt' where l: "walk_path (fst (routed_path A r)) = Some (l, arg)"
      "leaf_route (hr_method r) l arg = Some rt'" "rt = (if hr_raw_path r \<noteq> [] then unescape_args A else id) rt'"
    by (auto simp: FindPath_find find_path_walk found_leaf_def split: option.splits)
  then have m: "hr_method r = leaf_method l" by (auto simp: leaf_route_def found_route_def split: if_splits)
  have "described A r (leaf_operation l) (leaf_pattern l) arg rt"
    using l(2,3) by (auto simp: described_def leaf_route_def found_route_def leaf_with_param unescape_args_def
        Route_Args_def unescaped_arg_def split: if_splits)
  moreover have "route_request A [] r = To_Operation (leaf_operation l) arg (snd (routed_path A r))"
    using l(1) m by (simp add: route_request_cases)
  moreover have "(leaf_operation l, hr_method r, leaf_pattern l) \<in> set api_routes"
    unfolding api_routes_leaves m by blast
  ultimately show ?thesis by blast
qed

lemma FindPath_finds:
  "FindPath A [] r = None \<longleftrightarrow> (\<nexists>op arg escaped. route_request A [] r = To_Operation op arg escaped)"
  by (auto simp: FindPath_find find_path_walk found_leaf_def route_request_cases leaf_route_def found_route_def
      split: option.splits)

text \<open>C27: Both generated trees, walked character by character, are the table of routes. A request
  reaches an operation with an argument exactly when the table has a route of that operation with its
  method and a pattern whose parameter, filled in with that argument, gives its path; it is not found
  exactly when its path is no such path whatever the method, and refused with the method it should have
  when only that is wrong. \<open>FindPath\<close> finds a route exactly when the
  server reaches an operation, and then names that operation, its pattern and its argument.\<close>

theorem router_serves_table:
  "(route_request A [] r = To_Operation op arg escaped \<longleftrightarrow>
      (\<exists>pat. (op, hr_method r, pat) \<in> set api_routes \<and> arg_fits pat arg \<and>
         routed_path A r = (fill pat arg, escaped))) \<and>
   (route_request A [] r = Not_Found \<longleftrightarrow>
      (\<nexists>op m pat arg. (op, m, pat) \<in> set api_routes \<and> arg_fits pat arg \<and>
         fst (routed_path A r) = fill pat arg)) \<and>
   ((\<exists>p. route_request A [] r = Not_Allowed p \<and> na_allowedMethods p = m) \<longleftrightarrow>
      (\<exists>op pat arg. (op, m, pat) \<in> set api_routes \<and> arg_fits pat arg \<and>
         fst (routed_path A r) = fill pat arg \<and> hr_method r \<noteq> m)) \<and>
   (case FindPath A [] r of
      None \<Rightarrow> \<nexists>op arg escaped. route_request A [] r = To_Operation op arg escaped
    | Some rt \<Rightarrow> \<exists>op pat arg escaped. (op, hr_method r, pat) \<in> set api_routes \<and>
        route_request A [] r = To_Operation op arg escaped \<and> described A r op pat arg rt)"
  using routed_by_table not_found_by_table not_allowed_by_table found_described FindPath_finds
  by (intro conjI) (assumption | simp split: option.split)+

end
