(* ===== verification/Http_Server.thy ===== *)
theory Http_Server
  imports Http_Handler Http_Router
begin

unbundle bit_operations_syntax

text \<open>
  A request from the router to its answer: \<open>api/http/oas_handlers_gen.go\<close> (the steps around each
  handler), \<open>oas_server_gen.go\<close>, and \<open>internal/presentation/http/server.go\<close> (the answers to
  failures before the handler, and the chain of middleware). Spans and metrics are added in
  \<open>Http_Telemetry\<close>, logs are left out; of chi's middleware the recovery of panics, the request's identifier, the size limit (which makes
  reading the body fail) and CORS are outside the model.
\<close>

section \<open>Failures before the handler\<close>

datatype server_error =
    Security_Error "err option"
  | Decode_Params_Error string param_error
  | Decode_Request_Error request_error
  | Internal_Error err

text \<open>
  \<open>Code\<close> and \<open>Error\<close> of ogen's errors, and \<open>encoding/json\<close> on a value that marshals itself. Of an
  \<open>ogenerrors.Error\<close> the code is 4xx; that is what \<open>newErrorHandler\<close> writes.
\<close>

record error_libs =
  el_Code :: "server_error \<Rightarrow> nat"
  el_Error :: "server_error \<Rightarrow> string"
  el_json_Encode :: "bytes \<Rightarrow> bytes"

definition writeError :: "api_libs \<Rightarrow> error_libs \<Rightarrow> nat \<Rightarrow> error_response \<Rightarrow> http_response" where
  "writeError A L status response =
     \<lparr>rs_status = status, rs_headers = [(''Content-Type'', ''application/json; charset=utf-8'')],
      rs_body = el_json_Encode L (ErrorResponse_MarshalJSON (al_jx A) response)\<rparr>"

definition writeUnauthorized :: "api_libs \<Rightarrow> error_libs \<Rightarrow> http_response" where
  "writeUnauthorized A L =
     (let resp = writeError A L 401 (NewErrorResponse Code_UNAUTHORIZED ''unauthorized'')
      in resp\<lparr>rs_headers := (''WWW-Authenticate'', ''Bearer'') # rs_headers resp\<rparr>)"

definition writeForbidden :: "api_libs \<Rightarrow> error_libs \<Rightarrow> http_response" where
  "writeForbidden A L = writeError A L 403 (NewErrorResponse Code_FORBIDDEN ''insufficient permissions'')"

definition writeInternalError :: "api_libs \<Rightarrow> error_libs \<Rightarrow> http_response" where
  "writeInternalError A L =
     writeError A L 500 (NewErrorResponse Code_INTERNAL_ERROR ''internal server error'')"

text \<open>
  \<open>newErrorHandler\<close>: a security error, then a body over the limit, then any other error of ogen's.
\<close>

definition newErrorHandler :: "api_libs \<Rightarrow> error_libs \<Rightarrow> server_error \<Rightarrow> http_response" where
  "newErrorHandler A L e =
     (case e of
        Security_Error cause \<Rightarrow>
          (if (case cause of Some c \<Rightarrow> errors_is c Http_ErrForbidden | None \<Rightarrow> False)
           then writeForbidden A L else writeUnauthorized A L)
      | Decode_Request_Error (Read_Failed (Body_Too_Large txt)) \<Rightarrow>
          writeError A L 413 (NewErrorResponse Code_VALIDATION_ERROR txt)
      | Decode_Request_Error _ \<Rightarrow>
          writeError A L (el_Code L e) (NewErrorResponse Code_VALIDATION_ERROR (el_Error L e))
      | Decode_Params_Error _ _ \<Rightarrow>
          writeError A L (el_Code L e) (NewErrorResponse Code_VALIDATION_ERROR (el_Error L e))
      | Internal_Error _ \<Rightarrow> writeInternalError A L)"

section \<open>The steps of an operation\<close>

record server =
  sv_api :: api_libs
  sv_errors :: error_libs
  sv_verifier :: access_token_verifier
  sv_handler :: handler
  sv_prefix :: string
  sv_netip :: netip
  sv_trusted :: "ip_prefix list"

definition ErrorHandler :: "server \<Rightarrow> server_error \<Rightarrow> http_response act" where
  "ErrorHandler S e = ret (newErrorHandler (sv_api S) (sv_errors S) e)"

text \<open>The loop over the alternatives of requirements: one of them has all its bits satisfied.\<close>

definition requirement_met :: "8 word list \<Rightarrow> 8 word list list \<Rightarrow> bool" where
  "requirement_met satisfied requirements =
     list_ex (\<lambda>req. list_all (\<lambda>(s, m). s AND m = m) (zip satisfied req)) requirements"

definition secured ::
  "env \<Rightarrow> server \<Rightarrow> operation \<Rightarrow> req_ctx \<Rightarrow> http_request \<Rightarrow> (req_ctx \<Rightarrow> http_response act) \<Rightarrow>
   http_response act" where
  "secured E S op c r next w =
     (case securityBearerAuth E (sv_verifier S) c op r w of
        (Ok found, w') \<Rightarrow>
          (let satisfied = [case found of Some _ \<Rightarrow> 1 | None \<Rightarrow> 0];
               c' = (case found of Some sctx \<Rightarrow> sctx | None \<Rightarrow> c) in
           if requirement_met satisfied [[1]] then next c' w'
           else ErrorHandler S (Security_Error None) w')
      | (Err e, w') \<Rightarrow> ErrorHandler S (Security_Error (Some e)) w'
      | (Panic v, w') \<Rightarrow> (Panic v, w'))"

text \<open>The call of the handler and the encoding of what it returns.\<close>

definition answered :: "server \<Rightarrow> 'a act \<Rightarrow> ('a \<Rightarrow> err + http_response) \<Rightarrow> http_response act" where
  "answered S m encode w =
     (case m w of
        (Ok response, w') \<Rightarrow>
          (case encode response of
             Inr resp \<Rightarrow> (Ok resp, w') | Inl e \<Rightarrow> ErrorHandler S (Internal_Error e) w')
      | (Err e, w') \<Rightarrow> ErrorHandler S (Internal_Error e) w'
      | (Panic v, w') \<Rightarrow> (Panic v, w'))"

definition with_params ::
  "server \<Rightarrow> (string \<times> param_error) + uuid \<Rightarrow> (uuid \<Rightarrow> http_response act) \<Rightarrow> http_response act" where
  "with_params S p next =
     (case p of Inl (name, e) \<Rightarrow> ErrorHandler S (Decode_Params_Error name e) | Inr u \<Rightarrow> next u)"

definition with_request ::
  "server \<Rightarrow> request_error + 'a \<Rightarrow> ('a \<Rightarrow> http_response act) \<Rightarrow> http_response act" where
  "with_request S q next =
     (case q of Inl e \<Rightarrow> ErrorHandler S (Decode_Request_Error e) | Inr request \<Rightarrow> next request)"

definition handleAdminUsersUserIdRevokeChainPostRequest ::
  "env \<Rightarrow> server \<Rightarrow> string \<Rightarrow> bool \<Rightarrow> req_ctx \<Rightarrow> http_request \<Rightarrow> http_response act" where
  "handleAdminUsersUserIdRevokeChainPostRequest E S arg argsEscaped c r =
     secured E S AdminUsersUserIdRevokeChainPostOperation c r (\<lambda>_.
     with_params S (decodeAdminUsersUserIdRevokeChainPostParams (sv_api S) arg argsEscaped) (\<lambda>userId.
     answered S (AdminUsersUserIdRevokeChainPost E userId)
       (\<lambda>x. Inr (encodeAdminUsersUserIdRevokeChainPostResponse (sv_api S) x))))"

definition handleAuthVerifyGetRequest ::
  "env \<Rightarrow> server \<Rightarrow> req_ctx \<Rightarrow> http_request \<Rightarrow> http_response act" where
  "handleAuthVerifyGetRequest E S c r =
     secured E S AuthVerifyGetOperation c r (\<lambda>c.
     answered S (AuthVerifyGet c) (encodeAuthVerifyGetResponse (sv_api S)))"

definition handleInvitesPostRequest ::
  "env \<Rightarrow> server \<Rightarrow> req_ctx \<Rightarrow> http_request \<Rightarrow> http_response act" where
  "handleInvitesPostRequest E S c r =
     secured E S InvitesPostOperation c r (\<lambda>c.
     answered S (InvitesPost E (sv_handler S) c) (\<lambda>x. Inr (encodeInvitesPostResponse (sv_api S) x)))"

definition handleLoginBeginPostRequest :: "env \<Rightarrow> server \<Rightarrow> http_response act" where
  "handleLoginBeginPostRequest E S =
     answered S (LoginBeginPost E (sv_handler S)) (\<lambda>x. Inr (encodeLoginBeginPostResponse (sv_api S) x))"

definition handleLoginPostRequest ::
  "env \<Rightarrow> server \<Rightarrow> req_ctx \<Rightarrow> http_request \<Rightarrow> http_response act" where
  "handleLoginPostRequest E S c r =
     with_request S (decodeLoginPostRequest (sv_api S) r) (\<lambda>request.
     answered S (LoginPost E (sv_handler S) c request)
       (\<lambda>x. Inr (encodeLoginPostResponse (sv_api S) x)))"

definition handleRegistrationBeginPostRequest ::
  "env \<Rightarrow> server \<Rightarrow> http_request \<Rightarrow> http_response act" where
  "handleRegistrationBeginPostRequest E S r =
     with_request S (decodeRegistrationBeginPostRequest (sv_api S) r) (\<lambda>request.
     answered S (RegistrationBeginPost E (sv_handler S) request)
       (\<lambda>x. Inr (encodeRegistrationBeginPostResponse (sv_api S) x)))"

definition handleRegistrationCompletePostRequest ::
  "env \<Rightarrow> server \<Rightarrow> req_ctx \<Rightarrow> http_request \<Rightarrow> http_response act" where
  "handleRegistrationCompletePostRequest E S c r =
     with_request S (decodeRegistrationCompletePostRequest (sv_api S) r) (\<lambda>request.
     answered S (RegistrationCompletePost E (sv_handler S) c request)
       (\<lambda>x. Inr (encodeRegistrationCompletePostResponse (sv_api S) x)))"

definition handleSessionsSessionIdDeleteRequest ::
  "env \<Rightarrow> server \<Rightarrow> string \<Rightarrow> bool \<Rightarrow> req_ctx \<Rightarrow> http_request \<Rightarrow> http_response act" where
  "handleSessionsSessionIdDeleteRequest E S arg argsEscaped c r =
     secured E S SessionsSessionIdDeleteOperation c r (\<lambda>c.
     with_params S (decodeSessionsSessionIdDeleteParams (sv_api S) arg argsEscaped) (\<lambda>sessionId.
     answered S (SessionsSessionIdDelete E c sessionId)
       (\<lambda>x. Inr (encodeSessionsSessionIdDeleteResponse (sv_api S) x))))"

definition handleTokenRefreshPostRequest :: "env \<Rightarrow> server \<Rightarrow> http_request \<Rightarrow> http_response act" where
  "handleTokenRefreshPostRequest E S r =
     with_request S (decodeTokenRefreshPostRequest (sv_api S) r) (\<lambda>request.
     answered S (TokenRefreshPost E (sv_handler S) request)
       (\<lambda>x. Inr (encodeTokenRefreshPostResponse (sv_api S) x)))"

section \<open>The server\<close>

text \<open>\<open>http.NotFound\<close>, the default of the configuration.\<close>

definition notFound :: http_response where
  "notFound =
     \<lparr>rs_status = 404,
      rs_headers = [(''Content-Type'', ''text/plain; charset=utf-8''), (''X-Content-Type-Options'', ''nosniff'')],
      rs_body = stringToBytes (''404 page not found'' @ newline)\<rparr>"

definition ServeHTTP :: "env \<Rightarrow> server \<Rightarrow> req_ctx \<Rightarrow> http_request \<Rightarrow> http_response act" where
  "ServeHTTP E S c r =
     (case route_request (sv_api S) (sv_prefix S) r of
        Not_Found \<Rightarrow> ret notFound
      | Not_Allowed params \<Rightarrow> ret (notAllowed r params)
      | To_Operation op arg escaped \<Rightarrow>
          (case op of
             AdminUsersUserIdRevokeChainPostOperation \<Rightarrow>
               handleAdminUsersUserIdRevokeChainPostRequest E S arg escaped c r
           | AuthVerifyGetOperation \<Rightarrow> handleAuthVerifyGetRequest E S c r
           | InvitesPostOperation \<Rightarrow> handleInvitesPostRequest E S c r
           | LoginBeginPostOperation \<Rightarrow> handleLoginBeginPostRequest E S
           | LoginPostOperation \<Rightarrow> handleLoginPostRequest E S c r
           | RegistrationBeginPostOperation \<Rightarrow> handleRegistrationBeginPostRequest E S r
           | RegistrationCompletePostOperation \<Rightarrow> handleRegistrationCompletePostRequest E S c r
           | SessionsSessionIdDeleteOperation \<Rightarrow>
               handleSessionsSessionIdDeleteRequest E S arg escaped c r
           | TokenRefreshPostOperation \<Rightarrow> handleTokenRefreshPostRequest E S r))"

text \<open>\<open>NewRouter\<close>: the client's address is put into the context, then the server is called.\<close>

definition router_handler :: "env \<Rightarrow> server \<Rightarrow> http_request \<Rightarrow> http_response act" where
  "router_handler E S r = clientIPMiddleware (sv_netip S) (sv_trusted S) (ServeHTTP E S) [] r"

section \<open>What the steps do\<close>

lemma requirement_met_one [simp]:
  "requirement_met [1] [[1]]" "\<not> requirement_met [0] [[1]]"
  by (simp_all add: requirement_met_def)

lemma secured_run:
  "secured E S op c r next w =
     (case findAuthorization r ''Bearer'' of
        None \<Rightarrow> (Ok (writeUnauthorized (sv_api S) (sv_errors S)), w)
      | Some token \<Rightarrow>
          (let w' = w\<lparr>tick := Suc (tick w)\<rparr> in
           case fst (Verify E (sv_verifier S) token w) of
             Ok (u, role) \<Rightarrow>
               (if GetRolesForBearerAuth op \<noteq> [] \<and> \<not> roleAllowed role (GetRolesForBearerAuth op)
                then (Ok (writeForbidden (sv_api S) (sv_errors S)), w')
                else next (WithUserID c u) w')
           | _ \<Rightarrow> (Ok (writeUnauthorized (sv_api S) (sv_errors S)), w')))"
  by (auto simp: secured_def securityBearerAuth_run ErrorHandler_def ret_def newErrorHandler_def
      split: option.split outcome.split prod.split)

lemma answered_run:
  "answered S m (\<lambda>x. Inr (enc x)) w =
     (case m w of
        (Ok x, w') \<Rightarrow> (Ok (enc x), w')
      | (Err e, w') \<Rightarrow> (Ok (writeInternalError (sv_api S) (sv_errors S)), w')
      | (Panic v, w') \<Rightarrow> (Panic v, w'))"
  by (auto simp: answered_def ErrorHandler_def ret_def newErrorHandler_def split: outcome.split prod.split)

lemma status_write [simp]:
  "rs_status (writeError A L n e) = n" "rs_status (writeUnauthorized A L) = 401"
  "rs_status (writeForbidden A L) = 403" "rs_status (writeInternalError A L) = 500"
  by (simp_all add: writeError_def writeUnauthorized_def writeForbidden_def writeInternalError_def Let_def)

end
