(* ===== verification/Http_Client.thy ===== *)
theory Http_Client
  imports Http_Client_Decode Http_Server
begin

text \<open>
  The client that ogen generates, \<open>oas_client_gen.go\<close> and the client's half of \<open>oas_security_gen.go\<close>:
  each call builds a path, a request and its body, adds the bearer token where the operation needs
  one, sends it, and decodes the answer. The transport, ogen's run time and the source of tokens are
  parameters; spans and metrics are added in \<open>Http_Client_Telemetry\<close>.
\<close>

section \<open>The client\<close>

record url =
  url_Path :: string
  url_RawPath :: string

record client =
  cc_libs :: client_libs
  cc_serverURL :: url
  cc_AddPathParts :: "url \<Rightarrow> string list \<Rightarrow> url"
  cc_EncodePath :: "string \<Rightarrow> err + string"
  cc_NewRequest :: "string \<Rightarrow> url \<Rightarrow> err + http_request"
  cc_BearerAuth :: "operation \<Rightarrow> err + bearer_auth"
  cc_Do :: "http_request \<Rightarrow> http_response act"

datatype client_error =
    Encode_Path err
  | Create_Request err
  | Client_Security err
  | Requirement_Not_Satisfied
  | Do_Request err
  | Decode_Response response_error

definition TrimRight_slash :: "string \<Rightarrow> string" where
  "TrimRight_slash s = rev (dropWhile (\<lambda>c. c = CHR ''/'') (rev s))"

definition trimTrailingSlashes :: "url \<Rightarrow> url" where
  "trimTrailingSlashes u =
     u\<lparr>url_Path := TrimRight_slash (url_Path u), url_RawPath := TrimRight_slash (url_RawPath u)\<rparr>"

definition NewClient :: "(string \<Rightarrow> err + url) \<Rightarrow> string \<Rightarrow> client \<Rightarrow> err + client" where
  "NewClient parse serverURL c =
     (case parse serverURL of
        Inl e \<Rightarrow> Inl e | Inr u \<Rightarrow> Inr (c\<lparr>cc_serverURL := trimTrailingSlashes u\<rparr>))"

text \<open>The context may carry another server's URL.\<close>

definition requestURL :: "client \<Rightarrow> url option \<Rightarrow> url" where
  "requestURL c ctx_url = (case ctx_url of None \<Rightarrow> cc_serverURL c | Some u \<Rightarrow> u)"

section \<open>Security\<close>

definition Header_Set :: "string \<Rightarrow> string \<Rightarrow> http_request \<Rightarrow> http_request" where
  "Header_Set name v r =
     r\<lparr>hr_headers := (name, [v]) # filter (\<lambda>(k, _). k \<noteq> name) (hr_headers r)\<rparr>"

definition client_securityBearerAuth ::
  "client \<Rightarrow> operation \<Rightarrow> http_request \<Rightarrow> err + http_request" where
  "client_securityBearerAuth c op r =
     (case cc_BearerAuth c op of
        Inl e \<Rightarrow> Inl (Wrapped (''security source '' @ quoted ''BearerAuth'') e)
      | Inr t \<Rightarrow> Inr (Header_Set ''Authorization'' (''Bearer '' @ ba_Token t) r))"

definition client_secured :: "client \<Rightarrow> operation \<Rightarrow> http_request \<Rightarrow> client_error + http_request" where
  "client_secured c op r =
     (case (case client_securityBearerAuth c op r of
              Inr r' \<Rightarrow> Inr ([1], r')
            | Inl e \<Rightarrow> if errors_is e Ogen_ErrSkipClientSecurity then Inr ([0], r)
                       else Inl (Client_Security e)) of
        Inl e \<Rightarrow> Inl e
      | Inr (satisfied, r') \<Rightarrow>
          if requirement_met satisfied [[1]] then Inr r' else Inl Requirement_Not_Satisfied)"

section \<open>Steps of a call\<close>

definition client_request ::
  "client \<Rightarrow> url option \<Rightarrow> string \<Rightarrow> string list \<Rightarrow> client_error + http_request" where
  "client_request c ctx_url meth pathParts =
     (case cc_NewRequest c meth (cc_AddPathParts c (requestURL c ctx_url) pathParts) of
        Inl e \<Rightarrow> Inl (Create_Request e) | Inr r \<Rightarrow> Inr r)"

definition path_param :: "client \<Rightarrow> uuid \<Rightarrow> client_error + string" where
  "path_param c u =
     (case cc_EncodePath c (al_UUIDToString (cl_api (cc_libs c)) u) of
        Inl e \<Rightarrow> Inl (Encode_Path e) | Inr p \<Rightarrow> Inr p)"

definition dispatch ::
  "client \<Rightarrow> (client_libs \<Rightarrow> http_response \<Rightarrow> response_error + 'a) \<Rightarrow> client_error + http_request \<Rightarrow>
   (client_error + 'a) act" where
  "dispatch c decode q w =
     (case q of
        Inl e \<Rightarrow> (Ok (Inl e), w)
      | Inr r \<Rightarrow>
          (case cc_Do c r w of
             (Ok resp, w') \<Rightarrow>
               (Ok (case decode (cc_libs c) resp of Inl e \<Rightarrow> Inl (Decode_Response e) | Inr x \<Rightarrow> Inr x), w')
           | (Err e, w') \<Rightarrow> (Ok (Inl (Do_Request e)), w')
           | (Panic v, w') \<Rightarrow> (Panic v, w')))"

definition and_then :: "'e + 'a \<Rightarrow> ('a \<Rightarrow> 'e + 'b) \<Rightarrow> 'e + 'b" where
  "and_then x f = (case x of Inl e \<Rightarrow> Inl e | Inr y \<Rightarrow> f y)"

lemma and_then_simps [simp]: "and_then (Inr x) f = f x" "and_then (Inl e) f = Inl e"
  by (simp_all add: and_then_def)

section \<open>The calls\<close>

definition sendAdminUsersUserIdRevokeChainPost ::
  "client \<Rightarrow> url option \<Rightarrow> uuid \<Rightarrow> (client_error + revoke_chain_res) act" where
  "sendAdminUsersUserIdRevokeChainPost c ctx_url userId =
     dispatch c decodeAdminUsersUserIdRevokeChainPostResponse
       (and_then (path_param c userId) (\<lambda>p.
        and_then (client_request c ctx_url ''POST'' [''/admin/users/'', p, ''/revoke-chain'']) (\<lambda>r.
        client_secured c AdminUsersUserIdRevokeChainPostOperation r)))"

definition sendAuthVerifyGet :: "client \<Rightarrow> url option \<Rightarrow> (client_error + auth_verify_get_res) act" where
  "sendAuthVerifyGet c ctx_url =
     dispatch c decodeAuthVerifyGetResponse
       (and_then (client_request c ctx_url ''GET'' [''/auth/verify'']) (\<lambda>r.
        client_secured c AuthVerifyGetOperation r))"

definition sendInvitesPost :: "client \<Rightarrow> url option \<Rightarrow> (client_error + invites_post_res) act" where
  "sendInvitesPost c ctx_url =
     dispatch c decodeInvitesPostResponse
       (and_then (client_request c ctx_url ''POST'' [''/invites'']) (\<lambda>r.
        client_secured c InvitesPostOperation r))"

definition sendLoginBeginPost :: "client \<Rightarrow> url option \<Rightarrow> (client_error + login_begin_post_res) act" where
  "sendLoginBeginPost c ctx_url =
     dispatch c decodeLoginBeginPostResponse (client_request c ctx_url ''POST'' [''/login/begin''])"

definition sendLoginPost ::
  "client \<Rightarrow> url option \<Rightarrow> login_post_req \<Rightarrow> (client_error + login_post_res) act" where
  "sendLoginPost c ctx_url request =
     dispatch c decodeLoginPostResponse
       (and_then (client_request c ctx_url ''POST'' [''/login'']) (\<lambda>r.
        Inr (encodeLoginPostRequest (cl_api (cc_libs c)) request r)))"

definition sendRegistrationBeginPost ::
  "client \<Rightarrow> url option \<Rightarrow> registration_begin_post_req \<Rightarrow>
   (client_error + registration_begin_post_res) act" where
  "sendRegistrationBeginPost c ctx_url request =
     dispatch c decodeRegistrationBeginPostResponse
       (and_then (client_request c ctx_url ''POST'' [''/registration/begin'']) (\<lambda>r.
        Inr (encodeRegistrationBeginPostRequest (cl_api (cc_libs c)) request r)))"

definition sendRegistrationCompletePost ::
  "client \<Rightarrow> url option \<Rightarrow> registration_complete_post_req \<Rightarrow>
   (client_error + registration_complete_post_res) act" where
  "sendRegistrationCompletePost c ctx_url request =
     dispatch c decodeRegistrationCompletePostResponse
       (and_then (client_request c ctx_url ''POST'' [''/registration/complete'']) (\<lambda>r.
        Inr (encodeRegistrationCompletePostRequest (cl_api (cc_libs c)) request r)))"

definition sendSessionsSessionIdDelete ::
  "client \<Rightarrow> url option \<Rightarrow> uuid \<Rightarrow> (client_error + sessions_delete_res) act" where
  "sendSessionsSessionIdDelete c ctx_url sessionId =
     dispatch c decodeSessionsSessionIdDeleteResponse
       (and_then (path_param c sessionId) (\<lambda>p.
        and_then (client_request c ctx_url ''DELETE'' [''/sessions/'', p]) (\<lambda>r.
        client_secured c SessionsSessionIdDeleteOperation r)))"

definition sendTokenRefreshPost ::
  "client \<Rightarrow> url option \<Rightarrow> token_refresh_post_req \<Rightarrow> (client_error + token_refresh_post_res) act" where
  "sendTokenRefreshPost c ctx_url request =
     dispatch c decodeTokenRefreshPostResponse
       (and_then (client_request c ctx_url ''POST'' [''/token/refresh'']) (\<lambda>r.
        Inr (encodeTokenRefreshPostRequest (cl_api (cc_libs c)) request r)))"

end
