(* ===== verification/Http_Client_Facts.thy ===== *)
theory Http_Client_Facts
  imports Http_Client
begin

text \<open>
  What a handler answers passes the validators of the client; and a client whose transport is the
  server reaches, through paths, headers, bodies and answers, the handler of the operation it calls.
\<close>

section \<open>Answers are valid\<close>

lemma error_valid [simp]:
  "ErrorResponse_Validate (NewErrorResponse c m) = None \<longleftrightarrow> c \<in> set error_codes"
  by (simp add: ErrorResponse_Validate_def ErrorResponseError_Validate_def ErrorCode_Validate_def
      NewErrorResponse_def NewError_def split: option.split)

text \<open>A registry whose answers all have a known code.\<close>

lemmas registry_rows =
  registry_defs errkit_New_def OnIs_def errkit_Default_def Handle_def Resolve_def response_for_def

lemma registries_valid:
  "auth_verify_get_res_valid (response_for newVerifyErrors e)"
  "invites_post_res_valid (response_for newInvitesErrors e)"
  "registration_begin_post_res_valid (response_for newRegistrationBeginErrors e)"
  "registration_complete_post_res_valid (response_for newRegistrationCompleteErrors e)"
  "login_begin_post_res_valid (response_for newLoginBeginErrors e)"
  "login_post_res_valid (response_for newLoginErrors e)"
  "token_refresh_post_res_valid (response_for newRefreshErrors e)"
  "revoke_chain_res_valid (response_for newRevokeChainErrors e)"
  "sessions_delete_res_valid (response_for newRevokeSessionErrors e)"
  by (simp_all add: registry_rows error_codes_def)

lemma elem_failures_Nil: "(\<And>x. x \<in> set xs \<Longrightarrow> val x = None) \<Longrightarrow> elem_failures val i xs = []"
  by (induction xs arbitrary: i) auto

lemma login_ok_valid: "LoginPostOK_Validate \<lparr>lp_tokenPair = p, lp_wrappedKeys = api_wrapped_keys ks\<rparr> = None"
proof -
  have "elem_failures WrappedKeyOutput_Validate 0 (api_wrapped_keys ks) = []"
    by (rule elem_failures_Nil)
      (auto simp: api_wrapped_keys_def WrappedKeyOutput_Validate_def WrappedKeyScope_Validate_def
        ScopeToString_def split: if_splits)
  then show ?thesis by (simp add: LoginPostOK_Validate_def)
qed

lemma handlers_valid:
  "AuthVerifyGet c w = (Ok xa, w') \<Longrightarrow> auth_verify_get_res_valid xa"
  "AdminUsersUserIdRevokeChainPost E i w = (Ok xb, w') \<Longrightarrow> revoke_chain_res_valid xb"
  "InvitesPost E h c w = (Ok xc, w') \<Longrightarrow> invites_post_res_valid xc"
  "LoginBeginPost E h w = (Ok xd, w') \<Longrightarrow> login_begin_post_res_valid xd"
  "LoginPost E h c lq w = (Ok xe, w') \<Longrightarrow> login_post_res_valid xe"
  "RegistrationBeginPost E h rq w = (Ok xf, w') \<Longrightarrow> registration_begin_post_res_valid xf"
  "RegistrationCompletePost E h c rcq w = (Ok xg, w') \<Longrightarrow> registration_complete_post_res_valid xg"
  "SessionsSessionIdDelete E c i w = (Ok xh, w') \<Longrightarrow> sessions_delete_res_valid xh"
  "TokenRefreshPost E h tq w = (Ok xi, w') \<Longrightarrow> token_refresh_post_res_valid xi"
  by (auto simp: handler_run ret_def registries_valid login_ok_valid
      split: option.splits prod.splits outcome.splits)

section \<open>From the client to the server\<close>

text \<open>Paths made of the characters that are not escaped.\<close>

definition plain_path :: "string \<Rightarrow> bool" where
  "plain_path s \<longleftrightarrow> list_all (\<lambda>c. c \<in> set ''abcdefghijklmnopqrstuvwxyz0123456789-/'') s"

text \<open>
  The client talks to this server: its transport is \<open>ServeHTTP\<close> with what the middleware has put
  into the context, it writes JSON as the server reads it, and a URL without a path of its own is
  extended by the parts.
\<close>

definition talks_to :: "client \<Rightarrow> env \<Rightarrow> server \<Rightarrow> req_ctx \<Rightarrow> bool" where
  "talks_to cl E S c \<longleftrightarrow>
     cc_Do cl = ServeHTTP E S c \<and> cl_api (cc_libs cl) = sv_api S \<and> sv_prefix S = [] \<and>
     client_law (cc_libs cl) \<and>
     al_ParseMediaType (sv_api S) ''application/json'' = Inr ''application/json'' \<and>
     (\<forall>m ps. plain_path (concat ps) \<longrightarrow>
        (\<exists>r. cc_NewRequest cl m (cc_AddPathParts cl (cc_serverURL cl) ps) = Inr r \<and>
           hr_method r = m \<and> hr_path r = concat ps \<and> hr_raw_path r = []))"

lemma client_request_talks:
  assumes "talks_to cl E S c" and "plain_path (concat ps)"
  obtains r where "client_request cl None m ps = Inr r" and "hr_method r = m"
    and "hr_path r = concat ps" and "hr_raw_path r = []"
proof -
  obtain r where "cc_NewRequest cl m (cc_AddPathParts cl (cc_serverURL cl) ps) = Inr r"
    "hr_method r = m" "hr_path r = concat ps" "hr_raw_path r = []"
    using assms unfolding talks_to_def by blast
  then show thesis by (intro that) (simp_all add: client_request_def requestURL_def)
qed

lemma route_leaf_path:
  assumes "hr_raw_path r = []" and "hr_path r = leaf_path l a" and "leaf_arg_ok l a"
    and "hr_method r = leaf_method l"
  shows "route_request A [] r = To_Operation (leaf_operation l) a False"
  using assms walk_path_Some [of "hr_path r" l a]
  by (simp add: route_request_cases routed_path_def)

lemma set_body_sel [simp]:
  "hr_method (set_body A d r) = hr_method r" "hr_path (set_body A d r) = hr_path r"
  "hr_raw_path (set_body A d r) = hr_raw_path r"
  by (simp_all add: set_body_def Let_def)

lemma Header_Set_sel [simp]:
  "hr_method (Header_Set n v r) = hr_method r" "hr_path (Header_Set n v r) = hr_path r"
  "hr_raw_path (Header_Set n v r) = hr_raw_path r"
  by (simp_all add: Header_Set_def)

lemma findAuthorization_set:
  "findAuthorization (Header_Set ''Authorization'' (''Bearer '' @ token) r) ''Bearer'' = Some token"
  by (simp add: findAuthorization_def Header_Set_def Cut_space_def EqualFold_def)

text \<open>The answer comes back through the transport and the decoder.\<close>

lemma dispatch_answer:
  assumes "cc_Do cl r w = (Ok resp, w')" and "decode (cc_libs cl) resp = Inr x"
  shows "dispatch cl decode (Inr r) w = (Ok (Inr x), w')"
  using assms by (simp add: dispatch_def)

section \<open>A call is the handler's call\<close>

text \<open>
  The frame of a call: what \<open>f\<close> adds to the request (a body or a token) does not change its route,
  so the server runs the operation of the leaf, and its answer is decoded.
\<close>

lemma call_arrives:
  assumes "talks_to cl E S c"
    and "concat ps = leaf_path l a" and "plain_path (leaf_path l a)" and "leaf_arg_ok l a"
    and "\<And>r. hr_method (f r) = hr_method r \<and> hr_path (f r) = hr_path r \<and> hr_raw_path (f r) = hr_raw_path r"
    and "\<And>r. route_request (sv_api S) (sv_prefix S) (f r) = To_Operation (leaf_operation l) a False \<Longrightarrow>
      ServeHTTP E S c (f r) w = (Ok resp, w')"
    and "decode (cc_libs cl) resp = Inr x"
  shows "dispatch cl decode (and_then (client_request cl None (leaf_method l) ps) (\<lambda>r. Inr (f r))) w =
    (Ok (Inr x), w')"
proof -
  obtain r where r: "client_request cl None (leaf_method l) ps = Inr r" "hr_method r = leaf_method l"
    "hr_path r = concat ps" "hr_raw_path r = []"
    using client_request_talks [OF assms(1), of ps "leaf_method l"] assms(2,3) by auto
  have "route_request (sv_api S) (sv_prefix S) (f r) = To_Operation (leaf_operation l) a False"
    using route_leaf_path [of "f r" l a] r assms(1,2,4,5) by (simp add: talks_to_def)
  from assms(6) [OF this] have "cc_Do cl (f r) w = (Ok resp, w')"
    using assms(1) by (simp add: talks_to_def)
  from dispatch_answer [of cl "f r" w resp w' decode x, OF this assms(7)] show ?thesis
    by (simp add: r(1))
qed

lemmas leaf_eval =
  leaf_path_def leaf_pattern_def leaf_arg_ok_def leaf_method_def leaf_operation_def

lemma talks_sel:
  assumes "talks_to cl E S c"
  shows "cl_api (cc_libs cl) = sv_api S" and "client_law (cc_libs cl)"
    and "al_ParseMediaType (sv_api S) ''application/json'' = Inr ''application/json''"
  using assms by (simp_all add: talks_to_def)

text \<open>What the client reads of the answer to each operation.\<close>

lemmas answers_read =
  login_begin_post_res_read [OF talks_sel(2) _ handlers_valid(4)]
  login_post_res_read [OF talks_sel(2) _ handlers_valid(5)]
  registration_begin_post_res_read [OF talks_sel(2) _ handlers_valid(6)]
  registration_complete_post_res_read [OF talks_sel(2) _ handlers_valid(7)]
  token_refresh_post_res_read [OF talks_sel(2) _ handlers_valid(9)]
  revoke_chain_res_read [OF talks_sel(2) _ handlers_valid(2)]
  invites_post_res_read [OF talks_sel(2) _ handlers_valid(3)]
  sessions_delete_res_read [OF talks_sel(2) _ handlers_valid(8)]

lemma and_then_Inr [simp]: "and_then x Inr = x"
  by (cases x) simp_all

lemmas call_eval =
  leaf_eval plain_path_def ServeHTTP_def answered_run with_request_def talks_sel

lemma LoginBegin_call:
  assumes "talks_to cl E S c" and "LoginBeginPost E (sv_handler S) w = (Ok x, w')"
    and "login_begin_post_res_carried (cc_libs cl) x"
  shows "sendLoginBeginPost cl None w = (Ok (Inr x), w')"
  using call_arrives [OF assms(1), of "[''/login/begin'']" Leaf_LoginBegin "[]" "\<lambda>r. r" w
      "encodeLoginBeginPostResponse (sv_api S) x" w' decodeLoginBeginPostResponse x]
    answers_read(1) [OF assms(1,3,2)] assms(1,2)
  by (simp add: call_eval sendLoginBeginPost_def handleLoginBeginPostRequest_def)

text \<open>The four operations with a body: the body arrives, and the answer is read.\<close>

lemma Login_call:
  assumes "talks_to cl E S c" and "LoginPost E (sv_handler S) c q w = (Ok x, w')"
    and "login_post_res_carried (cc_libs cl) x"
    and "jx_carries (sv_api S) (LoginPostReq_Encode q)" and "opt_ok (lq_deviceInfo q)"
  shows "sendLoginPost cl None q w = (Ok (Inr x), w')"
  using call_arrives [OF assms(1), of "[''/login'']" Leaf_Login "[]"
      "encodeLoginPostRequest (sv_api S) q" w "encodeLoginPostResponse (sv_api S) x" w'
      decodeLoginPostResponse x]
    login_req_json.request_arrives [OF talks_sel(3) [OF assms(1)] assms(4,5)]
    answers_read(2) [OF assms(1,3,2)] assms(1,2)
  by (simp add: call_eval sendLoginPost_def handleLoginPostRequest_def decodeLoginPostRequest_def
      encodeLoginPostRequest_def)

lemma RegistrationBegin_call:
  assumes "talks_to cl E S c" and "RegistrationBeginPost E (sv_handler S) q w = (Ok x, w')"
    and "registration_begin_post_res_carried (cc_libs cl) x"
    and "jx_carries (sv_api S) (RegistrationBeginPostReq_Encode q)"
  shows "sendRegistrationBeginPost cl None q w = (Ok (Inr x), w')"
  using call_arrives [OF assms(1), of "[''/registration/begin'']" Leaf_RegistrationBegin "[]"
      "encodeRegistrationBeginPostRequest (sv_api S) q" w
      "encodeRegistrationBeginPostResponse (sv_api S) x" w' decodeRegistrationBeginPostResponse x]
    registration_begin_req_json.request_arrives [OF talks_sel(3) [OF assms(1)] assms(4)]
    answers_read(3) [OF assms(1,3,2)] assms(1,2)
  by (simp add: call_eval sendRegistrationBeginPost_def handleRegistrationBeginPostRequest_def
      decodeRegistrationBeginPostRequest_def encodeRegistrationBeginPostRequest_def)

lemma RegistrationComplete_call:
  assumes "talks_to cl E S c" and "RegistrationCompletePost E (sv_handler S) c q w = (Ok x, w')"
    and "registration_complete_post_res_carried (cc_libs cl) x"
    and "jx_carries (sv_api S) (RegistrationCompletePostReq_Encode q)" and "opt_ok (rcq_deviceInfo q)"
    and "RegistrationCompletePostReq_Validate (sv_api S) q = None"
  shows "sendRegistrationCompletePost cl None q w = (Ok (Inr x), w')"
  using call_arrives [OF assms(1), of "[''/registration/complete'']" Leaf_RegistrationComplete "[]"
      "encodeRegistrationCompletePostRequest (sv_api S) q" w
      "encodeRegistrationCompletePostResponse (sv_api S) x" w' decodeRegistrationCompletePostResponse x]
    registration_complete_req_json.request_arrives [where val = "RegistrationCompletePostReq_Validate (sv_api S)",
      OF talks_sel(3) [OF assms(1)] assms(4,5,6)]
    answers_read(4) [OF assms(1,3,2)] assms(1,2)
  by (simp add: call_eval sendRegistrationCompletePost_def handleRegistrationCompletePostRequest_def
      decodeRegistrationCompletePostRequest_def encodeRegistrationCompletePostRequest_def)

lemma TokenRefresh_call:
  assumes "talks_to cl E S c" and "TokenRefreshPost E (sv_handler S) q w = (Ok x, w')"
    and "token_refresh_post_res_carried (cc_libs cl) x"
    and "jx_carries (sv_api S) (TokenRefreshPostReq_Encode q)"
  shows "sendTokenRefreshPost cl None q w = (Ok (Inr x), w')"
  using call_arrives [OF assms(1), of "[''/token/refresh'']" Leaf_TokenRefresh "[]"
      "encodeTokenRefreshPostRequest (sv_api S) q" w
      "encodeTokenRefreshPostResponse (sv_api S) x" w' decodeTokenRefreshPostResponse x]
    token_refresh_req_json.request_arrives [OF talks_sel(3) [OF assms(1)] assms(4)]
    answers_read(5) [OF assms(1,3,2)] assms(1,2)
  by (simp add: call_eval sendTokenRefreshPost_def handleTokenRefreshPostRequest_def
      decodeTokenRefreshPostRequest_def encodeTokenRefreshPostRequest_def)

section \<open>Calls that need a token\<close>

text \<open>The client's token verifies to the user, with a role the operation allows.\<close>

definition accepted :: "env \<Rightarrow> server \<Rightarrow> client \<Rightarrow> operation \<Rightarrow> uuid \<Rightarrow> world \<Rightarrow> bool" where
  "accepted E S cl op u w \<longleftrightarrow>
     (\<exists>t role. cc_BearerAuth cl op = Inr t \<and>
        fst (Verify E (sv_verifier S) (ba_Token t) w) = Ok (u, role) \<and>
        roleAllowed role (GetRolesForBearerAuth op))"

text \<open>The identifier in a path: what the client writes is what the server reads.\<close>

definition carries_id :: "client \<Rightarrow> server \<Rightarrow> uuid \<Rightarrow> bool" where
  "carries_id cl S i \<longleftrightarrow>
     (\<exists>p. cc_EncodePath cl (al_UUIDToString (sv_api S) i) = Inr p \<and> plain_path p \<and> CHR ''/'' \<notin> set p \<and>
        decode_uuid_param (sv_api S) p False = Inr i)"

text \<open>What the client adds to such a request leaves its route alone and opens the operation.\<close>

definition opens :: "env \<Rightarrow> server \<Rightarrow> client \<Rightarrow> operation \<Rightarrow> uuid \<Rightarrow> world \<Rightarrow>
  (http_request \<Rightarrow> http_request) \<Rightarrow> bool" where
  "opens E S cl op u w f \<longleftrightarrow>
     (\<forall>r. hr_method (f r) = hr_method r \<and> hr_path (f r) = hr_path r \<and> hr_raw_path (f r) = hr_raw_path r) \<and>
     (\<forall>r. client_secured cl op r = Inr (f r)) \<and>
     (\<forall>c next r. secured E S op c (f r) next w = next (WithUserID c u) (w\<lparr>tick := Suc (tick w)\<rparr>))"

lemma accepted_opens:
  assumes "accepted E S cl op u w"
  obtains f where "opens E S cl op u w f"
proof -
  obtain t role where t: "cc_BearerAuth cl op = Inr t"
    "fst (Verify E (sv_verifier S) (ba_Token t) w) = Ok (u, role)"
    "roleAllowed role (GetRolesForBearerAuth op)"
    using assms by (auto simp: accepted_def)
  let ?f = "\<lambda>r. Header_Set ''Authorization'' (''Bearer '' @ ba_Token t) r"
  have "client_secured cl op r = Inr (?f r)" for r
    by (simp add: client_secured_def client_securityBearerAuth_def t(1))
  moreover have "secured E S op c (?f r) next w =
      next (WithUserID c u) (w\<lparr>tick := Suc (tick w)\<rparr>)" for c "next" r
    using findAuthorization_set [of "ba_Token t" r] t(2,3) by (simp only: secured_run) (simp add: Let_def)
  ultimately have "opens E S cl op u w ?f" by (simp add: opens_def)
  then show thesis by (rule that)
qed

lemma RevokeChain_call:
  assumes "talks_to cl E S c" and "accepted E S cl AdminUsersUserIdRevokeChainPostOperation u w"
    and "carries_id cl S i"
    and "AdminUsersUserIdRevokeChainPost E i (w\<lparr>tick := Suc (tick w)\<rparr>) = (Ok x, w')"
    and "revoke_chain_res_carried (cc_libs cl) x"
  shows "sendAdminUsersUserIdRevokeChainPost cl None i w = (Ok (Inr x), w')"
proof -
  obtain p where p: "cc_EncodePath cl (al_UUIDToString (sv_api S) i) = Inr p" "plain_path p"
    "CHR ''/'' \<notin> set p" "decode_uuid_param (sv_api S) p False = Inr i"
    using assms(3) by (auto simp: carries_id_def)
  obtain f where f: "opens E S cl AdminUsersUserIdRevokeChainPostOperation u w f"
    using accepted_opens [OF assms(2)] by blast
  from call_arrives [OF assms(1), of "[''/admin/users/'', p, ''/revoke-chain'']" Leaf_RevokeChain p
      f w
      "encodeAdminUsersUserIdRevokeChainPostResponse (sv_api S) x" w'
      decodeAdminUsersUserIdRevokeChainPostResponse x]
    answers_read(6) [OF assms(1,5,4)] assms(1,4) p f [unfolded opens_def]
  show ?thesis
    by (simp add: call_eval sendAdminUsersUserIdRevokeChainPost_def path_param_def
        handleAdminUsersUserIdRevokeChainPostRequest_def decodeAdminUsersUserIdRevokeChainPostParams_def
        with_params_def)
qed

lemma SessionsDelete_call:
  assumes "talks_to cl E S c" and "accepted E S cl SessionsSessionIdDeleteOperation u w"
    and "carries_id cl S i"
    and "SessionsSessionIdDelete E (WithUserID c u) i (w\<lparr>tick := Suc (tick w)\<rparr>) = (Ok x, w')"
    and "sessions_delete_res_carried (cc_libs cl) x"
  shows "sendSessionsSessionIdDelete cl None i w = (Ok (Inr x), w')"
proof -
  obtain p where p: "cc_EncodePath cl (al_UUIDToString (sv_api S) i) = Inr p" "plain_path p"
    "CHR ''/'' \<notin> set p" "decode_uuid_param (sv_api S) p False = Inr i"
    using assms(3) by (auto simp: carries_id_def)
  obtain f where f: "opens E S cl SessionsSessionIdDeleteOperation u w f"
    using accepted_opens [OF assms(2)] by blast
  from call_arrives [OF assms(1), of "[''/sessions/'', p]" Leaf_Session p
      f w
      "encodeSessionsSessionIdDeleteResponse (sv_api S) x" w' decodeSessionsSessionIdDeleteResponse x]
    answers_read(8) [OF assms(1,5,4)] assms(1,4) p f [unfolded opens_def]
  show ?thesis
    by (simp add: call_eval sendSessionsSessionIdDelete_def path_param_def
        handleSessionsSessionIdDeleteRequest_def decodeSessionsSessionIdDeleteParams_def with_params_def)
qed

lemma Invites_call:
  assumes "talks_to cl E S c" and "accepted E S cl InvitesPostOperation u w"
    and "InvitesPost E (sv_handler S) (WithUserID c u) (w\<lparr>tick := Suc (tick w)\<rparr>) = (Ok x, w')"
    and "invites_post_res_carried (cc_libs cl) x"
  shows "sendInvitesPost cl None w = (Ok (Inr x), w')"
proof -
  obtain f where f: "opens E S cl InvitesPostOperation u w f"
    using accepted_opens [OF assms(2)] by blast
  from call_arrives [OF assms(1), of "[''/invites'']" Leaf_Invites "[]"
      f w
      "encodeInvitesPostResponse (sv_api S) x" w' decodeInvitesPostResponse x]
    answers_read(7) [OF assms(1,4,3)] assms(1,3) f [unfolded opens_def]
  show ?thesis
    by (simp add: call_eval sendInvitesPost_def handleInvitesPostRequest_def)
qed

lemma AuthVerify_call:
  assumes "talks_to cl E S c" and "accepted E S cl AuthVerifyGetOperation u w"
    and "AuthVerifyGet (WithUserID c u) (w\<lparr>tick := Suc (tick w)\<rparr>) = (Ok x, w')"
    and "auth_verify_get_res_carried (cc_libs cl) x"
  shows "sendAuthVerifyGet cl None w = (Ok (Inr x), w')"
proof -
  obtain f where f: "opens E S cl AuthVerifyGetOperation u w f"
    using accepted_opens [OF assms(2)] by blast
  obtain resp where "encodeAuthVerifyGetResponse (sv_api S) x = Inr resp"
    "decodeAuthVerifyGetResponse (cc_libs cl) resp = Inr x"
    using auth_verify_get_res_read [OF talks_sel(2) [OF assms(1)] assms(4) handlers_valid(1) [OF assms(3)]]
      talks_sel(1) [OF assms(1)] by auto
  with call_arrives [OF assms(1), of "[''/auth/verify'']" Leaf_AuthVerify "[]"
      f w resp w' decodeAuthVerifyGetResponse x]
    assms(1,3) f [unfolded opens_def]
  show ?thesis
    by (simp add: call_eval sendAuthVerifyGet_def handleAuthVerifyGetRequest_def answered_def)
qed

end
