(* ===== verification/Sample_Json.thy ===== *)
theory Sample_Json
  imports Http_Codec_Facts Sample
begin

text \<open>
  A concrete JSON library for the witnesses: a document is written as a letter for its kind and
  its parts as netstrings. Whatever it has written for a document it reads back as that document,
  which is what the round trips of the interface assume of the real one.
\<close>

definition chars :: "bytes \<Rightarrow> string" where
  "chars b = map (\<lambda>x. char_of (unat x)) b"

lemma byte_string_of_chars [simp]: "byte_string (chars b) = b"
  by (simp add: chars_def)

lemma chars_of_byte_string [simp]: "chars (byte_string s) = s"
proof (induction s)
  case (Cons c s)
  have "unat (word_of_nat (of_char c) :: 8 word) = of_char c"
    by (simp add: unsigned_of_nat take_bit_nat_eq_self)
  with Cons show ?case by (simp add: chars_def byte_string_def)
qed (simp add: chars_def byte_string_def)

lemma length_byte_string [simp]: "length (byte_string s) = length s"
  by (simp add: byte_string_def)

section \<open>Writing and reading\<close>

fun write_doc :: "json_doc \<Rightarrow> string" where
  "write_doc D_Nothing = []"
| "write_doc (D_Str s) = CHR ''s'' # s"
| "write_doc (D_Base64 b) = CHR ''v'' # chars b"
| "write_doc (D_DateTime t) = CHR ''v'' # show_int t"
| "write_doc (D_Raw b) = CHR ''v'' # chars b"
| "write_doc (D_Arr ds) = CHR ''a'' # concat (map net (map write_doc ds))"
| "write_doc (D_Obj fs) =
     CHR ''o'' # concat (map net (concat (map (\<lambda>(k, d). [k, write_doc d]) fs)))"

definition no_value :: err where
  "no_value = External ''unexpected end''"

fun read_view :: "nat \<Rightarrow> string \<Rightarrow> json_view" where
  "read_view 0 s = V_Bad no_value"
| "read_view (Suc n) s =
     (case s of [] \<Rightarrow> V_Bad no_value
      | c # r \<Rightarrow>
          if c = CHR ''s'' then V_Str [] r
          else if c = CHR ''v'' then V_Other (byte_string r)
          else if c = CHR ''a'' then V_Arr [] (map (read_view n) (read_nets (length r) r)) None
          else V_Obj [] (map (\<lambda>(k, x). (k, read_view n x)) (pair_up (read_nets (length r) r))) None)"

text \<open>What is read of a document that was written.\<close>

fun see :: "json_doc \<Rightarrow> json_view" where
  "see D_Nothing = V_Bad no_value"
| "see (D_Str s) = V_Str [] s"
| "see (D_Base64 b) = V_Other b"
| "see (D_DateTime t) = V_Other (byte_string (show_int t))"
| "see (D_Raw b) = V_Other b"
| "see (D_Arr ds) = V_Arr [] (map see ds) None"
| "see (D_Obj fs) = V_Obj [] (map (\<lambda>(k, d). (k, see d)) fs) None"

lemma length_in_nets: "x \<in> set xs \<Longrightarrow> length x \<le> length (concat (map net xs))"
proof (induction xs)
  case (Cons y xs)
  have "length y \<le> length (net y)" by (simp add: net_def)
  with Cons show ?case by auto
qed simp

lemma read_view_write: "length (write_doc d) \<le> n \<Longrightarrow> read_view n (write_doc d) = see d"
proof (induction d arbitrary: n rule: write_doc.induct)
  case (6 ds)
  then obtain m where n: "n = Suc m"
    and m: "length (concat (map net (map write_doc ds))) \<le> m" by (cases n) auto
  have "length (write_doc d) \<le> m" if "d \<in> set ds" for d
    using length_in_nets [of "write_doc d" "map write_doc ds"] that m by simp
  then have "map (read_view m \<circ> write_doc) ds = map see ds" using 6(1) by simp
  with read_nets_all [of "map write_doc ds"] show ?case by (simp add: n)
next
  case (7 fs)
  let ?kvs = "map (\<lambda>(k, d). (k, write_doc d)) fs"
  let ?xs = "concat (map (\<lambda>(k, v). [k, v]) ?kvs)"
  have xs: "?xs = concat (map (\<lambda>(k, d). [k, write_doc d]) fs)"
    by (simp add: case_prod_unfold comp_def)
  then obtain m where n: "n = Suc m" and m: "length (concat (map net ?xs)) \<le> m"
    using 7(2) by (cases n) auto
  have "length (write_doc d) \<le> m" if "(k, d) \<in> set fs" for k d
    using length_in_nets [of "write_doc d" ?xs] that m by force
  then have "map (\<lambda>(k, x). (k, read_view m x)) ?kvs = map (\<lambda>(k, d). (k, see d)) fs"
    using 7(1) by fastforce
  moreover have "pair_up (read_nets (length (concat (map net ?xs))) (concat (map net ?xs))) = ?kvs"
    by (simp only: read_nets_all pair_up_concat)
  ultimately show ?case by (simp add: n xs [symmetric])
next
  case 1
  then show ?case by (cases n) auto
qed (auto simp: Suc_le_eq gr0_conv_Suc dest!: less_imp_Suc_add)

definition sample_jx :: jx where
  "sample_jx = \<lparr>
     jx_write = (\<lambda>d. byte_string (write_doc d)),
     jx_parse = (\<lambda>b. (read_view (length b) (chars b), [])),
     jx_mismatch = (\<lambda>what v. External (''expected '' @ what)),
     jx_base64 = (\<lambda>v. Inr (view_raw v)),
     jx_datetime = (\<lambda>v. Inr (read_int (chars (view_raw v))))\<rparr>"

lemma sample_jx_sel [simp]:
  "jx_write sample_jx d = byte_string (write_doc d)"
  "snd (jx_parse sample_jx b) = []"
  "jx_base64 sample_jx v = Inr (view_raw v)"
  "jx_datetime sample_jx v = Inr (read_int (chars (view_raw v)))"
  by (simp_all add: sample_jx_def)

lemma seen_sample [simp]: "seen sample_jx d = see d"
  by (simp add: seen_def sample_jx_def read_view_write)

text \<open>A document with nothing in place of a value cannot be read; every other one is.\<close>

fun whole :: "json_doc \<Rightarrow> bool" where
  "whole D_Nothing \<longleftrightarrow> False"
| "whole (D_Arr ds) \<longleftrightarrow> list_all whole ds"
| "whole (D_Obj fs) \<longleftrightarrow> list_all (\<lambda>(k, d). whole d) fs"
| "whole _ \<longleftrightarrow> True"

lemma sample_jx_reads: "whole d \<Longrightarrow> jx_reads sample_jx d"
  by (induction d rule: whole.induct) (auto simp: list_all_iff fun_eq_iff jx_RawAppend_def)

end
