(* ===== verification/Http_Properties.thy ===== *)
theory Http_Properties
  imports Http_Client_Facts Sample_World Sample_Json Invite_Facts Fault_Free
begin

text \<open>
  Properties of the HTTP interface: who gets past the security checks and what refused requests
  change, what errors turn into, that requests survive their encoding and what a request that lacks
  fields is told. At the start a concrete server for the witnesses.
\<close>

section \<open>A concrete server\<close>

definition sample_wrapped_key :: api_wrapped_key_input where
  "sample_wrapped_key = \<lparr>awk_scope = ''main'', awk_wrappedDek = [2], awk_wrapAlgorithm = ''x''\<rparr>"

definition sample_opt :: opt_string where
  "sample_opt = \<lparr>os_value = [], os_set = False\<rparr>"

definition sample_login_req :: login_post_req where
  "sample_login_req = \<lparr>lq_challengeToken = ''x'', lq_authenticationResponse = [1],
     lq_deviceInfo = sample_opt\<rparr>"

definition sample_begin_req :: registration_begin_post_req where
  "sample_begin_req = \<lparr>rbq_inviteCode = ''x''\<rparr>"

definition sample_complete_req :: registration_complete_post_req where
  "sample_complete_req = \<lparr>rcq_challengeToken = ''x'', rcq_registrationResponse = [1],
     rcq_wrappedKeys = [sample_wrapped_key], rcq_deviceInfo = sample_opt\<rparr>"

definition sample_refresh_req :: token_refresh_post_req where
  "sample_refresh_req = \<lparr>trq_refreshToken = ''x''\<rparr>"

definition sample_api :: api_libs where
  "sample_api = \<lparr>al_jx = sample_jx, al_ParseMediaType = (\<lambda>s. Inr (takeWhile (\<lambda>c. c \<noteq> CHR '';'') s)), al_PathUnescape = Inr,
     al_NormalizeEscapedPath = Some, al_path_value = Inr,
     al_ToUUID = (\<lambda>s. Inr (word_of_nat (parse_nat s))), al_UUIDToString = (\<lambda>u. itoa (unat u)),
     al_header_value = Inr,
     al_ValidateLength = (\<lambda>least n. if n < least then Some (External ''too short'') else None),
     al_error_text = (\<lambda>_. [])\<rparr>"

definition sample_handler :: handler where
  "sample_handler = \<lparr>h_createInvite = sample_ci, h_beginLogin = sample_authenticator,
     h_login = sample_login,
     h_beginRegistration = \<lparr>bi_registrator = sample_registrator, bi_hash = sample_sm\<rparr>,
     h_finishRegistration = sample_fr, h_refreshAccessToken = sample_ra\<rparr>"

definition sample_server :: server where
  "sample_server = \<lparr>sv_api = sample_api,
     sv_errors = \<lparr>el_Code = (\<lambda>_. 400), el_Error = (\<lambda>_. []), el_json_Encode = id\<rparr>,
     sv_verifier = \<lparr>tv_publicKey = [1]\<rparr>, sv_handler = sample_handler, sv_prefix = [],
     sv_netip = sample_netip, sv_trusted = sample_proxies\<rparr>"

definition sample_token :: "string \<Rightarrow> string" where
  "sample_token role =
     sample_sign [1] \<lparr>tc_exp = 5000, tc_strings = [(''user_id'', ''2''), (''role'', role)]\<rparr>"

definition sample_revoke :: "string \<Rightarrow> http_request" where
  "sample_revoke role = \<lparr>hr_method = ''POST'', hr_path = ''/admin/users/2/revoke-chain'',
     hr_raw_path = [], hr_headers = [(''Authorization'', [''bearer '' @ sample_token role])],
     hr_remote_addr = [], hr_content_length = 0, hr_body = Inr []\<rparr>"

lemma sample_revoke_route:
  "route_request sample_api [] (sample_revoke role) =
     To_Operation AdminUsersUserIdRevokeChainPostOperation ''2'' False"
proof -
  have "walk_path ''/admin/users/2/revoke-chain'' = Some (Leaf_RevokeChain, ''2'')"
    by (simp add: walk_path_Some leaf_arg_ok_def leaf_path_def)
  then show ?thesis
    by (simp add: route_request_cases routed_path_def sample_revoke_def leaf_method_def
        leaf_operation_def)
qed

lemma lower_B: "lower (CHR ''B'') = CHR ''b''"
  by code_simp

lemma sample_authorization:
  "findAuthorization (sample_revoke role) ''Bearer'' = Some (sample_token role)"
  by (simp add: findAuthorization_def sample_revoke_def Cut_space_def EqualFold_def lower_B)
    (simp add: lower_def)

lemma sample_Verify:
  "role \<in> {''admin'', ''member''} \<Longrightarrow>
   fst (Verify sample_env \<lparr>tv_publicKey = [1]\<rparr> (sample_token role) (world_of sample_db)) =
     Ok (2, if role = ''admin'' then role_Admin else role_Member)"
  by (auto simp: Verify_def bind_def now_def sample_token_def sample_parse_sign claim_GetString_def
      parse_nat_def RoleFromString_def role_defs ret_def)

section \<open>Security\<close>

lemma response_for_chain:
  "response_for newRevokeChainErrors e =
     AdminUsersUserIdRevokeChainPostInternalServerError internal_body"
  by (simp add: registry_eval internal_body_def)

lemma secured_refused:
  assumes "\<And>token u role. findAuthorization r ''Bearer'' = Some token \<Longrightarrow>
      fst (Verify E (sv_verifier S) token w) = Ok (u, role) \<Longrightarrow>
      GetRolesForBearerAuth op \<noteq> [] \<and> \<not> roleAllowed role (GetRolesForBearerAuth op)"
    and "secured E S op c r next w = (res, w')"
  shows "(\<exists>resp. res = Ok resp \<and> rs_status resp \<in> {401, 403}) \<and>
    committed w' = committed w \<and> work w' = work w"
  using assms
  by (auto simp: secured_run Let_def split: option.splits outcome.splits prod.splits if_splits)

text \<open>C23: The operations that need a role are closed to everybody else. Whatever the request
  carries besides, without a bearer token that verifies to an allowed role the answer is 401 or 403,
  nothing is written, and no transaction is left open.\<close>

theorem protected_operations_closed:
  assumes "route_request (sv_api S) (sv_prefix S) r = To_Operation op arg escaped"
    and "GetRolesForBearerAuth op \<noteq> []"
    and "\<And>token u role. findAuthorization r ''Bearer'' = Some token \<Longrightarrow>
      fst (Verify E (sv_verifier S) token w) = Ok (u, role) \<Longrightarrow>
      \<not> roleAllowed role (GetRolesForBearerAuth op)"
    and "ServeHTTP E S c r w = (res, w')"
  shows "(\<exists>resp. res = Ok resp \<and> rs_status resp \<in> {401, 403}) \<and>
    committed w' = committed w \<and> work w' = work w"
proof -
  have "\<exists>next. secured E S op c r next w = (res, w')"
    using assms(1,2,4)
    by (cases op) (auto simp: ServeHTTP_def GetRolesForBearerAuth_def operationRolesBearerAuth_def
        handleAdminUsersUserIdRevokeChainPostRequest_def handleAuthVerifyGetRequest_def
        handleInvitesPostRequest_def handleSessionsSessionIdDeleteRequest_def)
  then obtain next_step where "secured E S op c r next_step w = (res, w')" by blast
  with assms(2,3) show ?thesis by (intro secured_refused) auto
qed

theorem protected_operations_closed_witness:
  "\<exists>resp w'. ServeHTTP sample_env sample_server [] (sample_revoke ''member'') (world_of sample_db) =
     (Ok resp, w') \<and> rs_status resp \<in> {401, 403} \<and> committed w' = sample_db"
proof -
  obtain res w' where run: "ServeHTTP sample_env sample_server [] (sample_revoke ''member'')
      (world_of sample_db) = (res, w')" by fastforce
  have refused: "\<not> roleAllowed role (GetRolesForBearerAuth AdminUsersUserIdRevokeChainPostOperation)"
    if "findAuthorization (sample_revoke ''member'') ''Bearer'' = Some token"
      "fst (Verify sample_env (sv_verifier sample_server) token (world_of sample_db)) = Ok (u, role)"
    for token u role
    using that sample_Verify [of "''member''"]
    by (simp add: sample_authorization sample_server_def roleAllowed_def GetRolesForBearerAuth_def
        operationRolesBearerAuth_def role_String_def role_defs)
  have "route_request (sv_api sample_server) (sv_prefix sample_server) (sample_revoke ''member'') =
      To_Operation AdminUsersUserIdRevokeChainPostOperation ''2'' False"
    using sample_revoke_route by (simp add: sample_server_def)
  from protected_operations_closed [OF this _ refused run] run show ?thesis
    by (auto simp: GetRolesForBearerAuth_def operationRolesBearerAuth_def)
qed

text \<open>C25: Revoking a chain over HTTP. When a request routed to it is answered 204, its bearer
  token verified to an administrator, the path named a user, and what has changed in the database
  is that the active sessions of that user and of all its transitive invitees are revoked, stamped with
  the third reading of the clock that the request makes.\<close>

theorem revoke_chain_over_http:
  assumes "route_request (sv_api S) (sv_prefix S) r =
      To_Operation AdminUsersUserIdRevokeChainPostOperation arg escaped"
    and "ServeHTTP E S c r w = (Ok resp, w')" and "rs_status resp = 204"
    and "sessions_ok (committed w)" and "\<And>e. el_Code (sv_errors S) e \<ge> 400"
  shows "\<exists>token u target ids.
    findAuthorization r ''Bearer'' = Some token \<and>
    fst (Verify E (sv_verifier S) token w) = Ok (u, role_Admin) \<and>
    decodeAdminUsersUserIdRevokeChainPostParams (sv_api S) arg escaped = Inr target \<and>
    set ids = {v. (target, v) \<in> (invited_rel (users (committed w)))\<^sup>*} \<and>
    committed w' = revoke_active ids (clock E (Suc (Suc (tick w)))) (committed w)"
proof -
  let ?A = "sv_api S"
  define next_step where "next_step = (\<lambda>_ :: req_ctx.
     with_params S (decodeAdminUsersUserIdRevokeChainPostParams ?A arg escaped) (\<lambda>userId.
     answered S (AdminUsersUserIdRevokeChainPost E userId)
       (\<lambda>x. Inr (encodeAdminUsersUserIdRevokeChainPostResponse ?A x))))"
  have "secured E S AdminUsersUserIdRevokeChainPostOperation c r next_step w = (Ok resp, w')"
    using assms(1,2) by (simp add: ServeHTTP_def handleAdminUsersUserIdRevokeChainPostRequest_def
        next_step_def)
  then obtain token u role where tok: "findAuthorization r ''Bearer'' = Some token"
    and ver: "fst (Verify E (sv_verifier S) token w) = Ok (u, role)"
    and ok: "roleAllowed role [''admin'']"
    and run: "next_step (WithUserID c u) (w\<lparr>tick := Suc (tick w)\<rparr>) = (Ok resp, w')"
    using assms(3)
    by (auto simp: secured_run Let_def GetRolesForBearerAuth_def operationRolesBearerAuth_def
        split: option.splits outcome.splits prod.splits if_splits)
  have admin: "role = role_Admin"
    using ok by (cases role) (simp add: roleAllowed_def role_String_def role_defs)
  obtain target where target: "decodeAdminUsersUserIdRevokeChainPostParams ?A arg escaped = Inr target"
  proof (cases "decodeAdminUsersUserIdRevokeChainPostParams ?A arg escaped")
    case (Inl ne)
    obtain name e where "ne = (name, e)" by fastforce
    with Inl run assms(3) assms(5) [of "Decode_Params_Error name e"] show ?thesis
      by (auto simp: next_step_def with_params_def ErrorHandler_def ret_def newErrorHandler_def)
  qed blast
  obtain x where "RevokeCompromisedChain_Execute E No_Tx target (w\<lparr>tick := Suc (tick w)\<rparr>) = (Ok x, w')"
    using run assms(3)
    by (auto simp: next_step_def with_params_def target answered_run handler_run response_for_chain
        encodeAdminUsersUserIdRevokeChainPostResponse_def split: outcome.splits prod.splits)
  from RevokeCompromisedChain_Ok [OF this] assms(4) tok ver admin target show ?thesis by auto
qed

lemma sample_chain_run:
  "\<exists>w'. RevokeCompromisedChain_Execute sample_env No_Tx 2 ((world_of sample_db)\<lparr>tick := n\<rparr>) = (Ok (), w')"
proof -
  have "descendant_ids 2 sample_db = Some [2, 3]"
    by (simp add: descendant_ids_def sample_users_def invitees_def)
  then have "UserRepository_Descendants sample_env No_Tx 2 ((world_of sample_db)\<lparr>tick := n\<rparr>) =
      (Ok [2, 3], (world_of sample_db)\<lparr>tick := Suc n\<rparr>)"
    by (simp add: UserRepository_Descendants_def or_not_found_def catch_def bind_def run_stmt_def
        ListDescendantUserIDs_def ret_def Let_def world_of_def)
  moreover have "\<exists>w'. RevokeAllUserSessions_Execute sample_env No_Tx [2, 3]
      ((world_of sample_db)\<lparr>tick := Suc n\<rparr>) = (Ok (), w')"
    using RevokeAll_plain_run [OF sample_fault_free, of "(world_of sample_db)\<lparr>tick := Suc n\<rparr>" "[2, 3]"]
      sample_db_ok by (auto simp: db_ok_def)
  ultimately show ?thesis by (simp add: RevokeCompromisedChain_Execute_def bind_def)
qed

theorem revoke_chain_over_http_witness:
  "\<exists>resp w' ids. ServeHTTP sample_env sample_server [] (sample_revoke ''admin'') (world_of sample_db) =
     (Ok resp, w') \<and> rs_status resp = 204 \<and> set ids \<supseteq> {2, 3} \<and>
   committed w' = revoke_active ids 1002 sample_db \<and> committed w' \<noteq> sample_db"
proof -
  obtain w' where chain: "RevokeCompromisedChain_Execute sample_env No_Tx 2
      ((world_of sample_db)\<lparr>tick := Suc 0\<rparr>) = (Ok (), w')"
    using sample_chain_run by blast
  have route: "route_request (sv_api sample_server) (sv_prefix sample_server) (sample_revoke ''admin'') =
      To_Operation AdminUsersUserIdRevokeChainPostOperation ''2'' False"
    using sample_revoke_route by (simp add: sample_server_def)
  have target: "decodeAdminUsersUserIdRevokeChainPostParams (sv_api sample_server) ''2'' False = Inr 2"
    by (simp add: decodeAdminUsersUserIdRevokeChainPostParams_def decode_uuid_param_def
        sample_server_def sample_api_def parse_nat_def)
  have run: "ServeHTTP sample_env sample_server [] (sample_revoke ''admin'') (world_of sample_db) =
      (Ok (empty_response 204), w')"
    using sample_Verify [of "''admin''"] chain
    by (simp add: ServeHTTP_def route handleAdminUsersUserIdRevokeChainPostRequest_def secured_run
        sample_authorization GetRolesForBearerAuth_def operationRolesBearerAuth_def roleAllowed_def
        role_String_def role_defs with_params_def target answered_run handler_run
        encodeAdminUsersUserIdRevokeChainPostResponse_def sample_server_def [THEN arg_cong [of _ _ sv_verifier]])
  have "sessions_ok (committed (world_of sample_db))" using sample_db_ok by (simp add: db_ok_def)
  from revoke_chain_over_http [OF route run _ this] target
  obtain ids where ids: "set ids = {v. (2, v) \<in> (invited_rel (users sample_db))\<^sup>*}"
    and d: "committed w' = revoke_active ids 1002 sample_db"
    by (auto simp: sample_server_def)
  have "(2, 3) \<in> (invited_rel (users sample_db))\<^sup>*"
    by (rule r_into_rtrancl) (simp add: invited_rel_def sample_users_def)
  with ids have both: "{2, 3} \<subseteq> set ids" by simp
  have "committed w' \<noteq> sample_db"
  proof
    assume "committed w' = sample_db"
    then have "filter (pgs_active ids 1002) (sessions sample_db) = []"
      using revoke_active_done [of 1002 1002 ids sample_db] d by simp
    then show False using both by (simp add: sample_session_def pgs_active_def)
  qed
  with run d both show ?thesis by auto
qed

section \<open>What errors turn into\<close>

text \<open>Two errors that match the same sentinels.\<close>

definition same_sentinels :: "err \<Rightarrow> err \<Rightarrow> bool" where
  "same_sentinels e f \<longleftrightarrow> errors_is e = errors_is f"

text \<open>C28: The text of an error of a use case never reaches a client. Whatever one of the nine endpoints
  answers to an error of its use case depends only on the sentinels the error matches, and an error
  that matches none is always the same internal error. (This is about the registries of the use
  cases; the answers of \<open>newErrorHandler\<close> to a request that cannot be decoded do carry what the
  decoder says.)\<close>

theorem error_text_not_leaked:
  assumes "same_sentinels e f"
  shows "response_for newVerifyErrors e = response_for newVerifyErrors f \<and>
    response_for newInvitesErrors e = response_for newInvitesErrors f \<and>
    response_for newRegistrationBeginErrors e = response_for newRegistrationBeginErrors f \<and>
    response_for newRegistrationCompleteErrors e = response_for newRegistrationCompleteErrors f \<and>
    response_for newLoginBeginErrors e = response_for newLoginBeginErrors f \<and>
    response_for newLoginErrors e = response_for newLoginErrors f \<and>
    response_for newRefreshErrors e = response_for newRefreshErrors f \<and>
    response_for newRevokeChainErrors e = response_for newRevokeChainErrors f \<and>
    response_for newRevokeSessionErrors e = response_for newRevokeSessionErrors f \<and>
    ((\<nexists>s. errors_is e s) \<longrightarrow>
       response_for newInvitesErrors e = InvitesPostInternalServerError internal_body \<and>
       response_for newLoginErrors e = LoginPostInternalServerError internal_body \<and>
       response_for newRefreshErrors e = TokenRefreshPostInternalServerError internal_body)"
proof -
  have eq: "errors_is e = errors_is f" using assms by (simp add: same_sentinels_def)
  show ?thesis by (intro conjI impI) (simp_all add: registry_eval eq internal_body_def)
qed

theorem error_text_not_leaked_witness:
  "response_for newLoginErrors (Wrapped ''select: '' (External ''password of the database'')) =
   response_for newLoginErrors (External ''lost connection'')"
  using error_text_not_leaked [of "Wrapped ''select: '' (External ''password of the database'')"
      "External ''lost connection''"]
  by (simp add: same_sentinels_def fun_eq_iff)

text \<open>An expired challenge is answered as an internal error. When the ceremony refuses the
  challenge of a login or of a registration as expired, which the interface documents as 401 with
  the code CHALLENGE_EXPIRED, the handler answers 500.\<close>

theorem expired_challenge_is_500:
  assumes "ClientIPFromContext c = Some ip"
    and "Authenticator_Finish E (lg_authenticator (h_login h)) No_Tx (lq_challengeToken lq)
           (lq_authenticationResponse lq) (w\<lparr>tick := Suc (tick w)\<rparr>) =
         (Err (Sentinel Webauthn_ErrChallengeExpired), w1)"
    and "rcq_wrappedKeys cq \<noteq> []"
    and "ValidateCount (fr_keyPolicy (h_finishRegistration h)) (int (length (rcq_wrappedKeys cq))) = None"
    and "Registrator_Finish E (fr_registrator (h_finishRegistration h)) (rcq_challengeToken cq)
           (rcq_registrationResponse cq) w = (Err (Sentinel Webauthn_ErrChallengeExpired), w2)"
  shows "LoginPost E h c lq w = (Ok (LoginPostInternalServerError internal_body), w1) \<and>
    RegistrationCompletePost E h c cq w =
      (Ok (RegistrationCompletePostInternalServerError internal_body), w2)"
proof -
  have "Login_Execute E (h_login h) No_Tx \<lparr>li_ChallengeToken = lq_challengeToken lq,
      li_AuthenticationResponse = lq_authenticationResponse lq,
      li_DeviceInfo = OptString_Or (lq_deviceInfo lq) [], li_IPAddress = ip\<rparr> w =
    (Err (Sentinel Webauthn_ErrChallengeExpired), w1)"
    using assms(2) by (simp add: Login_Execute_def bind_def now_def)
  moreover have "FinishInviteRegistration_Execute E (h_finishRegistration h) No_Tx
      \<lparr>fi_ChallengeToken = rcq_challengeToken cq, fi_RegistrationResponse = rcq_registrationResponse cq,
       fi_WrappedKeys = input_wrapped_keys (rcq_wrappedKeys cq),
       fi_DeviceInfo = OptString_Or (rcq_deviceInfo cq) [], fi_IPAddress = ip\<rparr> w =
    (Err (Sentinel Webauthn_ErrChallengeExpired), w2)"
    using assms(3,4,5)
    by (simp add: FinishInviteRegistration_Execute_def bind_def check_def input_wrapped_keys_def)
  moreover have "response_for newRegistrationCompleteErrors (Sentinel Webauthn_ErrChallengeExpired) =
      RegistrationCompletePostInternalServerError internal_body"
    by (simp add: registry_eval internal_body_def)
  ultimately show ?thesis using assms(1) by (simp add: handler_run response_for_login)
qed

definition expired_challenge :: string where
  "expired_challenge = sample_sign [2] \<lparr>tc_exp = 0, tc_strings = []\<rparr>"

theorem expired_challenge_is_500_witness:
  "fst (LoginPost sample_env sample_handler (WithClientIP [] (IPv4 7))
     (sample_login_req\<lparr>lq_challengeToken := expired_challenge\<rparr>) (world_of sample_db)) =
   Ok (LoginPostInternalServerError internal_body)"
proof -
  let ?w = "world_of sample_db"
  have a: "Authenticator_Finish sample_env sample_authenticator No_Tx expired_challenge b v =
      (Err (Sentinel Webauthn_ErrChallengeExpired), v\<lparr>tick := Suc (tick v)\<rparr>)" for b v
    by (simp add: Authenticator_Finish_def TokenCodec_Decode_def bind_def catch_def now_def fail_def
        sample_authenticator_def expired_challenge_def sample_parse_sign)
  have r: "Registrator_Finish sample_env sample_registrator expired_challenge b v =
      (Err (Sentinel Webauthn_ErrChallengeExpired), v\<lparr>tick := Suc (tick v)\<rparr>)" for b v
    by (simp add: Registrator_Finish_def TokenCodec_Decode_def bind_def catch_def now_def fail_def
        sample_registrator_def expired_challenge_def sample_parse_sign)
  show ?thesis
    using expired_challenge_is_500 [of "WithClientIP [] (IPv4 7)" "IPv4 7" sample_env sample_handler
        "sample_login_req\<lparr>lq_challengeToken := expired_challenge\<rparr>" ?w _
        "sample_complete_req\<lparr>rcq_challengeToken := expired_challenge\<rparr>"]
    by (simp add: sample_handler_def sample_login_def sample_fr_def a r sample_complete_req_def
        ValidateCount_def key_NewPolicy_def)
qed

section \<open>Requests\<close>

text \<open>The answer to an object that lacks required fields: those, in the order of the declaration.\<close>

definition lacks :: "string list \<Rightarrow> json_view \<Rightarrow> string list \<Rightarrow> bool" where
  "lacks required v ms \<longleftrightarrow> ms \<noteq> [] \<and>
     (\<exists>raw fs. v = V_Obj raw fs None \<and> ms = filter (\<lambda>n. n \<notin> fst ` set fs) required)"

definition has_all :: "string list \<Rightarrow> json_view \<Rightarrow> bool" where
  "has_all required v \<longleftrightarrow> (\<exists>raw fs. v = V_Obj raw fs None \<and> set required \<subseteq> fst ` set fs)"

lemmas decoded_objects =
  login_req.decode_object_missing [unfolded required_names_simps]
  registration_begin_req.decode_object_missing [unfolded required_names_simps]
  registration_complete_req.decode_object_missing [unfolded required_names_simps]
  token_refresh_req.decode_object_missing [unfolded required_names_simps]
  wrapped_key_in.decode_object_missing [unfolded required_names_simps]
  login_req.decode_object_Inr [unfolded required_names_simps]
  registration_begin_req.decode_object_Inr [unfolded required_names_simps]
  token_refresh_req.decode_object_Inr [unfolded required_names_simps]
  registration_complete_req.decode_object_Inr [unfolded required_names_simps]
  wrapped_key_in.decode_object_Inr [unfolded required_names_simps]

text \<open>C31: The bit set counts right. A request body that is refused for missing fields is an
  object, and the fields named are exactly the required ones it does not have, in order; a body
  that is decoded has them all. That holds of every request type and of the keys inside.\<close>

theorem missing_fields_reported:
  "(LoginPostReq_Decode L v = Inl (Fields_Required ms) \<longrightarrow>
      lacks [''challengeToken'', ''authenticationResponse''] v ms) \<and>
   (RegistrationBeginPostReq_Decode L v = Inl (Fields_Required ms) \<longrightarrow> lacks [''inviteCode''] v ms) \<and>
   (RegistrationCompletePostReq_Decode L v = Inl (Fields_Required ms) \<longrightarrow>
      lacks [''challengeToken'', ''registrationResponse'', ''wrappedKeys''] v ms) \<and>
   (TokenRefreshPostReq_Decode L v = Inl (Fields_Required ms) \<longrightarrow> lacks [''refreshToken''] v ms) \<and>
   (WrappedKeyInput_Decode L v = Inl (Fields_Required ms) \<longrightarrow>
      lacks [''scope'', ''wrappedDek'', ''wrapAlgorithm''] v ms) \<and>
   (LoginPostReq_Decode L v = Inr a \<longrightarrow> has_all [''challengeToken'', ''authenticationResponse''] v) \<and>
   (RegistrationBeginPostReq_Decode L v = Inr c \<longrightarrow> has_all [''inviteCode''] v) \<and>
   (TokenRefreshPostReq_Decode L v = Inr d \<longrightarrow> has_all [''refreshToken''] v) \<and>
   (RegistrationCompletePostReq_Decode L v = Inr b \<longrightarrow>
      has_all [''challengeToken'', ''registrationResponse'', ''wrappedKeys''] v) \<and>
   (WrappedKeyInput_Decode L v = Inr k \<longrightarrow> has_all [''scope'', ''wrappedDek'', ''wrapAlgorithm''] v)"
  unfolding lacks_def has_all_def LoginPostReq_Decode_def RegistrationBeginPostReq_Decode_def
    RegistrationCompletePostReq_Decode_def TokenRefreshPostReq_Decode_def WrappedKeyInput_Decode_def
  by (intro conjI; rule impI; erule decoded_objects)

theorem missing_fields_reported_witness:
  "LoginPostReq_Decode sample_jx (V_Obj [] [(''challengeToken'', V_Str [] ''t'')] None) =
     Inl (Fields_Required [''authenticationResponse'']) \<and>
   lacks [''challengeToken'', ''authenticationResponse'']
     (V_Obj [] [(''challengeToken'', V_Str [] ''t'')] None) [''authenticationResponse'']"
proof -
  let ?v = "V_Obj [] [(''challengeToken'', V_Str [] ''t'')] None"
  have "missing_fields LoginPostReq_names 3 (mark 0 0) = [''authenticationResponse'']"
    by (simp add: missing_fields_eq bit_mark LoginPostReq_names_def field_name_def upt_rec)
  then have "LoginPostReq_Decode sample_jx ?v = Inl (Fields_Required [''authenticationResponse''])"
    by (simp add: LoginPostReq_Decode_def decode_object_if jx_ObjBytes_def LoginPostReq_field_def
        reading_def jx_Str_def)
  with missing_fields_reported [of sample_jx ?v] show ?thesis by blast
qed

text \<open>C37: What a client encodes the server decodes: a request of each of the four types, put into
  an HTTP request by the client's encoder, comes out of the server's decoder as it was, as long as
  the JSON library reads what it wrote and, for a registration, the request is valid.\<close>

theorem requests_roundtrip:
  assumes "al_ParseMediaType A ''application/json'' = Inr ''application/json''"
    and "jx_carries A (LoginPostReq_Encode a)" and "opt_ok (lq_deviceInfo a)"
    and "jx_carries A (RegistrationBeginPostReq_Encode b)"
    and "jx_carries A (RegistrationCompletePostReq_Encode c)" and "opt_ok (rcq_deviceInfo c)"
    and "RegistrationCompletePostReq_Validate A c = None"
    and "jx_carries A (TokenRefreshPostReq_Encode d)"
  shows "decodeLoginPostRequest A (encodeLoginPostRequest A a r) = Inr a \<and>
    decodeRegistrationBeginPostRequest A (encodeRegistrationBeginPostRequest A b r) = Inr b \<and>
    decodeRegistrationCompletePostRequest A (encodeRegistrationCompletePostRequest A c r) = Inr c \<and>
    decodeTokenRefreshPostRequest A (encodeTokenRefreshPostRequest A d r) = Inr d"
  using login_req_json.request_arrives [OF assms(1-3)]
    registration_begin_req_json.request_arrives [OF assms(1,4)]
    registration_complete_req_json.request_arrives [where val = "RegistrationCompletePostReq_Validate A",
      OF assms(1,5-7)]
    token_refresh_req_json.request_arrives [OF assms(1,8)]
  by (simp add: decodeLoginPostRequest_def encodeLoginPostRequest_def
      decodeRegistrationBeginPostRequest_def encodeRegistrationBeginPostRequest_def
      decodeRegistrationCompletePostRequest_def encodeRegistrationCompletePostRequest_def
      decodeTokenRefreshPostRequest_def encodeTokenRefreshPostRequest_def)

lemma sample_carries: "whole d \<Longrightarrow> jx_carries sample_api d"
proof -
  assume "whole d"
  moreover from this have "write_doc d \<noteq> []" by (cases d) auto
  ultimately show ?thesis using sample_jx_reads [of d]
    by (simp add: jx_carries_def sample_api_def byte_string_def)
qed

theorem requests_roundtrip_witness:
  "\<forall>r. decodeLoginPostRequest sample_api (encodeLoginPostRequest sample_api sample_login_req r) =
     Inr sample_login_req \<and>
   decodeRegistrationCompletePostRequest sample_api
     (encodeRegistrationCompletePostRequest sample_api sample_complete_req r) = Inr sample_complete_req"
proof -
  have whole: "whole (LoginPostReq_Encode sample_login_req)"
    "whole (RegistrationBeginPostReq_Encode sample_begin_req)"
    "whole (RegistrationCompletePostReq_Encode sample_complete_req)"
    "whole (TokenRefreshPostReq_Encode sample_refresh_req)"
    by (simp_all add: decode_eval WebAuthnAuthenticationResponse_Encode_def
        WebAuthnRegistrationResponse_Encode_def sample_login_req_def sample_begin_req_def
        sample_complete_req_def sample_refresh_req_def sample_wrapped_key_def sample_opt_def)
  have valid: "RegistrationCompletePostReq_Validate sample_api sample_complete_req = None"
    by (simp add: RegistrationCompletePostReq_Validate_def sample_complete_req_def
        sample_wrapped_key_def WrappedKeyInput_Validate_def WrappedKeyScope_Validate_def sample_api_def)
  have "al_ParseMediaType sample_api ''application/json'' = Inr ''application/json''"
    by (simp add: sample_api_def)
  moreover have "opt_ok (lq_deviceInfo sample_login_req)" "opt_ok (rcq_deviceInfo sample_complete_req)"
    by (simp_all add: opt_ok_def sample_login_req_def sample_complete_req_def sample_opt_def)
  ultimately show ?thesis
    using requests_roundtrip [of sample_api sample_login_req sample_begin_req sample_complete_req
        sample_refresh_req] valid whole [THEN sample_carries]
    by simp
qed

end
