(* ===== verification/Http_Client_Properties.thy ===== *)
theory Http_Client_Properties
  imports Http_Properties
begin

text \<open>
  Properties of the client and the server together: answers survive their encoding, whatever a
  handler answers is accepted by the client, and a call of the client is a call of the handler.
\<close>

section \<open>A client of the concrete server\<close>

definition sample_client_libs :: client_libs where
  "sample_client_libs = \<lparr>cl_api = sample_api, cl_ReadAll = (\<lambda>r. Inr (rs_body r)), cl_header_value = Inr\<rparr>"

definition sample_client :: "req_ctx \<Rightarrow> client" where
  "sample_client c = \<lparr>cc_libs = sample_client_libs, cc_serverURL = \<lparr>url_Path = [], url_RawPath = []\<rparr>,
     cc_AddPathParts = (\<lambda>u ps. u\<lparr>url_Path := url_Path u @ concat ps\<rparr>), cc_EncodePath = Inr,
     cc_NewRequest = (\<lambda>m u. Inr \<lparr>hr_method = m, hr_path = url_Path u, hr_raw_path = url_RawPath u,
       hr_headers = [], hr_remote_addr = [], hr_content_length = 0, hr_body = Inr []\<rparr>),
     cc_BearerAuth = (\<lambda>_. Inr \<lparr>ba_Token = sample_token ''admin'', ba_Roles = []\<rparr>),
     cc_Do = ServeHTTP sample_env sample_server c\<rparr>"

lemma sample_client_law: "client_law sample_client_libs"
  by (auto simp: client_law_def sample_client_libs_def sample_api_def)

lemma sample_talks: "talks_to (sample_client c) sample_env sample_server c"
  using sample_client_law
  by (auto simp: talks_to_def sample_client_def sample_server_def sample_client_libs_def sample_api_def)

section \<open>Answers\<close>

text \<open>C36: What the server encodes the client decodes: every answer of each of the nine operations,
  put into an HTTP response, comes out of the client's decoder as it was, as long as the JSON
  library carries its document and the client's validators accept it.\<close>

theorem responses_roundtrip:
  assumes "client_law C"
  shows "(revoke_chain_res_carried C a \<and> revoke_chain_res_valid a \<longrightarrow>
      decodeAdminUsersUserIdRevokeChainPostResponse C
        (encodeAdminUsersUserIdRevokeChainPostResponse (cl_api C) a) = Inr a) \<and>
    (auth_verify_get_res_carried C b \<and> auth_verify_get_res_valid b \<longrightarrow>
      (\<exists>r. encodeAuthVerifyGetResponse (cl_api C) b = Inr r \<and> decodeAuthVerifyGetResponse C r = Inr b)) \<and>
    (invites_post_res_carried C d \<and> invites_post_res_valid d \<longrightarrow>
      decodeInvitesPostResponse C (encodeInvitesPostResponse (cl_api C) d) = Inr d) \<and>
    (login_begin_post_res_carried C e \<and> login_begin_post_res_valid e \<longrightarrow>
      decodeLoginBeginPostResponse C (encodeLoginBeginPostResponse (cl_api C) e) = Inr e) \<and>
    (login_post_res_carried C f \<and> login_post_res_valid f \<longrightarrow>
      decodeLoginPostResponse C (encodeLoginPostResponse (cl_api C) f) = Inr f) \<and>
    (registration_begin_post_res_carried C g \<and> registration_begin_post_res_valid g \<longrightarrow>
      decodeRegistrationBeginPostResponse C
        (encodeRegistrationBeginPostResponse (cl_api C) g) = Inr g) \<and>
    (registration_complete_post_res_carried C h \<and> registration_complete_post_res_valid h \<longrightarrow>
      decodeRegistrationCompletePostResponse C
        (encodeRegistrationCompletePostResponse (cl_api C) h) = Inr h) \<and>
    (sessions_delete_res_carried C i \<and> sessions_delete_res_valid i \<longrightarrow>
      decodeSessionsSessionIdDeleteResponse C
        (encodeSessionsSessionIdDeleteResponse (cl_api C) i) = Inr i) \<and>
    (token_refresh_post_res_carried C j \<and> token_refresh_post_res_valid j \<longrightarrow>
      decodeTokenRefreshPostResponse C (encodeTokenRefreshPostResponse (cl_api C) j) = Inr j)"
  using assms
  by (intro conjI impI; elim conjE)
    (rule revoke_chain_res_read auth_verify_get_res_read invites_post_res_read
      login_begin_post_res_read login_post_res_read registration_begin_post_res_read
      registration_complete_post_res_read sessions_delete_res_read token_refresh_post_res_read;
     assumption)+

theorem responses_roundtrip_witness:
  "decodeTokenRefreshPostResponse sample_client_libs (encodeTokenRefreshPostResponse sample_api
     (TokenRefreshPostOK \<lparr>tp_accessToken = ''x'', tp_refreshToken = ''y''\<rparr>)) =
   Inr (TokenRefreshPostOK \<lparr>tp_accessToken = ''x'', tp_refreshToken = ''y''\<rparr>)"
proof -
  let ?x = "TokenRefreshPostOK \<lparr>tp_accessToken = ''x'', tp_refreshToken = ''y''\<rparr>"
  have api: "cl_api sample_client_libs = sample_api" by (simp add: sample_client_libs_def)
  have "token_refresh_post_res_carried sample_client_libs ?x"
    by (simp add: api) (rule sample_carries, simp add: TokenPair_Encode_def TokenPair_encodeFields_def)
  with responses_roundtrip [OF sample_client_law, of _ _ _ _ _ _ _ _ ?x] show ?thesis
    by (simp add: api)
qed

text \<open>C35: Whatever a handler answers, the client's validators accept: the codes of all error
  answers are among those the interface declares, and the scopes of the keys a login returns are
  \<open>main\<close> or \<open>decoy\<close>.\<close>

theorem answers_well_typed:
  "(AuthVerifyGet c w = (Ok xa, w') \<longrightarrow> auth_verify_get_res_valid xa) \<and>
   (AdminUsersUserIdRevokeChainPost E i w = (Ok xb, w') \<longrightarrow> revoke_chain_res_valid xb) \<and>
   (InvitesPost E h c w = (Ok xc, w') \<longrightarrow> invites_post_res_valid xc) \<and>
   (LoginBeginPost E h w = (Ok xd, w') \<longrightarrow> login_begin_post_res_valid xd) \<and>
   (LoginPost E h c lq w = (Ok xe, w') \<longrightarrow> login_post_res_valid xe) \<and>
   (RegistrationBeginPost E h rq w = (Ok xf, w') \<longrightarrow> registration_begin_post_res_valid xf) \<and>
   (RegistrationCompletePost E h c rcq w = (Ok xg, w') \<longrightarrow> registration_complete_post_res_valid xg) \<and>
   (SessionsSessionIdDelete E c i w = (Ok xh, w') \<longrightarrow> sessions_delete_res_valid xh) \<and>
   (TokenRefreshPost E h tq w = (Ok xi, w') \<longrightarrow> token_refresh_post_res_valid xi)"
  by (intro conjI impI) (erule handlers_valid)+

theorem answers_well_typed_witness:
  "\<exists>x. AuthVerifyGet [] (world_of sample_db) = (Ok x, world_of sample_db) \<and> auth_verify_get_res_valid x"
proof -
  have "AuthVerifyGet [] (world_of sample_db) =
      (Ok (response_for newVerifyErrors (Sentinel Http_ErrUnauthenticated)), world_of sample_db)"
    by (simp add: handler_run userIDFromContext_def)
  then show ?thesis using answers_well_typed [of "[]" "world_of sample_db"] by blast
qed

section \<open>Calls\<close>

text \<open>C33: A call of the client is a call of the handler. When the transport of the client is this
  server, each call returns what the handler of its operation answers, with the handler's effect:
  paths, methods, identifiers, headers, bodies and answers all arrive. A call that needs a token
  runs as the user the token verifies to, provided its role is allowed.\<close>

theorem client_calls_are_handler_calls:
  assumes "talks_to cl E S c"
  shows "(LoginBeginPost E (sv_handler S) w = (Ok xd, w') \<and> login_begin_post_res_carried (cc_libs cl) xd \<longrightarrow>
      sendLoginBeginPost cl None w = (Ok (Inr xd), w')) \<and>
    (LoginPost E (sv_handler S) c lq w = (Ok xe, w') \<and> login_post_res_carried (cc_libs cl) xe \<and>
      jx_carries (sv_api S) (LoginPostReq_Encode lq) \<and> opt_ok (lq_deviceInfo lq) \<longrightarrow>
      sendLoginPost cl None lq w = (Ok (Inr xe), w')) \<and>
    (RegistrationBeginPost E (sv_handler S) bq w = (Ok xf, w') \<and>
      registration_begin_post_res_carried (cc_libs cl) xf \<and>
      jx_carries (sv_api S) (RegistrationBeginPostReq_Encode bq) \<longrightarrow>
      sendRegistrationBeginPost cl None bq w = (Ok (Inr xf), w')) \<and>
    (RegistrationCompletePost E (sv_handler S) c cq w = (Ok xg, w') \<and>
      registration_complete_post_res_carried (cc_libs cl) xg \<and>
      jx_carries (sv_api S) (RegistrationCompletePostReq_Encode cq) \<and> opt_ok (rcq_deviceInfo cq) \<and>
      RegistrationCompletePostReq_Validate (sv_api S) cq = None \<longrightarrow>
      sendRegistrationCompletePost cl None cq w = (Ok (Inr xg), w')) \<and>
    (TokenRefreshPost E (sv_handler S) tq w = (Ok xi, w') \<and>
      token_refresh_post_res_carried (cc_libs cl) xi \<and>
      jx_carries (sv_api S) (TokenRefreshPostReq_Encode tq) \<longrightarrow>
      sendTokenRefreshPost cl None tq w = (Ok (Inr xi), w')) \<and>
    (accepted E S cl AuthVerifyGetOperation u w \<and>
      AuthVerifyGet (WithUserID c u) (w\<lparr>tick := Suc (tick w)\<rparr>) = (Ok xa, w') \<and>
      auth_verify_get_res_carried (cc_libs cl) xa \<longrightarrow>
      sendAuthVerifyGet cl None w = (Ok (Inr xa), w')) \<and>
    (accepted E S cl InvitesPostOperation u w \<and>
      InvitesPost E (sv_handler S) (WithUserID c u) (w\<lparr>tick := Suc (tick w)\<rparr>) = (Ok xc, w') \<and>
      invites_post_res_carried (cc_libs cl) xc \<longrightarrow>
      sendInvitesPost cl None w = (Ok (Inr xc), w')) \<and>
    (accepted E S cl AdminUsersUserIdRevokeChainPostOperation u w \<and> carries_id cl S i \<and>
      AdminUsersUserIdRevokeChainPost E i (w\<lparr>tick := Suc (tick w)\<rparr>) = (Ok xb, w') \<and>
      revoke_chain_res_carried (cc_libs cl) xb \<longrightarrow>
      sendAdminUsersUserIdRevokeChainPost cl None i w = (Ok (Inr xb), w')) \<and>
    (accepted E S cl SessionsSessionIdDeleteOperation u w \<and> carries_id cl S i \<and>
      SessionsSessionIdDelete E (WithUserID c u) i (w\<lparr>tick := Suc (tick w)\<rparr>) = (Ok xh, w') \<and>
      sessions_delete_res_carried (cc_libs cl) xh \<longrightarrow>
      sendSessionsSessionIdDelete cl None i w = (Ok (Inr xh), w'))"
  using LoginBegin_call [OF assms] Login_call [OF assms] RegistrationBegin_call [OF assms]
    RegistrationComplete_call [OF assms] TokenRefresh_call [OF assms] AuthVerify_call [OF assms]
    Invites_call [OF assms] RevokeChain_call [OF assms] SessionsDelete_call [OF assms]
  by (intro conjI impI; elim conjE) blast+

lemma sample_accepted:
  "accepted sample_env sample_server (sample_client c) AdminUsersUserIdRevokeChainPostOperation 2
     (world_of sample_db)"
  using sample_Verify [of "''admin''"]
  by (auto simp: accepted_def sample_client_def sample_server_def roleAllowed_def role_String_def
      role_defs GetRolesForBearerAuth_def operationRolesBearerAuth_def)

theorem client_calls_are_handler_calls_witness:
  "\<exists>w'. sendAdminUsersUserIdRevokeChainPost (sample_client []) None 2 (world_of sample_db) =
     (Ok (Inr AdminUsersUserIdRevokeChainPostNoContent), w')"
proof -
  obtain w' where "RevokeCompromisedChain_Execute sample_env No_Tx 2
      ((world_of sample_db)\<lparr>tick := Suc 0\<rparr>) = (Ok (), w')"
    using sample_chain_run by blast
  then have run: "AdminUsersUserIdRevokeChainPost sample_env 2
      ((world_of sample_db)\<lparr>tick := Suc (tick (world_of sample_db))\<rparr>) =
      (Ok AdminUsersUserIdRevokeChainPostNoContent, w')"
    by (simp add: handler_run world_of_def)
  have "itoa (unat (2 :: uuid)) = ''2''" by (simp add: itoa.simps digit_char_def) code_simp
  then have "carries_id (sample_client []) sample_server 2"
    by (simp add: carries_id_def sample_client_def sample_server_def sample_api_def plain_path_def
        decode_uuid_param_def parse_nat_def)
  with client_calls_are_handler_calls [OF sample_talks, of _ _ w'] sample_accepted run show ?thesis
    by (metis revoke_chain_res_carried.simps(1))
qed

end
