(* ===== verification/Configuration.thy ===== *)
theory Configuration
  imports Go_Strings Go_Errors
begin

text \<open>
  The settings of every package: \<open>config.go\<close> of \<open>internal/application\<close>, \<open>internal/presentation/http\<close>,
  \<open>internal/infrastructure/{storage, crypto, auth/webauthn, telemetry}\<close> and \<open>pkg/logger\<close>, with their
  default values and with what the tags for the validator ask of them, and \<open>internal/config\<close>: how the file
  and the environment are read, and how the settings are printed. YAML, the merge of two sources,
  the decoding into a struct and the validator are parameters.
\<close>

section \<open>Durations\<close>

definition Millisecond :: duration where "Millisecond = 1000000"
definition Second :: duration where "Second = 1000 * Millisecond"
definition Minute :: duration where "Minute = 60 * Second"
definition Hour :: duration where "Hour = 60 * Minute"

section \<open>application/config.go\<close>

record invite_config =
  ic_MaxActive :: int
  ic_TTL :: duration
  ic_RootTTL :: duration
  ic_MaxWrappedKey :: int

record session_config =
  sc_RefreshTTL :: duration
  sc_AccessTTL :: duration

record app_config =
  ac_Invite :: invite_config
  ac_Session :: session_config

definition app_defaultCfg :: app_config where
  "app_defaultCfg =
     \<lparr>ac_Invite = \<lparr>ic_MaxActive = 3, ic_TTL = 72 * Hour, ic_RootTTL = (7 * 24) * Hour,
                  ic_MaxWrappedKey = 10\<rparr>,
      ac_Session = \<lparr>sc_RefreshTTL = 30 * 24 * Hour, sc_AccessTTL = 15 * Minute\<rparr>\<rparr>"

definition app_tags :: "app_config \<Rightarrow> bool" where
  "app_tags c \<longleftrightarrow>
     0 < ic_MaxActive (ac_Invite c) \<and> 0 < ic_TTL (ac_Invite c) \<and> 0 < ic_RootTTL (ac_Invite c) \<and>
     0 < ic_MaxWrappedKey (ac_Invite c) \<and>
     0 < sc_RefreshTTL (ac_Session c) \<and> 0 < sc_AccessTTL (ac_Session c)"

section \<open>presentation/http/config.go\<close>

record http_config =
  hc_Host :: string
  hc_Port :: "16 word"
  hc_ReadTimeout :: duration
  hc_ReadHeaderTimeout :: duration
  hc_WriteTimeout :: duration
  hc_IdleTimeout :: duration
  hc_ShutdownTimeout :: duration
  hc_MaxHeaderBytes :: int
  hc_RequestSizeLimit :: "64 word"
  hc_TrustedProxies :: "string list"
  hc_AllowedOrigins :: "string list"

definition http_HostPort :: "http_config \<Rightarrow> string" where
  "http_HostPort c = JoinHostPort (hc_Host c) (itoa (unat (hc_Port c)))"

definition http_defaultCfg :: http_config where
  "http_defaultCfg =
     \<lparr>hc_Host = ''0.0.0.0'', hc_Port = 8080, hc_ReadTimeout = 15 * Second,
      hc_ReadHeaderTimeout = 5 * Second, hc_WriteTimeout = 15 * Second, hc_IdleTimeout = 60 * Second,
      hc_ShutdownTimeout = 10 * Second, hc_MaxHeaderBytes = push_bit 20 1,
      hc_RequestSizeLimit = push_bit 20 2, hc_TrustedProxies = [], hc_AllowedOrigins = []\<rparr>"

definition http_tags :: "http_config \<Rightarrow> bool" where
  "http_tags c \<longleftrightarrow> 1 \<le> length (hc_AllowedOrigins c)"

section \<open>infrastructure/storage/config.go\<close>

record storage_config =
  st_AccessType :: string
  st_MigrationsDir :: string
  st_Host :: string
  st_Port :: string
  st_User :: string
  st_Pass :: string
  st_Name :: string
  st_Insecure :: bool
  st_MaxOpenConns :: "32 word"
  st_MaxIdleConns :: "32 word"
  st_ConnMaxLifetime :: duration
  st_ConnMaxIdleTime :: duration

definition storage_defaultCfg :: storage_config where
  "storage_defaultCfg =
     \<lparr>st_AccessType = ''SQL'', st_MigrationsDir = [], st_Host = [], st_Port = [], st_User = [],
      st_Pass = [], st_Name = [], st_Insecure = True, st_MaxOpenConns = 16, st_MaxIdleConns = 16,
      st_ConnMaxLifetime = 30 * Second, st_ConnMaxIdleTime = 30 * Second\<rparr>"

text \<open>\<open>hostname|ip\<close> and \<open>numeric\<close> are left to the validator, but for the characters they allow.\<close>

definition storage_tags :: "storage_config \<Rightarrow> bool" where
  "storage_tags c \<longleftrightarrow>
     st_AccessType c = ''SQL'' \<and> st_MigrationsDir c \<noteq> [] \<and> st_Host c \<noteq> [] \<and> st_Port c \<noteq> [] \<and>
     st_User c \<noteq> [] \<and> st_Pass c \<noteq> [] \<and> st_Name c \<noteq> [] \<and>
     0 < sint (st_MaxOpenConns c) \<and> 0 < sint (st_MaxIdleConns c) \<and>
     sint (st_MaxIdleConns c) \<le> sint (st_MaxOpenConns c) \<and>
     0 < st_ConnMaxLifetime c \<and> 0 < st_ConnMaxIdleTime c"

definition storage_HostPort :: "storage_config \<Rightarrow> string" where
  "storage_HostPort c = JoinHostPort (st_Host c) (st_Port c)"

text \<open>
  \<open>url.URL.String\<close> for a URL with a scheme, a user and password, a host, a path that does not start
  with a slash and one query parameter.
\<close>

definition storage_DSN :: "storage_config \<Rightarrow> string" where
  "storage_DSN c =
     (let u_user = escape_with keeps_user (st_User c) @ '':'' @ escape_with keeps_user (st_Pass c);
          u_host = escape_with keeps_host (storage_HostPort c);
          u_path = (if st_Name c = ''*'' then ''*'' else escape_with keeps_path (st_Name c));
          slash = (if u_path \<noteq> [] \<and> hd u_path \<noteq> CHR ''/'' \<and> storage_HostPort c \<noteq> [] then ''/'' else []);
          u_query = ''sslmode='' @ (if st_Insecure c then ''disable'' else ''require'')
      in ''postgres://'' @ u_user @ ''@'' @ u_host @ slash @ u_path @ ''?'' @ u_query)"

definition storage_String :: "storage_config \<Rightarrow> string" where
  "storage_String c =
     ''storage.Config{Host: '' @ st_Host c @ '':'' @ st_Port c @ '', Name: '' @ st_Name c @
     '', User: '' @ st_User c @ '', Pass: ***REDACTED***}''"

section \<open>infrastructure/crypto/config.go\<close>

record paseto_config =
  pc_SymmetricKey :: string
  pc_SecretKey :: string
  pc_PublicKey :: string

record crypto_config =
  cc_HMACSecret :: string
  cc_PASETO :: paseto_config

definition paseto_String :: "paseto_config \<Rightarrow> string" where
  "paseto_String c =
     ''crypto.PASETOConfig{SymmetricKey: ***REDACTED***, SecretKey: ***REDACTED***, PublicKey: ***REDACTED***}''"

definition crypto_String :: "crypto_config \<Rightarrow> string" where
  "crypto_String c =
     ''crypto.Config{HMACSecret: ***REDACTED***, PASETO: '' @ paseto_String (cc_PASETO c) @ ''}''"

definition crypto_defaultCfg :: crypto_config where
  "crypto_defaultCfg =
     \<lparr>cc_HMACSecret = [], cc_PASETO = \<lparr>pc_SymmetricKey = [], pc_SecretKey = [], pc_PublicKey = []\<rparr>\<rparr>"

definition crypto_tags :: "crypto_config \<Rightarrow> bool" where
  "crypto_tags c \<longleftrightarrow>
     32 \<le> length (cc_HMACSecret c) \<and> pc_SymmetricKey (cc_PASETO c) \<noteq> [] \<and>
     pc_SecretKey (cc_PASETO c) \<noteq> []"

section \<open>infrastructure/auth/webauthn/config.go\<close>

record rp_config =
  rp_ID :: string
  rp_DisplayName :: string
  rp_Origins :: "string list"

record webauthn_config =
  wc_RP :: rp_config
  wc_ChallengeTTL :: duration

definition webauthn_defaultCfg :: webauthn_config where
  "webauthn_defaultCfg =
     \<lparr>wc_RP = \<lparr>rp_ID = [], rp_DisplayName = [], rp_Origins = []\<rparr>, wc_ChallengeTTL = 5 * Minute\<rparr>"

definition webauthn_tags :: "webauthn_config \<Rightarrow> bool" where
  "webauthn_tags c \<longleftrightarrow>
     rp_ID (wc_RP c) \<noteq> [] \<and> rp_DisplayName (wc_RP c) \<noteq> [] \<and> 1 \<le> length (rp_Origins (wc_RP c)) \<and>
     list_all (\<lambda>s. s \<noteq> []) (rp_Origins (wc_RP c)) \<and> 0 < wc_ChallengeTTL c"

section \<open>infrastructure/telemetry/config.go\<close>

text \<open>A \<open>float64\<close> is kept as its 64 bits; the source only hands it on.\<close>

type_synonym float64 = "64 word"

record keepalive_config =
  kc_Time :: duration
  kc_Timeout :: duration
  kc_PermitWithoutStream :: bool

record backoff_config =
  bc_BaseDelay :: duration
  bc_MaxDelay :: duration
  bc_Multiplier :: float64
  bc_Jitter :: float64

record conn_config =
  nc_Endpoint :: string
  nc_MaxMsgSize :: int
  nc_Insecure :: bool
  nc_Compressor :: string
  nc_KeepAlive :: keepalive_config
  nc_Backoff :: backoff_config

record exporter_config =
  xc_Conn :: conn_config
  xc_Timeout :: duration

record sampler_config =
  pc_Type :: string
  pc_Ratio :: float64

record metric_config =
  mc_Interval :: duration

record telemetry_config =
  tc_ServiceName :: string
  tc_ServiceVersion :: string
  tc_Environment :: string
  tc_Enabled :: bool
  tc_Exporter :: exporter_config
  tc_Sampler :: sampler_config
  tc_Metric :: metric_config

text \<open>The multiplier 1.6 and the jitter 0.2, in the format of IEEE 754.\<close>

definition telemetry_defaultCfg :: telemetry_config where
  "telemetry_defaultCfg =
     \<lparr>tc_ServiceName = ''unknown-service'', tc_ServiceVersion = ''0.1.0'', tc_Environment = ''dev'',
      tc_Enabled = True,
      tc_Exporter =
        \<lparr>xc_Conn =
           \<lparr>nc_Endpoint = ''127.0.0.1:4317'', nc_MaxMsgSize = 16 * 1024 * 1024, nc_Insecure = True,
            nc_Compressor = ''gzip'',
            nc_KeepAlive = \<lparr>kc_Time = 30 * Second, kc_Timeout = 5 * Second, kc_PermitWithoutStream = True\<rparr>,
            nc_Backoff = \<lparr>bc_BaseDelay = 1 * Second, bc_MaxDelay = 30 * Second,
                          bc_Multiplier = 0x3FF999999999999A, bc_Jitter = 0x3FC999999999999A\<rparr>\<rparr>,
         xc_Timeout = 5 * Second\<rparr>,
      tc_Sampler = \<lparr>pc_Type = ''always'', pc_Ratio = 0\<rparr>,
      tc_Metric = \<lparr>mc_Interval = 15 * Second\<rparr>\<rparr>"

section \<open>pkg/logger/config.go\<close>

record file_config =
  fc_Name :: string
  fc_Size :: "64 word"
  fc_Backups :: int
  fc_ChannelSize :: "64 word"
  fc_Discard :: bool

record logger_config =
  lc_Level :: string
  lc_Caller :: int
  lc_File :: file_config

definition logger_defaultCfg :: logger_config where
  "logger_defaultCfg =
     \<lparr>lc_Level = ''info'', lc_Caller = 0,
      lc_File = \<lparr>fc_Name = [], fc_Size = 134217728, fc_Backups = 7, fc_ChannelSize = 4096,
                 fc_Discard = True\<rparr>\<rparr>"

definition log_levels :: "string list" where
  "log_levels = [''trace'', ''debug'', ''info'', ''warn'', ''error'', ''fatal'', ''panic'']"

definition logger_tags :: "logger_config \<Rightarrow> bool" where
  "logger_tags c \<longleftrightarrow>
     lc_Level c \<in> set log_levels \<and> 0 \<le> lc_Caller c \<and> fc_Name (lc_File c) \<noteq> [] \<and>
     0 < sint (fc_Size (lc_File c)) \<and> 0 \<le> fc_Backups (lc_File c) \<and>
     0 < unat (fc_ChannelSize (lc_File c))"

section \<open>internal/config\<close>

text \<open>
  What \<open>koanf\<close> holds: the flattened keys and the values, texts and lists of texts from the environment
  or whatever the file had, by the way \<open>%v\<close> prints it.
\<close>

datatype conf_value = Conf_Text string | Conf_List "string list" | Conf_Other string

type_synonym koanf = "(string \<times> conf_value) list"

record conf_libs =
  cf_LoadYaml :: "string \<Rightarrow> err + koanf"
  cf_Environ :: "(string \<times> string) list"
  cf_MergeEnv :: "koanf \<Rightarrow> koanf \<Rightarrow> err + koanf"

text \<open>The function that turns a variable of the environment into a key and a value.\<close>

definition TransformFunc :: "string \<Rightarrow> string \<Rightarrow> string \<times> conf_value" where
  "TransformFunc key val =
     (let key' = replace_char (CHR ''_'') (CHR ''.'') (ToLower (TrimPrefix key ''APP_'')) in
      if str_Contains val '' '' then (key', Conf_List (split_char (CHR '' '') val))
      else (key', Conf_Text val))"

text \<open>
  The provider of \<open>koanf\<close>: the variables with the prefix, transformed; one whose key becomes empty is
  left out.
\<close>

definition env_pairs :: "(string \<times> string) list \<Rightarrow> koanf" where
  "env_pairs environ =
     filter (\<lambda>(key, _). key \<noteq> [])
       (map (\<lambda>(key, val). TransformFunc key val) (filter (\<lambda>(key, _). HasPrefix key ''APP_'') environ))"

definition NewKoanf :: "conf_libs \<Rightarrow> string \<Rightarrow> err + koanf" where
  "NewKoanf C path =
     (case cf_LoadYaml C path of
        Inl e \<Rightarrow> Inl (Wrapped ''load yaml config: %w'' e)
      | Inr k \<Rightarrow>
          (case cf_MergeEnv C k (env_pairs (cf_Environ C)) of
             Inl e \<Rightarrow> Inl (Wrapped ''load env config: %w'' e)
           | Inr k' \<Rightarrow> Inr k'))"

text \<open>
  \<open>GetConfig\<close> for a type: decoding the keys under \<open>key\<close> over the default values, then the validator.
\<close>

definition GetConfig ::
  "(koanf \<Rightarrow> string \<Rightarrow> 'c \<Rightarrow> err + 'c) \<Rightarrow> ('c \<Rightarrow> err option) \<Rightarrow> koanf \<Rightarrow> string \<Rightarrow> 'c \<Rightarrow> err + 'c" where
  "GetConfig unmarshal validate k key def =
     (case unmarshal k key def of
        Inl e \<Rightarrow> Inl (Wrapped (''unmarshal config for key '' @ CHR 0x27 # key @ CHR 0x27 # '': %w'') e)
      | Inr c \<Rightarrow>
          (case validate c of
             Some e \<Rightarrow> Inl (Wrapped (''validate config for key '' @ CHR 0x27 # key @ CHR 0x27 # '': %w'') e)
           | None \<Rightarrow> Inr c))"

text \<open>\<open>ResolvePath\<close> over the environment, \<open>filepath.Clean\<close> and whether \<open>os.Stat\<close> finds nothing.\<close>

definition ResolvePath ::
  "(string \<Rightarrow> string) \<Rightarrow> (string \<Rightarrow> string) \<Rightarrow> (string \<Rightarrow> bool) \<Rightarrow> string \<Rightarrow> err + string" where
  "ResolvePath getenv clean not_exist def =
     (let path = (if getenv ''PATH_CONFIG'' \<noteq> [] then getenv ''PATH_CONFIG'' else def) in
      if path = [] then Inl (Sentinel Config_ErrPathNotSet)
      else if not_exist (clean path) then Inl (Sentinel Config_ErrPathNotExist)
      else Inr path)"

definition sensitive_words :: "string list" where
  "sensitive_words =
     [''secret'', ''key'', ''pass'', ''token'', ''hmac'', ''prf'', ''seed'', ''nonce'', ''metadata'']"

definition sensitive_key :: "string \<Rightarrow> bool" where
  "sensitive_key key \<longleftrightarrow> list_ex (str_Contains (ToLower key)) sensitive_words"

fun conf_show :: "conf_value \<Rightarrow> string" where
  "conf_show (Conf_Text s) = s"
| "conf_show (Conf_List ss) = ''['' @ join_with '' '' ss @ '']''"
| "conf_show (Conf_Other s) = s"

definition dump_line :: "string \<times> conf_value \<Rightarrow> string" where
  "dump_line kv =
     (if sensitive_key (fst kv) then fst kv @ '' = ***REDACTED***'' @ [CHR 0x0A]
      else fst kv @ '' = '' @ conf_show (snd kv) @ [CHR 0x0A])"

definition DumpFlat :: "koanf \<Rightarrow> string" where
  "DumpFlat k = concat (map dump_line k)"

section \<open>pkg/logger/logger.go: levels\<close>

datatype log_level =
  TraceLevel | DebugLevel | InfoLevel | WarnLevel | ErrorLevel | FatalLevel | PanicLevel

definition levelWrapper :: "string \<Rightarrow> err + log_level" where
  "levelWrapper level =
     (let l = ToLower (TrimSpace level) in
      if l = ''trace'' then Inr TraceLevel
      else if l = ''debug'' then Inr DebugLevel
      else if l = ''info'' then Inr InfoLevel
      else if l = ''warn'' then Inr WarnLevel
      else if l = ''error'' then Inr ErrorLevel
      else if l = ''fatal'' then Inr FatalLevel
      else if l = ''panic'' then Inr PanicLevel
      else Inl (Sentinel Logger_ErrInvalidLogLevel))"

end
