(* ===== verification/Config_Properties.thy ===== *)
theory Config_Properties
  imports Configuration
begin

text \<open>
  What the configuration guarantees: which settings the environment can reach, what the printed
  settings give away, and that the name of the database keeps user and password apart from the rest.
\<close>

section \<open>The environment\<close>

lemma lower_lower: "lower (lower c) = lower c"
proof -
  have "of_char c < (256 :: nat)" by simp
  then show ?thesis by (simp add: lower_def Let_def)
qed

text \<open>What an environment can hold: a name has no equals sign, and no text in it a character of code zero.\<close>

definition env_name :: "string \<Rightarrow> bool" where
  "env_name name \<longleftrightarrow> CHR ''='' \<notin> set name \<and> CHR 0x00 \<notin> set name"

definition env_settable :: "string \<Rightarrow> bool" where
  "env_settable key \<longleftrightarrow> (\<exists>name val v. env_name name \<and> (key, v) \<in> set (env_pairs [(name, val)]))"

lemma TransformFunc_key:
  "fst (TransformFunc key val) = replace_char (CHR ''_'') (CHR ''.'') (ToLower (TrimPrefix key ''APP_''))"
  by (simp add: TransformFunc_def Let_def)

lemma ToLower_replaced:
  "ToLower (replace_char (CHR ''_'') (CHR ''.'') (ToLower s)) = replace_char (CHR ''_'') (CHR ''.'') (ToLower s)"
proof -
  have "lower (CHR ''.'') = CHR ''.''" by (simp add: lower_def Let_def)
  then show ?thesis by (simp add: ToLower_def replace_char_def lower_lower)
qed

lemma env_name_key:
  assumes "env_name name"
  shows "env_name (replace_char (CHR ''_'') (CHR ''.'') (ToLower (TrimPrefix name ''APP_'')))"
proof -
  have chars: "set (TrimPrefix name ''APP_'') \<subseteq> set name"
    by (auto simp: TrimPrefix_def dest: in_set_dropD)
  have keeps: "lower x = c \<longleftrightarrow> x = c" if "c = CHR ''='' \<or> c = CHR 0x00" for x c
  proof -
    have "of_char (lower x) =
        (if (65 :: nat) \<le> of_char x \<and> of_char x \<le> (90 :: nat) then of_char x + 32 else of_char x :: nat)"
      by (simp add: lower_def Let_def)
    then have "of_char (lower x) = (of_char c :: nat) \<longleftrightarrow> of_char x = (of_char c :: nat)"
      using that by auto
    then show ?thesis by simp
  qed
  have "c \<notin> set (replace_char (CHR ''_'') (CHR ''.'') (ToLower (TrimPrefix name ''APP_'')))"
    if c: "c = CHR ''='' \<or> c = CHR 0x00" and "c \<notin> set name" for c
  proof
    assume "c \<in> set (replace_char (CHR ''_'') (CHR ''.'') (ToLower (TrimPrefix name ''APP_'')))"
    then obtain x where "x \<in> set name" "c = (if lower x = CHR ''_'' then CHR ''.'' else lower x)"
      using chars by (auto simp: replace_char_def ToLower_def)
    then have "lower x = c" using c by (auto split: if_splits)
    with keeps [OF c, of x] \<open>x \<in> set name\<close> that(2) show False by simp
  qed
  with assms show ?thesis by (simp add: env_name_def)
qed

text \<open>The keys of \<open>config.yaml\<close> that hold keys and secrets of the cryptography; the password of the
  database is \<open>storage.pass\<close>.\<close>

definition secret_settings :: "string list" where
  "secret_settings =
     [''crypto.hmac_secret'', ''crypto.paseto.symmetric_key'', ''crypto.paseto.secret_key'']"

text \<open>C32: A variable of the environment can set exactly the keys in small letters without an
  underscore (or what the name of a variable cannot have): every underscore of its name becomes a
  dot. Of the secrets, that is the password of the database alone; the keys of the cryptography have
  an underscore, so no variable sets any of them.\<close>

theorem environment_reaches:
  "(env_settable key \<longleftrightarrow> key \<noteq> [] \<and> env_name key \<and> CHR ''_'' \<notin> set key \<and> ToLower key = key) \<and>
   filter env_settable (''storage.pass'' # secret_settings) = [''storage.pass'']"
proof -
  have only_if: "key \<noteq> [] \<and> env_name key \<and> CHR ''_'' \<notin> set key \<and> ToLower key = key"
    if "env_settable key" for key
  proof -
    from that obtain name val where "env_name name" "key = fst (TransformFunc name val)" "key \<noteq> []"
      by (auto simp: env_settable_def env_pairs_def split: if_splits) (metis fst_conv)
    then show ?thesis
      by (simp add: TransformFunc_key replace_char_gone ToLower_replaced env_name_key)
  qed
  have "env_settable key" if "key \<noteq> []" "env_name key" "CHR ''_'' \<notin> set key" "ToLower key = key" for key
  proof -
    have "replace_char (CHR ''_'') (CHR ''.'') key = key"
      using that(3) by (auto simp: replace_char_def intro!: map_idI)
    then have "(key, Conf_Text []) \<in> set (env_pairs [(''APP_'' @ key, [])])"
      using that(1,4)
      by (simp add: env_pairs_def TransformFunc_def Let_def HasPrefix_def TrimPrefix_def)
    moreover have "env_name (''APP_'' @ key)" using that(2) by (simp add: env_name_def)
    ultimately show ?thesis unfolding env_settable_def by blast
  qed
  with only_if have iff: "env_settable key \<longleftrightarrow>
      key \<noteq> [] \<and> env_name key \<and> CHR ''_'' \<notin> set key \<and> ToLower key = key" for key by blast
  moreover have "filter env_settable (''storage.pass'' # secret_settings) = [''storage.pass'']"
    by (simp add: iff env_name_def secret_settings_def ToLower_def lower_def)
  ultimately show ?thesis by blast
qed

section \<open>The printed settings\<close>

text \<open>C30: The printed settings depend on the values of the sensitive keys in no way: settings that
  differ in nothing else print the same. The secrets and the password of the database are sensitive.\<close>

theorem dump_keeps_secrets:
  assumes "list_all2 (\<lambda>a b. fst a = fst b \<and> (sensitive_key (fst a) \<or> snd a = snd b)) k k'"
  shows "DumpFlat k = DumpFlat k' \<and> list_all sensitive_key (''storage.pass'' # secret_settings)"
proof
  have "map dump_line k = map dump_line k'"
    using assms by (induction rule: list_all2_induct) (auto simp: dump_line_def)
  then show "DumpFlat k = DumpFlat k'" by (simp add: DumpFlat_def)
  show "list_all sensitive_key (''storage.pass'' # secret_settings)"
    by (simp add: secret_settings_def sensitive_key_def sensitive_words_def ToLower_def lower_def
        HasPrefix_def)
qed

theorem dump_keeps_secrets_witness:
  "DumpFlat [(''crypto.hmac_secret'', Conf_Text ''one''), (''http.port'', Conf_Other ''8080'')] =
   DumpFlat [(''crypto.hmac_secret'', Conf_Text ''two''), (''http.port'', Conf_Other ''8080'')]"
  by (rule conjunct1 [OF dump_keeps_secrets])
     (simp add: sensitive_key_def sensitive_words_def ToLower_def lower_def HasPrefix_def)

section \<open>The name of the database\<close>

text \<open>Reading escaped text back: a percent sign and two hexadecimal digits are a character.\<close>

definition unhex :: "char \<Rightarrow> nat option" where
  "unhex c =
     (let n = of_char c :: nat in
      if 48 \<le> n \<and> n \<le> 57 then Some (n - 48) else if 65 \<le> n \<and> n \<le> 70 then Some (n - 55) else None)"

fun unescape :: "string \<Rightarrow> string option" where
  "unescape [] = Some []"
| "unescape (c # s) =
     (if c = CHR ''%'' then
        (case s of
           a # b # r \<Rightarrow>
             (case (unhex a, unhex b) of
                (Some x, Some y) \<Rightarrow> map_option ((#) (char_of (16 * x + y))) (unescape r)
              | _ \<Rightarrow> None)
         | _ \<Rightarrow> None)
      else map_option ((#) c) (unescape s))"

lemma unhex_upperhex: "n < 16 \<Longrightarrow> unhex (upperhex n) = Some n"
proof -
  have "list_all (\<lambda>n. unhex (upperhex n) = Some n) [0..<16]"
    by (simp add: upt_rec unhex_def upperhex_def Let_def nth_Cons')
  then show "n < 16 \<Longrightarrow> unhex (upperhex n) = Some n" by (auto simp: list_all_iff)
qed

lemma unescape_escape:
  assumes "\<not> keep (CHR ''%'')"
  shows "unescape (escape_with keep s) = Some s"
proof (induction s)
  case Nil
  then show ?case by (simp add: escape_with_def)
next
  case (Cons c s)
  have split: "escape_with keep (c # s) =
      (if keep c then [c] else [CHR ''%'', upperhex (of_char c div 16), upperhex (of_char c mod 16)]) @
      escape_with keep s" by (simp add: escape_with_def)
  have small: "of_char c div 16 < (16 :: nat)" "of_char c mod 16 < (16 :: nat)"
    using nat_of_char_less_256 [of c] by (simp_all add: less_mult_imp_div_less)
  show ?case
  proof (cases "keep c")
    case True
    with assms have "c \<noteq> CHR ''%''" by auto
    with True Cons show ?thesis by (simp add: split)
  next
    case False
    have "char_of (16 * (of_char c div 16) + of_char c mod 16 :: nat) = c" by simp
    with False Cons small show ?thesis by (simp add: split unhex_upperhex)
  qed
qed

lemma upperhex_alnum: "n < 16 \<Longrightarrow> is_alnum (upperhex n)"
proof -
  have "list_all (\<lambda>n. is_alnum (upperhex n)) [0..<16]"
    by (simp add: upt_rec is_alnum_def upperhex_def Let_def nth_Cons')
  then show "n < 16 \<Longrightarrow> is_alnum (upperhex n)" by (auto simp: list_all_iff)
qed

lemma escaped_chars:
  assumes "c \<in> set (escape_with keep s)"
  shows "keep c \<or> c = CHR ''%'' \<or> is_alnum c"
proof -
  have "of_char d div 16 < (16 :: nat)" "of_char d mod 16 < (16 :: nat)" for d :: char
    using nat_of_char_less_256 [of d] by (simp_all add: less_mult_imp_div_less)
  with assms show ?thesis by (auto simp: escape_with_def upperhex_alnum split: if_splits)
qed

lemma escape_hd: "s \<noteq> [] \<Longrightarrow> hd (escape_with keep s) = (if keep (hd s) then hd s else CHR ''%'')"
  by (cases s) (simp_all add: escape_with_def)

lemma escape_Nil_iff: "escape_with keep s = [] \<longleftrightarrow> s = []"
  by (cases s) (simp_all add: escape_with_def)

lemma kept_chars:
  "\<not> keeps_user (CHR ''%'')" "\<not> keeps_host (CHR ''%'')" "\<not> keeps_path (CHR ''%'')"
  "keeps_user d \<or> d = CHR ''%'' \<or> is_alnum d \<Longrightarrow> d \<notin> set '':@/?#''"
  "keeps_host d \<or> d = CHR ''%'' \<or> is_alnum d \<Longrightarrow> d \<notin> set ''@/?#''"
  "keeps_path d \<or> d = CHR ''%'' \<or> is_alnum d \<Longrightarrow> d \<notin> set ''?#''"
  by (auto simp: keeps_user_def keeps_host_def keeps_path_def unreserved_def is_alnum_def Let_def)

lemma escaped_apart:
  "set (escape_with keeps_user s) \<inter> set '':@/?#'' = {}"
  "set (escape_with keeps_host s) \<inter> set ''@/?#'' = {}"
  "set (escape_with keeps_path s) \<inter> set ''?#'' = {}"
  using escaped_chars [of _ keeps_user s, THEN kept_chars(4)]
    escaped_chars [of _ keeps_host s, THEN kept_chars(5)]
    escaped_chars [of _ keeps_path s, THEN kept_chars(6)] by blast+

text \<open>Whatever characters user, password, host and database have, the name of the database keeps
  them apart and they read back from it: user and password have no delimiter of a URL in it, host
  and port none but the colon, and the name of the database no question mark.\<close>

theorem dsn_keeps_parts:
  assumes "storage_tags c" and "hd (st_Name c) \<noteq> CHR ''/''"
  shows "\<exists>u p h d. storage_DSN c = ''postgres://'' @ u @ '':'' @ p @ ''@'' @ h @ ''/'' @ d @ ''?sslmode='' @
      (if st_Insecure c then ''disable'' else ''require'') \<and>
    unescape u = Some (st_User c) \<and> unescape p = Some (st_Pass c) \<and>
    unescape h = Some (storage_HostPort c) \<and> unescape d = Some (st_Name c) \<and>
    (set u \<union> set p) \<inter> set '':@/?#'' = {} \<and> set h \<inter> set ''@/?#'' = {} \<and> set d \<inter> set ''?#'' = {}"
proof -
  let ?d = "if st_Name c = ''*'' then ''*'' else escape_with keeps_path (st_Name c)"
  have name: "st_Name c \<noteq> []" using assms(1) by (simp add: storage_tags_def)
  have d: "?d \<noteq> []" "hd ?d \<noteq> CHR ''/''"
    using name assms(2) by (auto simp: escape_Nil_iff escape_hd)
  have host: "storage_HostPort c \<noteq> []" by (simp add: storage_HostPort_def JoinHostPort_def)
  have dsn: "storage_DSN c = ''postgres://'' @ escape_with keeps_user (st_User c) @ '':'' @
      escape_with keeps_user (st_Pass c) @ ''@'' @ escape_with keeps_host (storage_HostPort c) @ ''/'' @ ?d @
      ''?sslmode='' @ (if st_Insecure c then ''disable'' else ''require'')"
    using d host by (simp add: storage_DSN_def Let_def)
  have "unescape ?d = Some (st_Name c)"
    using unescape_escape [of keeps_path "st_Name c"] kept_chars(3) by simp
  moreover have "set ?d \<inter> set ''?#'' = {}" using escaped_apart(3) by simp
  ultimately show ?thesis
    using dsn unescape_escape [of keeps_user] unescape_escape [of keeps_host] kept_chars(1,2)
      escaped_apart(1) [of "st_User c"] escaped_apart(1) [of "st_Pass c"] escaped_apart(2)
    by (intro exI [of _ "escape_with keeps_user (st_User c)"] exI [of _ "escape_with keeps_user (st_Pass c)"]
        exI [of _ "escape_with keeps_host (storage_HostPort c)"] exI [of _ ?d] conjI) (simp_all add: Int_Un_distrib2)
qed

theorem dsn_keeps_parts_witness:
  "\<exists>u p h d. storage_DSN (storage_defaultCfg\<lparr>st_MigrationsDir := ''m'', st_Host := ''db'', st_Port := ''5432'',
       st_User := ''u'', st_Pass := ''p@ss:/'', st_Name := ''hsa''\<rparr>) =
     ''postgres://'' @ u @ '':'' @ p @ ''@'' @ h @ ''/'' @ d @ ''?sslmode=disable'' \<and>
   unescape p = Some ''p@ss:/'' \<and> set p \<inter> set '':@/?#'' = {}"
proof -
  let ?c = "storage_defaultCfg\<lparr>st_MigrationsDir := ''m'', st_Host := ''db'', st_Port := ''5432'',
       st_User := ''u'', st_Pass := ''p@ss:/'', st_Name := ''hsa''\<rparr>"
  have "storage_tags ?c" "hd (st_Name ?c) \<noteq> CHR ''/''"
    by (simp_all add: storage_tags_def storage_defaultCfg_def Second_def Millisecond_def)
  from dsn_keeps_parts [OF this] show ?thesis by (fastforce simp: storage_defaultCfg_def)
qed

end
