(* ===== verification/Container.thy ===== *)
theory Container
  imports Go_Errors
begin

text \<open>
  What the service uses of its container, \<open>github.com/samber/do\<close>: a service is registered under its
  type with a function that builds it; \<open>Invoke\<close> asks for a type, \<open>InvokeAs\<close> for any service whose
  type implements an interface. A service is built when it is first asked for and kept; a service
  that needs itself is an error, as is one that is not registered. Which of several services that
  implement an interface \<open>InvokeAs\<close> takes is not documented to be any one of them: it is a
  parameter of the model.

  A function that builds a service is a plan: it asks the container, one service after the other,
  and ends with an error or the object.
\<close>

datatype ('s, 'i) key = By_Type 's | By_Interface 'i

datatype ('s, 'i, 'o) plan =
    Done "err + 'o"
  | Ask "('s, 'i) key" "err + 'o \<Rightarrow> ('s, 'i, 'o) plan"

primrec run_plan ::
  "(('s, 'i) key \<Rightarrow> 'c \<Rightarrow> (err + 'o) \<times> 'c) \<Rightarrow> ('s, 'i, 'o) plan \<Rightarrow> 'c \<Rightarrow> (err + 'o) \<times> 'c" where
  "run_plan ask (Done r) = (\<lambda>c. (r, c))"
| "run_plan ask (Ask k f) = (\<lambda>c. case ask k c of (r, c') \<Rightarrow> run_plan ask (f r) c')"

record ('s, 'i, 'o) injector =
  in_provider :: "'s \<Rightarrow> ('s, 'i, 'o) plan option"
  in_candidates :: "'i \<Rightarrow> 's list"
  in_choose :: "'i \<Rightarrow> 's"

definition ErrServiceNotFound :: err where
  "ErrServiceNotFound = External ''DI: could not find service''"

definition ErrCircularDependency :: err where
  "ErrCircularDependency = External ''DI: circular dependency detected''"

text \<open>
  \<open>invoke I n chain s c\<close> asks for \<open>s\<close> while the services of \<open>chain\<close> are being built and those of
  \<open>c\<close> are there already, in the order in which they were built. The number bounds the depth of
  the chain; as a service in the chain is refused, as many as there are services is enough.
\<close>

fun invoke ::
  "('s, 'i, 'o) injector \<Rightarrow> nat \<Rightarrow> 's list \<Rightarrow> 's \<Rightarrow> ('s \<times> 'o) list \<Rightarrow> (err + 'o) \<times> ('s \<times> 'o) list" where
  "invoke I 0 chain s c = (Inl ErrCircularDependency, c)"
| "invoke I (Suc n) chain s c =
     (case map_of c s of
        Some x \<Rightarrow> (Inr x, c)
      | None \<Rightarrow>
          (case in_provider I s of
             None \<Rightarrow> (Inl ErrServiceNotFound, c)
           | Some p \<Rightarrow>
               if s \<in> set chain then (Inl ErrCircularDependency, c)
               else (case run_plan
                            (\<lambda>k. case k of
                               By_Type t \<Rightarrow> invoke I n (s # chain) t
                             | By_Interface i \<Rightarrow>
                                 if in_candidates I i = [] then (\<lambda>c. (Inl ErrServiceNotFound, c))
                                 else invoke I n (s # chain) (in_choose I i))
                            p c of
                       (Inl e, c') \<Rightarrow> (Inl e, c')
                     | (Inr x, c') \<Rightarrow> (Inr x, c' @ [(s, x)]))))"

text \<open>Services asked for one after the other.\<close>

fun invoke_each ::
  "('s, 'i, 'o) injector \<Rightarrow> nat \<Rightarrow> 's list \<Rightarrow> ('s \<times> 'o) list \<Rightarrow> (err + 'o) list \<times> ('s \<times> 'o) list" where
  "invoke_each I n [] c = ([], c)"
| "invoke_each I n (s # ss) c =
     (case invoke I n [] s c of (r, c') \<Rightarrow>
       (case invoke_each I n ss c' of (rs, c'') \<Rightarrow> (r # rs, c'')))"

text \<open>The keys a plan asks for and its result, when the answers are known.\<close>

primrec follow :: "(('s, 'i) key \<Rightarrow> 'o) \<Rightarrow> ('s, 'i, 'o) plan \<Rightarrow> ('s, 'i) key list \<times> (err + 'o)" where
  "follow a (Done r) = ([], r)"
| "follow a (Ask k f) = (case follow a (f (Inr (a k))) of (ks, r) \<Rightarrow> (k # ks, r))"

definition target :: "('s, 'i, 'o) injector \<Rightarrow> ('s, 'i) key \<Rightarrow> 's" where
  "target I k = (case k of By_Type t \<Rightarrow> t | By_Interface i \<Rightarrow> in_choose I i)"

definition askable :: "('s, 'i, 'o) injector \<Rightarrow> ('s, 'i) key \<Rightarrow> bool" where
  "askable I k \<longleftrightarrow>
     (case k of By_Type t \<Rightarrow> True | By_Interface i \<Rightarrow> in_choose I i \<in> set (in_candidates I i))"

lemma target_simps [simp]:
  "target I (By_Type t) = t" "target I (By_Interface i) = in_choose I i"
  by (simp_all add: target_def)

lemma askable_simps [simp]:
  "askable I (By_Type t)"
  "askable I (By_Interface i) \<longleftrightarrow> in_choose I i \<in> set (in_candidates I i)"
  by (simp_all add: askable_def)

text \<open>A plan that is answered by what it follows ends as it is followed.\<close>

lemma run_plan_follow:
  assumes "follow a p = (ks, r)"
    and "\<And>k c. k \<in> set ks \<Longrightarrow> P c \<Longrightarrow> \<exists>c'. ask k c = (Inr (a k), c') \<and> P c'"
    and "P c"
  shows "\<exists>c'. run_plan ask p c = (r, c') \<and> P c'"
  using assms
proof (induction p arbitrary: ks c)
  case (Done r)
  then show ?case by simp
next
  case (Ask k f)
  obtain ks' where ks': "follow a (f (Inr (a k))) = (ks', r)" "ks = k # ks'"
    using Ask.prems(1) by (auto split: prod.splits)
  obtain c1 where c1: "ask k c = (Inr (a k), c1)" "P c1"
    using Ask.prems(2) [of k c] Ask.prems(3) ks'(2) by auto
  have "\<exists>c'. run_plan ask (f (Inr (a k))) c1 = (r, c') \<and> P c'"
    using Ask.IH [OF rangeI ks'(1) _ c1(2)] Ask.prems(2) ks'(2) by auto
  with c1(1) show ?case by simp
qed

section \<open>Containers without cycles\<close>

text \<open>
  The contract of a container that can build everything: there are objects for all services such
  that each function, answered with them, ends with its own, and only asks for services of a lower
  rank that are registered.
\<close>

locale acyclic_container =
  fixes I :: "('s, 'i, 'o) injector" and V :: "'s \<Rightarrow> 'o" and rank :: "'s \<Rightarrow> nat" and ready :: bool
  assumes builds: "ready \<Longrightarrow> in_provider I s = Some p \<Longrightarrow> snd (follow (V \<circ> target I) p) = Inr (V s)"
    and asks: "ready \<Longrightarrow> in_provider I s = Some p \<Longrightarrow> k \<in> set (fst (follow (V \<circ> target I) p)) \<Longrightarrow>
      askable I k \<and> in_provider I (target I k) \<noteq> None \<and> rank (target I k) < rank s"
begin

text \<open>A container holds these objects, and no service twice.\<close>

definition holds :: "('s \<times> 'o) list \<Rightarrow> bool" where
  "holds c \<longleftrightarrow> (\<forall>(s, x) \<in> set c. x = V s) \<and> distinct (map fst c)"

lemma holds_Nil: "holds []"
  by (simp add: holds_def)

lemma holds_lookup: "holds c \<Longrightarrow> map_of c s = Some x \<Longrightarrow> x = V s"
  by (auto simp: holds_def dest: map_of_SomeD)

text \<open>Services of a lower rank leave those of a higher one alone.\<close>

lemma invoke_builds:
  assumes ready and "in_provider I s \<noteq> None" and "rank s < n" and "\<forall>t \<in> set chain. rank s < rank t"
    and "holds c"
  shows "\<exists>c'. invoke I n chain s c = (Inr (V s), c') \<and> holds c' \<and> set c \<subseteq> set c' \<and>
    (\<forall>t \<in> fst ` set c'. t \<in> fst ` set c \<or> rank t \<le> rank s)"
  using assms(2-)
proof (induction n arbitrary: s chain c)
  case 0
  then show ?case by simp
next
  case (Suc n)
  show ?case
  proof (cases "map_of c s")
    case (Some x)
    then have "x = V s" using holds_lookup [OF Suc.prems(4)] by simp
    with Some Suc.prems(4) show ?thesis by auto
  next
    case None
    then have new: "s \<notin> fst ` set c" by (simp add: map_of_eq_None_iff)
    have fresh: "s \<notin> set chain" using Suc.prems(3) by auto
    obtain p where p: "in_provider I s = Some p" using Suc.prems(1) by auto
    let ?ask = "\<lambda>k. case k of By_Type t \<Rightarrow> invoke I n (s # chain) t
      | By_Interface i \<Rightarrow> if in_candidates I i = [] then (\<lambda>c. (Inl ErrServiceNotFound, c))
          else invoke I n (s # chain) (in_choose I i)"
    let ?P = "\<lambda>c'. holds c' \<and> set c \<subseteq> set c' \<and>
      (\<forall>t \<in> fst ` set c'. t \<in> fst ` set c \<or> rank t < rank s)"
    obtain ks where ks: "follow (V \<circ> target I) p = (ks, Inr (V s))"
      using builds [OF assms(1) p] by (metis prod.collapse)
    have step: "\<exists>c'. ?ask k d = (Inr ((V \<circ> target I) k), c') \<and> ?P c'"
      if k: "k \<in> set ks" and d: "?P d" for k d
    proof -
      have t: "askable I k" "in_provider I (target I k) \<noteq> None" "rank (target I k) < rank s"
        using asks [OF assms(1) p, of k] ks k by auto
      have "?ask k = invoke I n (s # chain) (target I k)"
        using t(1) by (cases k) (auto simp: askable_def)
      moreover obtain c' where c': "invoke I n (s # chain) (target I k) d = (Inr (V (target I k)), c')"
          "holds c'" "set d \<subseteq> set c'"
          "\<forall>u \<in> fst ` set c'. u \<in> fst ` set d \<or> rank u \<le> rank (target I k)"
      proof (rule exE)
        show "\<exists>c'. invoke I n (s # chain) (target I k) d = (Inr (V (target I k)), c') \<and>
          holds c' \<and> set d \<subseteq> set c' \<and>
          (\<forall>u \<in> fst ` set c'. u \<in> fst ` set d \<or> rank u \<le> rank (target I k))"
        proof (rule Suc.IH)
          show "rank (target I k) < n" using t(3) Suc.prems(2) by simp
          show "\<forall>u \<in> set (s # chain). rank (target I k) < rank u"
            using t(3) Suc.prems(3) by (auto dest: less_trans)
        qed (use t d in auto)
      qed blast
      moreover have "\<forall>u \<in> fst ` set c'. u \<in> fst ` set c \<or> rank u < rank s"
        using c'(4) d t(3) by (metis le_less_trans)
      ultimately show ?thesis using d by auto
    qed
    obtain c' where c': "run_plan ?ask p c = (Inr (V s), c')" "?P c'"
      using run_plan_follow [OF ks, of ?P ?ask c] step Suc.prems(4) by auto
    have "s \<notin> fst ` set c'" using c'(2) new by auto
    then have "holds (c' @ [(s, V s)])" using c'(2) by (auto simp: holds_def)
    with c' None p fresh show ?thesis by auto
  qed
qed

text \<open>
  So every registered service can be built, at the first call and at every later one, with the
  same object each time.
\<close>

lemma invoke_total:
  assumes ready and "in_provider I s \<noteq> None" and "rank s < n" and "holds c"
  shows "fst (invoke I n [] s c) = Inr (V s)" and "holds (snd (invoke I n [] s c))"
  using invoke_builds [OF assms(1-3) _ assms(4), of "[]"] by auto

lemma invoke_each_total:
  assumes ready and "\<forall>s \<in> set ss. in_provider I s \<noteq> None \<and> rank s < n" and "holds c"
  shows "fst (invoke_each I n ss c) = map (\<lambda>s. Inr (V s)) ss \<and> holds (snd (invoke_each I n ss c))"
  using assms(2,3)
proof (induction ss arbitrary: c)
  case Nil
  then show ?case by simp
next
  case (Cons s ss)
  obtain c' where "invoke I n [] s c = (Inr (V s), c')" "holds c'"
    using invoke_total [OF assms(1), of s n c] Cons.prems by (metis list.set_intros(1) prod.collapse)
  then show ?case using Cons.IH [of c'] Cons.prems(1)
    by (cases "invoke_each I n ss c'") simp
qed

end

end
