(* ===== verification/Wiring_Types.thy ===== *)
theory Wiring_Types
  imports Container Configuration
begin

text \<open>
  The services of the container, in the order in which the packages register them
  (\<open>internal/di/di.go\<close> and the nine files \<open>package.go\<close>), the interfaces they are asked for by, and
  the methods of both. A method is its name, the types of its parameters and the types of its
  results, as Go identifies types: aliases are resolved, so every identifier is a \<open>uuid.UUID\<close>. The
  methods of library types are a parameter.
\<close>

datatype svc =
    Context | Koanf | PooledGenerator | Grpc_Conn | Telemetry_Config | Otel_Resource |
    Telemetry_Service | Logger_Config | Logger_Service | Slog_Logger | Storage_Config |
    Storage_Storage | Storage_CredentialRepository | Storage_InviteRepository |
    Storage_SessionRepository | Storage_UserRepository | Storage_WrappedKeyRepository |
    Crypto_Config | Crypto_SecretManager | Crypto_TokenCodec | Crypto_AccessTokenIssuer |
    Crypto_AccessTokenVerifier | Webauthn_Config | Go_WebAuthn | Webauthn_Authenticator |
    Webauthn_Registrator | App_Config | App_CreateInvite | App_RootCreateInvite |
    App_BeginInviteRegistration | App_FinishInviteRegistration | App_SessionIssuer |
    App_BeginLogin | App_Login | App_RefreshAccessToken | App_RevokeAllUserSessions |
    App_RevokeSession | App_RevokeCompromisedChain | App_BootstrapRoot | Http_Config |
    Http_SecurityHandler | Http_Handler | Http_Router | Http_Server

datatype iface =
    Webauthn_I_ChallengeCodec | Webauthn_I_CredentialsProvider | App_I_InviteSaver |
    App_I_ActiveInviteCounter | App_I_TokenGenerator | App_I_IDGenerator | App_I_Transactor |
    App_I_InviteFinderByCode | App_I_Registrator | App_I_HashGenerator |
    App_I_InviteFinderByID | App_I_UserFinderByID | App_I_UserSaver | App_I_CredentialSaver |
    App_I_WrappedKeySaver | App_I_RefreshTokenSaver | App_I_TokenIssuer | App_I_Authenticator |
    App_I_CredentialFinder | App_I_CredentialWrappedKeysFinder | App_I_RefreshTokenFinder |
    App_I_ActiveSessionsFinder | App_I_RefreshTokenFinderByID | App_I_UserDescendantsFinder |
    App_I_RootFinder | Http_I_CreateInvite | Http_I_BeginLogin | Http_I_FinishLogin |
    Http_I_BeginInviteRegistration | Http_I_FinishInviteRegistration |
    Http_I_RefreshAccessToken | Http_I_RevokeCompromisedChain | Http_I_RevokeSession |
    Http_I_SecurityHandler

type_synonym method_sig = "string \<times> string list \<times> string list"

section \<open>Interfaces\<close>

definition Webauthn_I_ChallengeCodec_methods :: "method_sig list" where
  "Webauthn_I_ChallengeCodec_methods =
     [(''Encode'', [''any'', ''time.Duration''], [''string'', ''error'']),
      (''Decode'', [''string'', ''any''], [''error''])]"

definition Webauthn_I_CredentialsProvider_methods :: "method_sig list" where
  "Webauthn_I_CredentialsProvider_methods =
     [(''FindByUserID'', [''context.Context'', ''uuid.UUID''], [''[]*credential.Credential'', ''error''])]"

definition App_I_InviteSaver_methods :: "method_sig list" where
  "App_I_InviteSaver_methods =
     [(''Save'', [''context.Context'', ''*invite.Invite''], [''error''])]"

definition App_I_ActiveInviteCounter_methods :: "method_sig list" where
  "App_I_ActiveInviteCounter_methods =
     [(''CountActiveByUser'', [''context.Context'', ''uuid.UUID'', ''time.Time''], [''int'', ''error''])]"

definition App_I_TokenGenerator_methods :: "method_sig list" where
  "App_I_TokenGenerator_methods =
     [(''GenerateToken'', [''int''], [''string'', ''string'', ''error''])]"

definition App_I_IDGenerator_methods :: "method_sig list" where
  "App_I_IDGenerator_methods =
     [(''NewID'', [], [''uuid.UUID''])]"

definition App_I_Transactor_methods :: "method_sig list" where
  "App_I_Transactor_methods =
     [(''RunInTransaction'', [''context.Context'', ''func(context.Context) error''], [''error''])]"

definition App_I_InviteFinderByCode_methods :: "method_sig list" where
  "App_I_InviteFinderByCode_methods =
     [(''FindByCodeHash'', [''context.Context'', ''string''], [''*invite.Invite'', ''error''])]"

definition App_I_Registrator_methods :: "method_sig list" where
  "App_I_Registrator_methods =
     [(''Begin'', [''context.Context'', ''uuid.UUID'', ''uuid.UUID''], [''string'', ''[]byte'', ''error'']),
      (''Finish'', [''context.Context'', ''string'', ''[]byte''], [''application.RegistrationResult'', ''error''])]"

definition App_I_HashGenerator_methods :: "method_sig list" where
  "App_I_HashGenerator_methods =
     [(''GenerateHash'', [''string''], [''string'', ''error''])]"

definition App_I_InviteFinderByID_methods :: "method_sig list" where
  "App_I_InviteFinderByID_methods =
     [(''FindByID'', [''context.Context'', ''uuid.UUID''], [''*invite.Invite'', ''error''])]"

definition App_I_UserFinderByID_methods :: "method_sig list" where
  "App_I_UserFinderByID_methods =
     [(''FindByID'', [''context.Context'', ''uuid.UUID''], [''*user.User'', ''error''])]"

definition App_I_UserSaver_methods :: "method_sig list" where
  "App_I_UserSaver_methods =
     [(''Save'', [''context.Context'', ''*user.User''], [''error''])]"

definition App_I_CredentialSaver_methods :: "method_sig list" where
  "App_I_CredentialSaver_methods =
     [(''Save'', [''context.Context'', ''*credential.Credential''], [''error''])]"

definition App_I_WrappedKeySaver_methods :: "method_sig list" where
  "App_I_WrappedKeySaver_methods =
     [(''Save'', [''context.Context'', ''...*key.WrappedKey''], [''error''])]"

definition App_I_RefreshTokenSaver_methods :: "method_sig list" where
  "App_I_RefreshTokenSaver_methods =
     [(''Save'', [''context.Context'', ''...*session.RefreshToken''], [''error''])]"

definition App_I_TokenIssuer_methods :: "method_sig list" where
  "App_I_TokenIssuer_methods =
     [(''IssueAccessToken'', [''uuid.UUID'', ''user.Role'', ''time.Duration''], [''string'', ''error''])]"

definition App_I_Authenticator_methods :: "method_sig list" where
  "App_I_Authenticator_methods =
     [(''Begin'', [''context.Context''], [''string'', ''[]byte'', ''error'']),
      (''Finish'', [''context.Context'', ''string'', ''[]byte''], [''application.AuthenticationResult'', ''error''])]"

definition App_I_CredentialFinder_methods :: "method_sig list" where
  "App_I_CredentialFinder_methods =
     [(''FindByExternalID'', [''context.Context'', ''[]byte''], [''*credential.Credential'', ''error''])]"

definition App_I_CredentialWrappedKeysFinder_methods :: "method_sig list" where
  "App_I_CredentialWrappedKeysFinder_methods =
     [(''FindByCredentialID'', [''context.Context'', ''uuid.UUID''], [''[]*key.WrappedKey'', ''error''])]"

definition App_I_RefreshTokenFinder_methods :: "method_sig list" where
  "App_I_RefreshTokenFinder_methods =
     [(''FindByTokenHash'', [''context.Context'', ''string''], [''*session.RefreshToken'', ''error''])]"

definition App_I_ActiveSessionsFinder_methods :: "method_sig list" where
  "App_I_ActiveSessionsFinder_methods =
     [(''FindActiveByUserIDs'', [''context.Context'', ''[]uuid.UUID'', ''time.Time''], [''[]*session.RefreshToken'', ''error''])]"

definition App_I_RefreshTokenFinderByID_methods :: "method_sig list" where
  "App_I_RefreshTokenFinderByID_methods =
     [(''FindByID'', [''context.Context'', ''uuid.UUID''], [''*session.RefreshToken'', ''error''])]"

definition App_I_UserDescendantsFinder_methods :: "method_sig list" where
  "App_I_UserDescendantsFinder_methods =
     [(''Descendants'', [''context.Context'', ''uuid.UUID''], [''[]uuid.UUID'', ''error''])]"

definition App_I_RootFinder_methods :: "method_sig list" where
  "App_I_RootFinder_methods =
     [(''FindRoot'', [''context.Context''], [''*user.User'', ''error''])]"

definition Http_I_CreateInvite_methods :: "method_sig list" where
  "Http_I_CreateInvite_methods =
     [(''Execute'', [''context.Context'', ''uuid.UUID''], [''string'', ''time.Time'', ''error''])]"

definition Http_I_BeginLogin_methods :: "method_sig list" where
  "Http_I_BeginLogin_methods =
     [(''Execute'', [''context.Context''], [''string'', ''[]byte'', ''error''])]"

definition Http_I_FinishLogin_methods :: "method_sig list" where
  "Http_I_FinishLogin_methods =
     [(''Execute'', [''context.Context'', ''application.LoginInput''], [''*application.LoginOutput'', ''error''])]"

definition Http_I_BeginInviteRegistration_methods :: "method_sig list" where
  "Http_I_BeginInviteRegistration_methods =
     [(''Execute'', [''context.Context'', ''string''], [''string'', ''[]byte'', ''error''])]"

definition Http_I_FinishInviteRegistration_methods :: "method_sig list" where
  "Http_I_FinishInviteRegistration_methods =
     [(''Execute'', [''context.Context'', ''application.FinishInviteRegistrationInput''], [''*application.FinishInviteRegistrationOutput'', ''error''])]"

definition Http_I_RefreshAccessToken_methods :: "method_sig list" where
  "Http_I_RefreshAccessToken_methods =
     [(''Execute'', [''context.Context'', ''string''], [''string'', ''string'', ''error''])]"

definition Http_I_RevokeCompromisedChain_methods :: "method_sig list" where
  "Http_I_RevokeCompromisedChain_methods =
     [(''Execute'', [''context.Context'', ''uuid.UUID''], [''error''])]"

definition Http_I_RevokeSession_methods :: "method_sig list" where
  "Http_I_RevokeSession_methods =
     [(''Execute'', [''context.Context'', ''uuid.UUID'', ''uuid.UUID''], [''error''])]"

definition Http_I_SecurityHandler_methods :: "method_sig list" where
  "Http_I_SecurityHandler_methods =
     [(''HandleBearerAuth'', [''context.Context'', ''string'', ''api.BearerAuth''], [''context.Context'', ''error''])]"

definition interface :: "iface \<Rightarrow> method_sig list" where
  "interface i =
     (case i of
        Webauthn_I_ChallengeCodec \<Rightarrow> Webauthn_I_ChallengeCodec_methods
      | Webauthn_I_CredentialsProvider \<Rightarrow> Webauthn_I_CredentialsProvider_methods
      | App_I_InviteSaver \<Rightarrow> App_I_InviteSaver_methods
      | App_I_ActiveInviteCounter \<Rightarrow> App_I_ActiveInviteCounter_methods
      | App_I_TokenGenerator \<Rightarrow> App_I_TokenGenerator_methods
      | App_I_IDGenerator \<Rightarrow> App_I_IDGenerator_methods
      | App_I_Transactor \<Rightarrow> App_I_Transactor_methods
      | App_I_InviteFinderByCode \<Rightarrow> App_I_InviteFinderByCode_methods
      | App_I_Registrator \<Rightarrow> App_I_Registrator_methods
      | App_I_HashGenerator \<Rightarrow> App_I_HashGenerator_methods
      | App_I_InviteFinderByID \<Rightarrow> App_I_InviteFinderByID_methods
      | App_I_UserFinderByID \<Rightarrow> App_I_UserFinderByID_methods
      | App_I_UserSaver \<Rightarrow> App_I_UserSaver_methods
      | App_I_CredentialSaver \<Rightarrow> App_I_CredentialSaver_methods
      | App_I_WrappedKeySaver \<Rightarrow> App_I_WrappedKeySaver_methods
      | App_I_RefreshTokenSaver \<Rightarrow> App_I_RefreshTokenSaver_methods
      | App_I_TokenIssuer \<Rightarrow> App_I_TokenIssuer_methods
      | App_I_Authenticator \<Rightarrow> App_I_Authenticator_methods
      | App_I_CredentialFinder \<Rightarrow> App_I_CredentialFinder_methods
      | App_I_CredentialWrappedKeysFinder \<Rightarrow> App_I_CredentialWrappedKeysFinder_methods
      | App_I_RefreshTokenFinder \<Rightarrow> App_I_RefreshTokenFinder_methods
      | App_I_ActiveSessionsFinder \<Rightarrow> App_I_ActiveSessionsFinder_methods
      | App_I_RefreshTokenFinderByID \<Rightarrow> App_I_RefreshTokenFinderByID_methods
      | App_I_UserDescendantsFinder \<Rightarrow> App_I_UserDescendantsFinder_methods
      | App_I_RootFinder \<Rightarrow> App_I_RootFinder_methods
      | Http_I_CreateInvite \<Rightarrow> Http_I_CreateInvite_methods
      | Http_I_BeginLogin \<Rightarrow> Http_I_BeginLogin_methods
      | Http_I_FinishLogin \<Rightarrow> Http_I_FinishLogin_methods
      | Http_I_BeginInviteRegistration \<Rightarrow> Http_I_BeginInviteRegistration_methods
      | Http_I_FinishInviteRegistration \<Rightarrow> Http_I_FinishInviteRegistration_methods
      | Http_I_RefreshAccessToken \<Rightarrow> Http_I_RefreshAccessToken_methods
      | Http_I_RevokeCompromisedChain \<Rightarrow> Http_I_RevokeCompromisedChain_methods
      | Http_I_RevokeSession \<Rightarrow> Http_I_RevokeSession_methods
      | Http_I_SecurityHandler \<Rightarrow> Http_I_SecurityHandler_methods)"

lemmas interface_defs =
  Webauthn_I_ChallengeCodec_methods_def Webauthn_I_CredentialsProvider_methods_def
  App_I_InviteSaver_methods_def App_I_ActiveInviteCounter_methods_def
  App_I_TokenGenerator_methods_def App_I_IDGenerator_methods_def App_I_Transactor_methods_def
  App_I_InviteFinderByCode_methods_def App_I_Registrator_methods_def
  App_I_HashGenerator_methods_def App_I_InviteFinderByID_methods_def
  App_I_UserFinderByID_methods_def App_I_UserSaver_methods_def App_I_CredentialSaver_methods_def
  App_I_WrappedKeySaver_methods_def App_I_RefreshTokenSaver_methods_def
  App_I_TokenIssuer_methods_def App_I_Authenticator_methods_def
  App_I_CredentialFinder_methods_def App_I_CredentialWrappedKeysFinder_methods_def
  App_I_RefreshTokenFinder_methods_def App_I_ActiveSessionsFinder_methods_def
  App_I_RefreshTokenFinderByID_methods_def App_I_UserDescendantsFinder_methods_def
  App_I_RootFinder_methods_def Http_I_CreateInvite_methods_def Http_I_BeginLogin_methods_def
  Http_I_FinishLogin_methods_def Http_I_BeginInviteRegistration_methods_def
  Http_I_FinishInviteRegistration_methods_def Http_I_RefreshAccessToken_methods_def
  Http_I_RevokeCompromisedChain_methods_def Http_I_RevokeSession_methods_def
  Http_I_SecurityHandler_methods_def
  interface_def

section \<open>Methods of the services\<close>

definition PooledGenerator_methods :: "method_sig list" where
  "PooledGenerator_methods =
     [(''NewID'', [], [''uuid.UUID''])]"

definition Telemetry_Service_methods :: "method_sig list" where
  "Telemetry_Service_methods =
     [(''Shutdown'', [''context.Context''], [''error''])]"

definition Logger_Service_methods :: "method_sig list" where
  "Logger_Service_methods =
     [(''Shutdown'', [], [''error''])]"

definition Storage_Config_methods :: "method_sig list" where
  "Storage_Config_methods =
     [(''HostPort'', [], [''string'']),
      (''DSN'', [], [''string'']),
      (''String'', [], [''string''])]"

definition Storage_Storage_methods :: "method_sig list" where
  "Storage_Storage_methods =
     [(''Ping'', [''context.Context''], [''error'']),
      (''Up'', [''context.Context''], [''error'']),
      (''Reset'', [''context.Context''], [''error'']),
      (''Shutdown'', [], []),
      (''HealthCheck'', [''context.Context''], [''error'']),
      (''RunInTransaction'', [''context.Context'', ''func(context.Context) error''], [''error'']),
      (''GetQueries'', [''context.Context''], [''*pg.Queries''])]"

definition Storage_CredentialRepository_methods :: "method_sig list" where
  "Storage_CredentialRepository_methods =
     [(''FindByExternalID'', [''context.Context'', ''[]byte''], [''*credential.Credential'', ''error'']),
      (''FindByUserID'', [''context.Context'', ''uuid.UUID''], [''[]*credential.Credential'', ''error'']),
      (''Save'', [''context.Context'', ''*credential.Credential''], [''error''])]"

definition Storage_InviteRepository_methods :: "method_sig list" where
  "Storage_InviteRepository_methods =
     [(''FindByCodeHash'', [''context.Context'', ''string''], [''*invite.Invite'', ''error'']),
      (''FindByID'', [''context.Context'', ''uuid.UUID''], [''*invite.Invite'', ''error'']),
      (''Save'', [''context.Context'', ''*invite.Invite''], [''error'']),
      (''CountActiveByUser'', [''context.Context'', ''uuid.UUID'', ''time.Time''], [''int'', ''error''])]"

definition Storage_SessionRepository_methods :: "method_sig list" where
  "Storage_SessionRepository_methods =
     [(''FindByTokenHash'', [''context.Context'', ''string''], [''*session.RefreshToken'', ''error'']),
      (''FindByID'', [''context.Context'', ''uuid.UUID''], [''*session.RefreshToken'', ''error'']),
      (''FindActiveByUserIDs'', [''context.Context'', ''[]uuid.UUID'', ''time.Time''], [''[]*session.RefreshToken'', ''error'']),
      (''Save'', [''context.Context'', ''...*session.RefreshToken''], [''error''])]"

definition Storage_UserRepository_methods :: "method_sig list" where
  "Storage_UserRepository_methods =
     [(''Save'', [''context.Context'', ''*user.User''], [''error'']),
      (''FindByID'', [''context.Context'', ''uuid.UUID''], [''*user.User'', ''error'']),
      (''Descendants'', [''context.Context'', ''uuid.UUID''], [''[]uuid.UUID'', ''error'']),
      (''FindRoot'', [''context.Context''], [''*user.User'', ''error''])]"

definition Storage_WrappedKeyRepository_methods :: "method_sig list" where
  "Storage_WrappedKeyRepository_methods =
     [(''Save'', [''context.Context'', ''...*key.WrappedKey''], [''error'']),
      (''FindByCredentialID'', [''context.Context'', ''uuid.UUID''], [''[]*key.WrappedKey'', ''error''])]"

definition Crypto_Config_methods :: "method_sig list" where
  "Crypto_Config_methods =
     [(''String'', [], [''string''])]"

definition Crypto_SecretManager_methods :: "method_sig list" where
  "Crypto_SecretManager_methods =
     [(''String'', [], [''string'']),
      (''GenerateHash'', [''string''], [''string'', ''error'']),
      (''GenerateToken'', [''int''], [''string'', ''string'', ''error''])]"

definition Crypto_TokenCodec_methods :: "method_sig list" where
  "Crypto_TokenCodec_methods =
     [(''String'', [], [''string'']),
      (''Encode'', [''any'', ''time.Duration''], [''string'', ''error'']),
      (''Decode'', [''string'', ''any''], [''error''])]"

definition Crypto_AccessTokenIssuer_methods :: "method_sig list" where
  "Crypto_AccessTokenIssuer_methods =
     [(''String'', [], [''string'']),
      (''IssueAccessToken'', [''uuid.UUID'', ''user.Role'', ''time.Duration''], [''string'', ''error''])]"

definition Crypto_AccessTokenVerifier_methods :: "method_sig list" where
  "Crypto_AccessTokenVerifier_methods =
     [(''String'', [], [''string'']),
      (''Verify'', [''string''], [''uuid.UUID'', ''user.Role'', ''error''])]"

definition Webauthn_Authenticator_methods :: "method_sig list" where
  "Webauthn_Authenticator_methods =
     [(''Begin'', [''context.Context''], [''string'', ''[]byte'', ''error'']),
      (''Finish'', [''context.Context'', ''string'', ''[]byte''], [''application.AuthenticationResult'', ''error''])]"

definition Webauthn_Registrator_methods :: "method_sig list" where
  "Webauthn_Registrator_methods =
     [(''Begin'', [''context.Context'', ''uuid.UUID'', ''uuid.UUID''], [''string'', ''[]byte'', ''error'']),
      (''Finish'', [''context.Context'', ''string'', ''[]byte''], [''application.RegistrationResult'', ''error''])]"

definition App_CreateInvite_methods :: "method_sig list" where
  "App_CreateInvite_methods =
     [(''Execute'', [''context.Context'', ''uuid.UUID''], [''string'', ''time.Time'', ''error''])]"

definition App_BeginInviteRegistration_methods :: "method_sig list" where
  "App_BeginInviteRegistration_methods =
     [(''Execute'', [''context.Context'', ''string''], [''string'', ''[]byte'', ''error''])]"

definition App_FinishInviteRegistration_methods :: "method_sig list" where
  "App_FinishInviteRegistration_methods =
     [(''Execute'', [''context.Context'', ''application.FinishInviteRegistrationInput''], [''*application.FinishInviteRegistrationOutput'', ''error''])]"

definition App_SessionIssuer_methods :: "method_sig list" where
  "App_SessionIssuer_methods =
     [(''Issue'', [''context.Context'', ''uuid.UUID'', ''string'', ''netip.Addr'', ''time.Time''], [''string'', ''string'', ''error'']),
      (''Rotate'', [''context.Context'', ''*session.RefreshToken'', ''time.Time''], [''string'', ''string'', ''error''])]"

definition App_BeginLogin_methods :: "method_sig list" where
  "App_BeginLogin_methods =
     [(''Execute'', [''context.Context''], [''string'', ''[]byte'', ''error''])]"

definition App_Login_methods :: "method_sig list" where
  "App_Login_methods =
     [(''Execute'', [''context.Context'', ''application.LoginInput''], [''*application.LoginOutput'', ''error''])]"

definition App_RefreshAccessToken_methods :: "method_sig list" where
  "App_RefreshAccessToken_methods =
     [(''Execute'', [''context.Context'', ''string''], [''string'', ''string'', ''error''])]"

definition App_RevokeAllUserSessions_methods :: "method_sig list" where
  "App_RevokeAllUserSessions_methods =
     [(''Execute'', [''context.Context'', ''...uuid.UUID''], [''error''])]"

definition App_RevokeSession_methods :: "method_sig list" where
  "App_RevokeSession_methods =
     [(''Execute'', [''context.Context'', ''uuid.UUID'', ''uuid.UUID''], [''error''])]"

definition App_RevokeCompromisedChain_methods :: "method_sig list" where
  "App_RevokeCompromisedChain_methods =
     [(''Execute'', [''context.Context'', ''uuid.UUID''], [''error''])]"

definition App_BootstrapRoot_methods :: "method_sig list" where
  "App_BootstrapRoot_methods =
     [(''Execute'', [''context.Context''], [''*user.User'', ''error''])]"

definition Http_Config_methods :: "method_sig list" where
  "Http_Config_methods =
     [(''HostPort'', [], [''string''])]"

definition Http_SecurityHandler_methods :: "method_sig list" where
  "Http_SecurityHandler_methods =
     [(''HandleBearerAuth'', [''context.Context'', ''string'', ''api.BearerAuth''], [''context.Context'', ''error''])]"

definition Http_Handler_methods :: "method_sig list" where
  "Http_Handler_methods =
     [(''AuthVerifyGet'', [''context.Context''], [''api.AuthVerifyGetRes'', ''error'']),
      (''AdminUsersUserIdRevokeChainPost'', [''context.Context'', ''api.AdminUsersUserIdRevokeChainPostParams''], [''api.AdminUsersUserIdRevokeChainPostRes'', ''error'']),
      (''InvitesPost'', [''context.Context''], [''api.InvitesPostRes'', ''error'']),
      (''LoginBeginPost'', [''context.Context''], [''api.LoginBeginPostRes'', ''error'']),
      (''LoginPost'', [''context.Context'', ''*api.LoginPostReq''], [''api.LoginPostRes'', ''error'']),
      (''RegistrationBeginPost'', [''context.Context'', ''*api.RegistrationBeginPostReq''], [''api.RegistrationBeginPostRes'', ''error'']),
      (''RegistrationCompletePost'', [''context.Context'', ''*api.RegistrationCompletePostReq''], [''api.RegistrationCompletePostRes'', ''error'']),
      (''SessionsSessionIdDelete'', [''context.Context'', ''api.SessionsSessionIdDeleteParams''], [''api.SessionsSessionIdDeleteRes'', ''error'']),
      (''TokenRefreshPost'', [''context.Context'', ''*api.TokenRefreshPostReq''], [''api.TokenRefreshPostRes'', ''error''])]"

text \<open>\<open>RootCreateInvite\<close> embeds a \<open>*CreateInvite\<close>, whose methods it has too.\<close>

definition App_RootCreateInvite_methods :: "method_sig list" where
  "App_RootCreateInvite_methods = App_CreateInvite_methods"

definition methods_of :: "(svc \<Rightarrow> method_sig list) \<Rightarrow> svc \<Rightarrow> method_sig list" where
  "methods_of foreign s =
     (case s of
        Context \<Rightarrow> foreign Context
      | Koanf \<Rightarrow> foreign Koanf
      | PooledGenerator \<Rightarrow> PooledGenerator_methods
      | Grpc_Conn \<Rightarrow> foreign Grpc_Conn
      | Telemetry_Config \<Rightarrow> []
      | Otel_Resource \<Rightarrow> foreign Otel_Resource
      | Telemetry_Service \<Rightarrow> Telemetry_Service_methods
      | Logger_Config \<Rightarrow> []
      | Logger_Service \<Rightarrow> Logger_Service_methods
      | Slog_Logger \<Rightarrow> foreign Slog_Logger
      | Storage_Config \<Rightarrow> Storage_Config_methods
      | Storage_Storage \<Rightarrow> Storage_Storage_methods
      | Storage_CredentialRepository \<Rightarrow> Storage_CredentialRepository_methods
      | Storage_InviteRepository \<Rightarrow> Storage_InviteRepository_methods
      | Storage_SessionRepository \<Rightarrow> Storage_SessionRepository_methods
      | Storage_UserRepository \<Rightarrow> Storage_UserRepository_methods
      | Storage_WrappedKeyRepository \<Rightarrow> Storage_WrappedKeyRepository_methods
      | Crypto_Config \<Rightarrow> Crypto_Config_methods
      | Crypto_SecretManager \<Rightarrow> Crypto_SecretManager_methods
      | Crypto_TokenCodec \<Rightarrow> Crypto_TokenCodec_methods
      | Crypto_AccessTokenIssuer \<Rightarrow> Crypto_AccessTokenIssuer_methods
      | Crypto_AccessTokenVerifier \<Rightarrow> Crypto_AccessTokenVerifier_methods
      | Webauthn_Config \<Rightarrow> []
      | Go_WebAuthn \<Rightarrow> foreign Go_WebAuthn
      | Webauthn_Authenticator \<Rightarrow> Webauthn_Authenticator_methods
      | Webauthn_Registrator \<Rightarrow> Webauthn_Registrator_methods
      | App_Config \<Rightarrow> []
      | App_CreateInvite \<Rightarrow> App_CreateInvite_methods
      | App_RootCreateInvite \<Rightarrow> App_RootCreateInvite_methods
      | App_BeginInviteRegistration \<Rightarrow> App_BeginInviteRegistration_methods
      | App_FinishInviteRegistration \<Rightarrow> App_FinishInviteRegistration_methods
      | App_SessionIssuer \<Rightarrow> App_SessionIssuer_methods
      | App_BeginLogin \<Rightarrow> App_BeginLogin_methods
      | App_Login \<Rightarrow> App_Login_methods
      | App_RefreshAccessToken \<Rightarrow> App_RefreshAccessToken_methods
      | App_RevokeAllUserSessions \<Rightarrow> App_RevokeAllUserSessions_methods
      | App_RevokeSession \<Rightarrow> App_RevokeSession_methods
      | App_RevokeCompromisedChain \<Rightarrow> App_RevokeCompromisedChain_methods
      | App_BootstrapRoot \<Rightarrow> App_BootstrapRoot_methods
      | Http_Config \<Rightarrow> Http_Config_methods
      | Http_SecurityHandler \<Rightarrow> Http_SecurityHandler_methods
      | Http_Handler \<Rightarrow> Http_Handler_methods
      | Http_Router \<Rightarrow> foreign Http_Router
      | Http_Server \<Rightarrow> foreign Http_Server)"

lemmas method_defs =
  PooledGenerator_methods_def Telemetry_Service_methods_def Logger_Service_methods_def
  Storage_Config_methods_def Storage_Storage_methods_def
  Storage_CredentialRepository_methods_def Storage_InviteRepository_methods_def
  Storage_SessionRepository_methods_def Storage_UserRepository_methods_def
  Storage_WrappedKeyRepository_methods_def Crypto_Config_methods_def
  Crypto_SecretManager_methods_def Crypto_TokenCodec_methods_def
  Crypto_AccessTokenIssuer_methods_def Crypto_AccessTokenVerifier_methods_def
  Webauthn_Authenticator_methods_def Webauthn_Registrator_methods_def
  App_CreateInvite_methods_def App_BeginInviteRegistration_methods_def
  App_FinishInviteRegistration_methods_def App_SessionIssuer_methods_def
  App_BeginLogin_methods_def App_Login_methods_def App_RefreshAccessToken_methods_def
  App_RevokeAllUserSessions_methods_def App_RevokeSession_methods_def
  App_RevokeCompromisedChain_methods_def App_BootstrapRoot_methods_def Http_Config_methods_def
  Http_SecurityHandler_methods_def Http_Handler_methods_def App_RootCreateInvite_methods_def
  methods_of_def

section \<open>The packages\<close>

definition config_Package :: "svc list" where
  "config_Package =
     [Koanf]"

definition idgen_Package :: "svc list" where
  "idgen_Package =
     [PooledGenerator]"

definition telemetry_Package :: "svc list" where
  "telemetry_Package =
     [Grpc_Conn, Telemetry_Config, Otel_Resource, Telemetry_Service]"

definition logger_Package :: "svc list" where
  "logger_Package =
     [Logger_Config, Logger_Service, Slog_Logger]"

definition storage_Package :: "svc list" where
  "storage_Package =
     [Storage_Config, Storage_Storage, Storage_CredentialRepository, Storage_InviteRepository,
     Storage_SessionRepository, Storage_UserRepository, Storage_WrappedKeyRepository]"

definition crypto_Package :: "svc list" where
  "crypto_Package =
     [Crypto_Config, Crypto_SecretManager, Crypto_TokenCodec, Crypto_AccessTokenIssuer,
     Crypto_AccessTokenVerifier]"

definition webauthnadapter_Package :: "svc list" where
  "webauthnadapter_Package =
     [Webauthn_Config, Go_WebAuthn, Webauthn_Authenticator, Webauthn_Registrator]"

definition application_Package :: "svc list" where
  "application_Package =
     [App_Config, App_CreateInvite, App_RootCreateInvite, App_BeginInviteRegistration,
     App_FinishInviteRegistration, App_SessionIssuer, App_BeginLogin, App_Login,
     App_RefreshAccessToken, App_RevokeAllUserSessions, App_RevokeSession,
     App_RevokeCompromisedChain, App_BootstrapRoot]"

definition http_Package :: "svc list" where
  "http_Package =
     [Http_Config, Http_SecurityHandler, Http_Handler, Http_Router, Http_Server]"

definition registerPackages :: "svc list" where
  "registerPackages =
     config_Package @ idgen_Package @ telemetry_Package @ logger_Package @ storage_Package @
     crypto_Package @ webauthnadapter_Package @ application_Package @ http_Package"

text \<open>\<open>New\<close> provides the context, then the packages.\<close>

definition registered :: "svc list" where
  "registered = Context # registerPackages"

lemmas package_defs =
  config_Package_def idgen_Package_def telemetry_Package_def logger_Package_def
  storage_Package_def crypto_Package_def webauthnadapter_Package_def application_Package_def
  http_Package_def
  registerPackages_def registered_def

section \<open>Which services implement an interface\<close>

definition implements :: "method_sig list \<Rightarrow> method_sig list \<Rightarrow> bool" where
  "implements ms required \<longleftrightarrow> list_all (\<lambda>m. m \<in> set ms) required"

definition implementers :: "(svc \<Rightarrow> method_sig list) \<Rightarrow> iface \<Rightarrow> svc list" where
  "implementers foreign i = filter (\<lambda>s. implements (methods_of foreign s) (interface i)) registered"

text \<open>No library type has a method of these interfaces: they name types of this module or methods
  the libraries do not have.\<close>

definition foreign_apart :: "(svc \<Rightarrow> method_sig list) \<Rightarrow> bool" where
  "foreign_apart foreign \<longleftrightarrow> (\<forall>s i. set (foreign s) \<inter> set (interface i) = {})"

definition module_methods :: "svc \<Rightarrow> method_sig list" where
  "module_methods s = methods_of (\<lambda>_. []) s"

lemma interface_not_Nil: "interface i \<noteq> []"
  by (cases i) (simp_all add: interface_defs)

lemma implements_methods_of:
  assumes "foreign_apart foreign"
  shows "implements (methods_of foreign s) (interface i) = implements (module_methods s) (interface i)"
proof -
  obtain m ms where m: "interface i = m # ms" using interface_not_Nil by (cases "interface i") auto
  have "m \<notin> set (foreign s)" using assms m unfolding foreign_apart_def by (metis disjoint_iff list.set_intros(1))
  then have "\<not> implements (foreign s) (interface i)" using m by (simp add: implements_def)
  moreover have "\<not> implements [] (interface i)" using m by (simp add: implements_def)
  moreover have "methods_of foreign s = module_methods s \<or> methods_of foreign s = foreign s \<and> module_methods s = []"
    by (cases s) (simp_all add: module_methods_def methods_of_def)
  ultimately show ?thesis by auto
qed

definition implementers_table :: "iface \<Rightarrow> svc list" where
  "implementers_table i =
     (case i of
        Webauthn_I_ChallengeCodec \<Rightarrow> [Crypto_TokenCodec]
      | Webauthn_I_CredentialsProvider \<Rightarrow> [Storage_CredentialRepository]
      | App_I_InviteSaver \<Rightarrow> [Storage_InviteRepository]
      | App_I_ActiveInviteCounter \<Rightarrow> [Storage_InviteRepository]
      | App_I_TokenGenerator \<Rightarrow> [Crypto_SecretManager]
      | App_I_IDGenerator \<Rightarrow> [PooledGenerator]
      | App_I_Transactor \<Rightarrow> [Storage_Storage]
      | App_I_InviteFinderByCode \<Rightarrow> [Storage_InviteRepository]
      | App_I_Registrator \<Rightarrow> [Webauthn_Registrator]
      | App_I_HashGenerator \<Rightarrow> [Crypto_SecretManager]
      | App_I_InviteFinderByID \<Rightarrow> [Storage_InviteRepository]
      | App_I_UserFinderByID \<Rightarrow> [Storage_UserRepository]
      | App_I_UserSaver \<Rightarrow> [Storage_UserRepository]
      | App_I_CredentialSaver \<Rightarrow> [Storage_CredentialRepository]
      | App_I_WrappedKeySaver \<Rightarrow> [Storage_WrappedKeyRepository]
      | App_I_RefreshTokenSaver \<Rightarrow> [Storage_SessionRepository]
      | App_I_TokenIssuer \<Rightarrow> [Crypto_AccessTokenIssuer]
      | App_I_Authenticator \<Rightarrow> [Webauthn_Authenticator]
      | App_I_CredentialFinder \<Rightarrow> [Storage_CredentialRepository]
      | App_I_CredentialWrappedKeysFinder \<Rightarrow> [Storage_WrappedKeyRepository]
      | App_I_RefreshTokenFinder \<Rightarrow> [Storage_SessionRepository]
      | App_I_ActiveSessionsFinder \<Rightarrow> [Storage_SessionRepository]
      | App_I_RefreshTokenFinderByID \<Rightarrow> [Storage_SessionRepository]
      | App_I_UserDescendantsFinder \<Rightarrow> [Storage_UserRepository]
      | App_I_RootFinder \<Rightarrow> [Storage_UserRepository]
      | Http_I_CreateInvite \<Rightarrow> [App_CreateInvite, App_RootCreateInvite]
      | Http_I_BeginLogin \<Rightarrow> [App_BeginLogin]
      | Http_I_FinishLogin \<Rightarrow> [App_Login]
      | Http_I_BeginInviteRegistration \<Rightarrow> [App_BeginInviteRegistration]
      | Http_I_FinishInviteRegistration \<Rightarrow> [App_FinishInviteRegistration]
      | Http_I_RefreshAccessToken \<Rightarrow> [App_RefreshAccessToken]
      | Http_I_RevokeCompromisedChain \<Rightarrow> [App_RevokeCompromisedChain]
      | Http_I_RevokeSession \<Rightarrow> [App_RevokeSession]
      | Http_I_SecurityHandler \<Rightarrow> [Http_SecurityHandler])"

lemma module_implementers:
  "filter (\<lambda>s. implements (module_methods s) (interface i)) registered = implementers_table i"
  by (cases i; hypsubst_thin; code_simp)

lemma implementers_eq: "foreign_apart foreign \<Longrightarrow> implementers foreign i = implementers_table i"
  by (simp add: implementers_def implements_methods_of module_implementers)

end
