(* ===== verification/Wiring.thy ===== *)
theory Wiring
  imports Wiring_Types Http_Client_Ip Crypto Application_Ports
begin

text \<open>
  How the container builds the service: the functions of the nine files \<open>package.go\<close> as plans, the
  constructors they call, and the objects that result. A Go struct is its type and its fields by
  name; an interface value is the object in it. The libraries' own constructors are parameters.
\<close>

section \<open>Objects\<close>

datatype config =
    App_Cfg app_config | Http_Cfg http_config | Storage_Cfg storage_config
  | Crypto_Cfg crypto_config | Webauthn_Cfg webauthn_config | Telemetry_Cfg telemetry_config
  | Logger_Cfg logger_config

text \<open>What telemetry exports with, and how traces are sampled.\<close>

datatype sampler = Never_Sample | Ratio_Sample float64 | Always_Sample

datatype otel_provider =
    Tracer_Provider nat sampler | Meter_Provider nat duration | Logger_Provider nat

text \<open>The options for the connection to the collector: \<open>grpc.DialOption\<close>.\<close>

datatype dial_option =
    With_Insecure
  | With_TLS
  | Use_Compressor string
  | With_Keepalive duration duration bool
  | With_Backoff duration duration float64 float64

text \<open>The writers of the log: to the console, to a file, and through a channel to another.\<close>

datatype log_writer =
    Console_Writer bool bool bool
  | File_Writer string bool "64 word" nat int bool
  | Async_Writer "64 word" bool log_writer

text \<open>A handle stands for an object of a library.\<close>

datatype obj =
    Struct svc "(string \<times> obj) list"
  | Nil_Obj
  | Handle nat
  | Settings config
  | Koanf_Obj koanf
  | Bytes_Obj bytes
  | Text_Obj string
  | Texts_Obj "string list"
  | Int_Obj int
  | Duration_Obj duration
  | Level_Obj log_level
  | Writers_Obj "log_writer list"
  | Otel_Obj otel_provider
  | Prefixes_Obj "ip_prefix list"
  | Invite_Policy_Obj invite_policy
  | Key_Policy_Obj key_policy

definition field :: "obj \<Rightarrow> string \<Rightarrow> obj option" where
  "field x name = (case x of Struct s fs \<Rightarrow> map_of fs name | _ \<Rightarrow> None)"

section \<open>The libraries\<close>

record pool_config =
  pl_DSN :: string
  pl_MaxConns :: "32 word"
  pl_MinConns :: "32 word"
  pl_MaxConnLifetime :: duration
  pl_MaxConnIdleTime :: duration

record 'c config_libs =
  cl_Unmarshal :: "koanf \<Rightarrow> string \<Rightarrow> 'c \<Rightarrow> err + 'c"
  cl_Validate :: "'c \<Rightarrow> err option"

record outside =
  o_conf :: conf_libs
  o_path :: string
  o_app :: "app_config config_libs"
  o_http :: "http_config config_libs"
  o_storage :: "storage_config config_libs"
  o_crypto :: "crypto_config config_libs"
  o_webauthn :: "webauthn_config config_libs"
  o_telemetry :: "telemetry_config config_libs"
  o_logger :: "logger_config config_libs"
  o_NewClient :: "string \<Rightarrow> dial_option list \<Rightarrow> err + nat"
  o_NewResource :: "string \<Rightarrow> string \<Rightarrow> string \<Rightarrow> err + nat"
  o_NewTraceExporter :: "nat \<Rightarrow> duration \<Rightarrow> err option"
  o_NewMetricExporter :: "nat \<Rightarrow> duration \<Rightarrow> err option"
  o_NewLogExporter :: "nat \<Rightarrow> duration \<Rightarrow> err option"
  o_StartRuntime :: "err option"
  o_ParseConfig :: "string \<Rightarrow> err + pool_config"
  o_NewDBTracer :: "string \<Rightarrow> err option"
  o_NewPool :: "pool_config \<Rightarrow> err + nat"
  o_PingPool :: "nat \<Rightarrow> err option"
  o_SymmetricKeyFromHex :: "string \<Rightarrow> err + bytes"
  o_SecretKeyFromHex :: "string \<Rightarrow> err + bytes"
  o_PublicKeyFromHex :: "string \<Rightarrow> err + bytes"
  o_Public :: "bytes \<Rightarrow> bytes"
  o_NewWebAuthn :: "rp_config \<Rightarrow> err + nat"
  o_netip :: netip
  o_error_text :: "err \<Rightarrow> string"
  o_baseServer :: "err option"

section \<open>Plans\<close>

type_synonym provider = "(svc, iface, obj) plan"

text \<open>\<open>if err != nil { return nil, fmt.Errorf("m: %w", err) }\<close>, and without a message.\<close>

definition wrapped :: "string \<Rightarrow> err \<Rightarrow> err" where
  "wrapped m e = Wrapped (m @ '': %w'') e"

definition asis :: "err \<Rightarrow> err" where
  "asis e = e"

definition Ask_For :: "(svc, iface) key \<Rightarrow> (err \<Rightarrow> err) \<Rightarrow> (obj \<Rightarrow> provider) \<Rightarrow> provider" where
  "Ask_For k w f = Ask k (\<lambda>r. case r of Inl e \<Rightarrow> Done (Inl (w e)) | Inr x \<Rightarrow> f x)"

abbreviation Invoke :: "svc \<Rightarrow> (err \<Rightarrow> err) \<Rightarrow> (obj \<Rightarrow> provider) \<Rightarrow> provider" where
  "Invoke s \<equiv> Ask_For (By_Type s)"

abbreviation InvokeAs :: "iface \<Rightarrow> (err \<Rightarrow> err) \<Rightarrow> (obj \<Rightarrow> provider) \<Rightarrow> provider" where
  "InvokeAs i \<equiv> Ask_For (By_Interface i)"

text \<open>An object of another type than the one asked for is an error of the container.\<close>

definition typed :: "'a option \<Rightarrow> ('a \<Rightarrow> provider) \<Rightarrow> provider" where
  "typed v f = (case v of None \<Rightarrow> Done (Inl ErrServiceNotFound) | Some x \<Rightarrow> f x)"

definition sum_or :: "(err \<Rightarrow> err) \<Rightarrow> err + 'a \<Rightarrow> ('a \<Rightarrow> provider) \<Rightarrow> provider" where
  "sum_or w r f = (case r of Inl e \<Rightarrow> Done (Inl (w e)) | Inr x \<Rightarrow> f x)"

definition error_or :: "(err \<Rightarrow> err) \<Rightarrow> err option \<Rightarrow> provider \<Rightarrow> provider" where
  "error_or w r p = (case r of Some e \<Rightarrow> Done (Inl (w e)) | None \<Rightarrow> p)"

definition built :: "obj \<Rightarrow> provider" where
  "built x = Done (Inr x)"

definition as_koanf :: "obj \<Rightarrow> koanf option" where
  "as_koanf x = (case x of Koanf_Obj k \<Rightarrow> Some k | _ \<Rightarrow> None)"

definition as_handle :: "obj \<Rightarrow> nat option" where
  "as_handle x = (case x of Handle n \<Rightarrow> Some n | _ \<Rightarrow> None)"

definition as_app :: "obj \<Rightarrow> app_config option" where
  "as_app x = (case x of Settings (App_Cfg c) \<Rightarrow> Some c | _ \<Rightarrow> None)"

definition as_http :: "obj \<Rightarrow> http_config option" where
  "as_http x = (case x of Settings (Http_Cfg c) \<Rightarrow> Some c | _ \<Rightarrow> None)"

definition as_storage :: "obj \<Rightarrow> storage_config option" where
  "as_storage x = (case x of Settings (Storage_Cfg c) \<Rightarrow> Some c | _ \<Rightarrow> None)"

definition as_crypto :: "obj \<Rightarrow> crypto_config option" where
  "as_crypto x = (case x of Settings (Crypto_Cfg c) \<Rightarrow> Some c | _ \<Rightarrow> None)"

definition as_webauthn :: "obj \<Rightarrow> webauthn_config option" where
  "as_webauthn x = (case x of Settings (Webauthn_Cfg c) \<Rightarrow> Some c | _ \<Rightarrow> None)"

definition as_telemetry :: "obj \<Rightarrow> telemetry_config option" where
  "as_telemetry x = (case x of Settings (Telemetry_Cfg c) \<Rightarrow> Some c | _ \<Rightarrow> None)"

definition as_logger :: "obj \<Rightarrow> logger_config option" where
  "as_logger x = (case x of Settings (Logger_Cfg c) \<Rightarrow> Some c | _ \<Rightarrow> None)"

lemmas plan_defs =
  Ask_For_def typed_def sum_or_def error_or_def built_def as_koanf_def as_handle_def as_app_def
  as_http_def as_storage_def as_crypto_def as_webauthn_def as_telemetry_def as_logger_def

definition config_plan ::
  "'c config_libs \<Rightarrow> ('c \<Rightarrow> config) \<Rightarrow> string \<Rightarrow> 'c \<Rightarrow> provider" where
  "config_plan L con key def =
     Invoke Koanf asis (\<lambda>x. typed (as_koanf x) (\<lambda>k.
     sum_or asis (GetConfig (cl_Unmarshal L) (cl_Validate L) k key def) (\<lambda>c.
     built (Settings (con c)))))"

section \<open>Telemetry\<close>

text \<open>
  \<open>conn.go\<close>: the options for the connection. The size of a message that is configured is not among
  them.
\<close>

definition CfgKeepAliveToGRPCKeepAlive :: "keepalive_config \<Rightarrow> dial_option" where
  "CfgKeepAliveToGRPCKeepAlive c = With_Keepalive (kc_Time c) (kc_Timeout c) (kc_PermitWithoutStream c)"

definition CfgBackoffToGRPCBackoff :: "backoff_config \<Rightarrow> dial_option" where
  "CfgBackoffToGRPCBackoff c =
     With_Backoff (bc_BaseDelay c) (bc_MaxDelay c) (bc_Multiplier c) (bc_Jitter c)"

definition dial_options :: "conn_config \<Rightarrow> dial_option list" where
  "dial_options c =
     [if nc_Insecure c then With_Insecure else With_TLS] @
     (if nc_Compressor c \<noteq> [] then [Use_Compressor (nc_Compressor c)] else []) @
     [CfgKeepAliveToGRPCKeepAlive (nc_KeepAlive c), CfgBackoffToGRPCBackoff (nc_Backoff c)]"

definition InitConn :: "outside \<Rightarrow> telemetry_config \<Rightarrow> err + nat" where
  "InitConn X cfg =
     (let conn_cfg = xc_Conn (tc_Exporter cfg) in
      case o_NewClient X (nc_Endpoint conn_cfg) (dial_options conn_cfg) of
        Inl e \<Rightarrow> Inl (wrapped ''failed to dial grpc server'' e) | Inr conn \<Rightarrow> Inr conn)"

definition InitResource :: "outside \<Rightarrow> telemetry_config \<Rightarrow> err + nat" where
  "InitResource X cfg =
     (case o_NewResource X (tc_ServiceName cfg) (tc_ServiceVersion cfg) (tc_Environment cfg) of
        Inl e \<Rightarrow> Inl (wrapped ''failed to create resource'' e) | Inr res \<Rightarrow> Inr res)"

definition sampler_of :: "sampler_config \<Rightarrow> sampler" where
  "sampler_of c =
     (if pc_Type c = ''never'' then Never_Sample
      else if pc_Type c = ''ratio'' then Ratio_Sample (pc_Ratio c)
      else Always_Sample)"

definition InitTracerProvider :: "outside \<Rightarrow> telemetry_config \<Rightarrow> nat \<Rightarrow> nat \<Rightarrow> err + otel_provider" where
  "InitTracerProvider X cfg res conn =
     (case o_NewTraceExporter X conn (xc_Timeout (tc_Exporter cfg)) of
        Some e \<Rightarrow> Inl (wrapped ''failed to create OTLP gRPC trace exporter'' e)
      | None \<Rightarrow> Inr (Tracer_Provider res (sampler_of (tc_Sampler cfg))))"

definition InitMeterProvider :: "outside \<Rightarrow> telemetry_config \<Rightarrow> nat \<Rightarrow> nat \<Rightarrow> err + otel_provider" where
  "InitMeterProvider X cfg res conn =
     (case o_NewMetricExporter X conn (xc_Timeout (tc_Exporter cfg)) of
        Some e \<Rightarrow> Inl (wrapped ''failed to create OTLP gRPC metric exporter'' e)
      | None \<Rightarrow> Inr (Meter_Provider res (mc_Interval (tc_Metric cfg))))"

definition InitLoggerProvider :: "outside \<Rightarrow> telemetry_config \<Rightarrow> nat \<Rightarrow> nat \<Rightarrow> err + otel_provider" where
  "InitLoggerProvider X cfg res conn =
     (case o_NewLogExporter X conn (xc_Timeout (tc_Exporter cfg)) of
        Some e \<Rightarrow> Inl (wrapped ''failed to create OTLP gRPC log exporter'' e)
      | None \<Rightarrow> Inr (Logger_Provider res))"

definition InitRuntimeMetrics :: "outside \<Rightarrow> err option" where
  "InitRuntimeMetrics X = map_option (wrapped ''failed to start runtime metrics'') (o_StartRuntime X)"

section \<open>Logger\<close>

text \<open>
  \<open>Logger\<close>: the level is read, and the writer writes to the console and to the file; the writer can
  always be closed, so the panic of \<open>Logger\<close> is not reached.
\<close>

definition LogWriter :: "file_config \<Rightarrow> obj" where
  "LogWriter cfg =
     Writers_Obj
       [Console_Writer True True True,
        Async_Writer (fc_ChannelSize cfg) (fc_Discard cfg)
          (File_Writer (fc_Name cfg) True (fc_Size cfg) 384 (fc_Backups cfg) False)]"

definition Logger_logger :: "logger_config \<Rightarrow> err + obj" where
  "Logger_logger cfg =
     (case levelWrapper (lc_Level cfg) of
        Inl e \<Rightarrow> Inl e
      | Inr level \<Rightarrow>
          Inr (Struct Slog_Logger
                 [(''Level'', Level_Obj level), (''Caller'', Int_Obj (lc_Caller cfg)),
                  (''Writer'', LogWriter (lc_File cfg))]))"

definition wrapLoggerError :: "err \<Rightarrow> err" where
  "wrapLoggerError e = Wrapped ''logger: %w'' e"

section \<open>Storage\<close>

definition NewStorage :: "outside \<Rightarrow> obj \<Rightarrow> storage_config \<Rightarrow> err + obj" where
  "NewStorage X log cfg =
     (case o_ParseConfig X (storage_DSN cfg) of
        Inl e \<Rightarrow> Inl (wrapped ''parse database config'' e)
      | Inr connCfg \<Rightarrow>
          (let connCfg' = connCfg\<lparr>pl_MaxConns := st_MaxOpenConns cfg, pl_MinConns := st_MaxIdleConns cfg,
                 pl_MaxConnLifetime := st_ConnMaxLifetime cfg,
                 pl_MaxConnIdleTime := st_ConnMaxIdleTime cfg\<rparr> in
           case o_NewDBTracer X (st_Name cfg) of
             Some e \<Rightarrow> Inl (wrapped ''create db tracer'' e)
           | None \<Rightarrow>
               (case o_NewPool X connCfg' of
                  Inl e \<Rightarrow> Inl (wrapped ''create database pool'' e)
                | Inr db \<Rightarrow>
                    (case o_PingPool X db of
                       Some e \<Rightarrow> Inl (wrapped ''ping database'' e)
                     | None \<Rightarrow> Inr (Struct Storage_Storage [(''db'', Handle db), (''log'', log)])))))"

section \<open>Constructors\<close>

definition NewCredentialRepository :: "obj \<Rightarrow> obj" where
  "NewCredentialRepository storage =
     Struct Storage_CredentialRepository
       [(''storage'', storage)]"

definition NewInviteRepository :: "obj \<Rightarrow> obj" where
  "NewInviteRepository storage =
     Struct Storage_InviteRepository
       [(''storage'', storage)]"

definition NewSessionRepository :: "obj \<Rightarrow> obj" where
  "NewSessionRepository storage =
     Struct Storage_SessionRepository
       [(''storage'', storage)]"

definition NewUserRepository :: "obj \<Rightarrow> obj" where
  "NewUserRepository storage =
     Struct Storage_UserRepository
       [(''storage'', storage)]"

definition NewWrappedKeyRepository :: "obj \<Rightarrow> obj" where
  "NewWrappedKeyRepository storage =
     Struct Storage_WrappedKeyRepository
       [(''storage'', storage)]"

definition NewSecretManager :: "bytes \<Rightarrow> obj" where
  "NewSecretManager secretKey =
     Struct Crypto_SecretManager
       [(''secretKey'', Bytes_Obj secretKey)]"

definition NewTokenCodec :: "bytes \<Rightarrow> obj" where
  "NewTokenCodec privateKey =
     Struct Crypto_TokenCodec
       [(''privateKey'', Bytes_Obj privateKey)]"

definition NewAccessTokenIssuer :: "bytes \<Rightarrow> obj" where
  "NewAccessTokenIssuer secretKey =
     Struct Crypto_AccessTokenIssuer
       [(''secretKey'', Bytes_Obj secretKey)]"

definition NewAccessTokenVerifier :: "bytes \<Rightarrow> obj" where
  "NewAccessTokenVerifier publicKey =
     Struct Crypto_AccessTokenVerifier
       [(''publicKey'', Bytes_Obj publicKey)]"

definition NewAuthenticator :: "obj \<Rightarrow> obj \<Rightarrow> obj \<Rightarrow> obj \<Rightarrow> duration \<Rightarrow> obj" where
  "NewAuthenticator log wa challenge credentials' ttl =
     Struct Webauthn_Authenticator
       [(''log'', log), (''wa'', wa), (''challenge'', challenge),
       (''credentials'', credentials'), (''ttl'', Duration_Obj ttl)]"

definition NewRegistrator :: "obj \<Rightarrow> obj \<Rightarrow> obj \<Rightarrow> duration \<Rightarrow> obj" where
  "NewRegistrator log wa challenge ttl =
     Struct Webauthn_Registrator
       [(''log'', log), (''wa'', wa), (''challenge'', challenge), (''ttl'', Duration_Obj ttl)]"

definition NewCreateInvite :: "obj \<Rightarrow> obj \<Rightarrow> obj \<Rightarrow> obj \<Rightarrow> obj \<Rightarrow> invite_policy \<Rightarrow> obj \<Rightarrow> duration \<Rightarrow> obj" where
  "NewCreateInvite log invites' counter tokens ids policy transactor' ttl =
     Struct App_CreateInvite
       [(''log'', log), (''invites'', invites'), (''counter'', counter), (''tokens'', tokens),
       (''ids'', ids), (''policy'', Invite_Policy_Obj policy), (''transactor'', transactor'),
       (''ttl'', Duration_Obj ttl)]"

definition NewBeginInviteRegistration :: "obj \<Rightarrow> obj \<Rightarrow> obj \<Rightarrow> obj \<Rightarrow> obj \<Rightarrow> obj" where
  "NewBeginInviteRegistration log invites' ids registrator hash' =
     Struct App_BeginInviteRegistration
       [(''log'', log), (''invites'', invites'), (''ids'', ids), (''registrator'', registrator),
       (''hash'', hash')]"

definition NewFinishInviteRegistration :: "obj \<Rightarrow> obj \<Rightarrow> obj \<Rightarrow> obj \<Rightarrow> obj \<Rightarrow> obj \<Rightarrow> obj \<Rightarrow> obj \<Rightarrow> obj \<Rightarrow> obj \<Rightarrow> obj \<Rightarrow> key_policy \<Rightarrow> obj" where
  "NewFinishInviteRegistration log inviteFinder inviteSaver userFinder userSaver credentials' keys' sessionIssuer registrator ids transactor' keyPolicy =
     Struct App_FinishInviteRegistration
       [(''log'', log), (''inviteFinder'', inviteFinder), (''inviteSaver'', inviteSaver),
       (''userFinder'', userFinder), (''userSaver'', userSaver),
       (''credentials'', credentials'), (''keys'', keys'), (''sessionIssuer'', sessionIssuer),
       (''registrator'', registrator), (''ids'', ids), (''transactor'', transactor'),
       (''keyPolicy'', Key_Policy_Obj keyPolicy)]"

definition NewSessionIssuer :: "obj \<Rightarrow> obj \<Rightarrow> obj \<Rightarrow> obj \<Rightarrow> obj \<Rightarrow> obj \<Rightarrow> obj \<Rightarrow> duration \<Rightarrow> duration \<Rightarrow> obj" where
  "NewSessionIssuer log sessions' refreshTokens accessTokens ids users' transactor' refreshTTL accessTTL =
     Struct App_SessionIssuer
       [(''log'', log), (''sessions'', sessions'), (''refreshTokens'', refreshTokens),
       (''accessTokens'', accessTokens), (''ids'', ids), (''users'', users'),
       (''transactor'', transactor'), (''refreshTTL'', Duration_Obj refreshTTL),
       (''accessTTL'', Duration_Obj accessTTL)]"

definition NewBeginLogin :: "obj \<Rightarrow> obj \<Rightarrow> obj" where
  "NewBeginLogin log authenticator =
     Struct App_BeginLogin
       [(''log'', log), (''authenticator'', authenticator)]"

definition NewLogin :: "obj \<Rightarrow> obj \<Rightarrow> obj \<Rightarrow> obj \<Rightarrow> obj \<Rightarrow> obj \<Rightarrow> obj \<Rightarrow> obj \<Rightarrow> obj" where
  "NewLogin log credentials' credentialSaver wrappedKeys authenticator sessionIssuer revokeUser transactor' =
     Struct App_Login
       [(''log'', log), (''credentials'', credentials'), (''credentialSaver'', credentialSaver),
       (''wrappedKeys'', wrappedKeys), (''authenticator'', authenticator),
       (''sessionIssuer'', sessionIssuer), (''revokeUser'', revokeUser),
       (''transactor'', transactor')]"

definition NewRefreshAccessToken :: "obj \<Rightarrow> obj \<Rightarrow> obj \<Rightarrow> obj \<Rightarrow> obj \<Rightarrow> obj \<Rightarrow> obj" where
  "NewRefreshAccessToken log sessions' revokeUser sessionIssuer hasher transactor' =
     Struct App_RefreshAccessToken
       [(''log'', log), (''sessions'', sessions'), (''revokeUser'', revokeUser),
       (''sessionIssuer'', sessionIssuer), (''hasher'', hasher), (''transactor'', transactor')]"

definition NewRevokeAllUserSessions :: "obj \<Rightarrow> obj \<Rightarrow> obj \<Rightarrow> obj \<Rightarrow> obj" where
  "NewRevokeAllUserSessions log sessions' saver transactor' =
     Struct App_RevokeAllUserSessions
       [(''log'', log), (''sessions'', sessions'), (''saver'', saver),
       (''transactor'', transactor')]"

definition NewRevokeSession :: "obj \<Rightarrow> obj \<Rightarrow> obj \<Rightarrow> obj \<Rightarrow> obj" where
  "NewRevokeSession log sessions' saver transactor' =
     Struct App_RevokeSession
       [(''log'', log), (''sessions'', sessions'), (''saver'', saver),
       (''transactor'', transactor')]"

definition NewRevokeCompromisedChain :: "obj \<Rightarrow> obj \<Rightarrow> obj \<Rightarrow> obj" where
  "NewRevokeCompromisedChain log descendants revokeUser =
     Struct App_RevokeCompromisedChain
       [(''log'', log), (''descendants'', descendants), (''revokeUser'', revokeUser)]"

definition NewBootstrapRoot :: "obj \<Rightarrow> obj \<Rightarrow> obj \<Rightarrow> obj \<Rightarrow> obj" where
  "NewBootstrapRoot log users' finder' ids =
     Struct App_BootstrapRoot
       [(''log'', log), (''users'', users'), (''finder'', finder'), (''ids'', ids)]"

definition NewSecurityHandler :: "obj \<Rightarrow> obj \<Rightarrow> obj" where
  "NewSecurityHandler log verifier =
     Struct Http_SecurityHandler
       [(''log'', log), (''verifier'', verifier)]"

text \<open>The registries of errors that the handler holds besides are constants of the model.\<close>

definition NewHandler :: "obj \<Rightarrow> obj \<Rightarrow> obj \<Rightarrow> obj \<Rightarrow> obj \<Rightarrow> obj \<Rightarrow> obj \<Rightarrow> obj \<Rightarrow> obj \<Rightarrow> obj" where
  "NewHandler log createInvite beginLogin login beginRegistration finishRegistration refreshAccessToken revokeCompromisedChain revokeSession =
     Struct Http_Handler
       [(''log'', log), (''createInvite'', createInvite), (''beginLogin'', beginLogin),
       (''login'', login), (''beginRegistration'', beginRegistration),
       (''finishRegistration'', finishRegistration),
       (''refreshAccessToken'', refreshAccessToken),
       (''revokeCompromisedChain'', revokeCompromisedChain), (''revokeSession'', revokeSession)]"

definition NewServer :: "string \<Rightarrow> duration \<Rightarrow> duration \<Rightarrow> duration \<Rightarrow> duration \<Rightarrow> int \<Rightarrow> obj \<Rightarrow> obj" where
  "NewServer addr readTimeout readHeaderTimeout writeTimeout idleTimeout maxHeaderBytes handler =
     Struct Http_Server
       [(''Addr'', Text_Obj addr), (''ReadTimeout'', Duration_Obj readTimeout),
       (''ReadHeaderTimeout'', Duration_Obj readHeaderTimeout),
       (''WriteTimeout'', Duration_Obj writeTimeout),
       (''IdleTimeout'', Duration_Obj idleTimeout),
       (''MaxHeaderBytes'', Int_Obj maxHeaderBytes), (''Handler'', handler)]"

text \<open>
  \<open>NewRouter\<close>: the middleware in the order of the calls of \<open>Use\<close>, in front of the generated server.
\<close>

definition NewRouter ::
  "outside \<Rightarrow> obj \<Rightarrow> obj \<Rightarrow> obj \<Rightarrow> 64 word \<Rightarrow> string list \<Rightarrow> string list \<Rightarrow> err + obj" where
  "NewRouter X logger h secHandler requestSizeLimit trustedProxies allowedOrigins =
     (case parseCIDRList (o_error_text X) (o_netip X) trustedProxies of
        Inl e \<Rightarrow> Inl e
      | Inr trusted \<Rightarrow>
          (case o_baseServer X of
             Some e \<Rightarrow> Inl (wrapped ''failed to init ogen server'' e)
           | None \<Rightarrow>
               Inr (Struct Http_Router
                 [(''Recoverer'', Nil_Obj), (''RequestID'', Nil_Obj), (''ClientIP'', Prefixes_Obj trusted),
                  (''Logger'', Nil_Obj), (''RequestSize'', Int_Obj (sint requestSizeLimit)),
                  (''cors'', Texts_Obj allowedOrigins), (''h'', h), (''sec'', secHandler)])))"

section \<open>The functions that build the services\<close>

definition newPooledGenerator :: "outside \<Rightarrow> provider" where
  "newPooledGenerator X = built (Struct PooledGenerator [])"

definition newConn :: "outside \<Rightarrow> provider" where
  "newConn X =
     Invoke Telemetry_Config asis (\<lambda>x1. typed (as_telemetry x1) (\<lambda>cfg.
     sum_or asis (InitConn X cfg) (\<lambda>conn. built (Handle conn))))"

definition Telemetry_newConfig :: "outside \<Rightarrow> provider" where
  "Telemetry_newConfig X = config_plan (o_telemetry X) Telemetry_Cfg ''telemetry'' telemetry_defaultCfg"

definition newResource :: "outside \<Rightarrow> provider" where
  "newResource X =
     Invoke Telemetry_Config asis (\<lambda>x1. typed (as_telemetry x1) (\<lambda>cfg.
     Invoke Context asis (\<lambda>ctx.
     sum_or asis (InitResource X cfg) (\<lambda>res. built (Handle res)))))"

definition newTelemetry :: "outside \<Rightarrow> provider" where
  "newTelemetry X =
     Invoke Telemetry_Config asis (\<lambda>x1. typed (as_telemetry x1) (\<lambda>cfg.
     if \<not> tc_Enabled cfg then built Nil_Obj
     else
       Invoke Context asis (\<lambda>ctx.
       Invoke Otel_Resource asis (\<lambda>x2. typed (as_handle x2) (\<lambda>res.
       Invoke Grpc_Conn asis (\<lambda>x3. typed (as_handle x3) (\<lambda>conn.
       sum_or (wrapped ''failed to init tracer provider'') (InitTracerProvider X cfg res conn) (\<lambda>tp.
       sum_or (wrapped ''failed to init meter provider'') (InitMeterProvider X cfg res conn) (\<lambda>mp.
       sum_or (wrapped ''failed to init logger provider'') (InitLoggerProvider X cfg res conn) (\<lambda>lp.
       error_or asis (InitRuntimeMetrics X)
         (built (Struct Telemetry_Service
           [(''tp'', Otel_Obj tp), (''mp'', Otel_Obj mp), (''lp'', Otel_Obj lp),
            (''conn'', Handle conn)]))))))))))))"

definition Logger_newConfig :: "outside \<Rightarrow> provider" where
  "Logger_newConfig X = config_plan (o_logger X) Logger_Cfg ''logger'' logger_defaultCfg"

definition newService :: "outside \<Rightarrow> provider" where
  "newService X =
     Invoke Logger_Config asis (\<lambda>x1. typed (as_logger x1) (\<lambda>cfg.
     sum_or wrapLoggerError (Logger_logger cfg) (\<lambda>log.
     built (Struct Logger_Service [(''logger'', log), (''closer'', LogWriter (lc_File cfg))]))))"

definition newSlogLogger :: "outside \<Rightarrow> provider" where
  "newSlogLogger X =
     Invoke Logger_Service asis (\<lambda>svc.
     typed (field svc ''logger'') built)"

definition Storage_newConfig :: "outside \<Rightarrow> provider" where
  "Storage_newConfig X = config_plan (o_storage X) Storage_Cfg ''storage'' storage_defaultCfg"

definition newStorage :: "outside \<Rightarrow> provider" where
  "newStorage X =
     Invoke Slog_Logger asis (\<lambda>log.
     Invoke Storage_Config asis (\<lambda>x1. typed (as_storage x1) (\<lambda>cfg.
     Invoke Context asis (\<lambda>ctx.
     sum_or asis (NewStorage X log cfg) built))))"

definition newCredentialRepository :: "outside \<Rightarrow> provider" where
  "newCredentialRepository X =
     Invoke Storage_Storage asis (\<lambda>storage.
     built (NewCredentialRepository storage))"

definition newInviteRepository :: "outside \<Rightarrow> provider" where
  "newInviteRepository X =
     Invoke Storage_Storage asis (\<lambda>storage.
     built (NewInviteRepository storage))"

definition newSessionRepository :: "outside \<Rightarrow> provider" where
  "newSessionRepository X =
     Invoke Storage_Storage asis (\<lambda>storage.
     built (NewSessionRepository storage))"

definition newUserRepository :: "outside \<Rightarrow> provider" where
  "newUserRepository X =
     Invoke Storage_Storage asis (\<lambda>storage.
     built (NewUserRepository storage))"

definition newWrappedKeyRepository :: "outside \<Rightarrow> provider" where
  "newWrappedKeyRepository X =
     Invoke Storage_Storage asis (\<lambda>storage.
     built (NewWrappedKeyRepository storage))"

definition Crypto_newConfig :: "outside \<Rightarrow> provider" where
  "Crypto_newConfig X = config_plan (o_crypto X) Crypto_Cfg ''crypto'' crypto_defaultCfg"

definition newSecretManager :: "outside \<Rightarrow> provider" where
  "newSecretManager X =
     Invoke Crypto_Config (wrapped ''crypto: invoke config'') (\<lambda>x1. typed (as_crypto x1) (\<lambda>cfg.
     built (NewSecretManager (stringToBytes (cc_HMACSecret cfg)))))"

definition newTokenCodec :: "outside \<Rightarrow> provider" where
  "newTokenCodec X =
     Invoke Crypto_Config (wrapped ''crypto: invoke config'') (\<lambda>x1. typed (as_crypto x1) (\<lambda>cfg.
     sum_or (wrapped ''crypto: parse paseto symmetric key'')
       (o_SymmetricKeyFromHex X (pc_SymmetricKey (cc_PASETO cfg))) (\<lambda>symKey.
     built (NewTokenCodec symKey))))"

definition newAccessTokenIssuer :: "outside \<Rightarrow> provider" where
  "newAccessTokenIssuer X =
     Invoke Crypto_Config (wrapped ''crypto: invoke config'') (\<lambda>x1. typed (as_crypto x1) (\<lambda>cfg.
     sum_or (wrapped ''crypto: parse paseto secret key'')
       (o_SecretKeyFromHex X (pc_SecretKey (cc_PASETO cfg))) (\<lambda>secretKey.
     built (NewAccessTokenIssuer secretKey))))"

definition newAccessTokenVerifier :: "outside \<Rightarrow> provider" where
  "newAccessTokenVerifier X =
     Invoke Crypto_Config (wrapped ''crypto: invoke config'') (\<lambda>x1. typed (as_crypto x1) (\<lambda>cfg.
     if pc_PublicKey (cc_PASETO cfg) \<noteq> [] then
       sum_or (wrapped ''crypto: parse paseto public key'')
         (o_PublicKeyFromHex X (pc_PublicKey (cc_PASETO cfg))) (\<lambda>pubKey.
       built (NewAccessTokenVerifier pubKey))
     else
       sum_or (wrapped ''crypto: derive paseto public key from secret key'')
         (o_SecretKeyFromHex X (pc_SecretKey (cc_PASETO cfg))) (\<lambda>secretKey.
       built (NewAccessTokenVerifier (o_Public X secretKey)))))"

definition Webauthn_newConfig :: "outside \<Rightarrow> provider" where
  "Webauthn_newConfig X = config_plan (o_webauthn X) Webauthn_Cfg ''webauthn'' webauthn_defaultCfg"

definition newWebAuthn :: "outside \<Rightarrow> provider" where
  "newWebAuthn X =
     Invoke Webauthn_Config (wrapped ''webauthnadapter: invoke config'') (\<lambda>x1. typed (as_webauthn x1) (\<lambda>cfg.
     sum_or (wrapped ''webauthnadapter: init go-webauthn'') (o_NewWebAuthn X (wc_RP cfg)) (\<lambda>wa.
     built (Handle wa))))"

definition newAuthenticator :: "outside \<Rightarrow> provider" where
  "newAuthenticator X =
     Invoke Slog_Logger (wrapped ''webauthnadapter: invoke logger'') (\<lambda>log.
     Invoke Go_WebAuthn (wrapped ''webauthnadapter: invoke webauthn'') (\<lambda>wa.
     InvokeAs Webauthn_I_ChallengeCodec (wrapped ''webauthnadapter: invoke challenge codec'') (\<lambda>challenge.
     InvokeAs Webauthn_I_CredentialsProvider (wrapped ''webauthnadapter: invoke credentials provider'') (\<lambda>creds.
     Invoke Webauthn_Config (wrapped ''webauthnadapter: invoke config'') (\<lambda>x1. typed (as_webauthn x1) (\<lambda>cfg.
     built (NewAuthenticator log wa challenge creds (wc_ChallengeTTL cfg))))))))"

definition newRegistrator :: "outside \<Rightarrow> provider" where
  "newRegistrator X =
     Invoke Slog_Logger (wrapped ''webauthnadapter: invoke logger'') (\<lambda>log.
     Invoke Go_WebAuthn (wrapped ''webauthnadapter: invoke webauthn'') (\<lambda>wa.
     InvokeAs Webauthn_I_ChallengeCodec (wrapped ''webauthnadapter: invoke challenge codec'') (\<lambda>challenge.
     Invoke Webauthn_Config (wrapped ''webauthnadapter: invoke config'') (\<lambda>x1. typed (as_webauthn x1) (\<lambda>cfg.
     built (NewRegistrator log wa challenge (wc_ChallengeTTL cfg)))))))"

definition App_newConfig :: "outside \<Rightarrow> provider" where
  "App_newConfig X = config_plan (o_app X) App_Cfg ''app'' app_defaultCfg"

definition newCreateInvite :: "outside \<Rightarrow> provider" where
  "newCreateInvite X =
     Invoke Slog_Logger asis (\<lambda>log.
     InvokeAs App_I_InviteSaver asis (\<lambda>invites.
     InvokeAs App_I_ActiveInviteCounter asis (\<lambda>counter.
     InvokeAs App_I_TokenGenerator asis (\<lambda>tokens.
     InvokeAs App_I_IDGenerator asis (\<lambda>ids.
     InvokeAs App_I_Transactor asis (\<lambda>transactor.
     Invoke App_Config asis (\<lambda>x1. typed (as_app x1) (\<lambda>cfg.
     built (NewCreateInvite log invites counter tokens ids
       (invite_NewPolicy (ic_MaxActive (ac_Invite cfg))) transactor (ic_TTL (ac_Invite cfg)))))))))))"

definition newRootCreateInvite :: "outside \<Rightarrow> provider" where
  "newRootCreateInvite X =
     Invoke Slog_Logger asis (\<lambda>log.
     InvokeAs App_I_InviteSaver asis (\<lambda>invites.
     InvokeAs App_I_ActiveInviteCounter asis (\<lambda>counter.
     InvokeAs App_I_TokenGenerator asis (\<lambda>tokens.
     InvokeAs App_I_IDGenerator asis (\<lambda>ids.
     InvokeAs App_I_Transactor asis (\<lambda>transactor.
     Invoke App_Config asis (\<lambda>x1. typed (as_app x1) (\<lambda>cfg.
     built (Struct App_RootCreateInvite [(''CreateInvite'',
       NewCreateInvite log invites counter tokens ids NewUnlimitedPolicy transactor
         (ic_RootTTL (ac_Invite cfg)))])))))))))"

definition newBeginInviteRegistration :: "outside \<Rightarrow> provider" where
  "newBeginInviteRegistration X =
     Invoke Slog_Logger asis (\<lambda>log.
     InvokeAs App_I_InviteFinderByCode asis (\<lambda>invites.
     InvokeAs App_I_IDGenerator asis (\<lambda>ids.
     InvokeAs App_I_Registrator asis (\<lambda>registrator.
     InvokeAs App_I_HashGenerator asis (\<lambda>hash.
     built (NewBeginInviteRegistration log invites ids registrator hash))))))"

definition newFinishInviteRegistration :: "outside \<Rightarrow> provider" where
  "newFinishInviteRegistration X =
     Invoke Slog_Logger asis (\<lambda>log.
     InvokeAs App_I_InviteFinderByID asis (\<lambda>invitesFinder.
     InvokeAs App_I_InviteSaver asis (\<lambda>inviteSaver.
     InvokeAs App_I_UserFinderByID asis (\<lambda>userFinder.
     InvokeAs App_I_UserSaver asis (\<lambda>userSaver.
     InvokeAs App_I_CredentialSaver asis (\<lambda>credentials.
     InvokeAs App_I_WrappedKeySaver asis (\<lambda>keys.
     Invoke App_SessionIssuer asis (\<lambda>sessionIssuer.
     InvokeAs App_I_Registrator asis (\<lambda>registrator.
     InvokeAs App_I_IDGenerator asis (\<lambda>ids.
     InvokeAs App_I_Transactor asis (\<lambda>transactor.
     Invoke App_Config asis (\<lambda>x1. typed (as_app x1) (\<lambda>cfg.
     built (NewFinishInviteRegistration log invitesFinder inviteSaver userFinder userSaver
       credentials keys sessionIssuer registrator ids transactor
       (key_NewPolicy (ic_MaxWrappedKey (ac_Invite cfg)))))))))))))))))"

definition newSessionIssuer :: "outside \<Rightarrow> provider" where
  "newSessionIssuer X =
     Invoke Slog_Logger asis (\<lambda>log.
     InvokeAs App_I_RefreshTokenSaver asis (\<lambda>sessions.
     InvokeAs App_I_TokenGenerator asis (\<lambda>refreshTokens.
     InvokeAs App_I_TokenIssuer asis (\<lambda>accessTokens.
     InvokeAs App_I_IDGenerator asis (\<lambda>ids.
     InvokeAs App_I_UserFinderByID asis (\<lambda>users.
     InvokeAs App_I_Transactor asis (\<lambda>transactor.
     Invoke App_Config asis (\<lambda>x1. typed (as_app x1) (\<lambda>cfg.
     built (NewSessionIssuer log sessions refreshTokens accessTokens ids users transactor
       (sc_RefreshTTL (ac_Session cfg)) (sc_AccessTTL (ac_Session cfg))))))))))))"

definition newBeginLogin :: "outside \<Rightarrow> provider" where
  "newBeginLogin X =
     Invoke Slog_Logger asis (\<lambda>log.
     InvokeAs App_I_Authenticator asis (\<lambda>authenticator.
     built (NewBeginLogin log authenticator)))"

definition newLogin :: "outside \<Rightarrow> provider" where
  "newLogin X =
     Invoke Slog_Logger asis (\<lambda>log.
     InvokeAs App_I_CredentialFinder asis (\<lambda>credentials.
     InvokeAs App_I_CredentialSaver asis (\<lambda>credentialSaver.
     InvokeAs App_I_CredentialWrappedKeysFinder asis (\<lambda>wrappedKeys.
     InvokeAs App_I_Authenticator asis (\<lambda>authenticator.
     Invoke App_SessionIssuer asis (\<lambda>sessionIssuer.
     Invoke App_RevokeAllUserSessions asis (\<lambda>revokeUser.
     InvokeAs App_I_Transactor asis (\<lambda>transactor.
     built (NewLogin log credentials credentialSaver wrappedKeys authenticator sessionIssuer revokeUser transactor)))))))))"

definition newRefreshAccessToken :: "outside \<Rightarrow> provider" where
  "newRefreshAccessToken X =
     Invoke Slog_Logger asis (\<lambda>log.
     InvokeAs App_I_RefreshTokenFinder asis (\<lambda>sessions.
     Invoke App_RevokeAllUserSessions asis (\<lambda>revokeUser.
     Invoke App_SessionIssuer asis (\<lambda>sessionIssuer.
     InvokeAs App_I_HashGenerator asis (\<lambda>hasher.
     InvokeAs App_I_Transactor asis (\<lambda>transactor.
     built (NewRefreshAccessToken log sessions revokeUser sessionIssuer hasher transactor)))))))"

definition newRevokeAllUserSessions :: "outside \<Rightarrow> provider" where
  "newRevokeAllUserSessions X =
     Invoke Slog_Logger asis (\<lambda>log.
     InvokeAs App_I_ActiveSessionsFinder asis (\<lambda>sessions.
     InvokeAs App_I_RefreshTokenSaver asis (\<lambda>saver.
     InvokeAs App_I_Transactor asis (\<lambda>transactor.
     built (NewRevokeAllUserSessions log sessions saver transactor)))))"

definition newRevokeSession :: "outside \<Rightarrow> provider" where
  "newRevokeSession X =
     Invoke Slog_Logger asis (\<lambda>log.
     InvokeAs App_I_RefreshTokenFinderByID asis (\<lambda>sessions.
     InvokeAs App_I_RefreshTokenSaver asis (\<lambda>saver.
     InvokeAs App_I_Transactor asis (\<lambda>transactor.
     built (NewRevokeSession log sessions saver transactor)))))"

definition newRevokeCompromisedChain :: "outside \<Rightarrow> provider" where
  "newRevokeCompromisedChain X =
     Invoke Slog_Logger asis (\<lambda>log.
     InvokeAs App_I_UserDescendantsFinder asis (\<lambda>descendants.
     Invoke App_RevokeAllUserSessions asis (\<lambda>revokeUser.
     built (NewRevokeCompromisedChain log descendants revokeUser))))"

definition newBootstrapRoot :: "outside \<Rightarrow> provider" where
  "newBootstrapRoot X =
     Invoke Slog_Logger asis (\<lambda>log.
     InvokeAs App_I_UserSaver asis (\<lambda>users.
     InvokeAs App_I_RootFinder asis (\<lambda>finder.
     InvokeAs App_I_IDGenerator asis (\<lambda>ids.
     built (NewBootstrapRoot log users finder ids)))))"

definition Http_newConfig :: "outside \<Rightarrow> provider" where
  "Http_newConfig X = config_plan (o_http X) Http_Cfg ''http'' http_defaultCfg"

text \<open>
  The source asks for the verifier with \<open>InvokeAs\<close> at its own type, which is no interface and which
  no other service can be cast to; that is \<open>Invoke\<close>.
\<close>

definition newSecurityHandler :: "outside \<Rightarrow> provider" where
  "newSecurityHandler X =
     Invoke Slog_Logger (wrapped ''http: invoke logger'') (\<lambda>logger.
     Invoke Crypto_AccessTokenVerifier (wrapped ''http: invoke AccessTokenVerifier'') (\<lambda>verifier.
     built (NewSecurityHandler logger verifier)))"

definition newHandler :: "outside \<Rightarrow> provider" where
  "newHandler X =
     Invoke Slog_Logger (wrapped ''http: invoke logger'') (\<lambda>logger.
     InvokeAs Http_I_CreateInvite (wrapped ''http: invoke CreateInvite'') (\<lambda>createInvite.
     InvokeAs Http_I_BeginLogin (wrapped ''http: invoke BeginLogin'') (\<lambda>beginLogin.
     InvokeAs Http_I_FinishLogin (wrapped ''http: invoke FinishLogin'') (\<lambda>login.
     InvokeAs Http_I_BeginInviteRegistration (wrapped ''http: invoke BeginInviteRegistration'') (\<lambda>beginRegistration.
     InvokeAs Http_I_FinishInviteRegistration (wrapped ''http: invoke FinishInviteRegistration'') (\<lambda>finishRegistration.
     InvokeAs Http_I_RefreshAccessToken (wrapped ''http: invoke RefreshAccessToken'') (\<lambda>refreshAccessToken.
     InvokeAs Http_I_RevokeCompromisedChain (wrapped ''http: invoke RevokeCompromisedChain'') (\<lambda>revokeCompromisedChain.
     InvokeAs Http_I_RevokeSession (wrapped ''http: invoke RevokeSession'') (\<lambda>revokeSession.
     built (NewHandler logger createInvite beginLogin login beginRegistration finishRegistration refreshAccessToken revokeCompromisedChain revokeSession))))))))))"

definition newRouter :: "outside \<Rightarrow> provider" where
  "newRouter X =
     Invoke Slog_Logger (wrapped ''http: invoke logger'') (\<lambda>logger.
     Invoke Http_Handler (wrapped ''http: invoke Handler'') (\<lambda>h.
     InvokeAs Http_I_SecurityHandler (wrapped ''http: invoke SecurityHandler'') (\<lambda>secHandler.
     Invoke Http_Config (wrapped ''http: invoke config'') (\<lambda>x1. typed (as_http x1) (\<lambda>cfg.
     sum_or (wrapped ''http: init router'')
       (NewRouter X logger h secHandler (hc_RequestSizeLimit cfg) (hc_TrustedProxies cfg)
         (hc_AllowedOrigins cfg)) built)))))"

definition newServer :: "outside \<Rightarrow> provider" where
  "newServer X =
     Invoke Http_Config (wrapped ''http: invoke config'') (\<lambda>x1. typed (as_http x1) (\<lambda>cfg.
     Invoke Http_Router (wrapped ''http: invoke router'') (\<lambda>router.
     built (NewServer (http_HostPort cfg) (hc_ReadTimeout cfg) (hc_ReadHeaderTimeout cfg)
       (hc_WriteTimeout cfg) (hc_IdleTimeout cfg) (hc_MaxHeaderBytes cfg) router))))"

lemmas provider_defs =
  newPooledGenerator_def newConn_def Telemetry_newConfig_def newResource_def newTelemetry_def
  Logger_newConfig_def newService_def newSlogLogger_def Storage_newConfig_def newStorage_def
  newCredentialRepository_def newInviteRepository_def newSessionRepository_def
  newUserRepository_def newWrappedKeyRepository_def Crypto_newConfig_def newSecretManager_def
  newTokenCodec_def newAccessTokenIssuer_def newAccessTokenVerifier_def Webauthn_newConfig_def
  newWebAuthn_def newAuthenticator_def newRegistrator_def App_newConfig_def newCreateInvite_def
  newRootCreateInvite_def newBeginInviteRegistration_def newFinishInviteRegistration_def
  newSessionIssuer_def newBeginLogin_def newLogin_def newRefreshAccessToken_def
  newRevokeAllUserSessions_def newRevokeSession_def newRevokeCompromisedChain_def
  newBootstrapRoot_def Http_newConfig_def newSecurityHandler_def newHandler_def newRouter_def
  newServer_def

section \<open>The container\<close>

text \<open>\<open>do.Lazy\<close> of each package, and the context that is provided as a value.\<close>

definition provider_of :: "outside \<Rightarrow> svc \<Rightarrow> provider" where
  "provider_of X s =
     (case s of
        Context \<Rightarrow> built (Struct Context [])
      | Koanf \<Rightarrow> sum_or asis (NewKoanf (o_conf X) (o_path X)) (\<lambda>k. built (Koanf_Obj k))
      | PooledGenerator \<Rightarrow> newPooledGenerator X
      | Grpc_Conn \<Rightarrow> newConn X
      | Telemetry_Config \<Rightarrow> Telemetry_newConfig X
      | Otel_Resource \<Rightarrow> newResource X
      | Telemetry_Service \<Rightarrow> newTelemetry X
      | Logger_Config \<Rightarrow> Logger_newConfig X
      | Logger_Service \<Rightarrow> newService X
      | Slog_Logger \<Rightarrow> newSlogLogger X
      | Storage_Config \<Rightarrow> Storage_newConfig X
      | Storage_Storage \<Rightarrow> newStorage X
      | Storage_CredentialRepository \<Rightarrow> newCredentialRepository X
      | Storage_InviteRepository \<Rightarrow> newInviteRepository X
      | Storage_SessionRepository \<Rightarrow> newSessionRepository X
      | Storage_UserRepository \<Rightarrow> newUserRepository X
      | Storage_WrappedKeyRepository \<Rightarrow> newWrappedKeyRepository X
      | Crypto_Config \<Rightarrow> Crypto_newConfig X
      | Crypto_SecretManager \<Rightarrow> newSecretManager X
      | Crypto_TokenCodec \<Rightarrow> newTokenCodec X
      | Crypto_AccessTokenIssuer \<Rightarrow> newAccessTokenIssuer X
      | Crypto_AccessTokenVerifier \<Rightarrow> newAccessTokenVerifier X
      | Webauthn_Config \<Rightarrow> Webauthn_newConfig X
      | Go_WebAuthn \<Rightarrow> newWebAuthn X
      | Webauthn_Authenticator \<Rightarrow> newAuthenticator X
      | Webauthn_Registrator \<Rightarrow> newRegistrator X
      | App_Config \<Rightarrow> App_newConfig X
      | App_CreateInvite \<Rightarrow> newCreateInvite X
      | App_RootCreateInvite \<Rightarrow> newRootCreateInvite X
      | App_BeginInviteRegistration \<Rightarrow> newBeginInviteRegistration X
      | App_FinishInviteRegistration \<Rightarrow> newFinishInviteRegistration X
      | App_SessionIssuer \<Rightarrow> newSessionIssuer X
      | App_BeginLogin \<Rightarrow> newBeginLogin X
      | App_Login \<Rightarrow> newLogin X
      | App_RefreshAccessToken \<Rightarrow> newRefreshAccessToken X
      | App_RevokeAllUserSessions \<Rightarrow> newRevokeAllUserSessions X
      | App_RevokeSession \<Rightarrow> newRevokeSession X
      | App_RevokeCompromisedChain \<Rightarrow> newRevokeCompromisedChain X
      | App_BootstrapRoot \<Rightarrow> newBootstrapRoot X
      | Http_Config \<Rightarrow> Http_newConfig X
      | Http_SecurityHandler \<Rightarrow> newSecurityHandler X
      | Http_Handler \<Rightarrow> newHandler X
      | Http_Router \<Rightarrow> newRouter X
      | Http_Server \<Rightarrow> newServer X)"

definition container :: "outside \<Rightarrow> (svc \<Rightarrow> method_sig list) \<Rightarrow> (iface \<Rightarrow> svc) \<Rightarrow> (svc, iface, obj) injector" where
  "container X foreign choice =
     \<lparr>in_provider = (\<lambda>s. if s \<in> set registered then Some (provider_of X s) else None),
      in_candidates = implementers foreign,
      in_choose = choice\<rparr>"

lemma container_sel [simp]:
  "in_provider (container X foreign choice) s =
     (if s \<in> set registered then Some (provider_of X s) else None)"
  "in_candidates (container X foreign choice) = implementers foreign"
  "in_choose (container X foreign choice) = choice"
  by (simp_all add: container_def)

lemma all_registered [simp]: "s \<in> set registered"
  by (cases s) (simp_all add: package_defs)

end
