(* ===== verification/Wiring_Facts.thy ===== *)
theory Wiring_Facts
  imports Wiring
begin

text \<open>
  The objects that the container holds when the libraries give it what it asks them for, and that it
  builds every one of them: no service is missing, none needs itself, and none is built twice.
\<close>

section \<open>What is read\<close>

abbreviation read_config :: "outside \<Rightarrow> 'c config_libs \<Rightarrow> koanf \<Rightarrow> string \<Rightarrow> 'c \<Rightarrow> err + 'c" where
  "read_config X L k key def \<equiv> GetConfig (cl_Unmarshal L) (cl_Validate L) k key def"

definition the_koanf :: "outside \<Rightarrow> koanf" where
  "the_koanf X = projr (NewKoanf (o_conf X) (o_path X))"

definition the_app :: "outside \<Rightarrow> app_config" where
  "the_app X = projr (read_config X (o_app X) (the_koanf X) ''app'' app_defaultCfg)"

definition the_http :: "outside \<Rightarrow> http_config" where
  "the_http X = projr (read_config X (o_http X) (the_koanf X) ''http'' http_defaultCfg)"

definition the_storage :: "outside \<Rightarrow> storage_config" where
  "the_storage X = projr (read_config X (o_storage X) (the_koanf X) ''storage'' storage_defaultCfg)"

definition the_crypto :: "outside \<Rightarrow> crypto_config" where
  "the_crypto X = projr (read_config X (o_crypto X) (the_koanf X) ''crypto'' crypto_defaultCfg)"

definition the_webauthn :: "outside \<Rightarrow> webauthn_config" where
  "the_webauthn X = projr (read_config X (o_webauthn X) (the_koanf X) ''webauthn'' webauthn_defaultCfg)"

definition the_telemetry :: "outside \<Rightarrow> telemetry_config" where
  "the_telemetry X = projr (read_config X (o_telemetry X) (the_koanf X) ''telemetry'' telemetry_defaultCfg)"

definition the_logger :: "outside \<Rightarrow> logger_config" where
  "the_logger X = projr (read_config X (o_logger X) (the_koanf X) ''logger'' logger_defaultCfg)"

lemmas the_config_defs =
  the_app_def the_http_def the_storage_def the_crypto_def the_webauthn_def the_telemetry_def
  the_logger_def

definition configs_read :: "outside \<Rightarrow> bool" where
  "configs_read X \<longleftrightarrow>
     \<not> isl (NewKoanf (o_conf X) (o_path X)) \<and>
     \<not> isl (read_config X (o_app X) (the_koanf X) ''app'' app_defaultCfg) \<and>
     \<not> isl (read_config X (o_http X) (the_koanf X) ''http'' http_defaultCfg) \<and>
     \<not> isl (read_config X (o_storage X) (the_koanf X) ''storage'' storage_defaultCfg) \<and>
     \<not> isl (read_config X (o_crypto X) (the_koanf X) ''crypto'' crypto_defaultCfg) \<and>
     \<not> isl (read_config X (o_webauthn X) (the_koanf X) ''webauthn'' webauthn_defaultCfg) \<and>
     \<not> isl (read_config X (o_telemetry X) (the_koanf X) ''telemetry'' telemetry_defaultCfg) \<and>
     \<not> isl (read_config X (o_logger X) (the_koanf X) ''logger'' logger_defaultCfg)"

text \<open>What else can fail: the log level, the keys, the relying party, the database, the collector.\<close>

definition the_log :: "outside \<Rightarrow> obj" where
  "the_log X = projr (Logger_logger (the_logger X))"

definition the_symmetric_key :: "outside \<Rightarrow> bytes" where
  "the_symmetric_key X = projr (o_SymmetricKeyFromHex X (pc_SymmetricKey (cc_PASETO (the_crypto X))))"

definition the_secret_key :: "outside \<Rightarrow> bytes" where
  "the_secret_key X = projr (o_SecretKeyFromHex X (pc_SecretKey (cc_PASETO (the_crypto X))))"

definition the_public_key :: "outside \<Rightarrow> bytes" where
  "the_public_key X =
     (if pc_PublicKey (cc_PASETO (the_crypto X)) \<noteq> []
      then projr (o_PublicKeyFromHex X (pc_PublicKey (cc_PASETO (the_crypto X))))
      else o_Public X (the_secret_key X))"

definition the_conn :: "outside \<Rightarrow> nat" where
  "the_conn X = projr (InitConn X (the_telemetry X))"

definition the_resource :: "outside \<Rightarrow> nat" where
  "the_resource X = projr (InitResource X (the_telemetry X))"

definition the_relying_party :: "outside \<Rightarrow> nat" where
  "the_relying_party X = projr (o_NewWebAuthn X (wc_RP (the_webauthn X)))"

definition libraries_ready :: "outside \<Rightarrow> bool" where
  "libraries_ready X \<longleftrightarrow>
     \<not> isl (Logger_logger (the_logger X)) \<and>
     \<not> isl (o_SymmetricKeyFromHex X (pc_SymmetricKey (cc_PASETO (the_crypto X)))) \<and>
     \<not> isl (o_SecretKeyFromHex X (pc_SecretKey (cc_PASETO (the_crypto X)))) \<and>
     (pc_PublicKey (cc_PASETO (the_crypto X)) \<noteq> [] \<longrightarrow>
        \<not> isl (o_PublicKeyFromHex X (pc_PublicKey (cc_PASETO (the_crypto X))))) \<and>
     \<not> isl (o_NewWebAuthn X (wc_RP (the_webauthn X))) \<and>
     \<not> isl (NewStorage X (the_log X) (the_storage X)) \<and>
     \<not> isl (InitConn X (the_telemetry X)) \<and> \<not> isl (InitResource X (the_telemetry X)) \<and>
     (tc_Enabled (the_telemetry X) \<longrightarrow>
        \<not> isl (InitTracerProvider X (the_telemetry X) (the_resource X) (the_conn X)) \<and>
        \<not> isl (InitMeterProvider X (the_telemetry X) (the_resource X) (the_conn X)) \<and>
        \<not> isl (InitLoggerProvider X (the_telemetry X) (the_resource X) (the_conn X)) \<and>
        InitRuntimeMetrics X = None) \<and>
     \<not> isl (parseCIDRList (o_error_text X) (o_netip X) (hc_TrustedProxies (the_http X))) \<and>
     o_baseServer X = None"

text \<open>The container takes some service that implements what is asked for, whichever it is.\<close>

definition wired_up :: "outside \<Rightarrow> (svc \<Rightarrow> method_sig list) \<Rightarrow> (iface \<Rightarrow> svc) \<Rightarrow> bool" where
  "wired_up X foreign choice \<longleftrightarrow>
     configs_read X \<and> libraries_ready X \<and> foreign_apart foreign \<and>
     (\<forall>i. choice i \<in> set (implementers foreign i))"

section \<open>The objects\<close>

definition storage_obj :: "outside \<Rightarrow> obj" where
  "storage_obj X = projr (NewStorage X (the_log X) (the_storage X))"

definition secrets_obj :: "outside \<Rightarrow> obj" where
  "secrets_obj X = NewSecretManager (stringToBytes (cc_HMACSecret (the_crypto X)))"

definition wa_obj :: "outside \<Rightarrow> obj" where
  "wa_obj X = Handle (the_relying_party X)"

definition ids_obj :: obj where
  "ids_obj = Struct PooledGenerator []"

definition telemetry_obj :: "outside \<Rightarrow> obj" where
  "telemetry_obj X =
     (if \<not> tc_Enabled (the_telemetry X) then Nil_Obj
      else Struct Telemetry_Service
        [(''tp'', Otel_Obj (projr (InitTracerProvider X (the_telemetry X) (the_resource X) (the_conn X)))),
         (''mp'', Otel_Obj (projr (InitMeterProvider X (the_telemetry X) (the_resource X) (the_conn X)))),
         (''lp'', Otel_Obj (projr (InitLoggerProvider X (the_telemetry X) (the_resource X) (the_conn X)))),
         (''conn'', Handle (the_conn X))])"

definition authenticator_obj :: "outside \<Rightarrow> obj" where
  "authenticator_obj X =
     NewAuthenticator (the_log X) (wa_obj X) (NewTokenCodec (the_symmetric_key X))
       (NewCredentialRepository (storage_obj X)) (wc_ChallengeTTL (the_webauthn X))"

definition registrator_obj :: "outside \<Rightarrow> obj" where
  "registrator_obj X =
     NewRegistrator (the_log X) (wa_obj X) (NewTokenCodec (the_symmetric_key X))
       (wc_ChallengeTTL (the_webauthn X))"

definition create_invite_obj :: "outside \<Rightarrow> invite_policy \<Rightarrow> duration \<Rightarrow> obj" where
  "create_invite_obj X policy ttl =
     NewCreateInvite (the_log X) (NewInviteRepository (storage_obj X))
       (NewInviteRepository (storage_obj X)) (secrets_obj X) ids_obj policy (storage_obj X) ttl"

definition limited_invites_obj :: "outside \<Rightarrow> obj" where
  "limited_invites_obj X =
     create_invite_obj X (invite_NewPolicy (ic_MaxActive (ac_Invite (the_app X))))
       (ic_TTL (ac_Invite (the_app X)))"

definition root_invites_obj :: "outside \<Rightarrow> obj" where
  "root_invites_obj X =
     Struct App_RootCreateInvite
       [(''CreateInvite'',
         create_invite_obj X NewUnlimitedPolicy (ic_RootTTL (ac_Invite (the_app X))))]"

definition issuer_obj :: "outside \<Rightarrow> obj" where
  "issuer_obj X =
     NewSessionIssuer (the_log X) (NewSessionRepository (storage_obj X)) (secrets_obj X)
       (NewAccessTokenIssuer (the_secret_key X)) ids_obj (NewUserRepository (storage_obj X))
       (storage_obj X) (sc_RefreshTTL (ac_Session (the_app X))) (sc_AccessTTL (ac_Session (the_app X)))"

definition revoke_all_obj :: "outside \<Rightarrow> obj" where
  "revoke_all_obj X =
     NewRevokeAllUserSessions (the_log X) (NewSessionRepository (storage_obj X))
       (NewSessionRepository (storage_obj X)) (storage_obj X)"

definition begin_registration_obj :: "outside \<Rightarrow> obj" where
  "begin_registration_obj X =
     NewBeginInviteRegistration (the_log X) (NewInviteRepository (storage_obj X)) ids_obj
       (registrator_obj X) (secrets_obj X)"

definition finish_registration_obj :: "outside \<Rightarrow> obj" where
  "finish_registration_obj X =
     NewFinishInviteRegistration (the_log X) (NewInviteRepository (storage_obj X))
       (NewInviteRepository (storage_obj X)) (NewUserRepository (storage_obj X))
       (NewUserRepository (storage_obj X)) (NewCredentialRepository (storage_obj X))
       (NewWrappedKeyRepository (storage_obj X)) (issuer_obj X) (registrator_obj X) ids_obj
       (storage_obj X) (key_NewPolicy (ic_MaxWrappedKey (ac_Invite (the_app X))))"

definition login_obj :: "outside \<Rightarrow> obj" where
  "login_obj X =
     NewLogin (the_log X) (NewCredentialRepository (storage_obj X))
       (NewCredentialRepository (storage_obj X)) (NewWrappedKeyRepository (storage_obj X))
       (authenticator_obj X) (issuer_obj X) (revoke_all_obj X) (storage_obj X)"

definition refresh_obj :: "outside \<Rightarrow> obj" where
  "refresh_obj X =
     NewRefreshAccessToken (the_log X) (NewSessionRepository (storage_obj X)) (revoke_all_obj X)
       (issuer_obj X) (secrets_obj X) (storage_obj X)"

definition revoke_session_obj :: "outside \<Rightarrow> obj" where
  "revoke_session_obj X =
     NewRevokeSession (the_log X) (NewSessionRepository (storage_obj X))
       (NewSessionRepository (storage_obj X)) (storage_obj X)"

definition revoke_chain_obj :: "outside \<Rightarrow> obj" where
  "revoke_chain_obj X =
     NewRevokeCompromisedChain (the_log X) (NewUserRepository (storage_obj X)) (revoke_all_obj X)"

definition security_obj :: "outside \<Rightarrow> obj" where
  "security_obj X = NewSecurityHandler (the_log X) (NewAccessTokenVerifier (the_public_key X))"

definition handler_obj :: "outside \<Rightarrow> (iface \<Rightarrow> svc) \<Rightarrow> obj" where
  "handler_obj X choice =
     NewHandler (the_log X)
       (if choice Http_I_CreateInvite = App_RootCreateInvite then root_invites_obj X
        else limited_invites_obj X)
       (NewBeginLogin (the_log X) (authenticator_obj X)) (login_obj X) (begin_registration_obj X)
       (finish_registration_obj X) (refresh_obj X) (revoke_chain_obj X) (revoke_session_obj X)"

definition router_obj :: "outside \<Rightarrow> (iface \<Rightarrow> svc) \<Rightarrow> obj" where
  "router_obj X choice =
     projr (NewRouter X (the_log X) (handler_obj X choice) (security_obj X)
       (hc_RequestSizeLimit (the_http X)) (hc_TrustedProxies (the_http X))
       (hc_AllowedOrigins (the_http X)))"

definition server_obj :: "outside \<Rightarrow> (iface \<Rightarrow> svc) \<Rightarrow> obj" where
  "server_obj X choice =
     NewServer (http_HostPort (the_http X)) (hc_ReadTimeout (the_http X))
       (hc_ReadHeaderTimeout (the_http X)) (hc_WriteTimeout (the_http X)) (hc_IdleTimeout (the_http X))
       (hc_MaxHeaderBytes (the_http X)) (router_obj X choice)"

definition object_graph :: "outside \<Rightarrow> (iface \<Rightarrow> svc) \<Rightarrow> svc \<Rightarrow> obj" where
  "object_graph X choice s =
     (case s of
        Context \<Rightarrow> Struct Context []
      | Koanf \<Rightarrow> Koanf_Obj (the_koanf X)
      | PooledGenerator \<Rightarrow> ids_obj
      | Grpc_Conn \<Rightarrow> Handle (the_conn X)
      | Telemetry_Config \<Rightarrow> Settings (Telemetry_Cfg (the_telemetry X))
      | Otel_Resource \<Rightarrow> Handle (the_resource X)
      | Telemetry_Service \<Rightarrow> telemetry_obj X
      | Logger_Config \<Rightarrow> Settings (Logger_Cfg (the_logger X))
      | Logger_Service \<Rightarrow>
          Struct Logger_Service [(''logger'', the_log X), (''closer'', LogWriter (lc_File (the_logger X)))]
      | Slog_Logger \<Rightarrow> the_log X
      | Storage_Config \<Rightarrow> Settings (Storage_Cfg (the_storage X))
      | Storage_Storage \<Rightarrow> storage_obj X
      | Storage_CredentialRepository \<Rightarrow> NewCredentialRepository (storage_obj X)
      | Storage_InviteRepository \<Rightarrow> NewInviteRepository (storage_obj X)
      | Storage_SessionRepository \<Rightarrow> NewSessionRepository (storage_obj X)
      | Storage_UserRepository \<Rightarrow> NewUserRepository (storage_obj X)
      | Storage_WrappedKeyRepository \<Rightarrow> NewWrappedKeyRepository (storage_obj X)
      | Crypto_Config \<Rightarrow> Settings (Crypto_Cfg (the_crypto X))
      | Crypto_SecretManager \<Rightarrow> secrets_obj X
      | Crypto_TokenCodec \<Rightarrow> NewTokenCodec (the_symmetric_key X)
      | Crypto_AccessTokenIssuer \<Rightarrow> NewAccessTokenIssuer (the_secret_key X)
      | Crypto_AccessTokenVerifier \<Rightarrow> NewAccessTokenVerifier (the_public_key X)
      | Webauthn_Config \<Rightarrow> Settings (Webauthn_Cfg (the_webauthn X))
      | Go_WebAuthn \<Rightarrow> wa_obj X
      | Webauthn_Authenticator \<Rightarrow> authenticator_obj X
      | Webauthn_Registrator \<Rightarrow> registrator_obj X
      | App_Config \<Rightarrow> Settings (App_Cfg (the_app X))
      | App_CreateInvite \<Rightarrow> limited_invites_obj X
      | App_RootCreateInvite \<Rightarrow> root_invites_obj X
      | App_BeginInviteRegistration \<Rightarrow> begin_registration_obj X
      | App_FinishInviteRegistration \<Rightarrow> finish_registration_obj X
      | App_SessionIssuer \<Rightarrow> issuer_obj X
      | App_BeginLogin \<Rightarrow> NewBeginLogin (the_log X) (authenticator_obj X)
      | App_Login \<Rightarrow> login_obj X
      | App_RefreshAccessToken \<Rightarrow> refresh_obj X
      | App_RevokeAllUserSessions \<Rightarrow> revoke_all_obj X
      | App_RevokeSession \<Rightarrow> revoke_session_obj X
      | App_RevokeCompromisedChain \<Rightarrow> revoke_chain_obj X
      | App_BootstrapRoot \<Rightarrow>
          NewBootstrapRoot (the_log X) (NewUserRepository (storage_obj X))
            (NewUserRepository (storage_obj X)) ids_obj
      | Http_Config \<Rightarrow> Settings (Http_Cfg (the_http X))
      | Http_SecurityHandler \<Rightarrow> security_obj X
      | Http_Handler \<Rightarrow> handler_obj X choice
      | Http_Router \<Rightarrow> router_obj X choice
      | Http_Server \<Rightarrow> server_obj X choice)"

text \<open>How deep a service needs others.\<close>

definition depth :: "svc \<Rightarrow> nat" where
  "depth s =
     (case s of
        Context \<Rightarrow> 0 | Koanf \<Rightarrow> 0 | PooledGenerator \<Rightarrow> 0
      | Telemetry_Config \<Rightarrow> 1 | Logger_Config \<Rightarrow> 1 | Storage_Config \<Rightarrow> 1 | Crypto_Config \<Rightarrow> 1
      | Webauthn_Config \<Rightarrow> 1 | App_Config \<Rightarrow> 1 | Http_Config \<Rightarrow> 1
      | Grpc_Conn \<Rightarrow> 2 | Otel_Resource \<Rightarrow> 2 | Logger_Service \<Rightarrow> 2 | Go_WebAuthn \<Rightarrow> 2
      | Crypto_SecretManager \<Rightarrow> 2 | Crypto_TokenCodec \<Rightarrow> 2 | Crypto_AccessTokenIssuer \<Rightarrow> 2
      | Crypto_AccessTokenVerifier \<Rightarrow> 2
      | Telemetry_Service \<Rightarrow> 3 | Slog_Logger \<Rightarrow> 3
      | Storage_Storage \<Rightarrow> 4 | Http_SecurityHandler \<Rightarrow> 4 | Webauthn_Registrator \<Rightarrow> 4
      | Storage_CredentialRepository \<Rightarrow> 5 | Storage_InviteRepository \<Rightarrow> 5
      | Storage_SessionRepository \<Rightarrow> 5 | Storage_UserRepository \<Rightarrow> 5 | Storage_WrappedKeyRepository \<Rightarrow> 5
      | Webauthn_Authenticator \<Rightarrow> 6 | App_CreateInvite \<Rightarrow> 6 | App_RootCreateInvite \<Rightarrow> 6
      | App_SessionIssuer \<Rightarrow> 6 | App_RevokeAllUserSessions \<Rightarrow> 6 | App_RevokeSession \<Rightarrow> 6
      | App_BootstrapRoot \<Rightarrow> 6 | App_BeginInviteRegistration \<Rightarrow> 6
      | App_FinishInviteRegistration \<Rightarrow> 7 | App_BeginLogin \<Rightarrow> 7 | App_Login \<Rightarrow> 7
      | App_RefreshAccessToken \<Rightarrow> 7 | App_RevokeCompromisedChain \<Rightarrow> 7
      | Http_Handler \<Rightarrow> 8 | Http_Router \<Rightarrow> 9 | Http_Server \<Rightarrow> 10)"

section \<open>The container builds them\<close>

definition chosen :: "(iface \<Rightarrow> svc) \<Rightarrow> bool" where
  "chosen choice \<longleftrightarrow> (\<forall>i. choice i \<in> set (implementers_table i))"

lemma chosen_sole: "chosen choice \<Longrightarrow> implementers_table i = [s] \<Longrightarrow> choice i = s"
  by (metis chosen_def empty_iff empty_set list.simps(15) singletonD)

lemma chosen_simps:
  assumes "chosen choice"
  shows "choice Webauthn_I_ChallengeCodec = Crypto_TokenCodec"
    "choice Webauthn_I_CredentialsProvider = Storage_CredentialRepository"
    "choice App_I_InviteSaver = Storage_InviteRepository"
    "choice App_I_ActiveInviteCounter = Storage_InviteRepository"
    "choice App_I_TokenGenerator = Crypto_SecretManager"
    "choice App_I_IDGenerator = PooledGenerator"
    "choice App_I_Transactor = Storage_Storage"
    "choice App_I_InviteFinderByCode = Storage_InviteRepository"
    "choice App_I_Registrator = Webauthn_Registrator"
    "choice App_I_HashGenerator = Crypto_SecretManager"
    "choice App_I_InviteFinderByID = Storage_InviteRepository"
    "choice App_I_UserFinderByID = Storage_UserRepository"
    "choice App_I_UserSaver = Storage_UserRepository"
    "choice App_I_CredentialSaver = Storage_CredentialRepository"
    "choice App_I_WrappedKeySaver = Storage_WrappedKeyRepository"
    "choice App_I_RefreshTokenSaver = Storage_SessionRepository"
    "choice App_I_TokenIssuer = Crypto_AccessTokenIssuer"
    "choice App_I_Authenticator = Webauthn_Authenticator"
    "choice App_I_CredentialFinder = Storage_CredentialRepository"
    "choice App_I_CredentialWrappedKeysFinder = Storage_WrappedKeyRepository"
    "choice App_I_RefreshTokenFinder = Storage_SessionRepository"
    "choice App_I_ActiveSessionsFinder = Storage_SessionRepository"
    "choice App_I_RefreshTokenFinderByID = Storage_SessionRepository"
    "choice App_I_UserDescendantsFinder = Storage_UserRepository"
    "choice App_I_RootFinder = Storage_UserRepository"
    "choice Http_I_BeginLogin = App_BeginLogin"
    "choice Http_I_FinishLogin = App_Login"
    "choice Http_I_BeginInviteRegistration = App_BeginInviteRegistration"
    "choice Http_I_FinishInviteRegistration = App_FinishInviteRegistration"
    "choice Http_I_RefreshAccessToken = App_RefreshAccessToken"
    "choice Http_I_RevokeCompromisedChain = App_RevokeCompromisedChain"
    "choice Http_I_RevokeSession = App_RevokeSession"
    "choice Http_I_SecurityHandler = Http_SecurityHandler"
  by (rule chosen_sole [OF assms], simp add: implementers_table_def)+

lemma chosen_CreateInvite:
  "chosen choice \<Longrightarrow> choice Http_I_CreateInvite = App_CreateInvite \<or> choice Http_I_CreateInvite = App_RootCreateInvite"
  unfolding chosen_def by (drule spec [of _ Http_I_CreateInvite]) (simp add: implementers_table_def)

lemma wired_up_chosen: "wired_up X foreign choice \<Longrightarrow> chosen choice"
  unfolding wired_up_def chosen_def by (simp add: implementers_eq cong: conj_cong)

text \<open>A function is well wired when, answered with the objects, it ends with its own.\<close>

definition well_wired :: "outside \<Rightarrow> (iface \<Rightarrow> svc) \<Rightarrow> svc \<Rightarrow> bool" where
  "well_wired X choice s \<longleftrightarrow>
     (let t = (\<lambda>k. case k of By_Type t \<Rightarrow> t | By_Interface i \<Rightarrow> choice i);
          (ks, r) = follow (object_graph X choice \<circ> t) (provider_of X s)
      in r = Inr (object_graph X choice s) \<and> (\<forall>k \<in> set ks. depth (t k) < depth s))"

lemma follow_Ask_For:
  "follow a (Ask_For k w f) = (case follow a (f (a k)) of (ks, r) \<Rightarrow> (k # ks, r))"
  by (simp add: Ask_For_def)

lemma follow_built: "follow a (built x) = ([], Inr x)"
  by (simp add: built_def)

lemma follow_sum_or: "\<not> isl r \<Longrightarrow> follow a (sum_or w r f) = follow a (f (projr r))"
  by (cases r) (auto simp: sum_or_def)

lemma typed_Some: "typed (Some x) f = f x"
  by (simp add: typed_def)

lemma as_simps [simp]:
  "as_koanf (Koanf_Obj k) = Some k" "as_handle (Handle n) = Some n"
  "as_app (Settings (App_Cfg c1)) = Some c1" "as_http (Settings (Http_Cfg c2)) = Some c2"
  "as_storage (Settings (Storage_Cfg c3)) = Some c3" "as_crypto (Settings (Crypto_Cfg c4)) = Some c4"
  "as_webauthn (Settings (Webauthn_Cfg c5)) = Some c5"
  "as_telemetry (Settings (Telemetry_Cfg c6)) = Some c6" "as_logger (Settings (Logger_Cfg c7)) = Some c7"
  by (simp_all add: plan_defs)

lemmas follow_simps = follow_Ask_For follow_built follow_sum_or typed_Some

lemma follow_error_or: "follow a (error_or w None p) = follow a p"
  by (simp add: error_or_def)

lemma not_isl: "\<not> isl r \<Longrightarrow> r = Inr (projr r)"
  by (cases r) auto

lemma sum_or_Inr: "sum_or w (Inr x) f = f x"
  by (simp add: sum_or_def)

lemma configs_read_results:
  assumes "configs_read X"
  shows "NewKoanf (o_conf X) (o_path X) = Inr (the_koanf X)"
    "read_config X (o_app X) (the_koanf X) ''app'' app_defaultCfg = Inr (the_app X)"
    "read_config X (o_http X) (the_koanf X) ''http'' http_defaultCfg = Inr (the_http X)"
    "read_config X (o_storage X) (the_koanf X) ''storage'' storage_defaultCfg = Inr (the_storage X)"
    "read_config X (o_crypto X) (the_koanf X) ''crypto'' crypto_defaultCfg = Inr (the_crypto X)"
    "read_config X (o_webauthn X) (the_koanf X) ''webauthn'' webauthn_defaultCfg = Inr (the_webauthn X)"
    "read_config X (o_telemetry X) (the_koanf X) ''telemetry'' telemetry_defaultCfg = Inr (the_telemetry X)"
    "read_config X (o_logger X) (the_koanf X) ''logger'' logger_defaultCfg = Inr (the_logger X)"
  using assms unfolding configs_read_def the_koanf_def the_config_defs by (auto intro: not_isl)

lemma libraries_ready_results:
  assumes "libraries_ready X"
  shows "Logger_logger (the_logger X) = Inr (the_log X)"
    "o_SymmetricKeyFromHex X (pc_SymmetricKey (cc_PASETO (the_crypto X))) = Inr (the_symmetric_key X)"
    "o_SecretKeyFromHex X (pc_SecretKey (cc_PASETO (the_crypto X))) = Inr (the_secret_key X)"
    "pc_PublicKey (cc_PASETO (the_crypto X)) \<noteq> [] \<Longrightarrow>
       o_PublicKeyFromHex X (pc_PublicKey (cc_PASETO (the_crypto X))) = Inr (the_public_key X)"
    "o_NewWebAuthn X (wc_RP (the_webauthn X)) = Inr (the_relying_party X)"
    "NewStorage X (the_log X) (the_storage X) = Inr (storage_obj X)"
    "InitConn X (the_telemetry X) = Inr (the_conn X)"
    "InitResource X (the_telemetry X) = Inr (the_resource X)"
    "NewRouter X (the_log X) (handler_obj X choice) (security_obj X) (hc_RequestSizeLimit (the_http X))
       (hc_TrustedProxies (the_http X)) (hc_AllowedOrigins (the_http X)) = Inr (router_obj X choice)"
  using assms
  by (auto simp: libraries_ready_def the_log_def the_symmetric_key_def the_secret_key_def
      the_public_key_def the_relying_party_def storage_obj_def the_conn_def the_resource_def router_obj_def NewRouter_def
      intro: not_isl split: sum.splits)

lemmas wiring_simps =
  well_wired_def provider_of_def follow_simps sum_or_Inr depth_def object_graph_def

lemma wired_verifier:
  assumes "libraries_ready X"
  shows "well_wired X choice Crypto_AccessTokenVerifier"
proof (cases "pc_PublicKey (cc_PASETO (the_crypto X)) = []")
  case True
  then have "the_public_key X = o_Public X (the_secret_key X)" by (simp add: the_public_key_def)
  with True show ?thesis
    by (simp add: wiring_simps newAccessTokenVerifier_def libraries_ready_results [OF assms])
next
  case False
  then show ?thesis
    by (simp add: wiring_simps newAccessTokenVerifier_def libraries_ready_results [OF assms])
qed

lemma wired_telemetry:
  assumes "libraries_ready X"
  shows "well_wired X choice Telemetry_Service"
  using assms
  by (simp add: wiring_simps newTelemetry_def telemetry_obj_def libraries_ready_def follow_error_or)

lemma wired_security:
  shows "well_wired X choice Http_SecurityHandler"
  by (simp add: wiring_simps newSecurityHandler_def security_obj_def)

lemma wired_handler:
  assumes "chosen choice"
  shows "well_wired X choice Http_Handler"
  using chosen_CreateInvite [OF assms]
  by (elim disjE) (simp_all add: wiring_simps newHandler_def handler_obj_def chosen_simps [OF assms])

lemma all_well_wired:
  assumes "chosen choice" "configs_read X" "libraries_ready X"
  shows "well_wired X choice s"
proof (cases "s \<in> {Telemetry_Service, Crypto_AccessTokenVerifier, Http_Handler, Http_SecurityHandler}")
  case False
  then show ?thesis
    by (cases s) (simp_all add: wiring_simps provider_defs chosen_simps [OF assms(1)] config_plan_def
      configs_read_results [OF assms(2)] libraries_ready_results [OF assms(3)] field_def
      server_obj_def ids_obj_def secrets_obj_def wa_obj_def authenticator_obj_def registrator_obj_def
      create_invite_obj_def limited_invites_obj_def root_invites_obj_def issuer_obj_def revoke_all_obj_def
      begin_registration_obj_def finish_registration_obj_def login_obj_def refresh_obj_def
      revoke_session_obj_def revoke_chain_obj_def)
next
  case True
  then show ?thesis
    using wired_verifier wired_telemetry wired_security wired_handler assms by auto
qed

interpretation service_container:
  acyclic_container "container X foreign choice" "object_graph X choice" depth "wired_up X foreign choice"
  for X foreign choice
proof unfold_locales
  fix s p
  assume up: "wired_up X foreign choice" and "in_provider (container X foreign choice) s = Some p"
  then have p: "p = provider_of X s" by simp
  have t: "target (container X foreign choice) = (\<lambda>k. case k of By_Type t \<Rightarrow> t | By_Interface i \<Rightarrow> choice i)"
    by (auto simp: target_def fun_eq_iff split: key.split)
  have ok: "well_wired X choice s"
    using up all_well_wired [OF wired_up_chosen [OF up]] by (simp add: wired_up_def)
  show "snd (follow (object_graph X choice \<circ> target (container X foreign choice)) p) =
      Inr (object_graph X choice s)"
    using ok by (simp add: p t well_wired_def Let_def split: prod.splits)
  fix k
  assume k: "k \<in> set (fst (follow (object_graph X choice \<circ> target (container X foreign choice)) p))"
  have "depth (target (container X foreign choice) k) < depth s"
    using ok k by (auto simp: p t well_wired_def Let_def split: prod.splits)
  moreover have "askable (container X foreign choice) k"
    using up by (cases k) (simp_all add: wired_up_def)
  ultimately show "askable (container X foreign choice) k \<and>
      in_provider (container X foreign choice) (target (container X foreign choice) k) \<noteq> None \<and>
      depth (target (container X foreign choice) k) < depth s" by simp
qed

end
