(* ===== verification/Startup.thy ===== *)
theory Startup
  imports Wiring_Facts Http_Server Service
begin

text \<open>
  The start of the program: \<open>Run\<close> of \<open>internal/di/di.go\<close>, the exit codes of \<open>cmd/main.go\<close>, and how the
  objects of the container are the use cases and handlers of the rest of the development.
  Migrations, printing, listening and the wait for the end are outside: each has a result that the
  model is given. The container is asked with a bound on the depth of 11, one more than the deepest
  service needs.
\<close>

section \<open>What an object is in the model\<close>

definition obj_at :: "obj \<Rightarrow> string \<Rightarrow> obj" where
  "obj_at x name = (case field x name of Some y \<Rightarrow> y | None \<Rightarrow> Nil_Obj)"

definition bytes_at :: "obj \<Rightarrow> string \<Rightarrow> bytes" where
  "bytes_at x name = (case obj_at x name of Bytes_Obj b \<Rightarrow> b | _ \<Rightarrow> [])"

definition duration_at :: "obj \<Rightarrow> string \<Rightarrow> duration" where
  "duration_at x name = (case obj_at x name of Duration_Obj d \<Rightarrow> d | _ \<Rightarrow> 0)"

definition secret_manager_of :: "obj \<Rightarrow> secret_manager" where
  "secret_manager_of x = \<lparr>sm_secretKey = bytes_at x ''secretKey''\<rparr>"

definition token_codec_of :: "obj \<Rightarrow> token_codec" where
  "token_codec_of x = \<lparr>tk_privateKey = bytes_at x ''privateKey''\<rparr>"

definition create_invite_of :: "obj \<Rightarrow> create_invite" where
  "create_invite_of x =
     \<lparr>ci_tokens = secret_manager_of (obj_at x ''tokens''),
      ci_policy = (case obj_at x ''policy'' of Invite_Policy_Obj p \<Rightarrow> p | _ \<Rightarrow> NewUnlimitedPolicy),
      ci_ttl = duration_at x ''ttl''\<rparr>"

text \<open>The method \<open>Execute\<close> of a \<open>RootCreateInvite\<close> is the one of the \<open>CreateInvite\<close> it embeds.\<close>

definition creating_of :: "obj \<Rightarrow> create_invite" where
  "creating_of x =
     (case field x ''CreateInvite'' of Some y \<Rightarrow> create_invite_of y | None \<Rightarrow> create_invite_of x)"

definition session_issuer_of :: "obj \<Rightarrow> session_issuer" where
  "session_issuer_of x =
     \<lparr>si_refreshTokens = secret_manager_of (obj_at x ''refreshTokens''),
      si_accessTokens = \<lparr>ti_secretKey = bytes_at (obj_at x ''accessTokens'') ''secretKey''\<rparr>,
      si_refreshTTL = duration_at x ''refreshTTL'', si_accessTTL = duration_at x ''accessTTL''\<rparr>"

definition authenticator_of :: "obj \<Rightarrow> authenticator" where
  "authenticator_of x =
     \<lparr>au_challenge = token_codec_of (obj_at x ''challenge''), au_ttl = duration_at x ''ttl''\<rparr>"

definition registrator_of :: "obj \<Rightarrow> registrator" where
  "registrator_of x =
     \<lparr>rg_challenge = token_codec_of (obj_at x ''challenge''), rg_ttl = duration_at x ''ttl''\<rparr>"

definition begin_registration_of :: "obj \<Rightarrow> begin_invite_registration" where
  "begin_registration_of x =
     \<lparr>bi_registrator = registrator_of (obj_at x ''registrator''),
      bi_hash = secret_manager_of (obj_at x ''hash'')\<rparr>"

definition finish_registration_of :: "obj \<Rightarrow> finish_invite_registration" where
  "finish_registration_of x =
     \<lparr>fr_sessionIssuer = session_issuer_of (obj_at x ''sessionIssuer''),
      fr_registrator = registrator_of (obj_at x ''registrator''),
      fr_keyPolicy = (case obj_at x ''keyPolicy'' of Key_Policy_Obj p \<Rightarrow> p | _ \<Rightarrow> key_NewPolicy 0)\<rparr>"

definition login_of :: "obj \<Rightarrow> login" where
  "login_of x =
     \<lparr>lg_authenticator = authenticator_of (obj_at x ''authenticator''),
      lg_sessionIssuer = session_issuer_of (obj_at x ''sessionIssuer'')\<rparr>"

definition refresh_of :: "obj \<Rightarrow> refresh_access_token" where
  "refresh_of x =
     \<lparr>ra_sessionIssuer = session_issuer_of (obj_at x ''sessionIssuer''),
      ra_hasher = secret_manager_of (obj_at x ''hasher'')\<rparr>"

definition handler_of :: "obj \<Rightarrow> handler" where
  "handler_of x =
     \<lparr>h_createInvite = creating_of (obj_at x ''createInvite''),
      h_beginLogin = authenticator_of (obj_at (obj_at x ''beginLogin'') ''authenticator''),
      h_login = login_of (obj_at x ''login''),
      h_beginRegistration = begin_registration_of (obj_at x ''beginRegistration''),
      h_finishRegistration = finish_registration_of (obj_at x ''finishRegistration''),
      h_refreshAccessToken = refresh_of (obj_at x ''refreshAccessToken'')\<rparr>"

definition verifier_of :: "obj \<Rightarrow> access_token_verifier" where
  "verifier_of x = \<lparr>tv_publicKey = bytes_at (obj_at x ''verifier'') ''publicKey''\<rparr>"

text \<open>The server of the model that an \<open>*http.Server\<close> is, given the libraries of the interface.\<close>

definition server_of :: "api_libs \<Rightarrow> error_libs \<Rightarrow> netip \<Rightarrow> obj \<Rightarrow> server" where
  "server_of A L N x =
     (let router = obj_at x ''Handler'' in
      \<lparr>sv_api = A, sv_errors = L, sv_verifier = verifier_of (obj_at router ''sec''),
       sv_handler = handler_of (obj_at router ''h''), sv_prefix = [], sv_netip = N,
       sv_trusted = (case obj_at router ''ClientIP'' of Prefixes_Obj ps \<Rightarrow> ps | _ \<Rightarrow> [])\<rparr>)"

section \<open>Run\<close>

record run_config =
  rc_CfgView :: bool
  rc_CountInvites :: nat

text \<open>What the world outside answers at the start and at the end.\<close>

record start_libs =
  sl_Up :: "err option"
  sl_WriteInvites :: "(string \<times> time) list \<Rightarrow> err option"
  sl_Listen :: "string \<Rightarrow> err option"
  sl_ShutdownReport :: string

text \<open>What the program does that can be seen, besides the database.\<close>

datatype event =
    Printed_Config string
  | Migrated
  | Root_Ready uuid
  | Printed_Invites "(string \<times> time) list"
  | Listening string
  | Shut_Down

text \<open>
  An action of the start-up: the services built so far, the events and the world go in and come out.
\<close>

record boot =
  bt_container :: "(svc \<times> obj) list"
  bt_events :: "event list"
  bt_world :: world

type_synonym 'a booting = "boot \<Rightarrow> 'a outcome \<times> boot"

definition boot_bind :: "'a booting \<Rightarrow> ('a \<Rightarrow> 'b booting) \<Rightarrow> 'b booting" where
  "boot_bind m f b =
     (case m b of (Ok x, b') \<Rightarrow> f x b' | (Err e, b') \<Rightarrow> (Err e, b') | (Panic v, b') \<Rightarrow> (Panic v, b'))"

definition emit :: "event \<Rightarrow> unit booting" where
  "emit e b = (Ok (), b\<lparr>bt_events := bt_events b @ [e]\<rparr>)"

definition require :: "err option \<Rightarrow> unit booting" where
  "require r b = (case r of Some e \<Rightarrow> (Err e, b) | None \<Rightarrow> (Ok (), b))"

definition nothing :: "unit booting" where
  "nothing b = (Ok (), b)"

definition in_world :: "'a act \<Rightarrow> 'a booting" where
  "in_world m b = (case m (bt_world b) of (r, w) \<Rightarrow> (r, b\<lparr>bt_world := w\<rparr>))"

definition boot_invoke :: "(svc, iface, obj) injector \<Rightarrow> string \<Rightarrow> svc \<Rightarrow> obj booting" where
  "boot_invoke I msg s b =
     (case invoke I 11 [] s (bt_container b) of
        (Inl e, c) \<Rightarrow> (Err (wrapped msg e), b\<lparr>bt_container := c\<rparr>)
      | (Inr x, c) \<Rightarrow> (Ok x, b\<lparr>bt_container := c\<rparr>))"

definition cfgView :: "(svc, iface, obj) injector \<Rightarrow> unit booting" where
  "cfgView I =
     boot_bind (boot_invoke I ''init koanf'' Koanf) (\<lambda>x.
     emit (Printed_Config (case as_koanf x of Some k \<Rightarrow> DumpFlat k | None \<Rightarrow> [])))"

definition wrap_boot :: "string \<Rightarrow> 'a booting \<Rightarrow> 'a booting" where
  "wrap_boot msg m b = (case m b of (Err e, b') \<Rightarrow> (Err (wrapped msg e), b') | r \<Rightarrow> r)"

definition initTelemetry :: "(svc, iface, obj) injector \<Rightarrow> unit booting" where
  "initTelemetry I = boot_bind (boot_invoke I ''init telemetry service'' Telemetry_Service) (\<lambda>_. nothing)"

definition initLogger :: "(svc, iface, obj) injector \<Rightarrow> obj booting" where
  "initLogger I = boot_invoke I ''init logger'' Slog_Logger"

definition initStorage :: "(svc, iface, obj) injector \<Rightarrow> start_libs \<Rightarrow> unit booting" where
  "initStorage I L =
     boot_bind (boot_invoke I ''init storage'' Storage_Storage) (\<lambda>_.
     boot_bind (require (map_option (\<lambda>e. wrapped ''storage up'' (wrapped ''run migrations'' e)) (sl_Up L)))
       (\<lambda>_. emit Migrated))"

definition boot_root :: "(svc, iface, obj) injector \<Rightarrow> env \<Rightarrow> user booting" where
  "boot_root I E =
     boot_bind (boot_invoke I ''init bootstrap root'' App_BootstrapRoot) (\<lambda>_.
     boot_bind (in_world (bootstrapRoot E No_Tx)) (\<lambda>root.
     boot_bind (emit (Root_Ready (user_id root))) (\<lambda>_ b. (Ok root, b))))"

definition boot_root_invites ::
  "(svc, iface, obj) injector \<Rightarrow> env \<Rightarrow> start_libs \<Rightarrow> user \<Rightarrow> nat \<Rightarrow> unit booting" where
  "boot_root_invites I E L root n =
     boot_bind (boot_invoke I ''init root create invite'' App_RootCreateInvite) (\<lambda>x.
     boot_bind (in_world (createRootInvites E (creating_of x) No_Tx root n)) (\<lambda>invs.
     boot_bind (require (map_option (wrapped ''write invites to json'') (sl_WriteInvites L invs))) (\<lambda>_.
     emit (Printed_Invites invs))))"

definition initHTTPServer :: "(svc, iface, obj) injector \<Rightarrow> start_libs \<Rightarrow> unit booting" where
  "initHTTPServer I L =
     boot_bind (boot_invoke I ''init http server'' Http_Server) (\<lambda>srv.
     let addr = (case obj_at srv ''Addr'' of Text_Obj a \<Rightarrow> a | _ \<Rightarrow> []) in
     boot_bind (require (map_option (wrapped (''listen on '' @ addr)) (sl_Listen L addr))) (\<lambda>_.
     emit (Listening addr)))"

definition waitForShutdown :: "start_libs \<Rightarrow> unit booting" where
  "waitForShutdown L =
     boot_bind (emit Shut_Down) (\<lambda>_.
     require (if sl_ShutdownReport L \<noteq> [] then Some (External (''shutdown: '' @ sl_ShutdownReport L)) else None))"

definition Run :: "(svc, iface, obj) injector \<Rightarrow> env \<Rightarrow> start_libs \<Rightarrow> run_config \<Rightarrow> unit booting" where
  "Run I E L cfg =
     boot_bind (if rc_CfgView cfg then wrap_boot ''cfg view'' (cfgView I) else nothing) (\<lambda>_.
     boot_bind (initTelemetry I) (\<lambda>_.
     boot_bind (initLogger I) (\<lambda>log.
     boot_bind (initStorage I L) (\<lambda>_.
     boot_bind (boot_root I E) (\<lambda>root.
     boot_bind (if rc_CountInvites cfg > 0 then boot_root_invites I E L root (rc_CountInvites cfg)
                else nothing) (\<lambda>_.
     boot_bind (initHTTPServer I L) (\<lambda>_.
     waitForShutdown L)))))))"

section \<open>cmd/main.go\<close>

text \<open>
  The codes that the command ends with: no configuration file, an error of \<open>Run\<close>, or none. The
  options are read by a library; \<open>ResolveDiskFS\<close> fails when the absolute path is not to be had.
\<close>

definition ExitOK :: nat where "ExitOK = 0"
definition ExitNoInput :: nat where "ExitNoInput = 66"
definition ExitSoftware :: nat where "ExitSoftware = 70"

definition cmdRun ::
  "(string \<Rightarrow> err + string) \<Rightarrow> (string \<Rightarrow> (svc, iface, obj) injector) \<Rightarrow> env \<Rightarrow> start_libs \<Rightarrow>
   string \<Rightarrow> run_config \<Rightarrow> boot \<Rightarrow> nat \<times> boot" where
  "cmdRun absolute di_New E L configPath cfg b =
     (case absolute configPath of
        Inl e \<Rightarrow> (ExitNoInput, b)
      | Inr file \<Rightarrow>
          (case Run (di_New file) E L cfg b of
             (Ok _, b') \<Rightarrow> (ExitOK, b') | (_, b') \<Rightarrow> (ExitSoftware, b')))"

end
