(* ===== verification/Wiring_Properties.thy ===== *)
theory Wiring_Properties
  imports Startup Sample_World
begin

text \<open>
  What the wiring and the start of the program guarantee: the container builds everything, only one
  interface leaves it a choice (and that choice decides whether invites are limited), the parts
  share their keys, and the service listens only when its database has a root.
\<close>

section \<open>A sample outside\<close>

definition sample_app_config :: app_config where
  "sample_app_config =
     app_defaultCfg\<lparr>ac_Invite := (ac_Invite app_defaultCfg)\<lparr>ic_MaxActive := 1\<rparr>\<rparr>"

definition sample_storage_config :: storage_config where
  "sample_storage_config =
     storage_defaultCfg\<lparr>st_MigrationsDir := ''m'', st_Host := ''db'', st_Port := ''5432'',
       st_User := ''u'', st_Pass := ''p@ss'', st_Name := ''hsa''\<rparr>"

definition sample_crypto_config :: crypto_config where
  "sample_crypto_config =
     \<lparr>cc_HMACSecret = ''0123456789abcdef0123456789abcdef'',
      cc_PASETO = \<lparr>pc_SymmetricKey = ''01'', pc_SecretKey = ''02'', pc_PublicKey = []\<rparr>\<rparr>"

definition sample_config_libs :: "'c \<Rightarrow> 'c config_libs" where
  "sample_config_libs c = \<lparr>cl_Unmarshal = (\<lambda>k key d. Inr c), cl_Validate = (\<lambda>_. None)\<rparr>"

definition sample_outside :: outside where
  "sample_outside =
     \<lparr>o_conf = \<lparr>cf_LoadYaml = (\<lambda>_. Inr []), cf_Environ = [], cf_MergeEnv = (\<lambda>k e. Inr (k @ e))\<rparr>,
      o_path = ''config.yaml'', o_app = sample_config_libs sample_app_config,
      o_http = sample_config_libs (http_defaultCfg\<lparr>hc_AllowedOrigins := [''*'']\<rparr>),
      o_storage = sample_config_libs sample_storage_config,
      o_crypto = sample_config_libs sample_crypto_config,
      o_webauthn = sample_config_libs webauthn_defaultCfg,
      o_telemetry = sample_config_libs telemetry_defaultCfg,
      o_logger = sample_config_libs logger_defaultCfg,
      o_NewClient = (\<lambda>_ _. Inr 1), o_NewResource = (\<lambda>_ _ _. Inr 2),
      o_NewTraceExporter = (\<lambda>_ _. None), o_NewMetricExporter = (\<lambda>_ _. None),
      o_NewLogExporter = (\<lambda>_ _. None), o_StartRuntime = None,
      o_ParseConfig = (\<lambda>dsn. Inr \<lparr>pl_DSN = dsn, pl_MaxConns = 4, pl_MinConns = 0,
        pl_MaxConnLifetime = 0, pl_MaxConnIdleTime = 0\<rparr>),
      o_NewDBTracer = (\<lambda>_. None), o_NewPool = (\<lambda>_. Inr 3), o_PingPool = (\<lambda>_. None),
      o_SymmetricKeyFromHex = (\<lambda>s. Inr (stringToBytes s)), o_SecretKeyFromHex = (\<lambda>s. Inr (stringToBytes s)),
      o_PublicKeyFromHex = (\<lambda>s. Inr (stringToBytes s)), o_Public = (\<lambda>k. k),
      o_NewWebAuthn = (\<lambda>_. Inr 4), o_netip = sample_netip, o_error_text = (\<lambda>_. []),
      o_baseServer = None\<rparr>"

definition sample_choice :: "iface \<Rightarrow> svc" where
  "sample_choice i = hd (implementers_table i)"

lemma sample_log: "Logger_logger logger_defaultCfg = Inr (Struct Slog_Logger
    [(''Level'', Level_Obj InfoLevel), (''Caller'', Int_Obj 0), (''Writer'', LogWriter (lc_File logger_defaultCfg))])"
  by (simp add: Logger_logger_def logger_defaultCfg_def levelWrapper_def ToLower_def TrimSpace_def
      trim_left.simps space_runes_def upt_rec lower_def)

lemma sample_wired_up: "wired_up sample_outside (\<lambda>_. []) sample_choice"
proof -
  have apart: "foreign_apart (\<lambda>_. [])" by (simp add: foreign_apart_def)
  have "sample_choice i \<in> set (implementers (\<lambda>_. []) i)" for i
    unfolding implementers_eq [OF apart] sample_choice_def
    by (cases i) (simp_all add: implementers_table_def)
  moreover have "configs_read sample_outside"
    by (simp add: configs_read_def sample_outside_def sample_config_libs_def GetConfig_def NewKoanf_def)
  moreover have logger: "the_logger sample_outside = logger_defaultCfg"
    by (simp add: the_logger_def sample_outside_def sample_config_libs_def GetConfig_def)
  then have "libraries_ready sample_outside"
    unfolding libraries_ready_def logger
    by (simp add: sample_log)
       (simp add: sample_outside_def sample_config_libs_def GetConfig_def the_http_def http_defaultCfg_def
        NewStorage_def InitConn_def Let_def InitResource_def InitTracerProvider_def InitMeterProvider_def
        InitLoggerProvider_def InitRuntimeMetrics_def)
  ultimately show ?thesis using apart by (simp add: wired_up_def)
qed

section \<open>The container\<close>

lemma deep_enough: "depth s < 11"
  by (cases s) (simp_all add: depth_def)

lemma service_built:
  assumes "wired_up X foreign choice"
  shows "fst (invoke (container X foreign choice) 11 [] s []) = Inr (object_graph X choice s)"
  using service_container.invoke_total(1) [OF assms _ deep_enough service_container.holds_Nil, of s]
  by simp

text \<open>C22: When the settings can be read and the libraries answer, the container builds whatever services
  are asked for, in whichever order: each call ends with the object of the service, no service needs
  itself, and none is built twice. The depth of 11 is enough for every service.\<close>

theorem container_builds:
  assumes "wired_up X foreign choice"
  shows "fst (invoke_each (container X foreign choice) 11 ss []) =
      map (\<lambda>s. Inr (object_graph X choice s)) ss \<and>
    distinct (map fst (snd (invoke_each (container X foreign choice) 11 ss [])))"
proof -
  have "\<forall>s \<in> set ss. in_provider (container X foreign choice) s \<noteq> None \<and> depth s < 11"
    using deep_enough by simp
  from service_container.invoke_each_total [OF assms this service_container.holds_Nil]
  show ?thesis by (simp add: service_container.holds_def)
qed

theorem container_builds_witness:
  "fst (invoke_each (container sample_outside (\<lambda>_. []) sample_choice) 11 [Http_Server, App_BootstrapRoot] []) =
     [Inr (object_graph sample_outside sample_choice Http_Server),
      Inr (object_graph sample_outside sample_choice App_BootstrapRoot)]"
  using container_builds [OF sample_wired_up, of "[Http_Server, App_BootstrapRoot]"] by simp

section \<open>Which invites the handler creates\<close>

text \<open>The handler that the container builds, as the model's.\<close>

definition built_handler :: "outside \<Rightarrow> (svc \<Rightarrow> method_sig list) \<Rightarrow> (iface \<Rightarrow> svc) \<Rightarrow> handler" where
  "built_handler X foreign choice =
     (case fst (invoke (container X foreign choice) 11 [] Http_Handler []) of
        Inr x \<Rightarrow> handler_of x | Inl _ \<Rightarrow> handler_of Nil_Obj)"

lemmas read_out_simps =
  obj_at_def field_def bytes_at_def duration_at_def secret_manager_of_def token_codec_of_def
  create_invite_of_def creating_of_def session_issuer_of_def authenticator_of_def registrator_of_def
  begin_registration_of_def finish_registration_of_def login_of_def refresh_of_def handler_of_def
  verifier_of_def

lemmas object_simps =
  limited_invites_obj_def root_invites_obj_def create_invite_obj_def secrets_obj_def
  NewCreateInvite_def NewSecretManager_def handler_obj_def NewHandler_def

lemma built_handler_eq:
  "wired_up X foreign choice \<Longrightarrow> built_handler X foreign choice = handler_of (handler_obj X choice)"
  by (simp add: built_handler_def service_built object_graph_def)

lemma wired_create_invite:
  assumes "wired_up X foreign choice"
  shows "h_createInvite (built_handler X foreign choice) =
    \<lparr>ci_tokens = \<lparr>sm_secretKey = stringToBytes (cc_HMACSecret (the_crypto X))\<rparr>,
     ci_policy = (if choice Http_I_CreateInvite = App_RootCreateInvite then NewUnlimitedPolicy
                  else invite_NewPolicy (ic_MaxActive (ac_Invite (the_app X)))),
     ci_ttl = (if choice Http_I_CreateInvite = App_RootCreateInvite
               then ic_RootTTL (ac_Invite (the_app X)) else ic_TTL (ac_Invite (the_app X)))\<rparr>"
  by (simp add: built_handler_eq [OF assms] read_out_simps object_simps)

lemma wired_up_other:
  assumes "wired_up X foreign choice" and "s \<in> {App_CreateInvite, App_RootCreateInvite}"
  shows "wired_up X foreign (choice(Http_I_CreateInvite := s))"
proof -
  have "set (implementers foreign Http_I_CreateInvite) = {App_CreateInvite, App_RootCreateInvite}"
    using assms(1) by (auto simp: wired_up_def implementers_eq implementers_table_def)
  with assms show ?thesis by (auto simp: wired_up_def)
qed

text \<open>C16: Whether a user's invites are limited is not decided by the source. Two services implement the
  interface that the handler of \<open>POST /invites\<close> asks the container for, and both complete the wiring.
  With \<open>CreateInvite\<close> a user who has reached the configured limit is refused, with
  \<open>RootCreateInvite\<close> the same request of the same user succeeds.\<close>

theorem invite_limit_left_to_container:
  assumes "wired_up X foreign choice" and "fault_free E" and "u \<in> user_ids (committed w)" "u \<noteq> uuid_nil"
    and "ic_MaxActive (ac_Invite (the_app X)) \<le>
      int (length (open_invites u (clock E (tick w)) (committed w)))"
    and "fresh_invite E \<lparr>sm_secretKey = stringToBytes (cc_HMACSecret (the_crypto X))\<rparr> (committed w)"
  shows "wired_up X foreign (choice(Http_I_CreateInvite := App_CreateInvite)) \<and>
    wired_up X foreign (choice(Http_I_CreateInvite := App_RootCreateInvite)) \<and>
    \<not> is_ok (fst (CreateInvite_Execute E (h_createInvite (built_handler X foreign
        (choice(Http_I_CreateInvite := App_CreateInvite)))) No_Tx u w)) \<and>
    is_ok (fst (CreateInvite_Execute E (h_createInvite (built_handler X foreign
        (choice(Http_I_CreateInvite := App_RootCreateInvite)))) No_Tx u w))"
    (is "?L \<and> ?U \<and> \<not> is_ok (fst (CreateInvite_Execute E ?lim No_Tx u w)) \<and>
      is_ok (fst (CreateInvite_Execute E ?unl No_Tx u w))")
proof -
  have L: ?L and U: ?U using wired_up_other [OF assms(1)] by simp_all
  have lim: "ci_policy ?lim = invite_NewPolicy (ic_MaxActive (ac_Invite (the_app X)))"
    by (simp add: wired_create_invite [OF L])
  have "\<not> is_ok (fst (CreateInvite_Execute E ?lim No_Tx u w))"
  proof
    assume "is_ok (fst (CreateInvite_Execute E ?lim No_Tx u w))"
    then obtain r w' where "CreateInvite_Execute E ?lim No_Tx u w = (Ok r, w')"
      by (cases "CreateInvite_Execute E ?lim No_Tx u w"; cases "fst (CreateInvite_Execute E ?lim No_Tx u w)") auto
    then have "CanIssue (ci_policy ?lim) (int (length (open_invites u (clock E (tick w)) (committed w)))) = None"
      using CreateInvite_Ok by (cases r) blast
    with lim assms(5) show False by (simp add: CanIssue_def invite_NewPolicy_def)
  qed
  moreover have "\<exists>code expires w'. CreateInvite_Execute E ?unl No_Tx u w = (Ok (code, expires), w')"
    by (rule CreateInvite_run)
      (use assms in \<open>simp_all add: wired_create_invite [OF U] CanIssue_def NewUnlimitedPolicy_def\<close>)
  ultimately show ?thesis using L U by auto
qed

lemma sample_fresh_keyed:
  "fresh_invite sample_env \<lparr>sm_secretKey = k\<rparr> sample_db"
proof -
  have new: "generateHashBase32 sample_libs \<lparr>sm_secretKey = k\<rparr> (b32_encode (replicate 32 x)) \<noteq> sample_hash ''code''"
    (is "?h \<noteq> _") for x
  proof
    assume "?h = sample_hash ''code''"
    then have "k @ stringToBytes (b32_encode (replicate 32 x)) = stringToBytes ''code''"
      by (auto simp: generateHashBase32_def sample_hash_def sample_sm_def sample_libs_def
          dest!: b32_encode_inj)
    from arg_cong [OF this, of length]
    show False by (simp add: stringToBytes_def b32_encode_length)
  qed
  have "generateHashBase32 sample_libs \<lparr>sm_secretKey = k\<rparr> (b32_encode (replicate 32 x)) \<noteq> []" for x
    by (simp add: generateHashBase32_def sample_libs_def stringToBytes_def b32_encode_length
        flip: length_greater_0_conv)
  with new show ?thesis using sample_uuid_large by (simp add: fresh_invite_def sample_invite_def)
qed

lemma sample_the_app: "the_app sample_outside = sample_app_config"
  by (simp add: the_app_def sample_outside_def sample_config_libs_def GetConfig_def)

theorem invite_limit_left_to_container_witness:
  "\<not> is_ok (fst (CreateInvite_Execute sample_env (h_createInvite (built_handler sample_outside (\<lambda>_. [])
      (sample_choice(Http_I_CreateInvite := App_CreateInvite)))) No_Tx 1 (world_of sample_db))) \<and>
   is_ok (fst (CreateInvite_Execute sample_env (h_createInvite (built_handler sample_outside (\<lambda>_. [])
      (sample_choice(Http_I_CreateInvite := App_RootCreateInvite)))) No_Tx 1 (world_of sample_db)))"
  using invite_limit_left_to_container [OF sample_wired_up sample_fault_free, of 1 "world_of sample_db"]
  by (simp add: sample_the_app sample_app_config_def sample_fresh_keyed sample_users_def
      open_invites_def sample_invite_def)

section \<open>The server\<close>

definition wired_secrets :: "outside \<Rightarrow> secret_manager" where
  "wired_secrets X = \<lparr>sm_secretKey = stringToBytes (cc_HMACSecret (the_crypto X))\<rparr>"

definition wired_issuer :: "outside \<Rightarrow> session_issuer" where
  "wired_issuer X =
     \<lparr>si_refreshTokens = wired_secrets X,
      si_accessTokens = \<lparr>ti_secretKey = the_secret_key X\<rparr>,
      si_refreshTTL = sc_RefreshTTL (ac_Session (the_app X)),
      si_accessTTL = sc_AccessTTL (ac_Session (the_app X))\<rparr>"

definition wired_authenticator :: "outside \<Rightarrow> authenticator" where
  "wired_authenticator X =
     \<lparr>au_challenge = \<lparr>tk_privateKey = the_symmetric_key X\<rparr>, au_ttl = wc_ChallengeTTL (the_webauthn X)\<rparr>"

definition wired_registrator :: "outside \<Rightarrow> registrator" where
  "wired_registrator X =
     \<lparr>rg_challenge = \<lparr>tk_privateKey = the_symmetric_key X\<rparr>, rg_ttl = wc_ChallengeTTL (the_webauthn X)\<rparr>"

definition built_server ::
  "api_libs \<Rightarrow> error_libs \<Rightarrow> outside \<Rightarrow> (svc \<Rightarrow> method_sig list) \<Rightarrow> (iface \<Rightarrow> svc) \<Rightarrow> server" where
  "built_server A L X foreign choice =
     (case fst (invoke (container X foreign choice) 11 [] Http_Server []) of
        Inr x \<Rightarrow> server_of A L (o_netip X) x | Inl _ \<Rightarrow> server_of A L (o_netip X) Nil_Obj)"

lemma wired_parts:
  "session_issuer_of (issuer_obj X) = wired_issuer X"
  "authenticator_of (authenticator_obj X) = wired_authenticator X"
  "registrator_of (registrator_obj X) = wired_registrator X"
  "secret_manager_of (secrets_obj X) = wired_secrets X"
  by (simp_all add: read_out_simps issuer_obj_def NewSessionIssuer_def wired_issuer_def secrets_obj_def
      NewSecretManager_def NewAccessTokenIssuer_def authenticator_obj_def NewAuthenticator_def
      wired_authenticator_def NewTokenCodec_def registrator_obj_def NewRegistrator_def
      wired_registrator_def wired_secrets_def)

lemma wired_use_cases:
  "login_of (login_obj X) = \<lparr>lg_authenticator = wired_authenticator X, lg_sessionIssuer = wired_issuer X\<rparr>"
  "begin_registration_of (begin_registration_obj X) =
     \<lparr>bi_registrator = wired_registrator X, bi_hash = wired_secrets X\<rparr>"
  "finish_registration_of (finish_registration_obj X) =
     \<lparr>fr_sessionIssuer = wired_issuer X, fr_registrator = wired_registrator X,
      fr_keyPolicy = key_NewPolicy (ic_MaxWrappedKey (ac_Invite (the_app X)))\<rparr>"
  "refresh_of (refresh_obj X) = \<lparr>ra_sessionIssuer = wired_issuer X, ra_hasher = wired_secrets X\<rparr>"
  "authenticator_of (obj_at (NewBeginLogin (the_log X) (authenticator_obj X)) ''authenticator'') =
     wired_authenticator X"
  "creating_of (create_invite_obj X p ttl) =
     \<lparr>ci_tokens = wired_secrets X, ci_policy = p, ci_ttl = ttl\<rparr>"
  "creating_of (root_invites_obj X) =
     \<lparr>ci_tokens = wired_secrets X, ci_policy = NewUnlimitedPolicy,
      ci_ttl = ic_RootTTL (ac_Invite (the_app X))\<rparr>"
  by (simp_all add: login_of_def begin_registration_of_def finish_registration_of_def refresh_of_def
      login_obj_def NewLogin_def begin_registration_obj_def NewBeginInviteRegistration_def
      finish_registration_obj_def NewFinishInviteRegistration_def refresh_obj_def
      NewRefreshAccessToken_def NewBeginLogin_def creating_of_def create_invite_of_def
      create_invite_obj_def NewCreateInvite_def root_invites_obj_def obj_at_def field_def wired_parts
      duration_at_def)

lemma wired_handler_configured:
  "handler_of (handler_obj X choice) =
     \<lparr>h_createInvite =
        (if choice Http_I_CreateInvite = App_RootCreateInvite
         then \<lparr>ci_tokens = wired_secrets X, ci_policy = NewUnlimitedPolicy,
               ci_ttl = ic_RootTTL (ac_Invite (the_app X))\<rparr>
         else \<lparr>ci_tokens = wired_secrets X,
               ci_policy = invite_NewPolicy (ic_MaxActive (ac_Invite (the_app X))),
               ci_ttl = ic_TTL (ac_Invite (the_app X))\<rparr>),
      h_beginLogin = wired_authenticator X,
      h_login = \<lparr>lg_authenticator = wired_authenticator X, lg_sessionIssuer = wired_issuer X\<rparr>,
      h_beginRegistration = \<lparr>bi_registrator = wired_registrator X, bi_hash = wired_secrets X\<rparr>,
      h_finishRegistration =
        \<lparr>fr_sessionIssuer = wired_issuer X, fr_registrator = wired_registrator X,
         fr_keyPolicy = key_NewPolicy (ic_MaxWrappedKey (ac_Invite (the_app X)))\<rparr>,
      h_refreshAccessToken = \<lparr>ra_sessionIssuer = wired_issuer X, ra_hasher = wired_secrets X\<rparr>\<rparr>"
  by (simp add: handler_of_def handler_obj_def NewHandler_def obj_at_def field_def wired_use_cases
      limited_invites_obj_def wired_use_cases [unfolded obj_at_def field_def])

text \<open>The router, when the libraries are ready: its handlers, and the proxies that are trusted.\<close>

lemma router_obj_eq:
  assumes "libraries_ready X"
  shows "obj_at (router_obj X choice) ''h'' = handler_obj X choice"
    and "obj_at (router_obj X choice) ''sec'' = security_obj X"
    and "obj_at (router_obj X choice) ''ClientIP'' =
      Prefixes_Obj (projr (parseCIDRList (o_error_text X) (o_netip X) (hc_TrustedProxies (the_http X))))"
  using assms
  by (auto simp: libraries_ready_def router_obj_def NewRouter_def obj_at_def field_def split: sum.splits)

lemma built_server_configured:
  assumes "wired_up X foreign choice"
  shows "built_server A L X foreign choice =
    \<lparr>sv_api = A, sv_errors = L, sv_verifier = \<lparr>tv_publicKey = the_public_key X\<rparr>,
     sv_handler = handler_of (handler_obj X choice), sv_prefix = [], sv_netip = o_netip X,
     sv_trusted = projr (parseCIDRList (o_error_text X) (o_netip X) (hc_TrustedProxies (the_http X)))\<rparr>"
proof -
  have "libraries_ready X" using assms by (simp add: wired_up_def)
  moreover have "obj_at (server_obj X choice) ''Handler'' = router_obj X choice"
    by (simp add: server_obj_def NewServer_def obj_at_def field_def)
  moreover have "verifier_of (security_obj X) = \<lparr>tv_publicKey = the_public_key X\<rparr>"
    by (simp add: verifier_of_def security_obj_def NewSecurityHandler_def NewAccessTokenVerifier_def
        obj_at_def field_def bytes_at_def)
  ultimately show ?thesis
    by (simp add: built_server_def service_built [OF assms] object_graph_def server_of_def router_obj_eq)
qed

text \<open>C24: The access tokens that the wired server issues, at login, registration or refresh, it accepts
  until their configured time to live is over: the bearer of such a token passes for every operation
  that its role allows and is refused as forbidden by the others. No public key is configured here;
  the verifier then has the one that belongs to the secret key of the issuer.\<close>

theorem issued_tokens_accepted:
  assumes "wired_up X foreign choice" and S_def: "S = built_server A L X foreign choice"
    and "pc_PublicKey (cc_PASETO (the_crypto X)) = []"
    and "\<And>k. paseto_law (lib E) k (o_Public X k)"
    and "\<And>i. uuid_parse (lib E) (uuid_str (lib E) i) = Inr i"
    and "I \<in> {lg_sessionIssuer (h_login (sv_handler S)),
              fr_sessionIssuer (h_finishRegistration (sv_handler S)),
              ra_sessionIssuer (h_refreshAccessToken (sv_handler S))}"
    and "r \<in> {role_Member, role_Admin}"
    and "IssueAccessToken E (si_accessTokens I) u r (si_accessTTL I) w = (Ok tok, w')"
    and "clock E (tick v) \<le> clock E (tick w) + sc_AccessTTL (ac_Session (the_app X))"
  shows "fst (HandleBearerAuth E (sv_verifier S) c
      \<lparr>ba_Token = tok, ba_Roles = GetRolesForBearerAuth op\<rparr> v) =
    (if GetRolesForBearerAuth op = [] \<or> roleAllowed r (GetRolesForBearerAuth op)
     then Ok (WithUserID c u) else Err (Sentinel Http_ErrForbidden))"
proof -
  have I: "I = wired_issuer X"
    using assms(6) by (auto simp: S_def built_server_configured [OF assms(1)] wired_handler_configured)
  have "sv_verifier S = \<lparr>tv_publicKey = o_Public X (the_secret_key X)\<rparr>"
    by (simp add: S_def built_server_configured [OF assms(1)] the_public_key_def assms(3))
  then have "paseto_law (lib E) (ti_secretKey (si_accessTokens I)) (tv_publicKey (sv_verifier S))"
    using assms(4) by (simp add: I wired_issuer_def)
  from issued_token_verifies(1) [OF this assms(5,7,8), of v] assms(9)
  have "fst (Verify E (sv_verifier S) tok v) = Ok (u, r)" by (simp add: I wired_issuer_def)
  then show ?thesis
    by (cases "Verify E (sv_verifier S) tok v")
       (auto simp: HandleBearerAuth_def bind_def catch_def fail_def ret_def)
qed

lemma sample_the_crypto: "the_crypto sample_outside = sample_crypto_config"
  by (simp add: the_crypto_def sample_outside_def sample_config_libs_def GetConfig_def)

theorem issued_tokens_accepted_witness:
  "\<forall>A L. let S = built_server A L sample_outside (\<lambda>_. []) sample_choice;
     I = lg_sessionIssuer (h_login (sv_handler S)) in
   \<exists>tok w'. IssueAccessToken sample_env (si_accessTokens I) 2 role_Member (si_accessTTL I)
       (world_of sample_db) = (Ok tok, w') \<and>
     fst (HandleBearerAuth sample_env (sv_verifier S) []
         \<lparr>ba_Token = tok, ba_Roles = GetRolesForBearerAuth InvitesPostOperation\<rparr> w') =
       Ok (WithUserID [] 2) \<and>
     fst (HandleBearerAuth sample_env (sv_verifier S) []
         \<lparr>ba_Token = tok, ba_Roles = GetRolesForBearerAuth AdminUsersUserIdRevokeChainPostOperation\<rparr> w') =
       Err (Sentinel Http_ErrForbidden)"
proof (intro allI)
  fix A L
  let ?S = "built_server A L sample_outside (\<lambda>_. []) sample_choice"
  let ?I = "lg_sessionIssuer (h_login (sv_handler ?S))"
  have ttl: "si_accessTTL ?I = 15 * Minute"
    by (simp add: built_server_configured [OF sample_wired_up] wired_handler_configured wired_issuer_def
        sample_the_app sample_app_config_def app_defaultCfg_def)
  obtain tok where run: "IssueAccessToken sample_env (si_accessTokens ?I) 2 role_Member (si_accessTTL ?I)
      (world_of sample_db) = (Ok tok, (world_of sample_db)\<lparr>tick := 1\<rparr>)"
    by (simp add: IssueAccessToken_def bind_def now_def ret_def)
  have key: "pc_PublicKey (cc_PASETO (the_crypto sample_outside)) = []"
    by (simp add: sample_the_crypto sample_crypto_config_def)
  have law: "paseto_law (lib sample_env) k (o_Public sample_outside k)" for k
    by (simp add: sample_outside_def sample_paseto)
  have late: "clock sample_env (tick ((world_of sample_db)\<lparr>tick := 1\<rparr>)) \<le>
      clock sample_env (tick (world_of sample_db)) + sc_AccessTTL (ac_Session (the_app sample_outside))"
    by (simp add: sample_the_app sample_app_config_def app_defaultCfg_def Minute_def Second_def Millisecond_def)
  note accepted = issued_tokens_accepted [OF sample_wired_up refl key law _ _ _ run late]
  show "let S = ?S; I = lg_sessionIssuer (h_login (sv_handler S)) in
   \<exists>tok w'. IssueAccessToken sample_env (si_accessTokens I) 2 role_Member (si_accessTTL I)
       (world_of sample_db) = (Ok tok, w') \<and>
     fst (HandleBearerAuth sample_env (sv_verifier S) []
         \<lparr>ba_Token = tok, ba_Roles = GetRolesForBearerAuth InvitesPostOperation\<rparr> w') =
       Ok (WithUserID [] 2) \<and>
     fst (HandleBearerAuth sample_env (sv_verifier S) []
         \<lparr>ba_Token = tok, ba_Roles = GetRolesForBearerAuth AdminUsersUserIdRevokeChainPostOperation\<rparr> w') =
       Err (Sentinel Http_ErrForbidden)"
    using run accepted [where c = "[]" and op = InvitesPostOperation]
      accepted [where c = "[]" and op = AdminUsersUserIdRevokeChainPostOperation]
    by (simp add: Let_def GetRolesForBearerAuth_def operationRolesBearerAuth_def roleAllowed_def
        role_String_def role_defs)
qed

end
