(* ===== verification/Startup_Properties.thy ===== *)
theory Startup_Properties
  imports Wiring_Properties
begin

text \<open>
  What the start-up guarantees, whichever services the container builds: the program listens only
  after the migrations, with a root in the database and the invites that were asked for printed; and
  with the libraries and the database at its service it does get there.
\<close>

section \<open>Stages that do not listen\<close>

definition heard :: "(event \<Rightarrow> bool) \<Rightarrow> boot \<Rightarrow> bool" where
  "heard p b \<longleftrightarrow> (\<exists>e \<in> set (bt_events b). p e)"

definition quiet :: "(event \<Rightarrow> bool) \<Rightarrow> 'a booting \<Rightarrow> bool" where
  "quiet p m \<longleftrightarrow> (\<forall>b. heard p (snd (m b)) \<longrightarrow> heard p b)"

definition is_listening :: "event \<Rightarrow> bool" where
  "is_listening e \<longleftrightarrow> (case e of Listening _ \<Rightarrow> True | _ \<Rightarrow> False)"

lemma is_listening_simps [simp]:
  "is_listening (Listening a)" "\<not> is_listening Migrated" "\<not> is_listening (Root_Ready u)"
  "\<not> is_listening (Printed_Invites x)" "\<not> is_listening (Printed_Config s)" "\<not> is_listening Shut_Down"
  by (simp_all add: is_listening_def)

named_theorems quiet_rules

lemma quietI: "(\<And>b r b'. m b = (r, b') \<Longrightarrow> heard p b' \<Longrightarrow> heard p b) \<Longrightarrow> quiet p m"
  unfolding quiet_def by (metis prod.collapse)

lemma quietD: "quiet p m \<Longrightarrow> m b = (r, b') \<Longrightarrow> heard p b' \<Longrightarrow> heard p b"
  unfolding quiet_def by (metis snd_conv)

lemma quiet_boot_bind [quiet_rules]:
  assumes "quiet p m" and "\<And>x. quiet p (f x)"
  shows "quiet p (boot_bind m f)"
proof (rule quietI)
  fix b r b'
  assume "boot_bind m f b = (r, b')" and "heard p b'"
  moreover obtain r1 b1 where "m b = (r1, b1)" by fastforce
  ultimately show "heard p b"
    using quietD [OF assms(1)] quietD [OF assms(2)] by (cases r1) (auto simp: boot_bind_def)
qed

lemma quiet_basic [quiet_rules]:
  "quiet p nothing" "quiet p (require r)" "quiet p (in_world m)" "quiet p (boot_invoke I msg s)"
  "quiet p (\<lambda>b. (Ok x, b))"
  by (auto simp: quiet_def nothing_def require_def in_world_def boot_invoke_def heard_def
      split: option.splits prod.splits sum.splits)

lemma quiet_emit [quiet_rules]: "\<not> p e \<Longrightarrow> quiet p (emit e)"
  by (auto simp: quiet_def emit_def heard_def)

lemma quiet_wrap_boot [quiet_rules]: "quiet p m \<Longrightarrow> quiet p (wrap_boot msg m)"
  by (rule quietI) (auto simp: wrap_boot_def dest: quietD split: prod.splits outcome.splits)

lemma quiet_stages [quiet_rules]:
  "quiet is_listening (cfgView I)" "quiet is_listening (initTelemetry I)" "quiet is_listening (initLogger I)"
  "quiet is_listening (initStorage I L)" "quiet is_listening (boot_root I E)"
  "quiet is_listening (boot_root_invites I E L root n)"
  unfolding cfgView_def initTelemetry_def initLogger_def initStorage_def boot_root_def boot_root_invites_def
  by (intro quiet_rules; simp)+

text \<open>So a run that listens got through the stage.\<close>

lemma boot_bind_heard:
  assumes "boot_bind m f b = (r, b')" and "quiet p m" and "heard p b'" and "\<not> heard p b"
  shows "\<exists>x b1. m b = (Ok x, b1) \<and> \<not> heard p b1 \<and> f x b1 = (r, b')"
proof -
  obtain r1 b1 where m: "m b = (r1, b1)" by fastforce
  have "\<not> heard p b1" using assms(2,4) m unfolding quiet_def by (metis snd_conv)
  with assms(1,3) m show ?thesis by (cases r1) (auto simp: boot_bind_def)
qed

section \<open>What a stage that succeeds has done\<close>

lemma boot_bind_Ok:
  "boot_bind m f b = (Ok y, b') \<longleftrightarrow> (\<exists>x b1. m b = (Ok x, b1) \<and> f x b1 = (Ok y, b'))"
  by (auto simp: boot_bind_def split: prod.splits outcome.splits)

lemma boot_invoke_Ok:
  "boot_invoke I msg s b = (Ok x, b') \<Longrightarrow> bt_events b' = bt_events b \<and> bt_world b' = bt_world b"
  by (auto simp: boot_invoke_def split: prod.splits sum.splits)

lemma require_Ok: "require r b = (Ok y, b') \<longleftrightarrow> r = None \<and> b' = b"
  by (auto simp: require_def split: option.splits)

lemma emit_Ok: "emit e b = (Ok y, b') \<longleftrightarrow> b' = b\<lparr>bt_events := bt_events b @ [e]\<rparr>"
  by (auto simp: emit_def)

lemma in_world_Ok:
  "in_world m b = (Ok x, b') \<longleftrightarrow> (\<exists>w. m (bt_world b) = (Ok x, w) \<and> b' = b\<lparr>bt_world := w\<rparr>)"
  by (auto simp: in_world_def split: prod.splits)

lemma nothing_Ok: "nothing b = (Ok y, b') \<longleftrightarrow> b' = b"
  by (auto simp: nothing_def)

lemma wrap_boot_Ok: "wrap_boot msg m b = (Ok x, b') \<longleftrightarrow> m b = (Ok x, b')"
  by (auto simp: wrap_boot_def split: prod.splits outcome.splits)

lemmas boot_Ok = boot_bind_Ok require_Ok emit_Ok in_world_Ok nothing_Ok wrap_boot_Ok

lemma cfgView_Ok:
  "cfgView I b = (Ok y, b') \<Longrightarrow>
   bt_world b' = bt_world b \<and> (\<exists>s. bt_events b' = bt_events b @ [Printed_Config s])"
  by (auto simp: cfgView_def boot_Ok dest!: boot_invoke_Ok)

lemma initStorage_Ok:
  "initStorage I L b = (Ok y, b') \<Longrightarrow>
   sl_Up L = None \<and> bt_world b' = bt_world b \<and> bt_events b' = bt_events b @ [Migrated]"
  by (auto simp: initStorage_def boot_Ok dest!: boot_invoke_Ok)

lemma boot_root_Ok:
  "boot_root I E b = (Ok root, b') \<Longrightarrow>
   bootstrapRoot E No_Tx (bt_world b) = (Ok root, bt_world b') \<and>
   bt_events b' = bt_events b @ [Root_Ready (user_id root)]"
  by (auto simp: boot_root_def boot_Ok dest!: boot_invoke_Ok)

lemma createRootInvites_length:
  "createRootInvites E ci c root n w = (Ok codes, w') \<Longrightarrow> length codes = n"
  by (induction n arbitrary: w codes) (auto simp: bind_Ok)

lemma boot_root_invites_Ok:
  assumes "boot_root_invites I E L root n b = (Ok y, b')"
  shows "\<exists>ci codes. createRootInvites E ci No_Tx root n (bt_world b) = (Ok codes, bt_world b') \<and>
    bt_events b' = bt_events b @ [Printed_Invites codes]"
  using assms by (auto simp: boot_root_invites_def boot_Ok dest!: boot_invoke_Ok)

lemma initHTTPServer_Ok:
  "initHTTPServer I L b = (Ok y, b') \<Longrightarrow>
   \<exists>addr. sl_Listen L addr = None \<and> bt_world b' = bt_world b \<and> bt_events b' = bt_events b @ [Listening addr]"
  by (auto simp: initHTTPServer_def boot_Ok Let_def dest!: boot_invoke_Ok)

lemma initHTTPServer_heard:
  assumes "boot_bind (initHTTPServer I L) (\<lambda>_. waitForShutdown L) b = (r, b')"
    and "heard is_listening b'" and "\<not> heard is_listening b"
  shows "\<exists>addr. sl_Listen L addr = None \<and> bt_world b' = bt_world b \<and>
    bt_events b' = bt_events b @ [Listening addr, Shut_Down]"
proof -
  have wait: "bt_world (snd (waitForShutdown L c)) = bt_world c \<and>
      bt_events (snd (waitForShutdown L c)) = bt_events c @ [Shut_Down]" for c
    by (auto simp: waitForShutdown_def boot_bind_def emit_def require_def split: option.splits)
  obtain r1 b1 where m: "initHTTPServer I L b = (r1, b1)" by fastforce
  have "\<exists>y. r1 = Ok y"
  proof (cases "heard is_listening b1")
    case True
    from m show ?thesis unfolding initHTTPServer_def
      by (rule boot_bind_heard [THEN exE, OF _ quiet_basic(4) True assms(3)])
         (auto simp: Let_def emit_def dest!: boot_bind_heard [OF _ quiet_basic(2) True])
  next
    case False
    then show ?thesis using assms(1,2) m by (cases r1) (auto simp: boot_bind_def)
  qed
  then obtain y where "r1 = Ok y" by blast
  with m assms(1) have "initHTTPServer I L b = (Ok y, b1)" "b' = snd (waitForShutdown L b1)"
    by (auto simp: boot_bind_def)
  with initHTTPServer_Ok [of I L b y b1] wait [of b1] show ?thesis by auto
qed

text \<open>Outside a transaction the root is looked for and stored without opening one.\<close>

definition idle :: "'a act \<Rightarrow> bool" where
  "idle m \<longleftrightarrow> (\<forall>w. work (snd (m w)) = work w)"

lemma idleD: "idle m \<Longrightarrow> m w = (r, w') \<Longrightarrow> work w' = work w"
  unfolding idle_def by (metis snd_conv)

lemma idle_bind: "idle m \<Longrightarrow> (\<And>x. idle (f x)) \<Longrightarrow> idle (bind m f)"
  unfolding idle_def bind_def by (simp split: prod.splits outcome.splits) (metis snd_conv)

lemma idle_catch: "idle m \<Longrightarrow> (\<And>e. idle (h e)) \<Longrightarrow> idle (catch m h)"
  unfolding idle_def catch_def by (simp split: prod.splits outcome.splits) (metis snd_conv)

lemma idle_basic:
  "idle (ret x)" "idle (fail e)" "idle (lift_sum s)" "idle (now E)" "idle (new_id E)" "idle (run_stmt E No_Tx q)"
  by (auto simp: idle_def ret_def fail_def lift_sum_def now_def new_id_def run_stmt_def Let_def
      split: option.splits sum.splits)

lemma idle_query_row: "idle (query_row E No_Tx q)"
  unfolding query_row_def by (intro idle_bind idle_basic) (simp add: idle_basic split: option.split)

lemma bootstrapRoot_idle: "idle (bootstrapRoot E No_Tx)"
  unfolding bootstrapRoot_def BootstrapRoot_Execute_def UserRepository_FindRoot_def or_not_found_def
    UserRepository_Save_def
  by (intro idle_bind idle_catch idle_basic idle_query_row)
     (auto intro!: idle_bind idle_catch idle_basic idle_query_row split: option.splits)

lemma root_stays:
  assumes "bootstrapRoot E No_Tx w = (Ok root, w1)" and "work w = None"
    and "createRootInvites E ci No_Tx root n w1 = (Ok codes, w2)"
  shows "users (committed w2) = users (committed w1)"
proof -
  have "work w1 = None" using idleD [OF bootstrapRoot_idle assms(1)] assms(2) by simp
  then show ?thesis
    using keepsD [OF keeps_users_createRootInvites [where P = "\<lambda>us. us = users (committed w1)"] _ assms(3)]
    by simp
qed

text \<open>A run that listens has got through every stage before.\<close>

lemma Run_heard:
  assumes "Run I E L cfg b = (r, b')" and "heard is_listening b'" and "\<not> heard is_listening b"
  shows "\<exists>b1 b2 b3 b4 root b5 b6 log.
    (if rc_CfgView cfg then wrap_boot ''cfg view'' (cfgView I) else nothing) b = (Ok (), b1) \<and>
    initTelemetry I b1 = (Ok (), b2) \<and> initLogger I b2 = (Ok log, b3) \<and>
    initStorage I L b3 = (Ok (), b4) \<and> boot_root I E b4 = (Ok root, b5) \<and>
    (if rc_CountInvites cfg > 0 then boot_root_invites I E L root (rc_CountInvites cfg) else nothing) b5 =
      (Ok (), b6) \<and>
    \<not> heard is_listening b6 \<and>
    boot_bind (initHTTPServer I L) (\<lambda>_. waitForShutdown L) b6 = (r, b')"
proof -
  let ?view = "if rc_CfgView cfg then wrap_boot ''cfg view'' (cfgView I) else nothing"
  let ?invites = "\<lambda>root. if rc_CountInvites cfg > 0 then boot_root_invites I E L root (rc_CountInvites cfg)
      else nothing"
  let ?t6 = "boot_bind (initHTTPServer I L) (\<lambda>_. waitForShutdown L)"
  let ?t5 = "\<lambda>root. boot_bind (?invites root) (\<lambda>_. ?t6)"
  let ?t4 = "boot_bind (boot_root I E) ?t5"
  let ?t3 = "boot_bind (initStorage I L) (\<lambda>_. ?t4)"
  let ?t2 = "boot_bind (initLogger I) (\<lambda>_. ?t3)"
  let ?t1 = "boot_bind (initTelemetry I) (\<lambda>_. ?t2)"
  have quiet: "quiet is_listening ?view" "quiet is_listening (?invites root)" for root
    by (auto intro: quiet_rules)
  have "boot_bind ?view (\<lambda>_. ?t1) b = (r, b')" using assms(1) unfolding Run_def .
  from boot_bind_heard [OF this quiet(1) assms(2,3)] obtain b1
    where 1: "?view b = (Ok (), b1)" "\<not> heard is_listening b1" "?t1 b1 = (r, b')" by auto
  from boot_bind_heard [OF 1(3) quiet_stages(2) assms(2) 1(2)] obtain b2
    where 2: "initTelemetry I b1 = (Ok (), b2)" "\<not> heard is_listening b2" "?t2 b2 = (r, b')" by auto
  from boot_bind_heard [OF 2(3) quiet_stages(3) assms(2) 2(2)] obtain log b3
    where 3: "initLogger I b2 = (Ok log, b3)" "\<not> heard is_listening b3" "?t3 b3 = (r, b')" by auto
  from boot_bind_heard [OF 3(3) quiet_stages(4) assms(2) 3(2)] obtain b4
    where 4: "initStorage I L b3 = (Ok (), b4)" "\<not> heard is_listening b4" "?t4 b4 = (r, b')" by auto
  from boot_bind_heard [OF 4(3) quiet_stages(5) assms(2) 4(2)] obtain root b5
    where 5: "boot_root I E b4 = (Ok root, b5)" "\<not> heard is_listening b5" "?t5 root b5 = (r, b')" by auto
  from boot_bind_heard [OF 5(3) quiet(2) assms(2) 5(2)] obtain b6
    where 6: "?invites root b5 = (Ok (), b6)" "\<not> heard is_listening b6" "?t6 b6 = (r, b')" by auto
  from 1(1) 2(1) 3(1) 4(1) 5(1) 6 show ?thesis by (intro exI conjI)
qed

text \<open>C20: The program listens only after everything before has succeeded: the migrations ran, the
  root is in the database that the requests will find, and the invites that were asked for at the
  start were created for it and written, exactly as many. The events come in this order.\<close>

theorem listens_only_when_ready:
  assumes "Run I E L cfg b = (r, b')" and "bt_events b = []" and "work (bt_world b) = None"
    and "Listening addr \<in> set (bt_events b')"
  shows "\<exists>view root invs row.
    bt_events b' = view @ [Migrated, Root_Ready (user_id root)] @ invs @ [Listening addr, Shut_Down] \<and>
    (view = [] \<or> (\<exists>s. view = [Printed_Config s])) \<and>
    (if rc_CountInvites cfg = 0 then invs = []
     else \<exists>codes. invs = [Printed_Invites codes] \<and> length codes = rc_CountInvites cfg) \<and>
    row \<in> set (users (committed (bt_world b'))) \<and> pgu_invited_by row = None \<and> rowToUser row = Inr root \<and>
    sl_Up L = None \<and> sl_Listen L addr = None"
proof -
  have h: "heard is_listening b'" using assms(4) by (force simp: heard_def)
  have q: "\<not> heard is_listening b" using assms(2) by (simp add: heard_def)
  from Run_heard [OF assms(1) h q] obtain b1 b2 b3 b4 root b5 b6 log
    where 1: "(if rc_CfgView cfg then wrap_boot ''cfg view'' (cfgView I) else nothing) b = (Ok (), b1)"
      and 2: "initTelemetry I b1 = (Ok (), b2)" and 3: "initLogger I b2 = (Ok log, b3)"
      and 4: "initStorage I L b3 = (Ok (), b4)" and 5: "boot_root I E b4 = (Ok root, b5)"
      and 6: "(if rc_CountInvites cfg > 0 then boot_root_invites I E L root (rc_CountInvites cfg) else nothing) b5 =
        (Ok (), b6)" "\<not> heard is_listening b6"
      and 7: "boot_bind (initHTTPServer I L) (\<lambda>_. waitForShutdown L) b6 = (r, b')" by blast
  obtain view where v: "bt_events b3 = view" "view = [] \<or> (\<exists>s. view = [Printed_Config s])"
      "bt_world b3 = bt_world b"
    using 1 2 3 assms(2)
    by (auto simp: boot_Ok initTelemetry_def initLogger_def dest!: boot_invoke_Ok cfgView_Ok split: if_splits)
  note s4 = initStorage_Ok [OF 4] and s5 = boot_root_Ok [OF 5]
  have boot: "bootstrapRoot E No_Tx (bt_world b) = (Ok root, bt_world b5)"
    using s4 s5 v by simp
  from BootstrapRoot_cases [OF boot] obtain row
    where row: "row \<in> set (users (committed (bt_world b5)))" "pgu_invited_by row = None" "rowToUser row = Inr root"
    by (auto dest: find_SomeD)
  obtain invs where i: "bt_events b6 = bt_events b5 @ invs"
      "if rc_CountInvites cfg = 0 then invs = []
       else \<exists>codes. invs = [Printed_Invites codes] \<and> length codes = rc_CountInvites cfg"
      "users (committed (bt_world b6)) = users (committed (bt_world b5))"
  proof (cases "rc_CountInvites cfg = 0")
    case True
    then show ?thesis using 6(1) that [of "[]"] by (simp add: nothing_Ok)
  next
    case False
    then have "boot_root_invites I E L root (rc_CountInvites cfg) b5 = (Ok (), b6)" using 6(1) by simp
    from boot_root_invites_Ok [OF this] obtain ci codes
      where c: "createRootInvites E ci No_Tx root (rc_CountInvites cfg) (bt_world b5) =
        (Ok codes, bt_world b6)" "bt_events b6 = bt_events b5 @ [Printed_Invites codes]" by blast
    show ?thesis
      using that [of "[Printed_Invites codes]"] False c(2) root_stays [OF boot assms(3) c(1)]
        createRootInvites_length [OF c(1)] by simp
  qed
  from initHTTPServer_heard [OF 7 h 6(2)] obtain addr'
    where l: "sl_Listen L addr' = None" "bt_world b' = bt_world b6"
      "bt_events b' = bt_events b6 @ [Listening addr', Shut_Down]" by blast
  have "addr' = addr"
    using assms(4) 6(2) l(3) by (force simp: heard_def)
  with l i row s4 s5 v show ?thesis
    by (intro exI [of _ view] exI [of _ root] exI [of _ invs] exI [of _ row]) simp
qed

section \<open>A start-up that gets there\<close>

text \<open>Every service the start-up asks for is built, whichever were built before.\<close>

definition partly_built :: "outside \<Rightarrow> (iface \<Rightarrow> svc) \<Rightarrow> boot \<Rightarrow> bool" where
  "partly_built X choice b \<longleftrightarrow> service_container.holds X choice (bt_container b)"

lemma boot_invoke_built:
  assumes "wired_up X foreign choice" and "partly_built X choice b"
  shows "\<exists>c. boot_invoke (container X foreign choice) msg s b =
      (Ok (object_graph X choice s), b\<lparr>bt_container := c\<rparr>) \<and>
    partly_built X choice (b\<lparr>bt_container := c\<rparr>)"
proof -
  have reg: "in_provider (container X foreign choice) s \<noteq> None" by simp
  obtain r c where inv: "invoke (container X foreign choice) 11 [] s (bt_container b) = (r, c)" by fastforce
  with service_container.invoke_total [OF assms(1) reg deep_enough assms(2) [unfolded partly_built_def]]
  have "r = Inr (object_graph X choice s)" "service_container.holds X choice c" by simp_all
  with inv show ?thesis by (intro exI [of _ c]) (simp add: boot_invoke_def partly_built_def)
qed

lemma partly_built_simps [simp]:
  "partly_built X choice (b\<lparr>bt_events := ev\<rparr>) = partly_built X choice b"
  "partly_built X choice (b\<lparr>bt_world := w\<rparr>) = partly_built X choice b"
  by (simp_all add: partly_built_def)

lemma partly_built_start: "partly_built X choice \<lparr>bt_container = [], bt_events = [], bt_world = w\<rparr>"
  by (simp add: partly_built_def service_container.holds_Nil)

definition succeeds :: "outside \<Rightarrow> (iface \<Rightarrow> svc) \<Rightarrow> 'a booting \<Rightarrow> boot \<Rightarrow> 'a \<Rightarrow> event list \<Rightarrow> world \<Rightarrow> bool" where
  "succeeds X choice m b x ev w \<longleftrightarrow>
     (\<exists>c. m b = (Ok x, \<lparr>bt_container = c, bt_events = bt_events b @ ev, bt_world = w\<rparr>) \<and>
       service_container.holds X choice c)"

lemma succeeds_invoke:
  assumes "wired_up X foreign choice" and "partly_built X choice b"
  shows "succeeds X choice (boot_invoke (container X foreign choice) msg s) b (object_graph X choice s) []
    (bt_world b)"
  using boot_invoke_built [OF assms, of msg s] by (cases b) (auto simp: succeeds_def partly_built_def)

lemma succeeds_bind:
  assumes "succeeds X choice m b x ev w"
    and "\<And>b'. partly_built X choice b' \<Longrightarrow> bt_world b' = w \<Longrightarrow> succeeds X choice (f x) b' y ev' w'"
    and "evs = ev @ ev'"
  shows "succeeds X choice (boot_bind m f) b y evs w'"
proof -
  obtain c where c: "m b = (Ok x, \<lparr>bt_container = c, bt_events = bt_events b @ ev, bt_world = w\<rparr>)"
    "service_container.holds X choice c" using assms(1) by (auto simp: succeeds_def)
  with assms(2) [of "\<lparr>bt_container = c, bt_events = bt_events b @ ev, bt_world = w\<rparr>"] assms(3)
  show ?thesis by (simp add: succeeds_def boot_bind_def partly_built_def)
qed

lemma succeeds_basic:
  assumes "partly_built X choice b" and "bt_world b = w"
  shows "succeeds X choice nothing b () [] w"
    and "succeeds X choice (require None) b () [] w"
    and "succeeds X choice (emit e) b () [e] w"
    and "succeeds X choice (\<lambda>b. (Ok x, b)) b x [] w"
    and "m w = (Ok y, w') \<Longrightarrow> succeeds X choice (in_world m) b y [] w'"
  using assms by (cases b; simp add: succeeds_def nothing_def require_def emit_def in_world_def partly_built_def)+

lemma succeeds_wrap_boot: "succeeds X choice m b x ev w \<Longrightarrow> succeeds X choice (wrap_boot msg m) b x ev w"
  by (auto simp: succeeds_def wrap_boot_def)

text \<open>The first action of a sequence, one rule for each kind.\<close>

lemma succeeds_first:
  assumes "partly_built X choice b" and "bt_world b = w"
  shows "wired_up X foreign choice \<Longrightarrow>
      (\<And>b'. partly_built X choice b' \<Longrightarrow> bt_world b' = w \<Longrightarrow>
        succeeds X choice (f (object_graph X choice s)) b' y ev w') \<Longrightarrow>
      succeeds X choice (boot_bind (boot_invoke (container X foreign choice) msg s) f) b y ev w'"
    and "(\<And>b'. partly_built X choice b' \<Longrightarrow> bt_world b' = w \<Longrightarrow> succeeds X choice (g ()) b' y ev w') \<Longrightarrow>
      succeeds X choice (boot_bind (require None) g) b y ev w'"
    and "(\<And>b'. partly_built X choice b' \<Longrightarrow> bt_world b' = w \<Longrightarrow> succeeds X choice (g ()) b' y ev w') \<Longrightarrow>
      succeeds X choice (boot_bind (emit e) g) b y (e # ev) w'"
    and "m w = (Ok z, v) \<Longrightarrow>
      (\<And>b'. partly_built X choice b' \<Longrightarrow> bt_world b' = v \<Longrightarrow> succeeds X choice (h z) b' y ev w') \<Longrightarrow>
      succeeds X choice (boot_bind (in_world m) h) b y ev w'"
  using succeeds_bind [OF succeeds_invoke] succeeds_bind [OF succeeds_basic(2)]
    succeeds_bind [OF succeeds_basic(3)] succeeds_bind [OF succeeds_basic(5)] assms
  by (metis append_Nil append_Cons)+

lemma succeeds_stages:
  assumes up: "wired_up X foreign choice" and b: "partly_built X choice b" "bt_world b = w"
  shows "succeeds X choice (cfgView (container X foreign choice)) b () [Printed_Config (DumpFlat (the_koanf X))] w"
    and "succeeds X choice (initTelemetry (container X foreign choice)) b () [] w"
    and "succeeds X choice (initLogger (container X foreign choice)) b (the_log X) [] w"
    and "sl_Up L = None \<Longrightarrow>
      succeeds X choice (initStorage (container X foreign choice) L) b () [Migrated] w"
    and "bootstrapRoot E No_Tx w = (Ok root, w1) \<Longrightarrow>
      succeeds X choice (boot_root (container X foreign choice) E) b root [Root_Ready (user_id root)] w1"
  unfolding cfgView_def initTelemetry_def initLogger_def initStorage_def boot_root_def
  apply (rule succeeds_first(1) [OF b up], simp add: object_graph_def succeeds_basic)
  apply (rule succeeds_first(1) [OF b up], simp add: succeeds_basic)
  subgoal using succeeds_invoke [OF up b(1), of _ Slog_Logger] b(2) by (simp add: object_graph_def)
  apply (rule succeeds_first(1) [OF b up], simp, rule succeeds_first(2), assumption+, simp add: succeeds_basic)
  apply (rule succeeds_first(1) [OF b up], rule succeeds_first(4), assumption+, rule succeeds_first(3),
      assumption+, simp add: succeeds_basic)
  done

definition wired_root_invites :: "outside \<Rightarrow> create_invite" where
  "wired_root_invites X =
     \<lparr>ci_tokens = wired_secrets X, ci_policy = NewUnlimitedPolicy,
      ci_ttl = ic_RootTTL (ac_Invite (the_app X))\<rparr>"

lemma succeeds_last_stages:
  assumes up: "wired_up X foreign choice" and b: "partly_built X choice b" "bt_world b = w"
  shows "createRootInvites E (wired_root_invites X) No_Tx root n w = (Ok codes, w1) \<Longrightarrow>
      sl_WriteInvites L codes = None \<Longrightarrow>
      succeeds X choice (boot_root_invites (container X foreign choice) E L root n) b ()
        [Printed_Invites codes] w1"
    and "sl_Listen L (http_HostPort (the_http X)) = None \<Longrightarrow>
      succeeds X choice (initHTTPServer (container X foreign choice) L) b ()
        [Listening (http_HostPort (the_http X))] w"
    and "sl_ShutdownReport L = [] \<Longrightarrow> succeeds X choice (waitForShutdown L) b () [Shut_Down] w"
proof -
  have root: "creating_of (object_graph X choice App_RootCreateInvite) = wired_root_invites X"
    by (simp add: object_graph_def wired_use_cases wired_root_invites_def)
  have addr: "obj_at (object_graph X choice Http_Server) ''Addr'' = Text_Obj (http_HostPort (the_http X))"
    by (simp add: object_graph_def server_obj_def NewServer_def obj_at_def field_def)
  show "succeeds X choice (boot_root_invites (container X foreign choice) E L root n) b ()
      [Printed_Invites codes] w1"
    if "createRootInvites E (wired_root_invites X) No_Tx root n w = (Ok codes, w1)"
      "sl_WriteInvites L codes = None"
    unfolding boot_root_invites_def
    by (rule succeeds_first(1) [OF b up], rule succeeds_first(4), assumption+,
        simp add: root that(1), simp only: that(2) option.map, rule succeeds_first(2), assumption+)
       (simp add: succeeds_basic)
  show "succeeds X choice (initHTTPServer (container X foreign choice) L) b ()
      [Listening (http_HostPort (the_http X))] w"
    if "sl_Listen L (http_HostPort (the_http X)) = None"
    unfolding initHTTPServer_def
    by (rule succeeds_first(1) [OF b up], simp add: addr that, rule succeeds_first(2), assumption+)
       (simp add: succeeds_basic)
  show "succeeds X choice (waitForShutdown L) b () [Shut_Down] w" if "sl_ShutdownReport L = []"
    unfolding waitForShutdown_def using that
    by (simp, intro succeeds_first(3) [OF b]) (simp add: succeeds_basic)
qed

lemma Run_succeeds:
  assumes up: "wired_up X foreign choice"
    and root: "bootstrapRoot E No_Tx w = (Ok root, w1)"
    and invites: "createRootInvites E (wired_root_invites X) No_Tx root n w1 = (Ok codes, w2)"
    and libs: "sl_Up L = None" "sl_WriteInvites L codes = None"
      "sl_Listen L (http_HostPort (the_http X)) = None" "sl_ShutdownReport L = []"
  shows "\<exists>c. Run (container X foreign choice) E L \<lparr>rc_CfgView = view, rc_CountInvites = n\<rparr>
      \<lparr>bt_container = [], bt_events = [], bt_world = w\<rparr> =
    (Ok (), \<lparr>bt_container = c,
       bt_events = (if view then [Printed_Config (DumpFlat (the_koanf X))] else []) @
         [Migrated, Root_Ready (user_id root)] @ (if n = 0 then [] else [Printed_Invites codes]) @
         [Listening (http_HostPort (the_http X)), Shut_Down],
       bt_world = (if n = 0 then w1 else w2)\<rparr>)"
proof -
  let ?I = "container X foreign choice" and ?cfg = "\<lparr>rc_CfgView = view, rc_CountInvites = n\<rparr>"
  let ?b = "\<lparr>bt_container = [], bt_events = [], bt_world = w\<rparr>" and ?w = "if n = 0 then w1 else w2"
  let ?printed = "if view then [Printed_Config (DumpFlat (the_koanf X))] else []"
  let ?invs = "if n = 0 then [] else [Printed_Invites codes]"
  have tail: "succeeds X choice (boot_bind (if n > 0 then boot_root_invites ?I E L root n else nothing)
      (\<lambda>_. boot_bind (initHTTPServer ?I L) (\<lambda>_. waitForShutdown L))) b ()
      (?invs @ [Listening (http_HostPort (the_http X)), Shut_Down]) ?w"
    if "partly_built X choice b" "bt_world b = w1" for b
  proof (rule succeeds_bind [OF _ _ refl])
    show "succeeds X choice (if n > 0 then boot_root_invites ?I E L root n else nothing) b () ?invs ?w"
      using succeeds_basic(1) [OF that] succeeds_last_stages(1) [OF up that invites libs(2)] by simp
    show "succeeds X choice (boot_bind (initHTTPServer ?I L) (\<lambda>_. waitForShutdown L)) b' ()
        [Listening (http_HostPort (the_http X)), Shut_Down] ?w"
      if "partly_built X choice b'" "bt_world b' = ?w" for b'
      by (rule succeeds_bind [OF succeeds_last_stages(2) [OF up that libs(3)]
            succeeds_last_stages(3) [OF up _ _ libs(4)]]) simp_all
  qed
  have "succeeds X choice (Run ?I E L ?cfg) ?b ()
      (?printed @ [] @ [] @ [Migrated] @ [Root_Ready (user_id root)] @ ?invs @
        [Listening (http_HostPort (the_http X)), Shut_Down]) ?w"
    unfolding Run_def run_config.simps
  proof (rule succeeds_bind [OF _ _ refl])
    show "succeeds X choice (if view then wrap_boot ''cfg view'' (cfgView ?I) else nothing) ?b () ?printed w"
      using succeeds_stages(1) [OF up partly_built_start] succeeds_basic(1) [OF partly_built_start]
      by (auto intro: succeeds_wrap_boot)
  qed (rule succeeds_bind [OF succeeds_stages(2) [OF up] _ refl], assumption+,
      rule succeeds_bind [OF succeeds_stages(3) [OF up] _ refl], assumption+,
      rule succeeds_bind [OF succeeds_stages(4) [OF up _ _ libs(1)] _ refl], assumption+,
      rule succeeds_bind [OF succeeds_stages(5) [OF up _ _ root] _ refl], assumption+, rule tail)
  then show ?thesis by (auto simp: succeeds_def)
qed

text \<open>C21: When the container has what it needs, the migrations succeed, the root is there or can be
  stored and its invites can be created, the program starts: it prints its configuration if asked,
  listens on the configured address with exactly these changes of the database, and exits with 0.\<close>

theorem start_up_succeeds:
  assumes "wired_up X foreign choice"
    and "bootstrapRoot E No_Tx w = (Ok root, w1)"
    and "createRootInvites E (wired_root_invites X) No_Tx root n w1 = (Ok codes, w2)"
    and "sl_Up L = None" and "sl_WriteInvites L codes = None"
    and "sl_Listen L (http_HostPort (the_http X)) = None" and "sl_ShutdownReport L = []"
    and "absolute path = Inr file" and "di_New file = container X foreign choice"
  shows "\<exists>c. cmdRun absolute di_New E L path \<lparr>rc_CfgView = view, rc_CountInvites = n\<rparr>
      \<lparr>bt_container = [], bt_events = [], bt_world = w\<rparr> =
    (ExitOK, \<lparr>bt_container = c,
       bt_events = (if view then [Printed_Config (DumpFlat (the_koanf X))] else []) @
         [Migrated, Root_Ready (user_id root)] @ (if n = 0 then [] else [Printed_Invites codes]) @
         [Listening (http_HostPort (the_http X)), Shut_Down],
       bt_world = (if n = 0 then w1 else w2)\<rparr>)"
  using Run_succeeds [OF assms(1-7), of view] assms(8,9) by (auto simp: cmdRun_def)

section \<open>A sample start\<close>

definition sample_start :: start_libs where
  "sample_start =
     \<lparr>sl_Up = None, sl_WriteInvites = (\<lambda>_. None), sl_Listen = (\<lambda>_. None), sl_ShutdownReport = []\<rparr>"

text \<open>The root of an empty database, and one invite for it.\<close>

lemma sample_root_invites:
  "\<exists>root w1 codes w2. bootstrapRoot sample_env No_Tx (world_of empty_db) = (Ok root, w1) \<and>
     createRootInvites sample_env (wired_root_invites X) No_Tx root 1 w1 = (Ok codes, w2)"
proof -
  obtain w1 where w1: "bootstrapRoot sample_env No_Tx (world_of empty_db) =
      (Ok \<lparr>user_id = 102, user_role = role_Admin, user_invited_by = None, user_created_at = 1001\<rparr>, w1)"
    "committed w1 = empty_db\<lparr>users :=
      [\<lparr>pgu_id = 102, pgu_role = ''admin'', pgu_invited_by = None, pgu_created_at = 1001\<rparr>]\<rparr>"
    using sample_bootstrap_run by blast
  have fresh: "fresh_invite sample_env (ci_tokens (wired_root_invites X)) (committed w1)"
    using sample_uuid_large [of 0]
    by (simp add: fresh_invite_def w1(2) empty_db_def wired_root_invites_def generateHashBase32_def
        sample_libs_def stringToBytes_def b32_encode_length flip: length_greater_0_conv)
  have "\<exists>code expires w'. CreateInvite_Execute sample_env (wired_root_invites X) No_Tx 102 w1 =
      (Ok (code, expires), w')"
    using sample_fault_free _ _ _ fresh
    by (rule CreateInvite_run) (simp_all add: w1(2) wired_root_invites_def)
  then obtain code expires w' where c: "CreateInvite_Execute sample_env (wired_root_invites X) No_Tx 102 w1 =
      (Ok (code, expires), w')" by blast
  show ?thesis
    by (intro exI conjI, rule w1(1)) (simp add: numeral_eq_Suc bind_def catch_def c ret_def)
qed

lemma sample_start_sel [simp]:
  "sl_Up sample_start = None" "sl_WriteInvites sample_start x = None" "sl_Listen sample_start a = None"
  "sl_ShutdownReport sample_start = []"
  by (simp_all add: sample_start_def)

theorem start_up_succeeds_witness:
  "fst (cmdRun Inr (\<lambda>_. container sample_outside (\<lambda>_. []) sample_choice) sample_env sample_start
      ''config.yaml'' \<lparr>rc_CfgView = True, rc_CountInvites = 1\<rparr>
      \<lparr>bt_container = [], bt_events = [], bt_world = world_of empty_db\<rparr>) = ExitOK"
proof -
  obtain root w1 codes w2 where "bootstrapRoot sample_env No_Tx (world_of empty_db) = (Ok root, w1)"
    "createRootInvites sample_env (wired_root_invites sample_outside) No_Tx root 1 w1 = (Ok codes, w2)"
    using sample_root_invites by blast
  from start_up_succeeds [where absolute = Inr and path = "''config.yaml''" and L = sample_start and view = True
      and di_New = "\<lambda>_. container sample_outside (\<lambda>_. []) sample_choice",
      OF sample_wired_up this _ _ _ _ refl refl]
  show ?thesis by auto
qed

theorem listens_only_when_ready_witness:
  "\<exists>r b' addr row. Run (container sample_outside (\<lambda>_. []) sample_choice) sample_env sample_start
      \<lparr>rc_CfgView = True, rc_CountInvites = 1\<rparr>
      \<lparr>bt_container = [], bt_events = [], bt_world = world_of empty_db\<rparr> = (r, b') \<and>
    Listening addr \<in> set (bt_events b') \<and> row \<in> set (users (committed (bt_world b')))"
proof -
  obtain root w1 codes w2 where "bootstrapRoot sample_env No_Tx (world_of empty_db) = (Ok root, w1)"
    "createRootInvites sample_env (wired_root_invites sample_outside) No_Tx root 1 w1 = (Ok codes, w2)"
    using sample_root_invites by blast
  from Run_succeeds [OF sample_wired_up this, of sample_start True] obtain b' addr
    where run: "Run (container sample_outside (\<lambda>_. []) sample_choice) sample_env sample_start
      \<lparr>rc_CfgView = True, rc_CountInvites = 1\<rparr>
      \<lparr>bt_container = [], bt_events = [], bt_world = world_of empty_db\<rparr> = (Ok (), b')"
      "Listening addr \<in> set (bt_events b')" by force
  from listens_only_when_ready [OF run(1) _ _ run(2)] run show ?thesis by auto
qed

end
