(* ===== verification/Telemetry.thy ===== *)
theory Telemetry
  imports Wiring Errkit
begin

text \<open>
  The end of telemetry: \<open>Service.Shutdown\<close> of \<open>internal/infrastructure/telemetry/package.go\<close> over a group
  of \<open>pkg/errkit\<close>. The providers are shut down at the same time, the connection is closed after all
  three; what each call of the library ends with is a parameter, as is the order in which the three
  are done.
\<close>

record shutdown_results =
  sr_tp :: "unit outcome"
  sr_mp :: "unit outcome"
  sr_lp :: "unit outcome"
  sr_conn :: "err option"

definition shutdown_of :: "string \<Rightarrow> unit outcome \<Rightarrow> unit outcome" where
  "shutdown_of msg r = (case r of Err e \<Rightarrow> Err (wrapped msg e) | _ \<Rightarrow> r)"

definition shutdown_outcomes :: "shutdown_results \<Rightarrow> unit outcome list" where
  "shutdown_outcomes R =
     [shutdown_of ''failed to shutdown tracer provider'' (sr_tp R),
      shutdown_of ''failed to shutdown meter provider'' (sr_mp R),
      shutdown_of ''failed to shutdown logger provider'' (sr_lp R)]"

definition close_result :: "shutdown_results \<Rightarrow> go_error" where
  "close_result R =
     (case sr_conn R of None \<Rightarrow> Nil_Error
      | Some e \<Rightarrow> An_Error (wrapped ''failed to close gRPC connection'' e))"

definition Telemetry_Shutdown ::
  "(unit outcome list \<Rightarrow> unit outcome list) \<Rightarrow> obj \<Rightarrow> shutdown_results \<Rightarrow> err option" where
  "Telemetry_Shutdown order s R =
     (if s = Nil_Obj then None
      else case fst (Group_Wait (order (shutdown_outcomes R))
                      (Group_Finally (close_result R) \<lparr>gr_err = None, gr_finally = []\<rparr>)) of
             None \<Rightarrow> None
           | Some (f, es) \<Rightarrow> Some (wrapped ''failed to shutdown telemetry'' (Kit_Error f es)))"

text \<open>Shutting down reports nothing exactly when all four calls did, in whichever order.\<close>

lemma Telemetry_Shutdown_None:
  assumes "mset (order (shutdown_outcomes R)) = mset (shutdown_outcomes R)"
  shows "Telemetry_Shutdown order s R = None \<longleftrightarrow>
    s = Nil_Obj \<or> is_ok (sr_tp R) \<and> is_ok (sr_mp R) \<and> is_ok (sr_lp R) \<and> sr_conn R = None"
proof -
  have ok: "is_ok (shutdown_of m r) = is_ok r" for m r
    by (cases r) (simp_all add: shutdown_of_def)
  have err: "outcome_error r = Nil_Error \<longleftrightarrow> is_ok r" for r by (cases r) auto
  have "set (order (shutdown_outcomes R)) = set (shutdown_outcomes R)"
    using assms by (metis set_mset_mset)
  then have "list_all (\<lambda>g. g = Nil_Error) (map outcome_error (order (shutdown_outcomes R))) \<longleftrightarrow>
      is_ok (sr_tp R) \<and> is_ok (sr_mp R) \<and> is_ok (sr_lp R)"
    by (simp add: list_all_iff err) (simp add: shutdown_outcomes_def ok)
  then show ?thesis
    by (auto simp: Telemetry_Shutdown_def Group_Wait_view Group_Finally_def group_view_def
        close_result_def list_all_iff split: option.splits)
qed

end
