(* ===== verification/Concurrency.thy ===== *)
theory Concurrency
  imports Invite_Facts
begin

text \<open>
  Transactions that run at the same time. A script is what a use case does inside one transaction,
  cut at its calls of the outside and of the database, so that steps of others can come in between;
  run without interruption it is the action of the rest of the development.

  The database is PostgreSQL at its default level, READ COMMITTED: a statement sees what is committed
  at that instant and what its own transaction has written before; advisory locks, the locks of
  written rows and those of new entries in a unique index are held to the end of the transaction,
  and who needs one that another holds waits.
\<close>

section \<open>Scripts\<close>

datatype lock =
    Advisory string
  | Invite_Row uuid | Invite_Hash string
  | Session_Row uuid | Session_Hash string
  | Credential_Row uuid | Credential_Key bytes

text \<open>
  A statement names the locks it takes; it ends with an error of the database, which the script
  handles, or leaves a database and how to go on. A draw is a call of clock, identifiers or random
  bytes, which are told apart by the tick.
\<close>

datatype 'a script =
    Return 'a
  | Fail err
  | Draw "nat \<Rightarrow> 'a script"
  | Stmt "lock list" "database \<Rightarrow> err + 'a script \<times> database" "err \<Rightarrow> 'a script"

primrec sbind :: "'a script \<Rightarrow> ('a \<Rightarrow> 'b script) \<Rightarrow> 'b script" where
  "sbind (Return x) f = f x"
| "sbind (Fail e) f = Fail e"
| "sbind (Draw g) f = Draw (\<lambda>n. sbind (g n) f)"
| "sbind (Stmt ls q h) f =
     Stmt ls (map_sum id (map_prod (\<lambda>s. sbind s f) id) \<circ> q) (\<lambda>e. sbind (h e) f)"

primrec s_catch :: "'a script \<Rightarrow> (err \<Rightarrow> 'a script) \<Rightarrow> 'a script" where
  "s_catch (Return x) g = Return x"
| "s_catch (Fail e) g = g e"
| "s_catch (Draw f) g = Draw (\<lambda>n. s_catch (f n) g)"
| "s_catch (Stmt ls q h) g =
     Stmt ls (map_sum id (map_prod (\<lambda>s. s_catch s g) id) \<circ> q) (\<lambda>e. s_catch (h e) g)"

definition s_stmt :: "lock list \<Rightarrow> (database \<Rightarrow> err + 'a \<times> database) \<Rightarrow> 'a script" where
  "s_stmt ls q = Stmt ls (map_sum id (map_prod Return id) \<circ> q) Fail"

definition s_now :: "env \<Rightarrow> time script" where
  "s_now E = Draw (\<lambda>n. Return (clock E n))"

definition s_new_id :: "env \<Rightarrow> uuid script" where
  "s_new_id E = Draw (\<lambda>n. Return (next_uuid E n))"

definition s_lift :: "err + 'a \<Rightarrow> 'a script" where
  "s_lift r = (case r of Inl e \<Rightarrow> Fail e | Inr x \<Rightarrow> Return x)"

definition s_check :: "err option \<Rightarrow> unit script" where
  "s_check r = (case r of None \<Rightarrow> Return () | Some e \<Rightarrow> Fail e)"

definition s_rand_read :: "env \<Rightarrow> nat \<Rightarrow> bytes script" where
  "s_rand_read E k = Draw (\<lambda>n. s_lift (entropy E n k))"

text \<open>A script without interruption, inside a transaction.\<close>

primrec run_script :: "env \<Rightarrow> 'a script \<Rightarrow> 'a act" where
  "run_script E (Return x) = ret x"
| "run_script E (Fail e) = fail e"
| "run_script E (Draw f) = (\<lambda>w. run_script E (f (tick w)) (w\<lparr>tick := Suc (tick w)\<rparr>))"
| "run_script E (Stmt ls q h) =
     (\<lambda>w. case run_stmt E In_Tx (map_sum id (map_prod (run_script E) id) \<circ> q) w of
            (Ok m, w') \<Rightarrow> m w'
          | (Err e, w') \<Rightarrow> run_script E (h e) w'
          | (Panic v, w') \<Rightarrow> (Panic v, w'))"

text \<open>A statement with what is done with its result.\<close>

definition next_do :: "('a \<Rightarrow> 'b) \<Rightarrow> (database \<Rightarrow> err + 'a \<times> database) \<Rightarrow> database \<Rightarrow> err + 'b \<times> database" where
  "next_do g q d = (case q d of Inl e \<Rightarrow> Inl e | Inr (x, d') \<Rightarrow> Inr (g x, d'))"

lemma next_do_fold [simp]: "map_sum id (map_prod g id) \<circ> q = next_do g q"
  by (rule ext) (auto simp: next_do_def split: sum.splits)

lemma next_do_next_do [simp]: "next_do g (next_do f q) = next_do (\<lambda>x. g (f x)) q"
  by (rule ext) (auto simp: next_do_def split: sum.splits)

lemma run_stmt_next_do:
  "run_stmt E In_Tx (next_do g q) w =
     (case run_stmt E In_Tx q w of
        (Ok x, w') \<Rightarrow> (Ok (g x), w') | (Err e, w') \<Rightarrow> (Err e, w') | (Panic v, w') \<Rightarrow> (Panic v, w'))"
  by (auto simp: run_stmt_def next_do_def Let_def split: option.splits sum.splits)

lemma run_s_stmt [simp]: "run_script E (s_stmt ls q) = run_stmt E In_Tx q"
  by (rule ext) (auto simp: s_stmt_def run_stmt_next_do ret_def fail_def split: prod.splits outcome.splits)

lemma run_s_basic [simp]:
  "run_script E (s_now E') = now E'" "run_script E (s_new_id E') = new_id E'"
  "run_script E (s_lift r) = lift_sum r" "run_script E (s_check c) = check c"
  "run_script E (s_rand_read E' k) = rand_read E' k"
  by (auto simp: fun_eq_iff s_now_def s_new_id_def s_lift_def s_check_def s_rand_read_def now_def new_id_def
      lift_sum_def check_def rand_read_def ret_def fail_def split: sum.splits option.splits)

lemma bind_case_outcome:
  "bind (\<lambda>w. case m w of (Ok x, w') \<Rightarrow> f x w' | (Err e, w') \<Rightarrow> g e w' | (Panic v, w') \<Rightarrow> (Panic v, w')) k =
   (\<lambda>w. case m w of (Ok x, w') \<Rightarrow> bind (f x) k w' | (Err e, w') \<Rightarrow> bind (g e) k w' | (Panic v, w') \<Rightarrow> (Panic v, w'))"
  by (rule ext) (auto simp: bind_def split: prod.splits outcome.splits)

lemma run_sbind [simp]: "run_script E (sbind s f) = bind (run_script E s) (\<lambda>x. run_script E (f x))"
proof (induction s)
  case (Stmt ls q h)
  have step: "run_script E (sbind k f) = bind (run_script E k) (\<lambda>x. run_script E (f x))"
    if "q d = Inr (k, d')" for d k d'
    using Stmt.IH(1) [OF rangeI, of "(k, d')" d k] that by simp
  show ?case
  proof (rule ext)
    fix w
    show "run_script E (sbind (Stmt ls q h) f) w =
        bind (run_script E (Stmt ls q h)) (\<lambda>x. run_script E (f x)) w"
      using step Stmt.IH(2) [OF rangeI]
      by (auto simp: run_stmt_def next_do_def Let_def bind_def fun_eq_iff split: option.splits sum.splits)
  qed
next
  case (Draw g)
  then show ?case by (auto simp: bind_def fun_eq_iff)
qed (auto simp: bind_def fun_eq_iff ret_def fail_def)

lemma run_s_catch [simp]: "run_script E (s_catch s g) = catch (run_script E s) (\<lambda>e. run_script E (g e))"
proof (induction s)
  case (Stmt ls q h)
  have step: "run_script E (s_catch k g) = catch (run_script E k) (\<lambda>e. run_script E (g e))"
    if "q d = Inr (k, d')" for d k d'
    using Stmt.IH(1) [OF rangeI, of "(k, d')" d k] that by simp
  show ?case
  proof (rule ext)
    fix w
    show "run_script E (s_catch (Stmt ls q h) g) w =
        catch (run_script E (Stmt ls q h)) (\<lambda>e. run_script E (g e)) w"
      using step Stmt.IH(2) [OF rangeI]
      by (auto simp: run_stmt_def next_do_def Let_def catch_def fun_eq_iff split: option.splits sum.splits)
  qed
next
  case (Draw f)
  then show ?case by (auto simp: catch_def fun_eq_iff)
qed (auto simp: catch_def fun_eq_iff ret_def fail_def)

text \<open>A transaction's function is only called inside a transaction.\<close>

lemma RunInTransaction_script:
  assumes "fn In_Tx = run_script E s"
  shows "RunInTransaction E No_Tx fn = RunInTransaction E No_Tx (\<lambda>_. run_script E s)"
  by (rule ext) (simp only: RunInTransaction_def runInTx_def assms ctx.case)

section \<open>The use cases as scripts\<close>

definition s_generate_token :: "env \<Rightarrow> secret_manager \<Rightarrow> int \<Rightarrow> (string \<times> string) script" where
  "s_generate_token E sm n =
     (if n < 0 \<or> n > push_bit 20 1 then Fail (External ''crypto: invalid length'')
      else sbind (s_rand_read E (nat n)) (\<lambda>buf.
           Return (b32_encode buf, generateHashBase32 (lib E) sm (b32_encode buf))))"

lemma run_generate_token [simp]:
  "run_script E (s_generate_token E sm n) = SecretManager_GenerateToken E sm n"
  by (rule ext) (auto simp: s_generate_token_def SecretManager_GenerateToken_def
      generateRandomBase32_def SecretManager_GenerateHash_def bind_def fail_def ret_def
      split: prod.splits outcome.splits)

definition s_create_invite_tx :: "env \<Rightarrow> create_invite \<Rightarrow> uuid \<Rightarrow> time \<Rightarrow> (string \<times> time) script" where
  "s_create_invite_tx E ci u t =
     sbind (s_stmt [Advisory (uuid_str (lib E) u)] (LockUserByID (uuid_str (lib E) u))) (\<lambda>_.
     sbind (s_stmt [] (CountActiveInvitesByUser u t)) (\<lambda>active.
     sbind (s_check (CanIssue (ci_policy ci) active)) (\<lambda>_.
     sbind (s_generate_token E (ci_tokens ci) inviteCodeLength) (\<lambda>(rawCode, hash).
     sbind (s_new_id E) (\<lambda>i.
     sbind (s_lift (invite_New i u hash (ci_ttl ci) t)) (\<lambda>inv.
     sbind (s_stmt [Invite_Row (inv_id inv), Invite_Hash (inv_code_hash inv)] (SaveInvite (inviteToRow inv))) (\<lambda>_.
     Return (rawCode, inv_expires_at inv))))))))"

definition s_create_invite :: "env \<Rightarrow> create_invite \<Rightarrow> uuid \<Rightarrow> (string \<times> time) script" where
  "s_create_invite E ci u = sbind (s_now E) (s_create_invite_tx E ci u)"

lemma bind_assoc: "bind (bind m f) g = bind m (\<lambda>x. bind (f x) g)"
  by (rule ext) (auto simp: bind_def split: prod.splits outcome.splits)

text \<open>One after the other, the scripts are the use cases.\<close>

lemma run_s_create_invite_tx:
  "run_script E (s_create_invite_tx E ci u t) = create_invite_tx E ci u t In_Tx"
  by (simp add: s_create_invite_tx_def InviteRepository_CountActiveByUser_def bind_assoc
      InviteRepository_Save_def split_def)

lemma create_invite_script:
  "CreateInvite_Execute E ci No_Tx u =
   bind (now E) (\<lambda>t. RunInTransaction E No_Tx (\<lambda>_. run_script E (s_create_invite_tx E ci u t)))"
proof -
  have "RunInTransaction E No_Tx (create_invite_tx E ci u t) =
      RunInTransaction E No_Tx (\<lambda>_. run_script E (s_create_invite_tx E ci u t))" for t
    by (rule RunInTransaction_script) (simp only: run_s_create_invite_tx)
  then show ?thesis by (simp add: CreateInvite_Execute_def)
qed

section \<open>Steps\<close>

record 'a proc =
  pr_script :: "'a script"
  pr_log :: "(database \<Rightarrow> database) list"
  pr_aborted :: bool
  pr_result :: "'a outcome option"

record 'a conc =
  cs_db :: database
  cs_locks :: "lock \<Rightarrow> nat option"
  cs_tick :: nat
  cs_procs :: "nat \<Rightarrow> 'a proc"

definition started :: "'a script \<Rightarrow> 'a proc" where
  "started s = \<lparr>pr_script = s, pr_log = [], pr_aborted = False, pr_result = None\<rparr>"

text \<open>What a statement of a transaction sees: the committed data with its own writes.\<close>

definition view :: "database \<Rightarrow> (database \<Rightarrow> database) list \<Rightarrow> database" where
  "view d log = fold (\<lambda>f d. f d) log d"

definition write_of :: "(database \<Rightarrow> err + 'a \<times> database) \<Rightarrow> database \<Rightarrow> database" where
  "write_of q d = (case q d of Inl e \<Rightarrow> d | Inr (x, d') \<Rightarrow> d')"

definition can_take :: "(lock \<Rightarrow> nat option) \<Rightarrow> nat \<Rightarrow> lock list \<Rightarrow> bool" where
  "can_take locks p ls \<longleftrightarrow> list_all (\<lambda>l. locks l = None \<or> locks l = Some p) ls"

definition take_locks :: "(lock \<Rightarrow> nat option) \<Rightarrow> nat \<Rightarrow> lock list \<Rightarrow> lock \<Rightarrow> nat option" where
  "take_locks locks p ls l = (if l \<in> set ls then Some p else locks l)"

definition free_locks :: "(lock \<Rightarrow> nat option) \<Rightarrow> nat \<Rightarrow> lock \<Rightarrow> nat option" where
  "free_locks locks p l = (if locks l = Some p then None else locks l)"

text \<open>One transaction moves; every step takes a tick.\<close>

definition put_proc :: "'a conc \<Rightarrow> nat \<Rightarrow> 'a proc \<Rightarrow> 'a conc" where
  "put_proc s p r = s\<lparr>cs_tick := Suc (cs_tick s), cs_procs := (cs_procs s)(p := r)\<rparr>"

text \<open>A transaction ends with a result, without its locks.\<close>

definition finish :: "'a conc \<Rightarrow> nat \<Rightarrow> 'a outcome \<Rightarrow> 'a conc" where
  "finish s p r =
     (put_proc s p ((cs_procs s p)\<lparr>pr_result := Some r\<rparr>))\<lparr>cs_locks := free_locks (cs_locks s) p\<rparr>"

text \<open>
  The steps: a draw; a statement that succeeds, that fails or is refused after a failure; commit,
  which may fail; rollback. Any statement and any commit may fail for a reason outside the model.
\<close>

inductive cstep :: "'a conc \<Rightarrow> 'a conc \<Rightarrow> bool" where
  draw: "pr_result (cs_procs s p) = None \<Longrightarrow> pr_script (cs_procs s p) = Draw f \<Longrightarrow>
    cstep s (put_proc s p ((cs_procs s p)\<lparr>pr_script := f (cs_tick s)\<rparr>))"
| stmt: "pr_result (cs_procs s p) = None \<Longrightarrow> pr_script (cs_procs s p) = Stmt ls q h \<Longrightarrow>
    \<not> pr_aborted (cs_procs s p) \<Longrightarrow> can_take (cs_locks s) p ls \<Longrightarrow>
    q (view (cs_db s) (pr_log (cs_procs s p))) = Inr (k, d) \<Longrightarrow>
    cstep s ((put_proc s p ((cs_procs s p)\<lparr>pr_script := k, pr_log := pr_log (cs_procs s p) @ [write_of q]\<rparr>))
      \<lparr>cs_locks := take_locks (cs_locks s) p ls\<rparr>)"
| stmt_error: "pr_result (cs_procs s p) = None \<Longrightarrow> pr_script (cs_procs s p) = Stmt ls q h \<Longrightarrow>
    cstep s (put_proc s p ((cs_procs s p)\<lparr>pr_script := h e, pr_aborted := True\<rparr>))"
| commit: "pr_result (cs_procs s p) = None \<Longrightarrow> pr_script (cs_procs s p) = Return x \<Longrightarrow>
    \<not> pr_aborted (cs_procs s p) \<Longrightarrow>
    cstep s ((finish s p (Ok x))\<lparr>cs_db := view (cs_db s) (pr_log (cs_procs s p))\<rparr>)"
| commit_error: "pr_result (cs_procs s p) = None \<Longrightarrow> pr_script (cs_procs s p) = Return x \<Longrightarrow>
    cstep s (finish s p (Err e))"
| roll_back: "pr_result (cs_procs s p) = None \<Longrightarrow> pr_script (cs_procs s p) = Fail e \<Longrightarrow>
    cstep s (finish s p (Err e'))"

text \<open>Any number of transactions, each with a script of its own.\<close>

definition conc_start :: "(nat \<Rightarrow> 'a script) \<Rightarrow> nat \<Rightarrow> database \<Rightarrow> 'a conc" where
  "conc_start scripts n d =
     \<lparr>cs_db = d, cs_locks = (\<lambda>_. None), cs_tick = n, cs_procs = (\<lambda>p. started (scripts p))\<rparr>"

inductive conc_reachable :: "'a conc \<Rightarrow> 'a conc \<Rightarrow> bool" for s0 where
  initial: "conc_reachable s0 s0"
| more: "conc_reachable s0 s \<Longrightarrow> cstep s s' \<Longrightarrow> conc_reachable s0 s'"

inductive_cases cstepE: "cstep s s'"

lemma conc_invariant:
  assumes "conc_reachable s0 s" and "I s0" and "\<And>s s'. I s \<Longrightarrow> cstep s s' \<Longrightarrow> I s'"
  shows "I s"
  using assms(1,2) by induction (auto intro: assms(3))


section \<open>A transaction that is left alone\<close>

text \<open>
  Where nobody else holds a lock, a transaction can run a part of its script without interruption,
  and does what the part does as an action.
\<close>

lemma run_stmt_aborted: "aborted w \<Longrightarrow> aborted (snd (run_stmt E In_Tx q w))"
  by (auto simp: run_stmt_def Let_def split: option.splits sum.splits)

lemma run_script_aborted: "aborted w \<Longrightarrow> aborted (snd (run_script E s w))"
proof (induction s arbitrary: w)
  case (Stmt ls q h)
  show ?case
  proof (cases "run_stmt E In_Tx (map_sum id (map_prod (run_script E) id) \<circ> q) w")
    case (Pair r w')
    with Stmt.prems run_stmt_aborted have w': "aborted w'" by (metis snd_conv)
    have "r \<noteq> Ok x" for x using Pair Stmt.prems by (auto simp: run_stmt_def Let_def split: option.splits)
    with Pair Stmt.IH(2) [OF rangeI w'] w' show ?thesis by (cases r) auto
  qed
qed (auto simp: ret_def fail_def)

definition nobody_else :: "(lock \<Rightarrow> nat option) \<Rightarrow> nat \<Rightarrow> bool" where
  "nobody_else locks p \<longleftrightarrow> (\<forall>l. locks l = None \<or> locks l = Some p)"

text \<open>The transaction \<open>p\<close> has come to \<open>k\<close>, with \<open>w\<close> as its world; the others are as in \<open>s\<close>.\<close>

definition come_to :: "'a conc \<Rightarrow> nat \<Rightarrow> 'a script \<Rightarrow> world \<Rightarrow> 'a conc \<Rightarrow> bool" where
  "come_to s p k w s' \<longleftrightarrow>
     pr_script (cs_procs s' p) = k \<and> pr_result (cs_procs s' p) = None \<and> \<not> pr_aborted (cs_procs s' p) \<and>
     (\<forall>q. q \<noteq> p \<longrightarrow> cs_procs s' q = cs_procs s q) \<and> cs_db s' = cs_db s \<and> cs_tick s' = tick w \<and>
     work w = Some (view (cs_db s') (pr_log (cs_procs s' p))) \<and> \<not> aborted w"

lemma come_toD:
  assumes "come_to s p k w s'"
  shows "pr_script (cs_procs s' p) = k" "pr_result (cs_procs s' p) = None" "\<not> pr_aborted (cs_procs s' p)"
    and "q \<noteq> p \<Longrightarrow> cs_procs s' q = cs_procs s q" and "cs_db s' = cs_db s" and "cs_tick s' = tick w"
  using assms by (simp_all add: come_to_def)

lemma view_append: "view d (log @ [f]) = f (view d log)"
  by (simp add: view_def)

lemma conc_reachable_trans: "conc_reachable s1 s2 \<Longrightarrow> conc_reachable s0 s1 \<Longrightarrow> conc_reachable s0 s2"
  by (induction rule: conc_reachable.induct) (auto intro: conc_reachable.more)

lemma conc_reachable_step: "cstep s s' \<Longrightarrow> conc_reachable s s'"
  by (rule conc_reachable.more [OF conc_reachable.initial])

text \<open>Time goes on.\<close>

lemma cstep_tick: "cstep s s' \<Longrightarrow> cs_tick s' = Suc (cs_tick s)"
  by (erule cstepE) (simp_all add: finish_def put_proc_def)

lemma conc_tick_mono: "conc_reachable s0 s \<Longrightarrow> cs_tick s0 \<le> cs_tick s"
  by (induction rule: conc_reachable.induct) (simp_all add: cstep_tick)

text \<open>A part that only reads, without locks, can run whatever the others hold.\<close>

inductive reading :: "'a script \<Rightarrow> bool" where
  Return: "reading (Return x)"
| Fail: "reading (Fail e)"
| Draw: "(\<And>n. reading (f n)) \<Longrightarrow> reading (Draw f)"
| Stmt: "(\<And>d k d'. q d = Inr (k, d') \<Longrightarrow> d' = d \<and> reading k) \<Longrightarrow> (\<And>e. reading (h e)) \<Longrightarrow>
    reading (Stmt [] q h)"

inductive_simps reading_simps [simp]:
  "reading (Return x)" "reading (Fail e)" "reading (Draw f)" "reading (Stmt ls q h)"

lemma reading_sbind: "reading s \<Longrightarrow> (\<And>x. reading (f x)) \<Longrightarrow> reading (sbind s f)"
  by (induction rule: reading.induct) (auto simp: next_do_def split: sum.splits)

lemma reading_catch: "reading s \<Longrightarrow> (\<And>e. reading (g e)) \<Longrightarrow> reading (s_catch s g)"
  by (induction rule: reading.induct) (auto simp: next_do_def split: sum.splits)

lemma reading_now [simp]: "reading (s_now E)"
  by (simp add: s_now_def)

lemma reading_stmt: "(\<And>d x d'. q d = Inr (x, d') \<Longrightarrow> d' = d) \<Longrightarrow> reading (s_stmt [] q)"
  by (auto simp: s_stmt_def next_do_def split: sum.splits)

lemma sbind_assoc: "sbind (sbind s f) g = sbind s (\<lambda>x. sbind (f x) g)"
proof (induction s)
  case (Stmt ls q h)
  have "next_do (\<lambda>s. sbind (sbind s f) g) q d = next_do (\<lambda>s. sbind s (\<lambda>x. sbind (f x) g)) q d" for d
    using Stmt.IH(1) [OF rangeI, of _ d] by (auto simp: next_do_def split: sum.splits)
  with Stmt.IH(2) [OF rangeI] show ?case by (auto simp: fun_eq_iff)
qed auto

lemma run_alone:
  assumes "run_script E a w = (Ok x, w')" and "\<not> aborted w'"
    and "reading a \<or> nobody_else (cs_locks s) p" and "come_to s p (sbind a f) w s"
  shows "\<exists>s'. conc_reachable s s' \<and> come_to s p (f x) w' s' \<and>
    (reading a \<longrightarrow> cs_locks s' = cs_locks s \<and>
      (\<forall>d. view d (pr_log (cs_procs s' p)) = view d (pr_log (cs_procs s p)))) \<and>
    (nobody_else (cs_locks s) p \<longrightarrow> nobody_else (cs_locks s') p)"
  using assms
proof (induction a arbitrary: w s)
  case (Return y)
  then show ?case by (auto simp: ret_def intro: conc_reachable.initial)
next
  case (Fail e)
  then show ?case by (simp add: fail_def)
next
  case (Draw g)
  let ?s = "put_proc s p ((cs_procs s p)\<lparr>pr_script := sbind (g (tick w)) f\<rparr>)"
  from Draw.prems have step: "cstep s ?s"
    using cstep.draw [of s p "\<lambda>n. sbind (g n) f"] by (simp add: come_to_def)
  have "come_to ?s p (sbind (g (tick w)) f) (w\<lparr>tick := Suc (tick w)\<rparr>) ?s" "cs_locks ?s = cs_locks s"
      "pr_log (cs_procs ?s p) = pr_log (cs_procs s p)"
    using Draw.prems(4) by (simp_all add: come_to_def put_proc_def)
  then obtain s' where s': "conc_reachable ?s s'" "come_to ?s p (f x) w' s'"
      "reading (g (tick w)) \<longrightarrow> cs_locks s' = cs_locks s \<and>
        (\<forall>d. view d (pr_log (cs_procs s' p)) = view d (pr_log (cs_procs s p)))"
      "nobody_else (cs_locks s) p \<longrightarrow> nobody_else (cs_locks s') p"
    using Draw.IH [OF rangeI, of "tick w" "w\<lparr>tick := Suc (tick w)\<rparr>" ?s] Draw.prems(1-3) by auto
  from s'(2) have "come_to s p (f x) w' s'" by (simp add: come_to_def put_proc_def)
  with conc_reachable_trans [OF s'(1) conc_reachable_step [OF step]] s'(3,4) show ?case by auto
next
  case (Stmt ls q h)
  let ?r = "cs_procs s p"
  from Stmt.prems(4) have w: "work w = Some (view (cs_db s) (pr_log ?r))" "\<not> aborted w" "tick w = cs_tick s"
    by (auto simp: come_to_def)
  have failed: "run_script E (h e) w1 \<noteq> (Ok x, w')" if "aborted w1" for e w1
    using run_script_aborted [OF that, of E "h e"] Stmt.prems(2) by auto
  have ok: "stmt_fault E (tick w) = None \<and> (\<exists>k d. q (view (cs_db s) (pr_log ?r)) = Inr (k, d))"
  proof (rule ccontr)
    assume "\<not> ?thesis"
    then have "\<exists>e w1. aborted w1 \<and> run_stmt E In_Tx (next_do (run_script E) q) w = (Err e, w1)"
      using w by (auto simp: run_stmt_def next_do_def Let_def split: option.splits sum.splits)
    with Stmt.prems(1) failed show False by auto
  qed
  then obtain k d where q: "q (view (cs_db s) (pr_log ?r)) = Inr (k, d)" by blast
  let ?s = "(put_proc s p (?r\<lparr>pr_script := sbind k f, pr_log := pr_log ?r @ [write_of q]\<rparr>))
    \<lparr>cs_locks := take_locks (cs_locks s) p ls\<rparr>"
  let ?w = "w\<lparr>tick := Suc (tick w), work := Some d\<rparr>"
  let ?q = "next_do (\<lambda>s. sbind s f) q"
  have log: "write_of ?q = write_of q"
    by (rule ext) (auto simp: write_of_def next_do_def split: sum.splits)
  have "can_take (cs_locks s) p ls"
    using Stmt.prems(3) by (auto simp: can_take_def nobody_else_def list_all_iff)
  then have step: "cstep s ?s"
    using cstep.stmt [of s p ls ?q "\<lambda>e. sbind (h e) f" "sbind k f" d] Stmt.prems(4) q
    by (simp add: come_to_def next_do_def log)
  have locks: "reading (Stmt ls q h) \<longrightarrow> reading k \<and> cs_locks ?s = cs_locks s \<and>
      (\<forall>d. view d (pr_log (cs_procs ?s p)) = view d (pr_log ?r))"
  proof
    assume only: "reading (Stmt ls q h)"
    then have "write_of q d = d" for d by (auto simp: write_of_def split: sum.splits)
    with only q show "reading k \<and> cs_locks ?s = cs_locks s \<and>
        (\<forall>d. view d (pr_log (cs_procs ?s p)) = view d (pr_log ?r))"
      by (auto simp: take_locks_def put_proc_def view_append)
  qed
  have alone: "nobody_else (cs_locks s) p \<longrightarrow> nobody_else (cs_locks ?s) p"
    by (simp add: nobody_else_def take_locks_def)
  have "\<exists>s'. conc_reachable ?s s' \<and> come_to ?s p (f x) w' s' \<and>
    (reading k \<longrightarrow> cs_locks s' = cs_locks ?s \<and>
      (\<forall>d. view d (pr_log (cs_procs s' p)) = view d (pr_log (cs_procs ?s p)))) \<and>
    (nobody_else (cs_locks ?s) p \<longrightarrow> nobody_else (cs_locks s') p)"
  proof (rule Stmt.IH(1) [OF rangeI])
    show "(k, d) \<in> Basic_BNFs.setr (q (view (cs_db s) (pr_log ?r)))" "k \<in> Basic_BNFs.fsts (k, d)"
      by (simp_all add: q)
    show "run_script E k ?w = (Ok x, w')"
      using Stmt.prems(1) w ok q by (simp add: run_stmt_def next_do_def Let_def)
    show "reading k \<or> nobody_else (cs_locks ?s) p" using Stmt.prems(3) locks alone by blast
    show "come_to ?s p (sbind k f) ?w ?s"
      using Stmt.prems(4) q by (simp add: come_to_def put_proc_def view_append write_of_def)
  qed (rule Stmt.prems(2))
  then obtain s' where s': "conc_reachable ?s s'" "come_to ?s p (f x) w' s'"
      "reading k \<longrightarrow> cs_locks s' = cs_locks ?s \<and>
        (\<forall>d. view d (pr_log (cs_procs s' p)) = view d (pr_log (cs_procs ?s p)))"
      "nobody_else (cs_locks ?s) p \<longrightarrow> nobody_else (cs_locks s') p" by blast
  from s'(2) have "come_to s p (f x) w' s'" by (simp add: come_to_def put_proc_def)
  moreover have "conc_reachable s s'" by (rule conc_reachable_trans [OF s'(1) conc_reachable_step [OF step]])
  ultimately show ?case using s'(3,4) locks alone by (intro exI [of _ s']) simp
qed

lemma sbind_Return [simp]: "sbind s Return = s"
proof (induction s)
  case (Stmt ls q h)
  have "next_do (\<lambda>s. sbind s Return) q d = q d" for d
    using Stmt.IH(1) [OF rangeI, of _ d] by (auto simp: next_do_def split: sum.splits)
  with Stmt.IH(2) [OF rangeI] show ?case by (auto simp: fun_eq_iff)
qed auto

text \<open>At the end of its script it commits.\<close>

lemma commit_alone:
  assumes "come_to s p (Return x) w s'" and "nobody_else (cs_locks s') p"
  shows "\<exists>s''. cstep s' s'' \<and> Some (cs_db s'') = work w \<and> cs_tick s'' = Suc (tick w) \<and>
    cs_locks s'' = (\<lambda>_. None) \<and> pr_result (cs_procs s'' p) = Some (Ok x) \<and>
    (\<forall>q. q \<noteq> p \<longrightarrow> cs_procs s'' q = cs_procs s q)"
  using assms cstep.commit [of s' p x]
  by (intro exI [of _ "(finish s' p (Ok x))\<lparr>cs_db := view (cs_db s') (pr_log (cs_procs s' p))\<rparr>"])
    (auto simp: come_to_def finish_def put_proc_def free_locks_def nobody_else_def fun_eq_iff)

lemma transaction_alone:
  assumes "run_script E a w = (Ok x, w')" and "\<not> aborted w'" and "nobody_else (cs_locks s) p"
    and "come_to s p a w s"
  shows "\<exists>s'. conc_reachable s s' \<and> Some (cs_db s') = work w' \<and> cs_tick s' = Suc (tick w') \<and>
    cs_locks s' = (\<lambda>_. None) \<and> pr_result (cs_procs s' p) = Some (Ok x) \<and>
    (\<forall>q. q \<noteq> p \<longrightarrow> cs_procs s' q = cs_procs s q)"
proof -
  from run_alone [OF assms(1,2), of s p Return] assms(3,4) obtain s1
    where "conc_reachable s s1" and s1: "come_to s p (Return x) w' s1" "nobody_else (cs_locks s1) p" by auto
  moreover from commit_alone [OF s1] obtain s2
    where "cstep s1 s2" "Some (cs_db s2) = work w'" "cs_tick s2 = Suc (tick w')" "cs_locks s2 = (\<lambda>_. None)"
      "pr_result (cs_procs s2 p) = Some (Ok x)" "\<forall>q. q \<noteq> p \<longrightarrow> cs_procs s2 q = cs_procs s q" by blast
  ultimately show ?thesis using conc_reachable.more [of s s1 s2] by blast
qed

end
