(* ===== verification/Concurrent_Invites.thy ===== *)
theory Concurrent_Invites
  imports Concurrency
begin

text \<open>
  Any number of users and requests that create invites at the same time: the advisory lock on the
  user keeps the limit. Each transaction is followed through its phases; the invariant says what a
  transaction that has counted still knows when it writes.
\<close>

section \<open>The script, step by step\<close>

definition save_s :: "string \<Rightarrow> invite \<Rightarrow> (string \<times> time) script" where
  "save_s raw v =
     Stmt [Invite_Row (inv_id v), Invite_Hash (inv_code_hash v)]
       (next_do (\<lambda>_. Return (raw, inv_expires_at v)) (SaveInvite (inviteToRow v))) Fail"

definition name_s :: "env \<Rightarrow> create_invite \<Rightarrow> uuid \<Rightarrow> time \<Rightarrow> string \<Rightarrow> string \<Rightarrow> (string \<times> time) script" where
  "name_s E ci u t raw hash =
     Draw (\<lambda>n. case invite_New (next_uuid E n) u hash (ci_ttl ci) t of
       Inl e \<Rightarrow> Fail e | Inr v \<Rightarrow> save_s raw v)"

definition code_s :: "env \<Rightarrow> create_invite \<Rightarrow> uuid \<Rightarrow> time \<Rightarrow> (string \<times> time) script" where
  "code_s E ci u t =
     Draw (\<lambda>n. case entropy E n 32 of
       Inl e \<Rightarrow> Fail e
     | Inr buf \<Rightarrow> name_s E ci u t (b32_encode buf) (generateHashBase32 (lib E) (ci_tokens ci) (b32_encode buf)))"

definition count_s :: "env \<Rightarrow> create_invite \<Rightarrow> uuid \<Rightarrow> time \<Rightarrow> (string \<times> time) script" where
  "count_s E ci u t =
     Stmt [] (next_do (\<lambda>active. case CanIssue (ci_policy ci) active of
         Some e \<Rightarrow> Fail e | None \<Rightarrow> code_s E ci u t) (CountActiveInvitesByUser u t)) Fail"

lemma sbind_s_stmt: "sbind (s_stmt ls q) f = Stmt ls (next_do f q) Fail"
  by (simp add: s_stmt_def)

lemma sbind_s_lift: "sbind (s_lift r) f = (case r of Inl e \<Rightarrow> Fail e | Inr x \<Rightarrow> f x)"
  by (simp add: s_lift_def split: sum.split)

lemma sbind_s_check: "sbind (s_check r) f = (case r of None \<Rightarrow> f () | Some e \<Rightarrow> Fail e)"
  by (simp add: s_check_def split: option.split)

lemma create_invite_tx_steps:
  "s_create_invite_tx E ci u t =
     Stmt [Advisory (uuid_str (lib E) u)]
       (next_do (\<lambda>_. count_s E ci u t) (LockUserByID (uuid_str (lib E) u))) Fail"
  by (simp add: s_create_invite_tx_def sbind_s_stmt sbind_s_check sbind_s_lift s_generate_token_def
      inviteCodeLength_def push_bit_eq_mult s_rand_read_def s_new_id_def count_s_def code_s_def name_s_def
      save_s_def s_lift_def if_distrib sum.case_distrib [of "\<lambda>s. sbind s _"] cong: option.case_cong sum.case_cong)

lemma create_invite_steps:
  "s_create_invite E ci u = Draw (\<lambda>n. s_create_invite_tx E ci u (clock E n))"
  by (simp add: s_create_invite_def s_now_def)

section \<open>Phases\<close>

text \<open>
  Where a transaction is: not begun or past harm, begun at an instant, with the lock, having counted
  below the limit, having made an invite, having written it.
\<close>

datatype phase =
    Idle
  | Begun time
  | Locked time
  | Counted time
  | Named time nat invite
  | Written time nat invite

definition running :: "'a script \<Rightarrow> (database \<Rightarrow> database) list \<Rightarrow> 'a proc" where
  "running s log = \<lparr>pr_script = s, pr_log = log, pr_aborted = False, pr_result = None\<rparr>"

lemma running_sel [simp]:
  "pr_script (running s log) = s" "pr_log (running s log) = log" "\<not> pr_aborted (running s log)"
  "pr_result (running s log) = None"
  "running s log\<lparr>pr_script := s'\<rparr> = running s' log"
  "running s log\<lparr>pr_script := s', pr_log := log'\<rparr> = running s' log'"
  "running s log\<lparr>pr_log := log'\<rparr> = running s log'"
  by (simp_all add: running_def)

definition made_by :: "env \<Rightarrow> uuid \<Rightarrow> time \<Rightarrow> nat \<Rightarrow> invite \<Rightarrow> bool" where
  "made_by E u t n v \<longleftrightarrow> inv_id v = next_uuid E n \<and> inv_created_by v = u \<and> inv_used_at v = None"

inductive at_phase :: "env \<Rightarrow> create_invite \<Rightarrow> uuid \<Rightarrow> (string \<times> time) proc \<Rightarrow> phase \<Rightarrow> bool"
  for E ci u where
  idle: "at_phase E ci u (running (s_create_invite E ci u) []) Idle"
| begun: "at_phase E ci u (running (s_create_invite_tx E ci u t) []) (Begun t)"
| locked: "at_phase E ci u (running (count_s E ci u t) [id]) (Locked t)"
| counted: "at_phase E ci u (running (code_s E ci u t) [id, id]) (Counted t)"
| coded: "at_phase E ci u (running (name_s E ci u t raw hash) [id, id]) (Counted t)"
| named: "made_by E u t n v \<Longrightarrow> at_phase E ci u (running (save_s raw v) [id, id]) (Named t n v)"
| written: "made_by E u t n v \<Longrightarrow>
    at_phase E ci u (running (Return x) [id, id, write_of (SaveInvite (inviteToRow v))]) (Written t n v)"
| failing: "pr_script r = Fail e \<Longrightarrow> at_phase E ci u r Idle"
| over: "pr_result r \<noteq> None \<Longrightarrow> at_phase E ci u r Idle"

inductive_cases at_phaseE: "at_phase E ci u r ph"

lemma write_of_next_do [simp]: "write_of (next_do f q) = write_of q"
  by (rule ext) (auto simp: write_of_def next_do_def split: sum.splits)

lemma write_of_reads [simp]:
  "write_of (LockUserByID x) = id" "write_of (CountActiveInvitesByUser u t) = id"
  by (auto simp: fun_eq_iff write_of_def LockUserByID_def CountActiveInvitesByUser_def)

lemma view_simps [simp]:
  "view d [] = d" "view d [id] = d" "view d [id, id] = d" "view d [id, id, f] = f d"
  by (simp_all add: view_def)

text \<open>A draw: the transaction begins, goes on, or makes an invite with the next identifier.\<close>

lemma draw_phase:
  assumes "at_phase E ci u r ph" and "pr_result r = None" and "pr_script r = Draw f"
  shows "\<exists>ph'. at_phase E ci u (r\<lparr>pr_script := f n\<rparr>) ph' \<and>
    (ph' = Idle \<or> ph = Idle \<and> ph' = Begun (clock E n) \<or> ph' = ph \<and> (\<exists>t. ph = Counted t) \<or>
     (\<exists>t v. ph = Counted t \<and> ph' = Named t n v \<and> made_by E u t n v))"
  using assms
proof (cases rule: at_phase.cases)
  case idle
  with assms(3) show ?thesis
    by (intro exI [of _ "Begun (clock E n)"]) (auto simp: create_invite_steps intro: at_phase.begun)
next
  case (counted t)
  show ?thesis
  proof (cases "entropy E n 32")
    case (Inl e)
    with counted assms(3) show ?thesis
      by (intro exI [of _ Idle]) (auto simp: code_s_def intro: at_phase.failing)
  next
    case (Inr buf)
    with counted assms(3) show ?thesis
      by (intro exI [of _ "Counted t"]) (auto simp: code_s_def intro: at_phase.coded)
  qed
next
  case (coded t raw hash)
  show ?thesis
  proof (cases "invite_New (next_uuid E n) u hash (ci_ttl ci) t")
    case (Inl e)
    with coded assms(3) show ?thesis
      by (intro exI [of _ Idle]) (auto simp: name_s_def intro: at_phase.failing)
  next
    case (Inr v)
    then have v: "made_by E u t n v" by (auto simp: made_by_def invite_New_Inr_iff)
    with Inr coded assms(3) show ?thesis
      by (intro exI [of _ "Named t n v"]) (auto simp: name_s_def intro: at_phase.named)
  qed
qed (auto simp: create_invite_tx_steps count_s_def save_s_def)

text \<open>A statement: the lock, the count on what is committed, the write.\<close>

lemma stmt_phase:
  assumes "at_phase E ci u r ph" and "pr_result r = None" and "pr_script r = Stmt ls q h"
    and "q (view d (pr_log r)) = Inr (k, d')"
  shows "\<exists>ph'. at_phase E ci u (r\<lparr>pr_script := k, pr_log := pr_log r @ [write_of q]\<rparr>) ph' \<and>
    (ph' = Idle \<or>
     (\<exists>t. ph = Begun t \<and> ph' = Locked t \<and> Advisory (uuid_str (lib E) u) \<in> set ls) \<or>
     (\<exists>t. ph = Locked t \<and> ph' = Counted t \<and>
        CanIssue (ci_policy ci) (int (length (open_invites u t d))) = None) \<or>
     (\<exists>t n v. ph = Named t n v \<and> ph' = Written t n v))"
  using assms
proof (cases rule: at_phase.cases)
  case (begun t)
  with assms show ?thesis
    by (intro exI [of _ "Locked t"])
      (auto simp: create_invite_tx_steps next_do_def LockUserByID_def intro: at_phase.locked)
next
  case (locked t)
  let ?n = "int (length (open_invites u t d))"
  from locked assms have k: "k = (case CanIssue (ci_policy ci) ?n of Some e \<Rightarrow> Fail e | None \<Rightarrow> code_s E ci u t)"
    and q: "write_of q = id"
    by (auto simp: count_s_def next_do_def CountActiveInvitesByUser_def open_invites_def)
  show ?thesis
  proof (cases "CanIssue (ci_policy ci) ?n")
    case None
    with locked k q show ?thesis by (intro exI [of _ "Counted t"]) (auto intro: at_phase.counted)
  next
    case (Some e)
    with k show ?thesis by (intro exI [of _ Idle]) (auto intro: at_phase.failing)
  qed
next
  case (named t n v raw)
  with assms have "k = Return (raw, inv_expires_at v)" "write_of q = write_of (SaveInvite (inviteToRow v))"
    by (auto simp: save_s_def next_do_def split: sum.splits)
  with named show ?thesis by (intro exI [of _ "Written t n v"]) (auto intro: at_phase.written)
qed (auto simp: create_invite_steps code_s_def name_s_def)

section \<open>The invariant\<close>

fun phase_time :: "phase \<Rightarrow> time option" where
  "phase_time Idle = None"
| "phase_time (Begun t) = Some t"
| "phase_time (Locked t) = Some t"
| "phase_time (Counted t) = Some t"
| "phase_time (Named t n v) = Some t"
| "phase_time (Written t n v) = Some t"

fun has_lock :: "phase \<Rightarrow> bool" where
  "has_lock Idle = False"
| "has_lock (Begun t) = False"
| "has_lock ph = True"

fun has_counted :: "phase \<Rightarrow> time option" where
  "has_counted (Counted t) = Some t"
| "has_counted (Named t n v) = Some t"
| "has_counted (Written t n v) = Some t"
| "has_counted ph = None"

fun phase_index :: "phase \<Rightarrow> nat option" where
  "phase_index (Named t n v) = Some n"
| "phase_index (Written t n v) = Some n"
| "phase_index ph = None"

text \<open>
  Nobody holds more open invites than the limit, at any instant that is not before one that the clock
  has shown.
\<close>

definition within :: "env \<Rightarrow> int \<Rightarrow> nat \<Rightarrow> database \<Rightarrow> bool" where
  "within E m n d \<longleftrightarrow> (\<forall>u t. (\<forall>k < n. clock E k \<le> t) \<longrightarrow> int (length (open_invites u t d)) \<le> m)"

definition user_lock :: "env \<Rightarrow> uuid \<Rightarrow> lock" where
  "user_lock E u = Advisory (uuid_str (lib E) u)"

definition kept ::
  "env \<Rightarrow> create_invite \<Rightarrow> int \<Rightarrow> uuid set \<Rightarrow> (nat \<Rightarrow> uuid) \<Rightarrow> (string \<times> time) conc \<Rightarrow> (nat \<Rightarrow> phase) \<Rightarrow> bool" where
  "kept E ci m ids us s ph \<longleftrightarrow>
     (\<forall>p. at_phase E ci (us p) (cs_procs s p) (ph p)) \<and>
     (\<forall>p. has_lock (ph p) \<longrightarrow> cs_locks s (user_lock E (us p)) = Some p) \<and>
     (\<forall>p t. phase_time (ph p) = Some t \<longrightarrow> (\<exists>k < cs_tick s. t = clock E k)) \<and>
     (\<forall>p t. has_counted (ph p) = Some t \<longrightarrow> int (length (open_invites (us p) t (cs_db s))) < m) \<and>
     (\<forall>p n. phase_index (ph p) = Some n \<longrightarrow>
        n < cs_tick s \<and> next_uuid E n \<notin> pgi_id ` set (invites (cs_db s)) \<and>
        (\<forall>q. phase_index (ph q) = Some n \<longrightarrow> q = p)) \<and>
     (\<forall>i \<in> set (invites (cs_db s)). pgi_id i \<in> ids \<or> (\<exists>n < cs_tick s. pgi_id i = next_uuid E n)) \<and>
     within E m (cs_tick s) (cs_db s)"

lemma keptD:
  assumes "kept E ci m ids us s ph"
  shows "at_phase E ci (us p) (cs_procs s p) (ph p)"
    and "has_lock (ph p) \<Longrightarrow> cs_locks s (user_lock E (us p)) = Some p"
    and "phase_time (ph p) = Some t \<Longrightarrow> \<exists>k < cs_tick s. t = clock E k"
    and "has_counted (ph p) = Some t \<Longrightarrow> int (length (open_invites (us p) t (cs_db s))) < m"
    and "phase_index (ph p) = Some n \<Longrightarrow> n < cs_tick s"
    and "phase_index (ph p) = Some n \<Longrightarrow> next_uuid E n \<notin> pgi_id ` set (invites (cs_db s))"
    and "phase_index (ph p) = Some n \<Longrightarrow> phase_index (ph q) = Some n \<Longrightarrow> q = p"
    and "i \<in> set (invites (cs_db s)) \<Longrightarrow> pgi_id i \<in> ids \<or> (\<exists>n < cs_tick s. pgi_id i = next_uuid E n)"
    and "within E m (cs_tick s) (cs_db s)"
  using assms unfolding kept_def by blast+

lemma within_later: "within E m n d \<Longrightarrow> n \<le> n' \<Longrightarrow> within E m n' d"
  unfolding within_def by (meson less_le_trans)

text \<open>A step of one transaction that leaves the data alone.\<close>

lemma kept_move:
  assumes kept: "kept E ci m ids us s ph"
    and phase: "at_phase E ci (us p) (cs_procs s' p) ph'"
    and rest: "\<And>q. q \<noteq> p \<Longrightarrow> cs_procs s' q = cs_procs s q" "cs_db s' = cs_db s" "cs_tick s \<le> cs_tick s'"
    and locks: "\<And>q. q \<noteq> p \<Longrightarrow> has_lock (ph q) \<Longrightarrow> cs_locks s' (user_lock E (us q)) = Some q"
      "has_lock ph' \<Longrightarrow> cs_locks s' (user_lock E (us p)) = Some p"
    and time: "\<And>t. phase_time ph' = Some t \<Longrightarrow> \<exists>k < cs_tick s'. t = clock E k"
    and count: "\<And>t. has_counted ph' = Some t \<Longrightarrow> int (length (open_invites (us p) t (cs_db s))) < m"
    and index: "\<And>n. phase_index ph' = Some n \<Longrightarrow>
      n < cs_tick s' \<and> next_uuid E n \<notin> pgi_id ` set (invites (cs_db s)) \<and>
      (\<forall>q. q \<noteq> p \<longrightarrow> phase_index (ph q) \<noteq> Some n)"
  shows "kept E ci m ids us s' (ph(p := ph'))"
proof -
  have later: "\<exists>k < cs_tick s'. P k" if "\<exists>k < cs_tick s. P k" for P
    using that rest(3) by (meson less_le_trans)
  note k = keptD [OF kept]
  have "n < cs_tick s' \<and> next_uuid E n \<notin> pgi_id ` set (invites (cs_db s')) \<and>
      (\<forall>q'. phase_index ((ph(p := ph')) q') = Some n \<longrightarrow> q' = q)"
    if "phase_index ((ph(p := ph')) q) = Some n" for q n
  proof (cases "q = p")
    case True
    then show ?thesis using index [of n] that rest(2) by auto
  next
    case False
    then have q: "phase_index (ph q) = Some n" using that by simp
    have "phase_index ph' \<noteq> Some n" using index [of n] q False by auto
    then show ?thesis using k(5-7) [OF q] False rest(2,3) by auto
  qed
  moreover have "\<forall>q. at_phase E ci (us q) (cs_procs s' q) ((ph(p := ph')) q)"
    using kept phase rest(1) by (simp add: kept_def)
  moreover have "\<forall>q. has_lock ((ph(p := ph')) q) \<longrightarrow> cs_locks s' (user_lock E (us q)) = Some q"
    using locks by simp
  moreover have "\<forall>q t. phase_time ((ph(p := ph')) q) = Some t \<longrightarrow> (\<exists>k < cs_tick s'. t = clock E k)"
    using kept time later by (simp add: kept_def)
  moreover have "\<forall>q t. has_counted ((ph(p := ph')) q) = Some t \<longrightarrow>
      int (length (open_invites (us q) t (cs_db s'))) < m"
    using kept count rest(2) by (simp add: kept_def)
  moreover have "\<forall>i \<in> set (invites (cs_db s')). pgi_id i \<in> ids \<or> (\<exists>n < cs_tick s'. pgi_id i = next_uuid E n)"
    using k(8) later [of "\<lambda>n. pgi_id _ = next_uuid E n"] unfolding rest(2) by blast
  moreover have "within E m (cs_tick s') (cs_db s')"
    using within_later [OF k(9) rest(3)] unfolding rest(2) .
  ultimately show ?thesis unfolding kept_def by blast
qed

text \<open>Idle transactions have nothing to keep.\<close>

lemma kept_idle:
  assumes "kept E ci m ids us s ph" and "at_phase E ci (us p) (cs_procs s' p) Idle"
    and "\<And>q. q \<noteq> p \<Longrightarrow> cs_procs s' q = cs_procs s q" and "cs_db s' = cs_db s" and "cs_tick s \<le> cs_tick s'"
    and "\<And>q. q \<noteq> p \<Longrightarrow> has_lock (ph q) \<Longrightarrow> cs_locks s' (user_lock E (us q)) = Some q"
  shows "kept E ci m ids us s' (ph(p := Idle))"
  by (rule kept_move [OF assms]) simp_all

lemma put_proc_sel [simp]:
  "cs_db (put_proc s p r) = cs_db s" "cs_tick (put_proc s p r) = Suc (cs_tick s)"
  "cs_locks (put_proc s p r) = cs_locks s" "cs_procs (put_proc s p r) = (cs_procs s)(p := r)"
  by (simp_all add: put_proc_def)

lemma finish_sel [simp]:
  "cs_db (finish s p r) = cs_db s" "cs_tick (finish s p r) = Suc (cs_tick s)"
  "cs_locks (finish s p r) = free_locks (cs_locks s) p"
  "cs_procs (finish s p r) = (cs_procs s)(p := (cs_procs s p)\<lparr>pr_result := Some r\<rparr>)"
  by (simp_all add: finish_def)

lemma kept_finish:
  assumes "kept E ci m ids us s ph"
  shows "kept E ci m ids us (finish s p r) (ph(p := Idle))"
proof (rule kept_idle [OF assms])
  fix q
  assume "q \<noteq> p" "has_lock (ph q)"
  then show "cs_locks (finish s p r) (user_lock E (us q)) = Some q"
    using keptD(2) [OF assms, of q] by (simp add: free_locks_def)
qed (auto intro: at_phase.over)

text \<open>The identifiers that the outside hands out up to a tick are new and distinct.\<close>

definition fresh_ids :: "env \<Rightarrow> uuid set \<Rightarrow> nat \<Rightarrow> bool" where
  "fresh_ids E ids n \<longleftrightarrow> inj_on (next_uuid E) {..<n} \<and> next_uuid E ` {..<n} \<inter> ids = {}"

lemma fresh_ids_less: "fresh_ids E ids n \<Longrightarrow> k \<le> n \<Longrightarrow> fresh_ids E ids k"
  unfolding fresh_ids_def by (meson disjoint_iff image_mono inj_on_subset lessThan_subset_iff subsetD)

lemma kept_draw:
  assumes kept: "kept E ci m ids us s ph" and fresh: "fresh_ids E ids (Suc (cs_tick s))"
    and step: "pr_result (cs_procs s p) = None" "pr_script (cs_procs s p) = Draw f"
  shows "\<exists>ph'. kept E ci m ids us (put_proc s p ((cs_procs s p)\<lparr>pr_script := f (cs_tick s)\<rparr>)) ph'"
    (is "\<exists>ph'. kept E ci m ids us ?s ph'")
proof -
  note k = keptD [OF kept]
  let ?n = "cs_tick s"
  from draw_phase [OF k(1) [of p] step, of ?n] obtain ph'
    where phase: "at_phase E ci (us p) ((cs_procs s p)\<lparr>pr_script := f ?n\<rparr>) ph'"
      and ph': "ph' = Idle \<or> ph p = Idle \<and> ph' = Begun (clock E ?n) \<or> ph' = ph p \<and> (\<exists>t. ph p = Counted t) \<or>
        (\<exists>t v. ph p = Counted t \<and> ph' = Named t ?n v \<and> made_by E (us p) t ?n v)" by blast
  have unused: "next_uuid E ?n \<notin> pgi_id ` set (invites (cs_db s))"
  proof
    assume "next_uuid E ?n \<in> pgi_id ` set (invites (cs_db s))"
    then obtain i where i: "i \<in> set (invites (cs_db s))" "pgi_id i = next_uuid E ?n" by auto
    with k(8) [OF i(1)] fresh obtain n where "n < ?n" "next_uuid E n = next_uuid E ?n"
      by (auto simp: fresh_ids_def)
    with fresh show False by (auto simp: fresh_ids_def dest: inj_onD)
  qed
  have "kept E ci m ids us ?s (ph(p := ph'))"
  proof (rule kept_move [OF kept])
    show "at_phase E ci (us p) (cs_procs ?s p) ph'" using phase by simp
    fix q
    show "q \<noteq> p \<Longrightarrow> has_lock (ph q) \<Longrightarrow> cs_locks ?s (user_lock E (us q)) = Some q" using k(2) by simp
  next
    show "has_lock ph' \<Longrightarrow> cs_locks ?s (user_lock E (us p)) = Some p"
      using ph' k(2) [of p] by auto
    show "phase_time ph' = Some t \<Longrightarrow> \<exists>k < cs_tick ?s. t = clock E k" for t
      using ph' k(3) [of p t] by (auto simp: less_Suc_eq)
    show "has_counted ph' = Some t \<Longrightarrow> int (length (open_invites (us p) t (cs_db s))) < m" for t
      using ph' k(4) [of p t] by auto
    show "phase_index ph' = Some n \<Longrightarrow> n < cs_tick ?s \<and>
        next_uuid E n \<notin> pgi_id ` set (invites (cs_db s)) \<and>
        (\<forall>q. q \<noteq> p \<longrightarrow> phase_index (ph q) \<noteq> Some n)" for n
      using ph' unused k(5) [of _ ?n] by auto
  qed simp_all
  then show ?thesis by blast
qed

lemma take_locks_others:
  assumes "can_take locks p ls" and "locks l = Some q" and "q \<noteq> p"
  shows "take_locks locks p ls l = Some q"
  using assms by (auto simp: can_take_def take_locks_def list_all_iff)

lemma take_locks_own: "locks l = Some p \<Longrightarrow> take_locks locks p ls l = Some p"
  by (simp add: take_locks_def)

lemma kept_stmt:
  assumes kept: "kept E ci m ids us s ph" and pol: "ci_policy ci = invite_NewPolicy m"
    and step: "pr_result (cs_procs s p) = None" "pr_script (cs_procs s p) = Stmt ls q h"
      "can_take (cs_locks s) p ls" "q (view (cs_db s) (pr_log (cs_procs s p))) = Inr (k, d)"
  shows "\<exists>ph'. kept E ci m ids us
    ((put_proc s p ((cs_procs s p)\<lparr>pr_script := k, pr_log := pr_log (cs_procs s p) @ [write_of q]\<rparr>))
      \<lparr>cs_locks := take_locks (cs_locks s) p ls\<rparr>) ph'"
    (is "\<exists>ph'. kept E ci m ids us ?s ph'")
proof -
  note kd = keptD [OF kept]
  from stmt_phase [OF kd(1) [of p] step(1,2,4)] obtain ph'
    where phase: "at_phase E ci (us p) (cs_procs ?s p) ph'"
      and ph': "ph' = Idle \<or>
        (\<exists>t. ph p = Begun t \<and> ph' = Locked t \<and> user_lock E (us p) \<in> set ls) \<or>
        (\<exists>t. ph p = Locked t \<and> ph' = Counted t \<and>
           CanIssue (ci_policy ci) (int (length (open_invites (us p) t (cs_db s)))) = None) \<or>
        (\<exists>t n v. ph p = Named t n v \<and> ph' = Written t n v)"
    by (auto simp: user_lock_def)
  have "kept E ci m ids us ?s (ph(p := ph'))"
  proof (rule kept_move [OF kept phase])
    fix q
    show "q \<noteq> p \<Longrightarrow> has_lock (ph q) \<Longrightarrow> cs_locks ?s (user_lock E (us q)) = Some q"
      using take_locks_others [OF step(3) kd(2)] by simp
  next
    show "has_lock ph' \<Longrightarrow> cs_locks ?s (user_lock E (us p)) = Some p"
      using ph' kd(2) [of p] by (auto simp: take_locks_def)
    show "phase_time ph' = Some t \<Longrightarrow> \<exists>k < cs_tick ?s. t = clock E k" for t
      using ph' kd(3) [of p t] by (auto simp: less_Suc_eq)
    show "has_counted ph' = Some t \<Longrightarrow> int (length (open_invites (us p) t (cs_db s))) < m" for t
      using ph' kd(4) [of p t] pol by auto
    show "phase_index ph' = Some n \<Longrightarrow> n < cs_tick ?s \<and>
        next_uuid E n \<notin> pgi_id ` set (invites (cs_db s)) \<and>
        (\<forall>q. q \<noteq> p \<longrightarrow> phase_index (ph q) \<noteq> Some n)" for n
      using ph' kd(5) [of p n] kd(6) [of p n] kd(7) [of p n] by (auto intro: less_SucI)
  qed simp_all
  then show ?thesis by blast
qed

text \<open>What a commit makes of the data: the invite is there, or was refused.\<close>

lemma committed_invite:
  assumes "made_by E u t n v" and "next_uuid E n \<notin> pgi_id ` set (invites d)"
  shows "write_of (SaveInvite (inviteToRow v)) d = d \<or>
    invites (write_of (SaveInvite (inviteToRow v)) d) = invites d @ [inviteToRow v]"
  using assms by (auto simp: write_of_def SaveInvite_def made_by_def split: sum.splits)

lemma open_invites_append:
  "invites d' = invites d @ [inviteToRow v] \<Longrightarrow> inv_created_by v = u \<Longrightarrow>
   length (open_invites u' t d') \<le> length (open_invites u' t d) + (if u' = u then 1 else 0)"
  by (simp add: open_invites_def)

lemma open_invites_mono: "t \<le> t' \<Longrightarrow> length (open_invites u t' d) \<le> length (open_invites u t d)"
proof -
  assume "t \<le> t'"
  then have "open_invites u t' d = filter (\<lambda>i. t' < pgi_expires_at i) (open_invites u t d)"
    by (auto simp: open_invites_def intro!: filter_cong)
  then show ?thesis by simp
qed

lemma return_phase:
  assumes "at_phase E ci u r ph" and "pr_result r = None" and "pr_script r = Return x"
  shows "\<exists>t n v. ph = Written t n v \<and> made_by E u t n v \<and>
    pr_log r = [id, id, write_of (SaveInvite (inviteToRow v))]"
  using assms
  by (cases rule: at_phase.cases)
     (auto simp: create_invite_steps create_invite_tx_steps count_s_def code_s_def name_s_def save_s_def)

lemma kept_commit:
  assumes kept: "kept E ci m ids us s ph" and fresh: "fresh_ids E ids (cs_tick s)"
    and step: "pr_result (cs_procs s p) = None" "pr_script (cs_procs s p) = Return x"
  shows "\<exists>ph'. kept E ci m ids us
    ((finish s p (Ok x))\<lparr>cs_db := view (cs_db s) (pr_log (cs_procs s p))\<rparr>) ph'"
    (is "\<exists>ph'. kept E ci m ids us ?s ph'")
proof -
  note k = keptD [OF kept]
  let ?d = "cs_db s" and ?d' = "cs_db ?s"
  from return_phase [OF k(1) [of p] step] obtain t n v
    where ph: "ph p = Written t n v" and v: "made_by E (us p) t n v"
      and d': "?d' = write_of (SaveInvite (inviteToRow v)) ?d" by auto
  have lock: "cs_locks s (user_lock E (us p)) = Some p" using k(2) [of p] ph by simp
  have new: "next_uuid E n \<notin> pgi_id ` set (invites ?d)" "n < cs_tick s"
    using k(5,6) [of p n] ph by simp_all
  have by_p: "inv_id v = next_uuid E n" "inv_created_by v = us p" using v by (simp_all add: made_by_def)
  note data = committed_invite [OF v new(1), folded d']
  have grows: "length (open_invites u t' ?d') \<le> length (open_invites u t' ?d) + (if u = us p then 1 else 0)"
    for u t'
    using data open_invites_append [of ?d' ?d v "us p" u t'] by_p(2) by (auto split: if_splits)
  note fin = keptD [OF kept_finish [OF kept, of p "Ok x"]]
  have "kept E ci m ids us ?s (ph(p := Idle))"
    unfolding kept_def
  proof (intro conjI allI impI)
    fix q
    show "at_phase E ci (us q) (cs_procs ?s q) ((ph(p := Idle)) q)" using fin(1) [of q] by simp
    show "has_lock ((ph(p := Idle)) q) \<Longrightarrow> cs_locks ?s (user_lock E (us q)) = Some q"
      using fin(2) [of q] by simp
    show "phase_time ((ph(p := Idle)) q) = Some t' \<Longrightarrow> \<exists>j < cs_tick ?s. t' = clock E j" for t'
      using fin(3) [of q t'] by simp
    show "int (length (open_invites (us q) t' ?d')) < m" if "has_counted ((ph(p := Idle)) q) = Some t'" for t'
    proof -
      from that have q: "q \<noteq> p" "has_counted (ph q) = Some t'" by (auto split: if_splits)
      then have "cs_locks s (user_lock E (us q)) = Some q" using k(2) [of q] by (cases "ph q") auto
      with lock q(1) have "us q \<noteq> us p" by auto
      with grows [of "us q" t'] k(4) [OF q(2)] show ?thesis by simp
    qed
    fix j
    assume "phase_index ((ph(p := Idle)) q) = Some j"
    then have q: "q \<noteq> p" "phase_index (ph q) = Some j" by (auto split: if_splits)
    then have "j \<noteq> n" using k(7) [of q j p] ph by auto
    moreover have "j < cs_tick s" using k(5) [OF q(2)] .
    ultimately have "next_uuid E j \<noteq> next_uuid E n"
      using fresh new(2) by (auto simp: fresh_ids_def dest: inj_onD)
    then show "next_uuid E j \<notin> pgi_id ` set (invites ?d')" using data k(6) [OF q(2)] by_p(1) by auto
    show "j < cs_tick ?s" using k(5) [OF q(2)] by simp
    show "phase_index ((ph(p := Idle)) q') = Some j \<Longrightarrow> q' = q" for q'
      using k(7) [OF q(2), of q'] by (auto split: if_splits)
  next
    show "\<forall>i \<in> set (invites ?d'). pgi_id i \<in> ids \<or> (\<exists>j < cs_tick ?s. pgi_id i = next_uuid E j)"
    proof
      fix i
      assume "i \<in> set (invites ?d')"
      then have "i \<in> set (invites ?d) \<or> pgi_id i = next_uuid E n" using data by_p(1) by auto
      then show "pgi_id i \<in> ids \<or> (\<exists>j < cs_tick ?s. pgi_id i = next_uuid E j)"
        using k(8) [of i] new(2) by (auto intro: less_SucI)
    qed
    show "within E m (cs_tick ?s) ?d'"
      unfolding within_def
    proof (intro allI impI)
      fix u t'
      assume t': "\<forall>j < cs_tick ?s. clock E j \<le> t'"
      show "int (length (open_invites u t' ?d')) \<le> m"
      proof (cases "u = us p")
        case True
        obtain j where "j < cs_tick s" "t = clock E j" using k(3) [of p t] ph by auto
        with t' have "t \<le> t'" by simp
        from open_invites_mono [OF this, of "us p" ?d] k(4) [of p t] ph grows [of u t'] True
        show ?thesis by simp
      next
        case False
        have "int (length (open_invites u t' ?d)) \<le> m" using k(9) t' by (simp add: within_def)
        with grows [of u t'] False show ?thesis by simp
      qed
    qed
  qed
  then show ?thesis by blast
qed

section \<open>All steps\<close>

lemma kept_step:
  assumes kept: "kept E ci m ids us s ph" and pol: "ci_policy ci = invite_NewPolicy m"
    and step: "cstep s s'" and fresh: "fresh_ids E ids (cs_tick s')"
  shows "\<exists>ph'. kept E ci m ids us s' ph'"
  using step
proof (cases rule: cstep.cases)
  case (draw p f)
  then show ?thesis using kept_draw [OF kept _ draw(2,3)] fresh by simp
next
  case (stmt p ls q h k d)
  then show ?thesis using kept_stmt [OF kept pol stmt(2,3,5,6)] by simp
next
  case (stmt_error p ls q h e)
  have "\<exists>e'. h e = Fail e'"
    using keptD(1) [OF kept, of p] stmt_error(2,3)
    by (cases rule: at_phase.cases)
       (auto simp: create_invite_steps create_invite_tx_steps count_s_def code_s_def name_s_def save_s_def)
  then have "at_phase E ci (us p) (cs_procs s' p) Idle" using stmt_error(1) by (auto intro: at_phase.failing)
  from kept_idle [OF kept this] show ?thesis using stmt_error(1) keptD(2) [OF kept] by auto
next
  case (commit p x)
  moreover from this have "fresh_ids E ids (cs_tick s)" using fresh_ids_less [OF fresh] by simp
  ultimately show ?thesis using kept_commit [OF kept _ commit(2,3)] by simp
next
  case (commit_error p x e)
  then show ?thesis using kept_finish [OF kept] by blast
next
  case (roll_back p e e')
  then show ?thesis using kept_finish [OF kept] by blast
qed

lemma kept_start:
  assumes "within E m n d"
  shows "kept E ci m (pgi_id ` set (invites d)) us (conc_start (\<lambda>p. s_create_invite E ci (us p)) n d) (\<lambda>_. Idle)"
  using assms at_phase.idle [of E ci]
  by (auto simp: kept_def conc_start_def started_def running_def)

lemma kept_reachable:
  assumes "conc_reachable (conc_start (\<lambda>p. s_create_invite E ci (us p)) n d) s"
    and "within E m n d" and "ci_policy ci = invite_NewPolicy m"
    and "fresh_ids E (pgi_id ` set (invites d)) (cs_tick s)"
  shows "\<exists>ph. kept E ci m (pgi_id ` set (invites d)) us s ph"
  using assms(1,4)
proof induction
  case initial
  then show ?case using kept_start [OF assms(2)] by blast
next
  case (more s s')
  have "fresh_ids E (pgi_id ` set (invites d)) (cs_tick s)"
    using more.prems cstep_tick [OF more.hyps(2)] by (auto intro: fresh_ids_less)
  with more.IH obtain ph where "kept E ci m (pgi_id ` set (invites d)) us s ph" by blast
  from kept_step [OF this assms(3) more.hyps(2) more.prems] show ?case .
qed

end
