(* ===== verification/Concurrent_Refresh.thy ===== *)
theory Concurrent_Refresh
  imports Concurrency
begin

text \<open>
  Refreshing in several transactions at the same time. The session is read by the hash of its token
  without a lock, so two refreshes can both read it as valid before one of them revokes it.
\<close>

section \<open>The use case as a script\<close>

definition s_query_row :: "lock list \<Rightarrow> (database \<Rightarrow> err + 'a option \<times> database) \<Rightarrow> 'a script" where
  "s_query_row ls q =
     sbind (s_stmt ls q) (\<lambda>r. case r of None \<Rightarrow> Fail (Sentinel Pgx_ErrNoRows) | Some x \<Rightarrow> Return x)"

definition s_or_not_found :: "'a script \<Rightarrow> 'a script" where
  "s_or_not_found s =
     s_catch s (\<lambda>e. if errors_is e Pgx_ErrNoRows then Fail (Sentinel Domain_ErrNotFound) else Fail e)"

definition s_not_found_as :: "sentinel \<Rightarrow> 'a script \<Rightarrow> 'a script" where
  "s_not_found_as t s =
     s_catch s (\<lambda>e. if errors_is e Domain_ErrNotFound then Fail (Sentinel t) else Fail e)"

lemma run_s_ends [simp]: "run_script E' (Return x) = ret x" "run_script E' (Fail e) = fail e"
  by (rule ext, simp)+

declare run_script.simps(1,2) [simp del]

lemma bind_ret_left [simp]: "bind (ret x) f = f x"
  by (simp add: bind_def ret_def fun_eq_iff)

lemma run_s_rows [simp]:
  "run_script E (s_query_row ls q) = query_row E In_Tx q"
  "run_script E (s_or_not_found s) = or_not_found (run_script E s)"
  "run_script E (s_not_found_as t s) = not_found_as t (run_script E s)"
  by (simp_all add: s_query_row_def query_row_def s_or_not_found_def s_not_found_as_def or_not_found_def
      not_found_as_def if_distrib [of "run_script E"] option.case_distrib [of "run_script E"]
      cong: if_cong option.case_cong)

text \<open>A batch of upserts locks the rows it writes and their keys.\<close>

definition session_locks :: "session list \<Rightarrow> lock list" where
  "session_locks ts = map (\<lambda>t. Session_Row (ses_id t)) ts @ map (\<lambda>t. Session_Hash (ses_token_hash t)) ts"

definition s_save_sessions :: "session list \<Rightarrow> unit script" where
  "s_save_sessions ts = s_stmt (session_locks ts) (SaveRefreshTokens (map sessionToRow ts))"

definition s_revoke_all :: "env \<Rightarrow> uuid list \<Rightarrow> unit script" where
  "s_revoke_all E userIDs =
     (if userIDs = [] then Return ()
      else sbind (s_now E) (\<lambda>t.
           sbind (s_stmt [] (ListActiveRefreshTokensByUserIDs userIDs t)) (\<lambda>rows.
           if rows = [] then Return ()
           else sbind (s_lift (revoke_each (map rowToSession rows) t)) s_save_sessions)))"

definition s_find_token :: "env \<Rightarrow> refresh_access_token \<Rightarrow> string \<Rightarrow> session script" where
  "s_find_token E ra raw =
     s_not_found_as App_ErrRefreshTokenNotFound
       (sbind (s_or_not_found (s_query_row []
          (FindRefreshTokenByTokenHash (generateHashBase32 (lib E) (ra_hasher ra) raw))))
        (\<lambda>row. Return (rowToSession row)))"

definition s_validate :: "env \<Rightarrow> refresh_access_token \<Rightarrow> string \<Rightarrow> time \<Rightarrow> session script" where
  "s_validate E ra raw t =
     sbind (s_find_token E ra raw) (\<lambda>oldRT.
     if session_IsRevoked oldRT
     then sbind (s_revoke_all E [ses_user_id oldRT]) (\<lambda>_. Fail (Sentinel App_ErrRefreshTokenReuseDetected))
     else if \<not> session_IsValid oldRT t then Fail (Sentinel App_ErrRefreshTokenInvalid)
     else Return oldRT)"

definition s_rotate :: "env \<Rightarrow> session_issuer \<Rightarrow> session \<Rightarrow> time \<Rightarrow> (string \<times> string) script" where
  "s_rotate E si old t =
     sbind (s_generate_token E (si_refreshTokens si) refreshTokenLength) (\<lambda>(rawRefresh, refreshHash).
     sbind (s_new_id E) (\<lambda>generatedID.
     sbind (s_lift (session_Rotate old generatedID refreshHash t)) (\<lambda>newRT.
     sbind (s_lift (session_Revoke old t)) (\<lambda>revoked.
     sbind (s_or_not_found (s_query_row [] (FindUserByID (ses_user_id revoked)))) (\<lambda>row.
     sbind (s_lift (rowToUser row)) (\<lambda>u.
     sbind (s_now E) (\<lambda>issued.
     sbind (s_save_sessions [revoked, newRT]) (\<lambda>_.
     Return (v4_sign (lib E) (ti_secretKey (si_accessTokens si))
       \<lparr>tc_exp = issued + si_accessTTL si,
        tc_strings = [(''user_id'', uuid_str (lib E) (ses_user_id revoked)),
          (''role'', role_String (user_role u))]\<rparr>, rawRefresh)))))))))"

definition s_refresh :: "env \<Rightarrow> refresh_access_token \<Rightarrow> string \<Rightarrow> (string \<times> string) script" where
  "s_refresh E ra raw =
     sbind (s_now E) (\<lambda>t.
     sbind (s_validate E ra raw t) (\<lambda>oldRT.
     s_rotate E (ra_sessionIssuer ra) oldRT t))"

lemma run_s_save_sessions [simp]:
  "run_script E' (s_save_sessions ts) = SessionRepository_Save E' In_Tx ts"
  by (simp add: s_save_sessions_def SessionRepository_Save_def)

lemma run_s_revoke_all [simp]: "run_script E (s_revoke_all E us) = RevokeAllUserSessions_Execute E In_Tx us"
  by (simp add: s_revoke_all_def RevokeAllUserSessions_Execute_def SessionRepository_FindActiveByUserIDs_def
      RunInTransaction_def bind_assoc if_distrib [of "run_script E"] cong: if_cong)

lemma run_s_validate [simp]: "run_script E (s_validate E ra raw t) = validateRefreshToken E ra In_Tx raw t"
  by (simp add: s_validate_def s_find_token_def validateRefreshToken_def SecretManager_GenerateHash_def
      SessionRepository_FindByTokenHash_def if_distrib [of "run_script E"] cong: if_cong)

lemma run_s_rotate [simp]: "run_script E (s_rotate E si old t) = SessionIssuer_Rotate E si In_Tx old t"
  by (simp add: s_rotate_def SessionIssuer_Rotate_def issueAccess_def UserRepository_FindByID_def
      IssueAccessToken_def RunInTransaction_def bind_assoc split_def)

text \<open>One after the other, the script is the use case.\<close>

lemma refresh_script:
  "RefreshAccessToken_Execute E ra No_Tx raw = RunInTransaction E No_Tx (\<lambda>_. run_script E (s_refresh E ra raw))"
  unfolding RefreshAccessToken_Execute_def
  by (rule RunInTransaction_script) (simp add: s_refresh_def bind_assoc split_def)

section \<open>Two refreshes of one token\<close>

text \<open>Reading the session takes no lock.\<close>

lemma reading_find: "reading (s_find_token E ra raw)"
  by (auto simp: s_find_token_def s_not_found_as_def s_or_not_found_def s_query_row_def
      FindRefreshTokenByTokenHash_def intro!: reading_sbind reading_catch reading_stmt split: option.split)

definition in_tx_at :: "database \<Rightarrow> nat \<Rightarrow> world" where
  "in_tx_at d n = \<lparr>committed = d, work = Some d, aborted = False, tick = n\<rparr>"

lemma find_token_run:
  assumes "fault_free E"
    and "find (\<lambda>r. pgs_token_hash r = generateHashBase32 (lib E) (ra_hasher ra) raw) (sessions d) = Some row"
  shows "run_script E (s_find_token E ra raw) (in_tx_at d n) = (Ok (rowToSession row), in_tx_at d (Suc n))"
  using FindByTokenHash_run [OF assms(1) _ _ assms(2), of "in_tx_at d n"]
  by (simp add: s_find_token_def SessionRepository_FindByTokenHash_def [symmetric] not_found_as_run in_tx_at_def)

lemma read_session:
  assumes "fault_free E" and "cs_procs s p = started (s_refresh E ra raw)" and "cs_db s = d" and "cs_tick s = n"
    and "find (\<lambda>r. pgs_token_hash r = generateHashBase32 (lib E) (ra_hasher ra) raw) (sessions d) = Some row"
    and "session_IsValid (rowToSession row) (clock E n)"
  shows "\<exists>s'. conc_reachable s s' \<and> cs_locks s' = cs_locks s \<and>
    come_to s p (s_rotate E (ra_sessionIssuer ra) (rowToSession row) (clock E n)) (in_tx_at d (n + 2)) s' \<and>
    (\<forall>d. view d (pr_log (cs_procs s' p)) = d)"
proof -
  let ?read = "sbind (s_now E) (\<lambda>t. sbind (s_find_token E ra raw) (\<lambda>old. Return (old, t)))"
  let ?go = "\<lambda>(old, t). sbind (if session_IsRevoked old
      then sbind (s_revoke_all E [ses_user_id old]) (\<lambda>_. Fail (Sentinel App_ErrRefreshTokenReuseDetected))
      else if \<not> session_IsValid old t then Fail (Sentinel App_ErrRefreshTokenInvalid) else Return old)
    (\<lambda>old. s_rotate E (ra_sessionIssuer ra) old t)"
  have read: "run_script E ?read (in_tx_at d n) = (Ok (rowToSession row, clock E n), in_tx_at d (n + 2))"
    using find_token_run [OF assms(1,5), of "Suc n"]
    by (simp add: bind_def now_def ret_def) (simp add: in_tx_at_def)
  have "s_refresh E ra raw = sbind ?read ?go"
    by (simp add: s_refresh_def s_validate_def sbind_assoc)
  then have start: "come_to s p (sbind ?read ?go) (in_tx_at d n) s"
    using assms(2-4) by (simp add: come_to_def started_def in_tx_at_def view_def)
  have "reading ?read" by (auto intro!: reading_sbind reading_find)
  with run_alone [OF read _ _ start] obtain s' where "conc_reachable s s'" "cs_locks s' = cs_locks s"
      "come_to s p (?go (rowToSession row, clock E n)) (in_tx_at d (n + 2)) s'"
      "\<forall>d. view d (pr_log (cs_procs s' p)) = view d (pr_log (cs_procs s p))"
    by (auto simp: in_tx_at_def)
  then show ?thesis
    using assms(2,6) by (auto simp: session_IsValid_def session_IsRevoked_def started_def view_def)
qed

text \<open>Rotating with nobody holding a lock, whatever has been committed since the session was read.\<close>

lemma rotate_session:
  assumes "fault_free E" and "pr_script (cs_procs s p) = s_rotate E si old t"
    and "pr_result (cs_procs s p) = None" and "\<not> pr_aborted (cs_procs s p)"
    and "\<forall>d. view d (pr_log (cs_procs s p)) = d" and "cs_locks s = (\<lambda>_. None)" and "users_ok (cs_db s)"
    and "ses_id old \<in> pgs_id ` set (sessions (cs_db s))" and "ses_user_id old \<in> user_ids (cs_db s)"
    and "ses_revoked_at old = None" and "fresh_at E (si_refreshTokens si) (cs_db s) (cs_tick s)"
  shows "\<exists>s' toks h new. conc_reachable s s' \<and> new_hash E (si_refreshTokens si) (cs_tick s) = Some h \<and>
    session_Rotate old (next_uuid E (Suc (cs_tick s))) h t = Inr new \<and>
    pr_result (cs_procs s' p) = Some (Ok toks) \<and> cs_tick s' = cs_tick s + 6 \<and> cs_locks s' = (\<lambda>_. None) \<and>
    (\<forall>q. q \<noteq> p \<longrightarrow> cs_procs s' q = cs_procs s q) \<and>
    cs_db s' = (cs_db s)\<lparr>sessions :=
      update_where (\<lambda>r. pgs_id r = ses_id old) (pgs_revoke t) (sessions (cs_db s)) @ [sessionToRow new]\<rparr>"
proof -
  let ?w = "in_tx_at (cs_db s) (cs_tick s)"
  obtain toks h new where new: "new_hash E (si_refreshTokens si) (cs_tick s) = Some h"
      "session_Rotate old (next_uuid E (Suc (cs_tick s))) h t = Inr new"
    and run: "SessionIssuer_Rotate E si In_Tx old t ?w = (Ok toks, ?w\<lparr>tick := cs_tick s + 5,
      work := Some ((cs_db s)\<lparr>sessions :=
        update_where (\<lambda>r. pgs_id r = ses_id old) (pgs_revoke t) (sessions (cs_db s)) @ [sessionToRow new]\<rparr>)\<rparr>)"
    using Rotate_run [OF assms(1) _ _ assms(7-10), of ?w si t] assms(11) by (auto simp: in_tx_at_def)
  let ?d = "(cs_db s)\<lparr>sessions :=
    update_where (\<lambda>r. pgs_id r = ses_id old) (pgs_revoke t) (sessions (cs_db s)) @ [sessionToRow new]\<rparr>"
  have run': "run_script E (s_rotate E si old t) ?w = (Ok toks, ?w\<lparr>tick := cs_tick s + 5, work := Some ?d\<rparr>)"
    using run by simp
  have go_on: "\<not> aborted (?w\<lparr>tick := cs_tick s + 5, work := Some ?d\<rparr>)" by (simp add: in_tx_at_def)
  have start: "nobody_else (cs_locks s) p" "come_to s p (s_rotate E si old t) ?w s"
    using assms(2-6) by (simp_all add: come_to_def in_tx_at_def nobody_else_def)
  from transaction_alone [OF run' go_on start] new show ?thesis by auto
qed

text \<open>What two transactions in a row draw is new and differs, over the ticks that they take.\<close>

definition distinct_draws :: "env \<Rightarrow> secret_manager \<Rightarrow> database \<Rightarrow> nat \<Rightarrow> bool" where
  "distinct_draws E sm d n \<longleftrightarrow>
     (\<forall>i \<in> {n..<n + 16}. fresh_at E sm d i) \<and> inj_on (next_uuid E) {n..<n + 16} \<and>
     inj_on (new_hash E sm) {n..<n + 16}"

lemma fresh_after_rotation:
  assumes "distinct_draws E sm d n" and "new_hash E sm (n + 4) = Some h"
    and "session_Rotate old (next_uuid E (n + 5)) h t = Inr new"
  shows "fresh_at E sm (d\<lparr>sessions := update_where P (pgs_revoke u) (sessions d) @ [sessionToRow new]\<rparr>) (n + 10)"
proof -
  have "fresh_at E sm d (n + 10)" using assms(1) by (simp add: distinct_draws_def)
  moreover have "next_uuid E (Suc (n + 10)) \<noteq> next_uuid E (n + 5)" "new_hash E sm (n + 10) \<noteq> new_hash E sm (n + 4)"
    using assms(1) unfolding distinct_draws_def by (auto dest: inj_onD)
  ultimately show ?thesis
    using assms(2,3) by (auto simp: fresh_at_def image_update_where session_Rotate_Inr_iff sessionToRow_def)
qed

lemma two_refreshes:
  assumes free: "fault_free E" and ok: "db_ok d" and pq: "p \<noteq> q"
    and row: "find (\<lambda>r. pgs_token_hash r = generateHashBase32 (lib E) (ra_hasher ra) raw) (sessions d) = Some row"
    and valid: "session_IsValid (rowToSession row) (clock E n)" "session_IsValid (rowToSession row) (clock E (n + 2))"
    and draws: "distinct_draws E (si_refreshTokens (ra_sessionIssuer ra)) d n"
  shows "\<exists>s a b new1 new2. conc_reachable (conc_start (\<lambda>_. s_refresh E ra raw) n d) s \<and>
    pr_result (cs_procs s p) = Some (Ok a) \<and> pr_result (cs_procs s q) = Some (Ok b) \<and>
    rotated_from (rowToSession row) new1 \<and> rotated_from (rowToSession row) new2 \<and> ses_id new1 \<noteq> ses_id new2 \<and>
    ses_revoked_at new1 = None \<and> ses_revoked_at new2 = None \<and>
    sessions (cs_db s) = update_where (\<lambda>r. pgs_id r = pgs_id row) (pgs_revoke (clock E (n + 2)))
      (update_where (\<lambda>r. pgs_id r = pgs_id row) (pgs_revoke (clock E n)) (sessions d)) @
      [sessionToRow new1, sessionToRow new2]"
proof -
  let ?sm = "si_refreshTokens (ra_sessionIssuer ra)" and ?old = "rowToSession row"
  let ?s0 = "conc_start (\<lambda>_. s_refresh E ra raw) n d"
  let ?rot = "\<lambda>i. s_rotate E (ra_sessionIssuer ra) ?old (clock E i)"
  have mem: "row \<in> set (sessions d)" using row by (auto dest: find_SomeD)
  with ok have user: "pgs_user_id row \<in> user_ids d" "users_ok d" by (auto simp: db_ok_def sessions_ok_def)
  have s0: "cs_procs ?s0 r = started (s_refresh E ra raw)" "cs_db ?s0 = d" "cs_tick ?s0 = n"
      "cs_locks ?s0 = (\<lambda>_. None)" for r
    by (simp_all add: conc_start_def)
  obtain s1 where r1: "conc_reachable ?s0 s1" "cs_locks s1 = cs_locks ?s0"
      "come_to ?s0 p (?rot n) (in_tx_at d (n + 2)) s1" "\<forall>d. view d (pr_log (cs_procs s1 p)) = d"
    using read_session [OF free s0(1) [of p] s0(2,3) row valid(1)] by (elim exE conjE) (rule that)
  have s1: "cs_procs s1 q = started (s_refresh E ra raw)" "cs_db s1 = d" "cs_tick s1 = n + 2"
    using come_toD(4) [OF r1(3) pq [symmetric]] come_toD(5,6) [OF r1(3)] s0(1,2) by (simp_all add: in_tx_at_def)
  obtain s2 where r2: "conc_reachable s1 s2" "cs_locks s2 = cs_locks s1"
      "come_to s1 q (?rot (n + 2)) (in_tx_at d (n + 2 + 2)) s2" "\<forall>d. view d (pr_log (cs_procs s2 q)) = d"
    using read_session [OF free s1 row valid(2)] by (elim exE conjE) (rule that)
  have none: "cs_locks s2 = (\<lambda>_. None)" unfolding r2(2) r1(2) by (rule s0(4))
  have s2: "cs_procs s2 p = cs_procs s1 p" "cs_db s2 = d" "cs_tick s2 = n + 4"
    using come_toD(4) [OF r2(3) pq] come_toD(5,6) [OF r2(3)] s1 by (simp_all add: in_tx_at_def)
  have old: "ses_id ?old \<in> pgs_id ` set (sessions d)" "ses_user_id ?old \<in> user_ids d" "ses_revoked_at ?old = None"
    using mem user valid(1) by (auto simp: rowToSession_def session_Reconstruct_def session_IsValid_def)
  have fresh: "fresh_at E ?sm d (n + 4)" using draws by (simp add: distinct_draws_def)
  have p2: "pr_script (cs_procs s2 p) = ?rot n" "pr_result (cs_procs s2 p) = None" "\<not> pr_aborted (cs_procs s2 p)"
      "\<forall>d. view d (pr_log (cs_procs s2 p)) = d"
    using come_toD(1-3) [OF r1(3)] r1(4) s2(1) by simp_all
  obtain s3 a h1 new1 where r3: "conc_reachable s2 s3" "new_hash E ?sm (n + 4) = Some h1"
      "session_Rotate ?old (next_uuid E (n + 5)) h1 (clock E n) = Inr new1"
      "pr_result (cs_procs s3 p) = Some (Ok a)" "cs_tick s3 = n + 10" "cs_locks s3 = (\<lambda>_. None)"
      "cs_procs s3 q = cs_procs s2 q"
    and d3: "cs_db s3 = d\<lparr>sessions := update_where (\<lambda>r. pgs_id r = ses_id ?old) (pgs_revoke (clock E n)) (sessions d) @
      [sessionToRow new1]\<rparr>"
    using rotate_session [OF free p2 none] s2(2,3) user(2) old fresh pq by (auto simp: eval_nat_numeral)
  have p3: "pr_script (cs_procs s3 q) = ?rot (n + 2)" "pr_result (cs_procs s3 q) = None"
      "\<not> pr_aborted (cs_procs s3 q)" "\<forall>d. view d (pr_log (cs_procs s3 q)) = d"
    using come_toD(1-3) [OF r2(3)] r2(4) r3(7) by simp_all
  have db3: "users_ok (cs_db s3)" "ses_id ?old \<in> pgs_id ` set (sessions (cs_db s3))"
      "ses_user_id ?old \<in> user_ids (cs_db s3)"
    using user(2) old by (simp_all add: d3 users_ok_def image_update_where)
  have fresh3: "fresh_at E ?sm (cs_db s3) (cs_tick s3)"
    unfolding d3 r3(5) by (rule fresh_after_rotation [OF draws r3(2,3)])
  obtain s4 b h2 new2 where r4: "conc_reachable s3 s4"
      "session_Rotate ?old (next_uuid E (n + 11)) h2 (clock E (n + 2)) = Inr new2"
      "pr_result (cs_procs s4 q) = Some (Ok b)" "cs_procs s4 p = cs_procs s3 p"
    and d4: "cs_db s4 = (cs_db s3)\<lparr>sessions := update_where (\<lambda>r. pgs_id r = ses_id ?old)
      (pgs_revoke (clock E (n + 2))) (sessions (cs_db s3)) @ [sessionToRow new2]\<rparr>"
    using rotate_session [OF free p3 r3(6) db3 old(3) fresh3] r3(5) pq by (auto simp: eval_nat_numeral)
  have new: "ses_id new1 = next_uuid E (n + 5)" "ses_id new2 = next_uuid E (n + 11)"
      "ses_revoked_at new1 = None" "ses_revoked_at new2 = None"
    using r3(3) r4(2) by (auto simp: session_Rotate_Inr_iff)
  have "ses_id new1 \<noteq> ses_id new2" using draws unfolding new distinct_draws_def by (auto dest: inj_onD)
  moreover have "ses_id new1 \<noteq> ses_id ?old" using fresh old(1) unfolding new(1) fresh_at_def
    by (auto simp: numeral_eq_Suc)
  then have "sessions (cs_db s4) = update_where (\<lambda>r. pgs_id r = pgs_id row) (pgs_revoke (clock E (n + 2)))
      (update_where (\<lambda>r. pgs_id r = pgs_id row) (pgs_revoke (clock E n)) (sessions d)) @
      [sessionToRow new1, sessionToRow new2]"
    by (simp add: d4 d3 update_where_def sessionToRow_def rowToSession_def session_Reconstruct_def)
  moreover have "rotated_from ?old new1" "rotated_from ?old new2"
    by (rule rotated_from.rotate [OF rotated_from.start valid(1) r3(3)],
        rule rotated_from.rotate [OF rotated_from.start valid(2) r4(2)])
  moreover have "conc_reachable ?s0 s4"
    by (rule conc_reachable_trans [OF r4(1) conc_reachable_trans [OF r3(1) conc_reachable_trans [OF r2(1) r1(1)]]])
  ultimately show ?thesis using new(3,4) r4(3,4) r3(4)
    by (intro exI [of _ s4] exI [of _ a] exI [of _ b] exI [of _ new1] exI [of _ new2]) simp
qed

end
