(* ===== verification/Concurrent_Revocation.thy ===== *)
theory Concurrent_Revocation
  imports Concurrent_Refresh
begin

text \<open>
  A revocation of all sessions while one of them is refreshed. The refresh has read its session
  without a lock; the revocation revokes what is stored and commits; the refresh then stores the
  successor, which nobody revokes.
\<close>

text \<open>Beside refreshes a revocation answers without tokens.\<close>

definition s_revoke :: "env \<Rightarrow> uuid list \<Rightarrow> (string \<times> string) script" where
  "s_revoke E us = sbind (s_revoke_all E us) (\<lambda>_. Return ([], []))"

lemma revoke_all_session:
  assumes "fault_free E" and "cs_procs s p = started (s_revoke E us)" and "sessions_ok (cs_db s)" and "us \<noteq> []"
    and "cs_locks s = (\<lambda>_. None)"
  shows "\<exists>s'. conc_reachable s s' \<and> cs_db s' = revoke_active us (clock E (cs_tick s)) (cs_db s) \<and>
    cs_tick s \<le> cs_tick s' \<and> cs_locks s' = (\<lambda>_. None) \<and> pr_result (cs_procs s' p) = Some (Ok ([], [])) \<and>
    (\<forall>q. q \<noteq> p \<longrightarrow> cs_procs s' q = cs_procs s q)"
proof -
  let ?w = "in_tx_at (cs_db s) (cs_tick s)"
  let ?d = "revoke_active us (clock E (cs_tick s)) (cs_db s)"
  obtain k where all: "RevokeAllUserSessions_Execute E In_Tx us ?w = (Ok (), ?w\<lparr>tick := k, work := Some ?d\<rparr>)"
    using RevokeAll_tx_run [OF assms(1), of ?w "cs_db s" us] assms(3,4) by (auto simp: in_tx_at_def)
  then have run: "run_script E (s_revoke E us) ?w = (Ok ([], []), ?w\<lparr>tick := k, work := Some ?d\<rparr>)"
    by (simp add: s_revoke_def bind_def ret_def)
  have start: "nobody_else (cs_locks s) p" "come_to s p (s_revoke E us) ?w s"
    using assms(2,5) by (simp_all add: come_to_def started_def in_tx_at_def nobody_else_def view_def)
  have "\<not> aborted (?w\<lparr>tick := k, work := Some ?d\<rparr>)" by (simp add: in_tx_at_def)
  from transaction_alone [OF run this start] obtain s' where s': "conc_reachable s s'" "cs_db s' = ?d"
      "cs_locks s' = (\<lambda>_. None)" "pr_result (cs_procs s' p) = Some (Ok ([], []))"
      "\<forall>q. q \<noteq> p \<longrightarrow> cs_procs s' q = cs_procs s q" by auto
  moreover have "cs_tick s \<le> cs_tick s'" using s'(1) by (rule conc_tick_mono)
  ultimately show ?thesis by blast
qed

lemma fresh_after_revocation: "fresh_at E sm (revoke_active us t d) i \<longleftrightarrow> fresh_at E sm d i"
  by (simp add: fresh_at_def revoke_active_def image_update_where)

lemma revocation_while_refreshing:
  assumes free: "fault_free E" and ok: "db_ok d" and pq: "p \<noteq> q" and us: "pgs_user_id row \<in> set us"
    and row: "find (\<lambda>r. pgs_token_hash r = generateHashBase32 (lib E) (ra_hasher ra) raw) (sessions d) = Some row"
    and valid: "session_IsValid (rowToSession row) (clock E n)" "session_IsValid (rowToSession row) (clock E (n + 2))"
    and fresh: "\<And>i. n \<le> i \<Longrightarrow> fresh_at E (si_refreshTokens (ra_sessionIssuer ra)) d i"
  shows "\<exists>s toks new. conc_reachable (conc_start (\<lambda>i. if i = p then s_refresh E ra raw else s_revoke E us) n d) s \<and>
    pr_result (cs_procs s q) = Some (Ok ([], [])) \<and> pr_result (cs_procs s p) = Some (Ok toks) \<and>
    rotated_from (rowToSession row) new \<and> pgs_active us (clock E (n + 2)) (sessionToRow new) \<and>
    sessionToRow new \<in> set (sessions (cs_db s))"
proof -
  let ?old = "rowToSession row" and ?sm = "si_refreshTokens (ra_sessionIssuer ra)"
  let ?s0 = "conc_start (\<lambda>i. if i = p then s_refresh E ra raw else s_revoke E us) n d"
  let ?d = "revoke_active us (clock E (n + 2)) d"
  have mem: "row \<in> set (sessions d)" using row by (auto dest: find_SomeD)
  with ok have user: "pgs_user_id row \<in> user_ids d" "users_ok d" "sessions_ok d"
    by (auto simp: db_ok_def sessions_ok_def)
  have s0: "cs_procs ?s0 p = started (s_refresh E ra raw)" "cs_db ?s0 = d" "cs_tick ?s0 = n"
      "cs_locks ?s0 = (\<lambda>_. None)" "cs_procs ?s0 q = started (s_revoke E us)"
    using pq by (simp_all add: conc_start_def)
  obtain s1 where r1: "conc_reachable ?s0 s1" "cs_locks s1 = cs_locks ?s0"
      "come_to ?s0 p (s_rotate E (ra_sessionIssuer ra) ?old (clock E n)) (in_tx_at d (n + 2)) s1"
      "\<forall>d. view d (pr_log (cs_procs s1 p)) = d"
    using read_session [OF free s0(1-3) row valid(1)] by (elim exE conjE) (rule that)
  have s1: "cs_procs s1 q = started (s_revoke E us)" "cs_db s1 = d" "cs_tick s1 = n + 2" "cs_locks s1 = (\<lambda>_. None)"
    using come_toD(4) [OF r1(3) pq [symmetric]] come_toD(5,6) [OF r1(3)] r1(2) s0 by (simp_all add: in_tx_at_def)
  have db1: "sessions_ok (cs_db s1)" and some: "us \<noteq> []" using user(3) s1(2) us by auto
  obtain s2 where r2: "conc_reachable s1 s2" "cs_db s2 = ?d" "n + 2 \<le> cs_tick s2" "cs_locks s2 = (\<lambda>_. None)"
      "pr_result (cs_procs s2 q) = Some (Ok ([], []))" "cs_procs s2 p = cs_procs s1 p"
    using revoke_all_session [OF free s1(1) db1 some s1(4)] pq unfolding s1(2,3) by blast
  have p2: "pr_script (cs_procs s2 p) = s_rotate E (ra_sessionIssuer ra) ?old (clock E n)"
      "pr_result (cs_procs s2 p) = None" "\<not> pr_aborted (cs_procs s2 p)" "\<forall>d. view d (pr_log (cs_procs s2 p)) = d"
    using come_toD(1-3) [OF r1(3)] r1(4) r2(6) by simp_all
  have db2: "users_ok (cs_db s2)" "ses_id ?old \<in> pgs_id ` set (sessions (cs_db s2))"
      "ses_user_id ?old \<in> user_ids (cs_db s2)" "ses_revoked_at ?old = None"
    using user mem valid(1) unfolding r2(2)
    by (auto simp: users_ok_def revoke_active_def image_update_where rowToSession_def session_Reconstruct_def
        session_IsValid_def)
  have fresh2: "fresh_at E ?sm (cs_db s2) (cs_tick s2)"
    unfolding r2(2) fresh_after_revocation using fresh r2(3) by simp
  obtain s3 toks h new where r3: "conc_reachable s2 s3"
      "session_Rotate ?old (next_uuid E (Suc (cs_tick s2))) h (clock E n) = Inr new"
      "pr_result (cs_procs s3 p) = Some (Ok toks)" "cs_procs s3 q = cs_procs s2 q"
      "sessionToRow new \<in> set (sessions (cs_db s3))"
    using rotate_session [OF free p2 r2(4) db2 fresh2] pq by auto
  have "rotated_from ?old new" by (rule rotated_from.rotate [OF rotated_from.start valid(1) r3(2)])
  moreover have "pgs_active us (clock E (n + 2)) (sessionToRow new)"
    using r3(2) us valid(2) by (auto simp: session_Rotate_Inr_iff pgs_active_def sessionToRow_def rowToSession_def
        session_Reconstruct_def session_IsValid_def)
  moreover have "conc_reachable ?s0 s3"
    by (rule conc_reachable_trans [OF r3(1) conc_reachable_trans [OF r2(1) r1(1)]])
  ultimately show ?thesis using r2(5) r3(3-5) by (intro exI [of _ s3] exI [of _ toks] exI [of _ new]) simp
qed

end
