(* ===== verification/Concurrent_Login.thy ===== *)
theory Concurrent_Login
  imports Concurrent_Refresh Login_Facts
begin

text \<open>
  Logins of one credential at the same time. The credential is read without a lock and saved as it was
  read, with the new counter: what another login has stored in between is lost, the revocation of a
  credential that is suspected to be a clone too.
\<close>

section \<open>The use case as a script\<close>

definition s_find_credential :: "env \<Rightarrow> bytes \<Rightarrow> credential script" where
  "s_find_credential E externalID =
     sbind (s_not_found_as App_ErrCredentialNotFound
       (sbind (s_or_not_found (s_query_row [] (FindCredentialByExternalID externalID)))
         (\<lambda>row. Return (rowToCredential row)))) (\<lambda>cred.
     if credential_IsRevoked cred then Fail (Sentinel App_ErrCredentialRevoked) else Return cred)"

definition s_save_credential :: "credential \<Rightarrow> unit script" where
  "s_save_credential cred =
     s_stmt [Credential_Row (cred_id cred), Credential_Key (cred_external_id cred)]
       (SaveCredential (credentialToRow cred))"

definition s_handle_clone :: "env \<Rightarrow> credential \<Rightarrow> time \<Rightarrow> unit script" where
  "s_handle_clone E cred t =
     sbind (s_lift (credential_Revoke cred t)) (\<lambda>cred'.
     sbind (s_save_credential cred') (\<lambda>_.
     s_revoke_all E [cred_user_id cred']))"

definition s_issue :: "env \<Rightarrow> session_issuer \<Rightarrow> uuid \<Rightarrow> string \<Rightarrow> ip_addr \<Rightarrow> time \<Rightarrow> (string \<times> string) script" where
  "s_issue E si userID deviceInfo ipAddress t =
     sbind (s_generate_token E (si_refreshTokens si) refreshTokenLength) (\<lambda>(rawRefresh, refreshHash).
     sbind (s_new_id E) (\<lambda>sessionID.
     sbind (s_lift (session_New sessionID userID refreshHash deviceInfo ipAddress (si_refreshTTL si) t)) (\<lambda>rt.
     sbind (s_save_sessions [rt]) (\<lambda>_.
     sbind (s_or_not_found (s_query_row [] (FindUserByID userID))) (\<lambda>row.
     sbind (s_lift (rowToUser row)) (\<lambda>u.
     sbind (s_now E) (\<lambda>issued.
     Return (v4_sign (lib E) (ti_secretKey (si_accessTokens si))
       \<lparr>tc_exp = issued + si_accessTTL si,
        tc_strings = [(''user_id'', uuid_str (lib E) userID), (''role'', role_String (user_role u))]\<rparr>,
       rawRefresh))))))))"

definition s_accept :: "env \<Rightarrow> login \<Rightarrow> login_input \<Rightarrow> time \<Rightarrow> credential \<Rightarrow> login_output option script" where
  "s_accept E uc inp t cred =
     sbind (s_save_credential cred) (\<lambda>_.
     sbind (sbind (s_or_not_found (s_stmt [] (ListWrappedKeysByCredentialID (cred_id cred))))
       (\<lambda>rows. if rows = [] then Fail (Sentinel Domain_ErrNotFound) else Return (map rowToWrappedKey rows))) (\<lambda>keys.
     sbind (s_issue E (lg_sessionIssuer uc) (cred_user_id cred) (li_DeviceInfo inp) (li_IPAddress inp) t)
       (\<lambda>(access, refresh).
     Return (Some \<lparr>lo_AccessToken = access, lo_RefreshToken = refresh,
                   lo_WrappedKeys = wrappedKeysToOutput keys\<rparr>))))"

definition s_login ::
  "env \<Rightarrow> login \<Rightarrow> login_input \<Rightarrow> time \<Rightarrow> authentication_result \<Rightarrow> login_output option script" where
  "s_login E uc inp t result =
     sbind (s_find_credential E (ar_ExternalID result)) (\<lambda>cred.
     let sign = SetSignCount cred (ar_NewSignCount result);
         cred' = (case sign of Inl _ \<Rightarrow> cred | Inr x \<Rightarrow> x) in
     if ar_CloneWarning result \<or>
        (case sign of Inl e \<Rightarrow> errors_is e Credential_ErrSignCountRegression | Inr _ \<Rightarrow> False)
     then sbind (s_handle_clone E cred' t) (\<lambda>_. Return None)
     else sbind (s_lift sign) (s_accept E uc inp t))"

lemma run_s_credential [simp]:
  "run_script E (s_find_credential E x) = findCredential E In_Tx x"
  "run_script E' (s_save_credential cred) = CredentialRepository_Save E' In_Tx cred"
  by (simp_all add: s_find_credential_def findCredential_def CredentialRepository_FindByExternalID_def
      s_save_credential_def CredentialRepository_Save_def if_distrib [of "run_script E"] cong: if_cong)

lemma run_s_handle_clone [simp]: "run_script E (s_handle_clone E cred t) = handleClone E In_Tx cred t"
  by (simp add: s_handle_clone_def handleClone_def)

lemma run_s_issue [simp]: "run_script E (s_issue E si u dev ip t) = SessionIssuer_Issue E si In_Tx u dev ip t"
  by (simp add: s_issue_def SessionIssuer_Issue_def issueAccess_def UserRepository_FindByID_def
      IssueAccessToken_def RunInTransaction_def bind_assoc split_def)

lemma run_s_accept [simp]: "run_script E (s_accept E uc inp t cred) = login_accept E uc inp t cred"
  by (simp add: s_accept_def WrappedKeyRepository_FindByCredentialID_def split_def
      if_distrib [of "run_script E"] cong: if_cong)

lemma run_s_login: "run_script E (s_login E uc inp t result) = login_body E uc inp t result In_Tx"
  by (simp add: s_login_def login_body_def Let_def if_distrib [of "run_script E"] cong: if_cong)

text \<open>One after the other, the script is the transaction of the use case.\<close>

lemma login_script:
  "Login_Execute E uc No_Tx inp =
     bind (now E) (\<lambda>t.
     bind (Authenticator_Finish E (lg_authenticator uc) No_Tx (li_ChallengeToken inp)
             (li_AuthenticationResponse inp)) (\<lambda>result.
     bind (RunInTransaction E No_Tx (\<lambda>_. run_script E (s_login E uc inp t result))) (\<lambda>res.
     case res of None \<Rightarrow> fail (Sentinel App_ErrCredentialCloneSuspected) | Some out \<Rightarrow> ret out)))"
proof -
  have "RunInTransaction E No_Tx (login_body E uc inp t result) =
      RunInTransaction E No_Tx (\<lambda>_. run_script E (s_login E uc inp t result))" for t result
    by (rule RunInTransaction_script) (simp only: run_s_login)
  then show ?thesis by (simp add: Login_Execute_def)
qed

section \<open>A login while another one locks the credential out\<close>

lemma reading_credential: "reading (s_find_credential E x)"
  by (auto simp: s_find_credential_def s_not_found_as_def s_or_not_found_def s_query_row_def
      FindCredentialByExternalID_def intro!: reading_sbind reading_catch reading_stmt split: option.split)

lemma read_credential:
  assumes "fault_free E" and "cs_procs s p = started (s_login E uc inp t res)" and "cs_db s = d"
    and "find (\<lambda>r. pgc_external_id r = ar_ExternalID res) (credentials d) = Some row"
    and "pgc_revoked_at row = None" and "\<not> clone_suspected row res"
  shows "\<exists>s' w. conc_reachable s s' \<and> cs_locks s' = cs_locks s \<and>
    come_to s p (s_accept E uc inp t ((rowToCredential row)\<lparr>cred_sign_count := ar_NewSignCount res\<rparr>)) w s' \<and>
    (\<forall>d. view d (pr_log (cs_procs s' p)) = d)"
proof -
  let ?w = "in_tx_at d (cs_tick s)"
  let ?cred = "(rowToCredential row)\<lparr>cred_sign_count := ar_NewSignCount res\<rparr>"
  define go where "go = (\<lambda>cred. let sign = SetSignCount cred (ar_NewSignCount res);
         cred' = (case sign of Inl _ \<Rightarrow> cred | Inr x \<Rightarrow> x) in
     if ar_CloneWarning res \<or>
        (case sign of Inl e \<Rightarrow> errors_is e Credential_ErrSignCountRegression | Inr _ \<Rightarrow> False)
     then sbind (s_handle_clone E cred' t) (\<lambda>_. Return None)
     else sbind (s_lift sign) (s_accept E uc inp t))"
  have read: "run_script E (s_find_credential E (ar_ExternalID res)) ?w =
      (Ok (rowToCredential row), ?w\<lparr>tick := Suc (tick ?w), work := Some d\<rparr>)"
    using FindByExternalID_run [OF assms(1) _ _ assms(4,5), of ?w] by (simp add: in_tx_at_def)
  have go: "go (rowToCredential row) = s_accept E uc inp t ?cred"
    using assms(6) by (auto simp: go_def SetSignCount_def clone_suspected_def Let_def s_lift_def)
  have start: "come_to s p (sbind (s_find_credential E (ar_ExternalID res)) go) ?w s"
    using assms(2,3) by (simp add: come_to_def started_def in_tx_at_def view_def s_login_def go_def)
  from run_alone [OF read _ _ start] reading_credential obtain s' where "conc_reachable s s'"
      "cs_locks s' = cs_locks s" "come_to s p (go (rowToCredential row)) (?w\<lparr>tick := Suc (tick ?w), work := Some d\<rparr>) s'"
      "\<forall>d. view d (pr_log (cs_procs s' p)) = view d (pr_log (cs_procs s p))"
    by (auto simp: in_tx_at_def)
  then show ?thesis unfolding go using assms(2) by (auto simp: started_def view_def)
qed

lemma lock_out_session:
  assumes "fault_free E" and "cs_procs s p = started (s_login E uc inp t res)" and "sessions_ok (cs_db s)"
    and "find (\<lambda>r. pgc_external_id r = ar_ExternalID res) (credentials (cs_db s)) = Some row"
    and "pgc_revoked_at row = None" and "clone_suspected row res" and "cs_locks s = (\<lambda>_. None)"
  shows "\<exists>s' n t'. conc_reachable s s' \<and> cs_db s' = lock_out row n t t' (cs_db s) \<and>
    cs_locks s' = (\<lambda>_. None) \<and> pr_result (cs_procs s' p) = Some (Ok None) \<and>
    (\<forall>q. q \<noteq> p \<longrightarrow> cs_procs s' q = cs_procs s q)"
proof -
  let ?w = "in_tx_at (cs_db s) (cs_tick s)"
  let ?n = "clone_count row res" and ?t' = "clock E (Suc (Suc (tick ?w)))"
  obtain k where "login_body E uc inp t res In_Tx ?w =
      (Ok None, ?w\<lparr>tick := k, work := Some (lock_out row ?n t ?t' (cs_db s))\<rparr>)"
    using login_clone_body [OF assms(1) _ _ assms(3-6), of ?w uc inp t] by (auto simp: in_tx_at_def)
  then have run: "run_script E (s_login E uc inp t res) ?w =
      (Ok None, ?w\<lparr>tick := k, work := Some (lock_out row ?n t ?t' (cs_db s))\<rparr>)" by (simp add: run_s_login)
  have start: "nobody_else (cs_locks s) p" "come_to s p (s_login E uc inp t res) ?w s"
    using assms(2,7) by (simp_all add: come_to_def started_def in_tx_at_def nobody_else_def view_def)
  have "\<not> aborted (?w\<lparr>tick := k, work := Some (lock_out row ?n t ?t' (cs_db s))\<rparr>)" by (simp add: in_tx_at_def)
  from transaction_alone [OF run this start] show ?thesis by auto
qed

lemma accept_session:
  assumes "fault_free E" and "pr_script (cs_procs s p) = s_accept E uc inp t cred"
    and "pr_result (cs_procs s p) = None" and "\<not> pr_aborted (cs_procs s p)"
    and "\<forall>d. view d (pr_log (cs_procs s p)) = d" and "cs_locks s = (\<lambda>_. None)" and "users_ok (cs_db s)"
    and "cred_id cred \<in> credential_ids (cs_db s)" and "cred_user_id cred \<in> user_ids (cs_db s)"
    and "\<exists>k \<in> set (wrapped_keys (cs_db s)). pgk_credential_id k = cred_id cred"
    and "cred_user_id cred \<noteq> uuid_nil" and "addr_is_valid (li_IPAddress inp)"
    and "fresh_session E (si_refreshTokens (lg_sessionIssuer uc)) (cs_db s)"
  shows "\<exists>s' out rt i h. conc_reachable s s' \<and> pr_result (cs_procs s' p) = Some (Ok (Some out)) \<and>
    session_New i (cred_user_id cred) h (li_DeviceInfo inp) (li_IPAddress inp)
      (si_refreshTTL (lg_sessionIssuer uc)) t = Inr rt \<and>
    cs_db s' = with_login cred rt (cs_db s) \<and> (\<forall>q. q \<noteq> p \<longrightarrow> cs_procs s' q = cs_procs s q)"
proof -
  let ?w = "in_tx_at (cs_db s) (cs_tick s)"
  have w: "work ?w = Some (cs_db s)" "\<not> aborted ?w" by (simp_all add: in_tx_at_def)
  from login_accept_run [OF assms(1) w assms(7-13), of t] obtain out n rt i h
    where new: "session_New i (cred_user_id cred) h (li_DeviceInfo inp) (li_IPAddress inp)
        (si_refreshTTL (lg_sessionIssuer uc)) t = Inr rt"
      and "login_accept E uc inp t cred ?w = (Ok (Some out), ?w\<lparr>tick := n, work := Some (with_login cred rt (cs_db s))\<rparr>)"
    by blast
  then have run: "run_script E (s_accept E uc inp t cred) ?w =
      (Ok (Some out), ?w\<lparr>tick := n, work := Some (with_login cred rt (cs_db s))\<rparr>)" by simp
  have start: "nobody_else (cs_locks s) p" "come_to s p (s_accept E uc inp t cred) ?w s"
    using assms(2-6) by (simp_all add: come_to_def in_tx_at_def nobody_else_def)
  have "\<not> aborted (?w\<lparr>tick := n, work := Some (with_login cred rt (cs_db s))\<rparr>)" by (simp add: in_tx_at_def)
  from transaction_alone [OF run this start] new show ?thesis by auto
qed

text \<open>What the lock-out leaves as it was.\<close>

lemma lock_out_keeps:
  "users_ok (lock_out row n t t' d) \<longleftrightarrow> users_ok d" "user_ids (lock_out row n t t' d) = user_ids d"
  "credential_ids (lock_out row n t t' d) = credential_ids d"
  "wrapped_keys (lock_out row n t t' d) = wrapped_keys d"
  "fresh_session E sm (lock_out row n t t' d) \<longleftrightarrow> fresh_session E sm d"
  by (simp_all add: lock_out_def revoke_active_def users_ok_def fresh_session_def image_update_where)

text \<open>\<open>p\<close> suspects a clone, \<open>q\<close> does not; both have the credential of the same row.\<close>

lemma login_while_locking_out:
  assumes free: "fault_free E" and ok: "db_ok d" and pq: "p \<noteq> q"
    and row: "find (\<lambda>r. pgc_external_id r = ar_ExternalID res) (credentials d) = Some row"
    and same: "ar_ExternalID res' = ar_ExternalID res" and live: "pgc_revoked_at row = None"
    and clone: "clone_suspected row res" and good: "\<not> clone_suspected row res'"
    and key: "\<exists>k \<in> set (wrapped_keys d). pgk_credential_id k = pgc_id row"
    and user: "pgc_user_id row \<noteq> uuid_nil" and addr: "addr_is_valid (li_IPAddress inp')"
    and fresh: "fresh_session E (si_refreshTokens (lg_sessionIssuer uc)) d"
  shows "\<exists>s out c r. conc_reachable
      (conc_start (\<lambda>i. if i = p then s_login E uc inp t res else s_login E uc inp' t' res') n d) s \<and>
    pr_result (cs_procs s p) = Some (Ok None) \<and> pr_result (cs_procs s q) = Some (Ok (Some out)) \<and>
    c \<in> set (credentials (cs_db s)) \<and> pgc_id c = pgc_id row \<and> pgc_revoked_at c = None \<and>
    r \<in> set (sessions (cs_db s)) \<and> pgs_user_id r = pgc_user_id row \<and> pgs_revoked_at r = None"
proof -
  let ?s0 = "conc_start (\<lambda>i. if i = p then s_login E uc inp t res else s_login E uc inp' t' res') n d"
  let ?cred = "(rowToCredential row)\<lparr>cred_sign_count := ar_NewSignCount res'\<rparr>"
  have mem: "row \<in> set (credentials d)" using row by (auto dest: find_SomeD)
  have cred: "cred_id ?cred = pgc_id row" "cred_user_id ?cred = pgc_user_id row" "cred_revoked_at ?cred = None"
    using live by (simp_all add: row_defs)
  have s0: "cs_procs ?s0 p = started (s_login E uc inp t res)" "cs_db ?s0 = d"
      "cs_procs ?s0 q = started (s_login E uc inp' t' res')" "cs_locks ?s0 = (\<lambda>_. None)"
    using pq by (simp_all add: conc_start_def)
  obtain s1 w where r1: "conc_reachable ?s0 s1" "cs_locks s1 = cs_locks ?s0"
      "come_to ?s0 q (s_accept E uc inp' t' ?cred) w s1" "\<forall>d. view d (pr_log (cs_procs s1 q)) = d"
    using read_credential [OF free s0(3,2) row [folded same] live good] by (elim exE conjE) (rule that)
  have s1: "cs_procs s1 p = started (s_login E uc inp t res)" "cs_db s1 = d" "cs_locks s1 = (\<lambda>_. None)"
    using come_toD(4) [OF r1(3) pq] come_toD(5) [OF r1(3)] r1(2) s0 by simp_all
  have "sessions_ok (cs_db s1)" "find (\<lambda>r. pgc_external_id r = ar_ExternalID res) (credentials (cs_db s1)) = Some row"
    using ok row s1(2) by (simp_all add: db_ok_def)
  from lock_out_session [OF free s1(1) this live clone s1(3)] obtain s2 m u where r2: "conc_reachable s1 s2"
      "cs_db s2 = lock_out row m t u d" "cs_locks s2 = (\<lambda>_. None)" "pr_result (cs_procs s2 p) = Some (Ok None)"
      "cs_procs s2 q = cs_procs s1 q"
    using pq [symmetric] unfolding s1(2) by blast
  have q2: "pr_script (cs_procs s2 q) = s_accept E uc inp' t' ?cred" "pr_result (cs_procs s2 q) = None"
      "\<not> pr_aborted (cs_procs s2 q)" "\<forall>d. view d (pr_log (cs_procs s2 q)) = d"
    using come_toD(1-3) [OF r1(3)] r1(4) r2(5) by simp_all
  have db2: "users_ok (cs_db s2)" "cred_id ?cred \<in> credential_ids (cs_db s2)" "cred_user_id ?cred \<in> user_ids (cs_db s2)"
      "\<exists>k \<in> set (wrapped_keys (cs_db s2)). pgk_credential_id k = cred_id ?cred" "cred_user_id ?cred \<noteq> uuid_nil"
      "fresh_session E (si_refreshTokens (lg_sessionIssuer uc)) (cs_db s2)"
    using ok mem key user fresh unfolding r2(2) lock_out_keeps cred by (auto simp: db_ok_def credentials_ok_def)
  from accept_session [OF free q2 r2(3) db2(1-5) addr db2(6)] obtain s3 out rt i h where r3:
      "conc_reachable s2 s3" "pr_result (cs_procs s3 q) = Some (Ok (Some out))" "cs_procs s3 p = cs_procs s2 p"
      "session_New i (cred_user_id ?cred) h (li_DeviceInfo inp') (li_IPAddress inp')
        (si_refreshTTL (lg_sessionIssuer uc)) t' = Inr rt" "cs_db s3 = with_login ?cred rt (cs_db s2)"
    using pq by blast
  have "sessionToRow rt \<in> set (sessions (cs_db s3))" "pgs_user_id (sessionToRow rt) = pgc_user_id row"
      "pgs_revoked_at (sessionToRow rt) = None"
    using r3(4) cred(2) unfolding r3(5) by (auto simp: with_login_def session_New_Inr_iff sessionToRow_def)
  moreover from db2(2) obtain c where "c \<in> set (credentials (cs_db s2))" "pgc_id c = pgc_id row"
    unfolding cred by auto
  then have "c\<lparr>pgc_sign_count := ar_NewSignCount res', pgc_revoked_at := None\<rparr> \<in> set (credentials (cs_db s3))"
      "pgc_id (c\<lparr>pgc_sign_count := ar_NewSignCount res', pgc_revoked_at := None\<rparr>) = pgc_id row"
    using cred unfolding r3(5) by (auto simp: with_login_def set_update_where)
  moreover have "conc_reachable ?s0 s3"
    by (rule conc_reachable_trans [OF r3(1) conc_reachable_trans [OF r2(1) r1(1)]])
  moreover have "pr_result (cs_procs s3 p) = Some (Ok None)" using r2(4) r3(3) by simp
  ultimately show ?thesis using r3(2)
    by (intro exI [of _ s3] exI [of _ out] exI conjI) (assumption | simp)+
qed

end
