(* ===== verification/Concurrent_Properties.thy ===== *)
theory Concurrent_Properties
  imports Concurrent_Invites Concurrent_Revocation Concurrent_Login Sample_World
begin

text \<open>The properties of transactions that run at the same time, with their witnesses.\<close>

lemma small_word_inj:
  assumes "i < 16" and "j < 16"
  shows "(word_of_nat i :: 8 word) = word_of_nat j \<Longrightarrow> i = j"
    and "(word_of_nat (100 + i) :: uuid) = word_of_nat (100 + j) \<Longrightarrow> i = j"
  using assms by (simp_all add: word_of_nat_eq_iff take_bit_nat_eq_self)

text \<open>C14: However many users and requests create invites at the same time, and wherever their
  transactions are interrupted or fail, nobody has more open invites than the limit of the policy.\<close>

theorem concurrent_invites_within_limit:
  assumes "conc_reachable (conc_start (\<lambda>p. s_create_invite E ci (us p)) n d) s"
    and "ci_policy ci = invite_NewPolicy m" and "within E m n d"
    and "fresh_ids E (pgi_id ` set (invites d)) (cs_tick s)"
  shows "within E m (cs_tick s) (cs_db s)"
  using kept_reachable [OF assms(1,3,2,4)] keptD(9) by blast

lemma run_s_create_invite:
  assumes "fault_free E" and "u \<in> user_ids d" and "u \<noteq> uuid_nil" and "fresh_invite E (ci_tokens ci) d"
    and "CanIssue (ci_policy ci) (int (length (open_invites u (clock E n) d))) = None"
  shows "\<exists>raw v. inv_created_by v = u \<and> inv_used_at v = None \<and>
    run_script E (s_create_invite E ci u) (in_tx_at d n) = (Ok (raw, inv_expires_at v),
      (in_tx_at d n)\<lparr>work := Some (d\<lparr>invites := invites d @ [inviteToRow v]\<rparr>), tick := n + 6\<rparr>)"
proof -
  let ?w = "(in_tx_at d n)\<lparr>tick := Suc n\<rparr>"
  obtain raw v where "inv_created_by v = u" "inv_used_at v = None"
    "create_invite_tx E ci u (clock E n) In_Tx ?w = (Ok (raw, inv_expires_at v),
      ?w\<lparr>work := Some (d\<lparr>invites := invites d @ [inviteToRow v]\<rparr>), tick := tick ?w + 5\<rparr>)"
    using create_invite_tx_run [OF assms(1) _ _ assms(2,3,5,4), of ?w] by (auto simp: in_tx_at_def)
  moreover from this(3) have "run_script E (s_create_invite E ci u) (in_tx_at d n) =
      (Ok (raw, inv_expires_at v),
       (in_tx_at d n)\<lparr>work := Some (d\<lparr>invites := invites d @ [inviteToRow v]\<rparr>), tick := n + 6\<rparr>)"
    by (simp add: s_create_invite_def run_s_create_invite_tx bind_def [of "now E"] now_def in_tx_at_def
        eval_nat_numeral)
  ultimately show ?thesis by blast
qed

lemma sample_concurrent_invite:
  "\<exists>s v. conc_reachable (conc_start (\<lambda>p. s_create_invite sample_env sample_ci 2) 0 sample_db) s \<and>
     cs_tick s = 7 \<and> inv_created_by v = 2 \<and> invites (cs_db s) = [sample_invite, inviteToRow v]"
proof -
  let ?a = "s_create_invite sample_env sample_ci 2" and ?s = "conc_start (\<lambda>p. s_create_invite sample_env sample_ci 2) 0 sample_db"
  have "CanIssue (ci_policy sample_ci) (int (length (open_invites 2 (clock sample_env 0) sample_db))) = None"
    by (simp add: open_invites_def sample_invite_def sample_ci_def invite_NewPolicy_def CanIssue_def)
  then obtain raw v where v: "inv_created_by v = 2"
    and run: "run_script sample_env ?a (in_tx_at sample_db 0) = (Ok (raw, inv_expires_at v),
      (in_tx_at sample_db 0)\<lparr>work := Some (sample_db\<lparr>invites := [sample_invite, inviteToRow v]\<rparr>), tick := 6\<rparr>)"
    using run_s_create_invite [OF sample_fault_free, of 2 sample_db sample_ci 0] sample_fresh_invite
    by (auto simp: sample_users_def sample_ci_def)
  have go_on: "\<not> aborted ((in_tx_at sample_db 0)\<lparr>work := Some (sample_db\<lparr>invites := [sample_invite, inviteToRow v]\<rparr>), tick := 6\<rparr>)"
    by (simp add: in_tx_at_def)
  have start: "nobody_else (cs_locks ?s) 0" "come_to ?s 0 ?a (in_tx_at sample_db 0) ?s"
    by (simp_all add: nobody_else_def come_to_def conc_start_def started_def in_tx_at_def view_def)
  from transaction_alone [OF run go_on start] obtain s' where "conc_reachable ?s s'"
      "cs_db s' = sample_db\<lparr>invites := [sample_invite, inviteToRow v]\<rparr>" "cs_tick s' = 7" by auto
  with v show ?thesis by (intro exI [of _ s'] exI [of _ v]) simp
qed

theorem concurrent_invites_within_limit_witness:
  "\<exists>s. conc_reachable (conc_start (\<lambda>p. s_create_invite sample_env sample_ci 2) 0 sample_db) s \<and>
     length (invites (cs_db s)) = 2 \<and> within sample_env 3 (cs_tick s) (cs_db s)"
proof -
  obtain s v where s: "conc_reachable (conc_start (\<lambda>p. s_create_invite sample_env sample_ci 2) 0 sample_db) s"
      "cs_tick s = 7" "invites (cs_db s) = [sample_invite, inviteToRow v]"
    using sample_concurrent_invite by blast
  have "ci_policy sample_ci = invite_NewPolicy 3" by (simp add: sample_ci_def)
  moreover have "within sample_env 3 0 sample_db" by (simp add: within_def open_invites_def)
  moreover have "next_uuid sample_env n \<noteq> 31" for n using sample_uuid_large [of 31 n] by simp
  then have "next_uuid sample_env ` {..<7} \<inter> pgi_id ` set (invites sample_db) = {}"
    unfolding sample_db_sel by (auto simp: sample_invite_def simp del: sample_env_sel)
  then have "fresh_ids sample_env (pgi_id ` set (invites sample_db)) (cs_tick s)"
    unfolding fresh_ids_def s(2) by (auto intro!: inj_onI small_word_inj(2) simp del: Int_iff)
  ultimately show ?thesis using concurrent_invites_within_limit [OF s(1)] s by auto
qed

text \<open>C5: Two refreshes of one valid token that run at the same time can both succeed: each
  client gets a pair of tokens, and the session has two live successors.\<close>

theorem concurrent_refreshes_both_succeed:
  assumes "fault_free E" and "db_ok d" and "p \<noteq> q"
    and "find (\<lambda>r. pgs_token_hash r = generateHashBase32 (lib E) (ra_hasher ra) raw) (sessions d) = Some row"
    and "session_IsValid (rowToSession row) (clock E n)" and "session_IsValid (rowToSession row) (clock E (n + 2))"
    and "distinct_draws E (si_refreshTokens (ra_sessionIssuer ra)) d n"
  shows "\<exists>s a b new1 new2. conc_reachable (conc_start (\<lambda>_. s_refresh E ra raw) n d) s \<and>
    pr_result (cs_procs s p) = Some (Ok a) \<and> pr_result (cs_procs s q) = Some (Ok b) \<and>
    rotated_from (rowToSession row) new1 \<and> rotated_from (rowToSession row) new2 \<and> ses_id new1 \<noteq> ses_id new2 \<and>
    ses_revoked_at new1 = None \<and> ses_revoked_at new2 = None \<and>
    sessions (cs_db s) = update_where (\<lambda>r. pgs_id r = pgs_id row) (pgs_revoke (clock E (n + 2)))
      (update_where (\<lambda>r. pgs_id r = pgs_id row) (pgs_revoke (clock E n)) (sessions d)) @
      [sessionToRow new1, sessionToRow new2]"
  by (rule two_refreshes [OF assms])

lemma stringToBytes_inj: "stringToBytes a = stringToBytes b \<Longrightarrow> a = b"
proof -
  have "inj (\<lambda>c :: char. word_of_nat (of_char c) :: 8 word)"
    by (rule injI) (simp add: word_of_nat_eq_iff take_bit_nat_eq_self)
  then show "stringToBytes a = stringToBytes b \<Longrightarrow> a = b" by (simp add: stringToBytes_def)
qed

lemma sample_draws: "distinct_draws sample_env sample_sm sample_db 0"
  unfolding distinct_draws_def
proof (intro conjI ballI)
  show "fresh_at sample_env sample_sm sample_db i" for i by (rule fresh_session_at [OF sample_fresh])
  show "inj_on (next_uuid sample_env) {0..<0 + 16}"
    by (rule inj_onI, rule small_word_inj(2)) simp_all
  show "inj_on (new_hash sample_env sample_sm) {0..<0 + 16}"
  proof (rule inj_onI)
    fix i j :: nat
    assume ij: "i \<in> {0..<0 + 16}" "j \<in> {0..<0 + 16}"
      and "new_hash sample_env sample_sm i = new_hash sample_env sample_sm j"
    then have "b32_encode (replicate 32 (word_of_nat i)) = b32_encode (replicate 32 (word_of_nat j :: 8 word))"
      by (auto simp: new_hash_def generateHashBase32_def sample_sm_def sample_libs_def
          dest!: b32_encode_inj stringToBytes_inj)
    then have "(word_of_nat i :: 8 word) = word_of_nat j" by (auto dest: b32_encode_inj)
    with ij show "i = j" by (auto intro: small_word_inj(1))
  qed
qed

lemma sample_active_found:
  "find (\<lambda>r. pgs_token_hash r = generateHashBase32 (lib sample_env) (ra_hasher sample_ra) ''active'')
     (sessions sample_db) = Some (sample_session 11 ''active'' None)"
  by (simp add: sample_session_def sample_hash_def sample_ra_def)

lemma sample_active_valid:
  "n < 16 \<Longrightarrow> session_IsValid (rowToSession (sample_session 11 ''active'' None)) (clock sample_env n)"
  by (simp add: session_IsValid_def sample_session_def rowToSession_def session_Reconstruct_def)

theorem concurrent_refreshes_both_succeed_witness:
  "\<exists>s a b. conc_reachable (conc_start (\<lambda>_. s_refresh sample_env sample_ra ''active'') 0 sample_db) s \<and>
     pr_result (cs_procs s 0) = Some (Ok a) \<and> pr_result (cs_procs s 1) = Some (Ok b) \<and>
     length (filter (\<lambda>r. pgs_revoked_at r = None) (sessions (cs_db s))) = 2"
proof -
  let ?row = "sample_session 11 ''active'' None"
  have draws: "distinct_draws sample_env (si_refreshTokens (ra_sessionIssuer sample_ra)) sample_db 0"
    using sample_draws by (simp add: sample_ra_def sample_issuer_def)
  from concurrent_refreshes_both_succeed [OF sample_fault_free sample_db_ok _ sample_active_found sample_active_valid
      sample_active_valid draws, of 0 1]
  obtain s a b new1 new2 where s: "conc_reachable (conc_start (\<lambda>_. s_refresh sample_env sample_ra ''active'') 0 sample_db) s"
      "pr_result (cs_procs s 0) = Some (Ok a)" "pr_result (cs_procs s 1) = Some (Ok b)"
      "ses_revoked_at new1 = None" "ses_revoked_at new2 = None"
      "sessions (cs_db s) = update_where (\<lambda>r. pgs_id r = pgs_id ?row) (pgs_revoke (clock sample_env (0 + 2)))
        (update_where (\<lambda>r. pgs_id r = pgs_id ?row) (pgs_revoke (clock sample_env 0)) (sessions sample_db)) @
        [sessionToRow new1, sessionToRow new2]" by auto
  have "length (filter (\<lambda>r. pgs_revoked_at r = None) (sessions (cs_db s))) = 2"
    using s(4,5) unfolding s(6) by (simp add: sample_session_def sessionToRow_def pgs_revoke_def)
  with s(1-3) show ?thesis by blast
qed

text \<open>C6: A revocation of all sessions of a user can be answered with success, and committed, while
  a refresh that runs at the same time leaves that user a session that is active: the successor of
  one that the revocation did revoke.\<close>

theorem concurrent_revocation_misses_refresh:
  assumes "fault_free E" and "db_ok d" and "p \<noteq> q" and "pgs_user_id row \<in> set us"
    and "find (\<lambda>r. pgs_token_hash r = generateHashBase32 (lib E) (ra_hasher ra) raw) (sessions d) = Some row"
    and "session_IsValid (rowToSession row) (clock E n)" and "session_IsValid (rowToSession row) (clock E (n + 2))"
    and "\<And>i. n \<le> i \<Longrightarrow> fresh_at E (si_refreshTokens (ra_sessionIssuer ra)) d i"
  shows "\<exists>s toks new. conc_reachable (conc_start (\<lambda>i. if i = p then s_refresh E ra raw else s_revoke E us) n d) s \<and>
    pr_result (cs_procs s q) = Some (Ok ([], [])) \<and> pr_result (cs_procs s p) = Some (Ok toks) \<and>
    rotated_from (rowToSession row) new \<and> pgs_active us (clock E (n + 2)) (sessionToRow new) \<and>
    sessionToRow new \<in> set (sessions (cs_db s))"
  by (rule revocation_while_refreshing [OF assms])

theorem concurrent_revocation_misses_refresh_witness:
  "\<exists>s toks r. conc_reachable (conc_start (\<lambda>i. if i = 0 then s_refresh sample_env sample_ra ''active''
       else s_revoke sample_env [2]) 0 sample_db) s \<and>
     pr_result (cs_procs s 1) = Some (Ok ([], [])) \<and> pr_result (cs_procs s 0) = Some (Ok toks) \<and>
     r \<in> set (sessions (cs_db s)) \<and> pgs_active [2] (clock sample_env 2) r"
proof -
  have fresh: "fresh_at sample_env (si_refreshTokens (ra_sessionIssuer sample_ra)) sample_db i" for i
    using fresh_session_at [OF sample_fresh] by (simp add: sample_ra_def sample_issuer_def)
  have user: "pgs_user_id (sample_session 11 ''active'' None) \<in> set [2]" by (simp add: sample_session_def)
  show ?thesis
    using concurrent_revocation_misses_refresh [OF sample_fault_free sample_db_ok zero_neq_one user
        sample_active_found sample_active_valid sample_active_valid fresh, of 0] by auto
qed

text \<open>C7: A login that runs at the same time as one that suspects a clone can undo what that one has
  done and committed: the credential is stored as not revoked again, and its user has a new session.\<close>

theorem concurrent_login_undoes_lock_out:
  assumes "fault_free E" and "db_ok d" and "p \<noteq> q"
    and "find (\<lambda>r. pgc_external_id r = ar_ExternalID res) (credentials d) = Some row"
    and "ar_ExternalID res' = ar_ExternalID res" and "pgc_revoked_at row = None"
    and "clone_suspected row res" and "\<not> clone_suspected row res'"
    and "\<exists>k \<in> set (wrapped_keys d). pgk_credential_id k = pgc_id row"
    and "pgc_user_id row \<noteq> uuid_nil" and "addr_is_valid (li_IPAddress inp')"
    and "fresh_session E (si_refreshTokens (lg_sessionIssuer uc)) d"
  shows "\<exists>s out c r. conc_reachable
      (conc_start (\<lambda>i. if i = p then s_login E uc inp t res else s_login E uc inp' t' res') n d) s \<and>
    pr_result (cs_procs s p) = Some (Ok None) \<and> pr_result (cs_procs s q) = Some (Ok (Some out)) \<and>
    c \<in> set (credentials (cs_db s)) \<and> pgc_id c = pgc_id row \<and> pgc_revoked_at c = None \<and>
    r \<in> set (sessions (cs_db s)) \<and> pgs_user_id r = pgc_user_id row \<and> pgs_revoked_at r = None"
  by (rule login_while_locking_out [OF assms])

definition sample_result :: "32 word \<Rightarrow> authentication_result" where
  "sample_result n = \<lparr>ar_UserID = 2, ar_ExternalID = [7], ar_NewSignCount = n, ar_CloneWarning = False\<rparr>"

theorem concurrent_login_undoes_lock_out_witness:
  "\<exists>s out c. conc_reachable (conc_start (\<lambda>i. if i = 0
       then s_login sample_env sample_login sample_login_input 1000 (sample_result 5)
       else s_login sample_env sample_login sample_login_input 1000 (sample_result 10)) 0 sample_db) s \<and>
     pr_result (cs_procs s 0) = Some (Ok None) \<and> pr_result (cs_procs s 1) = Some (Ok (Some out)) \<and>
     c \<in> set (credentials (cs_db s)) \<and> pgc_id c = 21 \<and> pgc_revoked_at c = None"
proof -
  have "fresh_session sample_env (si_refreshTokens (lg_sessionIssuer sample_login)) sample_db"
    using sample_fresh by (simp add: sample_login_def sample_issuer_def)
  then have "\<exists>s out c r. conc_reachable (conc_start (\<lambda>i. if i = 0
       then s_login sample_env sample_login sample_login_input 1000 (sample_result 5)
       else s_login sample_env sample_login sample_login_input 1000 (sample_result 10)) 0 sample_db) s \<and>
     pr_result (cs_procs s 0) = Some (Ok None) \<and> pr_result (cs_procs s 1) = Some (Ok (Some out)) \<and>
     c \<in> set (credentials (cs_db s)) \<and> pgc_id c = pgc_id sample_credential \<and> pgc_revoked_at c = None \<and>
     r \<in> set (sessions (cs_db s)) \<and> pgs_user_id r = pgc_user_id sample_credential \<and> pgs_revoked_at r = None"
    by (intro concurrent_login_undoes_lock_out [OF sample_fault_free sample_db_ok zero_neq_one])
      (simp_all add: sample_result_def sample_credential_def clone_suspected_def sample_key_def
        sample_login_input_def addr_is_valid_def)
  then show ?thesis by (auto simp: sample_credential_def)
qed

end
