(* ===== verification/Http_Telemetry.thy ===== *)
theory Http_Telemetry
  imports Http_Server
begin

text \<open>
  What the generated server tells of a request: the preamble of every function of
  \<open>api/http/oas_handlers_gen.go\<close> and \<open>oas_labeler_gen.go\<close>. Spans and instruments are the events that
  they are given, in order; the functions are the handlers of \<open>Http_Server\<close> with these events. The
  value of the stopwatch is left out. \<open>Middleware\<close> is nil, as the server sets none.
\<close>

section \<open>Events\<close>

text \<open>The keys are constants of the semantic conventions and of ogen.\<close>

datatype attr_key =
    Otelogen_OperationID
  | HTTPRequestMethodKey
  | HTTPRouteKey
  | URLTemplateKey
  | HTTPResponseStatusCode
  | Attr_Key string

datatype attr_value = Attr_String string | Attr_Int nat

type_synonym attributes = "(attr_key \<times> attr_value) list"

text \<open>\<open>Span_Status\<close> sets the status to \<open>codes.Error\<close>, with a description.\<close>

datatype 'e otel_event =
    Span_Start operation attributes
  | Span_Error 'e
  | Span_Status string
  | Span_Attributes attributes
  | Span_End
  | Requests_Add attributes
  | Errors_Add attributes
  | Duration_Record attributes

fun is_requests_add :: "'e otel_event \<Rightarrow> bool" where
  "is_requests_add (Requests_Add _) = True"
| "is_requests_add _ = False"

fun is_errors_add :: "'e otel_event \<Rightarrow> bool" where
  "is_errors_add (Errors_Add _) = True"
| "is_errors_add _ = False"

fun is_span_error :: "'e otel_event \<Rightarrow> bool" where
  "is_span_error (Span_Error _) = True"
| "is_span_error _ = False"

text \<open>\<open>cfg.Attributes\<close>, and \<open>attribute.NewSet\<close> with \<open>ToSlice\<close>.\<close>

record otel =
  ot_Attributes :: attributes
  ot_NewSet :: "attributes \<Rightarrow> attributes"

record labeler =
  lb_attrs :: attributes

definition Labeler_Add :: "labeler \<Rightarrow> attributes \<Rightarrow> labeler" where
  "Labeler_Add l attrs = l\<lparr>lb_attrs := lb_attrs l @ attrs\<rparr>"

definition Labeler_AttributeSet :: "otel \<Rightarrow> labeler \<Rightarrow> attributes" where
  "Labeler_AttributeSet T l = ot_NewSet T (lb_attrs l)"

definition coded_attrs :: "otel \<Rightarrow> labeler \<Rightarrow> nat \<Rightarrow> attributes" where
  "coded_attrs T l code =
     (let attrs = Labeler_AttributeSet T l in
      if code \<noteq> 0 then attrs @ [(HTTPResponseStatusCode, Attr_Int code)] else attrs)"

definition stopwatch :: "otel \<Rightarrow> labeler \<Rightarrow> nat \<Rightarrow> 'e otel_event list" where
  "stopwatch T l code =
     (if code \<noteq> 0 then [Span_Attributes (coded_attrs T l code)] else []) @
     [Requests_Add (coded_attrs T l code), Duration_Record (coded_attrs T l code)]"

definition recordError :: "otel \<Rightarrow> labeler \<Rightarrow> nat \<Rightarrow> string \<Rightarrow> 'e \<Rightarrow> 'e otel_event list" where
  "recordError T l code stage e =
     [Span_Error e] @ (if code < 100 \<or> code \<ge> 500 then [Span_Status stage] else []) @
     [Errors_Add (coded_attrs T l code)]"

section \<open>The steps of an operation, with what is recorded\<close>

text \<open>
  The answer, the events on the way to it, and the error whose recording is deferred, with its stage.
\<close>

record served =
  sd_response :: http_response
  sd_events :: "server_error otel_event list"
  sd_failure :: "(string \<times> server_error) option"

definition refused :: "server \<Rightarrow> string \<Rightarrow> server_error \<Rightarrow> served act" where
  "refused S stage e =
     bind (ErrorHandler S e) (\<lambda>resp.
     ret \<lparr>sd_response = resp, sd_events = [], sd_failure = Some (stage, e)\<rparr>)"

definition t_secured ::
  "env \<Rightarrow> server \<Rightarrow> operation \<Rightarrow> req_ctx \<Rightarrow> http_request \<Rightarrow> (req_ctx \<Rightarrow> served act) \<Rightarrow> served act" where
  "t_secured E S op c r next w =
     (case securityBearerAuth E (sv_verifier S) c op r w of
        (Ok found, w') \<Rightarrow>
          (let satisfied = [case found of Some _ \<Rightarrow> 1 | None \<Rightarrow> 0];
               c' = (case found of Some sctx \<Rightarrow> sctx | None \<Rightarrow> c) in
           if requirement_met satisfied [[1]] then next c' w'
           else refused S ''Security'' (Security_Error None) w')
      | (Err e, w') \<Rightarrow> refused S ''Security:BearerAuth'' (Security_Error (Some e)) w'
      | (Panic v, w') \<Rightarrow> (Panic v, w'))"

definition t_with_params ::
  "server \<Rightarrow> (string \<times> param_error) + uuid \<Rightarrow> (uuid \<Rightarrow> served act) \<Rightarrow> served act" where
  "t_with_params S p next =
     (case p of Inl (name, e) \<Rightarrow> refused S ''DecodeParams'' (Decode_Params_Error name e) | Inr u \<Rightarrow> next u)"

text \<open>The decoders collect no closers, so \<open>close\<close> returns nil and nothing is recorded of it.\<close>

definition t_with_request ::
  "server \<Rightarrow> request_error + 'a \<Rightarrow> ('a \<Rightarrow> served act) \<Rightarrow> served act" where
  "t_with_request S q next =
     (case q of Inl e \<Rightarrow> refused S ''DecodeRequest'' (Decode_Request_Error e) | Inr request \<Rightarrow> next request)"

text \<open>The encoders mark the span when they answer 500, with \<open>http.StatusText(500)\<close>.\<close>

definition encoded :: "http_response \<Rightarrow> served" where
  "encoded resp =
     \<lparr>sd_response = resp,
      sd_events = (if rs_status resp = 500 then [Span_Status ''Internal Server Error''] else []),
      sd_failure = None\<rparr>"

definition t_answered :: "server \<Rightarrow> 'a act \<Rightarrow> ('a \<Rightarrow> err + http_response) \<Rightarrow> served act" where
  "t_answered S m encode w =
     (case m w of
        (Ok response, w') \<Rightarrow>
          (case encode response of
             Inr resp \<Rightarrow> (Ok (encoded resp), w')
           | Inl e \<Rightarrow> refused S ''EncodeResponse'' (Internal_Error e) w')
      | (Err e, w') \<Rightarrow> refused S ''Internal'' (Internal_Error e) w'
      | (Panic v, w') \<Rightarrow> (Panic v, w'))"

text \<open>
  The frame of an operation. The deferred calls run in reverse: the error, the stopwatch, the end of
  the span; after a panic the last two, with no status if nothing has been written.
\<close>

fun outcome_map :: "('a \<Rightarrow> 'b) \<Rightarrow> 'a outcome \<Rightarrow> 'b outcome" where
  "outcome_map f (Ok x) = Ok (f x)"
| "outcome_map f (Err e) = Err e"
| "outcome_map f (Panic v) = Panic v"

definition written_status :: "served outcome \<Rightarrow> nat" where
  "written_status r = (case r of Ok s \<Rightarrow> rs_status (sd_response s) | _ \<Rightarrow> 0)"

definition recorded :: "otel \<Rightarrow> labeler \<Rightarrow> served outcome \<Rightarrow> server_error otel_event list" where
  "recorded T l r =
     (case r of
        Ok s \<Rightarrow> sd_events s @
          (case sd_failure s of None \<Rightarrow> []
           | Some (stage, e) \<Rightarrow> recordError T l (written_status r) stage e)
      | _ \<Rightarrow> [])"

definition framed ::
  "otel \<Rightarrow> attributes \<Rightarrow> operation \<Rightarrow> served act \<Rightarrow> world \<Rightarrow>
   (http_response outcome \<times> server_error otel_event list) \<times> world" where
  "framed T own op steps w =
     (let otelAttrs = own @ ot_Attributes T;
          l = \<lparr>lb_attrs = otelAttrs\<rparr>;
          (r, w') = steps w in
      ((outcome_map sd_response r,
        [Span_Start op otelAttrs] @ recorded T l r @ stopwatch T l (written_status r) @ [Span_End]), w'))"

section \<open>The operations\<close>

definition tHandleAdminUsersUserIdRevokeChainPostRequest where
  "tHandleAdminUsersUserIdRevokeChainPostRequest E S T arg argsEscaped c r =
     framed T [(HTTPRequestMethodKey, Attr_String ''POST''),
         (HTTPRouteKey, Attr_String ''/admin/users/{userId}/revoke-chain'')]
       AdminUsersUserIdRevokeChainPostOperation
       (t_secured E S AdminUsersUserIdRevokeChainPostOperation c r (\<lambda>_.
        t_with_params S (decodeAdminUsersUserIdRevokeChainPostParams (sv_api S) arg argsEscaped) (\<lambda>userId.
        t_answered S (AdminUsersUserIdRevokeChainPost E userId)
          (\<lambda>x. Inr (encodeAdminUsersUserIdRevokeChainPostResponse (sv_api S) x)))))"

definition tHandleAuthVerifyGetRequest where
  "tHandleAuthVerifyGetRequest E S T c r =
     framed T [(Otelogen_OperationID, Attr_String ''AuthVerifyGet''),
         (HTTPRequestMethodKey, Attr_String ''GET''), (HTTPRouteKey, Attr_String ''/auth/verify'')]
       AuthVerifyGetOperation
       (t_secured E S AuthVerifyGetOperation c r (\<lambda>c.
        t_answered S (AuthVerifyGet c) (encodeAuthVerifyGetResponse (sv_api S))))"

definition tHandleInvitesPostRequest where
  "tHandleInvitesPostRequest E S T c r =
     framed T [(HTTPRequestMethodKey, Attr_String ''POST''), (HTTPRouteKey, Attr_String ''/invites'')]
       InvitesPostOperation
       (t_secured E S InvitesPostOperation c r (\<lambda>c.
        t_answered S (InvitesPost E (sv_handler S) c) (\<lambda>x. Inr (encodeInvitesPostResponse (sv_api S) x))))"

definition tHandleLoginBeginPostRequest where
  "tHandleLoginBeginPostRequest E S T =
     framed T [(HTTPRequestMethodKey, Attr_String ''POST''), (HTTPRouteKey, Attr_String ''/login/begin'')]
       LoginBeginPostOperation
       (t_answered S (LoginBeginPost E (sv_handler S)) (\<lambda>x. Inr (encodeLoginBeginPostResponse (sv_api S) x)))"

definition tHandleLoginPostRequest where
  "tHandleLoginPostRequest E S T c r =
     framed T [(HTTPRequestMethodKey, Attr_String ''POST''), (HTTPRouteKey, Attr_String ''/login'')]
       LoginPostOperation
       (t_with_request S (decodeLoginPostRequest (sv_api S) r) (\<lambda>request.
        t_answered S (LoginPost E (sv_handler S) c request)
          (\<lambda>x. Inr (encodeLoginPostResponse (sv_api S) x))))"

definition tHandleRegistrationBeginPostRequest where
  "tHandleRegistrationBeginPostRequest E S T r =
     framed T [(HTTPRequestMethodKey, Attr_String ''POST''), (HTTPRouteKey, Attr_String ''/registration/begin'')]
       RegistrationBeginPostOperation
       (t_with_request S (decodeRegistrationBeginPostRequest (sv_api S) r) (\<lambda>request.
        t_answered S (RegistrationBeginPost E (sv_handler S) request)
          (\<lambda>x. Inr (encodeRegistrationBeginPostResponse (sv_api S) x))))"

definition tHandleRegistrationCompletePostRequest where
  "tHandleRegistrationCompletePostRequest E S T c r =
     framed T [(HTTPRequestMethodKey, Attr_String ''POST''), (HTTPRouteKey, Attr_String ''/registration/complete'')]
       RegistrationCompletePostOperation
       (t_with_request S (decodeRegistrationCompletePostRequest (sv_api S) r) (\<lambda>request.
        t_answered S (RegistrationCompletePost E (sv_handler S) c request)
          (\<lambda>x. Inr (encodeRegistrationCompletePostResponse (sv_api S) x))))"

definition tHandleSessionsSessionIdDeleteRequest where
  "tHandleSessionsSessionIdDeleteRequest E S T arg argsEscaped c r =
     framed T [(HTTPRequestMethodKey, Attr_String ''DELETE''), (HTTPRouteKey, Attr_String ''/sessions/{sessionId}'')]
       SessionsSessionIdDeleteOperation
       (t_secured E S SessionsSessionIdDeleteOperation c r (\<lambda>c.
        t_with_params S (decodeSessionsSessionIdDeleteParams (sv_api S) arg argsEscaped) (\<lambda>sessionId.
        t_answered S (SessionsSessionIdDelete E c sessionId)
          (\<lambda>x. Inr (encodeSessionsSessionIdDeleteResponse (sv_api S) x)))))"

definition tHandleTokenRefreshPostRequest where
  "tHandleTokenRefreshPostRequest E S T r =
     framed T [(HTTPRequestMethodKey, Attr_String ''POST''), (HTTPRouteKey, Attr_String ''/token/refresh'')]
       TokenRefreshPostOperation
       (t_with_request S (decodeTokenRefreshPostRequest (sv_api S) r) (\<lambda>request.
        t_answered S (TokenRefreshPost E (sv_handler S) request)
          (\<lambda>x. Inr (encodeTokenRefreshPostResponse (sv_api S) x))))"

definition t_operation ::
  "env \<Rightarrow> server \<Rightarrow> otel \<Rightarrow> operation \<Rightarrow> string \<Rightarrow> bool \<Rightarrow> req_ctx \<Rightarrow> http_request \<Rightarrow> world \<Rightarrow>
   (http_response outcome \<times> server_error otel_event list) \<times> world" where
  "t_operation E S T op arg escaped c r =
     (case op of
        AdminUsersUserIdRevokeChainPostOperation \<Rightarrow>
          tHandleAdminUsersUserIdRevokeChainPostRequest E S T arg escaped c r
      | AuthVerifyGetOperation \<Rightarrow> tHandleAuthVerifyGetRequest E S T c r
      | InvitesPostOperation \<Rightarrow> tHandleInvitesPostRequest E S T c r
      | LoginBeginPostOperation \<Rightarrow> tHandleLoginBeginPostRequest E S T
      | LoginPostOperation \<Rightarrow> tHandleLoginPostRequest E S T c r
      | RegistrationBeginPostOperation \<Rightarrow> tHandleRegistrationBeginPostRequest E S T r
      | RegistrationCompletePostOperation \<Rightarrow> tHandleRegistrationCompletePostRequest E S T c r
      | SessionsSessionIdDeleteOperation \<Rightarrow> tHandleSessionsSessionIdDeleteRequest E S T arg escaped c r
      | TokenRefreshPostOperation \<Rightarrow> tHandleTokenRefreshPostRequest E S T r)"

definition t_ServeHTTP ::
  "env \<Rightarrow> server \<Rightarrow> otel \<Rightarrow> req_ctx \<Rightarrow> http_request \<Rightarrow> world \<Rightarrow>
   (http_response outcome \<times> server_error otel_event list) \<times> world" where
  "t_ServeHTTP E S T c r w =
     (case route_request (sv_api S) (sv_prefix S) r of
        Not_Found \<Rightarrow> ((Ok notFound, []), w)
      | Not_Allowed params \<Rightarrow> ((Ok (notAllowed r params), []), w)
      | To_Operation op arg escaped \<Rightarrow> t_operation E S T op arg escaped c r w)"

lemmas t_handler_defs =
  tHandleAdminUsersUserIdRevokeChainPostRequest_def tHandleAuthVerifyGetRequest_def
  tHandleInvitesPostRequest_def tHandleLoginBeginPostRequest_def tHandleLoginPostRequest_def
  tHandleRegistrationBeginPostRequest_def tHandleRegistrationCompletePostRequest_def
  tHandleSessionsSessionIdDeleteRequest_def tHandleTokenRefreshPostRequest_def

lemmas handler_defs =
  handleAdminUsersUserIdRevokeChainPostRequest_def handleAuthVerifyGetRequest_def
  handleInvitesPostRequest_def handleLoginBeginPostRequest_def handleLoginPostRequest_def
  handleRegistrationBeginPostRequest_def handleRegistrationCompletePostRequest_def
  handleSessionsSessionIdDeleteRequest_def handleTokenRefreshPostRequest_def

section \<open>Without the events\<close>

text \<open>The answer of the steps, as the handlers of \<open>Http_Server\<close> give it.\<close>

definition plain :: "served act \<Rightarrow> http_response act" where
  "plain m w = (let (r, w') = m w in (outcome_map sd_response r, w'))"

lemma plain_case:
  "plain m w = (case m w of (Ok s, w') \<Rightarrow> (Ok (sd_response s), w')
     | (Err e, w') \<Rightarrow> (Err e, w') | (Panic v, w') \<Rightarrow> (Panic v, w'))"
  by (auto simp: plain_def split: prod.split outcome.split)

lemma refused_run:
  "refused S stage e w =
     (Ok \<lparr>sd_response = newErrorHandler (sv_api S) (sv_errors S) e, sd_events = [],
          sd_failure = Some (stage, e)\<rparr>, w)"
  by (simp add: refused_def bind_def ErrorHandler_def ret_def)

lemma plain_refused [simp]: "plain (refused S stage e) = ErrorHandler S e"
  by (rule ext) (simp add: plain_case refused_run ErrorHandler_def ret_def)

lemma plain_secured: "plain (t_secured E S op c r next) = secured E S op c r (\<lambda>c. plain (next c))"
  by (rule ext)
     (auto simp: t_secured_def secured_def plain_case refused_run ErrorHandler_def ret_def Let_def
       split: prod.split outcome.split)

lemma plain_with_params: "plain (t_with_params S p next) = with_params S p (\<lambda>u. plain (next u))"
  by (auto simp: t_with_params_def with_params_def split: sum.split)

lemma plain_with_request: "plain (t_with_request S q next) = with_request S q (\<lambda>x. plain (next x))"
  by (auto simp: t_with_request_def with_request_def split: sum.split)

lemma plain_answered: "plain (t_answered S m encode) = answered S m encode"
  by (rule ext)
     (auto simp: t_answered_def answered_def plain_case refused_run ErrorHandler_def ret_def encoded_def
       split: prod.split outcome.split sum.split)

lemmas plain_steps = plain_secured plain_with_params plain_with_request plain_answered

lemma framed_plain:
  "(fst (fst (framed T own op steps w)), snd (framed T own op steps w)) = plain steps w"
  by (simp add: framed_def plain_def Let_def split: prod.split)

lemma t_operation_plain:
  "(fst (fst (t_operation E S T op arg escaped c r w)), snd (t_operation E S T op arg escaped c r w)) =
   (case op of
      AdminUsersUserIdRevokeChainPostOperation \<Rightarrow> handleAdminUsersUserIdRevokeChainPostRequest E S arg escaped c r
    | AuthVerifyGetOperation \<Rightarrow> handleAuthVerifyGetRequest E S c r
    | InvitesPostOperation \<Rightarrow> handleInvitesPostRequest E S c r
    | LoginBeginPostOperation \<Rightarrow> handleLoginBeginPostRequest E S
    | LoginPostOperation \<Rightarrow> handleLoginPostRequest E S c r
    | RegistrationBeginPostOperation \<Rightarrow> handleRegistrationBeginPostRequest E S r
    | RegistrationCompletePostOperation \<Rightarrow> handleRegistrationCompletePostRequest E S c r
    | SessionsSessionIdDeleteOperation \<Rightarrow> handleSessionsSessionIdDeleteRequest E S arg escaped c r
    | TokenRefreshPostOperation \<Rightarrow> handleTokenRefreshPostRequest E S r) w"
  by (cases op) (simp_all only: t_operation_def operation.case t_handler_defs framed_plain plain_steps handler_defs)

lemma t_ServeHTTP_plain:
  "(fst (fst (t_ServeHTTP E S T c r w)), snd (t_ServeHTTP E S T c r w)) = ServeHTTP E S c r w"
proof (cases "route_request (sv_api S) (sv_prefix S) r")
  case (To_Operation op arg escaped)
  then show ?thesis using t_operation_plain [of E S T op arg escaped c r w]
    by (cases op) (simp_all only: t_ServeHTTP_def ServeHTTP_def routed.case operation.case)
qed (simp_all add: t_ServeHTTP_def ServeHTTP_def ret_def)

section \<open>The error of an operation\<close>

text \<open>
  Which error an operation hands to the error handler, said without telemetry and without the
  answer: the first step that fails decides, and a panic hands over none.
\<close>

definition secured_error ::
  "env \<Rightarrow> server \<Rightarrow> operation \<Rightarrow> req_ctx \<Rightarrow> http_request \<Rightarrow> (req_ctx \<Rightarrow> world \<Rightarrow> server_error option) \<Rightarrow>
   world \<Rightarrow> server_error option" where
  "secured_error E S op c r next w =
     (case securityBearerAuth E (sv_verifier S) c op r w of
        (Ok (Some c'), w') \<Rightarrow> next c' w'
      | (Ok None, _) \<Rightarrow> Some (Security_Error None)
      | (Err e, _) \<Rightarrow> Some (Security_Error (Some e))
      | (Panic _, _) \<Rightarrow> None)"

definition params_error ::
  "(string \<times> param_error) + uuid \<Rightarrow> (uuid \<Rightarrow> world \<Rightarrow> server_error option) \<Rightarrow> world \<Rightarrow> server_error option" where
  "params_error p next =
     (case p of Inl (name, e) \<Rightarrow> (\<lambda>_. Some (Decode_Params_Error name e)) | Inr u \<Rightarrow> next u)"

definition body_error ::
  "request_error + 'a \<Rightarrow> ('a \<Rightarrow> world \<Rightarrow> server_error option) \<Rightarrow> world \<Rightarrow> server_error option" where
  "body_error q next =
     (case q of Inl e \<Rightarrow> (\<lambda>_. Some (Decode_Request_Error e)) | Inr request \<Rightarrow> next request)"

definition answer_error :: "'a act \<Rightarrow> ('a \<Rightarrow> err + http_response) \<Rightarrow> world \<Rightarrow> server_error option" where
  "answer_error m encode w =
     (case fst (m w) of
        Ok response \<Rightarrow> (case encode response of Inl e \<Rightarrow> Some (Internal_Error e) | Inr _ \<Rightarrow> None)
      | Err e \<Rightarrow> Some (Internal_Error e)
      | Panic _ \<Rightarrow> None)"

definition operation_error ::
  "env \<Rightarrow> server \<Rightarrow> operation \<Rightarrow> string \<Rightarrow> bool \<Rightarrow> req_ctx \<Rightarrow> http_request \<Rightarrow> world \<Rightarrow> server_error option" where
  "operation_error E S op arg escaped c r =
     (let A = sv_api S; h = sv_handler S in
      case op of
        AdminUsersUserIdRevokeChainPostOperation \<Rightarrow>
          secured_error E S op c r (\<lambda>_.
          params_error (decodeAdminUsersUserIdRevokeChainPostParams A arg escaped) (\<lambda>u.
          answer_error (AdminUsersUserIdRevokeChainPost E u)
            (\<lambda>x. Inr (encodeAdminUsersUserIdRevokeChainPostResponse A x))))
      | AuthVerifyGetOperation \<Rightarrow>
          secured_error E S op c r (\<lambda>c. answer_error (AuthVerifyGet c) (encodeAuthVerifyGetResponse A))
      | InvitesPostOperation \<Rightarrow>
          secured_error E S op c r (\<lambda>c.
          answer_error (InvitesPost E h c) (\<lambda>x. Inr (encodeInvitesPostResponse A x)))
      | LoginBeginPostOperation \<Rightarrow>
          answer_error (LoginBeginPost E h) (\<lambda>x. Inr (encodeLoginBeginPostResponse A x))
      | LoginPostOperation \<Rightarrow>
          body_error (decodeLoginPostRequest A r) (\<lambda>q.
          answer_error (LoginPost E h c q) (\<lambda>x. Inr (encodeLoginPostResponse A x)))
      | RegistrationBeginPostOperation \<Rightarrow>
          body_error (decodeRegistrationBeginPostRequest A r) (\<lambda>q.
          answer_error (RegistrationBeginPost E h q) (\<lambda>x. Inr (encodeRegistrationBeginPostResponse A x)))
      | RegistrationCompletePostOperation \<Rightarrow>
          body_error (decodeRegistrationCompletePostRequest A r) (\<lambda>q.
          answer_error (RegistrationCompletePost E h c q)
            (\<lambda>x. Inr (encodeRegistrationCompletePostResponse A x)))
      | SessionsSessionIdDeleteOperation \<Rightarrow>
          secured_error E S op c r (\<lambda>c.
          params_error (decodeSessionsSessionIdDeleteParams A arg escaped) (\<lambda>i.
          answer_error (SessionsSessionIdDelete E c i)
            (\<lambda>x. Inr (encodeSessionsSessionIdDeleteResponse A x))))
      | TokenRefreshPostOperation \<Rightarrow>
          body_error (decodeTokenRefreshPostRequest A r) (\<lambda>q.
          answer_error (TokenRefreshPost E h q) (\<lambda>x. Inr (encodeTokenRefreshPostResponse A x))))"

text \<open>The error that the steps defer is that one.\<close>

definition failure_of :: "served act \<Rightarrow> world \<Rightarrow> server_error option" where
  "failure_of m w = (case fst (m w) of Ok s \<Rightarrow> map_option snd (sd_failure s) | _ \<Rightarrow> None)"

lemma failure_refused [simp]: "failure_of (refused S stage e) = (\<lambda>_. Some e)"
  by (rule ext) (simp add: failure_of_def refused_run)

lemma failure_secured:
  "failure_of (t_secured E S op c r next) = secured_error E S op c r (\<lambda>c. failure_of (next c))"
  by (rule ext)
     (auto simp: failure_of_def t_secured_def secured_error_def refused_run Let_def
       split: prod.split outcome.split option.split)

lemma failure_with_params: "failure_of (t_with_params S p next) = params_error p (\<lambda>u. failure_of (next u))"
  by (auto simp: t_with_params_def params_error_def split: sum.split)

lemma failure_with_request: "failure_of (t_with_request S q next) = body_error q (\<lambda>x. failure_of (next x))"
  by (auto simp: t_with_request_def body_error_def split: sum.split)

lemma failure_answered: "failure_of (t_answered S m encode) = answer_error m encode"
  by (rule ext)
     (auto simp: failure_of_def t_answered_def answer_error_def refused_run encoded_def
       split: prod.split outcome.split sum.split)

lemmas failure_steps = failure_secured failure_with_params failure_with_request failure_answered

section \<open>What is recorded\<close>

text \<open>Either an encoded answer, or one of the error handler with the error it is for.\<close>

definition served_ok :: "server \<Rightarrow> served \<Rightarrow> bool" where
  "served_ok S s \<longleftrightarrow>
     (case sd_failure s of
        None \<Rightarrow> s = encoded (sd_response s) \<and> 100 \<le> rs_status (sd_response s) \<and> rs_status (sd_response s) \<le> 500
      | Some (stage, e) \<Rightarrow> sd_events s = [] \<and> sd_response s = newErrorHandler (sv_api S) (sv_errors S) e)"

definition serves :: "server \<Rightarrow> served act \<Rightarrow> bool" where
  "serves S m \<longleftrightarrow> (\<forall>w s w'. m w = (Ok s, w') \<longrightarrow> served_ok S s)"

lemma serves_refused: "serves S (refused S stage e)"
  by (simp add: serves_def refused_run served_ok_def)

lemma serves_secured: "(\<And>c. serves S (next c)) \<Longrightarrow> serves S (t_secured E S op c r next)"
  using serves_refused [of S] unfolding serves_def t_secured_def
  by (auto simp: Let_def split: prod.splits outcome.splits option.splits if_splits)

lemma serves_with_params: "(\<And>u. serves S (next u)) \<Longrightarrow> serves S (t_with_params S p next)"
  by (auto simp: t_with_params_def serves_refused split: sum.split)

lemma serves_with_request: "(\<And>x. serves S (next x)) \<Longrightarrow> serves S (t_with_request S q next)"
  by (auto simp: t_with_request_def serves_refused split: sum.split)

lemma serves_answered:
  assumes "\<And>x resp. encode x = Inr resp \<Longrightarrow> 100 \<le> rs_status resp \<and> rs_status resp \<le> 500"
  shows "serves S (t_answered S m encode)"
  using serves_refused [of S] assms unfolding serves_def t_answered_def
  by (auto simp: served_ok_def encoded_def split: prod.splits outcome.splits sum.splits)

lemma encoded_status:
  "rs_status (encodeAdminUsersUserIdRevokeChainPostResponse A x1) \<in> {100..500}"
  "encodeAuthVerifyGetResponse A x2 = Inr resp \<Longrightarrow> rs_status resp \<in> {100..500}"
  "rs_status (encodeInvitesPostResponse A x3) \<in> {100..500}"
  "rs_status (encodeLoginBeginPostResponse A x4) \<in> {100..500}"
  "rs_status (encodeLoginPostResponse A x5) \<in> {100..500}"
  "rs_status (encodeRegistrationBeginPostResponse A x6) \<in> {100..500}"
  "rs_status (encodeRegistrationCompletePostResponse A x7) \<in> {100..500}"
  "rs_status (encodeSessionsSessionIdDeleteResponse A x8) \<in> {100..500}"
  "rs_status (encodeTokenRefreshPostResponse A x9) \<in> {100..500}"
  subgoal by (cases x1) (simp_all add: encodeAdminUsersUserIdRevokeChainPostResponse_def)
  subgoal by (cases x2) (auto simp: encodeAuthVerifyGetResponse_def split: sum.splits)
  subgoal by (cases x3) (simp_all add: encodeInvitesPostResponse_def)
  subgoal by (cases x4) (simp_all add: encodeLoginBeginPostResponse_def)
  subgoal by (cases x5) (simp_all add: encodeLoginPostResponse_def)
  subgoal by (cases x6) (simp_all add: encodeRegistrationBeginPostResponse_def)
  subgoal by (cases x7) (simp_all add: encodeRegistrationCompletePostResponse_def)
  subgoal by (cases x8) (simp_all add: encodeSessionsSessionIdDeleteResponse_def)
  subgoal by (cases x9) (simp_all add: encodeTokenRefreshPostResponse_def)
  done

lemma serves_encoded:
  "(\<And>x. rs_status (enc x) \<in> {100..500}) \<Longrightarrow> serves S (t_answered S m (\<lambda>x. Inr (enc x)))"
  by (rule serves_answered) auto

lemma serves_auth: "serves S (t_answered S m (encodeAuthVerifyGetResponse A))"
  using encoded_status(2) by (intro serves_answered) auto

text \<open>Every operation is a frame around steps that serve, named as the router names it.\<close>

definition route_attrs :: "route_leaf \<Rightarrow> attributes" where
  "route_attrs l = [(HTTPRequestMethodKey, Attr_String (leaf_method l)), (HTTPRouteKey, Attr_String (leaf_pattern l))]"

lemma t_operation_framed:
  "\<exists>own steps. t_operation E S T (leaf_operation l) arg escaped c r = framed T own (leaf_operation l) steps \<and>
     set (route_attrs l) \<subseteq> set own \<and> serves S steps \<and>
     failure_of steps = operation_error E S (leaf_operation l) arg escaped c r"
  by (cases l; simp only: leaf_operation_def route_leaf.case t_operation_def operation.case t_handler_defs
        operation_error_def Let_def;
      intro exI conjI, rule refl; (simp only: failure_steps)?)
     (auto simp: route_attrs_def leaf_method_def leaf_pattern_def
       intro!: serves_secured serves_with_params serves_with_request serves_encoded serves_auth
       simp del: atLeastAtMost_iff intro: encoded_status)

lemma handled_status:
  "(\<And>e. 100 \<le> el_Code L e) \<Longrightarrow> 100 \<le> rs_status (newErrorHandler A L e)"
  by (auto simp: newErrorHandler_def split: server_error.split request_error.split read_failure.split option.split)

text \<open>The events of a frame.\<close>

lemma framed_events:
  assumes "framed T own op steps w = ((out, ev), w')" and "serves S steps"
    and "\<And>e. 100 \<le> el_Code (sv_errors S) e"
  defines "attrs \<equiv> coded_attrs T \<lparr>lb_attrs = own @ ot_Attributes T\<rparr> (case out of Ok resp \<Rightarrow> rs_status resp | _ \<Rightarrow> 0)"
  shows "filter is_requests_add ev = [Requests_Add attrs]"
    and "(\<exists>d. Span_Status d \<in> set ev) \<longleftrightarrow> (\<exists>resp. out = Ok resp \<and> 500 \<le> rs_status resp)"
    and "filter is_errors_add ev = (case failure_of steps w of None \<Rightarrow> [] | Some _ \<Rightarrow> [Errors_Add attrs])"
    and "filter is_span_error ev = (case failure_of steps w of None \<Rightarrow> [] | Some e \<Rightarrow> [Span_Error e])"
    and "\<And>e. failure_of steps w = Some e \<Longrightarrow> out = Ok (newErrorHandler (sv_api S) (sv_errors S) e)"
    and "hd ev = Span_Start op (own @ ot_Attributes T)" and "last ev = Span_End"
proof -
  obtain r where r: "steps w = (r, w')" and out: "out = outcome_map sd_response r"
    and ev: "ev = Span_Start op (own @ ot_Attributes T) # recorded T \<lparr>lb_attrs = own @ ot_Attributes T\<rparr> r @
      stopwatch T \<lparr>lb_attrs = own @ ot_Attributes T\<rparr> (written_status r) @ [Span_End]"
    using assms(1) by (auto simp: framed_def Let_def split: prod.splits)
  have code: "(case out of Ok resp \<Rightarrow> rs_status resp | _ \<Rightarrow> 0) = written_status r"
    unfolding out by (cases r) (simp_all add: written_status_def)
  have handled: "100 \<le> rs_status (newErrorHandler (sv_api S) (sv_errors S) e)" for e
    by (rule handled_status) (rule assms(3))
  show "hd ev = Span_Start op (own @ ot_Attributes T)" "last ev = Span_End" by (simp_all add: ev)
  consider (answer) resp where "r = Ok (encoded resp)" "100 \<le> rs_status resp" "rs_status resp \<le> 500"
    | (refusal) stage e where "r = Ok \<lparr>sd_response = newErrorHandler (sv_api S) (sv_errors S) e,
        sd_events = [], sd_failure = Some (stage, e)\<rparr>"
    | (nothing) "\<forall>s. r \<noteq> Ok s"
  proof (cases r)
    case (Ok s)
    with assms(2) r have "served_ok S s" by (auto simp: serves_def)
    with Ok show thesis
      using that(1,2) by (cases s) (auto simp: served_ok_def split: option.splits)
  qed (use that(3) in auto)
  then have "filter is_requests_add ev = [Requests_Add attrs] \<and>
    ((\<exists>d. Span_Status d \<in> set ev) \<longleftrightarrow> (\<exists>resp. out = Ok resp \<and> 500 \<le> rs_status resp)) \<and>
    filter is_errors_add ev = (case failure_of steps w of None \<Rightarrow> [] | Some _ \<Rightarrow> [Errors_Add attrs]) \<and>
    filter is_span_error ev = (case failure_of steps w of None \<Rightarrow> [] | Some e \<Rightarrow> [Span_Error e]) \<and>
    (\<forall>e. failure_of steps w = Some e \<longrightarrow> out = Ok (newErrorHandler (sv_api S) (sv_errors S) e))"
  proof cases
    case answer
    then show ?thesis unfolding attrs_def code ev
      by (auto simp: out recorded_def stopwatch_def encoded_def written_status_def
        failure_of_def r)
  next
    case refusal
    with handled [of e] show ?thesis unfolding attrs_def code ev
      by (auto simp: out recorded_def stopwatch_def recordError_def written_status_def
        failure_of_def r)
  next
    case nothing
    then show ?thesis unfolding attrs_def code ev
      by (cases r) (auto simp: out recorded_def stopwatch_def written_status_def
        failure_of_def r)
  qed
  then show "filter is_requests_add ev = [Requests_Add attrs]"
    and "(\<exists>d. Span_Status d \<in> set ev) \<longleftrightarrow> (\<exists>resp. out = Ok resp \<and> 500 \<le> rs_status resp)"
    and "filter is_errors_add ev = (case failure_of steps w of None \<Rightarrow> [] | Some _ \<Rightarrow> [Errors_Add attrs])"
    and "filter is_span_error ev = (case failure_of steps w of None \<Rightarrow> [] | Some e \<Rightarrow> [Span_Error e])"
    and "\<And>e. failure_of steps w = Some e \<Longrightarrow> out = Ok (newErrorHandler (sv_api S) (sv_errors S) e)"
    by blast+
qed

end
