(* ===== verification/Http_Client_Telemetry.thy ===== *)
theory Http_Client_Telemetry
  imports Http_Client Http_Telemetry
begin

text \<open>
  What the generated client tells of a call: the preamble of every \<open>send\<close> function of
  \<open>api/http/oas_client_gen.go\<close>, with the stage that the call has come to. The functions are the calls
  of \<open>Http_Client\<close> with these events; the value of the stopwatch is left out.
\<close>

section \<open>Stages\<close>

text \<open>A step with the stage it is in; the next step may set another.\<close>

type_synonym 'a staged = "string \<times> (client_error + 'a)"

definition in_stage :: "string \<Rightarrow> client_error + 'a \<Rightarrow> 'a staged" where
  "in_stage stage x = (stage, x)"

definition then_stage :: "'a staged \<Rightarrow> ('a \<Rightarrow> 'b staged) \<Rightarrow> 'b staged" where
  "then_stage s f = (case s of (stage, Inl e) \<Rightarrow> (stage, Inl e) | (stage, Inr y) \<Rightarrow> f y)"

definition t_dispatch ::
  "client \<Rightarrow> (client_libs \<Rightarrow> http_response \<Rightarrow> response_error + 'a) \<Rightarrow> http_request staged \<Rightarrow> 'a staged act" where
  "t_dispatch c decode q w =
     (case q of
        (stage, Inl e) \<Rightarrow> (Ok (stage, Inl e), w)
      | (stage, Inr r) \<Rightarrow>
          (case cc_Do c r w of
             (Ok resp, w') \<Rightarrow>
               (Ok (''DecodeResponse'',
                  case decode (cc_libs c) resp of Inl e \<Rightarrow> Inl (Decode_Response e) | Inr x \<Rightarrow> Inr x), w')
           | (Err e, w') \<Rightarrow> (Ok (''SendRequest'', Inl (Do_Request e)), w')
           | (Panic v, w') \<Rightarrow> (Panic v, w')))"

text \<open>The frame of a call. The deferred calls run in reverse: the span, then the stopwatch.\<close>

definition client_framed ::
  "otel \<Rightarrow> attributes \<Rightarrow> operation \<Rightarrow> 'a staged act \<Rightarrow> world \<Rightarrow>
   ((client_error + 'a) outcome \<times> client_error otel_event list) \<times> world" where
  "client_framed T own op steps w =
     (let otelAttrs = own @ ot_Attributes T; (r, w') = steps w in
      ((outcome_map snd r,
        [Requests_Add otelAttrs, Span_Start op otelAttrs] @
        (case r of
           Ok (stage, Inl e) \<Rightarrow> [Span_Error e, Span_Status stage, Errors_Add otelAttrs]
         | _ \<Rightarrow> []) @
        [Span_End, Duration_Record otelAttrs]), w'))"

section \<open>The calls\<close>

definition tSendAdminUsersUserIdRevokeChainPost where
  "tSendAdminUsersUserIdRevokeChainPost c T ctx_url userId =
     client_framed T
       [(HTTPRequestMethodKey, Attr_String ''POST''),
         (URLTemplateKey, Attr_String ''/admin/users/{userId}/revoke-chain'')] AdminUsersUserIdRevokeChainPostOperation
       (t_dispatch c decodeAdminUsersUserIdRevokeChainPostResponse
        (then_stage (in_stage ''BuildURL'' (path_param c userId)) (\<lambda>p.
         then_stage (in_stage ''EncodeRequest'' (client_request c ctx_url ''POST'' [''/admin/users/'', p, ''/revoke-chain''])) (\<lambda>r.
         in_stage ''Security:BearerAuth'' (client_secured c AdminUsersUserIdRevokeChainPostOperation r)))))"

definition tSendAuthVerifyGet where
  "tSendAuthVerifyGet c T ctx_url =
     client_framed T
       [(Otelogen_OperationID, Attr_String ''AuthVerifyGet''), (HTTPRequestMethodKey, Attr_String ''GET''),
         (URLTemplateKey, Attr_String ''/auth/verify'')] AuthVerifyGetOperation
       (t_dispatch c decodeAuthVerifyGetResponse
        (then_stage (in_stage ''EncodeRequest'' (client_request c ctx_url ''GET'' [''/auth/verify''])) (\<lambda>r.
         in_stage ''Security:BearerAuth'' (client_secured c AuthVerifyGetOperation r))))"

definition tSendInvitesPost where
  "tSendInvitesPost c T ctx_url =
     client_framed T
       [(HTTPRequestMethodKey, Attr_String ''POST''),
         (URLTemplateKey, Attr_String ''/invites'')] InvitesPostOperation
       (t_dispatch c decodeInvitesPostResponse
        (then_stage (in_stage ''EncodeRequest'' (client_request c ctx_url ''POST'' [''/invites''])) (\<lambda>r.
         in_stage ''Security:BearerAuth'' (client_secured c InvitesPostOperation r))))"

definition tSendLoginBeginPost where
  "tSendLoginBeginPost c T ctx_url =
     client_framed T
       [(HTTPRequestMethodKey, Attr_String ''POST''),
         (URLTemplateKey, Attr_String ''/login/begin'')] LoginBeginPostOperation
       (t_dispatch c decodeLoginBeginPostResponse
        (in_stage ''EncodeRequest'' (client_request c ctx_url ''POST'' [''/login/begin''])))"

definition tSendLoginPost where
  "tSendLoginPost c T ctx_url request =
     client_framed T
       [(HTTPRequestMethodKey, Attr_String ''POST''),
         (URLTemplateKey, Attr_String ''/login'')] LoginPostOperation
       (t_dispatch c decodeLoginPostResponse
        (then_stage (in_stage ''EncodeRequest'' (client_request c ctx_url ''POST'' [''/login''])) (\<lambda>r.
         in_stage ''EncodeRequest'' (Inr (encodeLoginPostRequest (cl_api (cc_libs c)) request r)))))"

definition tSendRegistrationBeginPost where
  "tSendRegistrationBeginPost c T ctx_url request =
     client_framed T
       [(HTTPRequestMethodKey, Attr_String ''POST''),
         (URLTemplateKey, Attr_String ''/registration/begin'')] RegistrationBeginPostOperation
       (t_dispatch c decodeRegistrationBeginPostResponse
        (then_stage (in_stage ''EncodeRequest'' (client_request c ctx_url ''POST'' [''/registration/begin''])) (\<lambda>r.
         in_stage ''EncodeRequest'' (Inr (encodeRegistrationBeginPostRequest (cl_api (cc_libs c)) request r)))))"

definition tSendRegistrationCompletePost where
  "tSendRegistrationCompletePost c T ctx_url request =
     client_framed T
       [(HTTPRequestMethodKey, Attr_String ''POST''),
         (URLTemplateKey, Attr_String ''/registration/complete'')] RegistrationCompletePostOperation
       (t_dispatch c decodeRegistrationCompletePostResponse
        (then_stage (in_stage ''EncodeRequest'' (client_request c ctx_url ''POST'' [''/registration/complete''])) (\<lambda>r.
         in_stage ''EncodeRequest'' (Inr (encodeRegistrationCompletePostRequest (cl_api (cc_libs c)) request r)))))"

definition tSendSessionsSessionIdDelete where
  "tSendSessionsSessionIdDelete c T ctx_url sessionId =
     client_framed T
       [(HTTPRequestMethodKey, Attr_String ''DELETE''),
         (URLTemplateKey, Attr_String ''/sessions/{sessionId}'')] SessionsSessionIdDeleteOperation
       (t_dispatch c decodeSessionsSessionIdDeleteResponse
        (then_stage (in_stage ''BuildURL'' (path_param c sessionId)) (\<lambda>p.
         then_stage (in_stage ''EncodeRequest'' (client_request c ctx_url ''DELETE'' [''/sessions/'', p])) (\<lambda>r.
         in_stage ''Security:BearerAuth'' (client_secured c SessionsSessionIdDeleteOperation r)))))"

definition tSendTokenRefreshPost where
  "tSendTokenRefreshPost c T ctx_url request =
     client_framed T
       [(HTTPRequestMethodKey, Attr_String ''POST''),
         (URLTemplateKey, Attr_String ''/token/refresh'')] TokenRefreshPostOperation
       (t_dispatch c decodeTokenRefreshPostResponse
        (then_stage (in_stage ''EncodeRequest'' (client_request c ctx_url ''POST'' [''/token/refresh''])) (\<lambda>r.
         in_stage ''EncodeRequest'' (Inr (encodeTokenRefreshPostRequest (cl_api (cc_libs c)) request r)))))"

lemmas t_send_defs =
  tSendAdminUsersUserIdRevokeChainPost_def
  tSendAuthVerifyGet_def
  tSendInvitesPost_def
  tSendLoginBeginPost_def
  tSendLoginPost_def
  tSendRegistrationBeginPost_def
  tSendRegistrationCompletePost_def
  tSendSessionsSessionIdDelete_def
  tSendTokenRefreshPost_def

lemmas send_defs =
  sendAdminUsersUserIdRevokeChainPost_def
  sendAuthVerifyGet_def
  sendInvitesPost_def
  sendLoginBeginPost_def
  sendLoginPost_def
  sendRegistrationBeginPost_def
  sendRegistrationCompletePost_def
  sendSessionsSessionIdDelete_def
  sendTokenRefreshPost_def

section \<open>The events of a call, from what it returns\<close>

text \<open>The stage that an error belongs to.\<close>

definition client_stage :: "client_error \<Rightarrow> string" where
  "client_stage e =
     (case e of
        Encode_Path _ \<Rightarrow> ''BuildURL''
      | Create_Request _ \<Rightarrow> ''EncodeRequest''
      | Client_Security _ \<Rightarrow> ''Security:BearerAuth''
      | Requirement_Not_Satisfied \<Rightarrow> ''Security:BearerAuth''
      | Do_Request _ \<Rightarrow> ''SendRequest''
      | Decode_Response _ \<Rightarrow> ''DecodeResponse'')"

definition told ::
  "otel \<Rightarrow> attributes \<Rightarrow> operation \<Rightarrow> (client_error + 'a) outcome \<times> world \<Rightarrow>
   ((client_error + 'a) outcome \<times> client_error otel_event list) \<times> world" where
  "told T own op result =
     (let attrs = own @ ot_Attributes T; (r, w') = result in
      ((r, [Requests_Add attrs, Span_Start op attrs] @
        (case r of
           Ok (Inl e) \<Rightarrow> [Span_Error e, Span_Status (client_stage e), Errors_Add attrs]
         | _ \<Rightarrow> []) @
        [Span_End, Duration_Record attrs]), w'))"

definition right_stage :: "'a staged \<Rightarrow> bool" where
  "right_stage s \<longleftrightarrow> (\<forall>e. snd s = Inl e \<longrightarrow> fst s = client_stage e)"

lemma right_stage_then:
  "right_stage s \<Longrightarrow> (\<And>y. right_stage (f y)) \<Longrightarrow> right_stage (then_stage s f)"
  by (auto simp: right_stage_def then_stage_def split: prod.split sum.split)

lemma right_stage_steps:
  "right_stage (in_stage ''BuildURL'' (path_param c x))"
  "right_stage (in_stage ''EncodeRequest'' (client_request c u m ps))"
  "right_stage (in_stage ''EncodeRequest'' (Inr r))"
  "right_stage (in_stage ''Security:BearerAuth'' (client_secured c op r))"
  by (auto simp: right_stage_def in_stage_def client_stage_def path_param_def client_request_def
      client_secured_def split: sum.splits if_splits)

lemma snd_then_stage: "snd (then_stage s f) = and_then (snd s) (\<lambda>y. snd (f y))"
  by (auto simp: then_stage_def and_then_def split: prod.split sum.split)

lemma snd_in_stage [simp]: "snd (in_stage s x) = x"
  by (simp add: in_stage_def)

lemma client_framed_told:
  assumes "right_stage q"
  shows "client_framed T own op (t_dispatch c decode q) w = told T own op (dispatch c decode (snd q) w)"
proof (cases q)
  case (Pair stage x)
  show ?thesis
  proof (cases x)
    case (Inl e)
    with Pair assms show ?thesis
      by (simp add: client_framed_def t_dispatch_def dispatch_def told_def right_stage_def)
  next
    case (Inr r)
    obtain o' w' where "cc_Do c r w = (o', w')" by fastforce
    with Pair Inr show ?thesis
      by (cases o')
         (auto simp: client_framed_def t_dispatch_def dispatch_def told_def client_stage_def split: sum.split)
  qed
qed

text \<open>C34: The client counts every call once, marks its span and counts an error exactly when the call
  fails, and names the stage that failed; the call returns what it would without telemetry.\<close>

theorem client_telemetry:
  "tSendAdminUsersUserIdRevokeChainPost c T u userId w =
     told T [(HTTPRequestMethodKey, Attr_String ''POST''),
       (URLTemplateKey, Attr_String ''/admin/users/{userId}/revoke-chain'')]
       AdminUsersUserIdRevokeChainPostOperation (sendAdminUsersUserIdRevokeChainPost c u userId w) \<and>
   tSendAuthVerifyGet c T u w =
     told T [(Otelogen_OperationID, Attr_String ''AuthVerifyGet''), (HTTPRequestMethodKey, Attr_String ''GET''),
       (URLTemplateKey, Attr_String ''/auth/verify'')]
       AuthVerifyGetOperation (sendAuthVerifyGet c u w) \<and>
   tSendInvitesPost c T u w =
     told T [(HTTPRequestMethodKey, Attr_String ''POST''),
       (URLTemplateKey, Attr_String ''/invites'')]
       InvitesPostOperation (sendInvitesPost c u w) \<and>
   tSendLoginBeginPost c T u w =
     told T [(HTTPRequestMethodKey, Attr_String ''POST''),
       (URLTemplateKey, Attr_String ''/login/begin'')]
       LoginBeginPostOperation (sendLoginBeginPost c u w) \<and>
   tSendLoginPost c T u login w =
     told T [(HTTPRequestMethodKey, Attr_String ''POST''),
       (URLTemplateKey, Attr_String ''/login'')]
       LoginPostOperation (sendLoginPost c u login w) \<and>
   tSendRegistrationBeginPost c T u begin_reg w =
     told T [(HTTPRequestMethodKey, Attr_String ''POST''),
       (URLTemplateKey, Attr_String ''/registration/begin'')]
       RegistrationBeginPostOperation (sendRegistrationBeginPost c u begin_reg w) \<and>
   tSendRegistrationCompletePost c T u complete w =
     told T [(HTTPRequestMethodKey, Attr_String ''POST''),
       (URLTemplateKey, Attr_String ''/registration/complete'')]
       RegistrationCompletePostOperation (sendRegistrationCompletePost c u complete w) \<and>
   tSendSessionsSessionIdDelete c T u sessionId w =
     told T [(HTTPRequestMethodKey, Attr_String ''DELETE''),
       (URLTemplateKey, Attr_String ''/sessions/{sessionId}'')]
       SessionsSessionIdDeleteOperation (sendSessionsSessionIdDelete c u sessionId w) \<and>
   tSendTokenRefreshPost c T u refresh w =
     told T [(HTTPRequestMethodKey, Attr_String ''POST''),
       (URLTemplateKey, Attr_String ''/token/refresh'')]
       TokenRefreshPostOperation (sendTokenRefreshPost c u refresh w)"
  unfolding t_send_defs send_defs
  by (intro conjI) (simp_all add: client_framed_told right_stage_then right_stage_steps snd_then_stage)

end
