(* ===== verification/Http_Telemetry_Properties.thy ===== *)
theory Http_Telemetry_Properties
  imports Http_Properties Http_Client_Telemetry
begin

text \<open>What the server records of a request, with a witness.\<close>

text \<open>C29: Every request that is routed is answered as without telemetry, counted once, under the
  method and the pattern of its route in the table and the status that was written, in a span that ends last and
  that is marked as failed exactly when the answer is a 5xx. An error is counted, once, exactly when
  the operation hands one to the error handler (\<open>operation_error\<close>, which knows nothing of what is
  recorded), whatever its status; it is that error that the span is given and that was answered.\<close>

theorem server_telemetry:
  assumes "route_request (sv_api S) (sv_prefix S) r = To_Operation op arg escaped"
    and "\<And>e. 100 \<le> el_Code (sv_errors S) e"
    and "t_ServeHTTP E S T c r w = ((out, ev), w')"
    and "failure = operation_error E S op arg escaped c r w"
  shows "ServeHTTP E S c r w = (out, w') \<and>
    (\<exists>own pat. let attrs = coded_attrs T \<lparr>lb_attrs = own @ ot_Attributes T\<rparr>
              (case out of Ok resp \<Rightarrow> rs_status resp | _ \<Rightarrow> 0) in
       (op, hr_method r, pat) \<in> set api_routes \<and>
       {(HTTPRequestMethodKey, Attr_String (hr_method r)), (HTTPRouteKey, Attr_String pat)} \<subseteq> set own \<and>
       hd ev = Span_Start op (own @ ot_Attributes T) \<and> last ev = Span_End \<and>
       filter is_requests_add ev = [Requests_Add attrs] \<and>
       ((\<exists>d. Span_Status d \<in> set ev) \<longleftrightarrow> (\<exists>resp. out = Ok resp \<and> 500 \<le> rs_status resp)) \<and>
       filter is_errors_add ev = (case failure of None \<Rightarrow> [] | Some _ \<Rightarrow> [Errors_Add attrs])) \<and>
    filter is_span_error ev = (case failure of None \<Rightarrow> [] | Some e \<Rightarrow> [Span_Error e]) \<and>
    (\<forall>e. failure = Some e \<longrightarrow> out = Ok (newErrorHandler (sv_api S) (sv_errors S) e))"
proof -
  obtain l where l: "op = leaf_operation l" "hr_method r = leaf_method l"
    using assms(1) by (auto simp: route_request_def split: prod.splits option.splits if_splits)
  obtain own steps where frame: "t_operation E S T op arg escaped c r = framed T own op steps"
    and own: "set (route_attrs l) \<subseteq> set own" and serve: "serves S steps"
    and fail: "failure_of steps = operation_error E S op arg escaped c r"
    using t_operation_framed unfolding l(1) by blast
  have run: "framed T own op steps w = ((out, ev), w')"
    using assms(1,3) frame by (simp add: t_ServeHTTP_def)
  have plain: "ServeHTTP E S c r w = (out, w')" using t_ServeHTTP_plain [of E S T c r w] assms(3) by simp
  have route: "(op, hr_method r, leaf_pattern l) \<in> set api_routes" unfolding api_routes_leaves using l by blast
  have attrs: "{(HTTPRequestMethodKey, Attr_String (hr_method r)), (HTTPRouteKey, Attr_String (leaf_pattern l))}
      \<subseteq> set own" using own l(2) by (simp add: route_attrs_def)
  note ev = framed_events [OF run serve assms(2), unfolded fail assms(4) [symmetric]]
  show ?thesis unfolding Let_def
    by (intro conjI exI [of _ own] exI [of _ "leaf_pattern l"] allI impI)
      (fact plain route attrs ev | erule ev(5))+
qed

theorem server_telemetry_witness:
  "\<exists>resp ev w'. t_ServeHTTP sample_env sample_server \<lparr>ot_Attributes = [], ot_NewSet = id\<rparr> []
       (sample_revoke ''member'') (world_of sample_db) = ((Ok resp, ev), w') \<and>
     rs_status resp = 403 \<and> length (filter is_requests_add ev) = 1 \<and>
     length (filter is_errors_add ev) = 1 \<and>
     filter is_span_error ev = [Span_Error (Security_Error (Some (Sentinel Http_ErrForbidden)))]"
proof -
  let ?failure = "Security_Error (Some (Sentinel Http_ErrForbidden))"
  obtain out ev w' where run: "t_ServeHTTP sample_env sample_server \<lparr>ot_Attributes = [], ot_NewSet = id\<rparr> []
      (sample_revoke ''member'') (world_of sample_db) = ((out, ev), w')" by (metis surj_pair)
  have route: "route_request (sv_api sample_server) (sv_prefix sample_server) (sample_revoke ''member'') =
      To_Operation AdminUsersUserIdRevokeChainPostOperation ''2'' False"
    using sample_revoke_route by (simp add: sample_server_def)
  have "operation_error sample_env sample_server AdminUsersUserIdRevokeChainPostOperation ''2'' False []
      (sample_revoke ''member'') (world_of sample_db) = Some ?failure"
    using sample_Verify [of "''member''"]
    by (simp add: operation_error_def secured_error_def securityBearerAuth_run
        sample_authorization sample_server_def roleAllowed_def GetRolesForBearerAuth_def
        operationRolesBearerAuth_def role_String_def role_defs)
  from server_telemetry [OF route _ run this [symmetric]] have
    "out = Ok (newErrorHandler (sv_api sample_server) (sv_errors sample_server) ?failure) \<and>
     (\<exists>a. filter is_requests_add ev = [Requests_Add a] \<and> filter is_errors_add ev = [Errors_Add a]) \<and>
     filter is_span_error ev = [Span_Error ?failure]"
    unfolding Let_def by (auto simp: sample_server_def)
  with run show ?thesis by (auto simp: newErrorHandler_def)
qed

end
