(* ===== verification/Http_Options.thy ===== *)
theory Http_Options
  imports Http_Telemetry
begin

text \<open>
  The settings of the generated server and client, \<open>api/http/oas_cfg_gen.go\<close>, and \<open>NewServer\<close> of
  \<open>oas_server_gen.go\<close>: options change a configuration one after the other, a nil argument leaves it as it
  is, and at the end a tracer and a meter are taken from the providers. Providers, middleware and HTTP
  clients are values of any type. The options that \<open>NewRouter\<close> passes give the configuration that
  \<open>Http_Server\<close> is written for.
\<close>

section \<open>Configurations\<close>

text \<open>A tracer or a meter, by the provider that it was asked of.\<close>

datatype 'p from_provider = From_Provider 'p

record ('tp, 'mp) otel_config =
  oc_TracerProvider :: "'tp option"
  oc_Tracer :: "'tp from_provider option"
  oc_MeterProvider :: "'mp option"
  oc_Meter :: "'mp from_provider option"
  oc_Attributes :: attributes

record ('tp, 'mp, 'm) server_config =
  sc_otel :: "('tp, 'mp) otel_config"
  sc_NotFound :: "http_request \<Rightarrow> http_response"
  sc_MethodNotAllowed :: "(http_request \<Rightarrow> string \<Rightarrow> http_response) option"
  sc_ErrorHandler :: "server_error \<Rightarrow> http_response"
  sc_Prefix :: string
  sc_Middleware :: "'m option"
  sc_MaxMultipartMemory :: int

record ('tp, 'mp, 'c) client_config =
  lc_otel :: "('tp, 'mp) otel_config"
  lc_Client :: 'c

text \<open>What the configuration takes from libraries: the global providers, the defaults, chaining.\<close>

record ('tp, 'mp, 'm, 'c) config_libs =
  cl_GetTracerProvider :: 'tp
  cl_GetMeterProvider :: 'mp
  cl_DefaultErrorHandler :: "server_error \<Rightarrow> http_response"
  cl_ChainMiddlewares :: "'m list \<Rightarrow> 'm"
  cl_DefaultClient :: 'c

definition initOTEL ::
  "('tp, 'mp, 'm, 'c) config_libs \<Rightarrow> ('tp, 'mp) otel_config \<Rightarrow> ('tp, 'mp) otel_config" where
  "initOTEL D cfg =
     (let tp = (case oc_TracerProvider cfg of None \<Rightarrow> cl_GetTracerProvider D | Some p \<Rightarrow> p);
          mp = (case oc_MeterProvider cfg of None \<Rightarrow> cl_GetMeterProvider D | Some p \<Rightarrow> p) in
      cfg\<lparr>oc_TracerProvider := Some tp, oc_MeterProvider := Some mp,
          oc_Tracer := Some (From_Provider tp), oc_Meter := Some (From_Provider mp)\<rparr>)"

section \<open>Options\<close>

text \<open>An option of one of the two, or of the part that they share.\<close>

datatype ('tp, 'mp, 'cfg) config_option =
    Option_Func "'cfg \<Rightarrow> 'cfg"
  | Otel_Option_Func "('tp, 'mp) otel_config \<Rightarrow> ('tp, 'mp) otel_config"

fun applyServer ::
  "('tp, 'mp, ('tp, 'mp, 'm) server_config) config_option \<Rightarrow>
   ('tp, 'mp, 'm) server_config \<Rightarrow> ('tp, 'mp, 'm) server_config" where
  "applyServer (Option_Func f) cfg = f cfg"
| "applyServer (Otel_Option_Func f) cfg = cfg\<lparr>sc_otel := f (sc_otel cfg)\<rparr>"

fun applyClient ::
  "('tp, 'mp, ('tp, 'mp, 'c) client_config) config_option \<Rightarrow>
   ('tp, 'mp, 'c) client_config \<Rightarrow> ('tp, 'mp, 'c) client_config" where
  "applyClient (Option_Func f) cfg = f cfg"
| "applyClient (Otel_Option_Func f) cfg = cfg\<lparr>lc_otel := f (lc_otel cfg)\<rparr>"

definition zero_otel :: "('tp, 'mp) otel_config" where
  "zero_otel = \<lparr>oc_TracerProvider = None, oc_Tracer = None, oc_MeterProvider = None, oc_Meter = None,
     oc_Attributes = []\<rparr>"

definition newServerConfig ::
  "('tp, 'mp, 'm, 'c) config_libs \<Rightarrow> ('tp, 'mp, ('tp, 'mp, 'm) server_config) config_option list \<Rightarrow>
   ('tp, 'mp, 'm) server_config" where
  "newServerConfig D opts =
     (let cfg = fold applyServer opts
            \<lparr>sc_otel = zero_otel, sc_NotFound = (\<lambda>_. notFound), sc_MethodNotAllowed = None,
             sc_ErrorHandler = cl_DefaultErrorHandler D, sc_Prefix = [], sc_Middleware = None,
             sc_MaxMultipartMemory = push_bit 20 32\<rparr> in
      cfg\<lparr>sc_otel := initOTEL D (sc_otel cfg)\<rparr>)"

definition newClientConfig ::
  "('tp, 'mp, 'm, 'c) config_libs \<Rightarrow> ('tp, 'mp, ('tp, 'mp, 'c) client_config) config_option list \<Rightarrow>
   ('tp, 'mp, 'c) client_config" where
  "newClientConfig D opts =
     (let cfg = fold applyClient opts \<lparr>lc_otel = zero_otel, lc_Client = cl_DefaultClient D\<rparr> in
      cfg\<lparr>lc_otel := initOTEL D (lc_otel cfg)\<rparr>)"

definition WithTracerProvider :: "'tp option \<Rightarrow> ('tp, 'mp, 'cfg) config_option" where
  "WithTracerProvider provider =
     Otel_Option_Func (\<lambda>cfg. case provider of None \<Rightarrow> cfg | Some p \<Rightarrow> cfg\<lparr>oc_TracerProvider := Some p\<rparr>)"

definition WithMeterProvider :: "'mp option \<Rightarrow> ('tp, 'mp, 'cfg) config_option" where
  "WithMeterProvider provider =
     Otel_Option_Func (\<lambda>cfg. case provider of None \<Rightarrow> cfg | Some p \<Rightarrow> cfg\<lparr>oc_MeterProvider := Some p\<rparr>)"

definition WithAttributes :: "attributes \<Rightarrow> ('tp, 'mp, 'cfg) config_option" where
  "WithAttributes attrs = Otel_Option_Func (\<lambda>cfg. cfg\<lparr>oc_Attributes := attrs\<rparr>)"

definition WithClient :: "'c option \<Rightarrow> ('tp, 'mp, ('tp, 'mp, 'c) client_config) config_option" where
  "WithClient c = Option_Func (\<lambda>cfg. case c of None \<Rightarrow> cfg | Some x \<Rightarrow> cfg\<lparr>lc_Client := x\<rparr>)"

definition WithNotFound ::
  "(http_request \<Rightarrow> http_response) option \<Rightarrow> ('tp, 'mp, ('tp, 'mp, 'm) server_config) config_option" where
  "WithNotFound h = Option_Func (\<lambda>cfg. case h of None \<Rightarrow> cfg | Some x \<Rightarrow> cfg\<lparr>sc_NotFound := x\<rparr>)"

definition WithMethodNotAllowed ::
  "(http_request \<Rightarrow> string \<Rightarrow> http_response) option \<Rightarrow>
   ('tp, 'mp, ('tp, 'mp, 'm) server_config) config_option" where
  "WithMethodNotAllowed h =
     Option_Func (\<lambda>cfg. case h of None \<Rightarrow> cfg | Some x \<Rightarrow> cfg\<lparr>sc_MethodNotAllowed := Some x\<rparr>)"

definition WithErrorHandler ::
  "(server_error \<Rightarrow> http_response) option \<Rightarrow> ('tp, 'mp, ('tp, 'mp, 'm) server_config) config_option" where
  "WithErrorHandler h = Option_Func (\<lambda>cfg. case h of None \<Rightarrow> cfg | Some x \<Rightarrow> cfg\<lparr>sc_ErrorHandler := x\<rparr>)"

definition WithPathPrefix :: "string \<Rightarrow> ('tp, 'mp, ('tp, 'mp, 'm) server_config) config_option" where
  "WithPathPrefix prefix = Option_Func (\<lambda>cfg. cfg\<lparr>sc_Prefix := prefix\<rparr>)"

definition WithMiddleware ::
  "('tp, 'mp, 'm, 'c) config_libs \<Rightarrow> 'm list \<Rightarrow> ('tp, 'mp, ('tp, 'mp, 'm) server_config) config_option" where
  "WithMiddleware D ms =
     Option_Func (\<lambda>cfg. case ms of
         [] \<Rightarrow> cfg\<lparr>sc_Middleware := None\<rparr>
       | [m] \<Rightarrow> cfg\<lparr>sc_Middleware := Some m\<rparr>
       | _ \<Rightarrow> cfg\<lparr>sc_Middleware := Some (cl_ChainMiddlewares D ms)\<rparr>)"

definition WithMaxMultipartMemory :: "int \<Rightarrow> ('tp, 'mp, ('tp, 'mp, 'm) server_config) config_option" where
  "WithMaxMultipartMemory n = Option_Func (\<lambda>cfg. if n > 0 then cfg\<lparr>sc_MaxMultipartMemory := n\<rparr> else cfg)"

section \<open>Instruments\<close>

text \<open>
  The three instruments are made of the meter, one after the other; the first that cannot be made is
  the error. \<open>otelogen\<close> is a parameter.
\<close>

record ('mp, 'i) instrument_makers =
  im_RequestCount :: "'mp from_provider option \<Rightarrow> err + 'i"
  im_ErrorsCount :: "'mp from_provider option \<Rightarrow> err + 'i"
  im_Duration :: "'mp from_provider option \<Rightarrow> err + 'i"

record ('cfg, 'i) base =
  bs_cfg :: 'cfg
  bs_requests :: 'i
  bs_errors :: 'i
  bs_duration :: 'i

definition make_base ::
  "('mp, 'i) instrument_makers \<Rightarrow> 'mp from_provider option \<Rightarrow> 'cfg \<Rightarrow> err + ('cfg, 'i) base" where
  "make_base M meter cfg =
     (case im_RequestCount M meter of
        Inl e \<Rightarrow> Inl e
      | Inr requests \<Rightarrow>
          (case im_ErrorsCount M meter of
             Inl e \<Rightarrow> Inl e
           | Inr errors \<Rightarrow>
               (case im_Duration M meter of
                  Inl e \<Rightarrow> Inl e
                | Inr duration \<Rightarrow>
                    Inr \<lparr>bs_cfg = cfg, bs_requests = requests, bs_errors = errors, bs_duration = duration\<rparr>)))"

definition baseServer ::
  "('mp, 'i) instrument_makers \<Rightarrow> ('tp, 'mp, 'm) server_config \<Rightarrow>
   err + (('tp, 'mp, 'm) server_config, 'i) base" where
  "baseServer M cfg = make_base M (oc_Meter (sc_otel cfg)) cfg"

definition baseClient ::
  "('mp, 'i) instrument_makers \<Rightarrow> ('tp, 'mp, 'c) client_config \<Rightarrow>
   err + (('tp, 'mp, 'c) client_config, 'i) base" where
  "baseClient M cfg = make_base M (oc_Meter (lc_otel cfg)) cfg"

text \<open>\<open>api.NewServer\<close>: the handler, the security handler and the base.\<close>

definition api_NewServer where
  "api_NewServer D M h sec opts =
     (case baseServer M (newServerConfig D opts) of Inl e \<Rightarrow> Inl e | Inr s \<Rightarrow> Inr (h, sec, s))"

section \<open>What the options do\<close>

lemmas option_defs =
  WithTracerProvider_def WithMeterProvider_def WithAttributes_def WithClient_def WithNotFound_def
  WithMethodNotAllowed_def WithErrorHandler_def WithPathPrefix_def WithMiddleware_def
  WithMaxMultipartMemory_def

text \<open>The last option is applied to what the others have left.\<close>

lemma fold_last: "fold applyServer (opts @ [opt]) cfg = applyServer opt (fold applyServer opts cfg)"
  by simp

text \<open>A nil argument is as if the option had not been given.\<close>

lemma nil_options:
  "applyServer (WithTracerProvider None) cfg = cfg" "applyServer (WithMeterProvider None) cfg = cfg"
  "applyServer (WithNotFound None) cfg = cfg" "applyServer (WithMethodNotAllowed None) cfg = cfg"
  "applyServer (WithErrorHandler None) cfg = cfg" "applyClient (WithClient None) lcfg = lcfg"
  "n \<le> 0 \<Longrightarrow> applyServer (WithMaxMultipartMemory n) cfg = cfg"
  by (simp_all add: option_defs)

text \<open>Whatever the options, there is a tracer and a meter, of the provider that is set.\<close>

lemma initOTEL_ready:
  "oc_Tracer (initOTEL D cfg) = map_option From_Provider (oc_TracerProvider (initOTEL D cfg))"
  "oc_Tracer (initOTEL D cfg) \<noteq> None"
  "oc_Meter (initOTEL D cfg) = map_option From_Provider (oc_MeterProvider (initOTEL D cfg))"
  "oc_Meter (initOTEL D cfg) \<noteq> None"
  by (simp_all add: initOTEL_def Let_def)

lemma newServerConfig_ready:
  "oc_Tracer (sc_otel (newServerConfig D opts)) =
     map_option From_Provider (oc_TracerProvider (sc_otel (newServerConfig D opts)))"
  "oc_Tracer (sc_otel (newServerConfig D opts)) \<noteq> None"
  "oc_Meter (sc_otel (newServerConfig D opts)) =
     map_option From_Provider (oc_MeterProvider (sc_otel (newServerConfig D opts)))"
  "oc_Meter (sc_otel (newServerConfig D opts)) \<noteq> None"
proof -
  obtain cfg where "sc_otel (newServerConfig D opts) = initOTEL D cfg"
    by (simp add: newServerConfig_def Let_def)
  then show "oc_Tracer (sc_otel (newServerConfig D opts)) =
      map_option From_Provider (oc_TracerProvider (sc_otel (newServerConfig D opts)))"
    "oc_Tracer (sc_otel (newServerConfig D opts)) \<noteq> None"
    "oc_Meter (sc_otel (newServerConfig D opts)) =
      map_option From_Provider (oc_MeterProvider (sc_otel (newServerConfig D opts)))"
    "oc_Meter (sc_otel (newServerConfig D opts)) \<noteq> None" by (simp_all add: initOTEL_def Let_def)
qed

text \<open>
  The options of \<open>NewRouter\<close>: no prefix, no middleware, \<open>http.NotFound\<close>, no handler of unknown methods,
  no attributes, the global providers, and its error handler.
\<close>

lemma router_options:
  "newServerConfig D [WithErrorHandler (Some (newErrorHandler A L))] =
     \<lparr>sc_otel = \<lparr>oc_TracerProvider = Some (cl_GetTracerProvider D),
        oc_Tracer = Some (From_Provider (cl_GetTracerProvider D)),
        oc_MeterProvider = Some (cl_GetMeterProvider D),
        oc_Meter = Some (From_Provider (cl_GetMeterProvider D)), oc_Attributes = []\<rparr>,
      sc_NotFound = (\<lambda>_. notFound), sc_MethodNotAllowed = None,
      sc_ErrorHandler = newErrorHandler A L, sc_Prefix = [], sc_Middleware = None,
      sc_MaxMultipartMemory = 33554432\<rparr>"
  by (simp add: newServerConfig_def initOTEL_def Let_def zero_otel_def option_defs push_bit_eq_mult)

text \<open>A server is made exactly when its three instruments are.\<close>

lemma make_base_Inr_iff:
  "(\<exists>b. make_base M meter cfg = Inr b) \<longleftrightarrow>
     \<not> isl (im_RequestCount M meter) \<and> \<not> isl (im_ErrorsCount M meter) \<and> \<not> isl (im_Duration M meter)"
  by (auto simp: make_base_def split: sum.split)

end
