(* ===== verification/Storage_Scan.thy ===== *)
theory Storage_Scan
  imports Crypto Storage_Db
begin

text \<open>
  The two enumerations of \<open>pg/models.go\<close> between Go and the database driver: \<open>Scan\<close> reads a value of the
  driver into a variable, \<open>Value\<close> gives one to it. \<open>Scan\<close> is a method with a pointer: it returns the
  error with what the variable holds afterwards.
\<close>

text \<open>A value of the driver: NULL, bytes, a string, or one of another type, known by the name of it.\<close>

datatype driver_value = Nil_Value | Bytes_Value bytes | String_Value string | Other_Value string

fun value_type :: "driver_value \<Rightarrow> string" where
  "value_type Nil_Value = ''<nil>''"
| "value_type (Bytes_Value _) = ''[]uint8''"
| "value_type (String_Value _) = ''string''"
| "value_type (Other_Value t) = t"

definition bytesToString :: "bytes \<Rightarrow> string" where
  "bytesToString b = map (\<lambda>x. char_of (unat x)) b"

definition UserRole_Scan :: "driver_value \<Rightarrow> string \<Rightarrow> err option \<times> string" where
  "UserRole_Scan src e =
     (case src of
        Bytes_Value s \<Rightarrow> (None, bytesToString s)
      | String_Value s \<Rightarrow> (None, s)
      | _ \<Rightarrow> (Some (External (''unsupported scan type for UserRole: '' @ value_type src)), e))"

definition WrappedKeyScope_Scan :: "driver_value \<Rightarrow> string \<Rightarrow> err option \<times> string" where
  "WrappedKeyScope_Scan src e =
     (case src of
        Bytes_Value s \<Rightarrow> (None, bytesToString s)
      | String_Value s \<Rightarrow> (None, s)
      | _ \<Rightarrow> (Some (External (''unsupported scan type for WrappedKeyScope: '' @ value_type src)), e))"

text \<open>\<open>Valid\<close> is set before the value is read, so it is true after an error too.\<close>

record null_user_role =
  nr_UserRole :: string
  nr_Valid :: bool

record null_wrapped_key_scope =
  ns_WrappedKeyScope :: string
  ns_Valid :: bool

definition NullUserRole_Scan :: "driver_value \<Rightarrow> null_user_role \<Rightarrow> err option \<times> null_user_role" where
  "NullUserRole_Scan v ns =
     (if v = Nil_Value then (None, ns\<lparr>nr_UserRole := [], nr_Valid := False\<rparr>)
      else case UserRole_Scan v (nr_UserRole ns) of
             (r, e) \<Rightarrow> (r, ns\<lparr>nr_Valid := True, nr_UserRole := e\<rparr>))"

definition NullUserRole_Value :: "null_user_role \<Rightarrow> driver_value" where
  "NullUserRole_Value ns = (if \<not> nr_Valid ns then Nil_Value else String_Value (nr_UserRole ns))"

definition NullWrappedKeyScope_Scan ::
  "driver_value \<Rightarrow> null_wrapped_key_scope \<Rightarrow> err option \<times> null_wrapped_key_scope" where
  "NullWrappedKeyScope_Scan v ns =
     (if v = Nil_Value then (None, ns\<lparr>ns_WrappedKeyScope := [], ns_Valid := False\<rparr>)
      else case WrappedKeyScope_Scan v (ns_WrappedKeyScope ns) of
             (r, e) \<Rightarrow> (r, ns\<lparr>ns_Valid := True, ns_WrappedKeyScope := e\<rparr>))"

definition NullWrappedKeyScope_Value :: "null_wrapped_key_scope \<Rightarrow> driver_value" where
  "NullWrappedKeyScope_Value ns =
     (if \<not> ns_Valid ns then Nil_Value else String_Value (ns_WrappedKeyScope ns))"

lemmas scan_defs =
  UserRole_Scan_def WrappedKeyScope_Scan_def NullUserRole_Scan_def NullUserRole_Value_def
  NullWrappedKeyScope_Scan_def NullWrappedKeyScope_Value_def

section \<open>What is read is what was written\<close>

lemma bytesToString_stringToBytes: "bytesToString (stringToBytes s) = s"
  by (simp add: bytesToString_def stringToBytes_def unat_of_nat comp_def map_idI)

text \<open>Text in either form of the driver is read as it is.\<close>

lemma scan_text:
  "UserRole_Scan (String_Value s) e = (None, s)" "UserRole_Scan (Bytes_Value (stringToBytes s)) e = (None, s)"
  "WrappedKeyScope_Scan (String_Value s) e = (None, s)"
  "WrappedKeyScope_Scan (Bytes_Value (stringToBytes s)) e = (None, s)"
  by (simp_all add: scan_defs bytesToString_stringToBytes)

text \<open>
  \<open>nullable\<close>: a variable of a nullable enumeration. What \<open>Value\<close> gives, \<open>Scan\<close> reads without an error
  into any variable, which then is what was written, but for a value that is not valid.
\<close>

locale nullable =
  fixes scan :: "driver_value \<Rightarrow> 'n \<Rightarrow> err option \<times> 'n" and to_value :: "'n \<Rightarrow> driver_value"
    and null :: 'n
  assumes read_back: "to_value x \<noteq> Nil_Value \<Longrightarrow> scan (to_value x) y = (None, x)"
    and read_null: "scan Nil_Value y = (None, null)" and null_value: "to_value null = Nil_Value"
begin

lemma scan_value: "scan (to_value x) y = (None, if to_value x = Nil_Value then null else x)"
  using read_back read_null by simp

lemma value_scan_value: "to_value (snd (scan (to_value x) y)) = to_value x"
  by (simp add: scan_value null_value)

end

interpretation null_role: nullable NullUserRole_Scan NullUserRole_Value "\<lparr>nr_UserRole = [], nr_Valid = False\<rparr>"
  by unfold_locales (auto simp: scan_defs split: if_splits)

interpretation null_scope: nullable NullWrappedKeyScope_Scan NullWrappedKeyScope_Value
    "\<lparr>ns_WrappedKeyScope = [], ns_Valid = False\<rparr>"
  by unfold_locales (auto simp: scan_defs split: if_splits)

text \<open>NULL in a column that is not nullable is an error, and the variable keeps its value.\<close>

lemma scan_null:
  "UserRole_Scan Nil_Value e = (Some (External ''unsupported scan type for UserRole: <nil>''), e)"
  "WrappedKeyScope_Scan Nil_Value e = (Some (External ''unsupported scan type for WrappedKeyScope: <nil>''), e)"
  by (simp_all add: scan_defs)

end
