(* ===== verification/Spec2Isabelle.thy ===== *)
theory Spec2Isabelle
  imports Core_Properties Http_Client_Properties Config_Properties Startup_Properties Telemetry
    Concurrent_Properties Http_Telemetry_Properties Http_Options Storage_Scan
begin

text \<open>
  A verification development for the authentication service \<open>hsa\<close> (Go): registration by
  invite, login with WebAuthn, access and refresh tokens, the revocation of sessions along the tree
  of invitations, and the HTTP interface in front of them.

  The program. A request passes the middleware and the generated router and server of \<open>api/http\<close>
  (path, bearer token, roles, decoding), a handler of \<open>internal/presentation/http\<close>, and one use
  case of \<open>internal/application\<close>. Use cases act on the entities of \<open>internal/domain\<close>, on the
  PostgreSQL repositories and transactions of \<open>internal/infrastructure/storage\<close>, and on the tokens
  and ceremonies of \<open>internal/infrastructure/crypto\<close> and \<open>auth/webauthn\<close>. What they return or
  fail with is turned into an answer by the registries of \<open>pkg/errkit\<close>. The theories follow that
  order from the inside out.

  Values, entities and data.

  \<^item> \<open>Prelude\<close>, \<open>Go_Errors\<close>: Go's types (instants are integers in nanoseconds, identifiers 128-bit
    words, byte slices lists of 8-bit words), error trees, \<open>errors.Is\<close>, every sentinel.
  \<^item> \<open>Errkit\<close>: \<open>pkg/errkit\<close>; a group of goroutines is the order in which they report.
  \<^item> \<open>Domain_User\<close>, \<open>Domain_Invite\<close>, \<open>Domain_Credential\<close>, \<open>Domain_Session\<close>, \<open>Domain_Key\<close>: the
    entities, as records with one definition per constructor and method.
  \<^item> \<open>Storage_Db\<close>, \<open>Storage_Constraints\<close>: the tables as lists of rows, the SQL statements of
    \<open>pg/query.sql.go\<close>, \<open>batch.go\<close> and \<open>copyfrom.go\<close> with the constraints of \<open>schema.sql\<close>; the
    constraints are kept by every statement. \<open>keyed_table\<close> is the contract of an upsert.
    \<open>Storage_Scan\<close> reads and writes the enumerations of \<open>pg/models.go\<close>. The
    recursive query runs for as many rounds as there are users, which is enough: a round without a
    new row ends it, and \<open>Invite_Tree\<close> proves that a table whose inviters come first needs no more.
  \<^item> \<open>Libraries\<close>: the third-party code the use cases call, as parameters.

  Effects and use cases.

  \<^item> \<open>Effects\<close>, \<open>Tx_Logic\<close>: actions over a world (committed data, the open transaction, a tick for
    calls of the outside), \<open>transaction.go\<close>, and the rules the proofs use; \<open>transactor\<close> is the
    contract of \<open>RunInTransaction\<close>.
  \<^item> \<open>Repositories\<close>: the repositories; \<open>entity_store\<close> is the find-after-save contract.
  \<^item> \<open>Crypto\<close>, \<open>Idgen\<close>, \<open>Webauthn\<close>, \<open>Application_Ports\<close>: the adapters.
  \<^item> \<open>App_Sessions\<close>, \<open>App_Invites\<close>, \<open>App_Login\<close>: the use cases, statement by statement.
    \<open>Session_Facts\<close>, \<open>Invite_Facts\<close>, \<open>Login_Facts\<close> say what a successful run has done,
    \<open>Fault_Free\<close> that runs succeed when nothing outside fails, \<open>Invite_Tree\<close> what the
    recursive query returns.
  \<^item> \<open>Service\<close>: the service as a state machine over requests.

  The HTTP interface.

  \<^item> \<open>Http_Schemas\<close>, \<open>Http_Errors\<close>: the types of the interface and the registries from errors to
    answers.
  \<^item> \<open>Http_Json\<close>, \<open>Http_Codec\<close>, \<open>Http_Codec_Facts\<close>: JSON encoding and decoding of each type over
    the library \<open>jx\<close>, a parameter; \<open>object_fields\<close> is the contract of a switch over field names.
  \<^item> \<open>Http_Request\<close>, \<open>Http_Alias\<close>, \<open>Http_Response\<close>: parameters, bodies and validation; the error
    types of each operation; the answers on the wire.
  \<^item> \<open>Http_Roundtrip\<close>: \<open>json_codec\<close>, the contract of a type that survives JSON, with every type of the
    interface as an instance.
  \<^item> \<open>Http_Client_Ip\<close>, \<open>Http_Auth\<close>: the address of the client behind proxies, and who may call what.
  \<^item> \<open>Http_Handler\<close>, \<open>Http_Router\<close>, \<open>Http_Server\<close>: the handlers, the two walks over the path
    (of \<open>ServeHTTP\<close> and of \<open>FindPath\<close>, each with its own tree), and the steps around a handler,
    composed into \<open>ServeHTTP\<close>.
  \<^item> \<open>Http_Client_Decode\<close>, \<open>Http_Client\<close>, \<open>Http_Client_Facts\<close>: the generated client, and that its
    calls arrive at the handlers when its transport is the server.
  \<^item> \<open>Http_Telemetry\<close>, \<open>Http_Client_Telemetry\<close>: the same server and client with the events that spans
    and instruments are given, in order, and that nothing else changes (\<open>t_ServeHTTP_plain\<close>);
    \<open>operation_error\<close> says, without the events, which error an operation hands to the error handler.
  \<^item> \<open>Http_Options\<close>: the options of server and client, their configurations and instruments.

  Settings, wiring and start-up.

  \<^item> \<open>Go_Strings\<close>, \<open>Configuration\<close>: the functions on strings that the source calls, and the settings of
    each package with their defaults, what the validator asks, how file and environment are read,
    and how they are printed.
  \<^item> \<open>Container\<close>: the container \<open>samber/do\<close>, over services and interfaces of any kind; a function that
    builds a service is a plan of what it asks for. \<open>acyclic_container\<close> is the contract of one that
    can build everything.
  \<^item> \<open>Wiring_Types\<close>, \<open>Wiring\<close>, \<open>Wiring_Facts\<close>: the services and interfaces with their methods, the nine
    files \<open>package.go\<close> and the constructors they call, and the objects that result; the wiring is an
    \<open>acyclic_container\<close> of depth 11.
  \<^item> \<open>Telemetry\<close>: how telemetry is shut down.
  \<^item> \<open>Startup\<close>: \<open>di.Run\<close> stage by stage, the exit codes of \<open>cmd/main.go\<close>, and how the objects of the
    container are the records that the use cases and the server of the model take.

  Transactions at the same time.

  \<^item> \<open>Concurrency\<close>: use cases as scripts, cut at their statements and at the calls of clock,
    identifiers and random bytes; run alone, a script is the use case (\<open>create_invite_script\<close>,
    \<open>refresh_script\<close>, \<open>login_script\<close>). Steps of any number of transactions interleave as PostgreSQL
    lets them at READ COMMITTED, with advisory locks and the locks of written rows; any may fail.
  \<^item> \<open>Concurrent_Invites\<close>: an invariant over the phases of each transaction, kept by every step: the
    advisory lock of \<open>CountActiveByUser\<close> protects the limit. \<open>Concurrent_Refresh\<close>,
    \<open>Concurrent_Revocation\<close>, \<open>Concurrent_Login\<close>: sessions and credentials are read without a lock, and
    schedules in which one token is exchanged twice, a revocation misses the successor of a session,
    and a login undoes the lock-out of a suspected clone.

  Properties and witnesses.

  \<^item> \<open>Core_Properties\<close>, \<open>Http_Properties\<close>, \<open>Http_Client_Properties\<close>, \<open>Http_Telemetry_Properties\<close>,
    \<open>Config_Properties\<close>, \<open>Wiring_Properties\<close>, \<open>Startup_Properties\<close>, \<open>Concurrent_Properties\<close> and this
    theory hold most properties; those of one component alone stand with it (\<open>Http_Client_Ip\<close>,
    \<open>Http_Router\<close>, \<open>Http_Client_Telemetry\<close>).
  \<^item> \<open>Sample\<close>, \<open>Sample_World\<close>, \<open>Sample_Json\<close>: a concrete instance of the parameters and a small
    database, for the witnesses; the laws assumed of libraries are proved of it.

  Not modelled. Logs, the values that stopwatches read, and the spans of other parts than the generated
  server and client. Locks (\<open>FOR UPDATE\<close>) and interleaving of the use cases other than creating an
  invite, refreshing, revoking all sessions and logging in: the rest of the development runs one request
  after the other. Chi's middleware other than the client's address, CORS, and time-outs of the server:
  third-party code around the handler. What telemetry exports and the log says, the migrations, the
  debugging interface of \<open>main\<close>, and the mocks: not part of what a request does. The two queries that
  nothing calls (\<open>FindCredentialByExternalIDForUpdate\<close>, \<open>FindRefreshTokenByTokenHashForUpdate\<close>) and
  \<open>UnimplementedHandler\<close>, which nothing uses. The getters and setters of generated types are field
  access and updates of the records.
\<close>

section \<open>Registration\<close>

text \<open>C1: With the schema as it is, no registration by invite succeeds. Whatever the request,
  the environment and the data, \<open>FinishInviteRegistration.Execute\<close> returns no value and leaves
  the committed database as it was: \<open>redeemInvite\<close> saves the invite with \<open>used_by\<close> set to a
  user that the next step has yet to insert, against a foreign key that is not deferrable, and
  if that user is stored already the insertion violates the primary key.\<close>

theorem registration_never_succeeds:
  assumes "FinishInviteRegistration_Execute E ig No_Tx inp w = (r, w')" and "work w = None"
  shows "\<not> is_ok r \<and> committed w' = committed w"
  using registration_not_ok [OF assms(1)] registration_unchanged [OF assms] by blast

definition sample_registration :: registration_input where
  "sample_registration = \<lparr>
     fi_ChallengeToken = sample_sign [2] \<lparr>tc_exp = 5000,
       tc_strings = [(''payload'', net [] @ net (itoa 31) @ net (itoa 77))]\<rparr>,
     fi_RegistrationResponse = [9],
     fi_WrappedKeys = [\<lparr>wki_Scope = ScopeMain, wki_WrappedDEK = [1], wki_WrapAlgorithm = ''aes''\<rparr>],
     fi_DeviceInfo = ''phone'', fi_IPAddress = IPv4 1\<rparr>"

theorem registration_never_succeeds_witness:
  "\<not> is_ok (fst (FinishInviteRegistration_Execute sample_env sample_fr No_Tx sample_registration
       (world_of sample_db)))"
  using registration_never_succeeds [of sample_env sample_fr sample_registration "world_of sample_db",
      OF prod.collapse [symmetric]]
  by simp

text \<open>C2: The error of a registration that meets every other condition. With an open invite, a
  new user, at least one wrapped key within the policy, a ceremony that succeeds and a database
  without faults, the call returns the violation of \<open>invites.used_by\<close>'s foreign key.\<close>

theorem registration_hits_foreign_key:
  assumes "fault_free E" and "work w = None" and "fi_WrappedKeys inp \<noteq> []"
    and "ValidateCount (fr_keyPolicy ig) (int (length (fi_WrappedKeys inp))) = None"
    and "Registrator_Finish E (fr_registrator ig) (fi_ChallengeToken inp)
           (fi_RegistrationResponse inp) w = (Ok res, w1)"
    and "find (\<lambda>r. pgi_id r = rr_InviteID res) (invites (committed w)) = Some row"
    and "pgi_used_at row = None" and "clock E (Suc (tick w1)) \<le> pgi_expires_at row"
    and "rr_UserID res \<notin> user_ids (committed w)"
  shows "\<exists>w'. FinishInviteRegistration_Execute E ig No_Tx inp w =
    (Err (foreign_key_violation ''invites_used_by_fkey''), w') \<and> committed w' = committed w"
  by (rule registration_fk_run [OF assms])

lemma sample_registration_finish:
  "Registrator_Finish sample_env sample_registrator (fi_ChallengeToken sample_registration)
     (fi_RegistrationResponse sample_registration) (world_of sample_db) =
   (Ok \<lparr>rr_UserID = 77, rr_InviteID = 31, rr_ExternalID = [7], rr_PublicKey = [8],
        rr_Transports = [''usb''], rr_InitialSignCount = 5\<rparr>, (world_of sample_db)\<lparr>tick := 1\<rparr>)"
  using sample_challenge_roundtrip [of "[]" 31 77]
  by (simp add: Registrator_Finish_def TokenCodec_Decode_def bind_def catch_def now_def lift_sum_def
      ret_def sample_registrator_def sample_registration_def sample_parse_sign claim_GetString_def
      sample_cred_def)

theorem registration_hits_foreign_key_witness:
  "\<exists>w'. FinishInviteRegistration_Execute sample_env sample_fr No_Tx sample_registration
     (world_of sample_db) = (Err (foreign_key_violation ''invites_used_by_fkey''), w') \<and>
   committed w' = sample_db"
  using registration_hits_foreign_key [OF sample_fault_free, of "world_of sample_db"
      sample_registration sample_fr _ _ sample_invite] sample_registration_finish
  by (simp add: sample_registration_def sample_fr_def ValidateCount_def key_NewPolicy_def
      sample_invite_def sample_users_def)

section \<open>Refreshing\<close>

text \<open>C3: Presenting a revoked refresh token fails with \<open>ErrRefreshTokenReuseDetected\<close> and changes
  nothing in the committed database, so that every session of its owner that was active stays
  active: the revocation that \<open>validateRefreshToken\<close> makes runs in the transaction that the error
  then rolls back.\<close>

theorem refresh_reuse_revokes_nothing:
  assumes "fault_free E" and "sessions_ok (committed w)"
    and "find (\<lambda>r. pgs_token_hash r = generateHashBase32 (lib E) (ra_hasher ra) raw)
           (sessions (committed w)) = Some row"
    and "pgs_revoked_at row \<noteq> None"
  shows "\<exists>w'. RefreshAccessToken_Execute E ra No_Tx raw w =
           (Err (Sentinel App_ErrRefreshTokenReuseDetected), w') \<and>
         committed w' = committed w \<and>
         (\<forall>t. filter (pgs_active [pgs_user_id row] t) (sessions (committed w')) =
              filter (pgs_active [pgs_user_id row] t) (sessions (committed w)))"
  using refresh_reuse_run [OF assms] by auto

theorem refresh_reuse_revokes_nothing_witness:
  "\<exists>w'. RefreshAccessToken_Execute sample_env sample_ra No_Tx ''revoked'' (world_of sample_db) =
     (Err (Sentinel App_ErrRefreshTokenReuseDetected), w') \<and>
   committed w' = sample_db \<and> filter (pgs_active [2] 60) (sessions (committed w')) \<noteq> []"
  using refresh_reuse_revokes_nothing [OF sample_fault_free, of "world_of sample_db" sample_ra
      "''revoked''" "sample_session 12 ''revoked'' (Some 50)"] sample_db_ok
  by (auto simp: db_ok_def sample_ra_def sample_session_def sample_hash_def [symmetric] pgs_active_def)

text \<open>C4: A refresh that returns tokens has found a session by the hash of the presented token,
  valid at the instant of the call; it stores that session as revoked and appends its rotation,
  whose hash is that of the new token, and changes nothing else.\<close>

theorem refresh_rotates:
  assumes "RefreshAccessToken_Execute E ra No_Tx raw w = (Ok (access, refresh), w')"
    and "\<forall>n. next_uuid E n \<notin> pgs_id ` set (sessions (committed w))"
  shows "\<exists>t old new. old \<in> set (sessions (committed w)) \<and>
    pgs_token_hash old = generateHashBase32 (lib E) (ra_hasher ra) raw \<and>
    session_IsValid (rowToSession old) t \<and> rotated_from (rowToSession old) (rowToSession new) \<and>
    pgs_token_hash new = generateHashBase32 (lib E) (si_refreshTokens (ra_sessionIssuer ra)) refresh \<and>
    pgs_revoked_at new = None \<and> pgs_created_at new = t \<and>
    committed w' = (committed w)\<lparr>sessions :=
      update_where (\<lambda>s. pgs_id s = pgs_id old) (pgs_revoke t) (sessions (committed w)) @ [new]\<rparr>"
  by (rule refresh_Ok_effect [OF assms])

theorem refresh_rotates_witness:
  "\<exists>access refresh w' new. RefreshAccessToken_Execute sample_env sample_ra No_Tx ''active''
     (world_of sample_db) = (Ok (access, refresh), w') \<and>
   new \<in> set (sessions (committed w')) \<and>
   pgs_token_hash new = sample_hash refresh \<and> pgs_revoked_at new = None"
proof -
  obtain a r w' where run: "RefreshAccessToken_Execute sample_env sample_ra No_Tx ''active''
      (world_of sample_db) = (Ok (a, r), w')"
    using refresh_ok_run [OF sample_fault_free, of "world_of sample_db" sample_ra "''active''"
        "sample_session 11 ''active'' None"] sample_db_ok sample_fresh
    by (auto simp: sample_ra_def sample_issuer_def sample_session_def session_IsValid_def row_defs
        sample_hash_def [symmetric])
  have "\<forall>n. next_uuid sample_env n \<notin> pgs_id ` set (sessions (committed (world_of sample_db)))"
    using sample_fresh unfolding fresh_session_def sample_world_sel by blast
  from refresh_rotates [OF run this] run show ?thesis
    by (fastforce simp: sample_ra_def sample_issuer_def sample_hash_def)
qed

section \<open>Login\<close>



text \<open>C9: A login that returns tokens carried out the ceremony with success, and with its result met
  a known credential that was neither revoked nor suspected; it stores the new counter, then a session of the credential's user whose hash is
  that of the returned refresh token, and it returns the keys of that credential.\<close>

theorem login_issues_session:
  assumes "Login_Execute E uc No_Tx inp w = (Ok out, w')" and "work w = None"
  shows "\<exists>res w1 row d1 rt n.
    Authenticator_Finish E (lg_authenticator uc) No_Tx (li_ChallengeToken inp)
      (li_AuthenticationResponse inp) (w\<lparr>tick := Suc (tick w)\<rparr>) = (Ok res, w1) \<and>
    find (\<lambda>r. pgc_external_id r = ar_ExternalID res) (credentials (committed w)) = Some row \<and>
    pgc_revoked_at row = None \<and> \<not> clone_suspected row res \<and>
    SaveCredential (row\<lparr>pgc_sign_count := ar_NewSignCount res\<rparr>) (committed w) = Inr ((), d1) \<and>
    lo_WrappedKeys out = wrappedKeysToOutput (map rowToWrappedKey
      (filter (\<lambda>k. pgk_credential_id k = pgc_id row) (wrapped_keys d1))) \<and>
    session_New (next_uuid E n) (pgc_user_id row)
      (generateHashBase32 (lib E) (si_refreshTokens (lg_sessionIssuer uc)) (lo_RefreshToken out))
      (li_DeviceInfo inp) (li_IPAddress inp) (si_refreshTTL (lg_sessionIssuer uc))
      (clock E (tick w)) = Inr rt \<and>
    upsert_session (sessionToRow rt) d1 = Inr ((), committed w')"
proof -
  from Login_Ok_tx [OF assms(1)] obtain res w1 w2
    where w1: "w1 = w\<lparr>tick := Suc (tick w)\<rparr>"
      and fin: "Authenticator_Finish E (lg_authenticator uc) No_Tx (li_ChallengeToken inp)
        (li_AuthenticationResponse inp) w1 = (Ok res, w2)"
      and run: "RunInTransaction E No_Tx (login_body E uc inp (clock E (tick w)) res) w2 = (Ok (Some out), w')"
    by (auto simp: now_Ok)
  have w2: "committed w2 = committed w"
    using keeps_all_unchanged [OF keeps_webauthn(4) _ fin] assms(2) w1 by simp
  have "confined (login_body E uc inp (clock E (tick w)) res In_Tx)" by (intro confined_rules)
  then obtain w3 w4 d where "work w3 = Some (committed w2)"
    "login_body E uc inp (clock E (tick w)) res In_Tx w3 = (Ok (Some out), w4)"
    "work w4 = Some d" "committed w' = d"
    by (rule storage_tx.run_ok_body [OF _ run]) simp
  moreover from login_body_Some_tx [OF this(2)] obtain d0 row d1 d' rt n where
    "in_tx w3 d0 w4 d'" and rest:
    "find (\<lambda>r. pgc_external_id r = ar_ExternalID res) (credentials d0) = Some row"
    "pgc_revoked_at row = None" "\<not> clone_suspected row res"
    "SaveCredential (row\<lparr>pgc_sign_count := ar_NewSignCount res\<rparr>) d0 = Inr ((), d1)"
    "lo_WrappedKeys out = wrappedKeysToOutput (map rowToWrappedKey
      (filter (\<lambda>k. pgk_credential_id k = pgc_id row) (wrapped_keys d1)))"
    "upsert_session (sessionToRow rt) d1 = Inr ((), d')"
    "session_New (next_uuid E n) (pgc_user_id row)
      (generateHashBase32 (lib E) (si_refreshTokens (lg_sessionIssuer uc)) (lo_RefreshToken out))
      (li_DeviceInfo inp) (li_IPAddress inp) (si_refreshTTL (lg_sessionIssuer uc))
      (clock E (tick w)) = Inr rt" by blast
  ultimately have "d0 = committed w" "d' = committed w'" using w2 by (auto simp: in_tx_def)
  with rest fin w1 show ?thesis by blast
qed

theorem login_issues_session_witness:
  "\<exists>out w' row d1 rt. Login_Execute sample_env sample_login No_Tx sample_login_input
     (world_of sample_db2) = (Ok out, w') \<and> pgc_revoked_at row = None \<and> pgc_external_id row = [7] \<and>
   SaveCredential (row\<lparr>pgc_sign_count := 5\<rparr>) sample_db2 = Inr ((), d1) \<and>
   upsert_session (sessionToRow rt) d1 = Inr ((), committed w')"
proof -
  let ?res = "\<lparr>ar_UserID = 2, ar_ExternalID = [7], ar_NewSignCount = 5, ar_CloneWarning = False\<rparr>"
  let ?w = "(world_of sample_db2)\<lparr>tick := 3\<rparr>"
  obtain out w' where "RunInTransaction sample_env No_Tx
      (login_body sample_env sample_login sample_login_input 1000 ?res) ?w = (Ok (Some out), w')"
    using login_ok_run [OF sample_fault_free, of ?w ?res "sample_credential\<lparr>pgc_sign_count := 3\<rparr>"
        sample_login_input sample_login 1000] sample_db2_ok sample_fresh2
    by (auto simp: sample_credential_def clone_suspected_def sample_key_def sample_login_def
        sample_issuer_def sample_login_input_def addr_is_valid_def world_of_def)
  then have run: "Login_Execute sample_env sample_login No_Tx sample_login_input
      (world_of sample_db2) = (Ok out, w')"
    using sample_authenticator_finish [of sample_db2]
    by (simp add: Login_Execute_def bind_def now_def ret_def sample_login_def)
  have rest: "work (world_of sample_db2) = None" by simp
  obtain res v row d1 rt where fin: "Authenticator_Finish sample_env (lg_authenticator sample_login) No_Tx
      (li_ChallengeToken sample_login_input) (li_AuthenticationResponse sample_login_input)
      ((world_of sample_db2)\<lparr>tick := Suc 0\<rparr>) = (Ok res, v)"
    and row: "find (\<lambda>r. pgc_external_id r = ar_ExternalID res) (credentials sample_db2) = Some row"
    "pgc_revoked_at row = None"
    and saved: "SaveCredential (row\<lparr>pgc_sign_count := ar_NewSignCount res\<rparr>) sample_db2 = Inr ((), d1)"
    "upsert_session (sessionToRow rt) d1 = Inr ((), committed w')"
    using login_issues_session [OF run rest] unfolding sample_world_sel by blast
  have "res = ?res"
    using fin sample_authenticator_finish [of sample_db2] by (simp add: sample_login_def)
  moreover have "pgc_external_id row = ar_ExternalID res" using find_SomeD [OF row(1)] by blast
  ultimately show ?thesis using row saved run by fastforce
qed

section \<open>Revoking sessions\<close>

text \<open>C10: \<open>RevokeAllUserSessions\<close> refines its specification: a call that succeeds has stamped
  exactly the active sessions of the given users with the instant of the call, and from that
  instant on none of their sessions is active.\<close>

theorem revoke_all_refines:
  assumes "RevokeAllUserSessions_Execute E No_Tx us w = (Ok u, w')" and "us \<noteq> []"
    and "sessions_ok (committed w)"
  shows "committed w' = revoke_active us (clock E (tick w)) (committed w) \<and>
    (\<forall>t \<ge> clock E (tick w). filter (pgs_active us t) (sessions (committed w')) = [])"
  using RevokeAll_plain [OF assms] revoke_active_done by simp

text \<open>\<open>RevokeAllUserSessions\<close> does succeed when the database has no faults of its own: no
  token that the query returns can fail to be revoked or saved.\<close>

lemma revoke_all_succeeds:
  assumes "fault_free E" and "sessions_ok (committed w)"
  shows "\<exists>w'. RevokeAllUserSessions_Execute E No_Tx us w = (Ok (), w')"
proof (cases "us = []")
  case False
  then show ?thesis using RevokeAll_plain_run [OF assms] by blast
qed (simp add: RevokeAllUserSessions_Execute_def)

theorem revoke_all_refines_witness:
  "\<exists>w'. RevokeAllUserSessions_Execute sample_env No_Tx [2] (world_of sample_db) = (Ok (), w') \<and>
    committed w' = revoke_active [2] 1000 sample_db"
proof -
  have ok: "sessions_ok (committed (world_of sample_db))" using sample_db_ok by (simp add: db_ok_def)
  from RevokeAll_plain_run [OF sample_fault_free this, of "[2]"]
  obtain w' where "RevokeAllUserSessions_Execute sample_env No_Tx [2] (world_of sample_db) = (Ok (), w')"
    by auto
  with revoke_all_refines [OF this _ ok] show ?thesis by simp
qed

text \<open>C11: Revoking a compromised chain that succeeds covers the user and everybody it invited,
  directly or through others: it has stamped exactly their active sessions with the second reading
  of the clock of the call, from that instant on none of them has an active session, and the
  sessions of everybody else are what they were.\<close>

theorem revoke_chain_covers_invitees:
  assumes "RevokeCompromisedChain_Execute E No_Tx root w = (Ok u, w')" and "sessions_ok (committed w)"
    and "t = clock E (Suc (tick w))"
  shows "(\<exists>ids. set ids = {c. (root, c) \<in> (invited_rel (users (committed w)))\<^sup>*} \<and>
       committed w' = revoke_active ids t (committed w)) \<and>
    (\<forall>c. (root, c) \<in> (invited_rel (users (committed w)))\<^sup>* \<longrightarrow>
       (\<forall>t' \<ge> t. filter (pgs_active [c] t') (sessions (committed w')) = [])) \<and>
    (\<forall>s. (root, pgs_user_id s) \<notin> (invited_rel (users (committed w)))\<^sup>* \<longrightarrow>
       (s \<in> set (sessions (committed w')) \<longleftrightarrow> s \<in> set (sessions (committed w))))"
proof -
  obtain ids where ids: "set ids = {c. (root, c) \<in> (invited_rel (users (committed w)))\<^sup>*}"
    and d: "committed w' = revoke_active ids t (committed w)"
    using RevokeCompromisedChain_Ok [OF assms(1,2)] assms(3) by blast
  have "filter (pgs_active [c] t') (sessions (committed w')) = []"
    if "c \<in> set ids" "t \<le> t'" for c t'
    using revoke_active_done [OF that(2), of ids "committed w"] that(1)
    by (auto simp: d filter_empty_conv pgs_active_def)
  moreover have "s \<in> set (sessions (committed w')) \<longleftrightarrow> s \<in> set (sessions (committed w))"
    if "pgs_user_id s \<notin> set ids" for s
    using that by (simp add: d revoke_active_others)
  ultimately show ?thesis using ids d by blast
qed

theorem revoke_chain_covers_invitees_witness:
  "\<exists>w'. RevokeCompromisedChain_Execute sample_env No_Tx 2 (world_of sample_db) = (Ok (), w') \<and>
    filter (pgs_active [2] 1001) (sessions sample_db) \<noteq> [] \<and>
    filter (pgs_active [2] 1001) (sessions (committed w')) = [] \<and>
    filter (pgs_active [3] 1001) (sessions (committed w')) = []"
proof -
  obtain w' where run: "RevokeCompromisedChain_Execute sample_env No_Tx 2 (world_of sample_db) = (Ok (), w')"
    using sample_chain_run [of 0] by (auto simp: world_of_def)
  have ok: "sessions_ok (committed (world_of sample_db))" using sample_db_ok by (simp add: db_ok_def)
  have "(2, 3) \<in> (invited_rel (users (committed (world_of sample_db))))\<^sup>*"
    by (rule r_into_rtrancl) (simp add: invited_rel_def sample_users_def)
  moreover have "(2, 2) \<in> (invited_rel (users (committed (world_of sample_db))))\<^sup>*" by simp
  moreover have "filter (pgs_active [2] 1001) (sessions sample_db) \<noteq> []"
    by (simp add: sample_session_def pgs_active_def)
  ultimately show ?thesis using revoke_chain_covers_invitees [OF run ok refl] run by auto
qed

text \<open>C12: The recursive query ends and is exact: when every inviter is stored before its
  invitees, \<open>ListDescendantUserIDs\<close> returns the user and all its transitive invitees, and
  nobody when the user is not stored.\<close>

theorem descendants_query_exact:
  assumes "users_ok d" and "inviters_first (users d)"
  shows "\<exists>ids. ListDescendantUserIDs root d = Inr (ids, d) \<and>
    set ids = (if root \<in> user_ids d then {c. (root, c) \<in> (invited_rel (users d))\<^sup>*} else {})"
proof -
  obtain ids where "descendant_ids root d = Some ids" using descendant_ids_ends [OF assms] by blast
  then show ?thesis using descendant_ids_set by (auto simp: ListDescendantUserIDs_def)
qed

theorem descendants_query_exact_witness:
  "\<exists>ids. ListDescendantUserIDs 2 sample_db = Inr (ids, sample_db) \<and>
    set ids = {c. (2, c) \<in> (invited_rel (users sample_db))\<^sup>*}"
  using descendants_query_exact [of sample_db 2] sample_db_ok sample_inviters_first
  by (simp add: db_ok_def sample_users_def)

text \<open>C13: A user with a limit of open invites never holds more: \<open>CreateInvite.Execute\<close> returns a
  code only when fewer are open, and leaves at most the limit open. The stored hash is the hash
  of the returned code.\<close>

theorem create_invite_within_limit:
  assumes "CreateInvite_Execute E ci No_Tx u w = (Ok (code, expires), w')"
    and "ci_policy ci = invite_NewPolicy m"
    and "\<forall>n. next_uuid E n \<notin> pgi_id ` set (invites (committed w))"
  shows "int (length (open_invites u (clock E (tick w)) (committed w))) < m \<and>
    int (length (open_invites u (clock E (tick w)) (committed w'))) \<le> m \<and>
    (\<exists>i \<in> set (invites (committed w')). pgi_created_by i = u \<and> pgi_used_at i = None \<and>
       pgi_code_hash i = generateHashBase32 (lib E) (ci_tokens ci) code \<and> pgi_expires_at i = expires)"
proof -
  let ?t = "clock E (tick w)"
  obtain n v where less: "int (length (open_invites u ?t (committed w))) < m"
    and v: "invite_New (next_uuid E n) u (generateHashBase32 (lib E) (ci_tokens ci) code) (ci_ttl ci) ?t = Inr v"
    and exp: "expires = inv_expires_at v"
    and save: "SaveInvite (inviteToRow v) (committed w) = Inr ((), committed w')"
    using CreateInvite_Ok [OF assms(1)] assms(2) by auto
  from v have fields: "inv_id v = next_uuid E n" "inv_used_at v = None" "inv_created_by v = u"
    "inv_code_hash v = generateHashBase32 (lib E) (ci_tokens ci) code"
    by (auto simp: invite_New_Inr_iff)
  have new: "inv_id v \<notin> pgi_id ` set (invites (committed w))" using fields(1) assms(3) by simp
  have "length (open_invites u ?t (committed w')) \<le> Suc (length (open_invites u ?t (committed w)))"
    by (rule open_invites_insert [OF save fields(2) new])
  moreover have "inviteToRow v \<in> set (invites (committed w'))"
    using inv_tab.save_insert [OF _ save] new by simp
  ultimately show ?thesis using less fields exp by (intro conjI bexI [of _ "inviteToRow v"]) auto
qed

lemma sample_create_invite_run:
  "\<exists>code expires w'. CreateInvite_Execute sample_env sample_ci No_Tx 2 (world_of sample_db) =
     (Ok (code, expires), w')"
proof -
  have "open_invites 2 1000 sample_db = []" by (simp add: open_invites_def sample_invite_def)
  then show ?thesis
    using sample_fault_free sample_fresh_invite
    by (intro CreateInvite_run)
      (simp_all add: sample_ci_def invite_NewPolicy_def CanIssue_def sample_users_def)
qed

theorem create_invite_within_limit_witness:
  "\<exists>code expires w'. CreateInvite_Execute sample_env sample_ci No_Tx 2 (world_of sample_db) =
     (Ok (code, expires), w') \<and> length (open_invites 2 1000 (committed w')) \<le> 3"
proof -
  obtain code expires w' where run: "CreateInvite_Execute sample_env sample_ci No_Tx 2
      (world_of sample_db) = (Ok (code, expires), w')" using sample_create_invite_run by blast
  have pol: "ci_policy sample_ci = invite_NewPolicy 3" by (simp add: sample_ci_def)
  have new: "\<forall>n. next_uuid sample_env n \<notin> pgi_id ` set (invites (committed (world_of sample_db)))"
    using sample_uuid_large by (simp add: sample_invite_def)
  from create_invite_within_limit [OF run pol new] run show ?thesis by auto
qed

text \<open>C15: A user below the limit gets a code: when the user is stored, the database does not
  fail, and the outside provides fresh random bytes and a fresh identifier, \<open>CreateInvite.Execute\<close>
  returns a code.\<close>

theorem create_invite_succeeds:
  assumes "fault_free E" and "u \<in> user_ids (committed w)" and "u \<noteq> uuid_nil"
    and "ci_policy ci = invite_NewPolicy m"
    and "int (length (open_invites u (clock E (tick w)) (committed w))) < m"
    and "fresh_invite E (ci_tokens ci) (committed w)"
  shows "\<exists>code expires w'. CreateInvite_Execute E ci No_Tx u w = (Ok (code, expires), w')"
  using assms by (intro CreateInvite_run) (simp_all add: invite_NewPolicy_def CanIssue_def)

theorem create_invite_succeeds_witness:
  "\<exists>code expires w'. CreateInvite_Execute sample_env sample_ci No_Tx 2 (world_of sample_db) =
     (Ok (code, expires), w')"
  by (rule create_invite_succeeds [OF sample_fault_free, of _ _ _ 3])
    (use sample_fresh_invite in
      \<open>simp_all add: sample_ci_def sample_users_def open_invites_def sample_invite_def\<close>)

text \<open>C17: Creating an invite, refreshing and revoking a session are all or nothing: a call that
  does not return a value has changed no committed row.\<close>

theorem use_cases_atomic:
  "(CreateInvite_Execute E ci No_Tx u w = (rc, wc) \<longrightarrow> is_ok rc \<or> committed wc = committed w) \<and>
   (RefreshAccessToken_Execute E ra No_Tx raw w = (rr, wr) \<longrightarrow> is_ok rr \<or> committed wr = committed w) \<and>
   (RevokeSession_Execute E No_Tx i u w = (rs, ws) \<longrightarrow> is_ok rs \<or> committed ws = committed w) \<and>
   (RevokeAllUserSessions_Execute E No_Tx us w = (rv, wv) \<longrightarrow> is_ok rv \<or> committed wv = committed w)"
  by (metis CreateInvite_atomic RefreshAccessToken_atomic RevokeSession_atomic RevokeAll_atomic)

theorem use_cases_atomic_witness:
  "\<exists>r w. RevokeSession_Execute sample_env No_Tx 11 3 (world_of sample_db) = (r, w) \<and>
     (is_ok r \<or> committed w = sample_db)"
proof -
  obtain r w where "RevokeSession_Execute sample_env No_Tx 11 3 (world_of sample_db) = (r, w)" by fastforce
  with use_cases_atomic [where E = sample_env and w = "world_of sample_db" and i = 11 and u = 3
      and rs = r and ws = w] show ?thesis by auto
qed

section \<open>The service as a whole\<close>

text \<open>C18: The constraints of the schema and the order of inviters hold in every state that the
  service reaches from a state where they hold, whatever requests it serves.\<close>

theorem reachable_states_ok:
  assumes "reachable sv d d'" and "db_ok d" and "inviters_first (users d)"
  shows "db_ok d' \<and> inviters_first (users d')"
  by (rule reachable_invariant [OF assms(1), of "\<lambda>d. db_ok d \<and> inviters_first (users d)"])
    (use assms(2,3) in \<open>auto intro: service_step_db_ok service_step_inviters_first\<close>)

lemma sample_reachable:
  "\<exists>w'. reachable sample_service sample_db (committed w') \<and>
     serve sample_env sample_service (Revoke_All 2) (world_of sample_db) = (Ok (), w')"
proof -
  obtain w' where run: "serve sample_env sample_service (Revoke_All 2) (world_of sample_db) = (Ok (), w')"
    using RevokeAll_plain_run [OF sample_fault_free, of "world_of sample_db" "[2]"] sample_db_ok
    by (auto simp: db_ok_def)
  from service_step.step [OF _ run] have "service_step sample_service sample_db (committed w')" by simp
  with run reachable.more [OF reachable.initial] show ?thesis by blast
qed

theorem reachable_states_ok_witness:
  "\<exists>d'. reachable sample_service sample_db d' \<and> db_ok d' \<and> inviters_first (users d')"
  using sample_reachable reachable_states_ok [OF _ sample_db_ok sample_inviters_first] by blast

text \<open>C19: Starting from an empty database the service never has a user but the root: no
  sequence of requests adds another, since registration cannot.\<close>

theorem only_the_root_exists:
  assumes "reachable sv empty_db d"
  shows "length (users d) \<le> 1 \<and> (\<forall>u \<in> set (users d). pgu_invited_by u = None \<and> pgu_role u = UserRoleAdmin)"
  using reachable_users [OF assms] by (auto simp: root_added_def empty_db_def)

theorem only_the_root_exists_witness:
  "\<exists>u w1 w2. serve sample_env sample_service (Start_Up 0) (world_of empty_db) = (Ok (), w1) \<and>
     serve sample_env sample_service (Create_Invite (pgu_id u)) (world_of (committed w1)) = (Ok (), w2) \<and>
     reachable sample_service empty_db (committed w2) \<and>
     users (committed w2) = [u] \<and> pgu_role u = UserRoleAdmin \<and> pgu_invited_by u = None"
proof -
  let ?root = "\<lparr>pgu_id = 102, pgu_role = ''admin'', pgu_invited_by = None, pgu_created_at = 1001\<rparr>"
  obtain w1 where one: "serve sample_env sample_service (Start_Up 0) (world_of empty_db) = (Ok (), w1)"
    and d1: "committed w1 = empty_db\<lparr>users := [?root]\<rparr>"
    using sample_bootstrap_run by (auto simp: bind_def discard_def ret_def)
  have "open_invites 102 1000 (committed w1) = []"
    by (simp add: d1 open_invites_def empty_db_def)
  moreover have "fresh_invite sample_env (ci_tokens sample_ci) (committed w1)"
    using sample_fresh_invite by (simp add: fresh_invite_def d1 empty_db_def sample_ci_def)
  ultimately obtain w2 where two: "serve sample_env sample_service (Create_Invite 102)
      (world_of (committed w1)) = (Ok (), w2)"
    using CreateInvite_run [OF sample_fault_free, of 102 "world_of (committed w1)" sample_ci]
    by (auto simp: d1 sample_service_def sample_ci_def invite_NewPolicy_def CanIssue_def discard_def
        bind_def ret_def)
  have "service_step sample_service empty_db (committed w1)"
    "service_step sample_service (committed w1) (committed w2)"
    using service_step.step [OF _ one] service_step.step [OF _ two] by simp_all
  then have "root_added (users (committed w1)) (users (committed w2))"
    "reachable sample_service empty_db (committed w2)"
    using service_step_users reachable.intros by blast+
  moreover from this have "users (committed w2) = [?root]" by (auto simp: d1 root_added_def)
  ultimately show ?thesis
    using only_the_root_exists [of sample_service "committed w2"] one two
    by (intro exI [of _ ?root] exI [of _ w1] exI [of _ w2]) auto
qed

text \<open>Bootstrapping the root is idempotent: the root that one start-up created or found is
  the one that the next start-up finds, and finding it changes nothing. A new root is an admin.\<close>

theorem bootstrap_idempotent:
  assumes "bootstrapRoot E No_Tx w = (Ok u, w')" and "committed v = committed w'"
    and "bootstrapRoot E' No_Tx v = (Ok u', v')"
  shows "u' = u \<and> committed v' = committed v \<and>
    (committed w' = committed w \<or> user_role u = role_Admin \<and> committed w' \<noteq> committed w \<and>
       (\<forall>x \<in> set (users (committed w)). pgu_invited_by x \<noteq> None))"
  using bootstrapRoot_again [OF assms(1,3,2)] BootstrapRoot_cases [OF assms(1)]
  by (auto simp: find_None_iff)

theorem bootstrap_idempotent_witness:
  "\<exists>u w' v'. bootstrapRoot sample_env No_Tx (world_of empty_db) = (Ok u, w') \<and>
     bootstrapRoot sample_env No_Tx w' = (Ok u, v') \<and> committed v' = committed w'"
proof -
  obtain u w' where one: "bootstrapRoot sample_env No_Tx (world_of empty_db) = (Ok u, w')"
    and us: "users (committed w') =
      [\<lparr>pgu_id = 102, pgu_role = ''admin'', pgu_invited_by = None, pgu_created_at = 1001\<rparr>]"
    using sample_bootstrap_run by fastforce
  obtain u' v' where two: "bootstrapRoot sample_env No_Tx w' = (Ok u', v')"
    using us by (auto simp: bootstrapRoot_def BootstrapRoot_Execute_def UserRepository_FindRoot_def
        bind_def catch_def or_not_found_def query_row_def run_stmt_def FindRootUser_def ret_def
        lift_sum_def rowToUser_def RoleFromString_def role_defs Let_def)
  from bootstrap_idempotent [OF one refl two] one two show ?thesis by auto
qed

end
